(* ===== verification/Go_Prelude.thy ===== *)
theory Go_Prelude
  imports Main "HOL-Library.Char_ord" "HOL-Library.List_Lexorder" "HOL-Library.AList"
    "HOL-Library.Multiset"
begin

text \<open>
  Shared vocabulary of the development: the parts of Go's \<open>strings\<close>, \<open>slices\<close> and
  \<open>sort\<close> packages the server uses, Go maps as association lists and partial functions,
  and Go's \<open>(value, error)\<close> results as sums. A Go string is a sequence of bytes, and a
  HOL \<^typ>\<open>char\<close> is a byte, so a Go string is a \<^typ>\<open>string\<close>; Go compares strings
  byte-wise, which is the lexicographic order of \<open>HOL-Library.List_Lexorder\<close>.
\<close>

section \<open>Results\<close>

text \<open>
  A Go call returning \<open>(T, error)\<close> is a sum: \<open>Inl\<close> carries the error. A call returning
  only \<open>error\<close> is an option: \<open>None\<close> is \<open>nil\<close>.
\<close>

type_synonym ('e, 'a) result = "'e + 'a"

named_theorems go_simps \<open>equations for the modelled parts of the Go standard library\<close>

fun bindE :: "('e, 'a) result \<Rightarrow> ('a \<Rightarrow> ('e, 'b) result) \<Rightarrow> ('e, 'b) result" where
  "bindE (Inl e) f = Inl e"
| "bindE (Inr x) f = f x"

fun mapErr :: "('e \<Rightarrow> 'f) \<Rightarrow> ('e, 'a) result \<Rightarrow> ('f, 'a) result" where
  "mapErr f (Inl e) = Inl (f e)"
| "mapErr f (Inr x) = Inr x"

text \<open>\<open>orElseErr a b\<close>: the first error of a sequence of checks, \<open>if err := a; err != nil\<close>.\<close>

fun orElseErr :: "'e option \<Rightarrow> 'e option \<Rightarrow> 'e option" where
  "orElseErr (Some e) _ = Some e"
| "orElseErr None k = k"

lemma bindE_Inr_iff: "bindE r f = Inr y \<longleftrightarrow> (\<exists>x. r = Inr x \<and> f x = Inr y)"
  by (cases r) auto

lemma bindE_Inl_iff: "bindE r f = Inl e \<longleftrightarrow> r = Inl e \<or> (\<exists>x. r = Inr x \<and> f x = Inl e)"
  by (cases r) auto

lemma mapErr_Inr_iff [simp]: "mapErr f r = Inr x \<longleftrightarrow> r = Inr x"
  by (cases r) auto

lemma mapErr_Inl_iff: "mapErr f r = Inl e \<longleftrightarrow> (\<exists>e'. r = Inl e' \<and> e = f e')"
  by (cases r) auto

lemma orElseErr_None_iff [simp]: "orElseErr a b = None \<longleftrightarrow> a = None \<and> b = None"
  by (cases a) auto

section \<open>Strings\<close>

definition HasPrefix :: "string \<Rightarrow> string \<Rightarrow> bool" where
  "HasPrefix s p \<longleftrightarrow> length p \<le> length s \<and> take (length p) s = p"

definition HasSuffix :: "string \<Rightarrow> string \<Rightarrow> bool" where
  "HasSuffix s p \<longleftrightarrow> length p \<le> length s \<and> drop (length s - length p) s = p"

definition TrimPrefix :: "string \<Rightarrow> string \<Rightarrow> string" where
  "TrimPrefix s p = (if HasPrefix s p then drop (length p) s else s)"

definition TrimSuffix :: "string \<Rightarrow> string \<Rightarrow> string" where
  "TrimSuffix s p = (if HasSuffix s p then take (length s - length p) s else s)"

text \<open>\<open>strings.Split\<close> with a one-byte separator.\<close>

fun Split :: "char \<Rightarrow> string \<Rightarrow> string list" where
  "Split c [] = [[]]"
| "Split c (x # xs) =
     (if x = c then [] # Split c xs
      else (case Split c xs of [] \<Rightarrow> [[x]] | w # ws \<Rightarrow> (x # w) # ws))"

fun Join :: "string \<Rightarrow> string list \<Rightarrow> string" where
  "Join sep [] = []"
| "Join sep [x] = x"
| "Join sep (x # y # zs) = x @ sep @ Join sep (y # zs)"

text \<open>\<open>strings.Trim\<close> with a one-byte cutset.\<close>

definition Trim :: "char \<Rightarrow> string \<Rightarrow> string" where
  "Trim c s = rev (dropWhile (\<lambda>x. x = c) (rev (dropWhile (\<lambda>x. x = c) s)))"

fun Contains :: "string \<Rightarrow> string \<Rightarrow> bool" where
  "Contains [] p = (p = [])"
| "Contains (x # xs) p = (HasPrefix (x # xs) p \<or> Contains xs p)"

text \<open>\<open>strings.Index\<close>, with \<open>None\<close> for Go's \<open>-1\<close>.\<close>

fun Index :: "string \<Rightarrow> string \<Rightarrow> nat option" where
  "Index [] p = (if p = [] then Some 0 else None)"
| "Index (x # xs) p =
     (if HasPrefix (x # xs) p then Some 0 else map_option Suc (Index xs p))"

lemma HasPrefix_iff: "HasPrefix s p \<longleftrightarrow> (\<exists>t. s = p @ t)"
  unfolding HasPrefix_def by (metis append_eq_conv_conj append_take_drop_id le_add1 length_append)

lemma HasSuffix_iff: "HasSuffix s p \<longleftrightarrow> (\<exists>t. s = t @ p)"
proof
  assume "HasSuffix s p"
  then have "s = take (length s - length p) s @ p"
    unfolding HasSuffix_def by (metis append_take_drop_id)
  then show "\<exists>t. s = t @ p" by blast
next
  assume "\<exists>t. s = t @ p"
  then show "HasSuffix s p" by (auto simp: HasSuffix_def)
qed

lemma HasPrefix_append [simp]: "HasPrefix (p @ s) p"
  by (simp add: HasPrefix_def)

lemma HasPrefix_Nil [simp]: "HasPrefix s []"
  by (simp add: HasPrefix_def)

lemma HasPrefix_Nil_left [simp]: "HasPrefix [] p \<longleftrightarrow> p = []"
  by (auto simp: HasPrefix_def)

lemma HasPrefix_Cons [simp]: "HasPrefix (x # s) (y # p) \<longleftrightarrow> x = y \<and> HasPrefix s p"
  by (auto simp: HasPrefix_def)

lemma TrimPrefix_append [simp]: "TrimPrefix (p @ s) p = s"
  by (simp add: TrimPrefix_def)

lemma TrimSuffix_append [simp]: "TrimSuffix (s @ p) p = s"
  by (simp add: TrimSuffix_def HasSuffix_def)

lemma TrimSuffix_cases: "TrimSuffix s p = s \<and> \<not> HasSuffix s p \<or> s = TrimSuffix s p @ p"
proof (cases "HasSuffix s p")
  case True
  then obtain t where "s = t @ p" by (auto simp: HasSuffix_iff)
  then show ?thesis by simp
next
  case False
  then show ?thesis by (simp add: TrimSuffix_def)
qed

lemma Contains_iff: "Contains s p \<longleftrightarrow> (\<exists>a b. s = a @ p @ b)"
proof (induction s)
  case Nil
  then show ?case by auto
next
  case (Cons x xs)
  note IH = Cons.IH
  show ?case
  proof
    assume "Contains (x # xs) p"
    then consider "HasPrefix (x # xs) p" | "Contains xs p" by auto
    then show "\<exists>a b. x # xs = a @ p @ b"
    proof cases
      case 1
      then show ?thesis by (metis HasPrefix_iff append_Nil)
    next
      case 2
      then obtain a b where "xs = a @ p @ b" using Cons.IH by blast
      then have "x # xs = (x # a) @ p @ b" by simp
      then show ?thesis by blast
    qed
  next
    assume "\<exists>a b. x # xs = a @ p @ b"
    then obtain a b where ab: "x # xs = a @ p @ b" by blast
    show "Contains (x # xs) p"
    proof (cases a)
      case Nil
      then have "HasPrefix (x # xs) p" using ab by (auto simp: HasPrefix_iff)
      then show ?thesis by simp
    next
      case (Cons y ys)
      with ab have "xs = ys @ p @ b" by simp
      then have "Contains xs p" using IH by blast
      then show ?thesis by simp
    qed
  qed
qed

subsection \<open>Splitting and joining\<close>

lemma Split_not_Nil [simp]: "Split c s \<noteq> []"
  by (induction s) (auto split: list.splits)

lemma Split_no_sep: "c \<notin> set s \<Longrightarrow> Split c s = [s]"
  by (induction s) auto

lemma Split_append: "Split c (a @ c # b) = Split c a @ Split c b"
  by (induction a) (auto split: list.split)

lemma Split_append_sep: "c \<notin> set a \<Longrightarrow> Split c (a @ c # b) = a # Split c b"
  by (induction a) auto

lemma Split_elems: "w \<in> set (Split c s) \<Longrightarrow> c \<notin> set w"
  by (induction s arbitrary: w) (auto split: list.splits if_splits)

lemma Split_Join:
  assumes "ws \<noteq> []" and "\<And>w. w \<in> set ws \<Longrightarrow> c \<notin> set w"
  shows "Split c (Join [c] ws) = ws"
  using assms
proof (induction "[c]" ws rule: Join.induct)
  case (2 x)
  then show ?case by (simp add: Split_no_sep)
next
  case (3 x y zs)
  then have "Split c (x @ c # Join [c] (y # zs)) = x # Split c (Join [c] (y # zs))"
    by (intro Split_append_sep) simp
  with 3 show ?case by simp
qed simp

lemma Join_Split: "Join [c] (Split c s) = s"
proof (induction s)
  case (Cons x xs)
  obtain w ws where w: "Split c xs = w # ws" by (cases "Split c xs") auto
  show ?case using Cons w by (cases ws) auto
qed simp

lemma Join_Cons: "ws \<noteq> [] \<Longrightarrow> Join sep (w # ws) = w @ sep @ Join sep ws"
  by (cases ws) auto

subsection \<open>Trimming\<close>

lemma dropWhile_hd_False: "xs = [] \<or> \<not> P (hd xs) \<Longrightarrow> dropWhile P xs = xs"
  by (cases xs) auto

lemma Trim_id:
  assumes "s = [] \<or> hd s \<noteq> c \<and> last s \<noteq> c"
  shows "Trim c s = s"
proof (cases "s = []")
  case False
  with assms have "dropWhile (\<lambda>x. x = c) s = s" "dropWhile (\<lambda>x. x = c) (rev s) = rev s"
    by (auto intro!: dropWhile_hd_False simp: hd_rev)
  then show ?thesis by (simp add: Trim_def)
qed (simp add: Trim_def)

lemma Trim_leading: "Trim c (c # s) = Trim c s"
  by (simp add: Trim_def)

text \<open>
  The UTF-8 encodings of the runes for which \<open>unicode.IsSpace\<close> holds: tab, line feed,
  vertical tab, form feed, carriage return, space, U+0085, U+00A0, U+1680, U+2000 to
  U+200A, U+2028, U+2029, U+202F, U+205F and U+3000. A UTF-8 encoding starts with a byte
  no other encoding contains later on, so a rune is first (last) in a string exactly when
  its encoding is a prefix (suffix).
\<close>

definition space_runes :: "string list" where
  "space_runes =
     [[CHR 0x20], [CHR 0x0A], [CHR 0x09], [CHR 0x0D], [CHR 0x0B], [CHR 0x0C],
      [CHR 0xC2, CHR 0x85], [CHR 0xC2, CHR 0xA0], [CHR 0xE1, CHR 0x9A, CHR 0x80]]
     @ map (\<lambda>b. [CHR 0xE2, CHR 0x80, b])
         [CHR 0x80, CHR 0x81, CHR 0x82, CHR 0x83, CHR 0x84, CHR 0x85, CHR 0x86, CHR 0x87,
          CHR 0x88, CHR 0x89, CHR 0x8A, CHR 0xA8, CHR 0xA9, CHR 0xAF]
     @ [[CHR 0xE2, CHR 0x81, CHR 0x9F], [CHR 0xE3, CHR 0x80, CHR 0x80]]"

lemma space_runes_not_Nil: "[] \<notin> set space_runes"
  by (simp add: space_runes_def)

function TrimSpaceLeft :: "string \<Rightarrow> string" where
  "TrimSpaceLeft s = (case find (HasPrefix s) space_runes of
     None \<Rightarrow> s | Some e \<Rightarrow> TrimSpaceLeft (drop (length e) s))"
  by pat_completeness auto

lemma find_space_rune:
  assumes "find P space_runes = Some e"
  shows "P e" and "e \<noteq> []"
  using assms space_runes_not_Nil by (auto simp: find_Some_iff in_set_conv_nth)

lemma space_rune_shorter:
  "find (HasPrefix s) space_runes = Some e \<Longrightarrow> length s - length e < length s"
  "find (HasSuffix s) space_runes = Some e \<Longrightarrow> length s - length e < length s"
proof -
  assume "find (HasPrefix s) space_runes = Some e"
  from find_space_rune[OF this] show "length s - length e < length s"
    by (cases s; cases e) (auto simp: HasPrefix_def)
next
  assume "find (HasSuffix s) space_runes = Some e"
  from find_space_rune[OF this] show "length s - length e < length s"
    by (cases s; cases e) (auto simp: HasSuffix_def)
qed

termination TrimSpaceLeft
  by (relation "measure length") (auto dest: space_rune_shorter)

function TrimSpaceRight :: "string \<Rightarrow> string" where
  "TrimSpaceRight s = (case find (HasSuffix s) space_runes of
     None \<Rightarrow> s | Some e \<Rightarrow> TrimSpaceRight (take (length s - length e) s))"
  by pat_completeness auto
termination
  by (relation "measure length") (auto dest: space_rune_shorter)

text \<open>\<open>strings.TrimSpace\<close>.\<close>

definition TrimSpace :: "string \<Rightarrow> string" where
  "TrimSpace s = TrimSpaceRight (TrimSpaceLeft s)"

declare TrimSpaceLeft.simps [simp del] TrimSpaceRight.simps [simp del]

lemma TrimSpaceLeft_fix: "find (HasPrefix (TrimSpaceLeft s)) space_runes = None"
  by (induction s rule: TrimSpaceLeft.induct)
    (subst (1) TrimSpaceLeft.simps, simp split: option.splits)

lemma TrimSpaceRight_fix: "find (HasSuffix (TrimSpaceRight s)) space_runes = None"
  by (induction s rule: TrimSpaceRight.induct)
    (subst (1) TrimSpaceRight.simps, simp split: option.splits)

lemma TrimSpaceRight_prefix: "\<exists>t. s = TrimSpaceRight s @ t"
proof (induction s rule: TrimSpaceRight.induct)
  case (1 s)
  show ?case
  proof (cases "find (HasSuffix s) space_runes")
    case None
    then show ?thesis by (simp add: TrimSpaceRight.simps[of s])
  next
    case (Some e)
    with 1 obtain t where
      t: "take (length s - length e) s = TrimSpaceRight (take (length s - length e) s) @ t" by blast
    then have "s = TrimSpaceRight (take (length s - length e) s) @ t @ drop (length s - length e) s"
      by (metis append.assoc append_take_drop_id)
    with Some show ?thesis by (simp add: TrimSpaceRight.simps[of s]) blast
  qed
qed

lemma HasPrefix_mono: "HasPrefix s e \<Longrightarrow> HasPrefix (s @ t) e"
  by (auto simp: HasPrefix_iff)

text \<open>Trimmed text is trimmed: the right pass cannot expose a space on the left.\<close>

lemma TrimSpace_idem [simp]: "TrimSpace (TrimSpace s) = TrimSpace s"
proof -
  let ?l = "TrimSpaceLeft s"
  obtain t where t: "?l = TrimSpaceRight ?l @ t" using TrimSpaceRight_prefix by blast
  have "find (HasPrefix (TrimSpaceRight ?l)) space_runes = None"
    using TrimSpaceLeft_fix[of s] t
    by (metis (no_types, lifting) HasPrefix_mono find_None_iff2)
  then have "TrimSpaceLeft (TrimSpaceRight ?l) = TrimSpaceRight ?l"
    by (subst TrimSpaceLeft.simps) simp
  moreover have "TrimSpaceRight (TrimSpaceRight ?l) = TrimSpaceRight ?l"
    using TrimSpaceRight_fix[of ?l] by (subst TrimSpaceRight.simps) simp
  ultimately show ?thesis by (simp add: TrimSpace_def)
qed

subsection \<open>Replacing\<close>

text \<open>\<open>strings.ReplaceAll\<close> with a non-empty pattern: left to right, not overlapping.\<close>

function ReplaceAll :: "string \<Rightarrow> string \<Rightarrow> string \<Rightarrow> string" where
  "ReplaceAll s pat new =
     (if pat = [] \<or> s = [] then s
      else if HasPrefix s pat then new @ ReplaceAll (drop (length pat) s) pat new
      else hd s # ReplaceAll (tl s) pat new)"
  by pat_completeness auto
termination
  by (relation "measure (\<lambda>(s, pat, new). length s)") auto

declare ReplaceAll.simps [simp del]

lemma ReplaceAll_absent: "\<not> Contains s pat \<Longrightarrow> ReplaceAll s pat new = s"
proof (induction s)
  case Nil
  then show ?case by (subst ReplaceAll.simps) simp
next
  case (Cons x xs)
  then show ?case by (subst ReplaceAll.simps) auto
qed

subsection \<open>Quoting and case\<close>

definition hex_digit :: "nat \<Rightarrow> char" where
  "hex_digit n = ''0123456789abcdef'' ! (n mod 16)"

text \<open>
  One byte of \<open>strconv.Quote\<close>. Bytes from 0x80 on are copied, which is what Go does for the
  UTF-8 encoding of a printable rune; control characters have their escapes.
\<close>

definition quote_char :: "char \<Rightarrow> string" where
  "quote_char c =
     (if c = CHR 0x22 then [CHR 0x5C, CHR 0x22]
      else if c = CHR 0x5C then [CHR 0x5C, CHR 0x5C]
      else if c = CHR 0x07 then [CHR 0x5C, CHR ''a'']
      else if c = CHR 0x08 then [CHR 0x5C, CHR ''b'']
      else if c = CHR 0x09 then [CHR 0x5C, CHR ''t'']
      else if c = CHR 0x0A then [CHR 0x5C, CHR ''n'']
      else if c = CHR 0x0B then [CHR 0x5C, CHR ''v'']
      else if c = CHR 0x0C then [CHR 0x5C, CHR ''f'']
      else if c = CHR 0x0D then [CHR 0x5C, CHR ''r'']
      else if of_char c < (32::nat) \<or> of_char c = (127::nat) then
        [CHR 0x5C, CHR ''x'', hex_digit (of_char c div 16), hex_digit (of_char c)]
      else [c])"

definition Quote :: "string \<Rightarrow> string" where
  "Quote s = CHR 0x22 # concat (map quote_char s) @ [CHR 0x22]"

text \<open>\<open>strings.ToLower\<close> and \<open>ToUpper\<close> on ASCII letters.\<close>

definition lower_char :: "char \<Rightarrow> char" where
  "lower_char c = (let n = of_char c :: nat in
     if 65 \<le> n \<and> n \<le> 90 then char_of (n + 32) else c)"

definition ToLower :: "string \<Rightarrow> string" where
  "ToLower s = map lower_char s"

text \<open>\<open>strings.EqualFold\<close> on ASCII text.\<close>

definition EqualFold :: "string \<Rightarrow> string \<Rightarrow> bool" where
  "EqualFold s t \<longleftrightarrow> ToLower s = ToLower t"

section \<open>Maps and sorted keys\<close>

text \<open>
  A Go map that is only looked up is a partial function. One that is iterated, printed or
  copied is an association list with distinct keys: the list order is the iteration order,
  which Go leaves unspecified, and results that do not depend on it are proved so.
\<close>

lemma sort_keys_unique:
  fixes xs ys :: "'a::linorder list"
  assumes "distinct xs" "distinct ys" "set xs = set ys"
  shows "sort xs = sort ys"
  using assms by (simp add: sorted_distinct_set_unique)

lemma map_of_distinct_set:
  assumes "distinct (map fst xs)" "distinct (map fst ys)" "set xs = set ys"
  shows "map_of xs = map_of ys"
  using assms by (simp add: map_of_inject_set)

lemma map_of_eq_dom: "map_of xs = map_of ys \<Longrightarrow> set (map fst xs) = set (map fst ys)"
  by (metis dom_map_of_conv_image_fst image_set)

end
