(* ===== verification/Api_Types.thy ===== *)
theory Api_Types
  imports Go_Prelude
begin

text \<open>
  Types of \<open>src/pkg/api\<close> shared by the access-control path: group, version, resource and
  kind identifiers, the validation request and error (\<open>validation.go\<close>), and the
  elicitation types (\<open>toolsets.go\<close>). Errors that cross components are values of one
  datatype, so that a caller that inspects an error with \<open>errors.Is\<close> or a type assertion
  is a case distinction.
\<close>

section \<open>Identifiers\<close>

record GroupVersionResource =
  gvr_Group :: string
  gvr_Version :: string
  gvr_Resource :: string

record GroupVersionKind =
  gvk_Group :: string
  gvk_Version :: string
  gvk_Kind :: string

section \<open>Validation requests and errors\<close>

datatype ValidationErrorCode =
  ErrorCodeResourceNotFound | ErrorCodeInvalidField | ErrorCodePermissionDenied

fun code_text :: "ValidationErrorCode \<Rightarrow> string" where
  "code_text ErrorCodeResourceNotFound = ''RESOURCE_NOT_FOUND''"
| "code_text ErrorCodeInvalidField = ''INVALID_FIELD''"
| "code_text ErrorCodePermissionDenied = ''PERMISSION_DENIED''"

record ValidationError =
  ve_Code :: ValidationErrorCode
  ve_Message :: string
  ve_Field :: string

definition ValidationError_Error :: "ValidationError \<Rightarrow> string" where
  "ValidationError_Error e =
     ''Validation Error ['' @ code_text (ve_Code e) @ '']: '' @ ve_Message e
     @ (if ve_Field e \<noteq> [] then CHR 0x0A # ''  Field: '' @ ve_Field e else [])"

record HTTPValidationRequest =
  vr_GVR :: "GroupVersionResource option"
  vr_GVK :: "GroupVersionKind option"
  vr_HTTPMethod :: string
  vr_Verb :: string
  vr_Namespace :: string
  vr_ResourceName :: string
  vr_Body :: string
  vr_Path :: string

definition NewPermissionDeniedError :: "string \<Rightarrow> string \<Rightarrow> string \<Rightarrow> ValidationError" where
  "NewPermissionDeniedError verb resource ns =
     \<lparr>ve_Code = ErrorCodePermissionDenied,
      ve_Message =
        (if ns \<noteq> [] then ''Cannot '' @ verb @ '' '' @ resource @ '' in namespace '' @ Quote ns
         else ''Cannot '' @ verb @ '' '' @ resource @ '' (cluster-scoped)''),
      ve_Field = []\<rparr>"

definition FormatResourceName :: "GroupVersionResource option \<Rightarrow> string" where
  "FormatResourceName gvr = (case gvr of
     None \<Rightarrow> ''unknown''
   | Some g \<Rightarrow> if gvr_Group g = [] then gvr_Resource g
              else gvr_Resource g @ ''.'' @ gvr_Group g)"

text \<open>
  The errors of the access-control path. \<open>PlainError\<close> is an error with no identity beyond
  its text, such as what the SDK or the API client returns.
\<close>

datatype go_error =
    PlainError string
  | ErrElicitationNotSupported string
  | ErrConfirmationDenied
  | EValidation ValidationError
  | EResourceNotAllowed GroupVersionKind
  | ERestMapperNotInitialized
  | EKindFor GroupVersionResource string
  | EReadBody string

definition GVK_String :: "GroupVersionKind \<Rightarrow> string" where
  "GVK_String g = gvk_Group g @ ''/'' @ gvk_Version g @ '', Kind='' @ gvk_Kind g"

definition GVR_String :: "GroupVersionResource \<Rightarrow> string" where
  "GVR_String g = gvr_Group g @ ''/'' @ gvr_Version g @ '', Resource='' @ gvr_Resource g"

text \<open>The \<open>Error()\<close> text of each error.\<close>

fun error_text :: "go_error \<Rightarrow> string" where
  "error_text (PlainError m) = m"
| "error_text (ErrElicitationNotSupported m) = ''client does not support elicitation: '' @ m"
| "error_text ErrConfirmationDenied = ''action requires confirmation''"
| "error_text (EValidation e) = ValidationError_Error e"
| "error_text (EResourceNotAllowed g) = ''resource not allowed: '' @ GVK_String g"
| "error_text ERestMapperNotInitialized =
     ''failed to make request: AccessControlRoundTripper restMapper not initialized''"
| "error_text (EKindFor g m) =
     ''failed to make request: AccessControlRoundTripper failed to get kind for gvr '' @ GVR_String g @ '': '' @ m"
| "error_text (EReadBody m) = ''failed to read request body: '' @ m"

section \<open>Elicitation\<close>

record json_schema =
  js_Type :: string
  js_Properties :: "string list"

record ElicitParams =
  ep_Message :: string
  ep_RequestedSchema :: "json_schema option"
  ep_URL :: string
  ep_ElicitationID :: string

record ElicitResult =
  er_Action :: string
  er_Content :: "(string \<times> string) list"

definition ElicitActionAccept :: string where
  "ElicitActionAccept = ''accept''"

text \<open>
  An elicitation reaches the MCP client and changes the world outside the server, a state
  of type \<open>'w\<close> that is threaded through. The SDK's session reports failures as plain error
  texts.
\<close>

type_synonym 'w session_elicit = "ElicitParams \<Rightarrow> 'w \<Rightarrow> (string, ElicitResult) result \<times> 'w"
type_synonym 'w elicitor = "ElicitParams \<Rightarrow> 'w \<Rightarrow> (go_error, ElicitResult) result \<times> 'w"

text \<open>
  What the request context holds under \<open>MCPSessionContextKey\<close>: nothing, a value without
  an \<open>Elicit\<close> method, some other value that has one, or the SDK's server session. The
  session middleware stores only the session the SDK attached to the request.
\<close>

datatype 'w ctx_session =
    NoSession
  | NotElicitor
  | OtherElicitor "'w session_elicit"
  | ServerSession "'w session_elicit"

text \<open>
  The values the middlewares put into the request context: the session, the authorization
  header to use towards the cluster, and the user agent.
\<close>

record 'w call_ctx =
  cx_Session :: "'w ctx_session"
  cx_Authorization :: "string option"
  cx_UserAgent :: "string option"

lemma FormatResourceName_core: "gvr_Group g = [] \<Longrightarrow> FormatResourceName (Some g) = gvr_Resource g"
  by (simp add: FormatResourceName_def)

lemma permission_denied_code [simp]:
  "ve_Code (NewPermissionDeniedError verb resource ns) = ErrorCodePermissionDenied"
  by (simp add: NewPermissionDeniedError_def)

end
