(* ===== verification/Confirmation.thy ===== *)
theory Confirmation
  imports Api_Types
begin

text \<open>
  Confirmation rules: \<open>src/pkg/api/confirmation.go\<close>, \<open>src/pkg/confirmation\<close>, the two
  elicitors (\<open>src/pkg/mcp/elicit.go\<close> for tool calls and
  \<open>src/pkg/kubernetes/confirmation_validator.go\<close> for API requests) and the validator that
  checks kube-level rules.
\<close>

section \<open>Rules\<close>

record ConfirmationRule =
  cr_Tool :: string
  cr_Destructive :: "bool option"
  cr_Verb :: string
  cr_Kind :: string
  cr_Group :: string
  cr_Version :: string
  cr_Name :: string
  cr_Namespace :: string
  cr_Message :: string

definition IsToolLevel :: "ConfirmationRule \<Rightarrow> bool" where
  "IsToolLevel r \<longleftrightarrow> cr_Tool r \<noteq> [] \<or> cr_Destructive r \<noteq> None"

definition IsKubeLevel :: "ConfirmationRule \<Rightarrow> bool" where
  "IsKubeLevel r \<longleftrightarrow> cr_Verb r \<noteq> [] \<or> cr_Kind r \<noteq> [] \<or> cr_Group r \<noteq> [] \<or> cr_Version r \<noteq> []
     \<or> cr_Name r \<noteq> [] \<or> cr_Namespace r \<noteq> []"

datatype rule_error = MixesLevels string | NoLevel string

definition ConfirmationRule_Validate :: "ConfirmationRule \<Rightarrow> rule_error option" where
  "ConfirmationRule_Validate r =
     (if IsToolLevel r \<and> IsKubeLevel r then Some (MixesLevels (cr_Message r))
      else if \<not> IsToolLevel r \<and> \<not> IsKubeLevel r then Some (NoLevel (cr_Message r))
      else None)"

record ConfirmationRulesProvider =
  GetConfirmationRules :: "ConfirmationRule list"
  GetConfirmationFallback :: string

section \<open>Matching\<close>

text \<open>The loops append each rule none of whose \<open>continue\<close> guards fires.\<close>

fun MatchToolLevelRules ::
  "ConfirmationRule list \<Rightarrow> string \<Rightarrow> bool option \<Rightarrow> ConfirmationRule list" where
  "MatchToolLevelRules [] toolName hint = []"
| "MatchToolLevelRules (r # rs) toolName hint =
     (if \<not> IsToolLevel r then MatchToolLevelRules rs toolName hint
      else if cr_Tool r \<noteq> [] \<and> cr_Tool r \<noteq> toolName then MatchToolLevelRules rs toolName hint
      else if cr_Destructive r \<noteq> None \<and> (hint = None \<or> the (cr_Destructive r) \<noteq> the hint)
        then MatchToolLevelRules rs toolName hint
      else r # MatchToolLevelRules rs toolName hint)"

fun MatchKubeLevelRules ::
  "ConfirmationRule list \<Rightarrow> string \<Rightarrow> string \<Rightarrow> string \<Rightarrow> string \<Rightarrow> string \<Rightarrow> string
   \<Rightarrow> ConfirmationRule list" where
  "MatchKubeLevelRules [] verb kind grp ver nam ns = []"
| "MatchKubeLevelRules (r # rs) verb kind grp ver nam ns =
     (let rest = MatchKubeLevelRules rs verb kind grp ver nam ns in
      if \<not> IsKubeLevel r then rest
      else if cr_Verb r \<noteq> [] \<and> cr_Verb r \<noteq> verb then rest
      else if cr_Kind r \<noteq> [] \<and> cr_Kind r \<noteq> kind then rest
      else if cr_Group r \<noteq> [] \<and> cr_Group r \<noteq> grp then rest
      else if cr_Version r \<noteq> [] \<and> cr_Version r \<noteq> ver then rest
      else if cr_Name r \<noteq> [] \<and> cr_Name r \<noteq> nam then rest
      else if cr_Namespace r \<noteq> [] \<and> cr_Namespace r \<noteq> ns then rest
      else r # rest)"

definition MergeMatchedRules :: "ConfirmationRule list \<Rightarrow> string \<Rightarrow> string \<times> string" where
  "MergeMatchedRules matched globalFallback =
     (case matched of
        [] \<Rightarrow> ([], globalFallback)
      | [r] \<Rightarrow> (cr_Message r, globalFallback)
      | _ \<Rightarrow> (''Confirmation required:''
              @ concat (map (\<lambda>r. CHR 0x0A # ''- '' @ cr_Message r) matched), globalFallback))"

section \<open>Asking the user\<close>

definition isElicitationNotSupportedError :: "string \<Rightarrow> bool" where
  "isElicitationNotSupportedError msg \<longleftrightarrow>
     Contains msg ''does not support'' \<and> Contains msg ''elicitation''"

text \<open>\<open>contextElicitor.Elicit\<close> of the Kubernetes package.\<close>

definition contextElicitor_Elicit :: "'w ctx_session \<Rightarrow> 'w elicitor" where
  "contextElicitor_Elicit ctx params w =
     (case ctx of
        ServerSession elicit \<Rightarrow>
          (case elicit \<lparr>ep_Message = ep_Message params, ep_RequestedSchema = ep_RequestedSchema params,
                        ep_URL = ep_URL params, ep_ElicitationID = ep_ElicitationID params\<rparr> w of
             (Inl err, w') \<Rightarrow>
               (if isElicitationNotSupportedError err then (Inl (ErrElicitationNotSupported err), w')
                else (Inl (PlainError err), w'))
           | (Inr res, w') \<Rightarrow> (Inr \<lparr>er_Action = er_Action res, er_Content = er_Content res\<rparr>, w'))
      | _ \<Rightarrow> (Inl (PlainError ''no MCP session found in context''), w))"

text \<open>\<open>sessionElicitor.Elicit\<close> of the MCP package.\<close>

definition sessionElicitor_Elicit :: "'w ctx_session \<Rightarrow> 'w elicitor" where
  "sessionElicitor_Elicit ctx params w =
     (case ctx of
        ServerSession elicit \<Rightarrow>
          (case elicit \<lparr>ep_Message = ep_Message params, ep_RequestedSchema = ep_RequestedSchema params,
                        ep_URL = ep_URL params, ep_ElicitationID = ep_ElicitationID params\<rparr> w of
             (Inl err, w') \<Rightarrow>
               (if Contains err ''does not support'' \<and> Contains err ''elicitation''
                then (Inl (ErrElicitationNotSupported err), w')
                else (Inl (PlainError err), w'))
           | (Inr res, w') \<Rightarrow> (Inr \<lparr>er_Action = er_Action res, er_Content = er_Content res\<rparr>, w'))
      | _ \<Rightarrow> (Inl (PlainError ''no MCP session found in context''), w))"

definition isElicitationNotSupported :: "go_error \<Rightarrow> bool" where
  "isElicitationNotSupported err \<longleftrightarrow> (case err of ErrElicitationNotSupported _ \<Rightarrow> True | _ \<Rightarrow> False)"

definition confirmation_params :: "string \<Rightarrow> ElicitParams" where
  "confirmation_params message =
     \<lparr>ep_Message = message, ep_RequestedSchema = Some \<lparr>js_Type = ''object'', js_Properties = []\<rparr>,
      ep_URL = [], ep_ElicitationID = []\<rparr>"

definition CheckConfirmation ::
  "'w elicitor \<Rightarrow> string \<Rightarrow> string \<Rightarrow> 'w \<Rightarrow> go_error option \<times> 'w" where
  "CheckConfirmation elicit message fallback w =
     (case elicit (confirmation_params message) w of
        (Inl err, w') \<Rightarrow>
          (if isElicitationNotSupported err then
             (if fallback = ''deny'' then (Some ErrConfirmationDenied, w') else (None, w'))
           else (Some err, w'))
      | (Inr result, w') \<Rightarrow>
          (if er_Action result = ElicitActionAccept then (None, w')
           else (Some ErrConfirmationDenied, w')))"

definition CheckToolRules ::
  "ConfirmationRulesProvider \<Rightarrow> 'w elicitor \<Rightarrow> string \<Rightarrow> bool option \<Rightarrow> 'w \<Rightarrow> go_error option \<times> 'w" where
  "CheckToolRules provider elicit toolName hint w =
     (let matched = MatchToolLevelRules (GetConfirmationRules provider) toolName hint in
      if matched = [] then (None, w)
      else (case MergeMatchedRules matched (GetConfirmationFallback provider) of
              (message, fallback) \<Rightarrow> CheckConfirmation elicit message fallback w))"

definition CheckKubeRules ::
  "ConfirmationRulesProvider \<Rightarrow> 'w elicitor \<Rightarrow> string \<Rightarrow> string \<Rightarrow> string \<Rightarrow> string \<Rightarrow> string \<Rightarrow> string
   \<Rightarrow> 'w \<Rightarrow> go_error option \<times> 'w" where
  "CheckKubeRules provider elicit verb kind grp ver nam ns w =
     (let matched = MatchKubeLevelRules (GetConfirmationRules provider) verb kind grp ver nam ns in
      if matched = [] then (None, w)
      else (case MergeMatchedRules matched (GetConfirmationFallback provider) of
              (message, fallback) \<Rightarrow> CheckConfirmation elicit message fallback w))"

text \<open>\<open>ConfirmationValidator.Validate\<close>.\<close>

definition ConfirmationValidator_Validate ::
  "ConfirmationRulesProvider \<Rightarrow> 'w ctx_session \<Rightarrow> HTTPValidationRequest \<Rightarrow> 'w \<Rightarrow> go_error option \<times> 'w" where
  "ConfirmationValidator_Validate provider ctx req w =
     (let kind = (case vr_GVK req of None \<Rightarrow> [] | Some g \<Rightarrow> gvk_Kind g);
          grp = (case vr_GVK req of None \<Rightarrow> [] | Some g \<Rightarrow> gvk_Group g);
          ver = (case vr_GVK req of None \<Rightarrow> [] | Some g \<Rightarrow> gvk_Version g)
      in case CheckKubeRules provider (contextElicitor_Elicit ctx) (vr_Verb req) kind grp ver
                (vr_ResourceName req) (vr_Namespace req) w of
           (err, w') \<Rightarrow>
             (if err = Some ErrConfirmationDenied then
                (Some (EValidation \<lparr>ve_Code = ErrorCodePermissionDenied,
                         ve_Message = ''action requires confirmation'', ve_Field = []\<rparr>), w')
              else (err, w')))"

section \<open>What a rule applies to\<close>

text \<open>The documented meaning: every non-empty field of the rule equals the request's.\<close>

definition field_ok :: "string \<Rightarrow> string \<Rightarrow> bool" where
  "field_ok f v \<longleftrightarrow> f = [] \<or> f = v"

type_synonym kube_query = "string \<times> string \<times> string \<times> string \<times> string \<times> string"

fun kube_applies :: "kube_query \<Rightarrow> ConfirmationRule \<Rightarrow> bool" where
  "kube_applies (verb, kind, grp, ver, nam, ns) r \<longleftrightarrow>
     IsKubeLevel r \<and> field_ok (cr_Verb r) verb \<and> field_ok (cr_Kind r) kind
     \<and> field_ok (cr_Group r) grp \<and> field_ok (cr_Version r) ver
     \<and> field_ok (cr_Name r) nam \<and> field_ok (cr_Namespace r) ns"

fun tool_applies :: "string \<times> bool option \<Rightarrow> ConfirmationRule \<Rightarrow> bool" where
  "tool_applies (tool, hint) r \<longleftrightarrow>
     IsToolLevel r \<and> field_ok (cr_Tool r) tool \<and> (cr_Destructive r = None \<or> cr_Destructive r = hint)"

lemma MatchKubeLevelRules_filter:
  "MatchKubeLevelRules rs verb kind grp ver nam ns
     = filter (kube_applies (verb, kind, grp, ver, nam, ns)) rs"
  by (induction rs) (simp_all add: field_ok_def Let_def)

lemma MatchToolLevelRules_filter:
  "MatchToolLevelRules rs tool hint = filter (tool_applies (tool, hint)) rs"
proof (induction rs)
  case (Cons r rs)
  then show ?case by (cases hint; cases "cr_Destructive r") (simp_all add: field_ok_def)
qed simp

lemma validated_rule_one_level:
  "ConfirmationRule_Validate r = None \<longleftrightarrow> (IsToolLevel r \<noteq> IsKubeLevel r)"
  by (auto simp: ConfirmationRule_Validate_def)

lemma MergeMatchedRules_fallback [simp]: "snd (MergeMatchedRules m f) = f"
  by (simp add: MergeMatchedRules_def split: list.splits)

lemma Contains_append: "Contains s p \<Longrightarrow> Contains (a @ s @ b) p"
  by (auto simp: Contains_iff) (metis append.assoc)

lemma Contains_concat: "\<lbrakk>s \<in> set ss; Contains s p\<rbrakk> \<Longrightarrow> Contains (concat ss) p"
proof (induction ss)
  case (Cons t ts)
  then show ?case
    using Contains_append[of s p "[]" "concat ts"] Contains_append[of "concat ts" p t "[]"] by auto
qed simp

lemma Contains_refl: "Contains s s"
  by (metis Contains_iff append_Nil append_Nil2)

lemma MergeMatchedRules_mentions:
  assumes "r \<in> set matched"
  shows "Contains (fst (MergeMatchedRules matched f)) (cr_Message r)"
proof -
  let ?line = "\<lambda>r. CHR 0x0A # ''- '' @ cr_Message r"
  have "Contains (?line r) (cr_Message r)"
    using Contains_append[OF Contains_refl[of "cr_Message r"], of "CHR 0x0A # ''- ''" "[]"] by simp
  then have "Contains (concat (map ?line matched)) (cr_Message r)"
    using assms by (intro Contains_concat[of "?line r"]) auto
  then have "Contains (''Confirmation required:'' @ concat (map ?line matched) @ []) (cr_Message r)"
    by (rule Contains_append)
  with assms show ?thesis
    unfolding MergeMatchedRules_def
    by (cases matched; cases "tl matched") (auto simp: Contains_refl simp del: Contains.simps)
qed

section \<open>The contract of a rule level\<close>

text \<open>
  Tool-level and kube-level checks differ in what they match and share everything else:
  rules that do not apply never prompt, and the request proceeds exactly when no rule
  applies, the user accepted, or the client cannot be asked and the fallback is not
  \<open>deny\<close>.
\<close>

definition answer_proceeds :: "string \<Rightarrow> (go_error, ElicitResult) result \<Rightarrow> bool" where
  "answer_proceeds fallback a \<longleftrightarrow> (case a of
     Inr res \<Rightarrow> er_Action res = ElicitActionAccept
   | Inl e \<Rightarrow> isElicitationNotSupported e \<and> fallback \<noteq> ''deny'')"

lemma CheckConfirmation_iff:
  "fst (CheckConfirmation el m f w) = None \<longleftrightarrow> answer_proceeds f (fst (el (confirmation_params m) w))"
  by (auto simp: CheckConfirmation_def answer_proceeds_def split: prod.splits sum.splits)

lemma CheckConfirmation_world:
  "snd (CheckConfirmation el m f w) = snd (el (confirmation_params m) w)"
  by (auto simp: CheckConfirmation_def split: prod.splits sum.splits)

locale rule_level =
  fixes applies :: "'q \<Rightarrow> ConfirmationRule \<Rightarrow> bool"
    and check :: "ConfirmationRulesProvider \<Rightarrow> 'w elicitor \<Rightarrow> 'q \<Rightarrow> 'w \<Rightarrow> go_error option \<times> 'w"
  assumes check_eq:
    "check p el q w =
       (let matched = filter (applies q) (GetConfirmationRules p);
            merged = MergeMatchedRules matched (GetConfirmationFallback p)
        in if matched = [] then (None, w) else CheckConfirmation el (fst merged) (snd merged) w)"
begin

definition prompt :: "ConfirmationRulesProvider \<Rightarrow> 'q \<Rightarrow> string" where
  "prompt p q = fst (MergeMatchedRules (filter (applies q) (GetConfirmationRules p))
                       (GetConfirmationFallback p))"

lemma unmatched:
  "\<forall>r \<in> set (GetConfirmationRules p). \<not> applies q r \<Longrightarrow> check p el q w = (None, w)"
  by (simp add: check_eq)

lemma proceeds_iff:
  "fst (check p el q w) = None \<longleftrightarrow>
     (\<forall>r \<in> set (GetConfirmationRules p). \<not> applies q r)
     \<or> answer_proceeds (GetConfirmationFallback p) (fst (el (confirmation_params (prompt p q)) w))"
  by (auto simp: check_eq CheckConfirmation_iff filter_empty_conv prompt_def Let_def)

lemma asks_once:
  "\<lbrakk>r \<in> set (GetConfirmationRules p); applies q r\<rbrakk> \<Longrightarrow>
     snd (check p el q w) = snd (el (confirmation_params (prompt p q)) w)"
  by (auto simp: check_eq CheckConfirmation_world filter_empty_conv prompt_def Let_def)

lemma prompt_mentions:
  "\<lbrakk>r \<in> set (GetConfirmationRules p); applies q r\<rbrakk> \<Longrightarrow> Contains (prompt p q) (cr_Message r)"
  by (simp add: prompt_def MergeMatchedRules_mentions)

end

fun kube_check ::
  "ConfirmationRulesProvider \<Rightarrow> 'w elicitor \<Rightarrow> kube_query \<Rightarrow> 'w \<Rightarrow> go_error option \<times> 'w" where
  "kube_check p el (verb, kind, grp, ver, nam, ns) w = CheckKubeRules p el verb kind grp ver nam ns w"

interpretation kube: rule_level kube_applies
    "kube_check :: ConfirmationRulesProvider \<Rightarrow> 'w elicitor \<Rightarrow> kube_query \<Rightarrow> 'w \<Rightarrow> go_error option \<times> 'w"
proof
  fix p and el :: "'w elicitor" and q w
  show "kube_check p el q w =
      (let matched = filter (kube_applies q) (GetConfirmationRules p);
           merged = MergeMatchedRules matched (GetConfirmationFallback p)
       in if matched = [] then (None, w) else CheckConfirmation el (fst merged) (snd merged) w)"
    by (cases q) (simp add: CheckKubeRules_def MatchKubeLevelRules_filter Let_def case_prod_beta)
qed

fun tool_check ::
  "ConfirmationRulesProvider \<Rightarrow> 'w elicitor \<Rightarrow> string \<times> bool option \<Rightarrow> 'w \<Rightarrow> go_error option \<times> 'w" where
  "tool_check p el (tool, hint) w = CheckToolRules p el tool hint w"

interpretation tool: rule_level tool_applies
    "tool_check :: ConfirmationRulesProvider \<Rightarrow> 'w elicitor \<Rightarrow> string \<times> bool option \<Rightarrow> 'w \<Rightarrow> go_error option \<times> 'w"
proof
  fix p and el :: "'w elicitor" and q w
  show "tool_check p el q w =
      (let matched = filter (tool_applies q) (GetConfirmationRules p);
           merged = MergeMatchedRules matched (GetConfirmationFallback p)
       in if matched = [] then (None, w) else CheckConfirmation el (fst merged) (snd merged) w)"
    by (cases q) (simp add: CheckToolRules_def MatchToolLevelRules_filter Let_def case_prod_beta)
qed

lemma elicitors_agree: "sessionElicitor_Elicit = contextElicitor_Elicit"
  unfolding fun_eq_iff sessionElicitor_Elicit_def contextElicitor_Elicit_def
    isElicitationNotSupportedError_def by blast

lemma confirmation_params_eta:
  "\<lparr>ep_Message = ep_Message (confirmation_params m),
    ep_RequestedSchema = ep_RequestedSchema (confirmation_params m),
    ep_URL = ep_URL (confirmation_params m),
    ep_ElicitationID = ep_ElicitationID (confirmation_params m)\<rparr> = confirmation_params m"
  by (simp add: confirmation_params_def)

text \<open>How the raw answer of the session decides, seen through the elicitor.\<close>

definition session_proceeds :: "string \<Rightarrow> (string, ElicitResult) result \<Rightarrow> bool" where
  "session_proceeds fallback a \<longleftrightarrow> (case a of
     Inr res \<Rightarrow> er_Action res = ''accept''
   | Inl err \<Rightarrow> isElicitationNotSupportedError err \<and> fallback \<noteq> ''deny'')"

lemma contextElicitor_proceeds:
  "answer_proceeds f (fst (contextElicitor_Elicit ctx (confirmation_params m) w)) \<longleftrightarrow>
     (\<exists>el. ctx = ServerSession el \<and> session_proceeds f (fst (el (confirmation_params m) w)))"
  by (cases ctx)
    (auto simp: contextElicitor_Elicit_def confirmation_params_eta answer_proceeds_def
      session_proceeds_def isElicitationNotSupported_def ElicitActionAccept_def
      split: prod.splits sum.splits)

lemma contextElicitor_world:
  "snd (contextElicitor_Elicit (ServerSession el) (confirmation_params m) w)
     = snd (el (confirmation_params m) w)"
  by (auto simp: contextElicitor_Elicit_def confirmation_params_eta split: prod.splits sum.splits)

definition kube_query_of :: "HTTPValidationRequest \<Rightarrow> kube_query" where
  "kube_query_of req =
     (vr_Verb req, (case vr_GVK req of None \<Rightarrow> [] | Some g \<Rightarrow> gvk_Kind g),
      (case vr_GVK req of None \<Rightarrow> [] | Some g \<Rightarrow> gvk_Group g),
      (case vr_GVK req of None \<Rightarrow> [] | Some g \<Rightarrow> gvk_Version g),
      vr_ResourceName req, vr_Namespace req)"

lemma ConfirmationValidator_check:
  "fst (ConfirmationValidator_Validate p ctx req w) = None \<longleftrightarrow>
     fst (kube_check p (contextElicitor_Elicit ctx) (kube_query_of req) w) = None"
  "snd (ConfirmationValidator_Validate p ctx req w) =
     snd (kube_check p (contextElicitor_Elicit ctx) (kube_query_of req) w)"
  by (auto simp: ConfirmationValidator_Validate_def kube_query_of_def Let_def split: prod.splits)

lemma ConfirmationValidator_denied:
  "fst (ConfirmationValidator_Validate p ctx req w) \<noteq> Some ErrConfirmationDenied"
  by (auto simp: ConfirmationValidator_Validate_def Let_def split: prod.splits)

lemma ConfirmationValidator_unmatched:
  assumes "\<forall>r \<in> set (GetConfirmationRules p). \<not> kube_applies (kube_query_of req) r"
  shows "ConfirmationValidator_Validate p ctx req w = (None, w)"
  using kube.unmatched[OF assms, of "contextElicitor_Elicit ctx" w]
    ConfirmationValidator_check[of p ctx req w] by (auto simp: prod_eq_iff)

text \<open>
  C18: an API request to which a kube-level confirmation rule applies passes the confirmation
  validator only if the MCP session was asked with a prompt that contains the rule's message
  and either the user accepted, or the client reported that it cannot be asked and the
  configured fallback is not \<open>deny\<close>. A request without an MCP session never passes.
\<close>

theorem confirmation_requires_consent:
  assumes rule: "r \<in> set (GetConfirmationRules p)" "kube_applies (kube_query_of req) r"
    and passes: "ConfirmationValidator_Validate p ctx req w = (None, w')"
  shows "\<exists>el msg. ctx = ServerSession el \<and> Contains msg (cr_Message r)
           \<and> w' = snd (el (confirmation_params msg) w)
           \<and> (case fst (el (confirmation_params msg) w) of
                Inr res \<Rightarrow> er_Action res = ''accept''
              | Inl err \<Rightarrow> isElicitationNotSupportedError err \<and> GetConfirmationFallback p \<noteq> ''deny'')"
proof -
  let ?ask = "contextElicitor_Elicit ctx" and ?msg = "kube.prompt p (kube_query_of req)"
  have pass: "fst (kube_check p ?ask (kube_query_of req) w) = None"
    and w': "w' = snd (kube_check p ?ask (kube_query_of req) w)"
    using passes ConfirmationValidator_check[of p ctx req w] by auto
  from pass rule have "answer_proceeds (GetConfirmationFallback p) (fst (?ask (confirmation_params ?msg) w))"
    unfolding kube.proceeds_iff by blast
  then obtain el where el: "ctx = ServerSession el"
    "session_proceeds (GetConfirmationFallback p) (fst (el (confirmation_params ?msg) w))"
    unfolding contextElicitor_proceeds by blast
  moreover have "w' = snd (el (confirmation_params ?msg) w)"
    using kube.asks_once[OF rule, of ?ask w] w' by (simp add: el(1) contextElicitor_world)
  ultimately show ?thesis
    using kube.prompt_mentions[OF rule] unfolding session_proceeds_def by blast
qed

definition delete_rule :: ConfirmationRule where
  "delete_rule = \<lparr>cr_Tool = [], cr_Destructive = None, cr_Verb = ''delete'', cr_Kind = ''Pod'',
     cr_Group = [], cr_Version = [], cr_Name = [], cr_Namespace = [], cr_Message = ''sure?''\<rparr>"

definition delete_pod :: HTTPValidationRequest where
  "delete_pod = \<lparr>vr_GVR = None, vr_GVK = Some \<lparr>gvk_Group = [], gvk_Version = ''v1'', gvk_Kind = ''Pod''\<rparr>,
     vr_HTTPMethod = ''DELETE'', vr_Verb = ''delete'', vr_Namespace = ''ns'', vr_ResourceName = ''p'',
     vr_Body = [], vr_Path = []\<rparr>"

text \<open>A user who accepts, counting the questions asked.\<close>

definition accepting :: "nat session_elicit" where
  "accepting params n = (Inr \<lparr>er_Action = ''accept'', er_Content = []\<rparr>, Suc n)"

lemma delete_pod_accepted:
  "ConfirmationValidator_Validate \<lparr>GetConfirmationRules = [delete_rule], GetConfirmationFallback = ''deny''\<rparr>
     (ServerSession accepting) delete_pod 0 = (None, 1)"
  by (simp add: ConfirmationValidator_Validate_def CheckKubeRules_def delete_rule_def delete_pod_def
      IsKubeLevel_def MergeMatchedRules_def CheckConfirmation_def contextElicitor_Elicit_def
      accepting_def ElicitActionAccept_def)

theorem confirmation_requires_consent_witness:
  "\<exists>el msg. ServerSession accepting = ServerSession el \<and> Contains msg ''sure?''
     \<and> 1 = snd (el (confirmation_params msg) 0)"
  using confirmation_requires_consent[of delete_rule
      "\<lparr>GetConfirmationRules = [delete_rule], GetConfirmationFallback = ''deny''\<rparr>" delete_pod
      "ServerSession accepting" 0 1, OF _ _ delete_pod_accepted]
  by (auto simp: delete_rule_def delete_pod_def kube_query_of_def IsKubeLevel_def field_ok_def
      simp del: Contains.simps)

end
