(* ===== verification/Registry.thy ===== *)
theory Registry
  imports Go_Prelude
begin

text \<open>
  The registries that \<open>init\<close> functions fill at start-up: toolsets
  (\<open>src/pkg/toolsets/toolsets.go\<close>), provider factories
  (\<open>src/pkg/kubernetes/provider_registry.go\<close>), HTTP validator factories
  (\<open>src/pkg/kubernetes/validator_registry.go\<close>), token exchangers
  (\<open>src/pkg/tokenexchange/registry.go\<close>) and extended configuration parsers
  (\<open>src/pkg/config/extended.go\<close>). All five are Go maps guarded against double
  registration by a panic, and their enumerations are sorted by name. The shared contract
  is the locale \<open>named_registry\<close>; each registry interprets it. A panic is the left value of
  the sum, carrying the panic's message.
\<close>

type_synonym 'v go_map = "(string \<times> 'v) list"

section \<open>The contract\<close>

locale named_registry =
  fixes inv :: "'r \<Rightarrow> bool"
    and lookup :: "'r \<Rightarrow> string \<Rightarrow> 'v option"
    and register :: "'r \<Rightarrow> 'i \<Rightarrow> (string, 'r) result"
    and key :: "'i \<Rightarrow> string"
    and val :: "'i \<Rightarrow> 'v"
    and names :: "'r \<Rightarrow> string list"
  assumes register_fresh:
      "\<lbrakk>inv r; lookup r (key i) = None\<rbrakk> \<Longrightarrow>
         \<exists>r'. register r i = Inr r' \<and> inv r' \<and> lookup r' = (lookup r)(key i \<mapsto> val i)"
    and register_taken: "\<lbrakk>inv r; lookup r (key i) \<noteq> None\<rbrakk> \<Longrightarrow> \<exists>m. register r i = Inl m"
    and names_set: "inv r \<Longrightarrow> set (names r) = dom (lookup r)"
    and names_sorted: "inv r \<Longrightarrow> sorted (names r) \<and> distinct (names r)"
begin

text \<open>Running the \<open>init\<close> functions one after the other, in the order the runtime picks.\<close>

fun register_all :: "'r \<Rightarrow> 'i list \<Rightarrow> (string, 'r) result" where
  "register_all r [] = Inr r"
| "register_all r (i # is) = bindE (register r i) (\<lambda>r'. register_all r' is)"

lemma register_cases:
  assumes "inv r"
  obtains (taken) m where "lookup r (key i) \<noteq> None" "register r i = Inl m"
  | (fresh) r' where "lookup r (key i) = None" "register r i = Inr r'" "inv r'"
      "lookup r' = (lookup r)(key i \<mapsto> val i)"
  using register_fresh[OF assms, of i] register_taken[OF assms, of i] by blast

lemma register_all_ok:
  assumes "inv r"
  shows "(\<exists>r'. register_all r is = Inr r')
         \<longleftrightarrow> distinct (map key is) \<and> (\<forall>i \<in> set is. lookup r (key i) = None)"
  using assms
proof (induction "is" arbitrary: r)
  case (Cons i "is")
  from Cons.prems show ?case
  proof (cases rule: register_cases[of r i])
    case (taken m)
    then show ?thesis by simp
  next
    case (fresh r')
    then have "(\<exists>r2. register_all r (i # is) = Inr r2) \<longleftrightarrow> distinct (map key is)
        \<and> (\<forall>j \<in> set is. (if key j = key i then Some (val i) else lookup r (key j)) = None)"
      using Cons.IH[of r'] by simp
    with fresh show ?thesis by (auto simp: image_iff split: if_splits)
  qed
qed simp

lemma register_all_lookup:
  assumes "inv r" "register_all r is = Inr r'"
  shows "inv r' \<and> lookup r' = lookup r ++ map_of (map (\<lambda>i. (key i, val i)) is)"
  using assms
proof (induction "is" arbitrary: r)
  case (Cons i "is")
  from \<open>inv r\<close> show ?case
  proof (cases rule: register_cases[of r i])
    case (taken m)
    with Cons.prems show ?thesis by simp
  next
    case (fresh r2)
    with Cons.prems have ok: "register_all r2 is = Inr r'" by simp
    with register_all_ok[OF fresh(3), of "is"] have "\<forall>j \<in> set is. lookup r2 (key j) = None" by auto
    with fresh have "key i \<notin> key ` set is" by fastforce
    then have "map_of (map (\<lambda>i. (key i, val i)) is) (key i) = None"
      by (auto simp: map_of_eq_None_iff)
    with Cons.IH[OF fresh(3) ok] fresh(4) show ?thesis
      by (auto simp: map_add_def fun_eq_iff split: option.splits)
  qed
qed (simp add: map_add_def)

text \<open>The enumeration is determined by the registered set, not by the order of registration.\<close>

lemma names_determined:
  "\<lbrakk>inv r; inv r'; dom (lookup r) = dom (lookup r')\<rbrakk> \<Longrightarrow> names r = names r'"
  by (metis names_set names_sorted sorted_distinct_set_unique)

lemma register_all_names:
  assumes "inv r" "lookup r = Map.empty" "register_all r is = Inr r'"
  shows "names r' = sort (map key is)"
proof -
  from register_all_lookup[OF assms(1,3)] assms(2) have
    r': "inv r'" "dom (lookup r') = key ` set is" by (auto simp: dom_map_of_conv_image_fst image_image)
  moreover have "distinct (map key is)"
    using register_all_ok[OF assms(1), of "is"] assms(3) by blast
  ultimately show ?thesis
    using names_set[OF r'(1)] names_sorted[OF r'(1)]
    by (simp add: sorted_distinct_set_unique)
qed

end

section \<open>The map all five registries keep\<close>

definition go_map_inv :: "'v go_map \<Rightarrow> bool" where
  "go_map_inv r \<longleftrightarrow> distinct (map fst r)"

text \<open>\<open>if _, exists := m[name]; exists { panic(...) }; m[name] = v\<close>.\<close>

definition go_map_register :: "(string \<Rightarrow> string) \<Rightarrow> 'v go_map \<Rightarrow> string \<times> 'v \<Rightarrow> (string, 'v go_map) result" where
  "go_map_register msg r i = (case map_of r (fst i) of
     Some _ \<Rightarrow> Inl (msg (fst i))
   | None \<Rightarrow> Inr (i # r))"

definition go_map_keys_sorted :: "'v go_map \<Rightarrow> string list" where
  "go_map_keys_sorted r = sort (map fst r)"

lemma go_map_register_Inr:
  "go_map_register msg r i = Inr r' \<longleftrightarrow> map_of r (fst i) = None \<and> r' = i # r"
  by (auto simp: go_map_register_def split: option.splits)

lemma go_map_inv_register:
  "\<lbrakk>go_map_inv r; go_map_register msg r i = Inr r'\<rbrakk> \<Longrightarrow> go_map_inv r'"
  by (auto simp: go_map_inv_def go_map_register_Inr map_of_eq_None_iff)

interpretation gm: named_registry go_map_inv map_of
    "go_map_register msg :: 'v go_map \<Rightarrow> string \<times> 'v \<Rightarrow> (string, 'v go_map) result"
    fst snd go_map_keys_sorted
  for msg
proof
  fix r :: "'v go_map" and i :: "string \<times> 'v"
  assume inv: "go_map_inv r" and fresh: "map_of r (fst i) = None"
  then have "go_map_register msg r i = Inr (i # r)" by (simp add: go_map_register_Inr)
  moreover have "go_map_inv (i # r)"
    using inv fresh by (auto simp: go_map_inv_def map_of_eq_None_iff)
  moreover have "map_of (i # r) = (map_of r)(fst i \<mapsto> snd i)" by simp
  ultimately show "\<exists>r'. go_map_register msg r i = Inr r' \<and> go_map_inv r'
      \<and> map_of r' = (map_of r)(fst i \<mapsto> snd i)" by blast
qed (auto simp: go_map_register_def go_map_inv_def go_map_keys_sorted_def dom_map_of_conv_image_fst)

text \<open>A registry that keeps such a map in a field satisfies the contract.\<close>

lemma map_field_registry:
  fixes get :: "'r \<Rightarrow> 'v go_map"
  assumes get_upd: "\<And>m r. get (upd m r) = m"
  shows "named_registry (\<lambda>r. go_map_inv (get r)) (\<lambda>r. map_of (get r))
           (\<lambda>r i. bindE (go_map_register msg (get r) i) (\<lambda>m. Inr (upd m r))) fst snd
           (\<lambda>r. sort (map fst (get r)))"
proof
  fix r and i :: "string \<times> 'v"
  assume "go_map_inv (get r)" "map_of (get r) (fst i) = None"
  from gm.register_fresh[OF this, of msg] show
    "\<exists>r'. bindE (go_map_register msg (get r) i) (\<lambda>m. Inr (upd m r)) = Inr r'
       \<and> go_map_inv (get r') \<and> map_of (get r') = (map_of (get r))(fst i \<mapsto> snd i)"
    by (auto simp: get_upd)
next
  fix r and i :: "string \<times> 'v"
  assume "go_map_inv (get r)" "map_of (get r) (fst i) \<noteq> None"
  from gm.register_taken[OF this, of msg] show
    "\<exists>m. bindE (go_map_register msg (get r) i) (\<lambda>m. Inr (upd m r)) = Inl m"
    by auto
qed (auto simp: go_map_inv_def dom_map_of_conv_image_fst)

section \<open>Toolsets\<close>

text \<open>
  \<open>api.Toolset\<close> is an interface; the registry only calls its \<open>GetName\<close>, an argument here.
\<close>

record 't toolsetRegistry =
  toolsets :: "'t go_map"

definition toolset_register ::
  "('t \<Rightarrow> string) \<Rightarrow> 't toolsetRegistry \<Rightarrow> 't \<Rightarrow> (string, 't toolsetRegistry) result" where
  "toolset_register GetName r t =
     bindE (go_map_register (\<lambda>n. ''toolset already registered for name '' @ CHR 0x27 # n @ [CHR 0x27])
              (toolsets r) (GetName t, t))
       (\<lambda>m. Inr (r\<lparr>toolsets := m\<rparr>))"

definition toolset_get :: "'t toolsetRegistry \<Rightarrow> string \<Rightarrow> 't option" where
  "toolset_get r n = map_of (toolsets r) n"

lemma toolset_get_map_of: "toolset_get r = map_of (toolsets r)"
  by (simp add: toolset_get_def fun_eq_iff)

definition toolset_all :: "('t \<Rightarrow> string) \<Rightarrow> 't toolsetRegistry \<Rightarrow> 't list" where
  "toolset_all GetName r = sort_key GetName (map snd (toolsets r))"

definition toolset_clear :: "'t toolsetRegistry \<Rightarrow> 't toolsetRegistry" where
  "toolset_clear r = r\<lparr>toolsets := []\<rparr>"

definition ToolsetNames :: "('t \<Rightarrow> string) \<Rightarrow> 't toolsetRegistry \<Rightarrow> string list" where
  "ToolsetNames GetName r = sort (map GetName (toolset_all GetName r))"

definition ToolsetFromString :: "'t toolsetRegistry \<Rightarrow> string \<Rightarrow> 't option" where
  "ToolsetFromString r name = toolset_get r (TrimSpace name)"

text \<open>The error carries the rejected name and the list of valid ones.\<close>

datatype toolset_error = InvalidToolsetName string "string list"

fun toolsets_Validate ::
  "('t \<Rightarrow> string) \<Rightarrow> 't toolsetRegistry \<Rightarrow> string list \<Rightarrow> toolset_error option" where
  "toolsets_Validate GetName r [] = None"
| "toolsets_Validate GetName r (n # ns) = (case ToolsetFromString r n of
     None \<Rightarrow> Some (InvalidToolsetName n (ToolsetNames GetName r))
   | Some _ \<Rightarrow> toolsets_Validate GetName r ns)"

definition toolsets_inv :: "('t \<Rightarrow> string) \<Rightarrow> 't toolsetRegistry \<Rightarrow> bool" where
  "toolsets_inv GetName r \<longleftrightarrow>
     go_map_inv (toolsets r) \<and> (\<forall>(n, t) \<in> set (toolsets r). n = GetName t)"

lemma toolsets_inv_names:
  assumes "toolsets_inv GetName r"
  shows "map GetName (map snd (toolsets r)) = map fst (toolsets r)"
  using assms by (auto simp: toolsets_inv_def)

lemma toolset_register_Inr:
  "toolset_register GetName r t = Inr r' \<longleftrightarrow>
     map_of (toolsets r) (GetName t) = None \<and> r' = r\<lparr>toolsets := (GetName t, t) # toolsets r\<rparr>"
  by (auto simp: toolset_register_def bindE_Inr_iff go_map_register_Inr)

interpretation ts: named_registry "toolsets_inv GetName" toolset_get "toolset_register GetName"
    GetName "\<lambda>t. t" "ToolsetNames GetName"
  for GetName :: "'t \<Rightarrow> string"
proof
  fix r :: "'t toolsetRegistry" and t
  assume inv: "toolsets_inv GetName r"
  {
    assume "toolset_get r (GetName t) = None"
    then have fresh: "map_of (toolsets r) (GetName t) = None" by (simp add: toolset_get_def)
    let ?r = "r\<lparr>toolsets := (GetName t, t) # toolsets r\<rparr>"
    have "toolset_register GetName r t = Inr ?r" using fresh by (simp add: toolset_register_Inr)
    moreover have "toolsets_inv GetName ?r" using inv fresh
      by (auto simp: toolsets_inv_def go_map_inv_def map_of_eq_None_iff)
    moreover have "toolset_get ?r = (toolset_get r)(GetName t \<mapsto> t)"
      by (auto simp: toolset_get_def fun_eq_iff)
    ultimately show "\<exists>r'. toolset_register GetName r t = Inr r' \<and> toolsets_inv GetName r'
        \<and> toolset_get r' = (toolset_get r)(GetName t \<mapsto> t)" by blast
  next
    assume "toolset_get r (GetName t) \<noteq> None"
    then show "\<exists>m. toolset_register GetName r t = Inl m"
      by (auto simp: toolset_get_def toolset_register_def go_map_register_def)
  next
    have "set (map GetName (map snd (toolsets r))) = dom (toolset_get r)"
      unfolding toolsets_inv_names[OF inv] by (simp add: toolset_get_map_of dom_map_of_conv_image_fst)
    then show "set (ToolsetNames GetName r) = dom (toolset_get r)"
      by (simp add: ToolsetNames_def toolset_all_def image_image)
  next
    have "mset (map GetName (toolset_all GetName r)) = mset (map fst (toolsets r))"
      using toolsets_inv_names[OF inv] by (metis toolset_all_def mset_map mset_sort)
    then have "distinct (map GetName (toolset_all GetName r))"
      using inv by (metis toolsets_inv_def go_map_inv_def mset_eq_imp_distinct_iff)
    then show "sorted (ToolsetNames GetName r) \<and> distinct (ToolsetNames GetName r)"
      by (simp add: ToolsetNames_def)
  }
qed

lemma toolsets_Validate_None_iff:
  "toolsets_Validate GetName r ns = None \<longleftrightarrow> (\<forall>n \<in> set ns. TrimSpace n \<in> dom (toolset_get r))"
  by (induction ns) (auto simp: ToolsetFromString_def split: option.splits)

text \<open>The reported name is the first invalid one.\<close>

lemma toolsets_Validate_find:
  "toolsets_Validate GetName r ns =
     map_option (\<lambda>n. InvalidToolsetName n (ToolsetNames GetName r))
       (find (\<lambda>n. TrimSpace n \<notin> dom (toolset_get r)) ns)"
  by (induction ns) (auto simp: ToolsetFromString_def domIff)

section \<open>Provider factories\<close>

record 'f providerRegistry =
  factories :: "'f go_map"

datatype provider_registry_error = NoProviderForStrategy string "string list"

definition provider_register ::
  "'f providerRegistry \<Rightarrow> string \<times> 'f \<Rightarrow> (string, 'f providerRegistry) result" where
  "provider_register r i =
     bindE (go_map_register (\<lambda>n. ''provider already registered for strategy '' @ CHR 0x27 # n @ [CHR 0x27])
              (factories r) i)
       (\<lambda>m. Inr (r\<lparr>factories := m\<rparr>))"

definition provider_strategies :: "'f providerRegistry \<Rightarrow> string list" where
  "provider_strategies r = sort (map fst (factories r))"

definition provider_get ::
  "'f providerRegistry \<Rightarrow> string \<Rightarrow> (provider_registry_error, 'f) result" where
  "provider_get r strategy = (case map_of (factories r) strategy of
     None \<Rightarrow> Inl (NoProviderForStrategy strategy (provider_strategies r))
   | Some f \<Rightarrow> Inr f)"

definition provider_clear :: "'f providerRegistry \<Rightarrow> 'f providerRegistry" where
  "provider_clear r = r\<lparr>factories := []\<rparr>"

fun result_option :: "('e, 'a) result \<Rightarrow> 'a option" where
  "result_option (Inl _) = None"
| "result_option (Inr x) = Some x"

lemma provider_get_option: "(\<lambda>n. result_option (provider_get r n)) = map_of (factories r)"
  by (auto simp: provider_get_def fun_eq_iff split: option.splits)

section \<open>Validator factories\<close>

record 'f validatorRegistry =
  vfactories :: "'f go_map"

definition validator_register ::
  "'f validatorRegistry \<Rightarrow> string \<times> 'f \<Rightarrow> (string, 'f validatorRegistry) result" where
  "validator_register r i =
     bindE (go_map_register (\<lambda>n. ''validator already registered for name '' @ CHR 0x27 # n @ [CHR 0x27])
              (vfactories r) i)
       (\<lambda>m. Inr (r\<lparr>vfactories := m\<rparr>))"

definition validator_names :: "'f validatorRegistry \<Rightarrow> string list" where
  "validator_names r = sort (map fst (vfactories r))"

text \<open>A name is always one of the map's keys, so the map access cannot miss.\<close>

definition validator_createAll :: "('p \<Rightarrow> 'v) validatorRegistry \<Rightarrow> 'p \<Rightarrow> 'v list" where
  "validator_createAll r p = map (\<lambda>n. the (map_of (vfactories r) n) p) (validator_names r)"

text \<open>The two factories the package's own \<open>init\<close> registers, in its order.\<close>

definition validator_init ::
  "('p \<Rightarrow> 'v) \<Rightarrow> ('p \<Rightarrow> 'v) \<Rightarrow> (string \<times> ('p \<Rightarrow> 'v)) list" where
  "validator_init NewSchemaValidator NewRBACValidator =
     [(''schema'', NewSchemaValidator), (''rbac'', NewRBACValidator)]"

section \<open>Token exchangers\<close>

record 'x tokenExchangerRegistry =
  exchangers :: "'x go_map"

definition exchanger_register ::
  "'x tokenExchangerRegistry \<Rightarrow> string \<times> 'x \<Rightarrow> (string, 'x tokenExchangerRegistry) result" where
  "exchanger_register r i =
     bindE (go_map_register (\<lambda>n. ''token exchanger already registered for strategy '' @ n)
              (exchangers r) i)
       (\<lambda>m. Inr (r\<lparr>exchangers := m\<rparr>))"

definition exchanger_get :: "'x tokenExchangerRegistry \<Rightarrow> string \<Rightarrow> 'x option" where
  "exchanger_get r strategy = map_of (exchangers r) strategy"

definition exchanger_strategies :: "'x tokenExchangerRegistry \<Rightarrow> string list" where
  "exchanger_strategies r = sort (map fst (exchangers r))"

section \<open>Extended configuration parsers\<close>

record 'q extendedConfigRegistry =
  parsers :: "'q go_map"

definition extended_register ::
  "'q extendedConfigRegistry \<Rightarrow> string \<times> 'q \<Rightarrow> (string, 'q extendedConfigRegistry) result" where
  "extended_register r i =
     bindE (go_map_register (\<lambda>n. ''extended config parser already registered for name: '' @ n)
              (parsers r) i)
       (\<lambda>m. Inr (r\<lparr>parsers := m\<rparr>))"

datatype 'e extended_error = ParseExtended string 'e | ValidateExtended string 'e

text \<open>
  \<open>parse\<close>: the loop over the primitives, threading the result map. Parsers and the
  \<open>Validate\<close> method of what they return belong to the toolset that registered them.
\<close>

fun extended_parse_loop ::
  "('c \<Rightarrow> 'e option) \<Rightarrow> ('t \<Rightarrow> ('e, 'c) result) extendedConfigRegistry \<Rightarrow> 'c go_map
   \<Rightarrow> 't go_map \<Rightarrow> ('e extended_error, 'c go_map) result" where
  "extended_parse_loop validate r acc [] = Inr acc"
| "extended_parse_loop validate r acc ((name, prim) # rest) =
     (case map_of (parsers r) name of
        None \<Rightarrow> extended_parse_loop validate r acc rest
      | Some parser \<Rightarrow>
          (case parser prim of
             Inl e \<Rightarrow> Inl (ParseExtended name e)
           | Inr c \<Rightarrow>
               (case validate c of
                  Some e \<Rightarrow> Inl (ValidateExtended name e)
                | None \<Rightarrow> extended_parse_loop validate r (AList.update name c acc) rest)))"

definition extended_parse ::
  "('c \<Rightarrow> 'e option) \<Rightarrow> ('t \<Rightarrow> ('e, 'c) result) extendedConfigRegistry
   \<Rightarrow> 't go_map \<Rightarrow> ('e extended_error, 'c go_map) result" where
  "extended_parse validate r configs =
     (if configs = [] then Inr [] else extended_parse_loop validate r [] configs)"

section \<open>Interpretations and what they give\<close>

interpretation pr: named_registry "\<lambda>r. go_map_inv (factories r)"
    "\<lambda>r n. result_option (provider_get r n)" provider_register fst snd provider_strategies
  unfolding provider_register_def provider_strategies_def provider_get_option
  by (rule map_field_registry) simp

interpretation vr: named_registry "\<lambda>r. go_map_inv (vfactories r)"
    "\<lambda>r. map_of (vfactories r)" validator_register fst snd validator_names
  unfolding validator_register_def validator_names_def
  by (rule map_field_registry) simp

interpretation xr: named_registry "\<lambda>r. go_map_inv (exchangers r)"
    exchanger_get exchanger_register fst snd exchanger_strategies
  unfolding exchanger_register_def exchanger_strategies_def exchanger_get_def
  by (rule map_field_registry) simp

interpretation er: named_registry "\<lambda>r. go_map_inv (parsers r)"
    "\<lambda>r. map_of (parsers r)" extended_register fst snd "\<lambda>r. sort (map fst (parsers r))"
  unfolding extended_register_def
  by (rule map_field_registry) simp

lemma toolset_all_sorted:
  "sorted (map GetName (toolset_all GetName r)) \<and> set (toolset_all GetName r) = snd ` set (toolsets r)"
  by (simp add: toolset_all_def)

lemma toolset_all_get:
  assumes "toolsets_inv GetName r"
  shows "t \<in> set (toolset_all GetName r) \<longleftrightarrow> toolset_get r (GetName t) = Some t"
proof -
  have d: "distinct (map fst (toolsets r))" and n: "\<forall>(n, t) \<in> set (toolsets r). n = GetName t"
    using assms by (auto simp: toolsets_inv_def go_map_inv_def)
  have "t \<in> snd ` set (toolsets r) \<longleftrightarrow> (GetName t, t) \<in> set (toolsets r)"
    using n by force
  then show ?thesis using d by (simp add: toolset_all_def toolset_get_def)
qed

lemma extended_loop_keys:
  assumes "extended_parse_loop validate r acc configs = Inr out"
  shows "dom (map_of out) = dom (map_of acc) \<union> (dom (map_of configs) \<inter> dom (map_of (parsers r)))"
  using assms
  by (induction validate r acc configs rule: extended_parse_loop.induct)
    (auto simp: update_conv' domIff split: option.splits sum.splits if_splits)

lemma extended_loop_values:
  assumes "extended_parse_loop validate r acc configs = Inr out" and "distinct (map fst configs)"
    and "dom (map_of acc) \<inter> dom (map_of configs) = {}"
  shows "map_of out n = (case map_of configs n of
      None \<Rightarrow> map_of acc n
    | Some prim \<Rightarrow> (case map_of (parsers r) n of
        None \<Rightarrow> None
      | Some parser \<Rightarrow> result_option (parser prim)))"
  using assms
proof (induction validate r acc configs rule: extended_parse_loop.induct)
  case (2 validate r acc name prim rest)
  have dis: "distinct (map fst rest)" and rest: "map_of rest name = None"
    using "2.prems"(2) by (auto simp: map_of_eq_None_iff)
  have acc: "map_of acc name = None" and disj: "dom (map_of acc) \<inter> dom (map_of rest) = {}"
    using "2.prems"(3) by (fastforce split: if_splits)+
  show ?case
  proof (cases "map_of (parsers r) name")
    case None
    with "2.IH"(1) "2.prems" dis disj acc rest show ?thesis by auto
  next
    case (Some parser)
    then obtain c where c: "parser prim = Inr c" "validate c = None"
      and loop: "extended_parse_loop validate r (AList.update name c acc) rest = Inr out"
      using "2.prems"(1) by (auto split: sum.splits option.splits)
    have disj': "dom (map_of (AList.update name c acc)) \<inter> dom (map_of rest) = {}"
      using disj rest by (auto simp: update_conv')
    from "2.IH"(2)[OF Some c loop dis disj'] show ?thesis
      using Some c rest acc by (auto simp: update_conv' split: option.splits)
  qed
qed simp

lemma toolset_register_all_mset:
  assumes "toolsets_inv GetName r" "ts.register_all GetName r xs = Inr r'"
  shows "mset (map snd (toolsets r')) = mset (map snd (toolsets r)) + mset xs"
  using assms
proof (induction xs arbitrary: r)
  case (Cons t xs)
  then obtain r2 where r2: "toolset_register GetName r t = Inr r2" "ts.register_all GetName r2 xs = Inr r'"
    by (auto simp: bindE_Inr_iff)
  have "toolsets_inv GetName r2"
    using ts.register_cases[OF Cons.prems(1), of t] r2(1) by fastforce
  with Cons.IH r2 show ?case by (auto simp: toolset_register_Inr)
qed simp

lemma toolsets_inv_empty: "toolsets_inv GetName \<lparr>toolsets = []\<rparr>"
  by (simp add: toolsets_inv_def go_map_inv_def)

lemma toolset_get_empty: "toolset_get \<lparr>toolsets = []\<rparr> = Map.empty"
  by (simp add: toolset_get_map_of)

lemma map_of_named_find:
  "map_of (map (\<lambda>t. (f t, t)) xs) n = find (\<lambda>t. f t = n) xs"
  by (induction xs) auto

text \<open>
  Registering a sequence of toolsets in the empty registry, as the \<open>init\<close> functions do,
  panics exactly when two of them have the same name. Otherwise \<open>Toolsets()\<close> lists exactly
  the registered toolsets sorted by name, and \<open>ToolsetFromString\<close> finds a toolset by its
  name with surrounding white space ignored.
\<close>

theorem toolset_registration:
  "case ts.register_all GetName \<lparr>toolsets = []\<rparr> ts of
     Inl msg \<Rightarrow> \<not> distinct (map GetName ts)
   | Inr r \<Rightarrow> distinct (map GetName ts)
       \<and> toolset_all GetName r = sort_key GetName ts
       \<and> ToolsetNames GetName r = sort (map GetName ts)
       \<and> (\<forall>n. ToolsetFromString r n = find (\<lambda>t. GetName t = TrimSpace n) ts)"
proof (cases "ts.register_all GetName \<lparr>toolsets = []\<rparr> ts")
  case (Inl m)
  then have "\<not> distinct (map GetName ts)"
    using ts.register_all_ok[OF toolsets_inv_empty[of GetName], of ts]
    by (simp add: toolset_get_empty)
  with Inl show ?thesis by simp
next
  case (Inr r)
  note empty = toolsets_inv_empty[of GetName]
  have dist: "distinct (map GetName ts)"
    using ts.register_all_ok[OF empty, of ts] Inr by blast
  have ms: "mset (map snd (toolsets r)) = mset ts"
    using toolset_register_all_mset[OF empty Inr] by simp
  have "inj_on GetName (set (map snd (toolsets r)))"
    using dist ms by (metis distinct_map mset_eq_setD)
  then have "toolset_all GetName r = sort_key GetName ts"
    unfolding toolset_all_def using ms
    by (intro sort_key_inj_key_eq) auto
  moreover have "ToolsetFromString r n = find (\<lambda>t. GetName t = TrimSpace n) ts" for n
    using ts.register_all_lookup[OF empty Inr]
    by (simp add: ToolsetFromString_def toolset_get_empty map_of_named_find)
  moreover have "ToolsetNames GetName r = sort (map GetName ts)"
    using ts.register_all_names[OF empty toolset_get_empty Inr] .
  ultimately show ?thesis using Inr dist by simp
qed

text \<open>
  For any order in which distinctly named validator factories are registered,
  \<open>CreateValidators\<close> builds one validator per factory in the byte order of their names.
\<close>

theorem validator_createAll_sorted:
  fixes fs :: "(string \<times> ('p \<Rightarrow> 'v)) list"
  assumes "distinct (map fst fs)"
  shows "\<exists>r. vr.register_all \<lparr>vfactories = []\<rparr> fs = Inr r
           \<and> validator_createAll r p = map (\<lambda>(n, f). f p) (sort_key fst fs)"
proof -
  let ?e = "\<lparr>vfactories = []\<rparr> :: ('p \<Rightarrow> 'v) validatorRegistry"
  have inv: "go_map_inv (vfactories ?e)" and emp: "map_of (vfactories ?e) = Map.empty"
    by (simp_all add: go_map_inv_def)
  obtain r where r: "vr.register_all ?e fs = Inr r"
    using vr.register_all_ok[OF inv, of fs] assms emp by auto
  have look: "map_of (vfactories r) = map_of fs"
    using vr.register_all_lookup[OF inv r] emp by simp
  have "the (map_of fs (fst nf)) p = snd nf p" if "nf \<in> set (sort_key fst fs)" for nf
    using that assms by (metis map_of_is_SomeI option.sel prod.collapse set_sort)
  moreover have "validator_names r = map fst (sort_key fst fs)"
    using vr.register_all_names[OF inv emp r] assms
    by (simp add: sorted_distinct_set_unique distinct_map)
  ultimately have "validator_createAll r p = map (\<lambda>(n, f). f p) (sort_key fst fs)"
    by (auto simp: validator_createAll_def look case_prod_unfold)
  with r show ?thesis by blast
qed

theorem validator_createAll_sorted_witness:
  "\<exists>r. vr.register_all \<lparr>vfactories = []\<rparr> (validator_init (\<lambda>p. ''S'' @ p) (\<lambda>p. ''R'' @ p)) = Inr r
     \<and> validator_createAll r ''1'' = [''R1'', ''S1'']"
  using validator_createAll_sorted[of "validator_init (\<lambda>p. ''S'' @ p) (\<lambda>p. ''R'' @ p)" "''1''"]
  by (simp add: validator_init_def)

lemma extended_loop_ok:
  "(\<exists>out. extended_parse_loop validate r acc configs = Inr out) \<longleftrightarrow>
     (\<forall>(n, prim) \<in> set configs. case map_of (parsers r) n of
        None \<Rightarrow> True
      | Some parser \<Rightarrow> (\<exists>c. parser prim = Inr c \<and> validate c = None))"
  by (induction validate r acc configs rule: extended_parse_loop.induct)
    (auto split: option.splits sum.splits)

text \<open>
  Parsing the extension sections of the configuration succeeds exactly when every section
  that has a registered parser parses and validates, and then yields precisely those sections,
  each as its parser returned it; sections without a parser are ignored. In particular neither
  success nor the result depends on the order in which Go iterates over the sections.
\<close>

theorem extended_parse_exact:
  assumes "distinct (map fst configs)"
  shows "case extended_parse validate r configs of
     Inl e \<Rightarrow> (\<exists>(n, prim) \<in> set configs. \<exists>parser. map_of (parsers r) n = Some parser
        \<and> (\<nexists>c. parser prim = Inr c \<and> validate c = None))
   | Inr out \<Rightarrow> (\<forall>(n, prim) \<in> set configs. \<forall>parser. map_of (parsers r) n = Some parser \<longrightarrow>
          (\<exists>c. parser prim = Inr c \<and> validate c = None))
       \<and> (\<forall>n. map_of out n = Option.bind (map_of configs n)
              (\<lambda>prim. Option.bind (map_of (parsers r) n) (\<lambda>parser. result_option (parser prim))))"
proof -
  have loop: "extended_parse validate r configs = extended_parse_loop validate r [] configs"
    by (simp add: extended_parse_def)
  show ?thesis
  proof (cases "extended_parse_loop validate r [] configs")
    case (Inl e)
    then have "\<not> (\<forall>(n, prim) \<in> set configs. case map_of (parsers r) n of
        None \<Rightarrow> True | Some parser \<Rightarrow> (\<exists>c. parser prim = Inr c \<and> validate c = None))"
      using extended_loop_ok[of validate r "[]" configs] by simp
    then show ?thesis using Inl unfolding loop by (fastforce split: option.splits)
  next
    case (Inr out)
    have "\<forall>(n, prim) \<in> set configs. \<forall>parser. map_of (parsers r) n = Some parser \<longrightarrow>
        (\<exists>c. parser prim = Inr c \<and> validate c = None)"
      using extended_loop_ok[of validate r "[]" configs] Inr by (auto split: option.splits)
    moreover have "map_of out n = Option.bind (map_of configs n)
        (\<lambda>prim. Option.bind (map_of (parsers r) n) (\<lambda>parser. result_option (parser prim)))" for n
      using extended_loop_values[OF Inr assms, of n] by (auto split: option.splits)
    ultimately show ?thesis using Inr unfolding loop by simp
  qed
qed

theorem extended_parse_exact_witness:
  "(\<forall>n. map_of [(''a'', 1::nat)] n = Option.bind (map_of [(''b'', ''x''), (''a'', ''y'')] n)
     (\<lambda>prim. Option.bind (map_of [(''a'', \<lambda>p. Inr 1)] n) (\<lambda>parser. result_option (parser prim))))"
  using extended_parse_exact[where configs = "[(''b'', ''x''), (''a'', ''y'')]"
      and validate = "\<lambda>_. None :: string option" and r = "\<lparr>parsers = [(''a'', \<lambda>p. Inr (1::nat))]\<rparr>"]
  by (simp add: extended_parse_def)

end
