(* ===== verification/Validators.thy ===== *)
theory Validators
  imports Confirmation Registry
begin

text \<open>
  The HTTP validators that run before a request reaches the API server:
  \<open>src/pkg/kubernetes/rbac_validator.go\<close> with \<open>auth.go\<close>, \<open>schema_validator.go\<close> and
  \<open>windows_eula_validator.go\<close> (the confirmation validator is in \<open>Confirmation\<close>). The API
  client, the OpenAPI validation of kubectl and the YAML decoder are arguments.
\<close>

text \<open>\<open>api.HTTPValidator\<close>: the request context contributes the MCP session it carries.\<close>

record 'w HTTPValidator =
  v_Name :: string
  v_Validate :: "'w ctx_session \<Rightarrow> HTTPValidationRequest \<Rightarrow> 'w \<Rightarrow> go_error option \<times> 'w"

section \<open>RBAC\<close>

record ResourceAttributes =
  ra_Namespace :: string
  ra_Verb :: string
  ra_Group :: string
  ra_Version :: string
  ra_Resource :: string
  ra_Name :: string

text \<open>The authorization client: creating a \<open>SelfSubjectAccessReview\<close> yields \<open>status.allowed\<close>.\<close>

type_synonym 'w auth_client = "ResourceAttributes \<Rightarrow> 'w \<Rightarrow> (string, bool) result \<times> 'w"

definition CanI ::
  "'w auth_client option \<Rightarrow> GroupVersionResource \<Rightarrow> string \<Rightarrow> string \<Rightarrow> string \<Rightarrow> 'w
   \<Rightarrow> (string, bool) result \<times> 'w" where
  "CanI client gvr ns resourceName verb w =
     (case client of
        None \<Rightarrow> (Inr True, w)
      | Some create \<Rightarrow>
          (case create \<lparr>ra_Namespace = ns, ra_Verb = verb, ra_Group = gvr_Group gvr,
                         ra_Version = gvr_Version gvr, ra_Resource = gvr_Resource gvr,
                         ra_Name = resourceName\<rparr> w of
             (Inl err, w') \<Rightarrow> (Inl err, w')
           | (Inr allowed, w') \<Rightarrow> (Inr allowed, w')))"

definition RBACValidator_Validate ::
  "('w \<Rightarrow> 'w auth_client option) \<Rightarrow> HTTPValidationRequest \<Rightarrow> 'w \<Rightarrow> go_error option \<times> 'w" where
  "RBACValidator_Validate authClientProvider req w =
     (case vr_GVR req of
        None \<Rightarrow> (None, w)
      | Some gvr \<Rightarrow>
          if vr_Verb req = [] then (None, w)
          else (case authClientProvider w of
                  None \<Rightarrow> (None, w)
                | Some client \<Rightarrow>
                    (case CanI (Some client) gvr (vr_Namespace req) (vr_ResourceName req) (vr_Verb req) w of
                       (Inl err, w') \<Rightarrow> (None, w')
                     | (Inr allowed, w') \<Rightarrow>
                         (if \<not> allowed then
                            (Some (EValidation (NewPermissionDeniedError (vr_Verb req)
                               (FormatResourceName (vr_GVR req)) (vr_Namespace req))), w')
                          else (None, w')))))"

definition NewRBACValidator :: "('w \<Rightarrow> 'w auth_client option) \<Rightarrow> 'w HTTPValidator" where
  "NewRBACValidator provider =
     \<lparr>v_Name = ''rbac'', v_Validate = (\<lambda>_ req w. RBACValidator_Validate provider req w)\<rparr>"

section \<open>Schema\<close>

text \<open>Durations are nanoseconds, as in Go's \<open>time\<close> package.\<close>

definition schemaCacheTTL :: int where
  "schemaCacheTTL = 15 * 60 * 1000000000"

record 'k SchemaValidator =
  sv_kubectlValidator :: "'k option"
  sv_validatorCachedAt :: int

text \<open>
  \<open>getValidator\<close>: \<open>openapi\<close> is the type assertion of the discovery client to
  \<open>OpenAPISchemaInterface\<close>, \<open>new\<close> builds the kubectl validation from it, \<open>t\<close> and \<open>t'\<close> are
  the two clock readings.
\<close>

definition getValidator ::
  "'d option \<Rightarrow> ('d \<Rightarrow> 'o option) \<Rightarrow> ('o \<Rightarrow> 'k) \<Rightarrow> int \<Rightarrow> int \<Rightarrow> 'k SchemaValidator
   \<Rightarrow> 'k option \<times> 'k SchemaValidator" where
  "getValidator discoveryClient openapi new t t' v =
     (if sv_kubectlValidator v \<noteq> None \<and> t - sv_validatorCachedAt v \<le> schemaCacheTTL
      then (sv_kubectlValidator v, v)
      else (case discoveryClient of
              None \<Rightarrow> (None, v)
            | Some d \<Rightarrow> (case openapi d of
                None \<Rightarrow> (None, v)
              | Some client \<Rightarrow>
                  (Some (new client),
                   v\<lparr>sv_kubectlValidator := Some (new client), sv_validatorCachedAt := t'\<rparr>))))"

text \<open>
  The errors of kubectl's validation that the conversion looks into; each carries its
  \<open>Error()\<close> text first.
\<close>

datatype kubectl_error =
    KPlain string
  | KUnknownField string string
  | KValidation string kubectl_error
  | KAggregate string "kubectl_error list"

fun kubectl_text :: "kubectl_error \<Rightarrow> string" where
  "kubectl_text (KPlain m) = m"
| "kubectl_text (KUnknownField m _) = m"
| "kubectl_text (KValidation m _) = m"
| "kubectl_text (KAggregate m _) = m"

fun extractUnknownField :: "kubectl_error \<Rightarrow> string" where
  "extractUnknownField (KUnknownField _ f) = f"
| "extractUnknownField (KValidation _ (KUnknownField _ f)) = f"
| "extractUnknownField _ = []"

fun first_field :: "kubectl_error list \<Rightarrow> string" where
  "first_field [] = []"
| "first_field (e # es) = (if extractUnknownField e \<noteq> [] then extractUnknownField e else first_field es)"

definition convertKubectlValidationError :: "kubectl_error \<Rightarrow> ValidationError" where
  "convertKubectlValidationError err =
     \<lparr>ve_Code = ErrorCodeInvalidField, ve_Message = kubectl_text err,
      ve_Field = (case err of KAggregate _ es \<Rightarrow> first_field es | _ \<Rightarrow> extractUnknownField err)\<rparr>"

definition SchemaValidator_Validate ::
  "'d option \<Rightarrow> ('d \<Rightarrow> 'o option) \<Rightarrow> ('o \<Rightarrow> 'k) \<Rightarrow> ('k \<Rightarrow> string \<Rightarrow> kubectl_error option)
   \<Rightarrow> int \<Rightarrow> int \<Rightarrow> HTTPValidationRequest \<Rightarrow> 'k SchemaValidator \<Rightarrow> go_error option \<times> 'k SchemaValidator" where
  "SchemaValidator_Validate discoveryClient openapi new validateBytes t t' req v =
     (if vr_GVK req = None \<or> length (vr_Body req) = 0 then (None, v)
      else if vr_Verb req \<noteq> ''create'' \<and> vr_Verb req \<noteq> ''update'' then (None, v)
      else (case getValidator discoveryClient openapi new t t' v of
              (None, v') \<Rightarrow> (None, v')
            | (Some validator, v') \<Rightarrow>
                (case validateBytes validator (vr_Body req) of
                   None \<Rightarrow> (None, v')
                 | Some err \<Rightarrow>
                     (if Contains (kubectl_text err) ''yaml:'' \<or> Contains (kubectl_text err) ''json:''
                      then (None, v')
                      else (Some (EValidation (convertKubectlValidationError err)), v')))))"

text \<open>
  The validator object's own state is a component of the world, read and written through
  \<open>get\<close> and \<open>put\<close>; the clock and the discovery client are read from the world too.
\<close>

definition NewSchemaValidator ::
  "('w \<Rightarrow> 'k SchemaValidator) \<Rightarrow> ('k SchemaValidator \<Rightarrow> 'w \<Rightarrow> 'w) \<Rightarrow> ('w \<Rightarrow> int) \<Rightarrow> ('w \<Rightarrow> 'd option)
   \<Rightarrow> ('d \<Rightarrow> 'o option) \<Rightarrow> ('o \<Rightarrow> 'k) \<Rightarrow> ('k \<Rightarrow> string \<Rightarrow> kubectl_error option) \<Rightarrow> 'w HTTPValidator" where
  "NewSchemaValidator get put clock discovery openapi new validateBytes =
     \<lparr>v_Name = ''schema'',
      v_Validate = (\<lambda>_ req w.
        case SchemaValidator_Validate (discovery w) openapi new validateBytes (clock w) (clock w) req (get w) of
          (err, v') \<Rightarrow> (err, put v' w))\<rparr>"

section \<open>Windows EULA\<close>

record pipeline_param =
  pp_Name :: string
  pp_StringVal :: string

record PipelineRun =
  pr_PipelineRef :: "pipeline_param list option"
  pr_Params :: "pipeline_param list"

fun getPipelineParam :: "pipeline_param list \<Rightarrow> string \<Rightarrow> string" where
  "getPipelineParam [] n = []"
| "getPipelineParam (p # ps) n = (if pp_Name p = n then pp_StringVal p else getPipelineParam ps n)"

definition isWindowsEFIInstallerPipeline :: "PipelineRun \<Rightarrow> bool" where
  "isWindowsEFIInstallerPipeline pr = (case pr_PipelineRef pr of
     None \<Rightarrow> False
   | Some ps \<Rightarrow> getPipelineParam ps ''name'' = ''windows-efi-installer'')"

definition requiresEULAPrompt :: "PipelineRun \<Rightarrow> bool" where
  "requiresEULAPrompt pr =
     (if \<not> isWindowsEFIInstallerPipeline pr then False
      else getPipelineParam (pr_Params pr) ''acceptEula'' \<noteq> ''true'')"

definition isWindowsPipelineRun :: "HTTPValidationRequest \<Rightarrow> bool" where
  "isWindowsPipelineRun req =
     (if vr_Verb req \<noteq> ''create'' \<and> vr_Verb req \<noteq> ''update'' \<and> vr_Verb req \<noteq> ''patch'' then False
      else (case vr_GVK req of
              None \<Rightarrow> False
            | Some g \<Rightarrow> gvk_Kind g = ''PipelineRun'' \<and> gvk_Group g = ''tekton.dev''))"

definition eula_denied :: "string \<Rightarrow> go_error" where
  "eula_denied m = EValidation \<lparr>ve_Code = ErrorCodePermissionDenied, ve_Message = m, ve_Field = []\<rparr>"

definition getElicitorFromContext :: "'w ctx_session \<Rightarrow> (go_error, 'w session_elicit) result" where
  "getElicitorFromContext ctx = (case ctx of
     NoSession \<Rightarrow> Inl (eula_denied ''Windows EULA acceptance required but no session available for confirmation'')
   | NotElicitor \<Rightarrow> Inl (eula_denied ''Windows EULA acceptance required but session does not support elicitation'')
   | OtherElicitor el \<Rightarrow> Inr el
   | ServerSession el \<Rightarrow> Inr el)"

definition eula_params :: ElicitParams where
  "eula_params = \<lparr>ep_Message = ''Microsoft EULA Notice: This PipelineRun will create a Windows golden image. By proceeding, you agree to the Microsoft Software License Terms for the Windows operating system. Do you accept the Microsoft End User License Agreement (EULA)?'',
     ep_RequestedSchema = None, ep_URL = [], ep_ElicitationID = []\<rparr>"

definition promptForEULA :: "'w ctx_session \<Rightarrow> 'w \<Rightarrow> go_error option \<times> 'w" where
  "promptForEULA ctx w =
     (case getElicitorFromContext ctx of
        Inl err \<Rightarrow> (Some err, w)
      | Inr elicit \<Rightarrow>
          (case elicit eula_params w of
             (Inl err, w') \<Rightarrow>
               (if isElicitationNotSupportedError err
                then (Some (eula_denied (''Windows EULA acceptance required. Set acceptEula parameter to ''
                        @ Quote ''true'' @ '' in the PipelineRun to proceed.'')), w')
                else (Some (PlainError err), w'))
           | (Inr result, w') \<Rightarrow>
               (if er_Action result \<noteq> ElicitActionAccept
                then (Some (eula_denied ''Windows EULA was not accepted. The PipelineRun creation has been cancelled.''), w')
                else (None, w'))))"

definition WindowsEULAValidator_Validate ::
  "(string \<Rightarrow> (string, PipelineRun) result) \<Rightarrow> 'w ctx_session \<Rightarrow> HTTPValidationRequest \<Rightarrow> 'w
   \<Rightarrow> go_error option \<times> 'w" where
  "WindowsEULAValidator_Validate unmarshal ctx req w =
     (if \<not> isWindowsPipelineRun req then (None, w)
      else (case unmarshal (vr_Body req) of
              Inl err \<Rightarrow> (None, w)
            | Inr pr \<Rightarrow> (if \<not> requiresEULAPrompt pr then (None, w) else promptForEULA ctx w)))"

definition WindowsEULAValidator :: "(string \<Rightarrow> (string, PipelineRun) result) \<Rightarrow> 'w HTTPValidator" where
  "WindowsEULAValidator unmarshal =
     \<lparr>v_Name = ''WindowsEULAValidator'', v_Validate = WindowsEULAValidator_Validate unmarshal\<rparr>"

definition ConfirmationValidator :: "ConfirmationRulesProvider \<Rightarrow> 'w HTTPValidator" where
  "ConfirmationValidator provider =
     \<lparr>v_Name = ''ConfirmationValidator'', v_Validate = ConfirmationValidator_Validate provider\<rparr>"

section \<open>What each validator promises\<close>

lemma RBAC_blocks:
  assumes "vr_GVR req = Some gvr" "vr_Verb req \<noteq> []" "authClientProvider w = Some client"
    and "client \<lparr>ra_Namespace = vr_Namespace req, ra_Verb = vr_Verb req, ra_Group = gvr_Group gvr,
           ra_Version = gvr_Version gvr, ra_Resource = gvr_Resource gvr,
           ra_Name = vr_ResourceName req\<rparr> w = (Inr False, w')"
  shows "RBACValidator_Validate authClientProvider req w =
           (Some (EValidation (NewPermissionDeniedError (vr_Verb req) (FormatResourceName (Some gvr))
              (vr_Namespace req))), w')"
  using assms by (simp add: RBACValidator_Validate_def CanI_def)

lemma RBAC_error_code:
  assumes "fst (RBACValidator_Validate p req w) = Some e"
  shows "\<exists>ve. e = EValidation ve \<and> ve_Code ve = ErrorCodePermissionDenied"
  using assms
  by (auto simp: RBACValidator_Validate_def split: option.splits if_splits sum.splits prod.splits)

lemma getValidator_state:
  assumes "getValidator d openapi new t t' v = (Some k, v')"
  shows "sv_kubectlValidator v' = Some k
         \<and> (v' = v \<and> t - sv_validatorCachedAt v \<le> schemaCacheTTL
             \<or> sv_validatorCachedAt v' = t' \<and> (\<exists>c. Option.bind d openapi = Some c \<and> k = new c))"
  using assms by (auto simp: getValidator_def split: if_splits option.splits)

lemma getValidator_None: "getValidator d openapi new t t' v = (None, v') \<Longrightarrow> v' = v"
  by (auto simp: getValidator_def split: if_splits option.splits)

lemma promptForEULA_iff:
  "fst (promptForEULA ctx w) = None \<longleftrightarrow>
     (\<exists>el res. (ctx = ServerSession el \<or> ctx = OtherElicitor el)
        \<and> fst (el eula_params w) = Inr res \<and> er_Action res = ''accept'')"
  by (cases ctx)
    (auto simp: promptForEULA_def getElicitorFromContext_def ElicitActionAccept_def
      split: prod.splits sum.splits if_splits)

lemma EULA_iff:
  "fst (WindowsEULAValidator_Validate unmarshal ctx req w) = None \<longleftrightarrow>
     \<not> isWindowsPipelineRun req \<or> (\<exists>e. unmarshal (vr_Body req) = Inl e)
     \<or> (\<exists>pr. unmarshal (vr_Body req) = Inr pr \<and> \<not> requiresEULAPrompt pr)
     \<or> fst (promptForEULA ctx w) = None"
  by (auto simp: WindowsEULAValidator_Validate_def split: sum.splits)

fun getValidator_run ::
  "('d \<Rightarrow> 'o option) \<Rightarrow> ('o \<Rightarrow> 'k) \<Rightarrow> ('d option \<times> int) list \<Rightarrow> 'k SchemaValidator \<Rightarrow> 'k SchemaValidator" where
  "getValidator_run openapi new [] v = v"
| "getValidator_run openapi new ((d, t) # cs) v =
     getValidator_run openapi new cs (snd (getValidator d openapi new t t v))"

lemma getValidator_run_built:
  assumes "sv_kubectlValidator v = None"
    and "sv_kubectlValidator (getValidator_run openapi new cs v) = Some k"
  shows "\<exists>d c. (Some d, sv_validatorCachedAt (getValidator_run openapi new cs v)) \<in> set cs
           \<and> openapi d = Some c \<and> k = new c"
proof -
  have gen: "sv_kubectlValidator (getValidator_run openapi new cs v) = Some k \<Longrightarrow>
      (sv_kubectlValidator v = Some k
         \<and> sv_validatorCachedAt (getValidator_run openapi new cs v) = sv_validatorCachedAt v)
      \<or> (\<exists>d c. (Some d, sv_validatorCachedAt (getValidator_run openapi new cs v)) \<in> set cs
           \<and> openapi d = Some c \<and> k = new c)" for v
  proof (induction cs arbitrary: v)
    case (Cons a cs)
    obtain d t where a: "a = (d, t)" by force
    let ?v = "snd (getValidator d openapi new t t v)"
    have "?v = v \<or> (\<exists>d' c. d = Some d' \<and> openapi d' = Some c
        \<and> sv_kubectlValidator ?v = Some (new c) \<and> sv_validatorCachedAt ?v = t)"
      by (auto simp: getValidator_def split: option.splits)
    moreover note Cons.IH[of ?v]
    ultimately show ?case using Cons.prems unfolding a by auto
  qed simp
  show ?thesis using gen[OF assms(2)] assms(1) by simp
qed

text \<open>
  The schema validator never uses a cached OpenAPI validation older than fifteen minutes.
  Over any sequence of requests (each with the discovery client and clock reading of its
  moment), a validation that is returned was built, by that request or by an earlier one of
  the sequence, at most \<open>schemaCacheTTL\<close> before; and a younger one is reused without asking
  the discovery client.
\<close>

theorem schema_validator_fresh:
  assumes "sv_kubectlValidator v0 = None"
    and "getValidator d openapi new t t (getValidator_run openapi new cs v0) = (Some k, v')"
  shows "\<exists>d0 t0 c. (Some d0, t0) \<in> set (cs @ [(d, t)]) \<and> openapi d0 = Some c \<and> k = new c
           \<and> t - t0 \<le> schemaCacheTTL
         \<and> (\<forall>d' t2. t2 - sv_validatorCachedAt v' \<le> schemaCacheTTL \<longrightarrow>
               getValidator d' openapi new t2 t2 v' = (Some k, v'))"
proof -
  have reuse: "\<forall>d' t2. t2 - sv_validatorCachedAt v' \<le> schemaCacheTTL \<longrightarrow>
      getValidator d' openapi new t2 t2 v' = (Some k, v')"
    using getValidator_state[OF assms(2)] by (simp add: getValidator_def)
  let ?v = "getValidator_run openapi new cs v0"
  from getValidator_state[OF assms(2)] consider
    (cached) "sv_kubectlValidator ?v = Some k" "t - sv_validatorCachedAt ?v \<le> schemaCacheTTL"
  | (built) c where "Option.bind d openapi = Some c" "k = new c"
    by auto
  then show ?thesis
  proof cases
    case cached
    with getValidator_run_built[OF assms(1) cached(1)] reuse show ?thesis by auto
  next
    case built
    then obtain d0 where "d = Some d0" "openapi d0 = Some c" by (cases d) auto
    moreover have "t - t \<le> schemaCacheTTL" by (simp add: schemaCacheTTL_def)
    ultimately show ?thesis using built(2) reuse by (metis in_set_conv_decomp)
  qed
qed

theorem schema_validator_fresh_witness:
  "\<exists>d0 t0 c. (Some d0, t0) \<in> set ([(Some ''d'', 5)] @ [(None, 10)]) \<and> Some d0 = Some c \<and> ''k'' = ''k''
     \<and> 10 - t0 \<le> schemaCacheTTL"
  using schema_validator_fresh[of "\<lparr>sv_kubectlValidator = None, sv_validatorCachedAt = 0\<rparr>" None Some
      "\<lambda>_. ''k''" 10 "[(Some ''d'', 5)]" "''k''"
      "\<lparr>sv_kubectlValidator = Some ''k'', sv_validatorCachedAt = 5\<rparr>"]
  by (auto simp: getValidator_def schemaCacheTTL_def)

end
