(* ===== verification/Kube_Paths.thy ===== *)
theory Kube_Paths
  imports Api_Types
begin

text \<open>
  The URL parsing of \<open>src/pkg/kubernetes/accesscontrol_round_tripper.go\<close>: which resource,
  namespace, name and subresource a Kubernetes API path addresses, and which verb an HTTP
  method is on it. The documented layout of API paths is \<open>kube_path\<close>; the parsers are
  proved to invert it.
\<close>

section \<open>Parsers\<close>

definition path_parts :: "string \<Rightarrow> string list" where
  "path_parts path = Split (CHR ''/'') (Trim (CHR ''/'') path)"

definition parseURLToGVR :: "string \<Rightarrow> GroupVersionResource option" where
  "parseURLToGVR path =
     (let parts = path_parts path in
      if parts ! 0 = ''api'' then
        (if length parts < 3 then None
         else Some \<lparr>gvr_Group = [], gvr_Version = parts ! 1,
                    gvr_Resource = (if parts ! 2 = ''namespaces'' \<and> length parts > 4
                                    then parts ! 4 else parts ! 2)\<rparr>)
      else if parts ! 0 = ''apis'' then
        (if length parts < 4 then None
         else Some \<lparr>gvr_Group = parts ! 1, gvr_Version = parts ! 2,
                    gvr_Resource = (if parts ! 3 = ''namespaces'' \<and> length parts > 5
                                    then parts ! 5 else parts ! 3)\<rparr>)
      else None)"

definition stripAPIPathPrefix :: "string \<Rightarrow> string \<Rightarrow> string" where
  "stripAPIPathPrefix path prefix =
     (let prefix = TrimSuffix prefix ''/'' in
      if prefix = [] then path
      else if path = prefix then ''/''
      else if HasPrefix path (prefix @ ''/'') then TrimPrefix path prefix
      else path)"

text \<open>\<open>findResourceTypeIndex\<close>, with \<open>None\<close> for -1.\<close>

definition findResourceTypeIndex :: "string list \<Rightarrow> nat option" where
  "findResourceTypeIndex parts =
     (if length parts = 0 then None
      else if parts ! 0 = ''api'' then
        (if length parts < 3 then None
         else if parts ! 2 = ''namespaces'' \<and> length parts > 4 then Some 4
         else Some 2)
      else if parts ! 0 = ''apis'' then
        (if length parts < 4 then None
         else if parts ! 3 = ''namespaces'' \<and> length parts > 5 then Some 5
         else Some 3)
      else None)"

text \<open>The loop over the parts stops at the first \<open>namespaces\<close> that has a successor.\<close>

fun scan_namespace :: "string list \<Rightarrow> string" where
  "scan_namespace [] = []"
| "scan_namespace [p] = []"
| "scan_namespace (p # q # ps) = (if p = ''namespaces'' then q else scan_namespace (q # ps))"

definition parseURLToNamespaceAndName :: "string \<Rightarrow> string \<times> string" where
  "parseURLToNamespaceAndName path =
     (let parts = path_parts path in
      (scan_namespace parts,
       case findResourceTypeIndex parts of
         Some i \<Rightarrow> (if i + 1 < length parts then parts ! (i + 1) else [])
       | None \<Rightarrow> []))"

definition parseSubresource :: "string \<Rightarrow> string" where
  "parseSubresource path =
     (let parts = path_parts path in
      case findResourceTypeIndex parts of
        Some i \<Rightarrow> (if i + 2 < length parts then parts ! (i + 2) else [])
      | None \<Rightarrow> [])"

definition isCollectionPath :: "string \<Rightarrow> bool" where
  "isCollectionPath path =
     (let parts = path_parts path in
      case findResourceTypeIndex parts of
        Some i \<Rightarrow> i = length parts - 1
      | None \<Rightarrow> False)"

definition httpMethodToVerb :: "string \<Rightarrow> string \<Rightarrow> string" where
  "httpMethodToVerb method path =
     (if method = ''GET'' then (if isCollectionPath path then ''list'' else ''get'')
      else if method = ''POST'' then ''create''
      else if method = ''PUT'' then ''update''
      else if method = ''PATCH'' then ''patch''
      else if method = ''DELETE'' then
        (if isCollectionPath path then ''deletecollection'' else ''delete'')
      else ToLower method)"

section \<open>The layout of API paths\<close>

text \<open>
  The Kubernetes API conventions: the group and version root, the namespace of a namespaced
  request, the resource, and optionally a name and a subresource below it.
\<close>

record kube_target =
  kt_Group :: string
  kt_Version :: string
  kt_Namespace :: "string option"
  kt_Resource :: string
  kt_Tail :: "string list"

definition kube_segments :: "kube_target \<Rightarrow> string list" where
  "kube_segments t =
     (if kt_Group t = [] then [''api'', kt_Version t] else [''apis'', kt_Group t, kt_Version t])
     @ (case kt_Namespace t of None \<Rightarrow> [] | Some ns \<Rightarrow> [''namespaces'', ns])
     @ kt_Resource t # kt_Tail t"

definition kube_path :: "kube_target \<Rightarrow> string" where
  "kube_path t = CHR ''/'' # Join ''/'' (kube_segments t)"

text \<open>
  Well-formed targets: non-empty segments without slashes, no group or version called
  \<open>namespaces\<close>, and no subresource of a namespace object (the API has only \<open>status\<close> and
  \<open>finalize\<close> there, whose paths coincide with those of namespaced collections).
\<close>

definition segment_ok :: "string \<Rightarrow> bool" where
  "segment_ok s \<longleftrightarrow> s \<noteq> [] \<and> CHR ''/'' \<notin> set s"

definition target_ok :: "kube_target \<Rightarrow> bool" where
  "target_ok t \<longleftrightarrow>
     (kt_Group t = [] \<or> segment_ok (kt_Group t) \<and> kt_Group t \<noteq> ''namespaces'')
     \<and> segment_ok (kt_Version t) \<and> kt_Version t \<noteq> ''namespaces''
     \<and> (case kt_Namespace t of None \<Rightarrow> True | Some ns \<Rightarrow> segment_ok ns)
     \<and> segment_ok (kt_Resource t) \<and> list_all segment_ok (kt_Tail t)
     \<and> (kt_Namespace t = None \<and> kt_Resource t = ''namespaces'' \<longrightarrow> length (kt_Tail t) \<le> 1)"

lemma kube_segments_ok:
  assumes "target_ok t" "s \<in> set (kube_segments t)"
  shows "segment_ok s"
proof -
  have "segment_ok ''api''" "segment_ok ''apis''" "segment_ok ''namespaces''"
    by (simp_all add: segment_ok_def)
  then have "list_all segment_ok (kube_segments t)"
    using assms(1) by (auto simp: target_ok_def kube_segments_def split: option.splits)
  then show ?thesis using assms(2) by (simp add: list_all_iff)
qed

lemma Join_hd:
  assumes "ws \<noteq> []" "hd ws \<noteq> []"
  shows "Join sep ws \<noteq> [] \<and> hd (Join sep ws) = hd (hd ws)"
  using assms by (cases ws rule: list.exhaust; cases "tl ws") auto

lemma Join_last:
  assumes "ws \<noteq> []" "last ws \<noteq> []"
  shows "Join sep ws \<noteq> [] \<and> last (Join sep ws) = last (last ws)"
  using assms
proof (induction sep ws rule: Join.induct)
  case (3 sep x y zs)
  then show ?case by (simp add: last_append)
qed auto

lemma path_parts_kube_path:
  assumes "target_ok t"
  shows "path_parts (kube_path t) = kube_segments t"
proof -
  let ?ws = "kube_segments t" and ?j = "Join ''/'' (kube_segments t)"
  have ok: "\<And>w. w \<in> set ?ws \<Longrightarrow> CHR ''/'' \<notin> set w \<and> w \<noteq> []"
    using kube_segments_ok[OF assms] by (simp add: segment_ok_def)
  have ne: "?ws \<noteq> []" by (simp add: kube_segments_def)
  have "?j \<noteq> []" "hd ?j = hd (hd ?ws)"
    using Join_hd[OF ne] ok[of "hd ?ws"] ne by auto
  moreover have "last ?j = last (last ?ws)" using Join_last[OF ne] ok[of "last ?ws"] ne by auto
  ultimately have "Trim (CHR ''/'') ?j = ?j"
    using ok[of "hd ?ws"] ok[of "last ?ws"] ne
    by (intro Trim_id) (metis hd_in_set last_in_set)
  then show ?thesis
    using Split_Join[OF ne, of "CHR ''/''"] ok
    by (simp add: path_parts_def kube_path_def Trim_leading)
qed

lemma parse_kube_path:
  assumes "target_ok t"
  shows "parseURLToGVR (kube_path t) =
           Some \<lparr>gvr_Group = kt_Group t, gvr_Version = kt_Version t, gvr_Resource = kt_Resource t\<rparr>"
    and "findResourceTypeIndex (kube_segments t) = Some (length (kube_segments t) - 1 - length (kt_Tail t))"
proof -
  have len: "\<not> (kt_Namespace t = None \<and> kt_Resource t = ''namespaces'' \<and> length (kt_Tail t) > 1)"
    using assms by (auto simp: target_ok_def)
  show "parseURLToGVR (kube_path t) =
      Some \<lparr>gvr_Group = kt_Group t, gvr_Version = kt_Version t, gvr_Resource = kt_Resource t\<rparr>"
    using len unfolding parseURLToGVR_def path_parts_kube_path[OF assms]
    by (cases "kt_Namespace t"; cases "kt_Group t = []") (auto simp: kube_segments_def Let_def)
  show "findResourceTypeIndex (kube_segments t) = Some (length (kube_segments t) - 1 - length (kt_Tail t))"
    using len unfolding findResourceTypeIndex_def
    by (cases "kt_Namespace t"; cases "kt_Group t = []") (auto simp: kube_segments_def)
qed

lemma kube_tail:
  assumes "target_ok t" and "findResourceTypeIndex (kube_segments t) = Some i"
  shows "i + k < length (kube_segments t) \<longleftrightarrow> k < Suc (length (kt_Tail t))"
    and "k < length (kt_Tail t) \<Longrightarrow> kube_segments t ! (i + Suc k) = kt_Tail t ! k"
proof -
  have i: "i = length (kube_segments t) - 1 - length (kt_Tail t)"
    using parse_kube_path(2)[OF assms(1)] assms(2) by simp
  have "length (kt_Tail t) < length (kube_segments t)" by (simp add: kube_segments_def)
  then show "i + k < length (kube_segments t) \<longleftrightarrow> k < Suc (length (kt_Tail t))"
    using i by linarith
  have "kube_segments t = take (Suc i) (kube_segments t) @ kt_Tail t"
    unfolding i kube_segments_def by (simp split: option.splits)
  moreover have "length (take (Suc i) (kube_segments t)) = Suc i"
    using i \<open>length (kt_Tail t) < length (kube_segments t)\<close> by simp
  ultimately show "k < length (kt_Tail t) \<Longrightarrow> kube_segments t ! (i + Suc k) = kt_Tail t ! k"
    by (metis add_Suc_right add_Suc nth_append_length_plus)
qed

lemma scan_namespace_skip:
  "\<lbrakk>xs \<noteq> []; ''namespaces'' \<notin> set ps\<rbrakk> \<Longrightarrow> scan_namespace (ps @ xs) = scan_namespace xs"
proof (induction ps)
  case (Cons p ps)
  then obtain q qs where "ps @ xs = q # qs" by (cases "ps @ xs") auto
  with Cons show ?case by auto
qed simp

lemma scan_namespace_none: "''namespaces'' \<notin> set (butlast ps) \<Longrightarrow> scan_namespace ps = []"
  by (induction ps rule: scan_namespace.induct) auto

definition nth_or_empty :: "string list \<Rightarrow> nat \<Rightarrow> string" where
  "nth_or_empty xs k = (if k < length xs then xs ! k else [])"

lemma kube_path_name:
  assumes "target_ok t"
  shows "snd (parseURLToNamespaceAndName (kube_path t)) = nth_or_empty (kt_Tail t) 0"
    and "parseSubresource (kube_path t) = nth_or_empty (kt_Tail t) 1"
    and "isCollectionPath (kube_path t) \<longleftrightarrow> kt_Tail t = []"
proof -
  obtain i where i: "findResourceTypeIndex (kube_segments t) = Some i"
    using parse_kube_path(2)[OF assms] by blast
  note parts = path_parts_kube_path[OF assms] and tl = kube_tail[OF assms i]
  show "snd (parseURLToNamespaceAndName (kube_path t)) = nth_or_empty (kt_Tail t) 0"
    using tl(1)[of 1] tl(2)[of 0]
    by (simp add: parseURLToNamespaceAndName_def parts i nth_or_empty_def)
  show "parseSubresource (kube_path t) = nth_or_empty (kt_Tail t) 1"
    using tl(1)[of 2] tl(2)[of 1]
    by (simp add: parseSubresource_def parts i nth_or_empty_def numeral_2_eq_2)
  show "isCollectionPath (kube_path t) \<longleftrightarrow> kt_Tail t = []"
    using parse_kube_path(2)[OF assms] i
    by (auto simp: isCollectionPath_def parts kube_segments_def split: option.splits)
qed

lemma kube_path_namespace:
  assumes "target_ok t"
  shows "kt_Namespace t = Some ns \<Longrightarrow> fst (parseURLToNamespaceAndName (kube_path t)) = ns"
    and "\<lbrakk>kt_Namespace t = None; ''namespaces'' \<notin> set (butlast (kt_Resource t # kt_Tail t))\<rbrakk>
           \<Longrightarrow> fst (parseURLToNamespaceAndName (kube_path t)) = []"
proof -
  have pre: "''namespaces'' \<notin> set (if kt_Group t = [] then [''api'', kt_Version t]
      else [''apis'', kt_Group t, kt_Version t])"
    using assms by (auto simp: target_ok_def)
  note def = parseURLToNamespaceAndName_def path_parts_kube_path[OF assms] kube_segments_def Let_def
  show "kt_Namespace t = Some ns \<Longrightarrow> fst (parseURLToNamespaceAndName (kube_path t)) = ns"
    using scan_namespace_skip[OF _ pre, of "[''namespaces'', ns] @ kt_Resource t # kt_Tail t"]
    by (simp add: def)
  assume "kt_Namespace t = None" "''namespaces'' \<notin> set (butlast (kt_Resource t # kt_Tail t))"
  then show "fst (parseURLToNamespaceAndName (kube_path t)) = []"
    using scan_namespace_skip[OF _ pre, of "kt_Resource t # kt_Tail t"]
      scan_namespace_none[of "kt_Resource t # kt_Tail t"]
    by (simp add: def)
qed

section \<open>Properties\<close>

text \<open>
  C39: the parsers invert the layout of Kubernetes API paths. For every well-formed request
  target and every API path prefix of the server's host URL, stripping the prefix from the
  request path and parsing it yields the target's group, version, resource, name and
  subresource; the namespace of a namespaced target is recovered, a cluster-scoped target
  whose segments do not contain \<open>namespaces\<close> has none, and the path is a collection exactly
  when it ends at the resource.
\<close>

theorem kube_path_roundtrip:
  assumes ok: "target_ok t" and p: "p = stripAPIPathPrefix (TrimSuffix prefix ''/'' @ kube_path t) prefix"
  shows "parseURLToGVR p =
           Some \<lparr>gvr_Group = kt_Group t, gvr_Version = kt_Version t, gvr_Resource = kt_Resource t\<rparr>
         \<and> snd (parseURLToNamespaceAndName p) = nth_or_empty (kt_Tail t) 0
         \<and> parseSubresource p = nth_or_empty (kt_Tail t) 1
         \<and> (isCollectionPath p \<longleftrightarrow> kt_Tail t = [])
         \<and> (case kt_Namespace t of
              Some ns \<Rightarrow> fst (parseURLToNamespaceAndName p) = ns
            | None \<Rightarrow> ''namespaces'' \<in> set (butlast (kt_Resource t # kt_Tail t))
                      \<or> fst (parseURLToNamespaceAndName p) = [])"
proof -
  have path: "p = kube_path t"
    unfolding p stripAPIPathPrefix_def
    by (auto simp: Let_def kube_path_def HasPrefix_iff)
  have "case kt_Namespace t of
      Some ns \<Rightarrow> fst (parseURLToNamespaceAndName (kube_path t)) = ns
    | None \<Rightarrow> ''namespaces'' \<in> set (butlast (kt_Resource t # kt_Tail t))
              \<or> fst (parseURLToNamespaceAndName (kube_path t)) = []"
    using kube_path_namespace[OF ok]
    by (cases "kt_Namespace t") (simp_all del: butlast.simps set_simps, metis)
  then show ?thesis
    unfolding path using parse_kube_path(1)[OF ok] kube_path_name[OF ok] by blast
qed

definition eviction :: kube_target where
  "eviction = \<lparr>kt_Group = [], kt_Version = ''v1'', kt_Namespace = Some ''ns1'', kt_Resource = ''pods'',
     kt_Tail = [''p1'', ''eviction'']\<rparr>"

theorem kube_path_roundtrip_witness:
  "parseURLToGVR (stripAPIPathPrefix (''/k8s/clusters/c1'' @ kube_path eviction) ''/k8s/clusters/c1/'')
     = Some \<lparr>gvr_Group = [], gvr_Version = ''v1'', gvr_Resource = ''pods''\<rparr>"
  using kube_path_roundtrip[of eviction _ "''/k8s/clusters/c1/''", OF _ refl]
  by (simp add: eviction_def target_ok_def segment_ok_def TrimSuffix_def HasSuffix_def)

text \<open>
  On every path, well-formed or not, the resource the access decision is made for is the
  segment at the index the name, subresource and collection parsers start from, and a path
  is no API resource request exactly when that index does not exist.
\<close>

theorem parseURLToGVR_index:
  "case parseURLToGVR path of
     None \<Rightarrow> findResourceTypeIndex (path_parts path) = None
   | Some gvr \<Rightarrow> (\<exists>i. findResourceTypeIndex (path_parts path) = Some i
       \<and> i < length (path_parts path) \<and> gvr_Resource gvr = path_parts path ! i)"
proof -
  have "path_parts path \<noteq> []" by (simp add: path_parts_def)
  then show ?thesis
    by (auto simp: parseURLToGVR_def findResourceTypeIndex_def Let_def)
qed

text \<open>
  The namespace scan does not stop at the resource. A cluster-scoped request for a
  resource's subresource path, such as the proxy of a node, is given the segment after a
  later \<open>namespaces\<close> segment as its namespace, although the resource has none.
\<close>

theorem cluster_scoped_namespace_scan:
  assumes "target_ok t" "kt_Namespace t = None"
    and "kt_Tail t = pre @ [''namespaces'', ns] @ post" "''namespaces'' \<notin> set (kt_Resource t # pre)"
  shows "fst (parseURLToNamespaceAndName (kube_path t)) = ns"
proof -
  let ?pre = "(if kt_Group t = [] then [''api'', kt_Version t]
      else [''apis'', kt_Group t, kt_Version t]) @ kt_Resource t # pre"
  have "''namespaces'' \<notin> set ?pre" using assms by (auto simp: target_ok_def)
  then have "scan_namespace (?pre @ [''namespaces'', ns] @ post) = ns"
    by (subst scan_namespace_skip) simp_all
  moreover have "kube_segments t = ?pre @ [''namespaces'', ns] @ post"
    using assms by (simp add: kube_segments_def)
  ultimately show ?thesis
    by (simp add: parseURLToNamespaceAndName_def path_parts_kube_path[OF assms(1)] Let_def)
qed

definition node_proxy :: kube_target where
  "node_proxy = \<lparr>kt_Group = [], kt_Version = ''v1'', kt_Namespace = None, kt_Resource = ''nodes'',
     kt_Tail = [''n1'', ''proxy'', ''namespaces'', ''foo'']\<rparr>"

theorem cluster_scoped_namespace_scan_witness:
  "fst (parseURLToNamespaceAndName (kube_path node_proxy)) = ''foo''"
  using cluster_scoped_namespace_scan[of node_proxy "[''n1'', ''proxy'']" "''foo''" "[]"]
  by (simp add: node_proxy_def target_ok_def segment_ok_def)

end
