(* ===== verification/Access_Control.thy ===== *)
theory Access_Control
  imports Validators Kube_Paths
begin

text \<open>
  \<open>src/pkg/kubernetes/accesscontrol_round_tripper.go\<close>: the HTTP round tripper through which
  every request of the server to the Kubernetes API goes. It resolves the kind a request
  addresses, refuses denied kinds, runs the validators and hands the request to its
  delegate. The delegate, the REST mapper and the discovery client act on the world \<open>'w\<close>.
\<close>

section \<open>State\<close>

text \<open>A request body is a stream: reading it fails or yields its bytes.\<close>

record HttpRequest =
  rq_Method :: string
  rq_Path :: string
  rq_Body :: "(string, string) result option"

datatype kind_error = NoMatch string | KindError string

type_synonym 'w RESTMapper = "GroupVersionResource \<Rightarrow> 'w \<Rightarrow> (kind_error, GroupVersionKind) result \<times> 'w"

text \<open>A resource list is given by the names of its entries; the pointer may be nil.\<close>

type_synonym APIResourceList = "string list"
type_synonym 'w discovery_client =
  "string \<Rightarrow> 'w \<Rightarrow> (string, APIResourceList option) result \<times> 'w"

record 'w rawDiscoveryCache =
  dc_delegate :: "'w discovery_client"
  dc_cache :: "string \<rightharpoonup> APIResourceList option"

type_synonym ('w, 'r) round_tripper = "HttpRequest \<Rightarrow> 'w \<Rightarrow> (go_error, 'r) result \<times> 'w"

record ('w, 'r) AccessControlRoundTripper =
  rt_delegate :: "('w, 'r) round_tripper"
  rt_deniedResources :: "GroupVersionKind list option"
  rt_restMapperProvider :: "'w \<Rightarrow> 'w RESTMapper option"
  rt_rawDiscovery :: "'w rawDiscoveryCache option"
  rt_apiPathPrefix :: string
  rt_validators :: "'w HTTPValidator list"

section \<open>Discovery cache\<close>

definition newRawDiscoveryCache :: "'w discovery_client \<Rightarrow> 'w rawDiscoveryCache" where
  "newRawDiscoveryCache d = \<lparr>dc_delegate = d, dc_cache = Map.empty\<rparr>"

definition ServerResourcesForGroupVersion ::
  "'w rawDiscoveryCache \<Rightarrow> string \<Rightarrow> 'w
   \<Rightarrow> (string, APIResourceList option) result \<times> 'w rawDiscoveryCache \<times> 'w" where
  "ServerResourcesForGroupVersion c gv w =
     (case dc_cache c gv of
        Some rl \<Rightarrow> (Inr rl, c, w)
      | None \<Rightarrow>
          (case dc_delegate c gv w of
             (Inl err, w') \<Rightarrow> (Inl err, c, w')
           | (Inr rl, w') \<Rightarrow> (Inr rl, c\<lparr>dc_cache := (dc_cache c)(gv \<mapsto> rl)\<rparr>, w')))"

text \<open>The two matching loops over the discovered entries.\<close>

definition resource_listed :: "GroupVersionResource \<Rightarrow> string \<Rightarrow> APIResourceList \<Rightarrow> bool" where
  "resource_listed gvr subresource entries =
     (if subresource \<noteq> [] then
        list_ex (\<lambda>r. r = gvr_Resource gvr @ ''/'' @ subresource) entries
      else list_ex (\<lambda>r. r = gvr_Resource gvr \<or> HasPrefix r (gvr_Resource gvr @ ''/'')) entries)"

definition resourceExistsInDiscovery ::
  "('w, 'r) AccessControlRoundTripper \<Rightarrow> GroupVersionResource \<Rightarrow> string \<Rightarrow> 'w
   \<Rightarrow> bool \<times> ('w, 'r) AccessControlRoundTripper \<times> 'w" where
  "resourceExistsInDiscovery rt gvr subresource w =
     (case rt_rawDiscovery rt of
        None \<Rightarrow> (False, rt, w)
      | Some c \<Rightarrow>
          (let gv = (if gvr_Group gvr = [] then gvr_Version gvr
                     else gvr_Group gvr @ ''/'' @ gvr_Version gvr)
           in case ServerResourcesForGroupVersion c gv w of
                (res, c', w') \<Rightarrow>
                  (let rt' = rt\<lparr>rt_rawDiscovery := Some c'\<rparr> in
                   case res of
                     Inr (Some entries) \<Rightarrow> (resource_listed gvr subresource entries, rt', w')
                   | _ \<Rightarrow> (False, rt', w'))))"

section \<open>Kind resolution and the denied list\<close>

definition getGVK ::
  "('w, 'r) AccessControlRoundTripper \<Rightarrow> GroupVersionResource \<Rightarrow> string \<Rightarrow> 'w
   \<Rightarrow> (go_error, GroupVersionKind) result \<times> ('w, 'r) AccessControlRoundTripper \<times> 'w" where
  "getGVK rt gvr subresource w =
     (case rt_restMapperProvider rt w of
        None \<Rightarrow> (Inl ERestMapperNotInitialized, rt, w)
      | Some kindFor \<Rightarrow>
          (case kindFor gvr w of
             (Inr gvk, w1) \<Rightarrow> (Inr gvk, rt, w1)
           | (Inl (NoMatch _), w1) \<Rightarrow>
               (case resourceExistsInDiscovery rt gvr subresource w1 of
                  (True, rt', w2) \<Rightarrow>
                    (Inr \<lparr>gvk_Group = gvr_Group gvr, gvk_Version = gvr_Version gvr, gvk_Kind = []\<rparr>, rt', w2)
                | (False, rt', w2) \<Rightarrow>
                    (Inl (EValidation \<lparr>ve_Code = ErrorCodeResourceNotFound,
                            ve_Message = ''Resource '' @ FormatResourceName (Some gvr)
                              @ '' does not exist in the cluster'',
                            ve_Field = []\<rparr>), rt', w2))
           | (Inl (KindError err), w1) \<Rightarrow> (Inl (EKindFor gvr err), rt, w1)))"

fun denied_by :: "GroupVersionKind \<Rightarrow> GroupVersionKind list \<Rightarrow> bool" where
  "denied_by gvk [] = False"
| "denied_by gvk (v # vs) =
     (if gvk_Kind v = [] \<and> gvk_Group gvk = gvk_Group v \<and> gvk_Version gvk = gvk_Version v then True
      else if gvk_Group gvk = gvk_Group v \<and> gvk_Version gvk = gvk_Version v \<and> gvk_Kind gvk = gvk_Kind v
      then True
      else denied_by gvk vs)"

definition isAllowed :: "('w, 'r) AccessControlRoundTripper \<Rightarrow> GroupVersionKind \<Rightarrow> bool" where
  "isAllowed rt gvk = (case rt_deniedResources rt of
     None \<Rightarrow> True
   | Some denied \<Rightarrow> \<not> denied_by gvk denied)"

section \<open>The round trip\<close>

text \<open>The loop over the validators stops at the first error.\<close>

fun run_validators ::
  "'w HTTPValidator list \<Rightarrow> 'w ctx_session \<Rightarrow> HTTPValidationRequest \<Rightarrow> 'w \<Rightarrow> go_error option \<times> 'w" where
  "run_validators [] ctx req w = (None, w)"
| "run_validators (v # vs) ctx req w =
     (case v_Validate v ctx req w of
        (Some err, w') \<Rightarrow> (Some err, w')
      | (None, w') \<Rightarrow> run_validators vs ctx req w')"

definition RoundTrip ::
  "('w, 'r) AccessControlRoundTripper \<Rightarrow> 'w ctx_session \<Rightarrow> HttpRequest \<Rightarrow> 'w
   \<Rightarrow> (go_error, 'r) result \<times> ('w, 'r) AccessControlRoundTripper \<times> 'w" where
  "RoundTrip rt ctx req w =
     (let kubernetesPath = stripAPIPathPrefix (rq_Path req) (rt_apiPathPrefix rt) in
      case parseURLToGVR kubernetesPath of
        None \<Rightarrow> (case rt_delegate rt req w of (res, w') \<Rightarrow> (res, rt, w'))
      | Some gvr \<Rightarrow>
          (case getGVK rt gvr (parseSubresource kubernetesPath) w of
             (Inl err, rt1, w1) \<Rightarrow> (Inl err, rt1, w1)
           | (Inr gvk, rt1, w1) \<Rightarrow>
               if \<not> isAllowed rt1 gvk then (Inl (EResourceNotAllowed gvk), rt1, w1)
               else if gvr_Group gvr = ''authorization.k8s.io'' \<and> gvr_Resource gvr = ''selfsubjectaccessreviews''
               then (case rt_delegate rt1 req w1 of (res, w') \<Rightarrow> (res, rt1, w'))
               else
                 (let (ns, name) = parseURLToNamespaceAndName kubernetesPath;
                      vreq = \<lparr>vr_GVR = Some gvr, vr_GVK = Some gvk, vr_HTTPMethod = rq_Method req,
                              vr_Verb = httpMethodToVerb (rq_Method req) kubernetesPath,
                              vr_Namespace = ns, vr_ResourceName = name, vr_Body = [],
                              vr_Path = kubernetesPath\<rparr>;
                      read = (if rq_Body req \<noteq> None \<and> rq_Method req \<in> {''POST'', ''PUT'', ''PATCH''}
                              then (case the (rq_Body req) of
                                      Inl e \<Rightarrow> Inl e
                                    | Inr body \<Rightarrow> Inr (req\<lparr>rq_Body := Some (Inr body)\<rparr>, vreq\<lparr>vr_Body := body\<rparr>))
                              else Inr (req, vreq))
                  in case read of
                       Inl e \<Rightarrow> (Inl (EReadBody e), rt1, w1)
                     | Inr (req', vreq') \<Rightarrow>
                         (case run_validators (rt_validators rt1) ctx vreq' w1 of
                            (Some err, w2) \<Rightarrow> (Inl err, rt1, w2)
                          | (None, w2) \<Rightarrow>
                              (case rt_delegate rt1 req' w2 of (res, w') \<Rightarrow> (res, rt1, w'))))))"

section \<open>Construction\<close>

record 'w ValidatorProviders =
  vp_Discovery :: "'w \<Rightarrow> 'w discovery_client option"
  vp_AuthClient :: "'w \<Rightarrow> 'w auth_client option"

record ('w, 'r) AccessControlRoundTripperConfig =
  ac_Delegate :: "('w, 'r) round_tripper"
  ac_DeniedResources :: "GroupVersionKind list option"
  ac_RestMapperProvider :: "'w \<Rightarrow> 'w RESTMapper option"
  ac_HostURL :: string
  ac_Providers :: "'w ValidatorProviders"
  ac_RawDiscoveryProvider :: "'w discovery_client option option"
  ac_ValidationEnabled :: bool
  ac_ConfirmationRules :: "ConfirmationRulesProvider option"

text \<open>
  \<open>url_path\<close> is \<open>url.Parse\<close> followed by \<open>.Path\<close>, \<open>reg\<close> the validator registry and \<open>unmarshal\<close>
  the YAML decoder of the EULA validator. The outer option of \<open>ac_RawDiscoveryProvider\<close> is the
  nil function, the inner one the nil client it may return.
\<close>

definition NewAccessControlRoundTripper ::
  "(string \<Rightarrow> (string, string) result) \<Rightarrow> ('w ValidatorProviders \<Rightarrow> 'w HTTPValidator) validatorRegistry
   \<Rightarrow> (string \<Rightarrow> (string, PipelineRun) result)
   \<Rightarrow> ('w, 'r) AccessControlRoundTripperConfig \<Rightarrow> ('w, 'r) AccessControlRoundTripper" where
  "NewAccessControlRoundTripper url_path reg unmarshal cfg =
     (let prefix = (if ac_HostURL cfg \<noteq> [] then
                      (case url_path (ac_HostURL cfg) of Inl _ \<Rightarrow> [] | Inr p \<Rightarrow> p)
                    else []);
          raw = (case ac_RawDiscoveryProvider cfg of
                   Some (Some d) \<Rightarrow> Some (newRawDiscoveryCache d)
                 | _ \<Rightarrow> None);
          vs1 = (if ac_ValidationEnabled cfg then validator_createAll reg (ac_Providers cfg) else []);
          vs2 = (case ac_ConfirmationRules cfg of
                   Some p \<Rightarrow> (if length (GetConfirmationRules p) > 0 then [ConfirmationValidator p] else [])
                 | None \<Rightarrow> [])
      in \<lparr>rt_delegate = ac_Delegate cfg, rt_deniedResources = ac_DeniedResources cfg,
          rt_restMapperProvider = ac_RestMapperProvider cfg, rt_rawDiscovery = raw,
          rt_apiPathPrefix = prefix, rt_validators = vs1 @ vs2 @ [WindowsEULAValidator unmarshal]\<rparr>)"

section \<open>Component lemmas\<close>

lemma denied_by_iff:
  "denied_by gvk vs \<longleftrightarrow> (\<exists>v \<in> set vs. gvk_Group v = gvk_Group gvk \<and> gvk_Version v = gvk_Version gvk
     \<and> (gvk_Kind v = [] \<or> gvk_Kind v = gvk_Kind gvk))"
  by (induction vs) auto

lemma isAllowed_rawDiscovery [simp]: "isAllowed (rt\<lparr>rt_rawDiscovery := c\<rparr>) gvk = isAllowed rt gvk"
  by (simp add: isAllowed_def)

lemma isAllowed_delegate [simp]: "isAllowed (rt\<lparr>rt_delegate := d\<rparr>) gvk = isAllowed rt gvk"
  by (simp add: isAllowed_def)

lemma resourceExistsInDiscovery_frame:
  "\<exists>c. fst (snd (resourceExistsInDiscovery rt gvr sub w)) = rt\<lparr>rt_rawDiscovery := c\<rparr>"
proof (cases "rt_rawDiscovery rt")
  case None
  then have "fst (snd (resourceExistsInDiscovery rt gvr sub w)) = rt\<lparr>rt_rawDiscovery := None\<rparr>"
    by (simp add: resourceExistsInDiscovery_def)
  then show ?thesis by blast
next
  case (Some c)
  then show ?thesis
    by (auto simp: resourceExistsInDiscovery_def Let_def split: prod.splits sum.splits option.splits)
qed

lemma getGVK_frame: "\<exists>c. fst (snd (getGVK rt gvr sub w)) = rt\<lparr>rt_rawDiscovery := c\<rparr>"
proof -
  have same: "\<exists>c. rt = rt\<lparr>rt_rawDiscovery := c\<rparr>" by (rule exI[of _ "rt_rawDiscovery rt"]) simp
  show ?thesis
    using same resourceExistsInDiscovery_frame[of rt gvr sub]
    by (auto simp: getGVK_def split: option.splits prod.splits sum.splits kind_error.splits bool.splits)
      (metis fst_conv snd_conv)+
qed

lemma resourceExistsInDiscovery_delegate:
  "resourceExistsInDiscovery (rt\<lparr>rt_delegate := d\<rparr>) gvr sub w =
     (case resourceExistsInDiscovery rt gvr sub w of (b, rt', w') \<Rightarrow> (b, rt'\<lparr>rt_delegate := d\<rparr>, w'))"
  by (auto simp: resourceExistsInDiscovery_def Let_def split: prod.splits sum.splits option.splits)

lemma getGVK_delegate:
  "getGVK (rt\<lparr>rt_delegate := d\<rparr>) gvr sub w =
     (case getGVK rt gvr sub w of (r, rt', w') \<Rightarrow> (r, rt'\<lparr>rt_delegate := d\<rparr>, w'))"
  by (auto simp: getGVK_def resourceExistsInDiscovery_delegate
      split: option.splits prod.splits sum.splits kind_error.splits bool.splits)

text \<open>
  The specification of admission: which requests may be handed to the delegate, and in which
  world. It does not mention the delegate.
\<close>

definition is_review :: "GroupVersionResource \<Rightarrow> bool" where
  "is_review gvr \<longleftrightarrow> gvr_Group gvr = ''authorization.k8s.io'' \<and> gvr_Resource gvr = ''selfsubjectaccessreviews''"

definition has_payload :: "HttpRequest \<Rightarrow> bool" where
  "has_payload req \<longleftrightarrow> rq_Body req \<noteq> None \<and> rq_Method req \<in> {''POST'', ''PUT'', ''PATCH''}"

definition payload :: "HttpRequest \<Rightarrow> string" where
  "payload req = (if has_payload req then (case the (rq_Body req) of Inl _ \<Rightarrow> [] | Inr b \<Rightarrow> b) else [])"

definition unreadable :: "HttpRequest \<Rightarrow> bool" where
  "unreadable req \<longleftrightarrow> has_payload req \<and> (\<exists>e. rq_Body req = Some (Inl e))"

definition validation_request ::
  "string \<Rightarrow> GroupVersionResource \<Rightarrow> GroupVersionKind \<Rightarrow> HttpRequest \<Rightarrow> HTTPValidationRequest" where
  "validation_request path gvr gvk req =
     \<lparr>vr_GVR = Some gvr, vr_GVK = Some gvk, vr_HTTPMethod = rq_Method req,
      vr_Verb = httpMethodToVerb (rq_Method req) path,
      vr_Namespace = fst (parseURLToNamespaceAndName path),
      vr_ResourceName = snd (parseURLToNamespaceAndName path),
      vr_Body = payload req, vr_Path = path\<rparr>"

definition request_path :: "('w, 'r) AccessControlRoundTripper \<Rightarrow> HttpRequest \<Rightarrow> string" where
  "request_path rt req = stripAPIPathPrefix (rq_Path req) (rt_apiPathPrefix rt)"

definition admit ::
  "('w, 'r) AccessControlRoundTripper \<Rightarrow> 'w ctx_session \<Rightarrow> HttpRequest \<Rightarrow> 'w \<Rightarrow> 'w option" where
  "admit rt ctx req w =
     (let path = request_path rt req in
      case parseURLToGVR path of
        None \<Rightarrow> Some w
      | Some gvr \<Rightarrow>
          (case getGVK rt gvr (parseSubresource path) w of
             (Inl _, _, _) \<Rightarrow> None
           | (Inr gvk, _, w1) \<Rightarrow>
               if \<not> isAllowed rt gvk then None
               else if is_review gvr then Some w1
               else if unreadable req then None
               else (case run_validators (rt_validators rt) ctx (validation_request path gvr gvk req) w1 of
                       (None, w2) \<Rightarrow> Some w2
                     | (Some _, _) \<Rightarrow> None)))"

text \<open>One equation per branch of the round trip, over the admission vocabulary.\<close>

lemma RoundTrip_passthrough:
  "parseURLToGVR (request_path rt req) = None \<Longrightarrow>
     RoundTrip rt ctx req w = (case rt_delegate rt req w of (res, w') \<Rightarrow> (res, rt, w'))"
  by (simp add: RoundTrip_def request_path_def)

lemma RoundTrip_unresolved:
  "\<lbrakk>parseURLToGVR (request_path rt req) = Some gvr;
    getGVK rt gvr (parseSubresource (request_path rt req)) w = (Inl e, rt1, w1)\<rbrakk> \<Longrightarrow>
     RoundTrip rt ctx req w = (Inl e, rt1, w1)"
  by (simp add: RoundTrip_def request_path_def Let_def)

lemma RoundTrip_denied:
  "\<lbrakk>parseURLToGVR (request_path rt req) = Some gvr;
    getGVK rt gvr (parseSubresource (request_path rt req)) w = (Inr gvk, rt1, w1);
    \<not> isAllowed rt1 gvk\<rbrakk> \<Longrightarrow>
     RoundTrip rt ctx req w = (Inl (EResourceNotAllowed gvk), rt1, w1)"
  by (simp add: RoundTrip_def request_path_def Let_def)

lemma RoundTrip_review:
  "\<lbrakk>parseURLToGVR (request_path rt req) = Some gvr;
    getGVK rt gvr (parseSubresource (request_path rt req)) w = (Inr gvk, rt1, w1);
    isAllowed rt1 gvk; is_review gvr\<rbrakk> \<Longrightarrow>
     RoundTrip rt ctx req w = (case rt_delegate rt1 req w1 of (res, w') \<Rightarrow> (res, rt1, w'))"
  by (simp add: RoundTrip_def request_path_def is_review_def Let_def)

lemma RoundTrip_unreadable:
  assumes "parseURLToGVR (request_path rt req) = Some gvr"
    "getGVK rt gvr (parseSubresource (request_path rt req)) w = (Inr gvk, rt1, w1)"
    "isAllowed rt1 gvk" "\<not> is_review gvr" "has_payload req" "rq_Body req = Some (Inl e)"
  shows "RoundTrip rt ctx req w = (Inl (EReadBody e), rt1, w1)"
  using assms unfolding RoundTrip_def is_review_def[symmetric] has_payload_def[symmetric]
  by (simp add: request_path_def Let_def case_prod_beta)

lemma RoundTrip_validated:
  assumes "parseURLToGVR (request_path rt req) = Some gvr"
    "getGVK rt gvr (parseSubresource (request_path rt req)) w = (Inr gvk, rt1, w1)"
    "isAllowed rt1 gvk" "\<not> is_review gvr" "\<not> unreadable req"
  shows "RoundTrip rt ctx req w =
     (case run_validators (rt_validators rt1) ctx
             (validation_request (request_path rt req) gvr gvk req) w1 of
        (Some err, w2) \<Rightarrow> (Inl err, rt1, w2)
      | (None, w2) \<Rightarrow> (case rt_delegate rt1 req w2 of (res, w') \<Rightarrow> (res, rt1, w')))"
proof (cases "has_payload req")
  case True
  then obtain b where b: "rq_Body req = Some (Inr b)" using assms(5)
    by (cases "the (rq_Body req)") (auto simp: unreadable_def has_payload_def)
  then obtain m p where req: "req = \<lparr>rq_Method = m, rq_Path = p, rq_Body = Some (Inr b)\<rparr>"
    by (cases req) simp
  have "m \<in> {''POST'', ''PUT'', ''PATCH''}" using True by (simp add: has_payload_def req)
  with assms True show ?thesis
    unfolding req RoundTrip_def is_review_def[symmetric]
    by (simp add: request_path_def validation_request_def payload_def
        Let_def case_prod_beta del: insert_iff split: option.split)
next
  case False
  with assms show ?thesis
    unfolding RoundTrip_def is_review_def[symmetric] has_payload_def[symmetric]
    by (simp add: request_path_def validation_request_def payload_def Let_def case_prod_beta
        split: option.split)
qed

lemma getGVK_state:
  assumes "getGVK rt gvr sub w = (r, rt1, w1)"
  obtains c where "rt1 = rt\<lparr>rt_rawDiscovery := c\<rparr>"
  using getGVK_frame[of rt gvr sub w] assms by auto

lemma request_path_delegate [simp]: "request_path (rt\<lparr>rt_delegate := d\<rparr>) req = request_path rt req"
  by (simp add: request_path_def)

lemma run_validators_append:
  "run_validators (xs @ ys) ctx req w =
     (case run_validators xs ctx req w of
        (Some e, w') \<Rightarrow> (Some e, w')
      | (None, w') \<Rightarrow> run_validators ys ctx req w')"
  by (induction xs arbitrary: w) (auto split: prod.splits option.splits)

text \<open>The cases of a request, shared by the proofs below.\<close>

lemma request_cases:
  obtains (passthrough) "parseURLToGVR (request_path rt req) = None"
  | (unresolved) gvr e c w1 where "parseURLToGVR (request_path rt req) = Some gvr"
      "getGVK rt gvr (parseSubresource (request_path rt req)) w = (Inl e, rt\<lparr>rt_rawDiscovery := c\<rparr>, w1)"
  | (resolved) gvr gvk c w1 where "parseURLToGVR (request_path rt req) = Some gvr"
      "getGVK rt gvr (parseSubresource (request_path rt req)) w = (Inr gvk, rt\<lparr>rt_rawDiscovery := c\<rparr>, w1)"
proof (cases "parseURLToGVR (request_path rt req)")
  case (Some gvr)
  obtain r rt1 w1 where g: "getGVK rt gvr (parseSubresource (request_path rt req)) w = (r, rt1, w1)"
    by (metis prod_cases3)
  obtain c where "rt1 = rt\<lparr>rt_rawDiscovery := c\<rparr>" using getGVK_state[OF g] .
  with that(2,3) Some g show thesis by (cases r) auto
qed (use that(1) in blast)

lemma RoundTrip_admitted:
  assumes "admit rt ctx req w = Some w1"
  shows "\<exists>c. RoundTrip rt ctx req w =
           (fst (rt_delegate rt req w1), rt\<lparr>rt_rawDiscovery := c\<rparr>, snd (rt_delegate rt req w1))"
proof (cases rule: request_cases[where rt = rt and req = req and w = w])
  case passthrough
  with assms have "RoundTrip rt ctx req w =
      (fst (rt_delegate rt req w1), rt\<lparr>rt_rawDiscovery := rt_rawDiscovery rt\<rparr>, snd (rt_delegate rt req w1))"
    by (simp add: admit_def RoundTrip_passthrough Let_def case_prod_beta)
  then show ?thesis by blast
next
  case unresolved
  with assms show ?thesis by (simp add: admit_def Let_def)
next
  case (resolved gvr gvk c w0)
  have ok: "isAllowed rt gvk" using assms resolved by (simp add: admit_def Let_def split: if_splits)
  show ?thesis
  proof (cases "is_review gvr")
    case True
    with assms resolved ok show ?thesis
      by (auto simp: admit_def RoundTrip_review[OF resolved] Let_def case_prod_beta)
  next
    case False
    have "\<not> unreadable req" using assms resolved ok False
      by (simp add: admit_def Let_def split: if_splits)
    with assms resolved ok False show ?thesis
      by (auto simp: admit_def RoundTrip_validated[OF resolved] Let_def case_prod_beta
          split: option.splits prod.splits)
  qed
qed

lemma RoundTrip_rejected:
  assumes "admit rt ctx req w = None"
  shows "\<exists>e c w1. \<forall>d. RoundTrip (rt\<lparr>rt_delegate := d\<rparr>) ctx req w =
           (Inl e, rt\<lparr>rt_delegate := d, rt_rawDiscovery := c\<rparr>, w1)"
proof (cases rule: request_cases[where rt = rt and req = req and w = w])
  case passthrough
  with assms show ?thesis by (simp add: admit_def Let_def)
next
  case (unresolved gvr e c w1)
  have "RoundTrip (rt\<lparr>rt_delegate := d\<rparr>) ctx req w =
      (Inl e, rt\<lparr>rt_delegate := d, rt_rawDiscovery := c\<rparr>, w1)" for d
    by (rule RoundTrip_unresolved[of _ _ gvr]) (simp_all add: unresolved getGVK_delegate)
  then show ?thesis by blast
next
  case (resolved gvr gvk c w1)
  let ?rt = "\<lambda>d. rt\<lparr>rt_delegate := d\<rparr>" and ?rt1 = "\<lambda>d. rt\<lparr>rt_delegate := d, rt_rawDiscovery := c\<rparr>"
  have g: "parseURLToGVR (request_path (?rt d) req) = Some gvr"
    "getGVK (?rt d) gvr (parseSubresource (request_path (?rt d) req)) w = (Inr gvk, ?rt1 d, w1)" for d
    by (simp_all add: resolved getGVK_delegate)
  show ?thesis
  proof (cases "isAllowed rt gvk")
    case False
    then have "RoundTrip (?rt d) ctx req w = (Inl (EResourceNotAllowed gvk), ?rt1 d, w1)" for d
      using RoundTrip_denied[OF g] by (simp add: isAllowed_def)
    then show ?thesis by blast
  next
    case True
    then have allowed: "isAllowed (?rt1 d) gvk" for d by (simp add: isAllowed_def)
    have rev: "\<not> is_review gvr" using assms resolved True by (auto simp: admit_def Let_def)
    show ?thesis
    proof (cases "unreadable req")
      case True
      then obtain e where e: "has_payload req" "rq_Body req = Some (Inl e)"
        by (auto simp: unreadable_def)
      show ?thesis using RoundTrip_unreadable[OF g allowed rev e] by blast
    next
      case False
      then obtain e w2 where e: "run_validators (rt_validators rt) ctx
          (validation_request (request_path rt req) gvr gvk req) w1 = (Some e, w2)"
        using assms resolved True rev
        by (auto simp: admit_def Let_def split: prod.splits option.splits)
      have "RoundTrip (?rt d) ctx req w = (Inl e, ?rt1 d, w2)" for d
        using RoundTrip_validated[OF g allowed rev False] e by simp
      then show ?thesis by blast
    qed
  qed
qed

text \<open>
  C1: complete mediation. A request is handed to the delegate exactly when the admission
  policy admits it, then unchanged (the body it reads for validation is put back) and in the
  world the checks leave, and the delegate's answer is the answer. A request that is not
  admitted ends in an error that no choice of delegate can influence, so it never reaches the
  API server. Nothing but the discovery cache of the round tripper changes.
\<close>

theorem round_trip_mediation:
  "case admit rt ctx req w of
     Some w1 \<Rightarrow> (\<exists>c. RoundTrip rt ctx req w =
       (fst (rt_delegate rt req w1), rt\<lparr>rt_rawDiscovery := c\<rparr>, snd (rt_delegate rt req w1)))
   | None \<Rightarrow> (\<exists>e c w1. \<forall>d. RoundTrip (rt\<lparr>rt_delegate := d\<rparr>) ctx req w =
       (Inl e, rt\<lparr>rt_delegate := d, rt_rawDiscovery := c\<rparr>, w1))"
  using RoundTrip_admitted[of rt ctx req w] RoundTrip_rejected[of rt ctx req w]
  by (cases "admit rt ctx req w") simp_all

text \<open>
  A request whose kind is on the denied list (an entry with an empty kind denies its whole
  group and version) is refused with that kind in the error, whatever the delegate, the
  validators and the MCP session are.
\<close>

theorem denied_kind_refused:
  assumes "parseURLToGVR (request_path rt req) = Some gvr"
    and "getGVK rt gvr (parseSubresource (request_path rt req)) w = (Inr gvk, rt1, w1)"
    and "rt_deniedResources rt = Some denied" "v \<in> set denied"
    and "gvk_Group v = gvk_Group gvk" "gvk_Version v = gvk_Version gvk"
    and "gvk_Kind v = [] \<or> gvk_Kind v = gvk_Kind gvk"
  shows "RoundTrip (rt\<lparr>rt_delegate := d, rt_validators := vs\<rparr>) ctx req w =
           (Inl (EResourceNotAllowed gvk), rt1\<lparr>rt_delegate := d, rt_validators := vs\<rparr>, w1)"
proof -
  let ?rt = "rt\<lparr>rt_delegate := d, rt_validators := vs\<rparr>"
  have path: "request_path ?rt req = request_path rt req" by (simp add: request_path_def)
  have disc: "resourceExistsInDiscovery ?rt gvr sub w =
      (case resourceExistsInDiscovery rt gvr sub w of
         (b, rt', w') \<Rightarrow> (b, rt'\<lparr>rt_delegate := d, rt_validators := vs\<rparr>, w'))" for sub w
    by (auto simp: resourceExistsInDiscovery_def Let_def split: prod.splits sum.splits option.splits)
  have gvk: "getGVK ?rt gvr sub w =
      (case getGVK rt gvr sub w of
         (r, rt', w') \<Rightarrow> (r, rt'\<lparr>rt_delegate := d, rt_validators := vs\<rparr>, w'))" for sub
    by (auto simp: getGVK_def disc split: option.splits prod.splits sum.splits kind_error.splits bool.splits)
  obtain c where rt1: "rt1 = rt\<lparr>rt_rawDiscovery := c\<rparr>" using getGVK_state[OF assms(2)] .
  have "\<not> isAllowed (rt1\<lparr>rt_delegate := d, rt_validators := vs\<rparr>) gvk"
    using assms(3-7) by (auto simp: isAllowed_def denied_by_iff rt1)
  then show ?thesis
    using assms(1,2) by (intro RoundTrip_denied[of _ _ gvr]) (simp_all add: path gvk)
qed

text \<open>A pod request on a cluster that denies pods, for the witnesses.\<close>

definition pod_gvk :: GroupVersionKind where
  "pod_gvk = \<lparr>gvk_Group = [], gvk_Version = ''v1'', gvk_Kind = ''Pod''\<rparr>"

definition get_pods :: HttpRequest where
  "get_pods = \<lparr>rq_Method = ''GET'', rq_Path = ''/api/v1/pods'', rq_Body = None\<rparr>"

definition counting_delegate :: "(nat, string) round_tripper" where
  "counting_delegate req n = (Inr ''ok'', Suc n)"

definition pod_rt :: "(nat, string) AccessControlRoundTripper" where
  "pod_rt = \<lparr>rt_delegate = counting_delegate, rt_deniedResources = Some [pod_gvk],
     rt_restMapperProvider = (\<lambda>_. Some (\<lambda>_ w. (Inr pod_gvk, w))), rt_rawDiscovery = None,
     rt_apiPathPrefix = [], rt_validators = []\<rparr>"

lemma get_pods_gvr:
  "parseURLToGVR (request_path pod_rt get_pods) =
     Some \<lparr>gvr_Group = [], gvr_Version = ''v1'', gvr_Resource = ''pods''\<rparr>"
  by (simp add: request_path_def pod_rt_def get_pods_def stripAPIPathPrefix_def TrimSuffix_def
      HasSuffix_def parseURLToGVR_def path_parts_def Trim_def)

theorem denied_kind_refused_witness:
  "RoundTrip (pod_rt\<lparr>rt_delegate := counting_delegate, rt_validators := []\<rparr>) NoSession get_pods 7 =
     (Inl (EResourceNotAllowed pod_gvk), pod_rt\<lparr>rt_delegate := counting_delegate, rt_validators := []\<rparr>, 7)"
  by (rule denied_kind_refused[OF get_pods_gvr, of _ _ _ _ "[pod_gvk]" pod_gvk])
    (simp_all add: getGVK_def pod_rt_def)

text \<open>The validators a new round tripper has, in the order it runs them.\<close>

lemma new_validators:
  "rt_validators (NewAccessControlRoundTripper url_path reg unmarshal cfg) =
     (if ac_ValidationEnabled cfg then validator_createAll reg (ac_Providers cfg) else [])
     @ (case ac_ConfirmationRules cfg of
          Some p \<Rightarrow> (if GetConfirmationRules p \<noteq> [] then [ConfirmationValidator p] else [])
        | None \<Rightarrow> [])
     @ [WindowsEULAValidator unmarshal]"
  by (simp add: NewAccessControlRoundTripper_def Let_def split: option.split)

lemma admit_validated:
  assumes "admit rt ctx req w = Some w2"
    and "parseURLToGVR (request_path rt req) = Some gvr" "\<not> is_review gvr"
    and "getGVK rt gvr (parseSubresource (request_path rt req)) w = (Inr gvk, rt1, w1)"
  shows "run_validators (rt_validators rt) ctx (validation_request (request_path rt req) gvr gvk req) w1
           = (None, w2)"
  using assms by (auto simp: admit_def Let_def split: if_splits prod.splits option.splits)

text \<open>
  No round tripper the constructor builds, whatever the configuration, hands the creation,
  update or patch of a \<open>windows-efi-installer\<close> PipelineRun without \<open>acceptEula\<close> set to
  \<open>true\<close> to the API server unless the MCP session was asked the EULA question and the user
  accepted.
\<close>

theorem windows_eula_enforced:
  assumes rt: "rt = NewAccessControlRoundTripper url_path reg unmarshal cfg"
    and admitted: "admit rt ctx req w = Some w2"
    and gvr: "parseURLToGVR (request_path rt req) = Some gvr" "\<not> is_review gvr"
    and gvk: "getGVK rt gvr (parseSubresource (request_path rt req)) w = (Inr gvk, rt1, w1)"
      "gvk_Group gvk = ''tekton.dev''" "gvk_Kind gvk = ''PipelineRun''"
    and verb: "httpMethodToVerb (rq_Method req) (request_path rt req) \<in> {''create'', ''update'', ''patch''}"
    and body: "unmarshal (payload req) = Inr pr" "isWindowsEFIInstallerPipeline pr"
      "getPipelineParam (pr_Params pr) ''acceptEula'' \<noteq> ''true''"
  shows "\<exists>el res w0. (ctx = ServerSession el \<or> ctx = OtherElicitor el)
           \<and> el eula_params w0 = (Inr res, w2) \<and> er_Action res = ''accept''"
proof -
  let ?vreq = "validation_request (request_path rt req) gvr gvk req"
  obtain vs where vs: "rt_validators rt = vs @ [WindowsEULAValidator unmarshal]"
    unfolding rt new_validators append_assoc[symmetric] by blast
  have "run_validators (vs @ [WindowsEULAValidator unmarshal]) ctx ?vreq w1 = (None, w2)"
    using admit_validated[OF admitted gvr gvk(1)] vs by simp
  then obtain w0 where eula: "WindowsEULAValidator_Validate unmarshal ctx ?vreq w0 = (None, w2)"
    by (auto simp: run_validators_append WindowsEULAValidator_def split: prod.splits option.splits)
  moreover have "isWindowsPipelineRun ?vreq" "requiresEULAPrompt pr" "vr_Body ?vreq = payload req"
    using verb gvk body
    by (auto simp: isWindowsPipelineRun_def requiresEULAPrompt_def validation_request_def)
  ultimately have "promptForEULA ctx w0 = (None, w2)"
    using body(1) by (simp add: WindowsEULAValidator_Validate_def)
  then show ?thesis
    by (cases ctx)
      (auto simp: promptForEULA_def getElicitorFromContext_def ElicitActionAccept_def
        split: prod.splits sum.splits if_splits)
qed

text \<open>
  With validation enabled, the user is not asked to confirm an operation RBAC forbids.
  For the validators the package registers, a request whose access review is answered with
  not allowed ends in the permission error, and the outcome is the same for every MCP session,
  so none was consulted.
\<close>

theorem rbac_denial_precedes_prompt:
  assumes rt: "rt = NewAccessControlRoundTripper url_path reg unmarshal cfg"
    and enabled: "ac_ValidationEnabled cfg"
    and reg: "vr.register_all \<lparr>vfactories = []\<rparr> (validator_init schema (\<lambda>p. NewRBACValidator (vp_AuthClient p)))
                = Inr reg"
    and gvr: "parseURLToGVR (request_path rt req) = Some gvr" "\<not> is_review gvr"
    and gvk: "getGVK rt gvr (parseSubresource (request_path rt req)) w = (Inr gvk, rt1, w1)"
    and readable: "isAllowed rt gvk" "\<not> unreadable req" "rq_Method req \<noteq> []"
    and client: "vp_AuthClient (ac_Providers cfg) w1 = Some review"
    and denied: "review \<lparr>ra_Namespace = fst (parseURLToNamespaceAndName (request_path rt req)),
          ra_Verb = httpMethodToVerb (rq_Method req) (request_path rt req),
          ra_Group = gvr_Group gvr, ra_Version = gvr_Version gvr, ra_Resource = gvr_Resource gvr,
          ra_Name = snd (parseURLToNamespaceAndName (request_path rt req))\<rparr> w1 = (Inr False, w2)"
  shows "RoundTrip rt ctx req w =
           (Inl (EValidation (NewPermissionDeniedError (httpMethodToVerb (rq_Method req) (request_path rt req))
              (FormatResourceName (Some gvr)) (fst (parseURLToNamespaceAndName (request_path rt req))))),
            rt1, w2)"
proof -
  let ?vreq = "validation_request (request_path rt req) gvr gvk req"
  have "reg = \<lparr>vfactories = [(''rbac'', \<lambda>p. NewRBACValidator (vp_AuthClient p)), (''schema'', schema)]\<rparr>"
    using reg by (simp add: validator_init_def validator_register_def go_map_register_def)
  then have "validator_createAll reg p = [NewRBACValidator (vp_AuthClient p), schema p]" for p
    by (simp add: validator_createAll_def validator_names_def)
  then obtain vs where vs: "rt_validators rt = NewRBACValidator (vp_AuthClient (ac_Providers cfg)) # vs"
    unfolding rt new_validators using enabled by auto
  have "httpMethodToVerb (rq_Method req) (request_path rt req) \<noteq> []"
    using readable(3) by (auto simp: httpMethodToVerb_def ToLower_def)
  then have "RBACValidator_Validate (vp_AuthClient (ac_Providers cfg)) ?vreq w1 =
      (Some (EValidation (NewPermissionDeniedError (vr_Verb ?vreq) (FormatResourceName (Some gvr))
         (vr_Namespace ?vreq))), w2)"
    using client denied by (intro RBAC_blocks[where client = review]) (simp_all add: validation_request_def)
  moreover obtain c where rt1: "rt1 = rt\<lparr>rt_rawDiscovery := c\<rparr>" using getGVK_state[OF gvk] .
  ultimately show ?thesis
    using RoundTrip_validated[OF gvr(1) gvk _ gvr(2) readable(2), of ctx] readable(1) vs
    by (simp add: NewRBACValidator_def validation_request_def)
qed

section \<open>Witnesses on a small cluster\<close>

definition run_gvk :: GroupVersionKind where
  "run_gvk = \<lparr>gvk_Group = ''tekton.dev'', gvk_Version = ''v1'', gvk_Kind = ''PipelineRun''\<rparr>"

definition run_gvr :: GroupVersionResource where
  "run_gvr = \<lparr>gvr_Group = ''tekton.dev'', gvr_Version = ''v1'', gvr_Resource = ''pipelineruns''\<rparr>"

definition golden_image :: PipelineRun where
  "golden_image = \<lparr>pr_PipelineRef = Some [\<lparr>pp_Name = ''name'', pp_StringVal = ''windows-efi-installer''\<rparr>],
     pr_Params = []\<rparr>"

definition create_run :: HttpRequest where
  "create_run = \<lparr>rq_Method = ''POST'', rq_Path = ''/apis/tekton.dev/v1/pipelineruns'',
     rq_Body = Some (Inr ''run'')\<rparr>"

definition small_cfg :: "bool \<Rightarrow> (nat, string) AccessControlRoundTripperConfig" where
  "small_cfg validation = \<lparr>ac_Delegate = counting_delegate, ac_DeniedResources = None,
     ac_RestMapperProvider = (\<lambda>_. Some (\<lambda>_ w. (Inr run_gvk, w))), ac_HostURL = [],
     ac_Providers = \<lparr>vp_Discovery = (\<lambda>_. None), vp_AuthClient = (\<lambda>_. Some (\<lambda>_ w. (Inr False, w)))\<rparr>,
     ac_RawDiscoveryProvider = None, ac_ValidationEnabled = validation, ac_ConfirmationRules = None\<rparr>"

definition small_reg :: "(nat ValidatorProviders \<Rightarrow> nat HTTPValidator) validatorRegistry" where
  "small_reg = \<lparr>vfactories = [(''rbac'', \<lambda>p. NewRBACValidator (vp_AuthClient p)),
     (''schema'', \<lambda>_. WindowsEULAValidator (\<lambda>_. Inl []))]\<rparr>"

definition small_rt :: "bool \<Rightarrow> (nat, string) AccessControlRoundTripper" where
  "small_rt validation =
     NewAccessControlRoundTripper (\<lambda>_. Inl []) small_reg (\<lambda>_. Inr golden_image) (small_cfg validation)"

lemma small_path: "request_path (small_rt v) create_run = ''/apis/tekton.dev/v1/pipelineruns''"
  by (simp add: request_path_def small_rt_def NewAccessControlRoundTripper_def small_cfg_def
      create_run_def stripAPIPathPrefix_def TrimSuffix_def HasSuffix_def Let_def)

lemma small_parts:
  "path_parts ''/apis/tekton.dev/v1/pipelineruns'' = [''apis'', ''tekton.dev'', ''v1'', ''pipelineruns'']"
  by (simp add: path_parts_def Trim_def)

lemma small_parse:
  "parseURLToGVR ''/apis/tekton.dev/v1/pipelineruns'' = Some run_gvr"
  "parseURLToNamespaceAndName ''/apis/tekton.dev/v1/pipelineruns'' = ([], [])"
  "httpMethodToVerb ''POST'' ''/apis/tekton.dev/v1/pipelineruns'' = ''create''"
  by (simp_all add: parseURLToGVR_def parseURLToNamespaceAndName_def httpMethodToVerb_def small_parts
      findResourceTypeIndex_def run_gvr_def Let_def)

lemma small_gvk: "getGVK (small_rt v) run_gvr sub w = (Inr run_gvk, small_rt v, w)"
  by (simp add: getGVK_def small_rt_def NewAccessControlRoundTripper_def small_cfg_def Let_def)

lemma small_create: "\<not> is_review run_gvr" "isAllowed (small_rt v) run_gvk" "\<not> unreadable create_run"
  "payload create_run = ''run''" "rq_Method create_run = ''POST''"
  by (simp_all add: is_review_def run_gvr_def isAllowed_def small_rt_def NewAccessControlRoundTripper_def
      small_cfg_def unreadable_def create_run_def payload_def has_payload_def Let_def)

lemma golden_image_facts:
  "isWindowsEFIInstallerPipeline golden_image" "getPipelineParam (pr_Params golden_image) n = []"
  by (simp_all add: golden_image_def isWindowsEFIInstallerPipeline_def)

lemma small_eula:
  "WindowsEULAValidator_Validate (\<lambda>_. Inr golden_image) (ServerSession accepting)
     (validation_request ''/apis/tekton.dev/v1/pipelineruns'' run_gvr run_gvk create_run) 0 = (None, 1)"
  by (simp add: WindowsEULAValidator_Validate_def isWindowsPipelineRun_def validation_request_def
      small_parse small_create run_gvk_def requiresEULAPrompt_def golden_image_def
      isWindowsEFIInstallerPipeline_def promptForEULA_def getElicitorFromContext_def accepting_def
      ElicitActionAccept_def)

lemma small_admitted: "admit (small_rt False) (ServerSession accepting) create_run 0 = Some 1"
proof -
  have "rt_validators (small_rt False) = [WindowsEULAValidator (\<lambda>_. Inr golden_image)]"
    by (simp add: small_rt_def new_validators small_cfg_def)
  then show ?thesis
    by (simp add: admit_def small_path small_parse small_gvk small_create WindowsEULAValidator_def small_eula)
qed

theorem windows_eula_enforced_witness:
  "\<exists>el res w0. (ServerSession accepting = ServerSession el \<or> ServerSession accepting = OtherElicitor el)
     \<and> el eula_params w0 = (Inr res, 1) \<and> er_Action res = ''accept''"
  by (rule windows_eula_enforced[OF small_rt_def small_admitted _ small_create(1) small_gvk,
        where pr = golden_image])
    (simp_all add: small_path small_parse small_create run_gvk_def golden_image_facts)

theorem rbac_denial_precedes_prompt_witness:
  "fst (RoundTrip (small_rt True) NoSession create_run 0) =
     Inl (EValidation (NewPermissionDeniedError ''create'' ''pipelineruns.tekton.dev'' []))"
proof -
  have reg: "vr.register_all \<lparr>vfactories = []\<rparr>
      (validator_init (\<lambda>_. WindowsEULAValidator (\<lambda>_. Inl [])) (\<lambda>p. NewRBACValidator (vp_AuthClient p)))
      = Inr small_reg"
    by (simp add: validator_init_def validator_register_def go_map_register_def small_reg_def)
  have "RoundTrip (small_rt True) NoSession create_run 0 =
      (Inl (EValidation (NewPermissionDeniedError ''create'' (FormatResourceName (Some run_gvr)) [])),
       small_rt True, 0)"
    using rbac_denial_precedes_prompt[OF small_rt_def[of True] _ reg _ small_create(1) small_gvk[of True]
          small_create(2)[of True] small_create(3),
        where ctx = NoSession and review = "\<lambda>_ w. (Inr False, w)"]
    by (simp add: small_path small_parse small_create small_cfg_def)
  then show ?thesis by (simp add: FormatResourceName_def run_gvr_def)
qed

end
