(* ===== verification/Filepath.thy ===== *)
theory Filepath
  imports Go_Prelude
begin

text \<open>
  The lexical path functions of Go's \<open>path/filepath\<close> on Unix that the server uses:
  \<open>Clean\<close>, \<open>Join\<close>, \<open>Dir\<close>, \<open>IsAbs\<close>, \<open>Abs\<close> (given the working directory) and \<open>Base\<close>.
\<close>

fun clean_comps :: "bool \<Rightarrow> string list \<Rightarrow> string list \<Rightarrow> string list" where
  "clean_comps rooted acc [] = rev acc"
| "clean_comps rooted acc (c # cs) =
     (if c = [] \<or> c = ''.'' then clean_comps rooted acc cs
      else if c = ''..'' then
        (case acc of
           a # as \<Rightarrow> (if a = ''..'' then clean_comps rooted (c # acc) cs else clean_comps rooted as cs)
         | [] \<Rightarrow> (if rooted then clean_comps rooted [] cs else clean_comps rooted [c] cs))
      else clean_comps rooted (c # acc) cs)"

definition Clean :: "string \<Rightarrow> string" where
  "Clean p =
     (let rooted = HasPrefix p ''/'';
          cs = clean_comps rooted [] (Split (CHR ''/'') p)
      in if rooted then CHR ''/'' # Join ''/'' cs
         else if cs = [] then ''.'' else Join ''/'' cs)"

definition path_Join :: "string list \<Rightarrow> string" where
  "path_Join es = (let ne = filter (\<lambda>e. e \<noteq> []) es in if ne = [] then [] else Clean (Join ''/'' ne))"

definition IsAbs :: "string \<Rightarrow> bool" where
  "IsAbs p \<longleftrightarrow> HasPrefix p ''/''"

definition path_Abs :: "string \<Rightarrow> string \<Rightarrow> string" where
  "path_Abs wd p = (if IsAbs p then Clean p else path_Join [wd, p])"

text \<open>Everything up to the last slash, cleaned.\<close>

definition path_Dir :: "string \<Rightarrow> string" where
  "path_Dir p = Clean (rev (dropWhile (\<lambda>c. c \<noteq> CHR ''/'') (rev p)))"

lemma clean_comps_all:
  assumes "list_all P acc" and "\<And>c. c \<in> set cs \<Longrightarrow> c \<noteq> [] \<Longrightarrow> P c"
  shows "list_all P (clean_comps rooted acc cs)"
  using assms
proof (induction cs arbitrary: acc)
  case (Cons c cs)
  note IH = Cons.IH and acc = Cons.prems(1)
  have cs: "\<And>c. c \<in> set cs \<Longrightarrow> c \<noteq> [] \<Longrightarrow> P c" and c: "c \<noteq> [] \<Longrightarrow> P c"
    using Cons.prems(2) by auto
  show ?case
  proof (cases "c = [] \<or> c = ''.''")
    case True
    then show ?thesis using IH[OF acc cs] by simp
  next
    case False
    then have push: "list_all P (clean_comps rooted (c # acc) cs)"
      using IH[of "c # acc"] acc cs c by simp
    show ?thesis
    proof (cases acc)
      case Nil
      then show ?thesis using push IH[of "[]"] cs by (cases rooted) auto
    next
      case (Cons a as)
      then have "list_all P (clean_comps rooted as cs)" using IH[of as] acc cs by simp
      then show ?thesis using push Cons False by auto
    qed
  qed
qed (simp add: list_all_iff)

lemma Join_no_leading_slash:
  assumes "list_all (\<lambda>c. c \<noteq> [] \<and> CHR ''/'' \<notin> set c) ws"
  shows "\<not> HasPrefix (Join ''/'' ws) ''/''"
proof (cases ws)
  case (Cons w vs)
  with assms obtain x xs where "w = x # xs" "x \<noteq> CHR ''/''" by (cases w) auto
  with Cons show ?thesis by (cases vs) simp_all
qed simp

lemma IsAbs_Clean [simp]: "IsAbs (Clean p) \<longleftrightarrow> IsAbs p"
proof -
  have "list_all (\<lambda>c. c \<noteq> [] \<and> CHR ''/'' \<notin> set c) (clean_comps r [] (Split (CHR ''/'') p))" for r
    using Split_elems by (intro clean_comps_all) auto
  from Join_no_leading_slash[OF this] show ?thesis
    by (simp add: IsAbs_def Clean_def Let_def)
qed

lemma IsAbs_Cons: "IsAbs (CHR ''/'' # p)"
  by (simp add: IsAbs_def)

lemma IsAbs_obtain: "IsAbs p \<Longrightarrow> \<exists>q. p = CHR ''/'' # q"
  by (simp add: IsAbs_def HasPrefix_iff)

lemma path_Abs_IsAbs: "IsAbs wd \<Longrightarrow> IsAbs (path_Abs wd p)"
proof -
  assume wd: "IsAbs wd"
  then have "IsAbs (path_Join [wd, p])"
    by (cases "p = []") (auto simp: path_Join_def IsAbs_Cons dest!: IsAbs_obtain)
  then show ?thesis by (simp add: path_Abs_def)
qed

end
