(* ===== verification/Config_Merge.thy ===== *)
theory Config_Merge
  imports Filepath Registry
begin

text \<open>
  Loading and layering configuration files: \<open>Read\<close>, \<open>loadDropInConfigs\<close>,
  \<open>getSortedConfigFiles\<close>, \<open>readAndMergeFiles\<close> and \<open>deepMerge\<close> of
  \<open>src/pkg/config/config.go\<close>. The operating system and the TOML codec are arguments.

  A decoded TOML document is a table; arrays and scalars are leaves, since only tables are
  merged. A Go map is an association list whose order is the iteration order. \<open>deepMerge\<close>
  updates the destination in place; every file is decoded into fresh maps, so no two tables
  share storage and the update is a function of the two tables.
\<close>

datatype 'v toml = Leaf 'v | Table "(string \<times> 'v toml) list"

type_synonym 'v table = "(string \<times> 'v toml) list"

section \<open>Deep merge\<close>

fun deepMerge :: "'v table \<Rightarrow> 'v table \<Rightarrow> 'v table" where
  "deepMerge dst [] = dst"
| "deepMerge dst ((key, Table s) # src) =
     deepMerge (case map_of dst key of
                  Some (Table d) \<Rightarrow> AList.update key (Table (deepMerge d s)) dst
                | _ \<Rightarrow> AList.update key (Table s) dst) src"
| "deepMerge dst ((key, Leaf v) # src) = deepMerge (AList.update key (Leaf v) dst) src"

text \<open>Decoded documents have distinct keys at every level.\<close>

fun wf_toml :: "'v toml \<Rightarrow> bool" and wf_entries :: "(string \<times> 'v toml) list \<Rightarrow> bool" where
  "wf_toml (Leaf v) = True"
| "wf_toml (Table t) = (distinct (map fst t) \<and> wf_entries t)"
| "wf_entries [] = True"
| "wf_entries ((k, v) # t) = (wf_toml v \<and> wf_entries t)"

definition wf_table :: "'v table \<Rightarrow> bool" where
  "wf_table t \<longleftrightarrow> wf_toml (Table t)"

text \<open>The leaf at a path, and whether a document says anything about the path.\<close>

fun leaf_at :: "'v table \<Rightarrow> string list \<Rightarrow> 'v option" where
  "leaf_at t [] = None"
| "leaf_at t (k # ks) = (case map_of t k of
     None \<Rightarrow> None
   | Some (Leaf v) \<Rightarrow> (if ks = [] then Some v else None)
   | Some (Table t') \<Rightarrow> leaf_at t' ks)"

fun covers :: "'v table \<Rightarrow> string list \<Rightarrow> bool" where
  "covers t [] = False"
| "covers t (k # ks) = (case map_of t k of
     None \<Rightarrow> False
   | Some (Leaf v) \<Rightarrow> True
   | Some (Table t') \<Rightarrow> ks = [] \<or> covers t' ks)"

lemma wf_entries_iff: "wf_entries t \<longleftrightarrow> (\<forall>v \<in> snd ` set t. wf_toml v)"
  by (induction t) auto

lemma wf_table_lookup: "\<lbrakk>wf_table t; map_of t k = Some (Table s)\<rbrakk> \<Longrightarrow> wf_table s"
proof -
  assume t: "wf_table t" and "map_of t k = Some (Table s)"
  then have "Table s \<in> snd ` set t" by (metis image_eqI map_of_SomeD snd_conv)
  with t show "wf_table s" unfolding wf_table_def by (metis wf_entries_iff wf_toml.simps(2))
qed

lemma not_covers_leaf: "\<not> covers t p \<Longrightarrow> leaf_at t p = None"
  by (induction p arbitrary: t) (auto split: option.splits toml.splits)

lemma deepMerge_lookup:
  assumes "distinct (map fst src)"
  shows "map_of (deepMerge dst src) k =
    (case map_of src k of
       None \<Rightarrow> map_of dst k
     | Some (Leaf v) \<Rightarrow> Some (Leaf v)
     | Some (Table s) \<Rightarrow> (case map_of dst k of
         Some (Table d) \<Rightarrow> Some (Table (deepMerge d s))
       | _ \<Rightarrow> Some (Table s)))"
  using assms
proof (induction src arbitrary: dst)
  case (Cons e src)
  obtain k' v where e: "e = (k', v)" by force
  have fresh: "map_of src k' = None" using Cons.prems e by (simp add: map_of_eq_None_iff)
  show ?case
  proof (cases v)
    case (Leaf x)
    then show ?thesis using Cons e fresh by (auto simp: update_conv' split: option.splits toml.splits)
  next
    case (Table s)
    then show ?thesis using Cons e fresh
      by (auto simp: update_conv' split: option.splits toml.splits)
  qed
qed simp

lemma leaf_at_deepMerge:
  assumes "wf_table src"
  shows "leaf_at (deepMerge dst src) p = (if covers src p then leaf_at src p else leaf_at dst p)"
  using assms
proof (induction p arbitrary: dst src)
  case (Cons k ks)
  have d: "distinct (map fst src)" using Cons.prems by (simp add: wf_table_def)
  note look = deepMerge_lookup[OF d, of dst k]
  show ?case
  proof (cases "map_of src k")
    case None
    then show ?thesis by (simp add: look)
  next
    case (Some v)
    show ?thesis
    proof (cases v)
      case (Leaf x)
      with Some show ?thesis by (simp add: look)
    next
      case (Table s)
      have s: "wf_table s" using wf_table_lookup[OF Cons.prems] Some Table by simp
      show ?thesis
        using Some Table look Cons.IH[OF s]
        by (cases ks) (auto simp: not_covers_leaf simp del: leaf_at.simps(2) covers.simps(2)
            simp add: leaf_at.simps(2)[of _ k] covers.simps(2)[of _ k] split: option.splits toml.splits)
    qed
  qed
qed simp

section \<open>Layers\<close>

text \<open>
  The contract of layering: a layer decides exactly the keys it covers. Folding layers in
  order then gives each key the value of the last layer that covers it.
\<close>

locale layering =
  fixes merge :: "'l \<Rightarrow> 'l \<Rightarrow> 'l"
    and base :: 'l
    and at :: "'l \<Rightarrow> 'k \<Rightarrow> 'v option"
    and defines_key :: "'l \<Rightarrow> 'k \<Rightarrow> bool"
    and valid :: "'l \<Rightarrow> bool"
  assumes at_merge: "valid s \<Longrightarrow> at (merge d s) k = (if defines_key s k then at s k else at d k)"
    and at_base: "at base k = None"
begin

lemma at_foldl:
  assumes "list_all valid ls"
  shows "at (foldl merge d ls) k =
    (case find (\<lambda>l. defines_key l k) (rev ls) of None \<Rightarrow> at d k | Some l \<Rightarrow> at l k)"
  using assms
proof (induction ls rule: rev_induct)
  case (snoc l ls)
  then show ?case by (simp add: at_merge)
qed simp

lemma last_layer_wins:
  "list_all valid ls \<Longrightarrow>
     at (foldl merge base ls) k = Option.bind (find (\<lambda>l. defines_key l k) (rev ls)) (\<lambda>l. at l k)"
  by (simp add: at_foldl at_base split: option.split)

lemma untouched_key:
  assumes "list_all valid ls" and "\<And>l. l \<in> set ls \<Longrightarrow> \<not> defines_key l k"
  shows "at (foldl merge d ls) k = at d k"
proof -
  have "find (\<lambda>l. defines_key l k) (rev ls) = None" using assms(2) by (auto simp: find_None_iff)
  then show ?thesis by (simp add: at_foldl[OF assms(1)])
qed

end

interpretation toml_layers: layering deepMerge "[]" leaf_at covers wf_table
proof
  fix d s :: "'v table" and k
  assume "wf_table s"
  then show "leaf_at (deepMerge d s) k = (if covers s k then leaf_at s k else leaf_at d k)"
    by (rule leaf_at_deepMerge)
next
  fix k show "leaf_at [] k = (None :: 'v option)" by (cases k) simp_all
qed

section \<open>Files\<close>

datatype stat_error = NotExist | StatError string

text \<open>The operating system and the TOML codec, as the functions of this package call them.\<close>

record 'v os_env =
  os_Getwd :: string
  os_Stat :: "string \<Rightarrow> (stat_error, bool) result"
  os_ReadDir :: "string \<Rightarrow> (string, (string \<times> bool) list) result"
  os_ReadFile :: "string \<Rightarrow> (string, string) result"
  toml_Decode :: "string \<Rightarrow> (string, 'v table) result"
  toml_Encode :: "'v table \<Rightarrow> (string, string) result"

datatype config_error =
    FailedToStat string
  | NotADirectory string
  | FailedToReadDir string
  | FailedToReadConfig string string
  | FailedToDecodeConfig string string
  | FailedToEncode string
  | FailedToLoadDropIn string config_error
  | FailedToMerge config_error

definition getSortedConfigFiles :: "'v os_env \<Rightarrow> string \<Rightarrow> (config_error, string list) result" where
  "getSortedConfigFiles env dir =
     (case os_ReadDir env dir of
        Inl e \<Rightarrow> Inl (FailedToReadDir e)
      | Inr entries \<Rightarrow>
          Inr (sort (map (\<lambda>(name, isDir). path_Join [dir, name])
                 (filter (\<lambda>(name, isDir). \<not> isDir \<and> \<not> HasPrefix name ''.'' \<and> HasSuffix name ''.toml'')
                    entries))))"

definition loadDropInConfigs :: "'v os_env \<Rightarrow> string \<Rightarrow> (config_error, string list) result" where
  "loadDropInConfigs env dir =
     (case os_Stat env dir of
        Inl NotExist \<Rightarrow> Inr []
      | Inl (StatError e) \<Rightarrow> Inl (FailedToStat e)
      | Inr isDir \<Rightarrow> (if \<not> isDir then Inl (NotADirectory dir) else getSortedConfigFiles env dir))"

fun merge_files :: "'v os_env \<Rightarrow> 'v table \<Rightarrow> string list \<Rightarrow> (config_error, 'v table) result" where
  "merge_files env raw [] = Inr raw"
| "merge_files env raw (file # files) =
     (case os_ReadFile env file of
        Inl e \<Rightarrow> Inl (FailedToReadConfig file e)
      | Inr configData \<Rightarrow>
          (case toml_Decode env configData of
             Inl e \<Rightarrow> Inl (FailedToDecodeConfig file e)
           | Inr dropIn \<Rightarrow> merge_files env (deepMerge raw dropIn) files))"

definition readAndMergeFiles :: "'v os_env \<Rightarrow> string list \<Rightarrow> (config_error, string) result" where
  "readAndMergeFiles env files =
     bindE (merge_files env [] files) (\<lambda>raw. mapErr FailedToEncode (toml_Encode env raw))"

definition DefaultDropInConfigDir :: string where
  "DefaultDropInConfigDir = ''conf.d''"

text \<open>
  \<open>Read\<close> up to the call of \<open>ReadToml\<close>: the merged document and the configuration directory
  handed to it. \<open>filepath.Abs\<close> fails only when the working directory is unavailable, which
  \<open>os_Getwd\<close> supplies.
\<close>

definition config_sources ::
  "'v os_env \<Rightarrow> string \<Rightarrow> string \<Rightarrow> (config_error, string list \<times> string) result" where
  "config_sources env configPath dropInConfigDir =
     (let mainFiles = (if configPath \<noteq> [] then [configPath] else []);
          configDir = (if configPath \<noteq> [] then path_Dir (path_Abs (os_Getwd env) configPath) else []);
          dropIn = (if dropInConfigDir = [] then DefaultDropInConfigDir else dropInConfigDir);
          dropIn = (if configDir \<noteq> [] \<and> \<not> IsAbs dropIn then path_Join [configDir, dropIn] else dropIn);
          configDir = (if configDir = [] then dropIn else configDir)
      in case loadDropInConfigs env dropIn of
           Inl e \<Rightarrow> Inl (FailedToLoadDropIn dropIn e)
         | Inr dropInFiles \<Rightarrow> Inr (mainFiles @ dropInFiles, configDir))"

definition Read ::
  "(string \<Rightarrow> string \<Rightarrow> (config_error, 'c) result) \<Rightarrow> 'v os_env \<Rightarrow> string \<Rightarrow> string
   \<Rightarrow> (config_error, 'c) result" where
  "Read readToml env configPath dropInConfigDir =
     bindE (config_sources env configPath dropInConfigDir) (\<lambda>(configFiles, configDir).
       bindE (mapErr FailedToMerge (readAndMergeFiles env configFiles)) (\<lambda>configData.
         readToml configData configDir))"

lemma merge_files_foldl:
  "merge_files env raw files = Inr t \<longleftrightarrow>
     (\<exists>tables. list_all2 (\<lambda>f tb. \<exists>d. os_ReadFile env f = Inr d \<and> toml_Decode env d = Inr tb) files tables
        \<and> t = foldl deepMerge raw tables)"
proof (induction files arbitrary: raw)
  case (Cons f files)
  show ?case
    by (auto simp: Cons.IH list_all2_Cons1 split: sum.splits)
qed auto

lemma getSortedConfigFiles_spec:
  assumes "getSortedConfigFiles env dir = Inr files"
  shows "sorted files"
    and "f \<in> set files \<longleftrightarrow> (\<exists>entries name. os_ReadDir env dir = Inr entries \<and> (name, False) \<in> set entries
           \<and> \<not> HasPrefix name ''.'' \<and> HasSuffix name ''.toml'' \<and> f = path_Join [dir, name])"
proof -
  obtain entries where entries: "os_ReadDir env dir = Inr entries"
    and files: "files = sort (map (\<lambda>(name, isDir). path_Join [dir, name])
      (filter (\<lambda>(name, isDir). \<not> isDir \<and> \<not> HasPrefix name ''.'' \<and> HasSuffix name ''.toml'') entries))"
    using assms by (auto simp: getSortedConfigFiles_def split: sum.splits)
  show "sorted files" unfolding files by (rule sorted_sort)
  have "f \<in> set files \<longleftrightarrow> (\<exists>name. (name, False) \<in> set entries \<and> \<not> HasPrefix name ''.''
      \<and> HasSuffix name ''.toml'' \<and> f = path_Join [dir, name])"
    unfolding files by (auto simp: image_iff Bex_def)
  with entries show "f \<in> set files \<longleftrightarrow> (\<exists>entries name. os_ReadDir env dir = Inr entries
      \<and> (name, False) \<in> set entries \<and> \<not> HasPrefix name ''.'' \<and> HasSuffix name ''.toml''
      \<and> f = path_Join [dir, name])" by simp
qed

lemma loadDropInConfigs_sorted: "loadDropInConfigs env dir = Inr files \<Longrightarrow> sorted files"
  by (auto simp: loadDropInConfigs_def getSortedConfigFiles_spec(1)
      split: sum.splits stat_error.splits if_splits)

section \<open>Properties\<close>

text \<open>
  C21: the last file wins, per setting. When reading and merging a list of files succeeds, each
  of them was read and decoded, and the document written for the final decoding gives every
  path the value of the last file in the list that says anything about that path; settings no
  later file mentions keep the value of the file that set them. This relies on the TOML codec:
  decoded documents have unique keys, and decoding an encoded document restores its leaves.
\<close>

theorem config_last_file_wins:
  assumes merged: "readAndMergeFiles env files = Inr data"
    and wf: "\<And>d t. toml_Decode env d = Inr t \<Longrightarrow> wf_table t"
    and codec: "\<And>t d. toml_Encode env t = Inr d \<Longrightarrow>
           \<exists>t'. toml_Decode env d = Inr t' \<and> (\<forall>p. leaf_at t' p = leaf_at t p)"
  shows "\<exists>tables final.
      list_all2 (\<lambda>f t. \<exists>d. os_ReadFile env f = Inr d \<and> toml_Decode env d = Inr t) files tables
      \<and> toml_Decode env data = Inr final
      \<and> (\<forall>p. leaf_at final p = Option.bind (find (\<lambda>t. covers t p) (rev tables)) (\<lambda>t. leaf_at t p))"
proof -
  from merged obtain raw where raw: "merge_files env [] files = Inr raw" "toml_Encode env raw = Inr data"
    by (auto simp: readAndMergeFiles_def bindE_Inr_iff)
  from raw(1) obtain tables where
    tables: "list_all2 (\<lambda>f t. \<exists>d. os_ReadFile env f = Inr d \<and> toml_Decode env d = Inr t) files tables"
    "raw = foldl deepMerge [] tables"
    unfolding merge_files_foldl by blast
  have "list_all wf_table tables"
    using tables(1) by (induction rule: list_all2_induct) (auto intro: wf)
  then have "leaf_at raw p = Option.bind (find (\<lambda>t. covers t p) (rev tables)) (\<lambda>t. leaf_at t p)" for p
    using toml_layers.last_layer_wins tables(2) by blast
  moreover obtain final where "toml_Decode env data = Inr final" "\<forall>p. leaf_at final p = leaf_at raw p"
    using codec[OF raw(2)] by blast
  ultimately show ?thesis using tables(1) by auto
qed

text \<open>Two files that set the same key, and a third that sets another, for the witness.\<close>

definition two_layers :: "nat os_env" where
  "two_layers = \<lparr>os_Getwd = ''/w'', os_Stat = (\<lambda>_. Inl NotExist), os_ReadDir = (\<lambda>_. Inl []),
     os_ReadFile = (\<lambda>f. Inr f),
     toml_Decode = (\<lambda>d. if d = ''a'' then Inr [(''k'', Leaf 1)] else Inr [(''k'', Leaf 2)]),
     toml_Encode = (\<lambda>t. if t = [(''k'', Leaf 2)] then Inr ''b'' else Inl [])\<rparr>"

theorem config_last_file_wins_witness:
  "\<exists>tables final.
      list_all2 (\<lambda>f t. \<exists>d. os_ReadFile two_layers f = Inr d \<and> toml_Decode two_layers d = Inr t)
        [''a'', ''b''] tables
      \<and> toml_Decode two_layers ''b'' = Inr final
      \<and> (\<forall>p. leaf_at final p = Option.bind (find (\<lambda>t. covers t p) (rev tables)) (\<lambda>t. leaf_at t p))"
  by (rule config_last_file_wins)
    (auto simp: two_layers_def readAndMergeFiles_def wf_table_def split: if_splits)

text \<open>
  The order of the sources. The main file, when given, comes first; after it, sorted, come
  exactly the drop-in files: the non-directory entries of the drop-in directory whose name ends
  in \<open>.toml\<close> and does not start with a dot. A relative drop-in directory is taken relative to
  the directory of the main file, and a missing one is no error.
\<close>

theorem config_sources_order:
  assumes "config_sources env configPath dropInConfigDir = Inr (files, dir)"
  shows "\<exists>drop dropDir. files = (if configPath \<noteq> [] then [configPath] else []) @ drop \<and> sorted drop
     \<and> dropDir = (let d = (if dropInConfigDir = [] then ''conf.d'' else dropInConfigDir) in
          if configPath \<noteq> [] \<and> path_Dir (path_Abs (os_Getwd env) configPath) \<noteq> [] \<and> \<not> IsAbs d
          then path_Join [path_Dir (path_Abs (os_Getwd env) configPath), d] else d)
     \<and> (\<forall>f. f \<in> set drop \<longleftrightarrow> (\<exists>entries name. os_Stat env dropDir = Inr True
          \<and> os_ReadDir env dropDir = Inr entries \<and> (name, False) \<in> set entries
          \<and> \<not> HasPrefix name ''.'' \<and> HasSuffix name ''.toml'' \<and> f = path_Join [dropDir, name]))"
proof -
  define dd where "dd = (if dropInConfigDir = [] then ''conf.d'' else dropInConfigDir)"
  define cd where "cd = path_Dir (path_Abs (os_Getwd env) configPath)"
  define dropDir where "dropDir = (if configPath \<noteq> [] \<and> cd \<noteq> [] \<and> \<not> IsAbs dd then path_Join [cd, dd] else dd)"
  from assms obtain drop where load: "loadDropInConfigs env dropDir = Inr drop"
    and files: "files = (if configPath \<noteq> [] then [configPath] else []) @ drop"
    by (auto simp: config_sources_def dropDir_def dd_def cd_def DefaultDropInConfigDir_def Let_def
        split: sum.splits if_splits)
  have "f \<in> set drop \<longleftrightarrow> (\<exists>entries name. os_Stat env dropDir = Inr True
      \<and> os_ReadDir env dropDir = Inr entries \<and> (name, False) \<in> set entries
      \<and> \<not> HasPrefix name ''.'' \<and> HasSuffix name ''.toml'' \<and> f = path_Join [dropDir, name])" for f
  proof (cases "os_Stat env dropDir = Inr True")
    case True
    then have "getSortedConfigFiles env dropDir = Inr drop" using load by (simp add: loadDropInConfigs_def)
    from getSortedConfigFiles_spec(2)[OF this] True show ?thesis by simp
  next
    case False
    then have "drop = []"
      using load by (auto simp: loadDropInConfigs_def split: sum.splits stat_error.splits if_splits)
    with False show ?thesis by simp
  qed
  then show ?thesis
    using files loadDropInConfigs_sorted[OF load] unfolding dropDir_def dd_def cd_def Let_def by blast
qed

definition drop_env :: "nat os_env" where
  "drop_env = two_layers\<lparr>os_Stat := (\<lambda>_. Inr True),
     os_ReadDir := (\<lambda>_. Inr [(''b.toml'', False), (''.x.toml'', False), (''a.toml'', False), (''c'', True)])\<rparr>"

theorem config_sources_order_witness:
  "config_sources drop_env [] ''/d'' = Inr ([''/d/a.toml'', ''/d/b.toml''], ''/d'')
   \<and> (\<exists>drop. [''/d/a.toml'', ''/d/b.toml''] = [] @ drop \<and> sorted drop)"
proof -
  have r: "config_sources drop_env [] ''/d'' = Inr ([''/d/a.toml'', ''/d/b.toml''], ''/d'')"
    by (simp add: config_sources_def drop_env_def loadDropInConfigs_def getSortedConfigFiles_def
        path_Join_def Clean_def HasSuffix_def IsAbs_def two_layers_def Let_def)
  show ?thesis using config_sources_order[OF r] r by auto
qed

end
