(* ===== verification/Json.thy ===== *)
theory Json
  imports Complex_Main
begin

text \<open>
  JSON values as \<open>encoding/json\<close> decodes them into \<open>any\<close>: numbers are \<open>float64\<close>, taken as
  rationals; objects are maps.
\<close>

datatype json =
    JNull
  | JBool bool
  | JNum rat
  | JStr string
  | JArr "json list"
  | JObj "(string \<times> json) list"

type_synonym json_object = "(string \<times> json) list"

end
