(* ===== verification/Tls.thy ===== *)
theory Tls
  imports Go_Prelude "HOL-Library.Word"
begin

text \<open>
  TLS settings: \<open>src/pkg/tlsutil/tlsutil.go\<close> (version and cipher suite names) and
  \<open>src/pkg/config/tls.go\<close> (the checks and the enforcing transport behind \<open>require_tls\<close>),
  with the copy of the transport in \<open>src/pkg/tokenexchange/config.go\<close>. \<open>url.Parse\<close> is an
  argument: it fails or yields the URL's scheme.
\<close>

section \<open>Versions and cipher suites\<close>

definition VersionTLS10 :: "16 word" where "VersionTLS10 = 0x0301"
definition VersionTLS11 :: "16 word" where "VersionTLS11 = 0x0302"
definition VersionTLS12 :: "16 word" where "VersionTLS12 = 0x0303"
definition VersionTLS13 :: "16 word" where "VersionTLS13 = 0x0304"

definition tlsVersionMap :: "(string \<times> 16 word) list" where
  "tlsVersionMap =
     [(''1.0'', VersionTLS10), (''1.1'', VersionTLS11), (''1.2'', VersionTLS12), (''1.3'', VersionTLS13),
      (''VersionTLS10'', VersionTLS10), (''VersionTLS11'', VersionTLS11),
      (''VersionTLS12'', VersionTLS12), (''VersionTLS13'', VersionTLS13)]"

datatype tls_error =
    InvalidTLSVersion string "string list"
  | InvalidCipherSuites "string list"
  | InvalidURL string string
  | InsecureScheme string string
  | TLSValidationFailed "tls_error list"

definition ParseTLSVersion :: "string \<Rightarrow> (tls_error, 16 word) result" where
  "ParseTLSVersion version =
     (let version = TrimSpace version in
      if version = [] then Inr VersionTLS12
      else (case map_of tlsVersionMap version of
              Some v \<Rightarrow> Inr v
            | None \<Rightarrow> Inl (InvalidTLSVersion version (sort (map fst tlsVersionMap)))))"

text \<open>The cipher suites Go supports (\<open>tls.CipherSuites()\<close>) are the argument \<open>suiteMap\<close>.\<close>

fun cipher_loop ::
  "(string \<rightharpoonup> 16 word) \<Rightarrow> string list \<Rightarrow> 16 word list \<Rightarrow> string list \<Rightarrow> 16 word list \<times> string list" where
  "cipher_loop suiteMap [] ids errs = (ids, errs)"
| "cipher_loop suiteMap (n # ns) ids errs =
     (let name = TrimSpace n in
      if name = [] then cipher_loop suiteMap ns ids errs
      else (case suiteMap name of
              Some i \<Rightarrow> cipher_loop suiteMap ns (ids @ [i]) errs
            | None \<Rightarrow> cipher_loop suiteMap ns ids (errs @ [name])))"

text \<open>\<open>None\<close> is Go's nil slice: the library's default suites.\<close>

definition ParseTLSCipherSuites ::
  "(string \<rightharpoonup> 16 word) \<Rightarrow> string list \<Rightarrow> (tls_error, 16 word list option) result" where
  "ParseTLSCipherSuites suiteMap suites =
     (if length suites = 0 then Inr None
      else (case cipher_loop suiteMap suites [] [] of
              (ids, errs) \<Rightarrow>
                if length errs > 0 then Inl (InvalidCipherSuites errs)
                else if length ids = 0 then Inr None
                else Inr (Some ids)))"

record tls_config =
  tc_MinVersion :: "16 word"
  tc_CipherSuites :: "16 word list option"
  tc_RootCAs :: "string option"
  tc_InsecureSkipVerify :: bool

datatype tls_option = WithRootCAs "string option" | WithInsecureSkipVerify bool

fun apply_tls_option :: "tls_option \<Rightarrow> tls_config \<Rightarrow> tls_config" where
  "apply_tls_option (WithRootCAs pool) c = c\<lparr>tc_RootCAs := pool\<rparr>"
| "apply_tls_option (WithInsecureSkipVerify skip) c = c\<lparr>tc_InsecureSkipVerify := skip\<rparr>"

definition BuildTLSConfig ::
  "(string \<rightharpoonup> 16 word) \<Rightarrow> string \<Rightarrow> string list \<Rightarrow> tls_option list \<Rightarrow> (tls_error, tls_config) result" where
  "BuildTLSConfig suiteMap minVersion cipherSuites opts =
     bindE (ParseTLSVersion minVersion) (\<lambda>v.
       bindE (ParseTLSCipherSuites suiteMap cipherSuites) (\<lambda>cs.
         Inr (fold apply_tls_option opts
                \<lparr>tc_MinVersion = v, tc_CipherSuites = cs, tc_RootCAs = None, tc_InsecureSkipVerify = False\<rparr>)))"

section \<open>Secure schemes\<close>

definition isSecureHTTPScheme :: "string \<Rightarrow> bool" where
  "isSecureHTTPScheme scheme \<longleftrightarrow> scheme = ''https'' \<or> scheme = ''wss''"

type_synonym url_parse = "string \<Rightarrow> (string, string) result"

definition ValidateURLRequiresTLS :: "url_parse \<Rightarrow> string \<Rightarrow> string \<Rightarrow> tls_error option" where
  "ValidateURLRequiresTLS parse url field =
     (if url = [] then None
      else (case parse url of
              Inl e \<Rightarrow> Some (InvalidURL field e)
            | Inr scheme \<Rightarrow> (if \<not> isSecureHTTPScheme scheme then Some (InsecureScheme field scheme) else None)))"

text \<open>The map of fields is an association list; fields are visited in sorted order.\<close>

definition ValidateURLsRequireTLS :: "url_parse \<Rightarrow> (string \<times> string) list \<Rightarrow> tls_error option" where
  "ValidateURLsRequireTLS parse urls =
     (let errs = List.map_filter (\<lambda>f. ValidateURLRequiresTLS parse (the (map_of urls f)) f)
                   (sort (map fst urls))
      in if length errs = 0 then None else Some (TLSValidationFailed errs))"

section \<open>The enforcing transport\<close>

record out_request =
  or_Scheme :: string
  or_Host :: string
  or_Rest :: string

datatype 'e transport_error = RequireTLSBlocked string string | BaseError 'e

type_synonym ('e, 'r, 'w) http_transport = "out_request \<Rightarrow> 'w \<Rightarrow> ('e, 'r) result \<times> 'w"

text \<open>
  \<open>TLSEnforcingTransport.RoundTrip\<close>; \<open>requireTLS\<close> is evaluated on each request, and \<open>None\<close> is
  the nil function.
\<close>

definition TLSEnforcingTransport_RoundTrip ::
  "('w \<Rightarrow> bool) option \<Rightarrow> ('e, 'r, 'w) http_transport \<Rightarrow> ('e transport_error, 'r, 'w) http_transport" where
  "TLSEnforcingTransport_RoundTrip requireTLS base req w =
     (if (case requireTLS of None \<Rightarrow> False | Some f \<Rightarrow> f w) \<and> \<not> isSecureHTTPScheme (or_Scheme req)
      then (Inl (RequireTLSBlocked (or_Host req) (or_Scheme req)), w)
      else (case base req w of (r, w') \<Rightarrow> (mapErr BaseError r, w')))"

definition NewTLSEnforcingTransport ::
  "('e, 'r, 'w) http_transport \<Rightarrow> ('e, 'r, 'w) http_transport option \<Rightarrow> ('w \<Rightarrow> bool) option
   \<Rightarrow> ('e transport_error, 'r, 'w) http_transport" where
  "NewTLSEnforcingTransport DefaultTransport base requireTLS =
     TLSEnforcingTransport_RoundTrip requireTLS (case base of None \<Rightarrow> DefaultTransport | Some b \<Rightarrow> b)"

text \<open>Of an HTTP client only the transport decides which requests leave; the rest is copied.\<close>

record ('e, 'r, 'w) http_client =
  hc_Transport :: "('e, 'r, 'w) http_transport option"
  hc_Timeout :: int

definition NewTLSEnforcingClient ::
  "('e, 'r, 'w) http_transport \<Rightarrow> ('e, 'r, 'w) http_client option \<Rightarrow> ('w \<Rightarrow> bool) option
   \<Rightarrow> ('e transport_error, 'r, 'w) http_client" where
  "NewTLSEnforcingClient DefaultTransport base requireTLS =
     (let b = (case base of None \<Rightarrow> \<lparr>hc_Transport = None, hc_Timeout = 0\<rparr> | Some c \<Rightarrow> c);
          transport = (case hc_Transport b of None \<Rightarrow> DefaultTransport | Some t \<Rightarrow> t)
      in \<lparr>hc_Transport = Some (NewTLSEnforcingTransport DefaultTransport (Some transport) requireTLS),
          hc_Timeout = hc_Timeout b\<rparr>)"

section \<open>Lemmas\<close>

lemma tls_versions_ordered:
  "VersionTLS10 < VersionTLS11" "VersionTLS11 < VersionTLS12" "VersionTLS12 < VersionTLS13"
  by (simp_all add: VersionTLS10_def VersionTLS11_def VersionTLS12_def VersionTLS13_def)

lemma ParseTLSVersion_known:
  "ParseTLSVersion s = Inr v \<Longrightarrow> v \<in> {VersionTLS10, VersionTLS11, VersionTLS12, VersionTLS13}"
  by (auto simp: ParseTLSVersion_def tlsVersionMap_def Let_def split: if_splits option.splits)

lemma cipher_loop_spec:
  "cipher_loop suiteMap ns ids errs =
     (ids @ List.map_filter suiteMap (filter (\<lambda>n. n \<noteq> []) (map TrimSpace ns)),
      errs @ filter (\<lambda>n. n \<noteq> [] \<and> suiteMap n = None) (map TrimSpace ns))"
  by (induction ns arbitrary: ids errs)
    (auto simp: Let_def List.map_filter_simps split: option.splits)

lemma ValidateURLsRequireTLS_None:
  assumes "distinct (map fst urls)"
  shows "ValidateURLsRequireTLS parse urls = None \<longleftrightarrow>
    (\<forall>(f, u) \<in> set urls. u = [] \<or> (\<exists>s. parse u = Inr s \<and> isSecureHTTPScheme s))"
proof -
  have one: "ValidateURLRequiresTLS parse u f = None \<longleftrightarrow>
      u = [] \<or> (\<exists>s. parse u = Inr s \<and> isSecureHTTPScheme s)" for u f
    by (auto simp: ValidateURLRequiresTLS_def split: sum.splits)
  have "List.map_filter g xs = [] \<longleftrightarrow> (\<forall>x \<in> set xs. g x = None)" for g :: "string \<Rightarrow> tls_error option" and xs
    by (induction xs) (auto simp: List.map_filter_simps split: option.splits)
  then have "ValidateURLsRequireTLS parse urls = None \<longleftrightarrow>
      (\<forall>f \<in> fst ` set urls. ValidateURLRequiresTLS parse (the (map_of urls f)) f = None)"
    by (simp add: ValidateURLsRequireTLS_def Let_def)
  also have "\<dots> \<longleftrightarrow> (\<forall>(f, u) \<in> set urls. ValidateURLRequiresTLS parse u f = None)"
    using assms by (force simp: map_of_eq_Some_iff)
  finally show ?thesis unfolding one .
qed

lemma blocked_request:
  "\<lbrakk>requireTLS = Some f; f w; \<not> isSecureHTTPScheme (or_Scheme req)\<rbrakk> \<Longrightarrow>
     TLSEnforcingTransport_RoundTrip requireTLS base req w =
       (Inl (RequireTLSBlocked (or_Host req) (or_Scheme req)), w)"
  by (simp add: TLSEnforcingTransport_RoundTrip_def)

text \<open>
  With \<open>require_tls\<close> in force at the moment of a request, a client built by
  \<open>NewTLSEnforcingClient\<close> on any base client sends no request over a scheme other than
  \<open>https\<close> or \<open>wss\<close>: it answers with an error naming host and scheme, and neither the base
  transport nor the default transport can influence the outcome.
\<close>

theorem require_tls_blocks_plaintext:
  assumes "requireTLS w" "\<not> isSecureHTTPScheme (or_Scheme req)"
  shows "\<exists>transport. hc_Transport (NewTLSEnforcingClient DefaultTransport base (Some requireTLS)) = Some transport
           \<and> transport req w = (Inl (RequireTLSBlocked (or_Host req) (or_Scheme req)), w)"
  using assms
  by (simp add: NewTLSEnforcingClient_def NewTLSEnforcingTransport_def Let_def blocked_request)

theorem require_tls_blocks_plaintext_witness:
  "\<exists>transport. hc_Transport (NewTLSEnforcingClient (\<lambda>r n. (Inr ''sent'', Suc n)) None (Some (\<lambda>_. True))
       :: (unit transport_error, string, nat) http_client) = Some transport
     \<and> transport \<lparr>or_Scheme = ''http'', or_Host = ''h'', or_Rest = []\<rparr> 0
         = (Inl (RequireTLSBlocked ''h'' ''http''), 0)"
  using require_tls_blocks_plaintext[of "\<lambda>_. True" 0 "\<lparr>or_Scheme = ''http'', or_Host = ''h'', or_Rest = []\<rparr>"
      "\<lambda>r n. (Inr ''sent'', Suc n)" None]
  by (simp add: isSecureHTTPScheme_def)

end
