(* ===== verification/Static_Config.thy ===== *)
theory Static_Config
  imports Complex_Main Confirmation Registry Tls
begin

text \<open>
  The server configuration and its validation: \<open>StaticConfig\<close> and \<open>Validate\<close> with its
  helpers of \<open>src/pkg/config/config.go\<close>, \<open>http_config.go\<close>, \<open>telemetry_config.go\<close>,
  \<open>config_default.go\<close>, \<open>config_default_overrides.go\<close> and \<open>state.go\<close>. Environment
  variables, \<open>os.Stat\<close>, \<open>url.Parse\<close> and the toolset registry are read from an environment
  record. A \<open>float64\<close> setting is a rational number.
\<close>

section \<open>Data\<close>

record HTTPConfig =
  h_ReadHeaderTimeout :: int
  h_MaxBodyBytes :: int
  h_RateLimitRPS :: rat
  h_RateLimitBurst :: int

record TelemetryConfig =
  t_Enabled :: "bool option"
  t_Endpoint :: string
  t_Protocol :: string
  t_TracesSampler :: string
  t_TracesSamplerArg :: "rat option"

record PromptArgument =
  pa_Name :: string
  pa_Description :: string
  pa_Required :: bool

record PromptTemplate =
  pt_Role :: string
  pt_Content :: string

record Prompt =
  p_Name :: string
  p_Title :: string
  p_Description :: string
  p_Arguments :: "PromptArgument list"
  p_Templates :: "PromptTemplate list"

text \<open>
  A slice the code compares with nil is an option.
  Raw TOML primitives are kept as text until their parser runs; parsed ones are abstract.\<close>

record StaticConfig =
  c_DeniedResources :: "GroupVersionKind list"
  c_LogLevel :: int
  c_LogFile :: string
  c_Port :: string
  c_BindAddress :: string
  c_KubeConfig :: string
  c_ListOutput :: string
  c_Stateless :: bool
  c_ReadOnly :: bool
  c_DisableDestructive :: bool
  c_Toolsets :: "string list"
  c_EnabledTools :: "string list option"
  c_DisabledTools :: "string list option"
  c_ToolOverrides :: "(string \<times> string) list"
  c_Prompts :: "Prompt list"
  c_RequireOAuth :: bool
  c_OAuthAudience :: string
  c_AuthorizationURL :: string
  c_SkipJWTVerification :: bool
  c_DisableDynamicClientRegistration :: bool
  c_OAuthScopes :: "string list"
  c_StsClientId :: string
  c_StsClientSecret :: string
  c_StsAudience :: string
  c_StsScopes :: "string list"
  c_TokenExchangeStrategy :: string
  c_StsAuthStyle :: string
  c_StsClientCertFile :: string
  c_StsClientKeyFile :: string
  c_StsFederatedTokenFile :: string
  c_StsSubjectTokenType :: string
  c_StsRequestedTokenType :: string
  c_ClusterAuthMode :: string
  c_CertificateAuthority :: string
  c_ServerURL :: string
  c_TrustProxyHeaders :: bool
  c_TLSCert :: string
  c_TLSKey :: string
  c_RequireTLS :: bool
  c_TLSMinVersion :: string
  c_TLSCipherSuites :: "string list"
  c_HTTP :: HTTPConfig
  c_ClusterProviderStrategy :: string
  c_ClusterProviderConfigs :: "(string \<times> string) list"
  c_ToolsetConfigs :: "(string \<times> string) list"
  c_ServerInstructions :: string
  c_Telemetry :: TelemetryConfig
  c_ValidationEnabled :: bool
  c_EnableTargetCompatibilityToolFilters :: bool
  c_ConfirmationFallback :: string
  c_ConfirmationRules :: "ConfirmationRule list"
  c_parsedClusterProviderConfigs :: "(string \<times> string) list"
  c_parsedToolsetConfigs :: "(string \<times> string) list"
  c_configDirPath :: string
  c_providerStrategies :: "string list"
  c_tokenExchangeStrategies :: "string list"

section \<open>Defaults\<close>

definition zeroConfig :: StaticConfig where
  "zeroConfig = \<lparr>c_DeniedResources = [], c_LogLevel = 0, c_LogFile = [], c_Port = [], c_BindAddress = [],
     c_KubeConfig = [], c_ListOutput = [], c_Stateless = False, c_ReadOnly = False,
     c_DisableDestructive = False, c_Toolsets = [], c_EnabledTools = None, c_DisabledTools = None,
     c_ToolOverrides = [], c_Prompts = [], c_RequireOAuth = False, c_OAuthAudience = [],
     c_AuthorizationURL = [], c_SkipJWTVerification = False,
     c_DisableDynamicClientRegistration = False, c_OAuthScopes = [], c_StsClientId = [],
     c_StsClientSecret = [], c_StsAudience = [], c_StsScopes = [], c_TokenExchangeStrategy = [],
     c_StsAuthStyle = [], c_StsClientCertFile = [], c_StsClientKeyFile = [],
     c_StsFederatedTokenFile = [], c_StsSubjectTokenType = [], c_StsRequestedTokenType = [],
     c_ClusterAuthMode = [], c_CertificateAuthority = [], c_ServerURL = [], c_TrustProxyHeaders = False,
     c_TLSCert = [], c_TLSKey = [], c_RequireTLS = False, c_TLSMinVersion = [], c_TLSCipherSuites = [],
     c_HTTP = \<lparr>h_ReadHeaderTimeout = 0, h_MaxBodyBytes = 0, h_RateLimitRPS = 0, h_RateLimitBurst = 0\<rparr>,
     c_ClusterProviderStrategy = [], c_ClusterProviderConfigs = [], c_ToolsetConfigs = [],
     c_ServerInstructions = [],
     c_Telemetry = \<lparr>t_Enabled = None, t_Endpoint = [], t_Protocol = [], t_TracesSampler = [],
       t_TracesSamplerArg = None\<rparr>,
     c_ValidationEnabled = False, c_EnableTargetCompatibilityToolFilters = False,
     c_ConfirmationFallback = [], c_ConfirmationRules = [], c_parsedClusterProviderConfigs = [],
     c_parsedToolsetConfigs = [], c_configDirPath = [], c_providerStrategies = [],
     c_tokenExchangeStrategies = []\<rparr>"

definition BaseDefault :: StaticConfig where
  "BaseDefault = zeroConfig\<lparr>c_BindAddress := ''0.0.0.0'', c_ListOutput := ''table'',
     c_Toolsets := [''core'', ''config''], c_ConfirmationFallback := ''allow'',
     c_HTTP := \<lparr>h_ReadHeaderTimeout = 10 * 1000000000, h_MaxBodyBytes = push_bit 20 16,
                h_RateLimitRPS = 0, h_RateLimitBurst = 0\<rparr>\<rparr>"

definition newline :: string where "newline = [CHR 0x0A]"

definition defaultOverrides :: StaticConfig where
  "defaultOverrides = zeroConfig\<lparr>c_ReadOnly := True, c_DisableDestructive := True, c_Port := ''8080'',
     c_DeniedResources :=
       [\<lparr>gvk_Group = [], gvk_Version = ''v1'', gvk_Kind = ''ServiceAccount''\<rparr>,
        \<lparr>gvk_Group = [], gvk_Version = ''v1'', gvk_Kind = ''Secret''\<rparr>,
        \<lparr>gvk_Group = ''rbac.authorization.k8s.io'', gvk_Version = ''v1'', gvk_Kind = []\<rparr>],
     c_DisabledTools := Some [''configuration_view''], c_Toolsets := [''core'', ''config''],
     c_ToolOverrides := [(''resources_create_or_update'',
       ''Create or update a Kubernetes resource in the current cluster by providing a YAML or JSON representation of the resource.'' @ newline
       @ ''IMPORTANT: For Pod resources, you MUST set spec.securityContext and spec.containers[*].securityContext. ''
       @ ''For workload resources (Deployment, StatefulSet, Job), you MUST set spec.template.spec.securityContext and spec.template.spec.containers[*].securityContext. ''
       @ ''Use a non-root security context: set runAsNonRoot: true, allowPrivilegeEscalation: false, and drop ALL capabilities (capabilities: {drop: ['' @ Quote ''ALL'' @ '']}). ''
       @ ''Omitting the SecurityContext will cause pod scheduling failures on OpenShift and other clusters that enforce restricted security policies.'')]\<rparr>"

text \<open>
  \<open>mergeConfig\<close>: \<open>encode\<close> and \<open>decode\<close> are the TOML codec; decoding writes the keys of the text
  into the given configuration and its error is ignored.
\<close>

definition mergeConfig ::
  "(StaticConfig \<Rightarrow> (string, string) result) \<Rightarrow> (string \<Rightarrow> StaticConfig \<Rightarrow> StaticConfig)
   \<Rightarrow> StaticConfig \<Rightarrow> StaticConfig \<Rightarrow> StaticConfig" where
  "mergeConfig encode decode base override =
     (case encode override of Inl _ \<Rightarrow> base | Inr text \<Rightarrow> decode text base)"

definition Default ::
  "(StaticConfig \<Rightarrow> (string, string) result) \<Rightarrow> (string \<Rightarrow> StaticConfig \<Rightarrow> StaticConfig) \<Rightarrow> StaticConfig" where
  "Default encode decode = mergeConfig encode decode BaseDefault defaultOverrides"

section \<open>Environment\<close>

record 't val_env =
  ve_Getenv :: "string \<Rightarrow> string"
  ve_Stat :: "string \<Rightarrow> string option"
  ve_UrlScheme :: url_parse
  ve_Toolsets :: "'t toolsetRegistry"
  ve_GetName :: "'t \<Rightarrow> string"
  ve_CipherSuites :: "string \<rightharpoonup> 16 word"

text \<open>Telemetry settings, where the environment takes precedence; \<open>fmt\<close> formats a float.\<close>

definition env_or :: "(string \<Rightarrow> string) \<Rightarrow> string \<Rightarrow> string \<Rightarrow> string" where
  "env_or getenv name v = (if getenv name \<noteq> [] then getenv name else v)"

definition GetEndpoint :: "(string \<Rightarrow> string) \<Rightarrow> TelemetryConfig \<Rightarrow> string" where
  "GetEndpoint getenv c = env_or getenv ''OTEL_EXPORTER_OTLP_ENDPOINT'' (t_Endpoint c)"

definition GetProtocol :: "(string \<Rightarrow> string) \<Rightarrow> TelemetryConfig \<Rightarrow> string" where
  "GetProtocol getenv c = env_or getenv ''OTEL_EXPORTER_OTLP_PROTOCOL'' (t_Protocol c)"

definition GetTracesSampler :: "(string \<Rightarrow> string) \<Rightarrow> TelemetryConfig \<Rightarrow> string" where
  "GetTracesSampler getenv c = env_or getenv ''OTEL_TRACES_SAMPLER'' (t_TracesSampler c)"

definition GetTracesSamplerArg :: "(rat \<Rightarrow> string) \<Rightarrow> (string \<Rightarrow> string) \<Rightarrow> TelemetryConfig \<Rightarrow> string" where
  "GetTracesSamplerArg fmt getenv c =
     env_or getenv ''OTEL_TRACES_SAMPLER_ARG'' (case t_TracesSamplerArg c of None \<Rightarrow> [] | Some x \<Rightarrow> fmt x)"

definition IsEnabled :: "(string \<Rightarrow> string) \<Rightarrow> TelemetryConfig \<Rightarrow> bool" where
  "IsEnabled getenv c =
     (if t_Enabled c = Some False then False else GetEndpoint getenv c \<noteq> [])"

definition GetTLSMinVersionConfig :: "(string \<Rightarrow> string) \<Rightarrow> StaticConfig \<Rightarrow> string" where
  "GetTLSMinVersionConfig getenv c = env_or getenv ''TLS_MIN_VERSION'' (c_TLSMinVersion c)"

definition GetTLSCipherSuitesConfig :: "(string \<Rightarrow> string) \<Rightarrow> StaticConfig \<Rightarrow> string list" where
  "GetTLSCipherSuitesConfig getenv c =
     (let envValue = getenv ''TLS_CIPHER_SUITES'' in
      if envValue \<noteq> [] then map TrimSpace (Split (CHR '','') envValue) else c_TLSCipherSuites c)"

text \<open>The output formats of \<open>src/pkg/output/output.go\<close>, by name.\<close>

definition Outputs :: "string list" where
  "Outputs = [''yaml'', ''table'']"

fun find_output :: "string list \<Rightarrow> string \<Rightarrow> string option" where
  "find_output [] name = None"
| "find_output (out # outs) name = (if out = name then Some out else find_output outs name)"

definition output_FromString :: "string \<Rightarrow> string option" where
  "output_FromString name = find_output Outputs name"

lemma output_FromString_None: "output_FromString name = None \<longleftrightarrow> name \<notin> {''yaml'', ''table''}"
  by (auto simp: output_FromString_def Outputs_def)

section \<open>State\<close>

text \<open>\<open>StaticConfigState\<close>: an atomic pointer; storing nil is ignored.\<close>

record StaticConfigState =
  ref :: "StaticConfig option"

definition NewStaticConfigState :: "StaticConfig option \<Rightarrow> StaticConfigState" where
  "NewStaticConfigState cfg = \<lparr>ref = cfg\<rparr>"

definition state_Load :: "StaticConfigState \<Rightarrow> StaticConfig option" where
  "state_Load s = ref s"

definition state_Store :: "StaticConfigState \<Rightarrow> StaticConfig option \<Rightarrow> StaticConfigState" where
  "state_Store s cfg = (case cfg of None \<Rightarrow> s | Some c \<Rightarrow> s\<lparr>ref := Some c\<rparr>)"

lemma state_non_nil: "state_Load s \<noteq> None \<Longrightarrow> state_Load (foldl state_Store s cs) \<noteq> None"
  by (induction cs arbitrary: s) (auto simp: state_Store_def state_Load_def split: option.splits)

end
