(* ===== verification/Mcp_Tools.thy ===== *)
theory Mcp_Tools
  imports Json Static_Config
begin

text \<open>
  Tools and the decisions about them: \<open>src/pkg/api/toolsets.go\<close>, the tool filter and
  mutators (\<open>src/pkg/mcp/tool_filter.go\<close>, \<open>tool_mutator.go\<close>), \<open>isToolApplicable\<close>, result
  construction (\<open>src/pkg/mcp/mcp.go\<close>) and the call of a tool
  (\<open>src/pkg/mcp/tools_gosdk.go\<close>). The world \<open>'w\<close> is what is outside the server, \<open>'k\<close> a
  Kubernetes client.
\<close>

section \<open>Tools\<close>

datatype schema = Schema (sc_Type: string) (sc_Description: string) (sc_Properties: "(string \<times> schema) list option")

record ToolAnnotations =
  an_Title :: string
  an_ReadOnlyHint :: "bool option"
  an_DestructiveHint :: "bool option"
  an_IdempotentHint :: "bool option"
  an_OpenWorldHint :: "bool option"

record Tool =
  tl_Name :: string
  tl_Description :: string
  tl_Annotations :: ToolAnnotations
  tl_Meta :: json_object
  tl_InputSchema :: "schema option"
  tl_OutputSchema :: "schema option"

text \<open>Structured content by the kind \<open>reflect\<close> reports for it.\<close>

datatype structured =
    NilSlice
  | Slice "json list"
  | Array "json list"
  | Object json_object
  | OtherKind json

record ToolCallResult =
  tr_Content :: string
  tr_StructuredContent :: "structured option"
  tr_Error :: "string option"

record ('w, 'k) ToolHandlerParams =
  hp_Context :: "'w call_ctx"
  hp_BaseConfig :: StaticConfig
  hp_KubernetesClient :: 'k
  hp_Arguments :: json_object
  hp_ListOutput :: "string option"

type_synonym ('w, 'k) ToolHandlerFunc =
  "('w, 'k) ToolHandlerParams \<Rightarrow> 'w \<Rightarrow> (string, ToolCallResult) result \<times> 'w"

record ('w, 'k) ServerTool =
  st_Tool :: Tool
  st_Handler :: "('w, 'k) ToolHandlerFunc"
  st_ClusterAware :: "bool option"
  st_TargetListProvider :: "bool option"
  st_TargetCompatibilityFilters :: "('w \<Rightarrow> bool) list"

definition deref :: "'a option \<Rightarrow> 'a \<Rightarrow> 'a" where
  "deref p d = (case p of None \<Rightarrow> d | Some x \<Rightarrow> x)"

definition IsClusterAware :: "('w, 'k) ServerTool \<Rightarrow> bool" where
  "IsClusterAware t = (case st_ClusterAware t of Some b \<Rightarrow> b | None \<Rightarrow> True)"

definition IsTargetListProvider :: "('w, 'k) ServerTool \<Rightarrow> bool" where
  "IsTargetListProvider t = (case st_TargetListProvider t of Some b \<Rightarrow> b | None \<Rightarrow> False)"

definition NewToolCallResultFull ::
  "string \<Rightarrow> structured option \<Rightarrow> string option \<Rightarrow> ToolCallResult" where
  "NewToolCallResultFull txt structured err =
     \<lparr>tr_Content = txt, tr_StructuredContent = structured, tr_Error = err\<rparr>"

definition NewToolCallResult :: "string \<Rightarrow> string option \<Rightarrow> ToolCallResult" where
  "NewToolCallResult content err = NewToolCallResultFull content None err"

text \<open>\<open>marshal\<close> is \<open>json.Marshal\<close>.\<close>

definition NewToolCallResultStructured ::
  "(structured \<Rightarrow> (string, string) result) \<Rightarrow> structured option \<Rightarrow> string option \<Rightarrow> ToolCallResult" where
  "NewToolCallResultStructured marshal structured err =
     (let content = (case structured of
          None \<Rightarrow> []
        | Some v \<Rightarrow> (case marshal v of Inl _ \<Rightarrow> [] | Inr b \<Rightarrow> b))
      in NewToolCallResultFull content structured err)"

section \<open>Filters\<close>

definition isToolApplicable :: "StaticConfig \<Rightarrow> 'w \<Rightarrow> ('w, 'k) ServerTool \<Rightarrow> bool" where
  "isToolApplicable c w tool =
     (let an = tl_Annotations (st_Tool tool); name = tl_Name (st_Tool tool) in
      if c_ReadOnly c \<and> \<not> deref (an_ReadOnlyHint an) False then False
      else if c_DisableDestructive c \<and> deref (an_DestructiveHint an) False then False
      else if (case c_EnabledTools c of None \<Rightarrow> False | Some ts \<Rightarrow> name \<notin> set ts) then False
      else if (case c_DisabledTools c of None \<Rightarrow> False | Some ts \<Rightarrow> name \<in> set ts) then False
      else if c_EnableTargetCompatibilityToolFilters c
        then list_all (\<lambda>f. f w) (st_TargetCompatibilityFilters tool)
      else True)"

text \<open>\<open>CompositeFilter\<close> and its copies for resources and templates: conjunction of filters.\<close>

fun CompositeFilter :: "('t \<Rightarrow> bool) list \<Rightarrow> 't \<Rightarrow> bool" where
  "CompositeFilter [] tool = True"
| "CompositeFilter (f # fs) tool = (if \<not> f tool then False else CompositeFilter fs tool)"

text \<open>\<open>ComposeMutators\<close> and its copies: the mutators in order.\<close>

fun ComposeMutators :: "('t \<Rightarrow> 't) list \<Rightarrow> 't \<Rightarrow> 't" where
  "ComposeMutators [] tool = tool"
| "ComposeMutators (m # ms) tool = ComposeMutators ms (m tool)"

definition KubeConfigTargetParameterName :: string where
  "KubeConfigTargetParameterName = ''context''"

definition ShouldIncludeTargetListTool :: "string \<Rightarrow> bool \<Rightarrow> ('w, 'k) ServerTool \<Rightarrow> bool" where
  "ShouldIncludeTargetListTool targetName isMultiTarget tool =
     (if \<not> IsTargetListProvider tool then True
      else if \<not> isMultiTarget then False
      else if tl_Name (st_Tool tool) = ''configuration_contexts_list''
              \<and> targetName \<noteq> KubeConfigTargetParameterName then False
      else if tl_Name (st_Tool tool) = targetName @ ''_list''
              \<and> targetName = KubeConfigTargetParameterName then False
      else True)"

section \<open>Mutators\<close>

definition createTargetProperty :: "string \<Rightarrow> string \<Rightarrow> schema" where
  "createTargetProperty defaultCluster targetName =
     Schema ''string'' (''Optional parameter selecting which '' @ targetName
       @ '' to run the tool in. Defaults to '' @ defaultCluster @ '' if not set'') None"

text \<open>
  \<open>WithTargetParameter\<close> fills in the schema objects it reaches through pointers; toolsets
  build their tools anew on every \<open>GetTools\<close>, so the update is local to the tool.
\<close>

definition WithTargetParameter ::
  "string \<Rightarrow> string \<Rightarrow> bool \<Rightarrow> ('w, 'k) ServerTool \<Rightarrow> ('w, 'k) ServerTool" where
  "WithTargetParameter defaultCluster targetParameterName isMultiTarget tool =
     (if \<not> IsClusterAware tool then tool
      else
        (let s = (case tl_InputSchema (st_Tool tool) of None \<Rightarrow> Schema ''object'' [] None | Some s \<Rightarrow> s);
             props = (case sc_Properties s of None \<Rightarrow> [] | Some ps \<Rightarrow> ps);
             props' = (if isMultiTarget
                       then AList.update targetParameterName (createTargetProperty defaultCluster targetParameterName) props
                       else props)
         in tool\<lparr>st_Tool := (st_Tool tool)\<lparr>tl_InputSchema :=
              Some (Schema (sc_Type s) (sc_Description s) (Some props'))\<rparr>\<rparr>))"

definition upper_char :: "char \<Rightarrow> char" where
  "upper_char c = (let n = of_char c :: nat in if 97 \<le> n \<and> n \<le> 122 then char_of (n - 32) else c)"

definition ToUpper :: "string \<Rightarrow> string" where
  "ToUpper s = map upper_char s"

definition capitalizeFirst :: "string \<Rightarrow> string" where
  "capitalizeFirst s = (if length s = 0 then s else ToUpper (take 1 s) @ drop 1 s)"

fun digits :: "nat \<Rightarrow> string" where
  "digits n = (if n < 10 then [''0123456789'' ! n] else digits (n div 10) @ [''0123456789'' ! (n mod 10)])"

declare digits.simps [simp del]

definition createTargetListHandler ::
  "('w \<Rightarrow> (string, string list) result \<times> 'w) \<Rightarrow> string \<Rightarrow> string \<Rightarrow> ('w, 'k) ToolHandlerFunc" where
  "createTargetListHandler getTargets name defaultTarget params w =
     (case getTargets w of
        (Inl err, w') \<Rightarrow> (Inr (NewToolCallResult [] (Some (''failed to find any targets: '' @ err))), w')
      | (Inr targets, w') \<Rightarrow>
          (if length targets = 0 then (Inr (NewToolCallResult (''No '' @ name @ ''s available'') None), w')
           else
             (let sorted = sort targets;
                  res = ''Available '' @ name @ ''s ('' @ digits (length sorted) @ '' total, default: ''
                    @ defaultTarget @ ''):'' @ newline @ newline
                    @ ''Format: [*] '' @ ToUpper name @ ''_NAME'' @ newline
                    @ '' (* indicates the default '' @ name @ '' used in tools if '' @ name @ '' is not set)''
                    @ newline @ newline
                    @ capitalizeFirst name @ ''s:'' @ newline @ ''---------'' @ newline
                    @ concat (map (\<lambda>t. (if t = defaultTarget then ''*'' else '' '') @ '' '' @ t @ newline) sorted)
                    @ ''---------'' @ newline @ newline
                    @ ''To use a specific '' @ name @ '' with any tool, set the '' @ [CHR 0x27] @ name @ [CHR 0x27]
                    @ '' parameter in the tool call arguments''
              in (Inr (NewToolCallResult res None), w'))))"

definition WithTargetListTool ::
  "string \<Rightarrow> string \<Rightarrow> ('w \<Rightarrow> (string, string list) result \<times> 'w) \<Rightarrow> ('w, 'k) ServerTool \<Rightarrow> ('w, 'k) ServerTool" where
  "WithTargetListTool defaultTarget name getTargets tool =
     (if tl_Name (st_Tool tool) \<noteq> ''targets_list'' then tool
      else tool\<lparr>st_Tool := (st_Tool tool)\<lparr>tl_Name := name @ ''_list'',
                  tl_Description := ''List all available '' @ name @ ''s that can be targeted by tools'',
                  tl_Annotations := (tl_Annotations (st_Tool tool))\<lparr>an_Title := capitalizeFirst name @ '' List''\<rparr>\<rparr>,
                st_Handler := createTargetListHandler getTargets name defaultTarget\<rparr>)"

text \<open>An override is its description; a nil map has no entries.\<close>

definition WithToolOverrides ::
  "(string \<times> string) list \<Rightarrow> ('w, 'k) ServerTool \<Rightarrow> ('w, 'k) ServerTool" where
  "WithToolOverrides overrides tool =
     (case map_of overrides (tl_Name (st_Tool tool)) of
        Some d \<Rightarrow> (if d \<noteq> [] then tool\<lparr>st_Tool := (st_Tool tool)\<lparr>tl_Description := d\<rparr>\<rparr> else tool)
      | None \<Rightarrow> tool)"

section \<open>Results\<close>

record CallToolResult =
  ct_IsError :: bool
  ct_Text :: string
  ct_StructuredContent :: "structured option"

definition NewTextResult :: "string \<Rightarrow> string option \<Rightarrow> CallToolResult" where
  "NewTextResult content err = (case err of
     Some e \<Rightarrow> \<lparr>ct_IsError = True, ct_Text = e, ct_StructuredContent = None\<rparr>
   | None \<Rightarrow> \<lparr>ct_IsError = False, ct_Text = content, ct_StructuredContent = None\<rparr>)"

fun ensureStructuredObject :: "structured \<Rightarrow> structured option" where
  "ensureStructuredObject NilSlice = None"
| "ensureStructuredObject (Slice vs) = Some (Object [(''items'', JArr vs)])"
| "ensureStructuredObject (Array vs) = Some (Object [(''items'', JArr vs)])"
| "ensureStructuredObject v = Some v"

definition NewStructuredResult ::
  "string \<Rightarrow> structured option \<Rightarrow> string option \<Rightarrow> CallToolResult" where
  "NewStructuredResult content structuredContent err = (case err of
     Some e \<Rightarrow> \<lparr>ct_IsError = True, ct_Text = e, ct_StructuredContent = None\<rparr>
   | None \<Rightarrow> \<lparr>ct_IsError = False, ct_Text = content,
               ct_StructuredContent = Option.bind structuredContent ensureStructuredObject\<rparr>)"

section \<open>Conversion to the SDK's tool\<close>

record mcp_Tool =
  mt_Name :: string
  mt_Description :: string
  mt_Title :: string
  mt_Meta :: json_object
  mt_ReadOnlyHint :: bool
  mt_DestructiveHint :: "bool option"
  mt_IdempotentHint :: bool
  mt_OpenWorldHint :: "bool option"
  mt_InputSchema :: schema
  mt_OutputSchema :: "schema option"

datatype convert_error =
    MissingInputSchema string
  | InputSchemaType string string
  | OutputSchemaType string string
  | InvalidURI string string
  | InvalidURITemplate string string
  | FailedToConvert string string convert_error

definition ServerToolToGoSdkTool ::
  "('w, 'k) ServerTool \<Rightarrow> (convert_error, mcp_Tool) result" where
  "ServerToolToGoSdkTool tool =
     (let t = st_Tool tool; an = tl_Annotations t in
      case tl_InputSchema t of
        None \<Rightarrow> Inl (MissingInputSchema (tl_Name t))
      | Some s \<Rightarrow>
          if sc_Type s \<noteq> ''object'' then Inl (InputSchemaType (tl_Name t) (sc_Type s))
          else
            (let input = (case sc_Properties s of
                            None \<Rightarrow> Schema (sc_Type s) (sc_Description s) (Some [])
                          | Some _ \<Rightarrow> s);
                 goSdkTool = \<lparr>mt_Name = tl_Name t, mt_Description = tl_Description t, mt_Title = an_Title an,
                   mt_Meta = tl_Meta t, mt_ReadOnlyHint = deref (an_ReadOnlyHint an) False,
                   mt_DestructiveHint = an_DestructiveHint an,
                   mt_IdempotentHint = deref (an_IdempotentHint an) False,
                   mt_OpenWorldHint = an_OpenWorldHint an, mt_InputSchema = input, mt_OutputSchema = None\<rparr>
             in case tl_OutputSchema t of
                  None \<Rightarrow> Inr goSdkTool
                | Some os \<Rightarrow>
                    if sc_Type os \<noteq> ''object'' then Inl (OutputSchemaType (tl_Name t) (sc_Type os))
                    else Inr (goSdkTool\<lparr>mt_OutputSchema := Some os\<rparr>)))"

section \<open>Calling a tool\<close>

datatype derive_error = ErrUnknownTarget string | DeriveError string

fun derive_text :: "derive_error \<Rightarrow> string" where
  "derive_text (ErrUnknownTarget m) = m"
| "derive_text (DeriveError m) = m"

record ('w, 'k) Provider =
  pv_TargetParameterName :: string
  pv_DefaultTarget :: string
  pv_IsMultiTarget :: bool
  pv_GetTargets :: "'w \<Rightarrow> (string, string list) result \<times> 'w"
  pv_GetDerivedKubernetes :: "'w call_ctx \<Rightarrow> string \<Rightarrow> 'w \<Rightarrow> (derive_error, 'k) result \<times> 'w"

text \<open>
  A \<open>tools/call\<close> request: the SDK hands over the raw arguments, or parameters of another type.
\<close>

datatype call_params = CallToolParamsRaw (cp_Name: string) (cp_Arguments: string) | OtherParams

definition GoSdkToolCallParamsToToolCallRequest ::
  "(string \<Rightarrow> (string, json_object) result) \<Rightarrow> string \<Rightarrow> string \<Rightarrow> (string, string \<times> json_object) result" where
  "GoSdkToolCallParamsToToolCallRequest unmarshal name arguments =
     (if length arguments > 0 then
        (case unmarshal arguments of
           Inl e \<Rightarrow> Inl (''failed to unmarshal tool call arguments: '' @ e)
         | Inr args \<Rightarrow> Inr (name, args))
      else Inr (name, []))"

definition GoSdkToolCallRequestToToolCallRequest ::
  "(string \<Rightarrow> (string, json_object) result) \<Rightarrow> call_params \<Rightarrow> (string, string \<times> json_object) result" where
  "GoSdkToolCallRequestToToolCallRequest unmarshal params = (case params of
     OtherParams \<Rightarrow> Inl ''invalid tool call parameters for tool call request''
   | CallToolParamsRaw name arguments \<Rightarrow> GoSdkToolCallParamsToToolCallRequest unmarshal name arguments)"

definition GetString :: "json_object \<Rightarrow> string \<Rightarrow> string \<Rightarrow> string" where
  "GetString args key d = (case map_of args key of Some (JStr s) \<Rightarrow> s | _ \<Rightarrow> d)"

definition rules_of :: "StaticConfig \<Rightarrow> ConfirmationRulesProvider" where
  "rules_of cfg = \<lparr>GetConfirmationRules = c_ConfirmationRules cfg,
                   GetConfirmationFallback = c_ConfirmationFallback cfg\<rparr>"

text \<open>
  The handler \<open>ServerToolToGoSdkTool\<close> builds for a tool, run against the configuration the
  server has at that moment. The left value is a protocol error; the logging of a failed
  Kubernetes call has no effect on the result.
\<close>

definition goSdkHandler ::
  "(string \<Rightarrow> (string, json_object) result) \<Rightarrow> ('w, 'k) Provider \<Rightarrow> StaticConfig \<Rightarrow> ('w, 'k) ServerTool
   \<Rightarrow> 'w call_ctx \<Rightarrow> call_params \<Rightarrow> 'w \<Rightarrow> (string, CallToolResult) result \<times> 'w" where
  "goSdkHandler unmarshal p cfg tool ctx request w =
     (case GoSdkToolCallRequestToToolCallRequest unmarshal request of
        Inl err \<Rightarrow> (Inl (err @ '' for tool '' @ tl_Name (st_Tool tool)), w)
      | Inr (name, args) \<Rightarrow>
          (case CheckToolRules (rules_of cfg) (sessionElicitor_Elicit (cx_Session ctx))
                  (tl_Name (st_Tool tool)) (an_DestructiveHint (tl_Annotations (st_Tool tool))) w of
             (Some confirmErr, w1) \<Rightarrow> (Inr (NewTextResult [] (Some (error_text confirmErr))), w1)
           | (None, w1) \<Rightarrow>
               (let cluster = GetString args (pv_TargetParameterName p) (pv_DefaultTarget p) in
                case pv_GetDerivedKubernetes p ctx cluster w1 of
                  (Inl (ErrUnknownTarget m), w2) \<Rightarrow>
                    (Inr (NewTextResult [] (Some (''target '' @ Quote cluster @ '': '' @ m))), w2)
                | (Inl (DeriveError m), w2) \<Rightarrow> (Inl m, w2)
                | (Inr k, w2) \<Rightarrow>
                    (case st_Handler tool
                            \<lparr>hp_Context = ctx, hp_BaseConfig = cfg, hp_KubernetesClient = k,
                             hp_Arguments = args, hp_ListOutput = output_FromString (c_ListOutput cfg)\<rparr> w2 of
                       (Inl err, w3) \<Rightarrow> (Inl err, w3)
                     | (Inr res, w3) \<Rightarrow>
                         (Inr (NewStructuredResult (tr_Content res) (tr_StructuredContent res) (tr_Error res)), w3)))))"

section \<open>Lemmas\<close>

lemma CompositeFilter_list_all: "CompositeFilter fs t \<longleftrightarrow> list_all (\<lambda>f. f t) fs"
  by (induction fs) auto

lemma ComposeMutators_fold: "ComposeMutators ms t = fold (\<lambda>m. m) ms t"
  by (induction ms arbitrary: t) auto

lemma ComposeMutators_append: "ComposeMutators (ms @ ns) t = ComposeMutators ns (ComposeMutators ms t)"
  by (induction ms arbitrary: t) auto

lemma isToolApplicable_iff:
  "isToolApplicable c w tool \<longleftrightarrow>
     (c_ReadOnly c \<longrightarrow> an_ReadOnlyHint (tl_Annotations (st_Tool tool)) = Some True)
     \<and> (c_DisableDestructive c \<longrightarrow> an_DestructiveHint (tl_Annotations (st_Tool tool)) \<noteq> Some True)
     \<and> (\<forall>ts. c_EnabledTools c = Some ts \<longrightarrow> tl_Name (st_Tool tool) \<in> set ts)
     \<and> (\<forall>ts. c_DisabledTools c = Some ts \<longrightarrow> tl_Name (st_Tool tool) \<notin> set ts)
     \<and> (c_EnableTargetCompatibilityToolFilters c \<longrightarrow>
          (\<forall>f \<in> set (st_TargetCompatibilityFilters tool). f w))"
  by (auto simp: isToolApplicable_def deref_def Let_def list_all_iff split: option.splits)

text \<open>Mutators touch neither the hints nor the filters a tool is judged by.\<close>

lemma mutators_keep_hints:
  "an_ReadOnlyHint (tl_Annotations (st_Tool (WithTargetParameter d n m t))) = an_ReadOnlyHint (tl_Annotations (st_Tool t))"
  "an_DestructiveHint (tl_Annotations (st_Tool (WithTargetParameter d n m t))) = an_DestructiveHint (tl_Annotations (st_Tool t))"
  "an_ReadOnlyHint (tl_Annotations (st_Tool (WithTargetListTool d n g t))) = an_ReadOnlyHint (tl_Annotations (st_Tool t))"
  "an_DestructiveHint (tl_Annotations (st_Tool (WithTargetListTool d n g t))) = an_DestructiveHint (tl_Annotations (st_Tool t))"
  "an_ReadOnlyHint (tl_Annotations (st_Tool (WithToolOverrides ov t))) = an_ReadOnlyHint (tl_Annotations (st_Tool t))"
  "an_DestructiveHint (tl_Annotations (st_Tool (WithToolOverrides ov t))) = an_DestructiveHint (tl_Annotations (st_Tool t))"
  by (simp_all add: WithTargetParameter_def WithTargetListTool_def WithToolOverrides_def Let_def
      split: option.split)

lemma ServerToolToGoSdkTool_name:
  "ServerToolToGoSdkTool tool = Inr m \<Longrightarrow> mt_Name m = tl_Name (st_Tool tool)"
  by (auto simp: ServerToolToGoSdkTool_def Let_def split: option.splits if_splits)

lemma ensureStructuredObject_object:
  "ensureStructuredObject v = Some u \<Longrightarrow> (\<exists>fs. u = Object fs) \<or> (\<exists>j. v = OtherKind j)"
  by (cases v) auto

definition schemas_ok :: "('w, 'k) ServerTool \<Rightarrow> bool" where
  "schemas_ok tool \<longleftrightarrow>
     (case tl_InputSchema (st_Tool tool) of None \<Rightarrow> False | Some s \<Rightarrow> sc_Type s = ''object'')
   \<and> (case tl_OutputSchema (st_Tool tool) of None \<Rightarrow> True | Some s \<Rightarrow> sc_Type s = ''object'')"

text \<open>
  C40: every tool the server registers with the SDK is well-formed: conversion succeeds exactly
  when the input schema is present and an object schema and the output schema, if any, is one
  too; the registered tool then keeps name and description, advertises an object input schema
  with initialised properties, and carries the annotations with unset hints read as false.
\<close>

theorem sdk_tool_wellformed:
  "case ServerToolToGoSdkTool tool of
     Inl e \<Rightarrow> \<not> schemas_ok tool
   | Inr m \<Rightarrow> schemas_ok tool
       \<and> mt_Name m = tl_Name (st_Tool tool) \<and> mt_Description m = tl_Description (st_Tool tool)
       \<and> sc_Type (mt_InputSchema m) = ''object'' \<and> sc_Properties (mt_InputSchema m) \<noteq> None
       \<and> mt_OutputSchema m = tl_OutputSchema (st_Tool tool)
       \<and> (mt_ReadOnlyHint m \<longleftrightarrow> an_ReadOnlyHint (tl_Annotations (st_Tool tool)) = Some True)
       \<and> mt_DestructiveHint m = an_DestructiveHint (tl_Annotations (st_Tool tool))"
  by (auto simp: ServerToolToGoSdkTool_def schemas_ok_def deref_def Let_def split: option.splits)

section \<open>Confirmed tool calls\<close>

text \<open>
  C12: a call of a tool to which a tool-level confirmation rule applies runs nothing without
  consent. If no session is attached, or the session refuses every prompt that contains the
  rule's message (it does not accept, and it does not report missing elicitation support under
  a fallback other than \<open>deny\<close>), the call ends in an error result that neither the tool's
  handler nor the cluster provider can influence.
\<close>

theorem tool_call_needs_consent:
  assumes rule: "r \<in> set (c_ConfirmationRules cfg)"
      "tool_applies (tl_Name (st_Tool tool), an_DestructiveHint (tl_Annotations (st_Tool tool))) r"
    and parsed: "GoSdkToolCallRequestToToolCallRequest unmarshal request = Inr args"
    and refused: "\<And>el msg. \<lbrakk>cx_Session ctx = ServerSession el; Contains msg (cr_Message r)\<rbrakk> \<Longrightarrow>
        \<not> session_proceeds (c_ConfirmationFallback cfg) (fst (el (confirmation_params msg) w))"
  shows "\<exists>res w1. ct_IsError res
           \<and> (\<forall>p h. goSdkHandler unmarshal p cfg (tool\<lparr>st_Handler := h\<rparr>) ctx request w = (Inr res, w1))"
proof -
  let ?q = "(tl_Name (st_Tool tool), an_DestructiveHint (tl_Annotations (st_Tool tool)))"
  let ?ask = "sessionElicitor_Elicit (cx_Session ctx)" and ?p = "rules_of cfg"
  have rules: "r \<in> set (GetConfirmationRules ?p)" using rule(1) by (simp add: rules_of_def)
  have "\<not> answer_proceeds (GetConfirmationFallback ?p) (fst (?ask (confirmation_params (tool.prompt ?p ?q)) w))"
    using refused tool.prompt_mentions[OF rules rule(2)]
    unfolding elicitors_agree contextElicitor_proceeds rules_of_def by auto
  then have "fst (tool_check ?p ?ask ?q w) \<noteq> None"
    using tool.proceeds_iff[of ?p ?ask ?q w] rules rule(2) by auto
  then obtain e w1 where "tool_check ?p ?ask ?q w = (Some e, w1)"
    by (metis option.exhaust prod.collapse)
  then have "goSdkHandler unmarshal p cfg (tool\<lparr>st_Handler := h\<rparr>) ctx request w
      = (Inr (NewTextResult [] (Some (error_text e))), w1)" for p h
    using parsed by (simp add: goSdkHandler_def case_prod_beta)
  moreover have "ct_IsError (NewTextResult [] (Some (error_text e)))" by (simp add: NewTextResult_def)
  ultimately show ?thesis by blast
qed

definition pods_delete :: "(nat, unit) ServerTool" where
  "pods_delete = \<lparr>st_Tool = \<lparr>tl_Name = ''pods_delete'', tl_Description = [],
       tl_Annotations = \<lparr>an_Title = [], an_ReadOnlyHint = None, an_DestructiveHint = Some True,
         an_IdempotentHint = None, an_OpenWorldHint = None\<rparr>,
       tl_Meta = [], tl_InputSchema = None, tl_OutputSchema = None\<rparr>,
     st_Handler = (\<lambda>_ n. (Inr (NewToolCallResult ''deleted'' None), Suc n)),
     st_ClusterAware = None, st_TargetListProvider = None, st_TargetCompatibilityFilters = []\<rparr>"

definition confirm_destructive :: StaticConfig where
  "confirm_destructive = zeroConfig\<lparr>c_ConfirmationRules :=
     [\<lparr>cr_Tool = [], cr_Destructive = Some True, cr_Verb = [], cr_Kind = [], cr_Group = [],
       cr_Version = [], cr_Name = [], cr_Namespace = [], cr_Message = ''sure?''\<rparr>]\<rparr>"

theorem tool_call_needs_consent_witness:
  "\<exists>res w1. ct_IsError res \<and> (\<forall>p h. goSdkHandler (\<lambda>_. Inr []) p confirm_destructive
     (pods_delete\<lparr>st_Handler := h\<rparr>) \<lparr>cx_Session = NoSession, cx_Authorization = None, cx_UserAgent = None\<rparr>
     (CallToolParamsRaw ''pods_delete'' []) 0 = (Inr res, w1))"
  by (rule tool_call_needs_consent[where args = "(''pods_delete'', [])"
        and r = "\<lparr>cr_Tool = [], cr_Destructive = Some True, cr_Verb = [], cr_Kind = [], cr_Group = [],
           cr_Version = [], cr_Name = [], cr_Namespace = [], cr_Message = ''sure?''\<rparr>"])
    (simp_all add: confirm_destructive_def pods_delete_def IsToolLevel_def field_ok_def
      GoSdkToolCallRequestToToolCallRequest_def GoSdkToolCallParamsToToolCallRequest_def)

end
