(* ===== verification/Prompts.thy ===== *)
theory Prompts
  imports Static_Config
begin

text \<open>
  Prompts: \<open>src/pkg/api/prompts.go\<close>, \<open>src/pkg/prompts/prompts.go\<close> (prompts defined in the
  configuration) and \<open>src/pkg/mcp/prompt_mutator.go\<close>. Handlers of toolset prompts are
  parameters of type \<open>'h\<close>.
\<close>

record PromptMessage =
  pm_Role :: string
  pm_Type :: string
  pm_Text :: string

record PromptCallResult =
  pr_Description :: string
  pr_Messages :: "PromptMessage list"
  pr_Error :: "string option"

record 'h ServerPrompt =
  sp_Prompt :: Prompt
  sp_Handler :: 'h
  sp_ClusterAware :: "bool option"

definition prompt_IsClusterAware :: "'h ServerPrompt \<Rightarrow> bool" where
  "prompt_IsClusterAware s = (case sp_ClusterAware s of Some b \<Rightarrow> b | None \<Rightarrow> True)"

definition NewPromptCallResult :: "string \<Rightarrow> PromptMessage list \<Rightarrow> string option \<Rightarrow> PromptCallResult" where
  "NewPromptCallResult d ms err = \<lparr>pr_Description = d, pr_Messages = ms, pr_Error = err\<rparr>"

section \<open>Prompts of the configuration\<close>

definition placeholder :: "string \<Rightarrow> string" where
  "placeholder n = ''{{'' @ n @ ''}}''"

fun substituteArguments :: "string \<Rightarrow> PromptArgument list \<Rightarrow> (string \<rightharpoonup> string) \<Rightarrow> string" where
  "substituteArguments res [] args = res"
| "substituteArguments res (a # as) args =
     (case args (pa_Name a) of
        Some v \<Rightarrow> substituteArguments (ReplaceAll res (placeholder (pa_Name a)) v) as args
      | None \<Rightarrow>
          (if \<not> pa_Required a
           then substituteArguments (ReplaceAll res (placeholder (pa_Name a)) []) as args
           else substituteArguments res as args))"

fun missing_argument :: "PromptArgument list \<Rightarrow> (string \<rightharpoonup> string) \<Rightarrow> string option" where
  "missing_argument [] args = None"
| "missing_argument (a # as) args =
     (if pa_Required a \<and> args (pa_Name a) = None then Some (pa_Name a) else missing_argument as args)"

definition createPromptHandler :: "Prompt \<Rightarrow> (string \<rightharpoonup> string) \<Rightarrow> (string, PromptCallResult) result" where
  "createPromptHandler prompt args =
     (case missing_argument (p_Arguments prompt) args of
        Some n \<Rightarrow> Inl (''required argument '' @ [CHR 0x27] @ n @ [CHR 0x27] @ '' is missing'')
      | None \<Rightarrow>
          Inr (NewPromptCallResult (p_Description prompt)
            (map (\<lambda>t. \<lparr>pm_Role = pt_Role t, pm_Type = ''text'',
                       pm_Text = substituteArguments (pt_Content t) (p_Arguments prompt) args\<rparr>)
               (p_Templates prompt)) None))"

definition ToServerPrompts :: "(Prompt \<Rightarrow> 'h) \<Rightarrow> Prompt list \<Rightarrow> 'h ServerPrompt list" where
  "ToServerPrompts mkHandler ps =
     map (\<lambda>p. \<lparr>sp_Prompt = p, sp_Handler = mkHandler p, sp_ClusterAware = None\<rparr>) ps"

definition sp_Name :: "'h ServerPrompt \<Rightarrow> string" where
  "sp_Name p = p_Name (sp_Prompt p)"

text \<open>The override map is built by assignment in order; only its domain is used.\<close>

definition MergePrompts :: "'h ServerPrompt list \<Rightarrow> 'h ServerPrompt list \<Rightarrow> 'h ServerPrompt list" where
  "MergePrompts base override =
     (let overrideMap = fold (\<lambda>p. AList.update (sp_Name p) p) override [] in
      filter (\<lambda>p. map_of overrideMap (sp_Name p) = None) base @ override)"

section \<open>The target argument\<close>

definition WithPromptTargetParameter ::
  "string \<Rightarrow> string \<Rightarrow> bool \<Rightarrow> 'h ServerPrompt \<Rightarrow> 'h ServerPrompt" where
  "WithPromptTargetParameter defaultTarget name isMultiTarget prompt =
     (if \<not> prompt_IsClusterAware prompt then prompt
      else if isMultiTarget then
        prompt\<lparr>sp_Prompt := (sp_Prompt prompt)\<lparr>p_Arguments := p_Arguments (sp_Prompt prompt)
          @ [\<lparr>pa_Name = name,
              pa_Description = ''Optional parameter selecting which '' @ name
                @ '' to run the prompt in. Defaults to '' @ defaultTarget @ '' if not set'',
              pa_Required = False\<rparr>]\<rparr>\<rparr>
      else prompt)"

section \<open>Lemmas\<close>

lemma overrideMap_dom:
  "dom (map_of (fold (\<lambda>p. AList.update (sp_Name p) p) ps acc)) = dom (map_of acc) \<union> sp_Name ` set ps"
  by (induction ps arbitrary: acc) (auto simp: update_conv')

lemma MergePrompts_filter:
  "MergePrompts base override = filter (\<lambda>p. sp_Name p \<notin> sp_Name ` set override) base @ override"
proof -
  have "map_of (fold (\<lambda>p. AList.update (sp_Name p) p) override []) n = None
      \<longleftrightarrow> n \<notin> sp_Name ` set override" for n
    using overrideMap_dom[of override "[]"] by (auto simp: domIff)
  then show ?thesis by (simp add: MergePrompts_def)
qed

definition missing_args :: "PromptArgument list \<Rightarrow> (string \<rightharpoonup> string) \<Rightarrow> PromptArgument list" where
  "missing_args as args = filter (\<lambda>a. pa_Required a \<and> args (pa_Name a) = None) as"

lemma missing_argument_first:
  "missing_argument as args = (case missing_args as args of [] \<Rightarrow> None | a # _ \<Rightarrow> Some (pa_Name a))"
  by (induction as) (simp_all add: missing_args_def)

lemma substituteArguments_untouched:
  assumes "\<And>a. a \<in> set as \<Longrightarrow> \<not> Contains s (placeholder (pa_Name a))"
  shows "substituteArguments s as args = s"
  using assms
proof (induction as)
  case (Cons a as)
  then have "ReplaceAll s (placeholder (pa_Name a)) v = s" for v
    by (simp add: ReplaceAll_absent)
  with Cons show ?case by (auto split: option.splits)
qed simp

text \<open>
  Prompts of the configuration take precedence. The merged list contains every prompt of
  the configuration and exactly those toolset prompts whose name the configuration does not
  use, in their order; so a name is served by a toolset only if the configuration is silent
  about it, and merging adds or loses no name.
\<close>

theorem merge_prompts_precedence:
  "MergePrompts base override = filter (\<lambda>p. sp_Name p \<notin> sp_Name ` set override) base @ override
   \<and> sp_Name ` set (MergePrompts base override) = sp_Name ` set base \<union> sp_Name ` set override"
  unfolding MergePrompts_filter by auto

text \<open>
  A prompt of the configuration is rendered exactly when no required argument is missing;
  then there is one text message per template, with the template's role, and text that mentions
  no declared placeholder is passed through unchanged. Otherwise the error names the first
  missing required argument.
\<close>

theorem prompt_rendering:
  "case createPromptHandler prompt args of
     Inl e \<Rightarrow> (\<exists>a as. missing_args (p_Arguments prompt) args = a # as
       \<and> e = ''required argument '' @ [CHR 0x27] @ pa_Name a @ [CHR 0x27] @ '' is missing'')
   | Inr res \<Rightarrow> missing_args (p_Arguments prompt) args = []
       \<and> pr_Error res = None \<and> map pm_Role (pr_Messages res) = map pt_Role (p_Templates prompt)
       \<and> list_all2 (\<lambda>m t. pm_Type m = ''text'' \<and> (pm_Text m = pt_Content t
            \<or> (\<exists>a \<in> set (p_Arguments prompt). Contains (pt_Content t) (placeholder (pa_Name a)))))
          (pr_Messages res) (p_Templates prompt)"
proof (cases "missing_args (p_Arguments prompt) args")
  case Nil
  have "list_all2 (\<lambda>m t. pm_Type m = ''text'' \<and> (pm_Text m = pt_Content t
      \<or> (\<exists>a \<in> set (p_Arguments prompt). Contains (pt_Content t) (placeholder (pa_Name a)))))
      (map (\<lambda>t. \<lparr>pm_Role = pt_Role t, pm_Type = ''text'',
         pm_Text = substituteArguments (pt_Content t) (p_Arguments prompt) args\<rparr>) ts) ts" for ts
    using substituteArguments_untouched[of "p_Arguments prompt" _ args]
    by (induction ts) auto
  with Nil show ?thesis
    by (simp add: createPromptHandler_def missing_argument_first NewPromptCallResult_def comp_def)
next
  case (Cons a as)
  then show ?thesis by (simp add: createPromptHandler_def missing_argument_first)
qed

end
