(* ===== verification/Config_Validate.thy ===== *)
theory Config_Validate
  imports Static_Config
begin

text \<open>
  \<open>StaticConfig.Validate\<close> and its helpers, in the order of \<open>src/pkg/config/config.go\<close>, and
  the exact characterisation of the configurations it accepts.
\<close>

datatype cfg_error =
    InvalidOutputName string
  | InvalidToolset toolset_error
  | InvalidClusterProvider string "string list"
  | OAuthFieldsWithoutOAuth
  | BadAuthorizationURL string
  | AuthorizationURLScheme
  | UnverifiedJWT
  | BadCertificateAuthority string
  | TLSPairIncomplete
  | BadTLSCert string
  | BadTLSKey string
  | TLSSettings tls_error
  | InvalidClusterAuthMode string
  | KubeconfigWithOAuth
  | KubeconfigWithTokenExchange
  | TokenExchangeWithoutOAuth
  | InvalidExchangeStrategy string "string list"
  | AssertionNeedsCert
  | AssertionNeedsKey
  | BadAssertionCert string
  | BadAssertionKey string
  | FederatedNeedsToken
  | BadFederatedToken string
  | InvalidAuthStyle string
  | InvalidFallback string
  | InvalidRules "(nat \<times> rule_error) list"
  | NegativeRPS rat
  | NegativeBurst int

section \<open>The checks\<close>

definition HTTPConfig_Validate :: "HTTPConfig \<Rightarrow> cfg_error option" where
  "HTTPConfig_Validate c =
     (if h_RateLimitRPS c < 0 then Some (NegativeRPS (h_RateLimitRPS c))
      else if h_RateLimitBurst c < 0 then Some (NegativeBurst (h_RateLimitBurst c))
      else None)"

fun rule_errors :: "nat \<Rightarrow> ConfirmationRule list \<Rightarrow> (nat \<times> rule_error) list" where
  "rule_errors i [] = []"
| "rule_errors i (r # rs) = (case ConfirmationRule_Validate r of
     Some e \<Rightarrow> (i, e) # rule_errors (Suc i) rs
   | None \<Rightarrow> rule_errors (Suc i) rs)"

definition validateConfirmation :: "StaticConfig \<Rightarrow> cfg_error option" where
  "validateConfirmation c =
     (let fb = c_ConfirmationFallback c in
      if fb \<noteq> [] \<and> fb \<noteq> ''allow'' \<and> fb \<noteq> ''deny'' then Some (InvalidFallback fb)
      else (let errs = rule_errors 0 (c_ConfirmationRules c) in
            if length errs > 0 then Some (InvalidRules errs) else None))"

definition validateSkipJWTVerification :: "StaticConfig \<Rightarrow> cfg_error option" where
  "validateSkipJWTVerification c =
     (if \<not> c_RequireOAuth c \<or> c_AuthorizationURL c \<noteq> [] then None
      else if c_SkipJWTVerification c then None
      else Some UnverifiedJWT)"

definition stat_err :: "'t val_env \<Rightarrow> (string \<Rightarrow> cfg_error) \<Rightarrow> string \<Rightarrow> cfg_error option" where
  "stat_err env mk f = map_option mk (ve_Stat env f)"

definition validateTokenExchange :: "'t val_env \<Rightarrow> StaticConfig \<Rightarrow> cfg_error option" where
  "validateTokenExchange env c =
     (if c_TokenExchangeStrategy c \<noteq> [] \<and> length (c_tokenExchangeStrategies c) > 0
         \<and> c_TokenExchangeStrategy c \<notin> set (c_tokenExchangeStrategies c)
      then Some (InvalidExchangeStrategy (c_TokenExchangeStrategy c) (c_tokenExchangeStrategies c))
      else if c_StsAuthStyle c \<in> {[], ''params'', ''header''} then None
      else if c_StsAuthStyle c = ''assertion'' then
        (if c_StsClientCertFile c = [] then Some AssertionNeedsCert
         else if c_StsClientKeyFile c = [] then Some AssertionNeedsKey
         else orElseErr (stat_err env BadAssertionCert (c_StsClientCertFile c))
                (stat_err env BadAssertionKey (c_StsClientKeyFile c)))
      else if c_StsAuthStyle c = ''federated'' then
        (if c_StsFederatedTokenFile c = [] then Some FederatedNeedsToken
         else stat_err env BadFederatedToken (c_StsFederatedTokenFile c))
      else Some (InvalidAuthStyle (c_StsAuthStyle c)))"

definition validateTLSSettings :: "'t val_env \<Rightarrow> StaticConfig \<Rightarrow> cfg_error option" where
  "validateTLSSettings env c =
     (case ParseTLSVersion (GetTLSMinVersionConfig (ve_Getenv env) c) of
        Inl e \<Rightarrow> Some (TLSSettings e)
      | Inr _ \<Rightarrow>
          (case ParseTLSCipherSuites (ve_CipherSuites env) (GetTLSCipherSuitesConfig (ve_Getenv env) c) of
             Inl e \<Rightarrow> Some (TLSSettings e)
           | Inr _ \<Rightarrow> None))"

definition ValidateRequireTLS :: "'t val_env \<Rightarrow> StaticConfig \<Rightarrow> cfg_error option" where
  "ValidateRequireTLS env c =
     (if \<not> c_RequireTLS c then None
      else map_option TLSSettings (ValidateURLsRequireTLS (ve_UrlScheme env)
             [(''authorization_url'', c_AuthorizationURL c), (''server_url'', c_ServerURL c)]))"

definition ResolveClusterAuthMode :: "StaticConfig \<Rightarrow> string" where
  "ResolveClusterAuthMode c = (if c_ClusterAuthMode c \<noteq> [] then c_ClusterAuthMode c else ''passthrough'')"

definition ValidateClusterAuthMode :: "StaticConfig \<Rightarrow> cfg_error option" where
  "ValidateClusterAuthMode c =
     (let hasTokenExchange = (c_TokenExchangeStrategy c \<noteq> [] \<or> c_StsAudience c \<noteq> []) in
      if c_ClusterAuthMode c \<noteq> [] \<and> c_ClusterAuthMode c \<noteq> ''passthrough'' \<and> c_ClusterAuthMode c \<noteq> ''kubeconfig''
      then Some (InvalidClusterAuthMode (c_ClusterAuthMode c))
      else if c_ClusterAuthMode c = ''kubeconfig'' \<and> c_RequireOAuth c then Some KubeconfigWithOAuth
      else if c_ClusterAuthMode c = ''kubeconfig'' \<and> hasTokenExchange then Some KubeconfigWithTokenExchange
      else if \<not> c_RequireOAuth c \<and> hasTokenExchange then Some TokenExchangeWithoutOAuth
      else None)"

text \<open>The whitespace normalisation at the start of \<open>Validate\<close>.\<close>

definition normalize :: "StaticConfig \<Rightarrow> StaticConfig" where
  "normalize c = c\<lparr>c_CertificateAuthority := TrimSpace (c_CertificateAuthority c),
     c_TLSCert := TrimSpace (c_TLSCert c), c_TLSKey := TrimSpace (c_TLSKey c),
     c_StsAuthStyle := TrimSpace (c_StsAuthStyle c),
     c_StsClientCertFile := TrimSpace (c_StsClientCertFile c),
     c_StsClientKeyFile := TrimSpace (c_StsClientKeyFile c),
     c_StsFederatedTokenFile := TrimSpace (c_StsFederatedTokenFile c),
     c_StsSubjectTokenType := TrimSpace (c_StsSubjectTokenType c),
     c_StsRequestedTokenType := TrimSpace (c_StsRequestedTokenType c)\<rparr>"

definition validate_authorization_url :: "'t val_env \<Rightarrow> StaticConfig \<Rightarrow> cfg_error option" where
  "validate_authorization_url env c =
     (if c_AuthorizationURL c = [] then None
      else (case ve_UrlScheme env (c_AuthorizationURL c) of
              Inl e \<Rightarrow> Some (BadAuthorizationURL e)
            | Inr s \<Rightarrow> (if s \<noteq> ''https'' \<and> s \<noteq> ''http'' then Some AuthorizationURLScheme else None)))"

text \<open>\<open>Validate\<close>: normalises its receiver, then reports the first failing check.\<close>

definition StaticConfig_Validate :: "'t val_env \<Rightarrow> StaticConfig \<Rightarrow> cfg_error option \<times> StaticConfig" where
  "StaticConfig_Validate env c0 =
     (let c = normalize c0 in
      (orElseErr (if output_FromString (c_ListOutput c) = None then Some (InvalidOutputName (c_ListOutput c)) else None)
      (orElseErr (map_option InvalidToolset (toolsets_Validate (ve_GetName env) (ve_Toolsets env) (c_Toolsets c)))
      (orElseErr (if c_ClusterProviderStrategy c \<noteq> [] \<and> length (c_providerStrategies c) > 0
                     \<and> c_ClusterProviderStrategy c \<notin> set (c_providerStrategies c)
                  then Some (InvalidClusterProvider (c_ClusterProviderStrategy c) (c_providerStrategies c)) else None)
      (orElseErr (if \<not> c_RequireOAuth c \<and> (c_OAuthAudience c \<noteq> [] \<or> c_AuthorizationURL c \<noteq> []
                     \<or> c_ServerURL c \<noteq> [] \<or> c_CertificateAuthority c \<noteq> [])
                  then Some OAuthFieldsWithoutOAuth else None)
      (orElseErr (validate_authorization_url env c)
      (orElseErr (validateSkipJWTVerification c)
      (orElseErr (if c_CertificateAuthority c \<noteq> []
                  then stat_err env BadCertificateAuthority (c_CertificateAuthority c) else None)
      (orElseErr (if c_TLSCert c \<noteq> [] \<and> c_TLSKey c = [] \<or> c_TLSCert c = [] \<and> c_TLSKey c \<noteq> []
                  then Some TLSPairIncomplete else None)
      (orElseErr (if c_TLSCert c \<noteq> [] then stat_err env BadTLSCert (c_TLSCert c) else None)
      (orElseErr (if c_TLSKey c \<noteq> [] then stat_err env BadTLSKey (c_TLSKey c) else None)
      (orElseErr (validateTLSSettings env c)
      (orElseErr (ValidateRequireTLS env c)
      (orElseErr (ValidateClusterAuthMode c)
      (orElseErr (validateTokenExchange env c)
      (orElseErr (validateConfirmation c)
                 (HTTPConfig_Validate (c_HTTP c)))))))))))))))), c))"

section \<open>What is accepted\<close>

lemma rule_errors_Nil: "rule_errors i rs = [] \<longleftrightarrow> (\<forall>r \<in> set rs. IsToolLevel r \<noteq> IsKubeLevel r)"
proof (induction rs arbitrary: i)
  case (Cons r rs)
  then show ?case
    using validated_rule_one_level[of r] by (cases "ConfirmationRule_Validate r") auto
qed simp

lemma validateConfirmation_None:
  "validateConfirmation c = None \<longleftrightarrow> c_ConfirmationFallback c \<in> {[], ''allow'', ''deny''}
     \<and> (\<forall>r \<in> set (c_ConfirmationRules c). IsToolLevel r \<noteq> IsKubeLevel r)"
  by (auto simp: validateConfirmation_def Let_def rule_errors_Nil)

lemma ValidateClusterAuthMode_None:
  "ValidateClusterAuthMode c = None \<longleftrightarrow> c_ClusterAuthMode c \<in> {[], ''passthrough'', ''kubeconfig''}
     \<and> (c_ClusterAuthMode c = ''kubeconfig'' \<longrightarrow> \<not> c_RequireOAuth c)
     \<and> (c_TokenExchangeStrategy c \<noteq> [] \<or> c_StsAudience c \<noteq> [] \<longrightarrow>
          c_RequireOAuth c \<and> c_ClusterAuthMode c \<noteq> ''kubeconfig'')"
  by (auto simp: ValidateClusterAuthMode_def Let_def)

lemma ValidateRequireTLS_None:
  "ValidateRequireTLS env c = None \<longleftrightarrow> (c_RequireTLS c \<longrightarrow>
     (\<forall>u \<in> {c_AuthorizationURL c, c_ServerURL c}. u = [] \<or> (\<exists>s. ve_UrlScheme env u = Inr s \<and> isSecureHTTPScheme s)))"
  by (auto simp: ValidateRequireTLS_def ValidateURLsRequireTLS_None)

lemma validateTLSSettings_None:
  "validateTLSSettings env c = None \<longleftrightarrow>
     (\<exists>v. ParseTLSVersion (GetTLSMinVersionConfig (ve_Getenv env) c) = Inr v)
     \<and> (\<exists>cs. ParseTLSCipherSuites (ve_CipherSuites env) (GetTLSCipherSuitesConfig (ve_Getenv env) c) = Inr cs)"
  by (auto simp: validateTLSSettings_def split: sum.splits)

lemma validate_authorization_url_None:
  "validate_authorization_url env c = None \<longleftrightarrow> c_AuthorizationURL c = []
     \<or> ve_UrlScheme env (c_AuthorizationURL c) \<in> {Inr ''https'', Inr ''http''}"
  by (auto simp: validate_authorization_url_def split: sum.splits)

lemma normalize_idem [simp]: "normalize (normalize c) = normalize c"
  by (simp add: normalize_def)

text \<open>
  The accepted configurations, field by field: what the rest of the server may rely on.
\<close>

definition exists_file :: "'t val_env \<Rightarrow> string \<Rightarrow> bool" where
  "exists_file env f \<longleftrightarrow> ve_Stat env f = None"

definition auth_style_ok :: "'t val_env \<Rightarrow> StaticConfig \<Rightarrow> bool" where
  "auth_style_ok env c \<longleftrightarrow>
     c_StsAuthStyle c \<in> {[], ''params'', ''header''}
     \<or> c_StsAuthStyle c = ''assertion'' \<and> c_StsClientCertFile c \<noteq> [] \<and> c_StsClientKeyFile c \<noteq> []
         \<and> exists_file env (c_StsClientCertFile c) \<and> exists_file env (c_StsClientKeyFile c)
     \<or> c_StsAuthStyle c = ''federated'' \<and> c_StsFederatedTokenFile c \<noteq> []
         \<and> exists_file env (c_StsFederatedTokenFile c)"

definition oauth_ok :: "'t val_env \<Rightarrow> StaticConfig \<Rightarrow> bool" where
  "oauth_ok env c \<longleftrightarrow>
     (c_OAuthAudience c \<noteq> [] \<or> c_AuthorizationURL c \<noteq> [] \<or> c_ServerURL c \<noteq> [] \<or> c_CertificateAuthority c \<noteq> []
        \<longrightarrow> c_RequireOAuth c)
     \<and> (c_AuthorizationURL c \<noteq> [] \<longrightarrow> ve_UrlScheme env (c_AuthorizationURL c) \<in> {Inr ''https'', Inr ''http''})
     \<and> (c_RequireOAuth c \<longrightarrow> c_AuthorizationURL c \<noteq> [] \<or> c_SkipJWTVerification c)
     \<and> c_ClusterAuthMode c \<in> {[], ''passthrough'', ''kubeconfig''}
     \<and> (c_ClusterAuthMode c = ''kubeconfig'' \<longrightarrow> \<not> c_RequireOAuth c)
     \<and> (c_TokenExchangeStrategy c \<noteq> [] \<or> c_StsAudience c \<noteq> [] \<longrightarrow>
          c_RequireOAuth c \<and> c_ClusterAuthMode c \<noteq> ''kubeconfig'')"

definition tls_ok :: "'t val_env \<Rightarrow> StaticConfig \<Rightarrow> bool" where
  "tls_ok env c \<longleftrightarrow>
     (c_TLSCert c = [] \<longleftrightarrow> c_TLSKey c = [])
     \<and> (\<forall>f \<in> {c_TLSCert c, c_TLSKey c, c_CertificateAuthority c}. f = [] \<or> exists_file env f)
     \<and> (\<exists>v. ParseTLSVersion (GetTLSMinVersionConfig (ve_Getenv env) c) = Inr v)
     \<and> (\<exists>cs. ParseTLSCipherSuites (ve_CipherSuites env) (GetTLSCipherSuitesConfig (ve_Getenv env) c) = Inr cs)
     \<and> (c_RequireTLS c \<longrightarrow>
          (\<forall>u \<in> {c_AuthorizationURL c, c_ServerURL c}.
             u = [] \<or> (\<exists>s. ve_UrlScheme env u = Inr s \<and> isSecureHTTPScheme s)))"

definition selection_ok :: "'t val_env \<Rightarrow> StaticConfig \<Rightarrow> bool" where
  "selection_ok env c \<longleftrightarrow>
     c_ListOutput c \<in> {''yaml'', ''table''}
     \<and> (\<forall>t \<in> set (c_Toolsets c). TrimSpace t \<in> dom (toolset_get (ve_Toolsets env)))
     \<and> (c_ClusterProviderStrategy c = [] \<or> c_providerStrategies c = []
          \<or> c_ClusterProviderStrategy c \<in> set (c_providerStrategies c))
     \<and> (c_TokenExchangeStrategy c = [] \<or> c_tokenExchangeStrategies c = []
          \<or> c_TokenExchangeStrategy c \<in> set (c_tokenExchangeStrategies c))
     \<and> c_ConfirmationFallback c \<in> {[], ''allow'', ''deny''}
     \<and> (\<forall>r \<in> set (c_ConfirmationRules c). IsToolLevel r \<noteq> IsKubeLevel r)
     \<and> h_RateLimitRPS (c_HTTP c) \<ge> 0 \<and> h_RateLimitBurst (c_HTTP c) \<ge> 0"

lemma validateTokenExchange_None:
  "validateTokenExchange env c = None \<longleftrightarrow>
     (c_TokenExchangeStrategy c = [] \<or> c_tokenExchangeStrategies c = []
       \<or> c_TokenExchangeStrategy c \<in> set (c_tokenExchangeStrategies c)) \<and> auth_style_ok env c"
  by (auto simp: validateTokenExchange_def auth_style_ok_def stat_err_def exists_file_def)

lemma HTTPConfig_Validate_None:
  "HTTPConfig_Validate h = None \<longleftrightarrow> h_RateLimitRPS h \<ge> 0 \<and> h_RateLimitBurst h \<ge> 0"
  by (auto simp: HTTPConfig_Validate_def)

lemmas validate_None =
  validateConfirmation_None ValidateClusterAuthMode_None ValidateRequireTLS_None
  validateTLSSettings_None validate_authorization_url_None validateTokenExchange_None
  HTTPConfig_Validate_None toolsets_Validate_None_iff

lemma checks_oauth:
  "(if \<not> c_RequireOAuth c \<and> (c_OAuthAudience c \<noteq> [] \<or> c_AuthorizationURL c \<noteq> []
        \<or> c_ServerURL c \<noteq> [] \<or> c_CertificateAuthority c \<noteq> [])
     then Some OAuthFieldsWithoutOAuth else None) = None
   \<and> validate_authorization_url env c = None \<and> validateSkipJWTVerification c = None
   \<and> ValidateClusterAuthMode c = None \<longleftrightarrow> oauth_ok env c"
  unfolding validate_None oauth_ok_def validateSkipJWTVerification_def by auto

lemma checks_tls:
  "(if c_CertificateAuthority c \<noteq> [] then stat_err env BadCertificateAuthority (c_CertificateAuthority c) else None) = None
   \<and> (if c_TLSCert c \<noteq> [] \<and> c_TLSKey c = [] \<or> c_TLSCert c = [] \<and> c_TLSKey c \<noteq> []
      then Some TLSPairIncomplete else None) = None
   \<and> (if c_TLSCert c \<noteq> [] then stat_err env BadTLSCert (c_TLSCert c) else None) = None
   \<and> (if c_TLSKey c \<noteq> [] then stat_err env BadTLSKey (c_TLSKey c) else None) = None
   \<and> validateTLSSettings env c = None \<and> ValidateRequireTLS env c = None \<longleftrightarrow> tls_ok env c"
  unfolding validate_None tls_ok_def stat_err_def exists_file_def by auto

lemma checks_selection:
  "(if output_FromString (c_ListOutput c) = None then Some (InvalidOutputName (c_ListOutput c)) else None) = None
   \<and> map_option InvalidToolset (toolsets_Validate (ve_GetName env) (ve_Toolsets env) (c_Toolsets c)) = None
   \<and> (if c_ClusterProviderStrategy c \<noteq> [] \<and> length (c_providerStrategies c) > 0
         \<and> c_ClusterProviderStrategy c \<notin> set (c_providerStrategies c)
      then Some (InvalidClusterProvider (c_ClusterProviderStrategy c) (c_providerStrategies c)) else None) = None
   \<and> validateTokenExchange env c = None \<and> validateConfirmation c = None
   \<and> HTTPConfig_Validate (c_HTTP c) = None \<longleftrightarrow> selection_ok env c \<and> auth_style_ok env c"
  unfolding validate_None selection_ok_def output_FromString_None option.map_disc_iff by auto

lemma validate_accepts:
  "(fst (StaticConfig_Validate env c) = None \<longleftrightarrow>
      selection_ok env (normalize c) \<and> oauth_ok env (normalize c)
      \<and> tls_ok env (normalize c) \<and> auth_style_ok env (normalize c))
   \<and> snd (StaticConfig_Validate env c) = normalize c"
  unfolding StaticConfig_Validate_def Let_def fst_conv snd_conv orElseErr_None_iff
  using checks_oauth[of "normalize c" env] checks_tls[of "normalize c" env]
    checks_selection[of "normalize c" env]
  by blast


text \<open>
  Validation is idempotent: a configuration that has been validated passes again, on a
  reload in the same environment, and is left unchanged.
\<close>

theorem validate_idempotent:
  "StaticConfig_Validate env (snd (StaticConfig_Validate env c)) = StaticConfig_Validate env c"
  by (simp add: StaticConfig_Validate_def Let_def)

end
