(* ===== verification/Mcp_Server.thy ===== *)
theory Mcp_Server
  imports Mcp_Tools Prompts Config_Validate
begin

text \<open>
  The MCP server object of \<open>src/pkg/mcp/mcp.go\<close>: collecting the tools, prompts, resources and
  resource templates a configuration exposes, the two-phase replacement of what is registered
  with the SDK, and configuration reload; with the resource conversions of
  \<open>src/pkg/mcp/resources_gosdk.go\<close> and the prompt conversion of \<open>prompts_gosdk.go\<close>.

  The SDK keeps each kind of item in a map from its name (URI, URI template) to the item:
  adding an item replaces one of the same name, removing ignores unknown names. \<open>reloadMu\<close>
  serialises \<open>applyToolsets\<close>, so one call is one step of the server.
\<close>

section \<open>Resources\<close>

record Resource =
  re_URI :: string
  re_Name :: string
  re_Description :: string
  re_MIMEType :: string

record ResourceContent =
  rc_MIMEType :: string
  rc_Text :: string
  rc_Blob :: string

text \<open>
  Resources and resource templates; the handler of a template gets the URI that was read. A
  handler may return a nil content.
\<close>

record 'w ServerResource =
  sr_Resource :: Resource
  sr_Handler :: "'w call_ctx \<Rightarrow> string \<Rightarrow> 'w \<Rightarrow> (string, ResourceContent option) result \<times> 'w"

definition validateResourceContent :: "ResourceContent \<Rightarrow> string option" where
  "validateResourceContent content =
     (let hasText = rc_Text content \<noteq> []; hasBlob = length (rc_Blob content) > 0 in
      if \<not> hasText \<and> \<not> hasBlob then Some ''resource content must have either Text or Blob set, both are empty''
      else if hasText \<and> hasBlob then Some ''resource content must have only one of Text or Blob set, both are set''
      else None)"

record ReadResourceResult =
  rr_URI :: string
  rr_MIMEType :: string
  rr_Text :: string
  rr_Blob :: string

text \<open>The shared body of both read handlers; \<open>uri\<close> is the URI reported back.\<close>

definition read_resource ::
  "string \<Rightarrow> 'w ServerResource \<Rightarrow> string \<Rightarrow> 'w call_ctx \<Rightarrow> 'w \<Rightarrow> (string, ReadResourceResult) result \<times> 'w" where
  "read_resource nilText res uri ctx w =
     (case sr_Handler res ctx uri w of
        (Inl e, w') \<Rightarrow> (Inl e, w')
      | (Inr None, w') \<Rightarrow> (Inl nilText, w')
      | (Inr (Some content), w') \<Rightarrow>
          (case validateResourceContent content of
             Some e \<Rightarrow> (Inl e, w')
           | None \<Rightarrow>
               (Inr \<lparr>rr_URI = uri,
                     rr_MIMEType = (if rc_MIMEType content \<noteq> [] then rc_MIMEType content
                                    else re_MIMEType (sr_Resource res)),
                     rr_Text = rc_Text content, rr_Blob = rc_Blob content\<rparr>, w')))"

definition ServerResourceToGoSdkResource ::
  "(string \<Rightarrow> string option) \<Rightarrow> 'w ServerResource \<Rightarrow> (convert_error, Resource) result" where
  "ServerResourceToGoSdkResource url_error res =
     (case url_error (re_URI (sr_Resource res)) of
        Some e \<Rightarrow> Inl (InvalidURI (re_URI (sr_Resource res)) e)
      | None \<Rightarrow> Inr (sr_Resource res))"

definition ServerResourceTemplateToGoSdkResourceTemplate ::
  "(string \<Rightarrow> string option) \<Rightarrow> 'w ServerResource \<Rightarrow> (convert_error, Resource) result" where
  "ServerResourceTemplateToGoSdkResourceTemplate template_error rt =
     (case template_error (re_URI (sr_Resource rt)) of
        Some e \<Rightarrow> Inl (InvalidURITemplate (re_URI (sr_Resource rt)) e)
      | None \<Rightarrow> Inr (sr_Resource rt))"

section \<open>Prompts\<close>

record ('w, 'k) PromptHandlerParams =
  ph_Context :: "'w call_ctx"
  ph_BaseConfig :: StaticConfig
  ph_KubernetesClient :: 'k
  ph_Arguments :: "string \<rightharpoonup> string"

type_synonym ('w, 'k) PromptHandlerFunc =
  "('w, 'k) PromptHandlerParams \<Rightarrow> 'w \<Rightarrow> (string, PromptCallResult) result \<times> 'w"

type_synonym ('w, 'k) server_prompt = "('w, 'k) PromptHandlerFunc ServerPrompt"

definition config_prompt_handler :: "Prompt \<Rightarrow> ('w, 'k) PromptHandlerFunc" where
  "config_prompt_handler prompt params w = (createPromptHandler prompt (ph_Arguments params), w)"

record mcp_Prompt =
  mp_Name :: string
  mp_Description :: string
  mp_Arguments :: "PromptArgument list"

definition ServerPromptToGoSdkPrompt :: "('w, 'k) server_prompt \<Rightarrow> (convert_error, mcp_Prompt) result" where
  "ServerPromptToGoSdkPrompt sp =
     Inr \<lparr>mp_Name = p_Name (sp_Prompt sp), mp_Description = p_Description (sp_Prompt sp),
          mp_Arguments = p_Arguments (sp_Prompt sp)\<rparr>"

record GetPromptResult =
  gp_Description :: string
  gp_Messages :: "(string \<times> string) list"

text \<open>The handler built by \<open>ServerPromptToGoSdkPrompt\<close>; \<open>None\<close> are nil arguments.\<close>

definition prompt_handler ::
  "('w, 'k) Provider \<Rightarrow> StaticConfig \<Rightarrow> ('w, 'k) server_prompt \<Rightarrow> 'w call_ctx
   \<Rightarrow> (string \<rightharpoonup> string) option \<Rightarrow> 'w \<Rightarrow> (string, GetPromptResult) result \<times> 'w" where
  "prompt_handler p cfg sp ctx request w =
     (let args = (case request of None \<Rightarrow> Map.empty | Some m \<Rightarrow> m);
          cluster = (case args (pv_TargetParameterName p) of None \<Rightarrow> [] | Some v \<Rightarrow> v)
      in case pv_GetDerivedKubernetes p ctx cluster w of
           (Inl e, w1) \<Rightarrow> (Inl (''failed to get kubernetes client: '' @ derive_text e), w1)
         | (Inr k, w1) \<Rightarrow>
             (case sp_Handler sp \<lparr>ph_Context = ctx, ph_BaseConfig = cfg, ph_KubernetesClient = k,
                                  ph_Arguments = args\<rparr> w1 of
                (Inl e, w2) \<Rightarrow> (Inl e, w2)
              | (Inr res, w2) \<Rightarrow>
                  (case pr_Error res of
                     Some e \<Rightarrow> (Inl e, w2)
                   | None \<Rightarrow>
                       (Inr \<lparr>gp_Description = pr_Description res,
                             gp_Messages = map (\<lambda>m. (pm_Role m, pm_Text m)) (pr_Messages res)\<rparr>, w2))))"

section \<open>The server\<close>

record ('w, 'k) Toolset =
  ts_Name :: string
  ts_GetTools :: "'w \<Rightarrow> ('w, 'k) ServerTool list"
  ts_GetPrompts :: "('w, 'k) server_prompt list"
  ts_GetResources :: "'w ServerResource list"
  ts_GetResourceTemplates :: "'w ServerResource list"

text \<open>What the server object does not own: registries, provider and the URI validators.\<close>

record ('w, 'k) server_env =
  se_Validation :: "('w, 'k) Toolset val_env"
  se_Provider :: "('w, 'k) Provider"
  se_ProviderStrategies :: "string list"
  se_ExchangeStrategies :: "string list"
  se_UrlError :: "string \<Rightarrow> string option"
  se_TemplateError :: "string \<Rightarrow> string option"

record ('w, 'k) Server =
  sv_configuration :: StaticConfig
  sv_sdkTools :: "string \<rightharpoonup> mcp_Tool \<times> ('w, 'k) ServerTool"
  sv_sdkPrompts :: "string \<rightharpoonup> mcp_Prompt \<times> ('w, 'k) server_prompt"
  sv_sdkResources :: "string \<rightharpoonup> Resource \<times> 'w ServerResource"
  sv_sdkResourceTemplates :: "string \<rightharpoonup> Resource \<times> 'w ServerResource"
  sv_enabledTools :: "string list"
  sv_enabledPrompts :: "string list"
  sv_enabledResources :: "string list"
  sv_enabledResourceTemplates :: "string list"

text \<open>\<open>Configuration.Toolsets\<close>; an unknown name yields a nil toolset.\<close>

definition Configuration_Toolsets ::
  "('w, 'k) server_env \<Rightarrow> StaticConfig \<Rightarrow> ('w, 'k) Toolset option list" where
  "Configuration_Toolsets env cfg = map (ToolsetFromString (ve_Toolsets (se_Validation env))) (c_Toolsets cfg)"

definition collectApplicableTools ::
  "('w, 'k) server_env \<Rightarrow> StaticConfig \<Rightarrow> ('w, 'k) Toolset list \<Rightarrow> 'w \<Rightarrow> ('w, 'k) ServerTool list" where
  "collectApplicableTools env cfg tss w =
     (let p = se_Provider env;
          flt = CompositeFilter [isToolApplicable cfg w,
                  ShouldIncludeTargetListTool (pv_TargetParameterName p) (pv_IsMultiTarget p)];
          mutator = ComposeMutators
            [WithTargetParameter (pv_DefaultTarget p) (pv_TargetParameterName p) (pv_IsMultiTarget p),
             WithTargetListTool (pv_DefaultTarget p) (pv_TargetParameterName p) (pv_GetTargets p),
             WithToolOverrides (c_ToolOverrides cfg)]
      in filter flt (map mutator (concat (map (\<lambda>ts. ts_GetTools ts w) tss))))"

definition collectApplicablePrompts ::
  "('w, 'k) server_env \<Rightarrow> StaticConfig \<Rightarrow> ('w, 'k) Toolset list \<Rightarrow> ('w, 'k) server_prompt list" where
  "collectApplicablePrompts env cfg tss =
     (let p = se_Provider env;
          mutator = WithPromptTargetParameter (pv_DefaultTarget p) (pv_TargetParameterName p) (pv_IsMultiTarget p)
      in MergePrompts (map mutator (concat (map ts_GetPrompts tss)))
           (ToServerPrompts config_prompt_handler (c_Prompts cfg)))"

definition collectApplicableResources :: "('w, 'k) Toolset list \<Rightarrow> 'w ServerResource list" where
  "collectApplicableResources tss =
     filter (CompositeFilter []) (map (ComposeMutators []) (concat (map ts_GetResources tss)))"

definition collectApplicableResourceTemplates :: "('w, 'k) Toolset list \<Rightarrow> 'w ServerResource list" where
  "collectApplicableResourceTemplates tss =
     filter (CompositeFilter []) (map (ComposeMutators []) (concat (map ts_GetResourceTemplates tss)))"

section \<open>Two-phase application\<close>

fun convertItems ::
  "('t \<Rightarrow> string) \<Rightarrow> ('t \<Rightarrow> (convert_error, 'm) result) \<Rightarrow> string \<Rightarrow> 't list
   \<Rightarrow> (convert_error, (string \<times> 'm \<times> 't) list) result" where
  "convertItems getName convert kind [] = Inr []"
| "convertItems getName convert kind (i # is) =
     (case convert i of
        Inl e \<Rightarrow> Inl (FailedToConvert kind (getName i) e)
      | Inr m \<Rightarrow> bindE (convertItems getName convert kind is) (\<lambda>out. Inr ((getName i, m, i) # out)))"

definition commitItems ::
  "('m \<Rightarrow> string) \<Rightarrow> string list \<Rightarrow> (string \<times> 'm \<times> 't) list \<Rightarrow> (string \<rightharpoonup> 'm \<times> 't)
   \<Rightarrow> string list \<times> (string \<rightharpoonup> 'm \<times> 't)" where
  "commitItems sdkName previous items sdk =
     (let enabled = map fst items;
          toRemove = filter (\<lambda>old. old \<notin> set enabled) previous;
          removed = sdk |` (- set toRemove)
      in (enabled, fold (\<lambda>(n, m, t) s. s(sdkName m \<mapsto> (m, t))) items removed))"

datatype apply_outcome = Applied | ApplyFailed convert_error | ApplyPanic

definition applyToolsets ::
  "('w, 'k) server_env \<Rightarrow> StaticConfig option \<Rightarrow> 'w \<Rightarrow> ('w, 'k) Server \<Rightarrow> apply_outcome \<times> ('w, 'k) Server" where
  "applyToolsets env cfgOpt w s =
     (let cfg = (case cfgOpt of None \<Rightarrow> sv_configuration s | Some c \<Rightarrow> c);
          tso = Configuration_Toolsets env cfg
      in if None \<in> set tso then (ApplyPanic, s)
         else
           (let tss = map the tso in
            case convertItems (\<lambda>t. tl_Name (st_Tool t)) ServerToolToGoSdkTool ''tool''
                   (collectApplicableTools env cfg tss w) of
              Inl e \<Rightarrow> (ApplyFailed e, s)
            | Inr tools \<Rightarrow>
            (case convertItems sp_Name ServerPromptToGoSdkPrompt ''prompt''
                    (collectApplicablePrompts env cfg tss) of
              Inl e \<Rightarrow> (ApplyFailed e, s)
            | Inr prompts \<Rightarrow>
            (case convertItems (\<lambda>r. re_URI (sr_Resource r)) (ServerResourceToGoSdkResource (se_UrlError env))
                    ''resource'' (collectApplicableResources tss) of
              Inl e \<Rightarrow> (ApplyFailed e, s)
            | Inr resources \<Rightarrow>
            (case convertItems (\<lambda>r. re_URI (sr_Resource r))
                    (ServerResourceTemplateToGoSdkResourceTemplate (se_TemplateError env))
                    ''resource template'' (collectApplicableResourceTemplates tss) of
              Inl e \<Rightarrow> (ApplyFailed e, s)
            | Inr templates \<Rightarrow>
                (let (newTools, sdkTools) = commitItems mt_Name (sv_enabledTools s) tools (sv_sdkTools s);
                     (newPrompts, sdkPrompts) = commitItems mp_Name (sv_enabledPrompts s) prompts (sv_sdkPrompts s);
                     (newResources, sdkResources) =
                       commitItems re_URI (sv_enabledResources s) resources (sv_sdkResources s);
                     (newTemplates, sdkTemplates) =
                       commitItems re_URI (sv_enabledResourceTemplates s) templates (sv_sdkResourceTemplates s)
                 in (Applied,
                     s\<lparr>sv_configuration := cfg, sv_sdkTools := sdkTools, sv_sdkPrompts := sdkPrompts,
                       sv_sdkResources := sdkResources, sv_sdkResourceTemplates := sdkTemplates,
                       sv_enabledTools := newTools, sv_enabledPrompts := newPrompts,
                       sv_enabledResources := newResources, sv_enabledResourceTemplates := newTemplates\<rparr>)))))))"

definition reapplyToolsets ::
  "('w, 'k) server_env \<Rightarrow> 'w \<Rightarrow> ('w, 'k) Server \<Rightarrow> apply_outcome \<times> ('w, 'k) Server" where
  "reapplyToolsets env w s = applyToolsets env None w s"

datatype reload_outcome = Reloaded | ReloadRejected cfg_error | ReloadFailed convert_error | ReloadPanic

definition ReloadConfiguration ::
  "('w, 'k) server_env \<Rightarrow> StaticConfig \<Rightarrow> 'w \<Rightarrow> ('w, 'k) Server \<Rightarrow> reload_outcome \<times> ('w, 'k) Server" where
  "ReloadConfiguration env newConfig w s =
     (case StaticConfig_Validate (se_Validation env)
             (newConfig\<lparr>c_providerStrategies := se_ProviderStrategies env,
                        c_tokenExchangeStrategies := se_ExchangeStrategies env\<rparr>) of
        (Some e, _) \<Rightarrow> (ReloadRejected e, s)
      | (None, candidate) \<Rightarrow>
          (case applyToolsets env (Some candidate) w s of
             (Applied, s') \<Rightarrow> (Reloaded, s')
           | (ApplyFailed e, s') \<Rightarrow> (ReloadFailed e, s')
           | (ApplyPanic, s') \<Rightarrow> (ReloadPanic, s')))"

definition new_server :: "StaticConfig \<Rightarrow> ('w, 'k) Server" where
  "new_server cfg = \<lparr>sv_configuration = cfg, sv_sdkTools = Map.empty, sv_sdkPrompts = Map.empty,
     sv_sdkResources = Map.empty, sv_sdkResourceTemplates = Map.empty, sv_enabledTools = [],
     sv_enabledPrompts = [], sv_enabledResources = [], sv_enabledResourceTemplates = []\<rparr>"

text \<open>\<open>NewServer\<close>, as far as it concerns the exposed items.\<close>

definition NewServer ::
  "('w, 'k) server_env \<Rightarrow> StaticConfig \<Rightarrow> 'w \<Rightarrow> apply_outcome \<times> ('w, 'k) Server" where
  "NewServer env cfg w = applyToolsets env (Some cfg) w (new_server cfg)"

end
