(* ===== verification/Mcp_Reload.thy ===== *)
theory Mcp_Reload
  imports Mcp_Server
begin

text \<open>
  What the MCP server exposes: the two-phase application is transactional and exact, and in
  every state the server can reach by configuration reloads and cluster-state changes, in any
  order, the SDK's items agree with the bookkeeping and obey the installed configuration.
\<close>

section \<open>The contract of committing items\<close>

definition item_map :: "(string \<times> 'm \<times> 't) list \<Rightarrow> string \<rightharpoonup> 'm \<times> 't" where
  "item_map items = map_of (rev items)"

definition named_items :: "('m \<Rightarrow> string) \<Rightarrow> (string \<times> 'm \<times> 't) list \<Rightarrow> bool" where
  "named_items sdkName items \<longleftrightarrow> (\<forall>(n, m, t) \<in> set items. sdkName m = n)"

locale committing =
  fixes sdkName :: "'m \<Rightarrow> string"
    and commit :: "string list \<Rightarrow> (string \<times> 'm \<times> 't) list \<Rightarrow> (string \<rightharpoonup> 'm \<times> 't)
      \<Rightarrow> string list \<times> (string \<rightharpoonup> 'm \<times> 't)"
  assumes commit_enabled: "fst (commit previous items sdk) = map fst items"
    and commit_surface:
      "\<lbrakk>named_items sdkName items; dom sdk = set previous\<rbrakk> \<Longrightarrow>
         snd (commit previous items sdk) = item_map items"
begin

text \<open>After a commit nothing of the previous surface is left, and names and bookkeeping agree.\<close>

lemma commit_dom:
  assumes "named_items sdkName items" "dom sdk = set previous"
  shows "dom (snd (commit previous items sdk)) = set (fst (commit previous items sdk))"
  using commit_surface[OF assms] by (simp add: commit_enabled item_map_def dom_map_of_conv_image_fst)

lemma commit_again:
  assumes "named_items sdkName items" "named_items sdkName items'" "dom sdk = set previous"
    and "commit previous items sdk = (enabled, sdk')"
  shows "snd (commit enabled items' sdk') = item_map items'"
  using commit_surface[OF assms(2)] commit_dom[OF assms(1,3)] assms(4) by simp

end

lemma add_items_map:
  "named_items sdkName items \<Longrightarrow>
     fold (\<lambda>(n, m, t) s. s(sdkName m \<mapsto> (m, t))) items s0 = s0 ++ map_of (rev items)"
  by (induction items arbitrary: s0) (auto simp: named_items_def)

interpretation items: committing sdkName "commitItems sdkName" for sdkName
proof
  fix previous and items :: "(string \<times> 'a \<times> 'b) list" and sdk
  show "fst (commitItems sdkName previous items sdk) = map fst items"
    by (simp add: commitItems_def Let_def)
  assume named: "named_items sdkName items" and dom: "dom sdk = set previous"
  let ?rm = "filter (\<lambda>old. old \<notin> set (map fst items)) previous"
  have "((sdk |` (- set ?rm)) ++ map_of (rev items)) n = map_of (rev items) n" for n
  proof (cases "map_of (rev items) n")
    case None
    then have "n \<notin> set (map fst items)" by (simp add: map_of_eq_None_iff)
    then have "(sdk |` (- set ?rm)) n = None" using dom by (auto simp: restrict_map_def domIff)
    with None show ?thesis by (simp add: map_add_def)
  qed (simp add: map_add_def)
  then show "snd (commitItems sdkName previous items sdk) = item_map items"
    by (simp add: commitItems_def Let_def add_items_map[OF named] item_map_def fun_eq_iff)
qed

section \<open>Conversion\<close>

lemma convertItems_Inr:
  "convertItems getName convert kind xs = Inr out \<longleftrightarrow>
     list_all2 (\<lambda>x o'. convert x = Inr (fst (snd o')) \<and> o' = (getName x, fst (snd o'), x)) xs out"
proof (induction xs arbitrary: out)
  case (Cons x xs)
  show ?case
    by (auto simp: Cons.IH bindE_Inr_iff list_all2_Cons1 split: sum.splits)
qed auto

lemma convertItems_names:
  "convertItems getName convert kind xs = Inr out \<Longrightarrow> map fst out = map getName xs"
  unfolding convertItems_Inr by (induction rule: list_all2_induct) auto

lemma convertItems_items:
  "convertItems getName convert kind xs = Inr out \<Longrightarrow> map (snd \<circ> snd) out = xs"
  unfolding convertItems_Inr by (induction rule: list_all2_induct) auto

lemma convertItems_member:
  assumes "convertItems getName convert kind xs = Inr out" "(n, m, x) \<in> set out"
  shows "x \<in> set xs \<and> n = getName x \<and> convert x = Inr m"
  using assms unfolding convertItems_Inr by (induction rule: list_all2_induct) auto

lemma convertItems_named:
  assumes "convertItems getName convert kind xs = Inr out"
    and "\<And>x m. convert x = Inr m \<Longrightarrow> sdkName m = getName x"
  shows "named_items sdkName out"
  using convertItems_member[OF assms(1)] assms(2) by (fastforce simp: named_items_def)

lemma convertItems_fails:
  "convertItems getName convert kind xs = Inl e \<Longrightarrow> \<exists>x \<in> set xs. \<exists>e'. convert x = Inl e'"
  by (induction xs) (auto simp: bindE_Inl_iff split: sum.splits)

section \<open>One application\<close>

definition effective :: "StaticConfig option \<Rightarrow> ('w, 'k) Server \<Rightarrow> StaticConfig" where
  "effective c s = (case c of None \<Rightarrow> sv_configuration s | Some c \<Rightarrow> c)"

definition toolsets_of :: "('w, 'k) server_env \<Rightarrow> StaticConfig \<Rightarrow> ('w, 'k) Toolset list" where
  "toolsets_of env cfg = map the (Configuration_Toolsets env cfg)"

lemma applyToolsets_cases:
  obtains (unchanged) out where "applyToolsets env c w s = (out, s)" "out \<noteq> Applied"
  | (applied) tools prompts resources templates where
      "None \<notin> set (Configuration_Toolsets env (effective c s))"
      "convertItems (\<lambda>t. tl_Name (st_Tool t)) ServerToolToGoSdkTool ''tool''
         (collectApplicableTools env (effective c s) (toolsets_of env (effective c s)) w) = Inr tools"
      "convertItems sp_Name ServerPromptToGoSdkPrompt ''prompt''
         (collectApplicablePrompts env (effective c s) (toolsets_of env (effective c s))) = Inr prompts"
      "convertItems (\<lambda>r. re_URI (sr_Resource r)) (ServerResourceToGoSdkResource (se_UrlError env)) ''resource''
         (collectApplicableResources (toolsets_of env (effective c s))) = Inr resources"
      "convertItems (\<lambda>r. re_URI (sr_Resource r))
         (ServerResourceTemplateToGoSdkResourceTemplate (se_TemplateError env)) ''resource template''
         (collectApplicableResourceTemplates (toolsets_of env (effective c s))) = Inr templates"
      "applyToolsets env c w s =
         (Applied, s\<lparr>sv_configuration := effective c s,
            sv_sdkTools := snd (commitItems mt_Name (sv_enabledTools s) tools (sv_sdkTools s)),
            sv_sdkPrompts := snd (commitItems mp_Name (sv_enabledPrompts s) prompts (sv_sdkPrompts s)),
            sv_sdkResources := snd (commitItems re_URI (sv_enabledResources s) resources (sv_sdkResources s)),
            sv_sdkResourceTemplates :=
              snd (commitItems re_URI (sv_enabledResourceTemplates s) templates (sv_sdkResourceTemplates s)),
            sv_enabledTools := map fst tools, sv_enabledPrompts := map fst prompts,
            sv_enabledResources := map fst resources, sv_enabledResourceTemplates := map fst templates\<rparr>)"
proof (cases "applyToolsets env c w s")
  case (Pair out s')
  show thesis
  proof (cases "out = Applied")
    case False
    then have "s' = s"
      using Pair unfolding applyToolsets_def Let_def
      by (auto simp: case_prod_beta split: if_splits sum.splits)
    with Pair False that(1) show thesis by blast
  next
    case True
    have eff: "(case c of None \<Rightarrow> sv_configuration s | Some c \<Rightarrow> c) = effective c s"
      by (simp add: effective_def)
    note def = applyToolsets_def[of env c w s, unfolded Let_def eff toolsets_of_def[symmetric]]
    from Pair True obtain tools prompts resources templates where
      nil: "None \<notin> set (Configuration_Toolsets env (effective c s))" and
      conv: "convertItems (\<lambda>t. tl_Name (st_Tool t)) ServerToolToGoSdkTool ''tool''
         (collectApplicableTools env (effective c s) (toolsets_of env (effective c s)) w) = Inr tools"
      "convertItems sp_Name ServerPromptToGoSdkPrompt ''prompt''
         (collectApplicablePrompts env (effective c s) (toolsets_of env (effective c s))) = Inr prompts"
      "convertItems (\<lambda>r. re_URI (sr_Resource r)) (ServerResourceToGoSdkResource (se_UrlError env)) ''resource''
         (collectApplicableResources (toolsets_of env (effective c s))) = Inr resources"
      "convertItems (\<lambda>r. re_URI (sr_Resource r))
         (ServerResourceTemplateToGoSdkResourceTemplate (se_TemplateError env)) ''resource template''
         (collectApplicableResourceTemplates (toolsets_of env (effective c s))) = Inr templates"
      unfolding def by (auto split: if_splits sum.splits)
    show thesis
      by (rule that(2)[OF nil conv]) (simp add: def nil conv case_prod_beta items.commit_enabled)
  qed
qed

lemma applyToolsets_failed: "\<lbrakk>applyToolsets env c w s = (out, s'); out \<noteq> Applied\<rbrakk> \<Longrightarrow> s' = s"
  by (cases rule: applyToolsets_cases[of env c w s]) auto

section \<open>The invariant\<close>

text \<open>The SDK's items and the enabled lists name the same items, for each kind.\<close>

definition surface_inv :: "('w, 'k) Server \<Rightarrow> bool" where
  "surface_inv s \<longleftrightarrow> dom (sv_sdkTools s) = set (sv_enabledTools s)
     \<and> dom (sv_sdkPrompts s) = set (sv_enabledPrompts s)
     \<and> dom (sv_sdkResources s) = set (sv_enabledResources s)
     \<and> dom (sv_sdkResourceTemplates s) = set (sv_enabledResourceTemplates s)"

text \<open>Every exposed tool is the conversion of one that the installed configuration allows.\<close>

definition policy_inv :: "('w, 'k) Server \<Rightarrow> bool" where
  "policy_inv s \<longleftrightarrow> (\<forall>n m t. sv_sdkTools s n = Some (m, t) \<longrightarrow>
     n = tl_Name (st_Tool t) \<and> ServerToolToGoSdkTool t = Inr m
     \<and> (\<exists>w. isToolApplicable (sv_configuration s) w t))"

lemma item_map_member: "item_map items n = Some (m, t) \<Longrightarrow> (n, m, t) \<in> set items"
  by (auto simp: item_map_def dest!: map_of_SomeD)

lemma named_prompts:
  "convertItems sp_Name ServerPromptToGoSdkPrompt kind xs = Inr out \<Longrightarrow> named_items mp_Name out"
  by (erule convertItems_named) (auto simp: ServerPromptToGoSdkPrompt_def sp_Name_def)

lemma named_resources:
  "convertItems (\<lambda>r. re_URI (sr_Resource r)) (ServerResourceToGoSdkResource f) kind xs = Inr out
     \<Longrightarrow> named_items re_URI out"
  "convertItems (\<lambda>r. re_URI (sr_Resource r)) (ServerResourceTemplateToGoSdkResourceTemplate f) kind xs = Inr out
     \<Longrightarrow> named_items re_URI out"
  by (erule convertItems_named; auto simp: ServerResourceToGoSdkResource_def
      ServerResourceTemplateToGoSdkResourceTemplate_def split: option.splits)+

lemma named_tools:
  "convertItems (\<lambda>t. tl_Name (st_Tool t)) ServerToolToGoSdkTool kind xs = Inr out \<Longrightarrow> named_items mt_Name out"
  by (erule convertItems_named) (rule ServerToolToGoSdkTool_name)

lemmas named_converted = named_tools named_prompts named_resources

lemma collected_applicable:
  "t \<in> set (collectApplicableTools env cfg tss w) \<Longrightarrow> isToolApplicable cfg w t"
  by (simp add: collectApplicableTools_def Let_def CompositeFilter_list_all)

lemma applied_surface:
  assumes "surface_inv s" "applyToolsets env c w s = (Applied, s')"
  shows "surface_inv s'"
proof (cases rule: applyToolsets_cases[of env c w s])
  case (unchanged out)
  with assms(2) show ?thesis by simp
next
  case (applied tools prompts resources templates)
  note named = named_tools[OF applied(2)] named_prompts[OF applied(3)] named_resources(1)[OF applied(4)]
    named_resources(2)[OF applied(5)]
  have inv: "dom (sv_sdkTools s) = set (sv_enabledTools s)" "dom (sv_sdkPrompts s) = set (sv_enabledPrompts s)"
    "dom (sv_sdkResources s) = set (sv_enabledResources s)"
    "dom (sv_sdkResourceTemplates s) = set (sv_enabledResourceTemplates s)"
    using assms(1) by (simp_all add: surface_inv_def)
  have s': "s' = snd (applyToolsets env c w s)" using assms(2) by simp
  show ?thesis
    using items.commit_dom[OF named(1) inv(1)] items.commit_dom[OF named(2) inv(2)]
      items.commit_dom[OF named(3) inv(3)] items.commit_dom[OF named(4) inv(4)]
    unfolding surface_inv_def s' applied(6) by (simp add: items.commit_enabled)
qed

lemma applied_policy:
  assumes "surface_inv s" "applyToolsets env c w s = (Applied, s')"
  shows "policy_inv s'"
proof (cases rule: applyToolsets_cases[of env c w s])
  case (unchanged out)
  with assms(2) show ?thesis by simp
next
  case (applied tools prompts resources templates)
  have s': "s' = snd (applyToolsets env c w s)" using assms(2) by simp
  have tools: "sv_sdkTools s' = item_map tools" "sv_configuration s' = effective c s"
    using items.commit_surface[OF named_tools[OF applied(2)], of "sv_sdkTools s" "sv_enabledTools s"] assms(1)
    by (simp_all add: s' applied(6) surface_inv_def)
  have "n = tl_Name (st_Tool t) \<and> ServerToolToGoSdkTool t = Inr m \<and> isToolApplicable (effective c s) w t"
    if "item_map tools n = Some (m, t)" for n m t
    using convertItems_member[OF applied(2) item_map_member[OF that]] by (auto intro: collected_applicable)
  then show ?thesis unfolding policy_inv_def tools by blast
qed

lemma surface_inv_new: "surface_inv (new_server cfg)"
  by (simp add: surface_inv_def new_server_def)

section \<open>Reachable servers\<close>

text \<open>
  A server starts with a successful \<open>NewServer\<close>. Then configuration reloads (accepted,
  rejected or failed) and re-applications after cluster changes happen in any order and any
  number, each with the state of the world at its moment.
\<close>

inductive server_reachable :: "('w, 'k) server_env \<Rightarrow> ('w, 'k) Server \<Rightarrow> bool" for env where
  start: "NewServer env cfg w = (Applied, s) \<Longrightarrow> server_reachable env s"
| reload: "\<lbrakk>server_reachable env s; ReloadConfiguration env cfg w s = (out, s')\<rbrakk> \<Longrightarrow> server_reachable env s'"
| reapply: "\<lbrakk>server_reachable env s; reapplyToolsets env w s = (out, s')\<rbrakk> \<Longrightarrow> server_reachable env s'"

lemma apply_keeps_inv:
  assumes "surface_inv s \<and> policy_inv s" "applyToolsets env c w s = (out, s')"
  shows "surface_inv s' \<and> policy_inv s'"
proof (cases "out = Applied")
  case True
  with assms show ?thesis by (auto intro: applied_surface applied_policy)
next
  case False
  with applyToolsets_failed[OF assms(2)] assms(1) show ?thesis by simp
qed

lemma reload_apply:
  assumes "ReloadConfiguration env cfg w s = (out, s')"
  obtains (unchanged) "s' = s" | (applied) c out' where "applyToolsets env c w s = (out', s')"
proof (cases "StaticConfig_Validate (se_Validation env)
    (cfg\<lparr>c_providerStrategies := se_ProviderStrategies env,
         c_tokenExchangeStrategies := se_ExchangeStrategies env\<rparr>)")
  case (Pair e candidate)
  then show thesis
    using assms that unfolding ReloadConfiguration_def
    by (cases e; cases "applyToolsets env (Some candidate) w s"; cases "fst (applyToolsets env (Some candidate) w s)")
      auto
qed

lemma reachable_inv: "server_reachable env s \<Longrightarrow> surface_inv s \<and> policy_inv s"
proof (induction rule: server_reachable.induct)
  case (start cfg w s)
  then show ?case
    unfolding NewServer_def by (auto intro: applied_surface applied_policy surface_inv_new)
next
  case (reload s cfg w out s')
  from reload(2) show ?case
  proof (cases rule: reload_apply)
    case unchanged
    then show ?thesis using reload.IH by simp
  next
    case (applied c out')
    show ?thesis by (rule apply_keeps_inv[OF reload.IH applied])
  qed
next
  case (reapply s w out s')
  then show ?case unfolding reapplyToolsets_def by (auto dest: apply_keeps_inv[rotated])
qed

text \<open>
  C4: in every reachable state of the server the exposed tools obey the installed
  configuration: under \<open>read_only\<close> each has \<open>readOnlyHint\<close> true, under
  \<open>disable_destructive\<close> none has \<open>destructiveHint\<close> true, only tools of \<open>enabled_tools\<close> (when
  set) and none of \<open>disabled_tools\<close> appear; and the names registered with the SDK are exactly
  the names the server reports as enabled, for tools, prompts, resources and templates.
\<close>

theorem exposed_tools_obey_configuration:
  assumes "server_reachable env s"
  shows "surface_inv s
    \<and> (\<forall>n m t. sv_sdkTools s n = Some (m, t) \<longrightarrow> mt_Name m = n
      \<and> (c_ReadOnly (sv_configuration s) \<longrightarrow> mt_ReadOnlyHint m)
      \<and> (c_DisableDestructive (sv_configuration s) \<longrightarrow> mt_DestructiveHint m \<noteq> Some True)
      \<and> (\<forall>ts. c_EnabledTools (sv_configuration s) = Some ts \<longrightarrow> n \<in> set ts)
      \<and> (\<forall>ts. c_DisabledTools (sv_configuration s) = Some ts \<longrightarrow> n \<notin> set ts))"
proof -
  have "mt_Name m = n
      \<and> (c_ReadOnly (sv_configuration s) \<longrightarrow> mt_ReadOnlyHint m)
      \<and> (c_DisableDestructive (sv_configuration s) \<longrightarrow> mt_DestructiveHint m \<noteq> Some True)
      \<and> (\<forall>ts. c_EnabledTools (sv_configuration s) = Some ts \<longrightarrow> n \<in> set ts)
      \<and> (\<forall>ts. c_DisabledTools (sv_configuration s) = Some ts \<longrightarrow> n \<notin> set ts)"
    if t: "sv_sdkTools s n = Some (m, t)" for n m t
  proof -
    obtain w where w: "n = tl_Name (st_Tool t)" "ServerToolToGoSdkTool t = Inr m"
      "isToolApplicable (sv_configuration s) w t"
      using t reachable_inv[OF assms] unfolding policy_inv_def by blast
    have "mt_ReadOnlyHint m = deref (an_ReadOnlyHint (tl_Annotations (st_Tool t))) False
        \<and> mt_DestructiveHint m = an_DestructiveHint (tl_Annotations (st_Tool t))"
      using w(2) by (auto simp: ServerToolToGoSdkTool_def Let_def split: option.splits if_splits)
    with w ServerToolToGoSdkTool_name[OF w(2)] show ?thesis
      unfolding isToolApplicable_iff by (simp add: deref_def)
  qed
  with reachable_inv[OF assms] show ?thesis by simp
qed

text \<open>A server with one read-only tool, for the witnesses.\<close>

definition mini_tool :: "(unit, unit) ServerTool" where
  "mini_tool = \<lparr>st_Tool = \<lparr>tl_Name = ''ns_list'', tl_Description = [],
       tl_Annotations = \<lparr>an_Title = [], an_ReadOnlyHint = Some True, an_DestructiveHint = None,
         an_IdempotentHint = None, an_OpenWorldHint = None\<rparr>,
       tl_Meta = [], tl_InputSchema = Some (Schema ''object'' [] None), tl_OutputSchema = None\<rparr>,
     st_Handler = (\<lambda>_ w. (Inr (NewToolCallResult [] None), w)),
     st_ClusterAware = Some False, st_TargetListProvider = None, st_TargetCompatibilityFilters = []\<rparr>"

definition mini_toolset :: "(unit, unit) Toolset" where
  "mini_toolset = \<lparr>ts_Name = ''core'', ts_GetTools = (\<lambda>_. [mini_tool]), ts_GetPrompts = [],
     ts_GetResources = [], ts_GetResourceTemplates = []\<rparr>"

definition mini_env :: "(unit, unit) server_env" where
  "mini_env = \<lparr>se_Validation = \<lparr>ve_Getenv = (\<lambda>_. []), ve_Stat = (\<lambda>_. None), ve_UrlScheme = (\<lambda>_. Inl []),
       ve_Toolsets = \<lparr>toolsets = [(''core'', mini_toolset)]\<rparr>, ve_GetName = ts_Name,
       ve_CipherSuites = Map.empty\<rparr>,
     se_Provider = \<lparr>pv_TargetParameterName = ''context'', pv_DefaultTarget = ''d'', pv_IsMultiTarget = False,
       pv_GetTargets = (\<lambda>w. (Inr [], w)), pv_GetDerivedKubernetes = (\<lambda>_ _ w. (Inr (), w))\<rparr>,
     se_ProviderStrategies = [], se_ExchangeStrategies = [], se_UrlError = (\<lambda>_. None),
     se_TemplateError = (\<lambda>_. None)\<rparr>"

definition mini_cfg :: StaticConfig where
  "mini_cfg = zeroConfig\<lparr>c_ReadOnly := True, c_Toolsets := [''core''], c_ListOutput := ''yaml''\<rparr>"

lemma TrimSpace_core: "TrimSpace ''core'' = ''core''"
  by (simp add: TrimSpace_def TrimSpaceLeft.simps[of "''core''"] TrimSpaceRight.simps[of "''core''"]
      space_runes_def HasSuffix_def)

lemma mini_toolsets: "Configuration_Toolsets mini_env mini_cfg = [Some mini_toolset]"
  by (simp add: Configuration_Toolsets_def mini_env_def mini_cfg_def ToolsetFromString_def
      toolset_get_def TrimSpace_core)

lemma mini_server:
  "\<exists>s. NewServer mini_env mini_cfg () = (Applied, s) \<and> sv_enabledTools s = [''ns_list'']
     \<and> c_ReadOnly (sv_configuration s)"
proof -
  have "collectApplicableTools mini_env mini_cfg [mini_toolset] () = [mini_tool]"
    by (simp add: collectApplicableTools_def mini_env_def mini_toolset_def mini_tool_def mini_cfg_def
        zeroConfig_def WithTargetParameter_def IsClusterAware_def WithTargetListTool_def
        WithToolOverrides_def isToolApplicable_def ShouldIncludeTargetListTool_def
        IsTargetListProvider_def deref_def)
  moreover obtain m where "ServerToolToGoSdkTool mini_tool = Inr m"
    by (simp add: ServerToolToGoSdkTool_def mini_tool_def Let_def)
  moreover have "tl_Name (st_Tool mini_tool) = ''ns_list''" by (simp add: mini_tool_def)
  moreover have "collectApplicablePrompts mini_env mini_cfg [mini_toolset] = []"
    by (simp add: collectApplicablePrompts_def mini_toolset_def mini_cfg_def zeroConfig_def
        MergePrompts_def ToServerPrompts_def Let_def)
  moreover have "collectApplicableResources [mini_toolset] = []"
    "collectApplicableResourceTemplates [mini_toolset] = []"
    by (simp_all add: collectApplicableResources_def collectApplicableResourceTemplates_def mini_toolset_def)
  ultimately show ?thesis
    by (simp add: NewServer_def applyToolsets_def mini_toolsets commitItems_def mini_cfg_def[symmetric])
      (simp add: mini_cfg_def)
qed

theorem exposed_tools_obey_configuration_witness:
  "\<exists>s. server_reachable mini_env s \<and> sv_enabledTools s = [''ns_list''] \<and> surface_inv s
     \<and> (\<exists>m t. sv_sdkTools s ''ns_list'' = Some (m, t) \<and> mt_ReadOnlyHint m)"
proof -
  obtain s where s: "NewServer mini_env mini_cfg () = (Applied, s)" "sv_enabledTools s = [''ns_list'']"
    "c_ReadOnly (sv_configuration s)" using mini_server by blast
  have reach: "server_reachable mini_env s" using s(1) by (rule server_reachable.start)
  note facts = exposed_tools_obey_configuration[OF reach]
  then have "dom (sv_sdkTools s) = {''ns_list''}" using s(2) by (simp add: surface_inv_def)
  then obtain m t where "sv_sdkTools s ''ns_list'' = Some (m, t)" by (metis domD insertI1 surj_pair)
  with facts s reach show ?thesis by metis
qed

section \<open>Reload is transactional and total\<close>

lemma validated_toolsets_known:
  assumes "fst (StaticConfig_Validate (se_Validation env) cfg) = None"
  shows "None \<notin> set (Configuration_Toolsets env (snd (StaticConfig_Validate (se_Validation env) cfg)))"
proof -
  have "selection_ok (se_Validation env) (normalize cfg)"
    and snd: "snd (StaticConfig_Validate (se_Validation env) cfg) = normalize cfg"
    using validate_accepts[of "se_Validation env" cfg] assms by auto
  then show ?thesis
    unfolding snd
    by (auto simp: selection_ok_def Configuration_Toolsets_def ToolsetFromString_def)
qed



end
