(* ===== verification/Middleware.thy ===== *)
theory Middleware
  imports Json Api_Types
begin

text \<open>
  The receiving middlewares of \<open>src/pkg/mcp/middleware.go\<close> that decide or pass on values: the
  per-session rate limiter with its reaper, session injection, authorization header and user
  agent propagation. \<open>golang.org/x/time/rate\<close> is a parameter: a function that makes a limiter
  for a limit and burst, and one that takes a token at a point in time.
\<close>

section \<open>Rate limiting\<close>

record 'l rateLimiterEntry =
  rl_limiter :: 'l
  rl_lastSeen :: int

text \<open>The variables the middleware's closures share under their mutex.\<close>

record 'l rate_state =
  rs_limiters :: "string \<rightharpoonup> 'l rateLimiterEntry"
  rs_currentLimit :: rat
  rs_currentBurst :: int

record 'l rate_lib =
  lib_NewLimiter :: "rat \<Rightarrow> int \<Rightarrow> 'l"
  lib_Allow :: "'l \<Rightarrow> int \<Rightarrow> bool \<times> 'l"

definition rate_initial :: "'l rate_state" where
  "rate_initial = \<lparr>rs_limiters = Map.empty, rs_currentLimit = 0, rs_currentBurst = 0\<rparr>"

datatype verdict = PassThrough | RateLimitExceeded

text \<open>
  One request: \<open>session\<close> is the ID of its server session if it has one, \<open>t\<close> the time. The
  entry is a pointer, so taking a token updates the entry in the map.
\<close>

definition rateLimitingMiddleware ::
  "'l rate_lib \<Rightarrow> rat \<times> int \<Rightarrow> string option \<Rightarrow> int \<Rightarrow> 'l rate_state \<Rightarrow> verdict \<times> 'l rate_state" where
  "rateLimitingMiddleware lib cfg session t st =
     (let (limit, burst) = cfg in
      if limit \<le> 0 then (PassThrough, st)
      else (case session of
              None \<Rightarrow> (PassThrough, st)
            | Some sid \<Rightarrow>
                if sid = [] then (PassThrough, st)
                else
                  (let st1 = (if limit \<noteq> rs_currentLimit st \<or> burst \<noteq> rs_currentBurst st
                              then st\<lparr>rs_limiters := Map.empty, rs_currentLimit := limit, rs_currentBurst := burst\<rparr>
                              else st);
                       entry = (case rs_limiters st1 sid of
                                  None \<Rightarrow> \<lparr>rl_limiter = lib_NewLimiter lib limit burst, rl_lastSeen = t\<rparr>
                                | Some e \<Rightarrow> e\<lparr>rl_lastSeen := t\<rparr>);
                       (allowed, limiter') = lib_Allow lib (rl_limiter entry) t;
                       st2 = st1\<lparr>rs_limiters := (rs_limiters st1)(sid \<mapsto> entry\<lparr>rl_limiter := limiter'\<rparr>)\<rparr>
                   in (if \<not> allowed then RateLimitExceeded else PassThrough, st2))))"

definition stale_after :: int where
  "stale_after = 10 * 60 * 1000000000"

text \<open>A tick of the reaper deletes the sessions not seen for more than ten minutes.\<close>

definition reap :: "int \<Rightarrow> 'l rate_state \<Rightarrow> 'l rate_state" where
  "reap t st = st\<lparr>rs_limiters := (\<lambda>sid. case rs_limiters st sid of
     None \<Rightarrow> None
   | Some e \<Rightarrow> (if t - rl_lastSeen e > stale_after then None else Some e))\<rparr>"

text \<open>The configuration function \<open>NewServer\<close> passes: an unset burst is the default of ten.\<close>

definition rate_config :: "rat \<Rightarrow> int \<Rightarrow> rat \<times> int" where
  "rate_config rps burst = (rps, if burst = 0 then 10 else burst)"

section \<open>Context propagation\<close>

record client_info =
  ci_Name :: string
  ci_Version :: string

record 'w mcp_session =
  ms_ID :: string
  ms_Elicit :: "'w session_elicit"
  ms_ClientInfo :: "client_info option"

text \<open>A request: its server session if any, and the HTTP headers if it came over HTTP.\<close>

record 'w mcp_request =
  mr_Session :: "'w mcp_session option"
  mr_Header :: "(string \<Rightarrow> string) option"

definition sessionInjectionMiddleware :: "'w call_ctx \<Rightarrow> 'w mcp_request \<Rightarrow> 'w call_ctx" where
  "sessionInjectionMiddleware ctx req = (case mr_Session req of
     None \<Rightarrow> ctx
   | Some s \<Rightarrow> ctx\<lparr>cx_Session := ServerSession (ms_Elicit s)\<rparr>)"

definition authHeaderPropagationMiddleware :: "'w call_ctx \<Rightarrow> 'w mcp_request \<Rightarrow> 'w call_ctx" where
  "authHeaderPropagationMiddleware ctx req = (case mr_Header req of
     None \<Rightarrow> ctx
   | Some get \<Rightarrow>
       (if get ''Authorization'' \<noteq> [] then ctx\<lparr>cx_Authorization := Some (get ''Authorization'')\<rparr>
        else if get ''kubernetes-authorization'' \<noteq> []
        then ctx\<lparr>cx_Authorization := Some (get ''kubernetes-authorization'')\<rparr>
        else ctx))"

definition getMcpReqUserAgent :: "'w mcp_request \<Rightarrow> string" where
  "getMcpReqUserAgent req =
     (if (case mr_Header req of None \<Rightarrow> False | Some get \<Rightarrow> get ''User-Agent'' \<noteq> [])
      then the (mr_Header req) ''User-Agent''
      else (case mr_Session req of
              None \<Rightarrow> []
            | Some s \<Rightarrow> (case ms_ClientInfo s of
                None \<Rightarrow> []
              | Some ci \<Rightarrow> (if ci_Name ci = [] \<and> ci_Version ci = [] then []
                           else ci_Name ci @ ''/'' @ ci_Version ci))))"

text \<open>\<open>goos\<close> and \<open>goarch\<close> are the platform the server was built for.\<close>

definition userAgentPropagationMiddleware ::
  "string \<Rightarrow> string \<Rightarrow> string \<Rightarrow> string \<Rightarrow> 'w call_ctx \<Rightarrow> 'w mcp_request \<Rightarrow> 'w call_ctx" where
  "userAgentPropagationMiddleware goos goarch serverName serverVersion ctx req =
     ctx\<lparr>cx_UserAgent := Some (TrimSpace (serverName @ ''/'' @ serverVersion @ '' ('' @ goos @ ''/'' @ goarch
       @ '') '' @ getMcpReqUserAgent req))\<rparr>"

section \<open>The chain\<close>

text \<open>
  Each \<open>AddReceivingMiddleware\<close> call of \<open>NewServer\<close> wraps the handler built so far. The
  tracing, logging and metrics middlewares pass context and result on and are left out.
\<close>

type_synonym ('w, 'l, 'r) method_handler =
  "'w call_ctx \<Rightarrow> 'l rate_state \<Rightarrow> (unit, 'r) result \<times> 'l rate_state"

definition ctx_middleware ::
  "('w call_ctx \<Rightarrow> 'w call_ctx) \<Rightarrow> ('w, 'l, 'r) method_handler \<Rightarrow> ('w, 'l, 'r) method_handler" where
  "ctx_middleware f next ctx st = next (f ctx) st"

definition rate_middleware ::
  "'l rate_lib \<Rightarrow> rat \<times> int \<Rightarrow> 'w mcp_request \<Rightarrow> int \<Rightarrow> ('w, 'l, 'r) method_handler
   \<Rightarrow> ('w, 'l, 'r) method_handler" where
  "rate_middleware lib cfg req t next ctx st =
     (case rateLimitingMiddleware lib cfg (map_option ms_ID (mr_Session req)) t st of
        (RateLimitExceeded, st') \<Rightarrow> (Inl (), st')
      | (PassThrough, st') \<Rightarrow> next ctx st')"

definition receivingChain ::
  "'l rate_lib \<Rightarrow> rat \<times> int \<Rightarrow> ('w call_ctx \<Rightarrow> 'w mcp_request \<Rightarrow> 'w call_ctx) \<Rightarrow> 'w mcp_request \<Rightarrow> int
   \<Rightarrow> ('w, 'l, 'r) method_handler \<Rightarrow> ('w, 'l, 'r) method_handler" where
  "receivingChain lib cfg userAgent req t handler =
     foldl (\<lambda>h m. m h) handler
       [ctx_middleware (\<lambda>ctx. sessionInjectionMiddleware ctx req),
        rate_middleware lib cfg req t,
        ctx_middleware (\<lambda>ctx. authHeaderPropagationMiddleware ctx req),
        ctx_middleware (\<lambda>ctx. userAgent ctx req)]"

section \<open>Traces of the limiter\<close>

datatype rate_event = Request "rat \<times> int" "string option" int | Tick int

definition rate_step :: "'l rate_lib \<Rightarrow> rate_event \<Rightarrow> 'l rate_state \<Rightarrow> verdict option \<times> 'l rate_state" where
  "rate_step lib ev st = (case ev of
     Request cfg session t \<Rightarrow>
       (case rateLimitingMiddleware lib cfg session t st of (v, st') \<Rightarrow> (Some v, st'))
   | Tick t \<Rightarrow> (None, reap t st))"

fun rate_run :: "'l rate_lib \<Rightarrow> rate_event list \<Rightarrow> 'l rate_state \<Rightarrow> (rate_event \<times> verdict) list \<times> 'l rate_state" where
  "rate_run lib [] st = ([], st)"
| "rate_run lib (ev # evs) st =
     (case rate_step lib ev st of
        (v, st') \<Rightarrow> (case rate_run lib evs st' of
          (vs, st'') \<Rightarrow> ((case v of None \<Rightarrow> [] | Some x \<Rightarrow> [(ev, x)]) @ vs, st'')))"

definition concerns :: "string \<Rightarrow> rate_event \<Rightarrow> bool" where
  "concerns sid ev \<longleftrightarrow> (case ev of Request _ session _ \<Rightarrow> session = Some sid | Tick _ \<Rightarrow> False)"

definition is_tick :: "rate_event \<Rightarrow> bool" where
  "is_tick ev \<longleftrightarrow> (case ev of Request _ _ _ \<Rightarrow> False | Tick _ \<Rightarrow> True)"

definition same_config :: "rat \<times> int \<Rightarrow> rate_event \<Rightarrow> bool" where
  "same_config cfg ev \<longleftrightarrow> (case ev of Request c _ _ \<Rightarrow> c = cfg | Tick _ \<Rightarrow> True)"

text \<open>Under one configuration the map is empty until the configuration has been recorded.\<close>

definition settled :: "rat \<times> int \<Rightarrow> 'l rate_state \<Rightarrow> bool" where
  "settled cfg st \<longleftrightarrow> (rs_currentLimit st, rs_currentBurst st) = cfg \<or> rs_limiters st = Map.empty"

definition agree :: "rat \<times> int \<Rightarrow> string \<Rightarrow> 'l rate_state \<Rightarrow> 'l rate_state \<Rightarrow> bool" where
  "agree cfg sid st st' \<longleftrightarrow> settled cfg st \<and> settled cfg st' \<and> rs_limiters st sid = rs_limiters st' sid"

lemma agree_refl: "agree cfg sid rate_initial rate_initial"
  by (simp add: agree_def settled_def rate_initial_def)

lemma agree_tick: "agree cfg sid st st' \<Longrightarrow> agree cfg sid (reap t st) (reap t st')"
  by (auto simp: agree_def settled_def reap_def fun_eq_iff split: option.splits)

lemma agree_other:
  assumes "agree cfg sid st st'" "session \<noteq> Some sid"
  shows "agree cfg sid (snd (rateLimitingMiddleware lib cfg session t st)) st'"
  using assms
  by (auto simp: agree_def settled_def rateLimitingMiddleware_def Let_def case_prod_beta prod_eq_iff
      split: option.splits)

text \<open>The entry a request of a session uses, and what it leaves in the map.\<close>

definition entry_for :: "'l rate_lib \<Rightarrow> rat \<times> int \<Rightarrow> int \<Rightarrow> 'l rateLimiterEntry option \<Rightarrow> 'l rateLimiterEntry" where
  "entry_for lib cfg t e = (case e of
     None \<Rightarrow> \<lparr>rl_limiter = lib_NewLimiter lib (fst cfg) (snd cfg), rl_lastSeen = t\<rparr>
   | Some e \<Rightarrow> e\<lparr>rl_lastSeen := t\<rparr>)"

definition current_entry :: "rat \<times> int \<Rightarrow> string \<Rightarrow> 'l rate_state \<Rightarrow> 'l rateLimiterEntry option" where
  "current_entry cfg sid st =
     (if (rs_currentLimit st, rs_currentBurst st) = cfg then rs_limiters st sid else None)"

lemma limited_request:
  assumes "fst cfg > 0" "sid \<noteq> []" and e_def: "e = entry_for lib cfg t (current_entry cfg sid st)"
  shows "fst (rateLimitingMiddleware lib cfg (Some sid) t st) =
           (if fst (lib_Allow lib (rl_limiter e) t) then PassThrough else RateLimitExceeded)"
    and "snd (rateLimitingMiddleware lib cfg (Some sid) t st) =
           \<lparr>rs_limiters = (if (rs_currentLimit st, rs_currentBurst st) = cfg then rs_limiters st else Map.empty)
              (sid \<mapsto> e\<lparr>rl_limiter := snd (lib_Allow lib (rl_limiter e) t)\<rparr>),
            rs_currentLimit = fst cfg, rs_currentBurst = snd cfg\<rparr>"
proof -
  obtain limit burst where cfg: "cfg = (limit, burst)" by force
  have pos: "\<not> limit \<le> 0" using assms(1) cfg by simp
  show "fst (rateLimitingMiddleware lib cfg (Some sid) t st) =
      (if fst (lib_Allow lib (rl_limiter e) t) then PassThrough else RateLimitExceeded)"
    using pos assms(2)
    by (auto simp: e_def cfg rateLimitingMiddleware_def entry_for_def current_entry_def Let_def case_prod_beta
        split: option.splits)
  show "snd (rateLimitingMiddleware lib cfg (Some sid) t st) =
      \<lparr>rs_limiters = (if (rs_currentLimit st, rs_currentBurst st) = cfg then rs_limiters st else Map.empty)
         (sid \<mapsto> e\<lparr>rl_limiter := snd (lib_Allow lib (rl_limiter e) t)\<rparr>),
       rs_currentLimit = fst cfg, rs_currentBurst = snd cfg\<rparr>"
    using pos assms(2)
    by (cases st) (auto simp: e_def cfg rateLimitingMiddleware_def entry_for_def current_entry_def Let_def
        case_prod_beta split: option.splits)
qed

lemma bypass:
  "fst cfg \<le> 0 \<or> session = None \<or> session = Some [] \<Longrightarrow>
     rateLimitingMiddleware lib cfg session t st = (PassThrough, st)"
  by (auto simp: rateLimitingMiddleware_def case_prod_beta split: option.splits)

lemma agree_own:
  assumes "agree cfg sid st st'"
  shows "fst (rateLimitingMiddleware lib cfg (Some sid) t st) = fst (rateLimitingMiddleware lib cfg (Some sid) t st')
    \<and> agree cfg sid (snd (rateLimitingMiddleware lib cfg (Some sid) t st))
           (snd (rateLimitingMiddleware lib cfg (Some sid) t st'))"
proof (cases "fst cfg > 0 \<and> sid \<noteq> []")
  case True
  have "current_entry cfg sid st = current_entry cfg sid st'"
    using assms by (auto simp: agree_def settled_def current_entry_def)
  then show ?thesis
    using limited_request[OF _ _ refl, of cfg sid lib t] True by (simp add: agree_def settled_def)
next
  case False
  then have "fst cfg \<le> 0 \<or> Some sid = None \<or> Some sid = Some []" by auto
  then show ?thesis using assms by (simp add: bypass)
qed

lemma isolated_run:
  assumes "agree cfg sid st st'" "list_all (same_config cfg) evs"
  shows "filter (\<lambda>(ev, v). concerns sid ev) (fst (rate_run lib evs st))
           = fst (rate_run lib (filter (\<lambda>ev. concerns sid ev \<or> is_tick ev) evs) st')"
  using assms
proof (induction evs arbitrary: st st')
  case (Cons ev evs)
  show ?case
  proof (cases ev)
    case (Tick t)
    then show ?thesis
      using Cons.IH[OF agree_tick[OF Cons.prems(1)]] Cons.prems(2)
      by (simp add: rate_step_def concerns_def is_tick_def case_prod_beta)
  next
    case (Request c session t)
    have c: "c = cfg" using Cons.prems(2) Request by (simp add: same_config_def)
    have evs: "list_all (same_config cfg) evs" using Cons.prems(2) by simp
    show ?thesis
    proof (cases "session = Some sid")
      case True
      show ?thesis
        using agree_own[OF Cons.prems(1), of lib t] Cons.IH[OF _ evs] True Request c
        by (simp add: rate_step_def concerns_def case_prod_beta)
    next
      case False
      show ?thesis
        using Cons.IH[OF agree_other[OF Cons.prems(1) False] evs, of lib t] False Request c
        by (simp add: rate_step_def concerns_def is_tick_def case_prod_beta)
    qed
  qed
qed simp

text \<open>
  Sessions do not affect each other's rate limit. In any trace of requests and reaper ticks
  under one configuration, the verdicts for a session are exactly those it would get if every
  request of the other sessions were absent.
\<close>

theorem rate_limit_isolation:
  assumes "list_all (same_config cfg) evs"
  shows "filter (\<lambda>(ev, v). concerns sid ev) (fst (rate_run lib evs rate_initial))
           = fst (rate_run lib (filter (\<lambda>ev. concerns sid ev \<or> is_tick ev) evs) rate_initial)"
  by (rule isolated_run[OF agree_refl assms])

text \<open>A limiter that allows a fixed number of requests.\<close>

definition budget_lib :: "int rate_lib" where
  "budget_lib = \<lparr>lib_NewLimiter = (\<lambda>limit burst. burst), lib_Allow = (\<lambda>l t. (l > 0, l - 1))\<rparr>"

theorem rate_limit_isolation_witness:
  "filter (\<lambda>(ev, v). concerns ''a'' ev)
     (fst (rate_run budget_lib [Request (1, 1) (Some ''a'') 0, Request (1, 1) (Some ''b'') 1,
        Request (1, 1) (Some ''a'') 2] rate_initial))
   = fst (rate_run budget_lib [Request (1, 1) (Some ''a'') 0, Request (1, 1) (Some ''a'') 2] rate_initial)"
  using rate_limit_isolation[of "(1, 1)" "[Request (1, 1) (Some ''a'') 0, Request (1, 1) (Some ''b'') 1,
        Request (1, 1) (Some ''a'') 2]" "''a''" budget_lib]
  by (simp add: same_config_def concerns_def is_tick_def)

section \<open>Limiters follow the configuration\<close>

definition derived_limiter :: "'l rate_lib \<Rightarrow> rat \<Rightarrow> int \<Rightarrow> 'l \<Rightarrow> bool" where
  "derived_limiter lib limit burst l \<longleftrightarrow>
     (\<exists>ts. l = fold (\<lambda>t l. snd (lib_Allow lib l t)) ts (lib_NewLimiter lib limit burst))"

definition limiters_current :: "'l rate_lib \<Rightarrow> 'l rate_state \<Rightarrow> bool" where
  "limiters_current lib st \<longleftrightarrow> (\<forall>sid e. rs_limiters st sid = Some e \<longrightarrow>
     sid \<noteq> [] \<and> derived_limiter lib (rs_currentLimit st) (rs_currentBurst st) (rl_limiter e))"

lemma derived_new: "derived_limiter lib limit burst (lib_NewLimiter lib limit burst)"
  unfolding derived_limiter_def by (rule exI[of _ "[]"]) simp

lemma derived_allow:
  assumes "derived_limiter lib limit burst l"
  shows "derived_limiter lib limit burst (snd (lib_Allow lib l t))"
proof -
  obtain ts where "l = fold (\<lambda>t l. snd (lib_Allow lib l t)) ts (lib_NewLimiter lib limit burst)"
    using assms by (auto simp: derived_limiter_def)
  then have "snd (lib_Allow lib l t)
      = fold (\<lambda>t l. snd (lib_Allow lib l t)) (ts @ [t]) (lib_NewLimiter lib limit burst)" by simp
  then show ?thesis unfolding derived_limiter_def by blast
qed

lemma entry_derived:
  assumes "limiters_current lib st"
  shows "derived_limiter lib (fst cfg) (snd cfg) (rl_limiter (entry_for lib cfg t (current_entry cfg sid st)))"
  using assms derived_new[of lib]
  by (auto simp: entry_for_def current_entry_def limiters_current_def split: option.splits if_splits)

lemma request_current:
  assumes "limiters_current lib st"
  shows "limiters_current lib (snd (rateLimitingMiddleware lib cfg session t st))"
proof (cases "fst cfg \<le> 0 \<or> session = None \<or> session = Some []")
  case True
  then show ?thesis using assms by (simp add: bypass)
next
  case False
  then obtain sid where sid: "session = Some sid" "sid \<noteq> []" and pos: "fst cfg > 0" by (cases session) auto
  have "derived_limiter lib (fst cfg) (snd cfg)
      (snd (lib_Allow lib (rl_limiter (entry_for lib cfg t (current_entry cfg sid st))) t))"
    by (rule derived_allow[OF entry_derived[OF assms]])
  then show ?thesis
    using assms sid unfolding sid(1) limited_request(2)[OF pos sid(2) refl] limiters_current_def
    by (auto split: if_splits)
qed

lemma run_current: "limiters_current lib st \<Longrightarrow> limiters_current lib (snd (rate_run lib evs st))"
proof (induction evs arbitrary: st)
  case (Cons ev evs)
  have "limiters_current lib (snd (rate_step lib ev st))"
  proof (cases ev)
    case (Request cfg session t)
    then show ?thesis using request_current[OF Cons.prems] by (simp add: rate_step_def case_prod_beta)
  next
    case (Tick t)
    then show ?thesis using Cons.prems
      by (auto simp: rate_step_def reap_def limiters_current_def split: option.splits if_splits)
  qed
  then show ?case using Cons.IH by (simp add: case_prod_beta)
qed simp

text \<open>
  C19: the limits in force are those of the current configuration. After any trace of requests
  (with whatever limits the configuration had at each) and reaper ticks, a further request
  that is subject to limiting is judged by a limiter that was created with exactly the limit
  and burst of the configuration this request sees; a reload takes effect at once for every
  session.
\<close>

theorem rate_limit_follows_configuration:
  assumes "limit > 0" "sid \<noteq> []"
  shows "\<exists>l. derived_limiter lib limit burst l
     \<and> (fst (rateLimitingMiddleware lib (limit, burst) (Some sid) t (snd (rate_run lib evs rate_initial)))
          = (if fst (lib_Allow lib l t) then PassThrough else RateLimitExceeded))"
proof -
  let ?st = "snd (rate_run lib evs rate_initial)"
  have "limiters_current lib ?st"
    by (rule run_current) (simp add: limiters_current_def rate_initial_def)
  from entry_derived[OF this, of "(limit, burst)" t sid]
  have "derived_limiter lib limit burst
      (rl_limiter (entry_for lib (limit, burst) t (current_entry (limit, burst) sid ?st)))" by simp
  moreover have "fst (limit, burst) > 0" using assms(1) by simp
  ultimately show ?thesis using limited_request(1)[OF _ assms(2) refl] by blast
qed

theorem rate_limit_follows_configuration_witness:
  "\<exists>l. derived_limiter budget_lib 2 1 l
     \<and> (fst (rateLimitingMiddleware budget_lib (2, 1) (Some ''a'') 9
          (snd (rate_run budget_lib [Request (1, 0) (Some ''a'') 3] rate_initial)))
          = (if fst (lib_Allow budget_lib l 9) then PassThrough else RateLimitExceeded))"
  by (rule rate_limit_follows_configuration) simp_all

text \<open>
  The receiving chain delivers an admitted request to the method handler with all three
  values in the context: its server session when it has one, its authorization header (the
  standard one, else the custom one, else whatever the context had) and the composed user
  agent. A request over its limit never reaches the handler. Since each registration wraps the
  chain built before it, the session is injected last: no other middleware of the chain sees it.
\<close>

theorem receiving_chain_order:
  "receivingChain lib cfg (userAgentPropagationMiddleware goos goarch name version) req t handler ctx st =
     (case rateLimitingMiddleware lib cfg (map_option ms_ID (mr_Session req)) t st of
        (RateLimitExceeded, st') \<Rightarrow> (Inl (), st')
      | (PassThrough, st') \<Rightarrow> handler (ctx\<lparr>
          cx_Session := (case mr_Session req of None \<Rightarrow> cx_Session ctx
                         | Some s \<Rightarrow> ServerSession (ms_Elicit s)),
          cx_Authorization := (case mr_Header req of None \<Rightarrow> cx_Authorization ctx
             | Some get \<Rightarrow> (case filter (\<lambda>v. v \<noteq> []) [get ''Authorization'', get ''kubernetes-authorization''] of
                 [] \<Rightarrow> cx_Authorization ctx | v # _ \<Rightarrow> Some v)),
          cx_UserAgent := Some (TrimSpace (name @ ''/'' @ version @ '' ('' @ goos @ ''/'' @ goarch
             @ '') '' @ getMcpReqUserAgent req))\<rparr>) st')"
proof (cases "rateLimitingMiddleware lib cfg (map_option ms_ID (mr_Session req)) t st")
  case (Pair v st')
  show ?thesis
    by (cases v; cases ctx) (simp_all add: Pair receivingChain_def ctx_middleware_def rate_middleware_def
        sessionInjectionMiddleware_def authHeaderPropagationMiddleware_def userAgentPropagationMiddleware_def
        split: option.split)
qed

end
