(* ===== verification/Http_Server.thy ===== *)
theory Http_Server
  imports Config_Validate
begin

text \<open>
  The HTTP front of the server: the middlewares of \<open>src/pkg/http/middleware.go\<close>, the
  authorization of \<open>src/pkg/http/authorization.go\<close>, the composition in \<open>Serve\<close> of
  \<open>src/pkg/http/http.go\<close>, the path classification of \<open>src/pkg/http/wellknown.go\<close> and the
  OAuth snapshot of \<open>src/pkg/oauth/state.go\<close>.

  A handler maps a request and the world to a response and the world; the world holds the
  clock, the configuration and OAuth states that handlers load, and what is behind the
  parameters. Parameters are the mux, the JWT library, OIDC providers and OpenTelemetry. Log
  output is not modelled.
\<close>

section \<open>Requests and handlers\<close>

text \<open>
  \<open>hr_EscapedPath\<close> is \<open>URL.EscapedPath()\<close>; \<open>hr_BodyLimit\<close> is set once the body is wrapped by
  \<open>http.MaxBytesReader\<close>; \<open>hr_Trace\<close> is the trace context of the request's context.
\<close>

record http_request =
  hr_Method :: string
  hr_Path :: string
  hr_EscapedPath :: string
  hr_Proto :: string
  hr_Header :: "string \<Rightarrow> string"
  hr_Host :: string
  hr_RemoteAddr :: string
  hr_TLS :: bool
  hr_ContentLength :: int
  hr_Body :: string
  hr_BodyLimit :: "int option"
  hr_Trace :: string

record http_response =
  rs_Status :: nat
  rs_Header :: "(string \<times> string) list"
  rs_Body :: string

type_synonym 'w http_handler = "http_request \<Rightarrow> 'w \<Rightarrow> http_response \<times> 'w"

type_synonym 'w http_middleware = "'w http_handler \<Rightarrow> 'w http_handler"

text \<open>\<open>http.Error\<close>, on a response that has the given headers set.\<close>

definition http_Error :: "(string \<times> string) list \<Rightarrow> string \<Rightarrow> nat \<Rightarrow> http_response" where
  "http_Error hs msg code = \<lparr>rs_Status = code,
     rs_Header = hs @ [(''Content-Type'', ''text/plain; charset=utf-8''), (''X-Content-Type-Options'', ''nosniff'')],
     rs_Body = msg @ newline\<rparr>"

text \<open>Reading the whole body through \<open>http.MaxBytesReader\<close>.\<close>

definition read_body :: "http_request \<Rightarrow> (string, string) result" where
  "read_body r = (case hr_BodyLimit r of
     None \<Rightarrow> Inr (hr_Body r)
   | Some n \<Rightarrow> (if int (length (hr_Body r)) > n then Inl ''http: request body too large'' else Inr (hr_Body r)))"

definition chain :: "'w http_handler \<Rightarrow> 'w http_middleware list \<Rightarrow> 'w http_handler" where
  "chain handler middlewares = foldr (\<lambda>m h. m h) middlewares handler"

section \<open>Client address, scheme and route\<close>

fun last_index :: "char \<Rightarrow> string \<Rightarrow> nat option" where
  "last_index c [] = None"
| "last_index c (x # xs) = (case last_index c xs of
     Some i \<Rightarrow> Some (Suc i)
   | None \<Rightarrow> (if x = c then Some 0 else None))"

text \<open>The host of \<open>net.SplitHostPort\<close>; \<open>None\<close> is any of its errors.\<close>

definition SplitHost :: "string \<Rightarrow> string option" where
  "SplitHost hostport = (case last_index (CHR '':'') hostport of
     None \<Rightarrow> None
   | Some i \<Rightarrow>
       (if hd hostport = CHR ''['' then
          (case Index hostport '']'' of
             None \<Rightarrow> None
           | Some e \<Rightarrow>
               (if e + 1 \<noteq> i then None
                else if CHR ''['' \<in> set (drop 1 hostport) \<or> CHR '']'' \<in> set (drop (e + 1) hostport) then None
                else Some (take (e - 1) (drop 1 hostport))))
        else
          (let host = take i hostport in
           if CHR '':'' \<in> set host then None
           else if CHR ''['' \<in> set hostport \<or> CHR '']'' \<in> set hostport then None
           else Some host)))"

definition getClientIP :: "http_request \<Rightarrow> bool \<Rightarrow> string" where
  "getClientIP r trustProxy =
     (let xff = hr_Header r ''X-Forwarded-For''; xri = hr_Header r ''X-Real-IP'';
          remote = (case SplitHost (hr_RemoteAddr r) of None \<Rightarrow> hr_RemoteAddr r | Some host \<Rightarrow> host)
      in if trustProxy then
           (if xff \<noteq> [] then
              (case Index xff '','' of Some idx \<Rightarrow> TrimSpace (take idx xff) | None \<Rightarrow> TrimSpace xff)
            else if xri \<noteq> [] then TrimSpace xri
            else remote)
         else remote)"

definition getHTTPRoute :: "string \<Rightarrow> string" where
  "getHTTPRoute path =
     (if path \<in> {''/healthz'', ''/mcp'', ''/stats''} then path
      else if HasPrefix path ''/.well-known/'' then ''/.well-known/*''
      else path)"

definition getScheme :: "http_request \<Rightarrow> bool \<Rightarrow> string" where
  "getScheme r trustProxy =
     (if trustProxy \<and> hr_Header r ''X-Forwarded-Proto'' \<noteq> [] then hr_Header r ''X-Forwarded-Proto''
      else if hr_TLS r then ''https'' else ''http'')"

section \<open>Tracing\<close>

datatype attr_value = AString string | AInt int

datatype span_code = CodeUnset | CodeOk | CodeError

record http_span =
  hs_Name :: string
  hs_Attributes :: "(string \<times> attr_value) list"
  hs_Code :: span_code

text \<open>What the middleware uses of OpenTelemetry.\<close>

record 'w otel =
  ot_Enabled :: "'w \<Rightarrow> bool"
  ot_Extract :: "(string \<Rightarrow> string) \<Rightarrow> string"
  ot_Start :: "http_span \<Rightarrow> string \<Rightarrow> string"
  ot_End :: "http_span \<Rightarrow> 'w \<Rightarrow> 'w"

definition request_span :: "http_request \<Rightarrow> bool \<Rightarrow> http_span" where
  "request_span r trustProxy =
     (let route = getHTTPRoute (hr_Path r); ua = hr_Header r ''User-Agent'' in
      \<lparr>hs_Name = hr_Method r @ '' '' @ route,
       hs_Attributes =
         [(''http.request.method'', AString (hr_Method r)),
          (''url.path'', AString (hr_Path r)),
          (''url.scheme'', AString (getScheme r trustProxy)),
          (''server.address'', AString (hr_Host r)),
          (''network.protocol.name'', AString ''http''),
          (''network.protocol.version'', AString (hr_Proto r)),
          (''client.address'', AString (getClientIP r trustProxy))]
         @ (if route \<noteq> hr_Path r then [(''http.route'', AString route)] else [])
         @ (if ua \<noteq> [] then [(''user_agent.original'', AString ua)] else [])
         @ (if hr_ContentLength r > 0 then [(''http.request.body.size'', AInt (hr_ContentLength r))] else []),
       hs_Code = CodeUnset\<rparr>)"

text \<open>The span at its end; the formatted status of the error attribute is kept as a number.\<close>

definition finished_span :: "http_span \<Rightarrow> nat \<Rightarrow> http_span" where
  "finished_span hspan status = hspan\<lparr>
     hs_Attributes := hs_Attributes hspan @ [(''http.response.status_code'', AInt (int status))]
       @ (if status \<ge> 400 then [(''error.type'', AInt (int status))] else []),
     hs_Code := (if status \<ge> 500 then CodeError else if status \<ge> 400 then CodeUnset else CodeOk)\<rparr>"

definition RequestMiddleware :: "'w otel \<Rightarrow> ('w \<Rightarrow> StaticConfig) \<Rightarrow> 'w http_middleware" where
  "RequestMiddleware ot cfgState next r w =
     (if hr_Path r = ''/healthz'' then next r w
      else
        (let trustProxy = c_TrustProxyHeaders (cfgState w) in
         if \<not> ot_Enabled ot w then next r w
         else
           (let ctx = ot_Extract ot (hr_Header r);
                hspan = request_span r trustProxy;
                (resp, w1) = next (r\<lparr>hr_Trace := ot_Start ot hspan ctx\<rparr>) w
            in (resp, ot_End ot (finished_span hspan (rs_Status resp)) w1))))"

text \<open>\<open>metricsMiddleware\<close> of \<open>http.go\<close>: \<open>collect\<close> is the metrics collector.\<close>

definition metricsMiddleware ::
  "(string \<Rightarrow> string \<Rightarrow> nat \<Rightarrow> 'w \<Rightarrow> 'w) \<Rightarrow> 'w http_middleware" where
  "metricsMiddleware collect next r w =
     (case next r w of (resp, w1) \<Rightarrow> (resp, collect (hr_Method r) (hr_Path r) (rs_Status resp) w1))"

section \<open>Body limit\<close>

definition MaxBodyMiddleware :: "('w \<Rightarrow> StaticConfig) \<Rightarrow> 'w http_middleware" where
  "MaxBodyMiddleware cfgState next r w =
     (if hr_Method r = ''GET'' \<or> hr_Method r = ''HEAD'' \<or> hr_Method r = ''OPTIONS'' then next r w
      else
        (let maxBytes = h_MaxBodyBytes (c_HTTP (cfgState w)) in
         if maxBytes \<le> 0 then next r w
         else next (r\<lparr>hr_BodyLimit := Some maxBytes\<rparr>) w))"

section \<open>Unprotected paths\<close>

definition infraPaths :: "string list" where
  "infraPaths = [''/healthz'', ''/metrics'', ''/stats'']"

definition WellKnownEndpoints :: "string list" where
  "WellKnownEndpoints =
     [''/.well-known/oauth-authorization-server'', ''/.well-known/oauth-protected-resource'',
      ''/.well-known/openid-configuration'']"

text \<open>\<open>matchWellKnownEndpoint\<close>; the empty string stands for no match as in the code.\<close>

definition matchWellKnownEndpoint :: "string \<Rightarrow> string" where
  "matchWellKnownEndpoint path =
     (if Contains path ''..'' then []
      else (case find (\<lambda>ep. path = ep \<or> HasPrefix path (ep @ ''/'')) WellKnownEndpoints of
              None \<Rightarrow> []
            | Some ep \<Rightarrow> ep))"

definition isWellKnownPath :: "string \<Rightarrow> bool" where
  "isWellKnownPath path \<longleftrightarrow> matchWellKnownEndpoint path \<noteq> []"

section \<open>JSON web tokens\<close>

definition allSignatureAlgorithms :: "string list" where
  "allSignatureAlgorithms = [''EdDSA'', ''HS256'', ''HS384'', ''HS512'', ''RS256'', ''RS384'', ''RS512'',
     ''ES256'', ''ES384'', ''ES512'', ''PS256'', ''PS384'', ''PS512'']"

text \<open>
  What the code uses of the JWT library: parsing, extraction of claims and scope without
  verification, and the check of the registered claims against an expected audience at the
  current time.
\<close>

record ('j, 'c, 'w) jwt_lib =
  jl_ParseSigned :: "string \<Rightarrow> string list \<Rightarrow> (string, 'j) result"
  jl_UnsafeClaims :: "'j \<Rightarrow> (string, 'c \<times> string) result"
  jl_Validate :: "'c \<Rightarrow> string list \<Rightarrow> 'w \<Rightarrow> string option"

text \<open>\<open>provider.Verifier(cfg).Verify\<close>: the client ID, whether its check is skipped, and the token.\<close>

record 'w oidc_provider =
  op_Verify :: "string \<Rightarrow> bool \<Rightarrow> string \<Rightarrow> 'w \<Rightarrow> string option \<times> 'w"

record 'c JWTClaims =
  jc_Claims :: 'c
  jc_Token :: string
  jc_Scope :: string

definition ParseJWTClaims :: "('j, 'c, 'w) jwt_lib \<Rightarrow> string \<Rightarrow> (string, 'c JWTClaims) result" where
  "ParseJWTClaims lib token =
     bindE (mapErr (\<lambda>e. ''failed to parse JWT token: '' @ e) (jl_ParseSigned lib token allSignatureAlgorithms)) (\<lambda>tkn.
       bindE (jl_UnsafeClaims lib tkn) (\<lambda>(claims, scope).
         Inr \<lparr>jc_Claims = claims, jc_Token = token, jc_Scope = scope\<rparr>))"

definition ValidateOffline :: "('j, 'c, 'w) jwt_lib \<Rightarrow> 'c JWTClaims \<Rightarrow> string \<Rightarrow> 'w \<Rightarrow> string option" where
  "ValidateOffline lib c audience w =
     (let anyAudience = (if audience \<noteq> [] then [audience] else []) in
      map_option (\<lambda>e. ''JWT token validation error: '' @ e) (jl_Validate lib (jc_Claims c) anyAudience w))"

definition ValidateWithProvider ::
  "'c JWTClaims \<Rightarrow> string \<Rightarrow> 'w oidc_provider option \<Rightarrow> 'w \<Rightarrow> string option \<times> 'w" where
  "ValidateWithProvider c audience provider w = (case provider of
     None \<Rightarrow> (None, w)
   | Some p \<Rightarrow>
       (case op_Verify p audience (audience = []) (jc_Token c) w of
          (err, w') \<Rightarrow> (map_option (\<lambda>e. ''OIDC token validation error: '' @ e) err, w')))"

section \<open>OAuth state\<close>

record ('p, 'h) Snapshot =
  sn_OIDCProvider :: "'p option"
  sn_HTTPClient :: "'h option"
  sn_AuthorizationURL :: string
  sn_CertificateAuthority :: string
  sn_TLSMinVersion :: string
  sn_TLSCipherSuites :: "string list"
  sn_OAuthScopes :: "string list"
  sn_DisableDynamicClientRegistration :: bool

text \<open>Snapshots are pointers; comparing a nil with a non-nil one gives unequal.\<close>

definition HasProviderConfigChanged :: "('p, 'h) Snapshot option \<Rightarrow> ('p, 'h) Snapshot option \<Rightarrow> bool" where
  "HasProviderConfigChanged so otherO = (case (so, otherO) of
     (Some s, Some other) \<Rightarrow>
       sn_AuthorizationURL s \<noteq> sn_AuthorizationURL other
       \<or> sn_CertificateAuthority s \<noteq> sn_CertificateAuthority other
       \<or> sn_TLSMinVersion s \<noteq> sn_TLSMinVersion other
       \<or> sn_TLSCipherSuites s \<noteq> sn_TLSCipherSuites other
   | (None, None) \<Rightarrow> False
   | _ \<Rightarrow> True)"

definition HasWellKnownConfigChanged :: "('p, 'h) Snapshot option \<Rightarrow> ('p, 'h) Snapshot option \<Rightarrow> bool" where
  "HasWellKnownConfigChanged so otherO = (case (so, otherO) of
     (Some s, Some other) \<Rightarrow>
       HasProviderConfigChanged so otherO
       \<or> sn_DisableDynamicClientRegistration s \<noteq> sn_DisableDynamicClientRegistration other
       \<or> sn_OAuthScopes s \<noteq> sn_OAuthScopes other
   | (None, None) \<Rightarrow> False
   | _ \<Rightarrow> True)"

definition SnapshotFromConfig ::
  "(string \<Rightarrow> string) \<Rightarrow> StaticConfig \<Rightarrow> 'p option \<Rightarrow> 'h option \<Rightarrow> ('p, 'h) Snapshot" where
  "SnapshotFromConfig getenv cfg provider httpClient =
     \<lparr>sn_OIDCProvider = provider, sn_HTTPClient = httpClient,
      sn_AuthorizationURL = c_AuthorizationURL cfg, sn_CertificateAuthority = c_CertificateAuthority cfg,
      sn_TLSMinVersion = GetTLSMinVersionConfig getenv cfg,
      sn_TLSCipherSuites = GetTLSCipherSuitesConfig getenv cfg,
      sn_OAuthScopes = c_OAuthScopes cfg,
      sn_DisableDynamicClientRegistration = c_DisableDynamicClientRegistration cfg\<rparr>"

text \<open>
  What creating a provider uses: files, certificate pools, the transport made for a TLS
  configuration and the OIDC library's discovery, which talks to the issuer over the client.
\<close>

record ('h, 'p, 'e, 'r, 'w) oidc_env =
  oe_Getenv :: "string \<Rightarrow> string"
  oe_CipherSuites :: "string \<rightharpoonup> 16 word"
  oe_ReadFile :: "string \<Rightarrow> (string, string) result"
  oe_AppendCerts :: "string \<Rightarrow> string option"
  oe_Transport :: "tls_config \<Rightarrow> ('e, 'r, 'w) http_transport"
  oe_DefaultTransport :: "('e, 'r, 'w) http_transport"
  oe_Client :: "('e transport_error, 'r, 'w) http_transport \<Rightarrow> 'h"
  oe_NewProvider :: "'h \<Rightarrow> string \<Rightarrow> 'w \<Rightarrow> (string, 'p) result \<times> 'w"

datatype oidc_error =
    CAUnreadable string string
  | CAInvalid string
  | TLSConfigFailed tls_error
  | ProviderFailed string

definition ca_options :: "('h, 'p, 'e, 'r, 'w) oidc_env \<Rightarrow> StaticConfig \<Rightarrow> (oidc_error, tls_option list) result" where
  "ca_options env cfg =
     (if c_CertificateAuthority cfg \<noteq> [] then
        (case oe_ReadFile env (c_CertificateAuthority cfg) of
           Inl e \<Rightarrow> Inl (CAUnreadable (c_CertificateAuthority cfg) e)
         | Inr caCert \<Rightarrow>
             (case oe_AppendCerts env caCert of
                None \<Rightarrow> Inl (CAInvalid (c_CertificateAuthority cfg))
              | Some pool \<Rightarrow> Inr [WithRootCAs (Some pool)]))
      else Inr [])"

definition CreateOIDCProviderAndClient ::
  "('h, 'p, 'e, 'r, 'w) oidc_env \<Rightarrow> StaticConfig \<Rightarrow> 'w \<Rightarrow> (oidc_error, 'p option \<times> 'h option) result \<times> 'w" where
  "CreateOIDCProviderAndClient env cfg w =
     (if c_AuthorizationURL cfg = [] then (Inr (None, None), w)
      else
        (case ca_options env cfg of
           Inl e \<Rightarrow> (Inl e, w)
         | Inr tlsOpts \<Rightarrow>
             (case BuildTLSConfig (oe_CipherSuites env) (GetTLSMinVersionConfig (oe_Getenv env) cfg)
                     (GetTLSCipherSuitesConfig (oe_Getenv env) cfg) tlsOpts of
                Inl e \<Rightarrow> (Inl (TLSConfigFailed e), w)
              | Inr tlsConfig \<Rightarrow>
                  (let httpClient = oe_Client env
                         (NewTLSEnforcingTransport (oe_DefaultTransport env) (Some (oe_Transport env tlsConfig))
                            (Some (\<lambda>_. c_RequireTLS cfg)))
                   in case oe_NewProvider env httpClient (c_AuthorizationURL cfg) w of
                        (Inl e, w') \<Rightarrow> (Inl (ProviderFailed e), w')
                      | (Inr provider, w') \<Rightarrow> (Inr (Some provider, Some httpClient), w')))))"

section \<open>Authorization\<close>

definition write401 :: "string \<Rightarrow> string \<Rightarrow> string \<Rightarrow> http_response" where
  "write401 wwwAuthenticateHeader errorType message =
     http_Error [(''WWW-Authenticate'', wwwAuthenticateHeader @ '', error='' @ [CHR 0x22] @ errorType @ [CHR 0x22])]
       message 401"

definition AuthorizationMiddleware ::
  "('j, 'c, 'w) jwt_lib \<Rightarrow> ('w \<Rightarrow> StaticConfig) \<Rightarrow> ('w \<Rightarrow> ('w oidc_provider, 'h) Snapshot option)
   \<Rightarrow> 'w http_middleware" where
  "AuthorizationMiddleware lib cfgState oauthState next r w =
     (if hr_Path r \<in> set infraPaths \<or> isWellKnownPath (hr_EscapedPath r) then next r w
      else
        (let staticConfig = cfgState w in
         if \<not> c_RequireOAuth staticConfig then next r w
         else
           (let audience = c_OAuthAudience staticConfig;
                wwwAuthenticateHeader = ''Bearer realm='' @ [CHR 0x22] @ ''Kubernetes MCP Server'' @ [CHR 0x22]
                  @ (if audience \<noteq> [] then '', audience='' @ [CHR 0x22] @ audience @ [CHR 0x22] else []);
                authHeader = hr_Header r ''Authorization''
            in
            if authHeader = [] \<or> \<not> HasPrefix authHeader ''Bearer '' then
              (write401 wwwAuthenticateHeader ''missing_token'' ''Unauthorized: Bearer token required'', w)
            else
              (let token = TrimPrefix authHeader ''Bearer '' in
               if token = [] then
                 (write401 wwwAuthenticateHeader ''invalid_token'' ''Unauthorized: Bearer token is empty'', w)
               else if c_SkipJWTVerification staticConfig \<and> c_AuthorizationURL staticConfig = [] then next r w
               else
                 (let rejected = write401 wwwAuthenticateHeader ''invalid_token'' ''Unauthorized: Invalid token'' in
                  case ParseJWTClaims lib token of
                    Inl _ \<Rightarrow> (rejected, w)
                  | Inr claims \<Rightarrow>
                      (case ValidateOffline lib claims audience w of
                         Some _ \<Rightarrow> (rejected, w)
                       | None \<Rightarrow>
                           (case Option.bind (oauthState w) sn_OIDCProvider of
                              None \<Rightarrow>
                                (if c_AuthorizationURL staticConfig \<noteq> [] then
                                   (write401 wwwAuthenticateHeader ''temporarily_unavailable''
                                      ''OIDC provider is not available'', w)
                                 else
                                   (http_Error [] ''JWT verification not configured - set authorization_url or skip_jwt_verification'' 500, w))
                            | Some provider \<Rightarrow>
                                (case ValidateWithProvider claims audience (Some provider) w of
                                   (Some _, w') \<Rightarrow> (rejected, w')
                                 | (None, w') \<Rightarrow> next r w'))))))))"

text \<open>The handler \<open>Serve\<close> installs around the mux.\<close>

definition instrumentedHandler ::
  "(string \<Rightarrow> string \<Rightarrow> nat \<Rightarrow> 'w \<Rightarrow> 'w) \<Rightarrow> 'w otel \<Rightarrow> ('j, 'c, 'w) jwt_lib \<Rightarrow> ('w \<Rightarrow> StaticConfig)
   \<Rightarrow> ('w \<Rightarrow> ('w oidc_provider, 'h) Snapshot option) \<Rightarrow> 'w http_middleware" where
  "instrumentedHandler collect ot lib cfgState oauthState mux =
     metricsMiddleware collect
       (chain mux [RequestMiddleware ot cfgState, AuthorizationMiddleware lib cfgState oauthState,
                   MaxBodyMiddleware cfgState])"

end
