(* ===== verification/Http_Security.thy ===== *)
theory Http_Security
  imports Http_Server
begin

text \<open>
  What the HTTP front guarantees. Every middleware is a filter: it answers a request itself, or
  hands it, possibly changed, to the next handler and touches only the world afterwards. The
  locale \<open>http_filter\<close> states that contract, filters compose, and the middlewares of the code
  are interpretations; so the handler installed by \<open>Serve\<close> is a filter around the mux, and
  authentication is a statement about its gate.
\<close>

section \<open>Filters\<close>

type_synonym 'w http_gate = "http_request \<Rightarrow> 'w \<Rightarrow> http_response \<times> 'w + http_request \<times> 'w"

locale http_filter =
  fixes mw :: "'w http_middleware"
    and gate :: "'w http_gate"
    and after :: "http_request \<Rightarrow> 'w \<Rightarrow> http_response \<Rightarrow> 'w \<Rightarrow> 'w"
  assumes filter_law: "mw next r w = (case gate r w of
      Inl (resp, w1) \<Rightarrow> (resp, w1)
    | Inr (r1, w1) \<Rightarrow> (case next r1 w1 of (resp, w2) \<Rightarrow> (resp, after r w resp w2)))"
begin

lemma answered: "gate r w = Inl (resp, w1) \<Longrightarrow> mw next r w = (resp, w1)"
  by (simp add: filter_law)

lemma handed_on:
  "gate r w = Inr (r1, w1) \<Longrightarrow> mw next r w = (fst (next r1 w1), after r w (fst (next r1 w1)) (snd (next r1 w1)))"
  by (simp add: filter_law case_prod_beta)

lemma next_cong: "(\<And>r1 w1. gate r w = Inr (r1, w1) \<Longrightarrow> next r1 w1 = next' r1 w1) \<Longrightarrow> mw next r w = mw next' r w"
  unfolding filter_law by (cases "gate r w") auto

end

definition gate_seq ::
  "'w http_gate \<Rightarrow> (http_request \<Rightarrow> 'w \<Rightarrow> http_response \<Rightarrow> 'w \<Rightarrow> 'w) \<Rightarrow> 'w http_gate \<Rightarrow> 'w http_gate" where
  "gate_seq g after g' r w = (case g r w of
     Inl (resp, w1) \<Rightarrow> Inl (resp, w1)
   | Inr (r1, w1) \<Rightarrow> (case g' r1 w1 of
       Inl (resp, w2) \<Rightarrow> Inl (resp, after r w resp w2)
     | Inr (r2, w2) \<Rightarrow> Inr (r2, w2)))"

definition after_seq ::
  "'w http_gate \<Rightarrow> (http_request \<Rightarrow> 'w \<Rightarrow> http_response \<Rightarrow> 'w \<Rightarrow> 'w)
   \<Rightarrow> (http_request \<Rightarrow> 'w \<Rightarrow> http_response \<Rightarrow> 'w \<Rightarrow> 'w) \<Rightarrow> http_request \<Rightarrow> 'w \<Rightarrow> http_response \<Rightarrow> 'w \<Rightarrow> 'w" where
  "after_seq g after after' r w resp w2 = (case g r w of
     Inl _ \<Rightarrow> w2
   | Inr (r1, w1) \<Rightarrow> after r w resp (after' r1 w1 resp w2))"

locale two_filters = outer: http_filter mw gate after + inner: http_filter mw' gate' after'
  for mw :: "'w http_middleware" and gate after and mw' :: "'w http_middleware" and gate' after'

sublocale two_filters \<subseteq> composed: http_filter "\<lambda>next. mw (mw' next)" "gate_seq gate after gate'" "after_seq gate after after'"
  by unfold_locales
    (simp add: outer.filter_law inner.filter_law gate_seq_def after_seq_def case_prod_beta split: sum.split)

section \<open>The middlewares are filters\<close>

definition metrics_after ::
  "(string \<Rightarrow> string \<Rightarrow> nat \<Rightarrow> 'w \<Rightarrow> 'w) \<Rightarrow> http_request \<Rightarrow> 'w \<Rightarrow> http_response \<Rightarrow> 'w \<Rightarrow> 'w" where
  "metrics_after collect r w resp w1 = collect (hr_Method r) (hr_Path r) (rs_Status resp) w1"

definition pass_gate :: "'w http_gate" where
  "pass_gate r w = Inr (r, w)"

definition traced :: "'w otel \<Rightarrow> http_request \<Rightarrow> 'w \<Rightarrow> bool" where
  "traced ot r w \<longleftrightarrow> hr_Path r \<noteq> ''/healthz'' \<and> ot_Enabled ot w"

definition trace_gate :: "'w otel \<Rightarrow> ('w \<Rightarrow> StaticConfig) \<Rightarrow> 'w http_gate" where
  "trace_gate ot cfgState r w = Inr
     (if traced ot r w then r\<lparr>hr_Trace := ot_Start ot (request_span r (c_TrustProxyHeaders (cfgState w)))
                                (ot_Extract ot (hr_Header r))\<rparr> else r, w)"

definition trace_after ::
  "'w otel \<Rightarrow> ('w \<Rightarrow> StaticConfig) \<Rightarrow> http_request \<Rightarrow> 'w \<Rightarrow> http_response \<Rightarrow> 'w \<Rightarrow> 'w" where
  "trace_after ot cfgState r w resp w1 =
     (if traced ot r w
      then ot_End ot (finished_span (request_span r (c_TrustProxyHeaders (cfgState w))) (rs_Status resp)) w1
      else w1)"

definition body_gate :: "('w \<Rightarrow> StaticConfig) \<Rightarrow> 'w http_gate" where
  "body_gate cfgState r w = Inr
     (if hr_Method r \<in> {''GET'', ''HEAD'', ''OPTIONS''} \<or> h_MaxBodyBytes (c_HTTP (cfgState w)) \<le> 0 then r
      else r\<lparr>hr_BodyLimit := Some (h_MaxBodyBytes (c_HTTP (cfgState w)))\<rparr>, w)"

definition no_after :: "http_request \<Rightarrow> 'w \<Rightarrow> http_response \<Rightarrow> 'w \<Rightarrow> 'w" where
  "no_after r w resp w1 = w1"

text \<open>
  The requests the authorization middleware admits, with the world its checks leave. Otherwise
  the middleware gives the same answer whatever the next handler is, so its gate can be read
  off a run with a dummy handler.
\<close>

definition auth_admit ::
  "('j, 'c, 'w) jwt_lib \<Rightarrow> StaticConfig \<Rightarrow> ('w oidc_provider, 'h) Snapshot option \<Rightarrow> http_request \<Rightarrow> 'w \<Rightarrow> 'w option" where
  "auth_admit lib cfg snap r w =
     (let token = TrimPrefix (hr_Header r ''Authorization'') ''Bearer '' in
      if hr_Path r \<in> set infraPaths \<or> isWellKnownPath (hr_EscapedPath r) \<or> \<not> c_RequireOAuth cfg then Some w
      else if \<not> HasPrefix (hr_Header r ''Authorization'') ''Bearer '' \<or> token = [] then None
      else if c_SkipJWTVerification cfg \<and> c_AuthorizationURL cfg = [] then Some w
      else (case ParseJWTClaims lib token of
              Inl _ \<Rightarrow> None
            | Inr claims \<Rightarrow>
                (if ValidateOffline lib claims (c_OAuthAudience cfg) w \<noteq> None then None
                 else (case Option.bind snap sn_OIDCProvider of
                         None \<Rightarrow> None
                       | Some p \<Rightarrow>
                           (case ValidateWithProvider claims (c_OAuthAudience cfg) (Some p) w of
                              (None, w1) \<Rightarrow> Some w1
                            | (Some _, w1) \<Rightarrow> None)))))"

definition auth_gate ::
  "('j, 'c, 'w) jwt_lib \<Rightarrow> ('w \<Rightarrow> StaticConfig) \<Rightarrow> ('w \<Rightarrow> ('w oidc_provider, 'h) Snapshot option) \<Rightarrow> 'w http_gate" where
  "auth_gate lib cfgState oauthState r w =
     (case auth_admit lib (cfgState w) (oauthState w) r w of
        Some w1 \<Rightarrow> Inr (r, w1)
      | None \<Rightarrow> Inl (AuthorizationMiddleware lib cfgState oauthState (\<lambda>_ w. (http_Error [] [] 0, w)) r w))"

interpretation metrics: http_filter "metricsMiddleware collect" pass_gate "metrics_after collect" for collect
  by unfold_locales (simp add: metricsMiddleware_def pass_gate_def metrics_after_def)

interpretation tracing: http_filter "RequestMiddleware ot cfgState" "trace_gate ot cfgState" "trace_after ot cfgState"
  for ot cfgState
  by unfold_locales
    (auto simp: RequestMiddleware_def trace_gate_def trace_after_def traced_def Let_def case_prod_beta)

interpretation body: http_filter "MaxBodyMiddleware cfgState" "body_gate cfgState" no_after for cfgState
  by unfold_locales (simp add: MaxBodyMiddleware_def body_gate_def no_after_def Let_def case_prod_beta)

definition bearer :: "http_request \<Rightarrow> string \<Rightarrow> bool" where
  "bearer r token \<longleftrightarrow> token \<noteq> [] \<and> hr_Header r ''Authorization'' = ''Bearer '' @ token"

definition public_path :: "http_request \<Rightarrow> bool" where
  "public_path r \<longleftrightarrow> hr_Path r \<in> set infraPaths \<or> isWellKnownPath (hr_EscapedPath r)"

lemma auth_open:
  assumes "public_path r \<or> \<not> c_RequireOAuth (cfgState w)"
  shows "AuthorizationMiddleware lib cfgState oauthState next r w = next r w"
    and "auth_admit lib (cfgState w) snap r w = Some w"
  using assms by (auto simp: AuthorizationMiddleware_def auth_admit_def public_path_def Let_def)

lemma not_bearer:
  assumes "\<nexists>token. bearer r token"
  shows "\<not> HasPrefix (hr_Header r ''Authorization'') ''Bearer ''
    \<or> TrimPrefix (hr_Header r ''Authorization'') ''Bearer '' = []"
  using assms unfolding bearer_def HasPrefix_iff by (metis TrimPrefix_append)

text \<open>An answer of the middleware itself: of an error status, and the same for every next handler.\<close>

definition refusal :: "nat set \<Rightarrow> 'w http_middleware \<Rightarrow> http_request \<Rightarrow> 'w \<Rightarrow> bool" where
  "refusal codes mw r w \<longleftrightarrow> (\<exists>resp w1. rs_Status resp \<in> codes \<and> (\<forall>next. mw next r w = (resp, w1)))"

lemma refusalI:
  "rs_Status resp \<in> codes \<Longrightarrow> (\<And>next. mw next r w = (resp, w1)) \<Longrightarrow> refusal codes mw r w"
  unfolding refusal_def by blast

text \<open>The status codes of a refusal: 500 only when neither an issuer nor the waiver is configured.\<close>

definition auth_codes :: "StaticConfig \<Rightarrow> nat set" where
  "auth_codes cfg = (if c_AuthorizationURL cfg = [] \<and> \<not> c_SkipJWTVerification cfg then {401, 500} else {401})"

lemma write401_status [simp]: "rs_Status (write401 www e msg) = 401"
  by (simp add: write401_def http_Error_def)

lemma http_Error_status [simp]: "rs_Status (http_Error hs msg code) = code"
  by (simp add: http_Error_def)

lemma auth_no_token:
  assumes protected: "\<not> public_path r" "c_RequireOAuth (cfgState w)" and none: "\<nexists>token. bearer r token"
  shows "refusal (auth_codes (cfgState w)) (AuthorizationMiddleware lib cfgState oauthState) r w"
    and "auth_admit lib (cfgState w) snap r w = None"
proof -
  note unfold = AuthorizationMiddleware_def auth_admit_def Let_def
    protected[unfolded public_path_def de_Morgan_disj]
  show "auth_admit lib (cfgState w) snap r w = None"
    using not_bearer[OF none] by (simp add: unfold)
  show "refusal (auth_codes (cfgState w)) (AuthorizationMiddleware lib cfgState oauthState) r w"
  proof (cases "HasPrefix (hr_Header r ''Authorization'') ''Bearer ''")
    case False
    show ?thesis by (rule refusalI[rotated]) (simp_all only: unfold False simp_thms if_True if_False, simp add: auth_codes_def)
  next
    case True
    then have "TrimPrefix (hr_Header r ''Authorization'') ''Bearer '' = []" "hr_Header r ''Authorization'' \<noteq> []"
      using not_bearer[OF none] by auto
    then show ?thesis
      by - (rule refusalI[rotated], simp_all only: unfold True simp_thms if_True if_False, simp add: auth_codes_def)
  qed
qed

lemma auth_token:
  assumes protected: "\<not> public_path r" "c_RequireOAuth (cfgState w)" and token: "bearer r token"
  shows "case auth_admit lib (cfgState w) (oauthState w) r w of
      Some w1 \<Rightarrow> (\<forall>next. AuthorizationMiddleware lib cfgState oauthState next r w = next r w1)
    | None \<Rightarrow> refusal (auth_codes (cfgState w)) (AuthorizationMiddleware lib cfgState oauthState) r w"
proof -
  let ?cfg = "cfgState w"
  have hdr: "HasPrefix (hr_Header r ''Authorization'') ''Bearer ''"
      "TrimPrefix (hr_Header r ''Authorization'') ''Bearer '' = token"
      "hr_Header r ''Authorization'' \<noteq> []" "token \<noteq> []"
    using token by (simp_all only: bearer_def HasPrefix_append TrimPrefix_append) simp_all
  note unfold = AuthorizationMiddleware_def auth_admit_def Let_def hdr
    protected[unfolded public_path_def de_Morgan_disj]
  consider (skip) "c_SkipJWTVerification ?cfg \<and> c_AuthorizationURL ?cfg = []"
    | (unparsed) e where "\<not> (c_SkipJWTVerification ?cfg \<and> c_AuthorizationURL ?cfg = [])"
        "ParseJWTClaims lib token = Inl e"
    | (parsed) claims where "\<not> (c_SkipJWTVerification ?cfg \<and> c_AuthorizationURL ?cfg = [])"
        "ParseJWTClaims lib token = Inr claims"
    by (cases "ParseJWTClaims lib token") auto
  then show ?thesis
  proof cases
    case skip
    then show ?thesis by (simp add: unfold)
  next
    case unparsed
    then show ?thesis by (auto simp: unfold refusal_def auth_codes_def)
  next
    case parsed
    show ?thesis
    proof (cases "ValidateOffline lib claims (c_OAuthAudience ?cfg) w")
      case (Some e)
      then show ?thesis using parsed by (auto simp: unfold refusal_def auth_codes_def)
    next
      case None
      show ?thesis
      proof (cases "Option.bind (oauthState w) sn_OIDCProvider")
        case None
        then show ?thesis using parsed \<open>ValidateOffline lib claims _ w = None\<close> by (auto simp: unfold refusal_def auth_codes_def)
      next
        case (Some p)
        then show ?thesis using parsed \<open>ValidateOffline lib claims _ w = None\<close>
          by (cases "ValidateWithProvider claims (c_OAuthAudience ?cfg) (Some p) w"; cases "fst (ValidateWithProvider claims (c_OAuthAudience ?cfg) (Some p) w)")
            (auto simp: unfold refusal_def auth_codes_def)
      qed
    qed
  qed
qed

lemma AuthorizationMiddleware_cases:
  "case auth_admit lib (cfgState w) (oauthState w) r w of
      Some w1 \<Rightarrow> (\<forall>next. AuthorizationMiddleware lib cfgState oauthState next r w = next r w1)
    | None \<Rightarrow> refusal (auth_codes (cfgState w)) (AuthorizationMiddleware lib cfgState oauthState) r w"
proof (cases "public_path r \<or> \<not> c_RequireOAuth (cfgState w)")
  case True
  then show ?thesis by (simp add: auth_open)
next
  case False
  then show ?thesis
    using auth_token[where r = r and cfgState = cfgState and w = w and lib = lib]
    by (cases "\<exists>token. bearer r token") (auto simp: auth_no_token)
qed

interpretation auth: http_filter "AuthorizationMiddleware lib cfgState oauthState"
  "auth_gate lib cfgState oauthState" no_after for lib cfgState oauthState
proof unfold_locales
  fix "next" r w
  note cases = AuthorizationMiddleware_cases[where lib = lib and cfgState = cfgState and w = w and oauthState = oauthState and r = r]
  show "AuthorizationMiddleware lib cfgState oauthState next r w = (case auth_gate lib cfgState oauthState r w of
      Inl (resp, w1) \<Rightarrow> (resp, w1)
    | Inr (r1, w1) \<Rightarrow> (case next r1 w1 of (resp, w2) \<Rightarrow> (resp, no_after r w resp w2)))"
  proof (cases "auth_admit lib (cfgState w) (oauthState w) r w")
    case None
    then show ?thesis using cases by (auto simp: auth_gate_def refusal_def)
  next
    case (Some w1)
    then show ?thesis using cases by (simp add: auth_gate_def no_after_def case_prod_beta)
  qed
qed

section \<open>The whole front\<close>

interpretation auth_body: two_filters "AuthorizationMiddleware lib cfgState oauthState"
  "auth_gate lib cfgState oauthState" no_after "MaxBodyMiddleware cfgState" "body_gate cfgState" no_after
  for lib cfgState oauthState
  by unfold_locales

interpretation trace_auth_body: two_filters "RequestMiddleware ot cfgState" "trace_gate ot cfgState"
  "trace_after ot cfgState"
  "\<lambda>next. AuthorizationMiddleware lib cfgState oauthState (MaxBodyMiddleware cfgState next)"
  "gate_seq (auth_gate lib cfgState oauthState) no_after (body_gate cfgState)"
  "after_seq (auth_gate lib cfgState oauthState) no_after no_after"
  for ot lib cfgState oauthState
  by unfold_locales

interpretation front: two_filters "metricsMiddleware collect" pass_gate "metrics_after collect"
  "\<lambda>next. RequestMiddleware ot cfgState
     (AuthorizationMiddleware lib cfgState oauthState (MaxBodyMiddleware cfgState next))"
  "gate_seq (trace_gate ot cfgState) (trace_after ot cfgState)
     (gate_seq (auth_gate lib cfgState oauthState) no_after (body_gate cfgState))"
  "after_seq (trace_gate ot cfgState) (trace_after ot cfgState)
     (after_seq (auth_gate lib cfgState oauthState) no_after no_after)"
  for collect ot lib cfgState oauthState
  by unfold_locales

text \<open>
  Authentic requests, with the world after the check: a public path, a server without OAuth, a
  bearer token when the cluster is the declared authority, or a bearer token whose claims are
  current and for the audience and which the OIDC provider verified.
\<close>

definition verified ::
  "('j, 'c, 'w) jwt_lib \<Rightarrow> string \<Rightarrow> ('w oidc_provider, 'h) Snapshot option \<Rightarrow> string \<Rightarrow> 'w \<Rightarrow> 'w \<Rightarrow> bool" where
  "verified lib audience snap token w w1 \<longleftrightarrow>
     (\<exists>claims p. ParseJWTClaims lib token = Inr claims
        \<and> jl_Validate lib (jc_Claims claims) (if audience \<noteq> [] then [audience] else []) w = None
        \<and> Option.bind snap sn_OIDCProvider = Some p
        \<and> op_Verify p audience (audience = []) token w = (None, w1))"

definition authentic ::
  "('j, 'c, 'w) jwt_lib \<Rightarrow> StaticConfig \<Rightarrow> ('w oidc_provider, 'h) Snapshot option \<Rightarrow> http_request \<Rightarrow> 'w \<Rightarrow> 'w \<Rightarrow> bool" where
  "authentic lib cfg snap r w w1 \<longleftrightarrow>
     (if public_path r \<or> \<not> c_RequireOAuth cfg then w1 = w
      else (\<exists>token. bearer r token
              \<and> (if c_SkipJWTVerification cfg \<and> c_AuthorizationURL cfg = [] then w1 = w
                 else verified lib (c_OAuthAudience cfg) snap token w w1)))"

lemma claims_token: "ParseJWTClaims lib token = Inr claims \<Longrightarrow> jc_Token claims = token"
  by (auto simp: ParseJWTClaims_def bindE_Inr_iff)

lemma auth_admit_iff: "auth_admit lib cfg snap r w = Some w1 \<longleftrightarrow> authentic lib cfg snap r w w1"
proof (cases "(public_path r \<or> \<not> c_RequireOAuth cfg) \<or> (\<nexists>token. bearer r token)")
  case True
  then show ?thesis
    using auth_open(2)[of r "\<lambda>_. cfg" w lib snap] auth_no_token(2)[of r "\<lambda>_. cfg" w lib snap]
    by (auto simp: authentic_def)
next
  case False
  then obtain token where token: "bearer r token" and open': "\<not> public_path r" "c_RequireOAuth cfg" by auto
  have hdr: "HasPrefix (hr_Header r ''Authorization'') ''Bearer ''"
      "TrimPrefix (hr_Header r ''Authorization'') ''Bearer '' = token" "token \<noteq> []"
    using token by (simp_all only: bearer_def HasPrefix_append TrimPrefix_append) simp_all
  have unique: "bearer r t \<longleftrightarrow> t = token" for t using token by (auto simp: bearer_def)
  show ?thesis
    using open' unfolding auth_admit_def authentic_def unique public_path_def
    by (auto simp: Let_def hdr verified_def ValidateOffline_def ValidateWithProvider_def
        claims_token split: sum.split option.split prod.split)
qed

definition body_bound :: "StaticConfig \<Rightarrow> http_request \<Rightarrow> int option" where
  "body_bound cfg r =
     (if hr_Method r \<in> {''GET'', ''HEAD'', ''OPTIONS''} \<or> h_MaxBodyBytes (c_HTTP cfg) \<le> 0 then hr_BodyLimit r
      else Some (h_MaxBodyBytes (c_HTTP cfg)))"

lemma trace_gate_cases:
  obtains t where "trace_gate ot cfgState r w = Inr (r\<lparr>hr_Trace := t\<rparr>, w)"
proof (cases "traced ot r w")
  case True
  then show ?thesis by (intro that) (simp add: trace_gate_def)
next
  case False
  then show ?thesis by (intro that[of "hr_Trace r"]) (simp add: trace_gate_def)
qed

lemma authentic_trace [simp]: "authentic lib cfg snap (r\<lparr>hr_Trace := t\<rparr>) w w1 = authentic lib cfg snap r w w1"
  by (simp add: authentic_def public_path_def bearer_def)

lemma front_chain:
  "instrumentedHandler collect ot lib cfgState oauthState mux =
     metricsMiddleware collect (RequestMiddleware ot cfgState
       (AuthorizationMiddleware lib cfgState oauthState (MaxBodyMiddleware cfgState mux)))"
  by (simp add: instrumentedHandler_def chain_def)

lemma front_refuses:
  assumes "\<nexists>w1. authentic lib (cfgState w) (oauthState w) r w w1"
  shows "refusal (auth_codes (cfgState w)) (instrumentedHandler collect ot lib cfgState oauthState) r w"
proof -
  obtain t where t: "trace_gate ot cfgState r w = Inr (r\<lparr>hr_Trace := t\<rparr>, w)" by (rule trace_gate_cases)
  have none: "auth_admit lib (cfgState w) (oauthState w) (r\<lparr>hr_Trace := t\<rparr>) w = None"
    using assms auth_admit_iff[of lib "cfgState w" "oauthState w" "r\<lparr>hr_Trace := t\<rparr>" w]
    by (metis authentic_trace not_None_eq)
  then obtain resp w1 where resp: "rs_Status resp \<in> auth_codes (cfgState w)"
    and all: "\<And>next. AuthorizationMiddleware lib cfgState oauthState next (r\<lparr>hr_Trace := t\<rparr>) w = (resp, w1)"
    using AuthorizationMiddleware_cases[where lib = lib and cfgState = cfgState and w = w
        and oauthState = oauthState and r = "r\<lparr>hr_Trace := t\<rparr>"]
    by (auto simp: refusal_def)
  have "auth_gate lib cfgState oauthState (r\<lparr>hr_Trace := t\<rparr>) w = Inl (resp, w1)"
    by (simp add: auth_gate_def none all)
  then have "\<exists>w2. gate_seq pass_gate (metrics_after collect) (gate_seq (trace_gate ot cfgState) (trace_after ot cfgState)
      (gate_seq (auth_gate lib cfgState oauthState) no_after (body_gate cfgState))) r w = Inl (resp, w2)"
    by (simp add: gate_seq_def pass_gate_def t)
  then show ?thesis
    using front.composed.answered[where collect = collect and ot = ot and cfgState = cfgState and lib = lib
        and oauthState = oauthState] resp
    unfolding refusal_def front_chain by metis
qed

lemma front_serves:
  assumes "authentic lib (cfgState w) (oauthState w) r w w1"
  shows "\<exists>t. \<forall>mux. fst (instrumentedHandler collect ot lib cfgState oauthState mux r w)
            = fst (mux (r\<lparr>hr_Trace := t, hr_BodyLimit := body_bound (cfgState w1) r\<rparr>) w1)"
proof -
  obtain t where t: "trace_gate ot cfgState r w = Inr (r\<lparr>hr_Trace := t\<rparr>, w)" by (rule trace_gate_cases)
  have "auth_gate lib cfgState oauthState (r\<lparr>hr_Trace := t\<rparr>) w = Inr (r\<lparr>hr_Trace := t\<rparr>, w1)"
    using assms by (simp add: auth_gate_def auth_admit_iff[THEN iffD2])
  moreover have "body_gate cfgState (r\<lparr>hr_Trace := t\<rparr>) w1
      = Inr (r\<lparr>hr_Trace := t, hr_BodyLimit := body_bound (cfgState w1) r\<rparr>, w1)"
    by (cases r) (simp add: body_gate_def body_bound_def)
  ultimately have "gate_seq pass_gate (metrics_after collect) (gate_seq (trace_gate ot cfgState) (trace_after ot cfgState)
      (gate_seq (auth_gate lib cfgState oauthState) no_after (body_gate cfgState))) r w
      = Inr (r\<lparr>hr_Trace := t, hr_BodyLimit := body_bound (cfgState w1) r\<rparr>, w1)"
    by (simp add: gate_seq_def pass_gate_def t)
  from front.composed.handed_on[OF this] show ?thesis by (auto simp: front_chain)
qed

text \<open>
  C2: authentication is completely mediated. Behind the handler the HTTP server installs, a
  request reaches the mux exactly when it is authentic: its path is public (health, metrics,
  statistics, well-known), or OAuth is off, or it has a bearer token that the OIDC provider
  verified and whose claims are current and for the configured audience (or, when
  verification is waived and no issuer is configured, any non-empty bearer token). The mux
  sees the request with only the trace context and the body limit of the current configuration
  changed, and its answer is the answer. Any other request gets an error answer that does not
  depend on the mux: 401, or 500 if neither an issuer nor the waiver is configured.
\<close>

theorem http_authentication_mediated:
  "if \<exists>w1. authentic lib (cfgState w) (oauthState w) r w w1
   then \<exists>t w1. authentic lib (cfgState w) (oauthState w) r w w1
     \<and> (\<forall>mux. fst (instrumentedHandler collect ot lib cfgState oauthState mux r w)
           = fst (mux (r\<lparr>hr_Trace := t, hr_BodyLimit := body_bound (cfgState w1) r\<rparr>) w1))
   else refusal (auth_codes (cfgState w)) (instrumentedHandler collect ot lib cfgState oauthState) r w"
  using front_serves[of lib cfgState w oauthState r _ collect ot]
    front_refuses[of lib cfgState w oauthState r collect ot]
  by (cases "\<exists>w1. authentic lib (cfgState w) (oauthState w) r w w1") (simp_all, blast)

section \<open>The MCP endpoint\<close>

text \<open>
  Percent-decoding of URL paths. \<open>URL.EscapedPath()\<close> returns an encoding of \<open>URL.Path\<close>, which
  need not be the canonical one.
\<close>

definition unhex :: "char \<Rightarrow> nat option" where
  "unhex c = (let n = (of_char c :: nat) in
     if 48 \<le> n \<and> n \<le> 57 then Some (n - 48)
     else if 97 \<le> n \<and> n \<le> 102 then Some (n - 87)
     else if 65 \<le> n \<and> n \<le> 70 then Some (n - 55)
     else None)"

fun PathUnescape :: "string \<Rightarrow> string option" where
  "PathUnescape [] = Some []"
| "PathUnescape (c # s) =
     (if c = CHR ''%'' then
        (case s of
           a # b # s' \<Rightarrow>
             (case (unhex a, unhex b) of
                (Some x, Some y) \<Rightarrow> map_option ((#) (char_of (16 * x + y))) (PathUnescape s')
              | _ \<Rightarrow> None)
         | _ \<Rightarrow> None)
      else map_option ((#) c) (PathUnescape s))"

lemma PathUnescape_plain_prefix:
  "CHR ''%'' \<notin> set p \<Longrightarrow> PathUnescape (p @ s) = map_option (\<lambda>t. p @ t) (PathUnescape s)"
proof (induction p)
  case Nil
  show ?case by (cases "PathUnescape s") simp_all
next
  case (Cons c p)
  then show ?case by (cases "PathUnescape s") auto
qed

lemma well_known_prefix:
  assumes "isWellKnownPath path"
  shows "HasPrefix path ''/.well-known/''"
proof -
  obtain ep where ep: "ep \<in> set WellKnownEndpoints" "path = ep \<or> HasPrefix path (ep @ ''/'')"
    using assms unfolding isWellKnownPath_def matchWellKnownEndpoint_def
    by (auto simp: find_Some_iff in_set_conv_nth split: if_splits option.splits)
  then have "HasPrefix path ep" by (auto simp: HasPrefix_iff)
  moreover have "HasPrefix ep ''/.well-known/''" using ep(1) by (auto simp: WellKnownEndpoints_def)
  ultimately show ?thesis by (auto simp: HasPrefix_iff)
qed

lemma not_public:
  assumes enc: "PathUnescape (hr_EscapedPath r) = Some (hr_Path r)"
    and "hr_Path r \<notin> set infraPaths" "\<not> HasPrefix (hr_Path r) ''/.well-known/''"
  shows "\<not> public_path r"
proof
  assume "public_path r"
  then have "HasPrefix (hr_EscapedPath r) ''/.well-known/''"
    using assms(2) by (auto simp: public_path_def intro: well_known_prefix)
  then obtain s where "hr_EscapedPath r = ''/.well-known/'' @ s" unfolding HasPrefix_iff by blast
  moreover have "CHR ''%'' \<notin> set ''/.well-known/''" by simp
  ultimately have "map_option (\<lambda>t. ''/.well-known/'' @ t) (PathUnescape s) = Some (hr_Path r)"
    using enc PathUnescape_plain_prefix by metis
  then obtain t where "hr_Path r = ''/.well-known/'' @ t" unfolding map_option_eq_Some by metis
  then show False using assms(3) HasPrefix_append by metis
qed

text \<open>
  C15: the MCP endpoint is protected whatever the encoding of the request path. With a
  configuration that passed validation and requires OAuth, a request for any path other than
  the three infrastructure paths and those under \<open>/.well-known/\<close> that has no bearer token, or,
  when an issuer is configured, one that its provider does not verify, is answered 401, and
  the answer does not depend on what is registered with the mux.
\<close>

theorem mcp_endpoint_protected:
  assumes path: "PathUnescape (hr_EscapedPath r) = Some (hr_Path r)" "hr_Path r \<notin> set infraPaths"
      "\<not> HasPrefix (hr_Path r) ''/.well-known/''"
    and cfg: "StaticConfig_Validate env c = (None, cfgState w)" "c_RequireOAuth (cfgState w)"
    and token: "(\<nexists>token. bearer r token) \<or> c_AuthorizationURL (cfgState w) \<noteq> []
        \<and> (\<forall>token w1. bearer r token \<longrightarrow> \<not> verified lib (c_OAuthAudience (cfgState w)) (oauthState w) token w w1)"
  shows "\<exists>resp w1. rs_Status resp = 401
           \<and> (\<forall>mux. instrumentedHandler collect ot lib cfgState oauthState mux r w = (resp, w1))"
proof -
  have "oauth_ok env (cfgState w)"
    using validate_accepts[of env c] cfg(1) by (metis fst_conv snd_conv)
  then have codes: "auth_codes (cfgState w) = {401}" using cfg(2) by (auto simp: oauth_ok_def auth_codes_def)
  have "\<nexists>w1. authentic lib (cfgState w) (oauthState w) r w w1"
    using token not_public[OF path] cfg(2) by (auto simp: authentic_def)
  then have "refusal (auth_codes (cfgState w)) (instrumentedHandler collect ot lib cfgState oauthState) r w"
    by (rule front_refuses)
  then show ?thesis by (simp add: refusal_def codes)
qed

definition mcp_post :: http_request where
  "mcp_post = \<lparr>hr_Method = ''POST'', hr_Path = ''/mcp'', hr_EscapedPath = ''/%6dcp'', hr_Proto = ''HTTP/1.1'',
     hr_Header = (\<lambda>_. []), hr_Host = ''h'', hr_RemoteAddr = ''10.0.0.1:5000'', hr_TLS = False,
     hr_ContentLength = 0, hr_Body = [], hr_BodyLimit = None, hr_Trace = []\<rparr>"

definition oauth_cfg :: StaticConfig where
  "oauth_cfg = zeroConfig\<lparr>c_RequireOAuth := True, c_SkipJWTVerification := True, c_ListOutput := ''yaml''\<rparr>"

definition plain_env :: "unit val_env" where
  "plain_env = \<lparr>ve_Getenv = (\<lambda>_. []), ve_Stat = (\<lambda>_. None), ve_UrlScheme = (\<lambda>_. Inl []),
     ve_Toolsets = \<lparr>toolsets = []\<rparr>, ve_GetName = (\<lambda>_. []), ve_CipherSuites = Map.empty\<rparr>"

lemma TrimSpace_empty: "TrimSpace [] = []"
  by (simp add: TrimSpace_def TrimSpaceLeft.simps[of "[]"] TrimSpaceRight.simps[of "[]"]
      space_runes_def HasSuffix_def)

lemma oauth_cfg_valid: "StaticConfig_Validate plain_env oauth_cfg = (None, oauth_cfg)"
proof -
  have n: "normalize oauth_cfg = oauth_cfg"
    by (simp add: normalize_def oauth_cfg_def zeroConfig_def TrimSpace_empty)
  have "selection_ok plain_env oauth_cfg" "oauth_ok plain_env oauth_cfg" "auth_style_ok plain_env oauth_cfg"
    by (simp_all add: selection_ok_def oauth_ok_def auth_style_ok_def oauth_cfg_def zeroConfig_def)
  moreover have "tls_ok plain_env oauth_cfg"
    by (simp add: tls_ok_def oauth_cfg_def zeroConfig_def plain_env_def GetTLSMinVersionConfig_def env_or_def
        GetTLSCipherSuitesConfig_def ParseTLSVersion_def ParseTLSCipherSuites_def TrimSpace_empty)
  ultimately show ?thesis using validate_accepts[of plain_env oauth_cfg] by (simp add: n prod_eq_iff)
qed

theorem mcp_endpoint_protected_witness:
  "\<exists>resp w1. rs_Status resp = 401
     \<and> (\<forall>mux. instrumentedHandler (\<lambda>_ _ _ n. n) \<lparr>ot_Enabled = (\<lambda>_. False), ot_Extract = (\<lambda>_. []),
           ot_Start = (\<lambda>_ t. t), ot_End = (\<lambda>_ n. n)\<rparr>
          (\<lparr>jl_ParseSigned = (\<lambda>_ _. Inl []), jl_UnsafeClaims = (\<lambda>_. Inl []), jl_Validate = (\<lambda>_ _ _. None)\<rparr>
             :: (unit, unit, nat) jwt_lib)
          (\<lambda>_. oauth_cfg) (\<lambda>_. None :: (nat oidc_provider, unit) Snapshot option) mux mcp_post 0 = (resp, w1))"
proof (rule mcp_endpoint_protected)
  show "PathUnescape (hr_EscapedPath mcp_post) = Some (hr_Path mcp_post)"
    by (simp add: mcp_post_def unhex_def char_of_def bit_0)
  show "StaticConfig_Validate plain_env oauth_cfg = (None, oauth_cfg)" by (rule oauth_cfg_valid)
qed (simp_all add: mcp_post_def infraPaths_def oauth_cfg_def bearer_def)

end
