(* ===== verification/Well_Known.thy ===== *)
theory Well_Known
  imports Http_Server Json
begin

text \<open>
  The proxy for OAuth and OpenID metadata, \<open>src/pkg/http/wellknown.go\<close>. Parameters are the
  HTTP client, \<open>url.JoinPath\<close>, the JSON codec and the construction of requests. Maps decoded
  from JSON are association lists; as values they need no copying, so \<open>copyMap\<close> is the
  identity. The handler's own state is its cache of the issuer's configuration; concurrent
  fetches of it, which \<open>singleflight\<close> merges, happen one after the other here.
\<close>

section \<open>Environment\<close>

record upstream =
  up_Status :: int
  up_Header :: "(string \<times> string list) list"
  up_Body :: string

type_synonym 'w wk_client = "string \<Rightarrow> string \<Rightarrow> 'w \<Rightarrow> (string, upstream) result \<times> 'w"

text \<open>
  Decoding the (size-limited) body into a map: end of input, an error, or a map, where the JSON
  \<open>null\<close> gives the nil map \<open>None\<close>.
\<close>

datatype decoded = DecodeEOF | DecodeError string | Decoded "json_object option"

record 'w wk_env =
  we_Now :: "'w \<Rightarrow> int"
  we_Getenv :: "string \<Rightarrow> string"
  we_CipherSuites :: "string \<rightharpoonup> 16 word"
  we_Client :: "tls_config \<Rightarrow> bool \<Rightarrow> 'w wk_client"
  we_NewRequest :: "string \<Rightarrow> string \<Rightarrow> string option"
  we_JoinPath :: "string \<Rightarrow> string \<Rightarrow> (string, string) result"
  we_Decode :: "string \<Rightarrow> decoded"
  we_Marshal :: "json_object \<Rightarrow> (string, string) result"

record WellKnownMetadataGenerator =
  mg_AuthorizationServer :: "json_object \<Rightarrow> json_object option"
  mg_ProtectedResource :: "json_object \<Rightarrow> string \<Rightarrow> json_object option"

definition DefaultMetadataGenerator :: WellKnownMetadataGenerator where
  "DefaultMetadataGenerator =
     \<lparr>mg_AuthorizationServer = Some,
      mg_ProtectedResource = (\<lambda>oidcConfig authorizationServerURL.
        let metadata = [(''authorization_servers'', JArr [JStr authorizationServerURL])];
            metadata = (case map_of oidcConfig ''scopes_supported'' of
              Some scopes \<Rightarrow> AList.update ''scopes_supported'' scopes metadata
            | None \<Rightarrow> metadata)
        in Some (AList.update ''bearer_methods_supported'' (JArr [JStr ''header'']) metadata))\<rparr>"

record WellKnown =
  oidcConfigCache :: "json_object option"
  oidcConfigCacheTime :: int
  oidcConfigCacheURL :: string

definition WellKnownHandler :: WellKnown where
  "WellKnownHandler = \<lparr>oidcConfigCache = None, oidcConfigCacheTime = 0, oidcConfigCacheURL = []\<rparr>"

definition WellKnownHandlerWithGenerator ::
  "WellKnownMetadataGenerator option \<Rightarrow> WellKnownMetadataGenerator \<times> WellKnown" where
  "WellKnownHandlerWithGenerator generator =
     (case generator of None \<Rightarrow> DefaultMetadataGenerator | Some g \<Rightarrow> g, WellKnownHandler)"

definition oidcConfigCacheTTL :: int where
  "oidcConfigCacheTTL = 5 * 60 * 1000000000"

definition maxWellKnownResponseSize :: nat where
  "maxWellKnownResponseSize = 2 ^ 20"

type_synonym ('p, 'w) oauth_state = "'w \<Rightarrow> ('p, 'w wk_client) Snapshot option"

section \<open>Fetching\<close>

definition authorizationURL :: "('p, 'w) oauth_state \<Rightarrow> 'w \<Rightarrow> string" where
  "authorizationURL oauthState w = (case oauthState w of
     None \<Rightarrow> []
   | Some snap \<Rightarrow> TrimSuffix (sn_AuthorizationURL snap) ''/'')"

datatype wk_error =
    BadTLS tls_error
  | BadRequest string
  | RequestFailed string
  | UpstreamStatus int
  | BadBody string
  | OpenIDFailed wk_error

definition wellKnownHTTPClient ::
  "'w wk_env \<Rightarrow> ('w \<Rightarrow> StaticConfig) \<Rightarrow> ('p, 'w) oauth_state \<Rightarrow> 'w \<Rightarrow> (wk_error, 'w wk_client) result" where
  "wellKnownHTTPClient env cfgState oauthState w =
     (case Option.bind (oauthState w) sn_HTTPClient of
        Some client \<Rightarrow> Inr client
      | None \<Rightarrow>
          (let cfg = cfgState w in
           case BuildTLSConfig (we_CipherSuites env) (GetTLSMinVersionConfig (we_Getenv env) cfg)
                  (GetTLSCipherSuitesConfig (we_Getenv env) cfg) [] of
             Inl e \<Rightarrow> Inl (BadTLS e)
           | Inr tlsConfig \<Rightarrow> Inr (we_Client env tlsConfig (c_RequireTLS cfg))))"

definition fetchWellKnownEndpointFromRequest ::
  "'w wk_env \<Rightarrow> ('w \<Rightarrow> StaticConfig) \<Rightarrow> ('p, 'w) oauth_state \<Rightarrow> string \<Rightarrow> string \<Rightarrow> 'w
   \<Rightarrow> (wk_error, json_object option \<times> (string \<times> string list) list) result \<times> 'w" where
  "fetchWellKnownEndpointFromRequest env cfgState oauthState method url w =
     (case wellKnownHTTPClient env cfgState oauthState w of
        Inl e \<Rightarrow> (Inl e, w)
      | Inr client \<Rightarrow>
          (case client method url w of
             (Inl e, w') \<Rightarrow> (Inl (RequestFailed e), w')
           | (Inr resp, w') \<Rightarrow>
               (if up_Status resp = 404 then (Inr (None, []), w')
                else if up_Status resp < 200 \<or> up_Status resp \<ge> 300 then (Inl (UpstreamStatus (up_Status resp)), w')
                else
                  (case we_Decode env (take maxWellKnownResponseSize (up_Body resp)) of
                     DecodeEOF \<Rightarrow> (Inr (None, []), w')
                   | DecodeError e \<Rightarrow> (Inl (BadBody e), w')
                   | Decoded m \<Rightarrow> (Inr (m, up_Header resp), w')))))"

definition fetchWellKnownEndpoint ::
  "'w wk_env \<Rightarrow> ('w \<Rightarrow> StaticConfig) \<Rightarrow> ('p, 'w) oauth_state \<Rightarrow> http_request \<Rightarrow> string \<Rightarrow> 'w
   \<Rightarrow> (wk_error, json_object option \<times> (string \<times> string list) list) result \<times> 'w" where
  "fetchWellKnownEndpoint env cfgState oauthState request url w =
     (case we_NewRequest env (hr_Method request) url of
        Some e \<Rightarrow> (Inl (BadRequest e), w)
      | None \<Rightarrow> fetchWellKnownEndpointFromRequest env cfgState oauthState (hr_Method request) url w)"

definition openIDConfigurationEndpoint :: string where
  "openIDConfigurationEndpoint = ''/.well-known/openid-configuration''"

definition oauthAuthorizationServerEndpoint :: string where
  "oauthAuthorizationServerEndpoint = ''/.well-known/oauth-authorization-server''"

definition oauthProtectedResourceEndpoint :: string where
  "oauthProtectedResourceEndpoint = ''/.well-known/oauth-protected-resource''"

definition fetchOpenIDConfiguration ::
  "'w wk_env \<Rightarrow> ('w \<Rightarrow> StaticConfig) \<Rightarrow> ('p, 'w) oauth_state \<Rightarrow> WellKnown \<Rightarrow> 'w
   \<Rightarrow> (wk_error, json_object option) result \<times> WellKnown \<times> 'w" where
  "fetchOpenIDConfiguration env cfgState oauthState wk w =
     (let authURL = authorizationURL oauthState w in
      if oidcConfigCache wk \<noteq> None \<and> oidcConfigCacheURL wk = authURL
         \<and> we_Now env w - oidcConfigCacheTime wk < oidcConfigCacheTTL
      then (Inr (oidcConfigCache wk), wk, w)
      else
        (case we_NewRequest env ''GET'' (authURL @ openIDConfigurationEndpoint) of
           Some e \<Rightarrow> (Inl (BadRequest e), wk, w)
         | None \<Rightarrow>
             (case fetchWellKnownEndpointFromRequest env cfgState oauthState ''GET''
                     (authURL @ openIDConfigurationEndpoint) w of
                (Inl e, w') \<Rightarrow> (Inl (OpenIDFailed e), wk, w')
              | (Inr (None, _), w') \<Rightarrow> (Inr None, wk, w')
              | (Inr (Some oidcConfig, _), w') \<Rightarrow>
                  (Inr (Some oidcConfig),
                   \<lparr>oidcConfigCache = Some oidcConfig, oidcConfigCacheTime = we_Now env w',
                    oidcConfigCacheURL = authURL\<rparr>, w'))))"

section \<open>Generated metadata\<close>

definition generateAuthorizationServerMetadata ::
  "WellKnownMetadataGenerator \<Rightarrow> 'w wk_env \<Rightarrow> ('w \<Rightarrow> StaticConfig) \<Rightarrow> ('p, 'w) oauth_state \<Rightarrow> WellKnown \<Rightarrow> 'w
   \<Rightarrow> (wk_error, json_object option) result \<times> WellKnown \<times> 'w" where
  "generateAuthorizationServerMetadata gen env cfgState oauthState wk w =
     (case fetchOpenIDConfiguration env cfgState oauthState wk w of
        (Inl e, wk', w') \<Rightarrow> (Inl e, wk', w')
      | (Inr None, wk', w') \<Rightarrow> (Inr None, wk', w')
      | (Inr (Some oidcConfig), wk', w') \<Rightarrow> (Inr (mg_AuthorizationServer gen oidcConfig), wk', w'))"

definition buildResourceURL :: "('w \<Rightarrow> StaticConfig) \<Rightarrow> http_request \<Rightarrow> 'w \<Rightarrow> string" where
  "buildResourceURL cfgState request w =
     (let cfg = cfgState w in
      if c_ServerURL cfg \<noteq> [] then TrimSuffix (c_ServerURL cfg) ''/''
      else
        (let fwdHost = hr_Header request ''X-Forwarded-Host'';
             insecure = (if c_TrustProxyHeaders cfg
                         then \<not> hr_TLS request \<and> \<not> HasPrefix (hr_Header request ''X-Forwarded-Proto'') ''https''
                         else \<not> hr_TLS request);
             scheme = (if insecure then ''http'' else ''https'');
             host = (if c_TrustProxyHeaders cfg \<and> fwdHost \<noteq> [] then fwdHost else hr_Host request)
         in scheme @ ''://'' @ host))"

definition generateProtectedResourceMetadata ::
  "WellKnownMetadataGenerator \<Rightarrow> 'w wk_env \<Rightarrow> ('w \<Rightarrow> StaticConfig) \<Rightarrow> ('p, 'w) oauth_state \<Rightarrow> http_request
   \<Rightarrow> WellKnown \<Rightarrow> 'w \<Rightarrow> (wk_error, json_object option) result \<times> WellKnown \<times> 'w" where
  "generateProtectedResourceMetadata gen env cfgState oauthState request wk w =
     (case fetchOpenIDConfiguration env cfgState oauthState wk w of
        (Inl e, wk', w') \<Rightarrow> (Inl e, wk', w')
      | (Inr None, wk', w') \<Rightarrow> (Inr None, wk', w')
      | (Inr (Some oidcConfig), wk', w') \<Rightarrow>
          (Inr (mg_ProtectedResource gen oidcConfig (buildResourceURL cfgState request w')), wk', w'))"

definition applyConfigOverrides :: "('p, 'h) Snapshot option \<Rightarrow> json_object \<Rightarrow> json_object" where
  "applyConfigOverrides snap resourceMetadata =
     (case snap of
        None \<Rightarrow> resourceMetadata
      | Some s \<Rightarrow>
          (let m = (if sn_DisableDynamicClientRegistration s
                    then AList.update ''require_request_uri_registration'' (JBool False)
                           (AList.delete ''registration_endpoint'' resourceMetadata)
                    else resourceMetadata)
           in if length (sn_OAuthScopes s) > 0
              then AList.update ''scopes_supported'' (JArr (map JStr (sn_OAuthScopes s))) m
              else m))"

section \<open>The response\<close>

text \<open>\<open>http.CanonicalHeaderKey\<close>: a key that is no token is left as it is.\<close>

definition upper_char :: "char \<Rightarrow> char" where
  "upper_char c = (let n = (of_char c :: nat) in if 97 \<le> n \<and> n \<le> 122 then char_of (n - 32) else c)"

definition token_char :: "char \<Rightarrow> bool" where
  "token_char c \<longleftrightarrow> (let n = (of_char c :: nat) in
     48 \<le> n \<and> n \<le> 57 \<or> 65 \<le> n \<and> n \<le> 90 \<or> 97 \<le> n \<and> n \<le> 122
     \<or> c \<in> set ''!#$%&*+-.^_|~'' \<or> n = 0x27 \<or> n = 0x60)"

fun canon_key :: "bool \<Rightarrow> string \<Rightarrow> string" where
  "canon_key upper [] = []"
| "canon_key upper (c # s) = (if upper then upper_char c else lower_char c) # canon_key (c = CHR ''-'') s"

definition CanonicalHeaderKey :: "string \<Rightarrow> string" where
  "CanonicalHeaderKey s = (if list_all token_char s then canon_key True s else s)"

definition allowedResponseHeaders :: "string list" where
  "allowedResponseHeaders = [''Cache-Control'', ''Date'', ''Etag'', ''Expires'', ''Last-Modified'', ''Pragma'']"

fun Itoa :: "nat \<Rightarrow> string" where
  "Itoa n = (if n < 10 then [] else Itoa (n div 10)) @ [char_of (48 + n mod 10)]"

declare Itoa.simps [simp del]

definition withCORSHeaders :: "(string \<times> string) list" where
  "withCORSHeaders = [(''Access-Control-Allow-Origin'', ''*''),
     (''Access-Control-Allow-Methods'', ''GET, OPTIONS''),
     (''Access-Control-Allow-Headers'', ''Content-Type, Authorization'')]"

definition wk_response :: "string \<Rightarrow> (string \<times> string list) list \<Rightarrow> http_response" where
  "wk_response body respHeaders = \<lparr>rs_Status = 200,
     rs_Header = concat (map (\<lambda>(key, values). if CanonicalHeaderKey key \<in> set allowedResponseHeaders
           then map (\<lambda>v. (CanonicalHeaderKey key, v)) values else []) respHeaders)
       @ [(''Content-Type'', ''application/json''), (''Content-Length'', Itoa (length body))] @ withCORSHeaders,
     rs_Body = body\<rparr>"

text \<open>The tail of \<open>ServeHTTP\<close>, from the overrides on.\<close>

definition wk_finish ::
  "'w wk_env \<Rightarrow> ('p, 'w) oauth_state \<Rightarrow> json_object \<Rightarrow> (string \<times> string list) list \<Rightarrow> 'w \<Rightarrow> http_response" where
  "wk_finish env oauthState metadata respHeaders w =
     (case we_Marshal env (applyConfigOverrides (oauthState w) metadata) of
        Inl _ \<Rightarrow> http_Error [] ''Internal server error'' 500
      | Inr body \<Rightarrow> wk_response body respHeaders)"

text \<open>Metadata generated when the issuer has no document at the endpoint.\<close>

definition wk_fallback ::
  "WellKnownMetadataGenerator \<Rightarrow> 'w wk_env \<Rightarrow> ('w \<Rightarrow> StaticConfig) \<Rightarrow> ('p, 'w) oauth_state \<Rightarrow> string \<Rightarrow> http_request
   \<Rightarrow> WellKnown \<Rightarrow> 'w \<Rightarrow> (wk_error, json_object option) result \<times> WellKnown \<times> 'w" where
  "wk_fallback gen env cfgState oauthState matched request wk w =
     (if matched = oauthAuthorizationServerEndpoint
      then generateAuthorizationServerMetadata gen env cfgState oauthState wk w
      else if matched = oauthProtectedResourceEndpoint
      then generateProtectedResourceMetadata gen env cfgState oauthState request wk w
      else (Inr None, wk, w))"

definition WellKnown_ServeHTTP ::
  "WellKnownMetadataGenerator \<Rightarrow> 'w wk_env \<Rightarrow> ('w \<Rightarrow> StaticConfig) \<Rightarrow> ('p, 'w) oauth_state \<Rightarrow> WellKnown
   \<Rightarrow> http_request \<Rightarrow> 'w \<Rightarrow> http_response \<times> WellKnown \<times> 'w" where
  "WellKnown_ServeHTTP gen env cfgState oauthState wk request w =
     (let authURL = authorizationURL oauthState w in
      if authURL = [] then (http_Error [] ''Authorization URL is not configured'' 404, wk, w)
      else
        (let matched = matchWellKnownEndpoint (hr_EscapedPath request) in
         if matched = [] then (http_Error [] ''Not a well-known endpoint'' 404, wk, w)
         else
           (case we_JoinPath env authURL matched of
              Inl _ \<Rightarrow> (http_Error [] ''Invalid well-known path'' 400, wk, w)
            | Inr upstreamURL \<Rightarrow>
                (if \<not> HasPrefix upstreamURL (authURL @ ''/'')
                 then (http_Error [] ''Invalid well-known path'' 400, wk, w)
                 else
                   (case fetchWellKnownEndpoint env cfgState oauthState request upstreamURL w of
                      (Inl _, w1) \<Rightarrow> (http_Error [] ''Failed to fetch well-known metadata'' 500, wk, w1)
                    | (Inr (Some metadata, respHeaders), w1) \<Rightarrow>
                        (wk_finish env oauthState metadata respHeaders w1, wk, w1)
                    | (Inr (None, _), w1) \<Rightarrow>
                        (case wk_fallback gen env cfgState oauthState matched request wk w1 of
                           (Inl _, wk2, w2) \<Rightarrow> (http_Error [] ''Failed to generate well-known metadata'' 500, wk2, w2)
                         | (Inr None, wk2, w2) \<Rightarrow> (http_Error [] ''Failed to fetch well-known metadata'' 404, wk2, w2)
                         | (Inr (Some metadata), wk2, w2) \<Rightarrow>
                             (wk_finish env oauthState metadata [] w2, wk2, w2)))))))"

section \<open>Outbound requests\<close>

text \<open>
  Replace what the clients do on URLs outside the current authorization server by an arbitrary
  function \<open>f\<close>.
\<close>

definition restrict_client :: "'w wk_client \<Rightarrow> ('w \<Rightarrow> string) \<Rightarrow> 'w wk_client \<Rightarrow> 'w wk_client" where
  "restrict_client f authURL client method url w =
     (if HasPrefix url (authURL w @ ''/'') then client method url w else f method url w)"

definition restrict_oauth :: "'w wk_client \<Rightarrow> ('p, 'w) oauth_state \<Rightarrow> ('p, 'w) oauth_state" where
  "restrict_oauth f oauthState w = map_option (\<lambda>s. s\<lparr>sn_HTTPClient :=
     map_option (restrict_client f (authorizationURL oauthState)) (sn_HTTPClient s)\<rparr>) (oauthState w)"

definition restrict_env :: "'w wk_client \<Rightarrow> ('p, 'w) oauth_state \<Rightarrow> 'w wk_env \<Rightarrow> 'w wk_env" where
  "restrict_env f oauthState env = env\<lparr>we_Client := (\<lambda>c t. restrict_client f (authorizationURL oauthState) (we_Client env c t))\<rparr>"

lemma restrict_url [simp]: "authorizationURL (restrict_oauth f oauthState) w = authorizationURL oauthState w"
  by (simp add: authorizationURL_def restrict_oauth_def split: option.split)

lemma restrict_env_fields [simp]:
  "we_Now (restrict_env f oauthState env) = we_Now env" "we_NewRequest (restrict_env f oauthState env) = we_NewRequest env"
  "we_JoinPath (restrict_env f oauthState env) = we_JoinPath env" "we_Decode (restrict_env f oauthState env) = we_Decode env"
  "we_Marshal (restrict_env f oauthState env) = we_Marshal env"
  by (simp_all add: restrict_env_def)

lemma restrict_overrides [simp]:
  "applyConfigOverrides (restrict_oauth f oauthState w) m = applyConfigOverrides (oauthState w) m"
  by (simp add: applyConfigOverrides_def restrict_oauth_def Let_def split: option.split)

lemma restricted_client:
  "wellKnownHTTPClient (restrict_env f oauthState env) cfgState (restrict_oauth f oauthState) w
     = map_sum id (restrict_client f (authorizationURL oauthState)) (wellKnownHTTPClient env cfgState oauthState w)"
proof -
  have "Option.bind (restrict_oauth f oauthState w) sn_HTTPClient
      = map_option (restrict_client f (authorizationURL oauthState)) (Option.bind (oauthState w) sn_HTTPClient)"
    by (simp add: restrict_oauth_def split: option.split bind_split)
  then show ?thesis
    by (simp add: wellKnownHTTPClient_def restrict_env_def Let_def split: option.split sum.split)
qed

lemma restricted_fetch:
  assumes "HasPrefix url (authorizationURL oauthState w @ ''/'')"
  shows "fetchWellKnownEndpointFromRequest (restrict_env f oauthState env) cfgState (restrict_oauth f oauthState) method url w
       = fetchWellKnownEndpointFromRequest env cfgState oauthState method url w"
  using assms unfolding fetchWellKnownEndpointFromRequest_def restrict_env_fields
  by (simp add: restricted_client restrict_client_def split: sum.split)

lemma restricted_openid:
  "fetchOpenIDConfiguration (restrict_env f oauthState env) cfgState (restrict_oauth f oauthState) wk w
     = fetchOpenIDConfiguration env cfgState oauthState wk w"
proof -
  have "HasPrefix (authorizationURL oauthState w @ openIDConfigurationEndpoint) (authorizationURL oauthState w @ ''/'')"
    by (simp add: HasPrefix_iff openIDConfigurationEndpoint_def)
  note eq = restricted_fetch[OF this]
  show ?thesis unfolding fetchOpenIDConfiguration_def Let_def restrict_env_fields restrict_url eq ..
qed

text \<open>
  C22: the well-known proxy cannot be used to reach other hosts. For every request, every cache
  and every client, the outcome does not depend on what the client does for URLs outside the
  authorization URL in force at that moment; so no request is sent to any other URL, whatever
  the path of the incoming request is.
\<close>

theorem well_known_no_ssrf:
  "WellKnown_ServeHTTP gen (restrict_env f oauthState env) cfgState (restrict_oauth f oauthState) wk request w
     = WellKnown_ServeHTTP gen env cfgState oauthState wk request w"
proof -
  have fallback: "wk_fallback gen (restrict_env f oauthState env) cfgState (restrict_oauth f oauthState) m request wk v
      = wk_fallback gen env cfgState oauthState m request wk v" for m v
    by (simp add: wk_fallback_def generateAuthorizationServerMetadata_def generateProtectedResourceMetadata_def
        restricted_openid)
  have finish: "wk_finish (restrict_env f oauthState env) (restrict_oauth f oauthState) md h v
      = wk_finish env oauthState md h v" for md h v
    by (simp add: wk_finish_def)
  have fetch: "fetchWellKnownEndpoint (restrict_env f oauthState env) cfgState (restrict_oauth f oauthState) request url w
      = fetchWellKnownEndpoint env cfgState oauthState request url w"
    if "HasPrefix url (authorizationURL oauthState w @ ''/'')" for url
    using that by (simp add: fetchWellKnownEndpoint_def restricted_fetch split: option.split)
  show ?thesis
    unfolding WellKnown_ServeHTTP_def Let_def restrict_url restrict_env_fields fallback finish
    by (simp add: fetch split: sum.split)
qed

section \<open>The cache\<close>

text \<open>The handler's states: it serves any requests, each in the world of its moment.\<close>

inductive wk_reachable ::
  "WellKnownMetadataGenerator \<Rightarrow> 'w wk_env \<Rightarrow> ('w \<Rightarrow> StaticConfig) \<Rightarrow> ('p, 'w) oauth_state \<Rightarrow> WellKnown \<Rightarrow> bool"
  for gen env cfgState oauthState where
  start: "wk_reachable gen env cfgState oauthState WellKnownHandler"
| serve: "\<lbrakk>wk_reachable gen env cfgState oauthState wk;
     WellKnown_ServeHTTP gen env cfgState oauthState wk request w = (resp, wk', w')\<rbrakk>
   \<Longrightarrow> wk_reachable gen env cfgState oauthState wk'"

text \<open>The issuer at an authorization URL answered with a configuration, at a time.\<close>

definition fetched_at ::
  "'w wk_env \<Rightarrow> ('w \<Rightarrow> StaticConfig) \<Rightarrow> ('p, 'w) oauth_state \<Rightarrow> string \<Rightarrow> json_object \<Rightarrow> int \<Rightarrow> bool" where
  "fetched_at env cfgState oauthState url m t \<longleftrightarrow> (\<exists>v v' hs. authorizationURL oauthState v = url
     \<and> fetchWellKnownEndpointFromRequest env cfgState oauthState ''GET'' (url @ openIDConfigurationEndpoint) v
         = (Inr (Some m, hs), v') \<and> we_Now env v' = t)"

definition cache_inv :: "'w wk_env \<Rightarrow> ('w \<Rightarrow> StaticConfig) \<Rightarrow> ('p, 'w) oauth_state \<Rightarrow> WellKnown \<Rightarrow> bool" where
  "cache_inv env cfgState oauthState wk \<longleftrightarrow> (\<forall>m. oidcConfigCache wk = Some m \<longrightarrow>
     fetched_at env cfgState oauthState (oidcConfigCacheURL wk) m (oidcConfigCacheTime wk))"

lemma openid_cases:
  assumes "fetchOpenIDConfiguration env cfgState oauthState wk w = (res, wk', w')"
  shows "wk' = wk \<and> (\<forall>m. res = Inr (Some m) \<longrightarrow> oidcConfigCache wk = Some m
           \<and> oidcConfigCacheURL wk = authorizationURL oauthState w
           \<and> we_Now env w - oidcConfigCacheTime wk < oidcConfigCacheTTL \<and> w' = w)
    \<or> (\<exists>m. res = Inr (Some m) \<and> fetched_at env cfgState oauthState (authorizationURL oauthState w) m (we_Now env w')
           \<and> wk' = \<lparr>oidcConfigCache = Some m, oidcConfigCacheTime = we_Now env w',
                    oidcConfigCacheURL = authorizationURL oauthState w\<rparr>)"
  using assms unfolding fetchOpenIDConfiguration_def Let_def fetched_at_def
  by (auto split: if_splits option.splits sum.splits prod.splits)

lemma openid_inv:
  assumes "cache_inv env cfgState oauthState wk"
    and "fetchOpenIDConfiguration env cfgState oauthState wk w = (res, wk', w')"
  shows "cache_inv env cfgState oauthState wk'"
  using openid_cases[OF assms(2)] assms(1) by (auto simp: cache_inv_def)

lemma fallback_inv:
  assumes "cache_inv env cfgState oauthState wk"
    and "wk_fallback gen env cfgState oauthState matched request wk w = (res, wk', w')"
  shows "cache_inv env cfgState oauthState wk'"
proof -
  obtain res1 wk1 w1 where f: "fetchOpenIDConfiguration env cfgState oauthState wk w = (res1, wk1, w1)"
    by (metis prod_cases3)
  have "wk' = wk \<or> wk' = wk1"
    using assms(2)
    by (auto simp: wk_fallback_def generateAuthorizationServerMetadata_def generateProtectedResourceMetadata_def f
        split: if_splits sum.splits option.splits)
  with openid_inv[OF assms(1) f] assms(1) show ?thesis by auto
qed

lemma reachable_cache_inv:
  "wk_reachable gen env cfgState oauthState wk \<Longrightarrow> cache_inv env cfgState oauthState wk"
proof (induction rule: wk_reachable.induct)
  case start
  show ?case by (simp add: cache_inv_def WellKnownHandler_def)
next
  case (serve wk request w resp wk' w')
  then show ?case
    unfolding WellKnown_ServeHTTP_def Let_def
    by (auto dest: fallback_inv split: if_splits option.splits sum.splits prod.splits)
qed

text \<open>
  C23: the configuration of the issuer that generated metadata is built from is current. After
  any history of requests, the configuration used was answered by the issuer at the
  authorization URL in force at this moment, and either just now or less than five minutes
  ago; a configuration cached for an authorization URL that a reload has replaced is not used.
\<close>

theorem openid_cache_fresh:
  assumes "wk_reachable gen env cfgState oauthState wk"
    and "fetchOpenIDConfiguration env cfgState oauthState wk w = (Inr (Some m), wk', w')"
  shows "\<exists>t. fetched_at env cfgState oauthState (authorizationURL oauthState w) m t
           \<and> (t = we_Now env w' \<or> w' = w \<and> we_Now env w - t < oidcConfigCacheTTL)"
  using openid_cases[OF assms(2)] reachable_cache_inv[OF assms(1)] by (auto simp: cache_inv_def)

definition published_ok :: "('p, 'h) Snapshot option \<Rightarrow> json_object \<Rightarrow> bool" where
  "published_ok snap doc \<longleftrightarrow> (case snap of
     None \<Rightarrow> True
   | Some s \<Rightarrow>
       (sn_DisableDynamicClientRegistration s \<longrightarrow> map_of doc ''registration_endpoint'' = None
          \<and> map_of doc ''require_request_uri_registration'' = Some (JBool False))
       \<and> (sn_OAuthScopes s \<noteq> [] \<longrightarrow> map_of doc ''scopes_supported'' = Some (JArr (map JStr (sn_OAuthScopes s)))))"

lemma overrides_published: "published_ok snap (applyConfigOverrides snap m)"
proof (cases snap)
  case (Some s)
  have "map_of (AList.delete ''registration_endpoint'' m) ''registration_endpoint'' = None"
    by (simp add: delete_conv')
  then show ?thesis
    by (auto simp: Some published_ok_def applyConfigOverrides_def Let_def update_conv')
qed (simp add: published_ok_def)

definition own_headers :: "string list" where
  "own_headers = [''Content-Type'', ''Content-Length'', ''Access-Control-Allow-Origin'',
     ''Access-Control-Allow-Methods'', ''Access-Control-Allow-Headers'']"

definition answer_ok :: "'w wk_env \<Rightarrow> ('p, 'h) Snapshot option \<Rightarrow> http_response \<Rightarrow> bool" where
  "answer_ok env snap resp \<longleftrightarrow>
     (\<exists>doc. we_Marshal env doc = Inr (rs_Body resp) \<and> published_ok snap doc)
     \<and> fst ` set (rs_Header resp) \<subseteq> set allowedResponseHeaders \<union> set own_headers"

lemma http_Error_code [simp]: "rs_Status (http_Error hs msg code) = code"
  by (simp add: http_Error_def)

lemma finish_ok:
  "rs_Status (wk_finish env oauthState m hs w) = 200 \<Longrightarrow> answer_ok env (oauthState w) (wk_finish env oauthState m hs w)"
  using overrides_published[of "oauthState w" m]
  by (auto simp: wk_finish_def answer_ok_def wk_response_def own_headers_def withCORSHeaders_def
      split: sum.splits if_splits)

text \<open>
  What the proxy publishes follows the configuration. A successful answer is the encoding
  of a document in which, with dynamic client registration disabled, there is no registration
  endpoint, and in which configured scopes replace those of the issuer; and beyond the
  proxy's own headers it carries upstream headers of the allow list only.
\<close>

theorem well_known_publishes_configuration:
  assumes "WellKnown_ServeHTTP gen env cfgState oauthState wk request w = (resp, wk', w')" "rs_Status resp = 200"
  shows "answer_ok env (oauthState w') resp"
  using assms unfolding WellKnown_ServeHTTP_def Let_def
  by (auto intro: finish_ok split: if_splits option.splits sum.splits prod.splits)

text \<open>A small issuer, whose every answer takes one unit of time.\<close>

definition issuer_env :: "int wk_env" where
  "issuer_env = \<lparr>we_Now = (\<lambda>t. t), we_Getenv = (\<lambda>_. []), we_CipherSuites = Map.empty,
     we_Client = (\<lambda>_ _ _ _ t. (Inl ''no client'', t)), we_NewRequest = (\<lambda>_ _. None),
     we_JoinPath = (\<lambda>a b. Inr (a @ b)), we_Decode = (\<lambda>_. Decoded (Some [(''registration_endpoint'', JStr ''r'')])),
     we_Marshal = (\<lambda>doc. Inr (if map_of doc ''registration_endpoint'' = None then ''closed'' else ''open''))\<rparr>"

definition issuer_oauth :: "(unit, int) oauth_state" where
  "issuer_oauth t = Some \<lparr>sn_OIDCProvider = None,
     sn_HTTPClient = Some (\<lambda>method url t. (Inr \<lparr>up_Status = 200, up_Header = [(''set-cookie'', [''c''])], up_Body = ''{}''\<rparr>, t + 1)),
     sn_AuthorizationURL = ''https://i'', sn_CertificateAuthority = [], sn_TLSMinVersion = [],
     sn_TLSCipherSuites = [], sn_OAuthScopes = [], sn_DisableDynamicClientRegistration = True\<rparr>"

lemma issuer_fields [simp]:
  "we_NewRequest issuer_env method url = None" "we_Now issuer_env t = t" "we_JoinPath issuer_env a b = Inr (a @ b)"
  by (simp_all add: issuer_env_def)

lemma issuer_url: "authorizationURL issuer_oauth t = ''https://i''"
  by (simp add: authorizationURL_def issuer_oauth_def TrimSuffix_def HasSuffix_def)

lemma issuer_fetch:
  "fetchWellKnownEndpointFromRequest issuer_env cfgState issuer_oauth method url t
     = (Inr (Some [(''registration_endpoint'', JStr ''r'')], [(''set-cookie'', [''c''])]), t + 1)"
  by (simp add: fetchWellKnownEndpointFromRequest_def wellKnownHTTPClient_def issuer_oauth_def issuer_env_def)

theorem openid_cache_fresh_witness:
  "\<exists>t. fetched_at issuer_env (\<lambda>_. zeroConfig) issuer_oauth ''https://i'' [(''registration_endpoint'', JStr ''r'')] t
     \<and> (t = we_Now issuer_env 1 \<or> (1::int) = 0 \<and> we_Now issuer_env 0 - t < oidcConfigCacheTTL)"
proof -
  have "fetchOpenIDConfiguration issuer_env (\<lambda>_. zeroConfig) issuer_oauth WellKnownHandler 0
      = (Inr (Some [(''registration_endpoint'', JStr ''r'')]),
         \<lparr>oidcConfigCache = Some [(''registration_endpoint'', JStr ''r'')], oidcConfigCacheTime = 1,
          oidcConfigCacheURL = ''https://i''\<rparr>, 1)"
    by (simp add: fetchOpenIDConfiguration_def issuer_fetch issuer_url WellKnownHandler_def)
  from openid_cache_fresh[OF wk_reachable.start[of DefaultMetadataGenerator] this] show ?thesis
    unfolding issuer_url .
qed

theorem well_known_publishes_configuration_witness:
  "\<exists>resp wk' w'. WellKnown_ServeHTTP DefaultMetadataGenerator issuer_env (\<lambda>_. zeroConfig) issuer_oauth WellKnownHandler
       \<lparr>hr_Method = ''GET'', hr_Path = openIDConfigurationEndpoint, hr_EscapedPath = openIDConfigurationEndpoint,
        hr_Proto = ''HTTP/1.1'', hr_Header = (\<lambda>_. []), hr_Host = ''h'', hr_RemoteAddr = [], hr_TLS = True,
        hr_ContentLength = 0, hr_Body = [], hr_BodyLimit = None, hr_Trace = []\<rparr> 0 = (resp, wk', w')
     \<and> rs_Body resp = ''closed'' \<and> answer_ok issuer_env (issuer_oauth w') resp"
proof -
  let ?r = "\<lparr>hr_Method = ''GET'', hr_Path = openIDConfigurationEndpoint, hr_EscapedPath = openIDConfigurationEndpoint,
        hr_Proto = ''HTTP/1.1'', hr_Header = (\<lambda>_. []), hr_Host = ''h'', hr_RemoteAddr = [], hr_TLS = True,
        hr_ContentLength = 0, hr_Body = [], hr_BodyLimit = None, hr_Trace = []\<rparr>"
  have m: "matchWellKnownEndpoint openIDConfigurationEndpoint = openIDConfigurationEndpoint"
    by (simp add: matchWellKnownEndpoint_def openIDConfigurationEndpoint_def WellKnownEndpoints_def)
  have ep: "openIDConfigurationEndpoint \<noteq> []" "HasPrefix openIDConfigurationEndpoint ''/''"
    by (simp_all add: openIDConfigurationEndpoint_def)
  have run: "WellKnown_ServeHTTP DefaultMetadataGenerator issuer_env (\<lambda>_. zeroConfig) issuer_oauth WellKnownHandler ?r 0
      = (wk_finish issuer_env issuer_oauth [(''registration_endpoint'', JStr ''r'')] [(''set-cookie'', [''c''])] 1,
         WellKnownHandler, 1)"
    using ep by (simp add: WellKnown_ServeHTTP_def Let_def issuer_url m fetchWellKnownEndpoint_def issuer_fetch)
  have body: "wk_finish issuer_env issuer_oauth [(''registration_endpoint'', JStr ''r'')] [(''set-cookie'', [''c''])] 1
      = wk_response ''closed'' [(''set-cookie'', [''c''])]"
    by (simp add: wk_finish_def issuer_env_def issuer_oauth_def applyConfigOverrides_def update_conv')
  show ?thesis
    using well_known_publishes_configuration[OF run] run
    by (simp add: body) (simp add: wk_response_def)
qed

end
