(* ===== verification/Token_Exchange.thy ===== *)
theory Token_Exchange
  imports Static_Config Tls
begin

text \<open>
  Exchanging a user's token for one of the target cluster: \<open>src/pkg/tokenexchange/\<close>
  (configuration, client authentication, assertions and the three strategies).

  The environment record holds what the code takes from the operating system and from
  libraries: files, certificate and key parsing, signing, the transport of a TLS
  configuration and the JSON decoder. A configuration is a mutable object with a memoised HTTP
  client; operations return it updated. Log output is not modelled.
\<close>

section \<open>Data\<close>

text \<open>A client is determined by the TLS configuration its transport was built with.\<close>

record sts_client =
  cl_TLS :: tls_config

record 'w TargetTokenExchangeConfig =
  te_TokenURL :: string
  te_ClientID :: string
  te_ClientSecret :: string
  te_Audience :: string
  te_SubjectTokenType :: string
  te_RequestedTokenType :: string
  te_SubjectIssuer :: string
  te_Scopes :: "string list"
  te_CAFile :: string
  te_AuthStyle :: string
  te_ClientCertFile :: string
  te_ClientKeyFile :: string
  te_AssertionLifetime :: int
  te_FederatedTokenFile :: string
  te_TLSMinVersion :: string
  te_TLSCipherSuites :: "string list"
  te_client :: "sts_client option"
  te_clientCAFile :: string
  te_clientTLSMinVersion :: string
  te_clientTLSCipherSuites :: "string list"
  te_requireTLS :: "('w \<Rightarrow> bool) option"

type_synonym form = "(string \<times> string) list"

record token_request =
  tq_URL :: string
  tq_Scheme :: string
  tq_Host :: string
  tq_Form :: form
  tq_Header :: "(string \<times> string) list"

record token_reply =
  ty_Status :: int
  ty_Body :: "(string, string) result"

record tokenExchangeResponse =
  tx_AccessToken :: string
  tx_TokenType :: string
  tx_ExpiresIn :: int
  tx_RefreshToken :: string

record oauth2_Token =
  tk_AccessToken :: string
  tk_TokenType :: string
  tk_RefreshToken :: string
  tk_Expiry :: "int option"

datatype curve = P256 | P384 | OtherCurve string

datatype private_key = RSAKey string | ECKey curve string | OtherKey string

record assertion_claims =
  as_Issuer :: string
  as_Subject :: string
  as_Audience :: "string list"
  as_ID :: string
  as_IssuedAt :: int
  as_NotBefore :: int
  as_Expiry :: int

text \<open>\<open>ParsePKCS8PrivateKey\<close> may succeed with a key that cannot sign: \<open>Inr None\<close>.\<close>

record 'w te_env =
  en_Now :: "'w \<Rightarrow> int"
  en_ReadFile :: "string \<Rightarrow> 'w \<Rightarrow> (string, string) result"
  en_AppendCerts :: "string \<Rightarrow> string option"
  en_CipherSuites :: "string \<rightharpoonup> 16 word"
  en_Transport :: "tls_config \<Rightarrow> token_request \<Rightarrow> 'w \<Rightarrow> (string, token_reply) result \<times> 'w"
  en_ParseURL :: "string \<Rightarrow> (string, string \<times> string) result"
  en_Unmarshal :: "string \<Rightarrow> (string, tokenExchangeResponse) result"
  en_Base64 :: "string \<Rightarrow> string"
  en_PEM :: "string \<Rightarrow> string option"
  en_ParseCertificate :: "string \<Rightarrow> (string, string) result"
  en_PKCS8 :: "string \<Rightarrow> (string, private_key option) result"
  en_PKCS1 :: "string \<Rightarrow> (string, private_key) result"
  en_Thumbprint :: "string \<Rightarrow> string"
  en_UUID :: "'w \<Rightarrow> string \<times> 'w"
  en_Sign :: "string \<Rightarrow> private_key \<Rightarrow> (string \<times> string) list \<Rightarrow> assertion_claims \<Rightarrow> (string, string) result"

datatype te_error =
    CertUnreadable string string
  | CertNotPEM string
  | CertUnparsable string string
  | KeyUnreadable string string
  | KeyNotPEM string
  | KeyNotSigner string
  | KeyUnparsable string
  | UnsupportedCurve string
  | UnsupportedKey string
  | SignFailed string
  | AssertionFailed te_error
  | FederatedUnreadable string string
  | FederatedEmpty string
  | CAFileUnreadable string string
  | CAFileInvalid string
  | TEBadTLS tls_error
  | ClientFailed te_error
  | RequestInvalid string
  | TERequireTLS string string
  | TransportFailed string
  | ReplyUnreadable string
  | ReplyStatus int string
  | ReplyUnparsable string
  | CertFileRequired
  | KeyFileRequired
  | TokenFileRequired
  | TEInvalidAuthStyle string

section \<open>Configuration\<close>

definition Target_Validate :: "'w TargetTokenExchangeConfig \<Rightarrow> te_error option" where
  "Target_Validate c =
     (if te_AuthStyle c \<in> {[], ''params'', ''header''} then None
      else if te_AuthStyle c = ''assertion'' then
        (if te_ClientCertFile c = [] then Some CertFileRequired
         else if te_ClientKeyFile c = [] then Some KeyFileRequired
         else None)
      else if te_AuthStyle c = ''federated'' then
        (if te_FederatedTokenFile c = [] then Some TokenFileRequired else None)
      else Some (TEInvalidAuthStyle (te_AuthStyle c)))"

definition SetRequireTLS :: "('w \<Rightarrow> bool) option \<Rightarrow> 'w TargetTokenExchangeConfig \<Rightarrow> 'w TargetTokenExchangeConfig" where
  "SetRequireTLS enforcer c = c\<lparr>te_requireTLS := enforcer\<rparr>"

definition currentRequireTLS :: "'w TargetTokenExchangeConfig \<Rightarrow> 'w \<Rightarrow> bool" where
  "currentRequireTLS c w = (case te_requireTLS c of None \<Rightarrow> False | Some f \<Rightarrow> f w)"

definition tlsEnforcingTransport_RoundTrip ::
  "('w \<Rightarrow> bool) \<Rightarrow> (token_request \<Rightarrow> 'w \<Rightarrow> (string, token_reply) result \<times> 'w)
   \<Rightarrow> token_request \<Rightarrow> 'w \<Rightarrow> (te_error, token_reply) result \<times> 'w" where
  "tlsEnforcingTransport_RoundTrip requireTLS base req w =
     (if requireTLS w \<and> \<not> isSecureHTTPScheme (tq_Scheme req) then (Inl (TERequireTLS (tq_Host req) (tq_Scheme req)), w)
      else (case base req w of (r, w') \<Rightarrow> (mapErr TransportFailed r, w')))"

definition te_ca_options :: "'w te_env \<Rightarrow> 'w TargetTokenExchangeConfig \<Rightarrow> 'w \<Rightarrow> (te_error, tls_option list) result" where
  "te_ca_options env c w =
     (if te_CAFile c \<noteq> [] then
        (case en_ReadFile env (te_CAFile c) w of
           Inl e \<Rightarrow> Inl (CAFileUnreadable (te_CAFile c) e)
         | Inr caCert \<Rightarrow>
             (case en_AppendCerts env caCert of
                None \<Rightarrow> Inl (CAFileInvalid (te_CAFile c))
              | Some pool \<Rightarrow> Inr [WithRootCAs (Some pool)]))
      else Inr [])"

text \<open>Closing idle connections of a replaced client has no effect on what a client does.\<close>

definition HTTPClient ::
  "'w te_env \<Rightarrow> 'w TargetTokenExchangeConfig \<Rightarrow> 'w \<Rightarrow> (te_error, sts_client) result \<times> 'w TargetTokenExchangeConfig" where
  "HTTPClient env c w =
     (if te_client c \<noteq> None \<and> te_clientCAFile c = te_CAFile c
         \<and> te_clientTLSMinVersion c = te_TLSMinVersion c
         \<and> te_clientTLSCipherSuites c = te_TLSCipherSuites c
      then (Inr (the (te_client c)), c)
      else
        (case te_ca_options env c w of
           Inl e \<Rightarrow> (Inl e, c)
         | Inr tlsOpts \<Rightarrow>
             (case BuildTLSConfig (en_CipherSuites env) (te_TLSMinVersion c) (te_TLSCipherSuites c) tlsOpts of
                Inl e \<Rightarrow> (Inl (TEBadTLS e), c)
              | Inr tlsConfig \<Rightarrow>
                  (let client = \<lparr>cl_TLS = tlsConfig\<rparr> in
                   (Inr client,
                    c\<lparr>te_client := Some client, te_clientCAFile := te_CAFile c,
                      te_clientTLSMinVersion := te_TLSMinVersion c,
                      te_clientTLSCipherSuites := te_TLSCipherSuites c\<rparr>)))))"

section \<open>Client assertions\<close>

definition supported_key :: "string \<Rightarrow> private_key \<Rightarrow> te_error option" where
  "supported_key keyFile key = (case key of
     RSAKey _ \<Rightarrow> None
   | ECKey crv _ \<Rightarrow> (case crv of OtherCurve n \<Rightarrow> Some (UnsupportedCurve n) | _ \<Rightarrow> None)
   | OtherKey t \<Rightarrow> Some (UnsupportedKey t))"

definition loadCertificateAndKey ::
  "'w te_env \<Rightarrow> string \<Rightarrow> string \<Rightarrow> 'w \<Rightarrow> (te_error, string \<times> private_key) result" where
  "loadCertificateAndKey env certFile keyFile w =
     bindE (mapErr (CertUnreadable certFile) (en_ReadFile env certFile w)) (\<lambda>certPEM.
       case en_PEM env certPEM of
         None \<Rightarrow> Inl (CertNotPEM certFile)
       | Some certBlock \<Rightarrow>
           bindE (mapErr (CertUnparsable certFile) (en_ParseCertificate env certBlock)) (\<lambda>cert.
             bindE (mapErr (KeyUnreadable keyFile) (en_ReadFile env keyFile w)) (\<lambda>keyPEM.
               case en_PEM env keyPEM of
                 None \<Rightarrow> Inl (KeyNotPEM keyFile)
               | Some keyBlock \<Rightarrow>
                   bindE (case en_PKCS8 env keyBlock of
                            Inr (Some key) \<Rightarrow> Inr key
                          | Inr None \<Rightarrow> Inl (KeyNotSigner keyFile)
                          | Inl _ \<Rightarrow> mapErr (\<lambda>_. KeyUnparsable keyFile) (en_PKCS1 env keyBlock))
                     (\<lambda>key. case supported_key keyFile key of
                        Some e \<Rightarrow> Inl e
                      | None \<Rightarrow> Inr (cert, key)))))"

definition getSignatureAlgorithm :: "private_key \<Rightarrow> (te_error, string) result" where
  "getSignatureAlgorithm key = (case key of
     RSAKey _ \<Rightarrow> Inr ''RS256''
   | ECKey P256 _ \<Rightarrow> Inr ''ES256''
   | ECKey P384 _ \<Rightarrow> Inr ''ES384''
   | ECKey (OtherCurve n) _ \<Rightarrow> Inl (UnsupportedCurve n)
   | OtherKey t \<Rightarrow> Inl (UnsupportedKey t))"

definition DefaultAssertionLifetime :: int where
  "DefaultAssertionLifetime = 5 * 60 * 1000000000"

text \<open>Times are nanoseconds; \<open>NumericDate\<close> counts whole seconds.\<close>

definition NumericDate :: "int \<Rightarrow> int" where
  "NumericDate t = t div 1000000000"

definition BuildClientAssertion ::
  "'w te_env \<Rightarrow> string \<Rightarrow> string \<Rightarrow> string \<Rightarrow> string \<Rightarrow> int \<Rightarrow> 'w \<Rightarrow> (te_error, string \<times> int) result \<times> 'w" where
  "BuildClientAssertion env clientID tokenURL certFile keyFile lifetime0 w =
     (let lifetime = (if lifetime0 = 0 then DefaultAssertionLifetime else lifetime0) in
      case loadCertificateAndKey env certFile keyFile w of
        Inl e \<Rightarrow> (Inl e, w)
      | Inr (cert, privateKey) \<Rightarrow>
          (case getSignatureAlgorithm privateKey of
             Inl e \<Rightarrow> (Inl e, w)
           | Inr algorithm \<Rightarrow>
               (let now = en_Now env w; expiry = now + lifetime; (jti, w1) = en_UUID env w;
                    claims = \<lparr>as_Issuer = clientID, as_Subject = clientID, as_Audience = [tokenURL], as_ID = jti,
                              as_IssuedAt = NumericDate now, as_NotBefore = NumericDate now,
                              as_Expiry = NumericDate expiry\<rparr>
                in case en_Sign env algorithm privateKey
                          [(''x5t#S256'', en_Thumbprint env cert), (''typ'', ''JWT'')] claims of
                     Inl e \<Rightarrow> (Inl (SignFailed e), w1)
                   | Inr signedJWT \<Rightarrow> (Inr (signedJWT, expiry), w1))))"

definition BuildAssertion :: "'w te_env \<Rightarrow> 'w TargetTokenExchangeConfig \<Rightarrow> 'w \<Rightarrow> (te_error, string) result \<times> 'w" where
  "BuildAssertion env c w =
     (case BuildClientAssertion env (te_ClientID c) (te_TokenURL c) (te_ClientCertFile c) (te_ClientKeyFile c)
             (te_AssertionLifetime c) w of
        (Inl e, w') \<Rightarrow> (Inl e, w')
      | (Inr (assertion, _), w') \<Rightarrow> (Inr assertion, w'))"

section \<open>Client authentication\<close>

definition ClientAssertionType :: string where
  "ClientAssertionType = ''urn:ietf:params:oauth:client-assertion-type:jwt-bearer''"

definition with_assertion :: "'w TargetTokenExchangeConfig \<Rightarrow> string \<Rightarrow> form \<Rightarrow> form" where
  "with_assertion cfg assertion data =
     AList.update ''client_assertion'' assertion
       (AList.update ''client_assertion_type'' ClientAssertionType
         (AList.update ''client_id'' (te_ClientID cfg) data))"

definition injectClientAuth ::
  "'w te_env \<Rightarrow> 'w TargetTokenExchangeConfig \<Rightarrow> form \<Rightarrow> 'w \<Rightarrow> (te_error, form \<times> (string \<times> string) list) result \<times> 'w" where
  "injectClientAuth env cfg data w =
     (if te_ClientID cfg = [] then (Inr (data, []), w)
      else if te_AuthStyle cfg = ''header'' then
        (Inr (data, [(''Authorization'',
           ''Basic '' @ en_Base64 env (te_ClientID cfg @ '':'' @ te_ClientSecret cfg))]), w)
      else if te_AuthStyle cfg = ''assertion'' then
        (case BuildAssertion env cfg w of
           (Inl e, w') \<Rightarrow> (Inl (AssertionFailed e), w')
         | (Inr assertion, w') \<Rightarrow> (Inr (with_assertion cfg assertion data, []), w'))
      else if te_AuthStyle cfg = ''federated'' then
        (case en_ReadFile env (te_FederatedTokenFile cfg) w of
           Inl e \<Rightarrow> (Inl (FederatedUnreadable (te_FederatedTokenFile cfg) e), w)
         | Inr tokenBytes \<Rightarrow>
             (let token = TrimSpace tokenBytes in
              if token = [] then (Inl (FederatedEmpty (te_FederatedTokenFile cfg)), w)
              else (Inr (with_assertion cfg token data, []), w)))
      else
        (let data1 = AList.update ''client_id'' (te_ClientID cfg) data in
         (Inr (if te_ClientSecret cfg \<noteq> [] then AList.update ''client_secret'' (te_ClientSecret cfg) data1 else data1,
               []), w)))"

section \<open>The exchange\<close>

text \<open>\<open>time.Duration(n) * time.Second\<close> is a product of 64-bit signed integers.\<close>

definition seconds :: "int \<Rightarrow> int" where
  "seconds n = sint (word_of_int (n * 1000000000) :: 64 word)"

definition doTokenExchange ::
  "'w te_env \<Rightarrow> 'w TargetTokenExchangeConfig \<Rightarrow> sts_client \<Rightarrow> string \<Rightarrow> form \<Rightarrow> (string \<times> string) list \<Rightarrow> 'w
   \<Rightarrow> (te_error, oauth2_Token) result \<times> 'w" where
  "doTokenExchange env cfg httpClient tokenURL data headers w =
     (case en_ParseURL env tokenURL of
        Inl e \<Rightarrow> (Inl (RequestInvalid e), w)
      | Inr (scheme, host) \<Rightarrow>
          (case tlsEnforcingTransport_RoundTrip (currentRequireTLS cfg) (en_Transport env (cl_TLS httpClient))
                  \<lparr>tq_URL = tokenURL, tq_Scheme = scheme, tq_Host = host, tq_Form = data,
                   tq_Header = (''Content-Type'', ''application/x-www-form-urlencoded'') # headers\<rparr> w of
             (Inl e, w1) \<Rightarrow> (Inl e, w1)
           | (Inr resp, w1) \<Rightarrow>
               (case ty_Body resp of
                  Inl e \<Rightarrow> (Inl (ReplyUnreadable e), w1)
                | Inr body \<Rightarrow>
                    (if ty_Status resp \<noteq> 200 then (Inl (ReplyStatus (ty_Status resp) body), w1)
                     else
                       (case en_Unmarshal env body of
                          Inl e \<Rightarrow> (Inl (ReplyUnparsable e), w1)
                        | Inr tokenResp \<Rightarrow>
                            (Inr \<lparr>tk_AccessToken = tx_AccessToken tokenResp, tk_TokenType = tx_TokenType tokenResp,
                                  tk_RefreshToken = tx_RefreshToken tokenResp,
                                  tk_Expiry = (if tx_ExpiresIn tokenResp > 0
                                    then Some (en_Now env w1 + seconds (tx_ExpiresIn tokenResp)) else None)\<rparr>, w1))))))"

definition TokenTypeAccessToken :: string where
  "TokenTypeAccessToken = ''urn:ietf:params:oauth:token-type:access_token''"

definition or_default :: "string \<Rightarrow> string \<Rightarrow> string" where
  "or_default v d = (if v = [] then d else v)"

definition set_scopes :: "string list \<Rightarrow> form \<Rightarrow> form" where
  "set_scopes scopes data = (if length scopes > 0 then AList.update ''scope'' (Join '' '' scopes) data else data)"

definition rfc8693_form :: "'w TargetTokenExchangeConfig \<Rightarrow> string \<Rightarrow> form" where
  "rfc8693_form cfg subjectToken = set_scopes (te_Scopes cfg)
     [(''grant_type'', ''urn:ietf:params:oauth:grant-type:token-exchange''),
      (''subject_token'', subjectToken),
      (''subject_token_type'', or_default (te_SubjectTokenType cfg) TokenTypeAccessToken),
      (''audience'', te_Audience cfg),
      (''requested_token_type'', or_default (te_RequestedTokenType cfg) TokenTypeAccessToken)]"

definition keycloakV1_form :: "'w TargetTokenExchangeConfig \<Rightarrow> string \<Rightarrow> form" where
  "keycloakV1_form cfg subjectToken =
     (let data = [(''grant_type'', ''urn:ietf:params:oauth:grant-type:token-exchange''),
                  (''subject_token'', subjectToken),
                  (''subject_token_type'', or_default (te_SubjectTokenType cfg) TokenTypeAccessToken),
                  (''audience'', te_Audience cfg)];
          data1 = (if te_SubjectIssuer cfg \<noteq> [] then AList.update ''subject_issuer'' (te_SubjectIssuer cfg) data else data)
      in set_scopes (te_Scopes cfg) data1)"

definition entraOBO_form :: "'w TargetTokenExchangeConfig \<Rightarrow> string \<Rightarrow> form" where
  "entraOBO_form cfg subjectToken =
     (let data = [(''grant_type'', ''urn:ietf:params:oauth:grant-type:jwt-bearer''),
                  (''assertion'', subjectToken), (''requested_token_use'', ''on_behalf_of'')]
      in if length (te_Scopes cfg) > 0 then AList.update ''scope'' (Join '' '' (te_Scopes cfg)) data
         else if te_Audience cfg \<noteq> [] then AList.update ''scope'' (te_Audience cfg) data
         else data)"

text \<open>The common course of the three exchangers; they differ in the form and the client error.\<close>

type_synonym 'w token_exchanger =
  "'w te_env \<Rightarrow> 'w TargetTokenExchangeConfig \<Rightarrow> string \<Rightarrow> 'w
   \<Rightarrow> (te_error, oauth2_Token) result \<times> 'w TargetTokenExchangeConfig \<times> 'w"

definition exchange_with ::
  "('w TargetTokenExchangeConfig \<Rightarrow> string \<Rightarrow> form) \<Rightarrow> (te_error \<Rightarrow> te_error) \<Rightarrow> 'w token_exchanger" where
  "exchange_with mk_form wrap env cfg subjectToken w =
     (case HTTPClient env cfg w of
        (Inl e, cfg1) \<Rightarrow> (Inl (wrap e), cfg1, w)
      | (Inr httpClient, cfg1) \<Rightarrow>
          (case injectClientAuth env cfg1 (mk_form cfg1 subjectToken) w of
             (Inl e, w1) \<Rightarrow> (Inl e, cfg1, w1)
           | (Inr (data, headers), w1) \<Rightarrow>
               (case doTokenExchange env cfg1 httpClient (te_TokenURL cfg1) data headers w1 of
                  (r, w2) \<Rightarrow> (r, cfg1, w2))))"

definition rfc8693_Exchange :: "'w token_exchanger" where
  "rfc8693_Exchange = exchange_with rfc8693_form ClientFailed"

definition keycloakV1_Exchange :: "'w token_exchanger" where
  "keycloakV1_Exchange = exchange_with keycloakV1_form ClientFailed"

definition entraOBO_Exchange :: "'w token_exchanger" where
  "entraOBO_Exchange = exchange_with entraOBO_form (\<lambda>e. e)"

section \<open>The memoised client\<close>

text \<open>A client built for given settings; the CA file was read at some moment.\<close>

definition client_for ::
  "'w te_env \<Rightarrow> string \<Rightarrow> string \<Rightarrow> string list \<Rightarrow> sts_client \<Rightarrow> bool" where
  "client_for env caFile minVersion suites cl \<longleftrightarrow>
     (\<exists>c v opts. te_CAFile c = caFile \<and> te_ca_options env c v = Inr opts
        \<and> BuildTLSConfig (en_CipherSuites env) minVersion suites opts = Inr (cl_TLS cl))"

definition memo_inv :: "'w te_env \<Rightarrow> 'w TargetTokenExchangeConfig \<Rightarrow> bool" where
  "memo_inv env c \<longleftrightarrow> (\<forall>cl. te_client c = Some cl \<longrightarrow>
     client_for env (te_clientCAFile c) (te_clientTLSMinVersion c) (te_clientTLSCipherSuites c) cl)"

text \<open>The fields of a configuration other than the memo.\<close>

definition settings :: "'w TargetTokenExchangeConfig \<Rightarrow> 'w TargetTokenExchangeConfig" where
  "settings c = c\<lparr>te_client := None, te_clientCAFile := [], te_clientTLSMinVersion := [],
     te_clientTLSCipherSuites := []\<rparr>"

lemma memo_inv_fresh: "te_client c = None \<Longrightarrow> memo_inv env c"
  by (simp add: memo_inv_def)

lemma client_forI:
  "\<lbrakk>te_ca_options env c v = Inr opts; BuildTLSConfig (en_CipherSuites env) minVersion suites opts = Inr tls\<rbrakk>
     \<Longrightarrow> client_for env (te_CAFile c) minVersion suites \<lparr>cl_TLS = tls\<rparr>"
  unfolding client_for_def by auto

lemma HTTPClient_memo:
  assumes inv: "memo_inv env c" and run: "HTTPClient env c w = (r, c')"
  shows "memo_inv env c'" "settings c' = settings c"
    "r = Inr cl \<Longrightarrow> client_for env (te_CAFile c) (te_TLSMinVersion c) (te_TLSCipherSuites c) cl"
proof -
  let ?hit = "te_client c \<noteq> None \<and> te_clientCAFile c = te_CAFile c \<and> te_clientTLSMinVersion c = te_TLSMinVersion c
    \<and> te_clientTLSCipherSuites c = te_TLSCipherSuites c"
  have "memo_inv env c' \<and> settings c' = settings c
    \<and> (r = Inr cl \<longrightarrow> client_for env (te_CAFile c) (te_TLSMinVersion c) (te_TLSCipherSuites c) cl)"
  proof (cases ?hit)
    case True
    then show ?thesis using run inv by (auto simp: HTTPClient_def memo_inv_def)
  next
    case False
    then show ?thesis using run inv unfolding HTTPClient_def if_not_P[OF False]
      by (auto simp: Let_def memo_inv_def settings_def split: sum.splits intro: client_forI)
  qed
  then show "memo_inv env c'" "settings c' = settings c"
    "r = Inr cl \<Longrightarrow> client_for env (te_CAFile c) (te_TLSMinVersion c) (te_TLSCipherSuites c) cl" by auto
qed

lemma settings_fields:
  assumes "settings c' = settings c"
  shows "te_TokenURL c' = te_TokenURL c" "te_ClientID c' = te_ClientID c" "te_AuthStyle c' = te_AuthStyle c"
    "te_requireTLS c' = te_requireTLS c" "te_ClientSecret c' = te_ClientSecret c"
    "te_FederatedTokenFile c' = te_FederatedTokenFile c"
proof -
  have sel: "te_TokenURL (settings c) = te_TokenURL c" "te_ClientID (settings c) = te_ClientID c"
    "te_AuthStyle (settings c) = te_AuthStyle c" "te_requireTLS (settings c) = te_requireTLS c"
    "te_ClientSecret (settings c) = te_ClientSecret c"
    "te_FederatedTokenFile (settings c) = te_FederatedTokenFile c" for c :: "'a TargetTokenExchangeConfig"
    by (simp_all add: settings_def)
  show "te_TokenURL c' = te_TokenURL c" using sel(1) assms by metis
  show "te_ClientID c' = te_ClientID c" using sel(2) assms by metis
  show "te_AuthStyle c' = te_AuthStyle c" using sel(3) assms by metis
  show "te_requireTLS c' = te_requireTLS c" using sel(4) assms by metis
  show "te_ClientSecret c' = te_ClientSecret c" using sel(5) assms by metis
  show "te_FederatedTokenFile c' = te_FederatedTokenFile c" using sel(6) assms by metis
qed

section \<open>What is sent\<close>

definition auth_keys :: "string set" where
  "auth_keys = {''client_id'', ''client_secret'', ''client_assertion'', ''client_assertion_type''}"

text \<open>
  Client credentials travel on one channel: the secret is in the form only with the \<open>params\<close>
  style, the Basic header only with the \<open>header\<close> style, an assertion only with the other two.
\<close>

definition one_channel :: "'w TargetTokenExchangeConfig \<Rightarrow> form \<Rightarrow> (string \<times> string) list \<Rightarrow> bool" where
  "one_channel c data headers \<longleftrightarrow>
     (map_of data ''client_secret'' \<noteq> None \<longrightarrow> te_AuthStyle c \<notin> {''header'', ''assertion'', ''federated''})
     \<and> (headers \<noteq> [] \<longrightarrow> te_AuthStyle c = ''header'' \<and> map_of data ''client_id'' = None)
     \<and> (map_of data ''client_assertion'' \<noteq> None \<longrightarrow>
          te_AuthStyle c \<in> {''assertion'', ''federated''} \<and> map_of data ''client_id'' = Some (te_ClientID c))
     \<and> (te_ClientID c \<noteq> [] \<longrightarrow> headers \<noteq> [] \<or> map_of data ''client_id'' = Some (te_ClientID c))"

lemma injectClientAuth_cases:
  assumes "injectClientAuth env c data w = (Inr (data', headers), w')"
  obtains (anonymous) "te_ClientID c = []" "data' = data" "headers = []"
  | (header) v where "te_ClientID c \<noteq> []" "te_AuthStyle c = ''header''" "data' = data" "headers = [(''Authorization'', v)]"
  | (assertion) a where "te_ClientID c \<noteq> []" "te_AuthStyle c \<in> {''assertion'', ''federated''}"
      "data' = with_assertion c a data" "headers = []"
  | (params) "te_ClientID c \<noteq> []" "te_AuthStyle c \<notin> {''header'', ''assertion'', ''federated''}"
      "data' = AList.update ''client_id'' (te_ClientID c) data
       \<or> data' = AList.update ''client_secret'' (te_ClientSecret c) (AList.update ''client_id'' (te_ClientID c) data)"
      "headers = []"
  using assms unfolding injectClientAuth_def Let_def
  by (auto split: if_splits sum.splits prod.splits)

lemma injectClientAuth_channel:
  assumes run: "injectClientAuth env c data w = (Inr (data', headers), w')"
    and free: "\<And>k. k \<in> auth_keys \<Longrightarrow> map_of data k = None"
  shows "one_channel c data' headers" "\<And>k. k \<notin> auth_keys \<Longrightarrow> map_of data' k = map_of data k"
proof -
  have none: "map_of data ''client_id'' = None" "map_of data ''client_secret'' = None"
    "map_of data ''client_assertion'' = None"
    using free by (simp_all add: auth_keys_def)
  from run show "one_channel c data' headers"
    by (cases rule: injectClientAuth_cases)
      (auto simp: one_channel_def with_assertion_def update_conv' none)
  show "map_of data' k = map_of data k" if "k \<notin> auth_keys" for k
    using run that
    by (cases rule: injectClientAuth_cases) (auto simp: auth_keys_def with_assertion_def update_conv')
qed

lemma form_keys:
  assumes "k \<in> auth_keys"
  shows "map_of (rfc8693_form c t) k = None" "map_of (keycloakV1_form c t) k = None"
    "map_of (entraOBO_form c t) k = None"
  using assms
  by (auto simp: rfc8693_form_def keycloakV1_form_def entraOBO_form_def set_scopes_def auth_keys_def
      Let_def update_conv')

lemma form_subject:
  "map_of (rfc8693_form c t) ''subject_token'' = Some t" "map_of (keycloakV1_form c t) ''subject_token'' = Some t"
  "map_of (entraOBO_form c t) ''assertion'' = Some t"
  by (auto simp: rfc8693_form_def keycloakV1_form_def entraOBO_form_def set_scopes_def Let_def update_conv')

lemma doTokenExchange_Inr:
  assumes "doTokenExchange env c cl url data headers w = (Inr tok, w')"
  shows "\<exists>scheme host resp body parsed. en_ParseURL env url = Inr (scheme, host)
     \<and> (currentRequireTLS c w \<longrightarrow> isSecureHTTPScheme scheme)
     \<and> en_Transport env (cl_TLS cl) \<lparr>tq_URL = url, tq_Scheme = scheme, tq_Host = host, tq_Form = data,
          tq_Header = (''Content-Type'', ''application/x-www-form-urlencoded'') # headers\<rparr> w = (Inr resp, w')
     \<and> ty_Status resp = 200 \<and> ty_Body resp = Inr body \<and> en_Unmarshal env body = Inr parsed
     \<and> tk_AccessToken tok = tx_AccessToken parsed"
  using assms unfolding doTokenExchange_def tlsEnforcingTransport_RoundTrip_def
  by (auto split: sum.splits prod.splits if_splits)

text \<open>
  A successful exchange: the token endpoint answered 200 to a request with the subject token
  under \<open>key\<close> and the client credentials on one channel, over a client for the configured CA
  and TLS settings, and over a secure scheme if TLS was required at that moment; the token is
  the one in the answer.
\<close>

definition exchanged ::
  "'w te_env \<Rightarrow> 'w TargetTokenExchangeConfig \<Rightarrow> string \<Rightarrow> string \<Rightarrow> oauth2_Token \<Rightarrow> 'w \<Rightarrow> bool" where
  "exchanged env c key t tok w' \<longleftrightarrow>
     (\<exists>cl req headers resp body parsed w1.
        client_for env (te_CAFile c) (te_TLSMinVersion c) (te_TLSCipherSuites c) cl
        \<and> tq_URL req = te_TokenURL c \<and> map_of (tq_Form req) key = Some t
        \<and> tq_Header req = (''Content-Type'', ''application/x-www-form-urlencoded'') # headers
        \<and> one_channel c (tq_Form req) headers
        \<and> (currentRequireTLS c w1 \<longrightarrow> isSecureHTTPScheme (tq_Scheme req))
        \<and> en_Transport env (cl_TLS cl) req w1 = (Inr resp, w')
        \<and> ty_Status resp = 200 \<and> ty_Body resp = Inr body \<and> en_Unmarshal env body = Inr parsed
        \<and> tk_AccessToken tok = tx_AccessToken parsed)"

locale exchange_form =
  fixes mk_form :: "'w TargetTokenExchangeConfig \<Rightarrow> string \<Rightarrow> form" and key :: string
  assumes free: "k \<in> auth_keys \<Longrightarrow> map_of (mk_form c t) k = None"
    and subject: "map_of (mk_form c t) key = Some t"
begin

lemma key_not_auth: "key \<notin> auth_keys"
  using free[of key] subject by force

lemma exchange_sound:
  assumes inv: "memo_inv env c" and run: "exchange_with mk_form wrap env c t w = (Inr tok, c', w')"
  shows "memo_inv env c' \<and> settings c' = settings c \<and> exchanged env c key t tok w'"
proof -
  obtain cl c1 where client: "HTTPClient env c w = (Inr cl, c1)"
    using run by (auto simp: exchange_with_def split: sum.splits prod.splits)
  note memo = HTTPClient_memo(1,2)[OF inv client] HTTPClient_memo(3)[OF inv client refl]
  note same = settings_fields[OF memo(2)]
  obtain data headers w1 where auth: "injectClientAuth env c1 (mk_form c1 t) w = (Inr (data, headers), w1)"
    and sent: "doTokenExchange env c1 cl (te_TokenURL c1) data headers w1 = (Inr tok, w')" and c': "c' = c1"
    using run client by (auto simp: exchange_with_def split: sum.splits prod.splits)
  have "one_channel c1 data headers" "map_of data key = Some t"
    using injectClientAuth_channel[OF auth] free key_not_auth by (simp_all add: subject)
  then have "one_channel c data headers" by (simp add: one_channel_def same)
  moreover have "currentRequireTLS c1 = currentRequireTLS c" by (simp add: currentRequireTLS_def same fun_eq_iff)
  ultimately have "exchanged env c key t tok w'"
    using doTokenExchange_Inr[OF sent] memo(3) \<open>map_of data key = Some t\<close> same(1)
    unfolding exchanged_def by force
  then show ?thesis using memo c' by simp
qed

end

interpretation rfc: exchange_form rfc8693_form "''subject_token''"
  by unfold_locales (rule form_keys form_subject, assumption?)+

interpretation keycloak: exchange_form keycloakV1_form "''subject_token''"
  by unfold_locales (rule form_keys form_subject, assumption?)+

interpretation entra: exchange_form entraOBO_form "''assertion''"
  by unfold_locales (rule form_keys form_subject, assumption?)+

text \<open>The registered strategies, with the form key that carries the subject token.\<close>

definition strategies :: "(string \<times> 'w token_exchanger \<times> string) list" where
  "strategies = [(''keycloak-v1'', keycloakV1_Exchange, ''subject_token''),
     (''rfc8693'', rfc8693_Exchange, ''subject_token''), (''entra-obo'', entraOBO_Exchange, ''assertion'')]"


text \<open>A token endpoint that accepts every request.\<close>

definition accept_env :: "nat te_env" where
  "accept_env = \<lparr>en_Now = int, en_ReadFile = (\<lambda>_ _. Inl []), en_AppendCerts = (\<lambda>_. None),
     en_CipherSuites = Map.empty,
     en_Transport = (\<lambda>_ _ n. (Inr \<lparr>ty_Status = 200, ty_Body = Inr ''body''\<rparr>, Suc n)),
     en_ParseURL = (\<lambda>_. Inr (''https'', ''sts'')),
     en_Unmarshal = (\<lambda>_. Inr \<lparr>tx_AccessToken = ''new'', tx_TokenType = ''Bearer'', tx_ExpiresIn = 60, tx_RefreshToken = []\<rparr>),
     en_Base64 = (\<lambda>s. s), en_PEM = (\<lambda>_. None), en_ParseCertificate = (\<lambda>_. Inl []), en_PKCS8 = (\<lambda>_. Inl []),
     en_PKCS1 = (\<lambda>_. Inl []), en_Thumbprint = (\<lambda>s. s), en_UUID = (\<lambda>n. ([], n)), en_Sign = (\<lambda>_ _ _ _. Inl [])\<rparr>"

definition header_cfg :: "nat TargetTokenExchangeConfig" where
  "header_cfg = \<lparr>te_TokenURL = ''https://sts'', te_ClientID = ''id'', te_ClientSecret = ''s'', te_Audience = ''a'',
     te_SubjectTokenType = [], te_RequestedTokenType = [], te_SubjectIssuer = [], te_Scopes = [], te_CAFile = [],
     te_AuthStyle = ''header'', te_ClientCertFile = [], te_ClientKeyFile = [], te_AssertionLifetime = 0,
     te_FederatedTokenFile = [], te_TLSMinVersion = ''1.3'', te_TLSCipherSuites = [], te_client = None,
     te_clientCAFile = [], te_clientTLSMinVersion = [], te_clientTLSCipherSuites = [],
     te_requireTLS = Some (\<lambda>_. True)\<rparr>"

lemma header_exchange:
  "\<exists>tok c'. keycloakV1_Exchange accept_env header_cfg ''user'' 0 = (Inr tok, c', Suc 0) \<and> tk_AccessToken tok = ''new''"
proof -
  have t: "TrimSpace ''1.3'' = ''1.3''"
    by (simp add: TrimSpace_def TrimSpaceLeft.simps[of "''1.3''"] TrimSpaceRight.simps[of "''1.3''"]
        space_runes_def HasSuffix_def)
  obtain tls where "BuildTLSConfig (en_CipherSuites accept_env) ''1.3'' [] [] = Inr tls"
    by (simp add: BuildTLSConfig_def ParseTLSVersion_def ParseTLSCipherSuites_def t tlsVersionMap_def)
  then have client: "\<exists>c1. HTTPClient accept_env header_cfg 0 = (Inr \<lparr>cl_TLS = tls\<rparr>, c1) \<and> settings c1 = settings header_cfg"
    by (simp add: HTTPClient_def te_ca_options_def header_cfg_def settings_def Let_def)
  then obtain c1 where c1: "HTTPClient accept_env header_cfg 0 = (Inr \<lparr>cl_TLS = tls\<rparr>, c1)"
    and same: "settings c1 = settings header_cfg" by blast
  note f = settings_fields[OF same]
  have cfg: "te_ClientID header_cfg = ''id''" "te_AuthStyle header_cfg = ''header''" by (simp_all add: header_cfg_def)
  have "\<exists>headers. injectClientAuth accept_env c1 (keycloakV1_form c1 ''user'') 0
      = (Inr (keycloakV1_form c1 ''user'', headers), 0)"
    by (simp add: injectClientAuth_def f cfg)
  then obtain headers where auth: "injectClientAuth accept_env c1 (keycloakV1_form c1 ''user'') 0
      = (Inr (keycloakV1_form c1 ''user'', headers), 0)" by blast
  have "\<exists>tok. doTokenExchange accept_env c1 \<lparr>cl_TLS = tls\<rparr> (te_TokenURL c1) (keycloakV1_form c1 ''user'') headers 0
      = (Inr tok, Suc 0) \<and> tk_AccessToken tok = ''new''"
    by (simp add: doTokenExchange_def tlsEnforcingTransport_RoundTrip_def accept_env_def isSecureHTTPScheme_def)
  then show ?thesis by (auto simp: keycloakV1_Exchange_def exchange_with_def c1 auth)
qed


end
