(* ===== verification/Sts.thy ===== *)
theory Sts
  imports Token_Exchange Registry Config_Validate Api_Types
begin

text \<open>
  Choosing and running the exchange for a request: \<open>src/pkg/kubernetes/token_exchange.go\<close>,
  \<open>sts.go\<close> and the provider wrapper of \<open>provider_token_exchange.go\<close>.

  The OIDC provider is its token endpoint URL, \<open>externalaccount\<close> of the OAuth library a
  parameter. The exchange configurations are mutable objects; each function returns the ones it
  was given, with their memoised clients.
\<close>

section \<open>The built-in service\<close>

record SecurityTokenService =
  sts_Provider :: "string option"
  sts_ClientId :: string
  sts_ClientSecret :: string
  sts_ExternalAccountAudience :: string
  sts_ExternalAccountScopes :: "string list"

definition NewFromConfig :: "StaticConfig \<Rightarrow> string option \<Rightarrow> SecurityTokenService" where
  "NewFromConfig cfg provider = \<lparr>sts_Provider = provider, sts_ClientId = c_StsClientId cfg,
     sts_ClientSecret = c_StsClientSecret cfg, sts_ExternalAccountAudience = c_StsAudience cfg,
     sts_ExternalAccountScopes = c_StsScopes cfg\<rparr>"

definition sts_IsEnabled :: "SecurityTokenService \<Rightarrow> bool" where
  "sts_IsEnabled s \<longleftrightarrow> sts_Provider s \<noteq> None \<and> sts_ClientId s \<noteq> [] \<and> sts_ExternalAccountAudience s \<noteq> []"

record external_account =
  ea_TokenURL :: string
  ea_ClientID :: string
  ea_ClientSecret :: string
  ea_Audience :: string
  ea_SubjectTokenType :: string
  ea_SubjectToken :: string
  ea_Scopes :: "string list"

text \<open>
  What the exchange uses besides: the registry of strategies, and the library's external
  account exchange over an optional HTTP client. \<open>xe_Getenv\<close> is the process environment.
\<close>

record ('h, 'w) exchange_env =
  xe_Exchange :: "'w te_env"
  xe_Registry :: "'w token_exchanger tokenExchangerRegistry"
  xe_Getenv :: "string \<Rightarrow> string"
  xe_ExternalAccount :: "'h option \<Rightarrow> external_account \<Rightarrow> 'w \<Rightarrow> (string, oauth2_Token) result \<times> 'w"

definition ExternalAccountTokenExchange ::
  "('h, 'w) exchange_env \<Rightarrow> SecurityTokenService \<Rightarrow> 'h option \<Rightarrow> string \<Rightarrow> 'w \<Rightarrow> (string, oauth2_Token) result \<times> 'w" where
  "ExternalAccountTokenExchange xe s httpClient originalToken w =
     xe_ExternalAccount xe httpClient
       \<lparr>ea_TokenURL = the (sts_Provider s), ea_ClientID = sts_ClientId s, ea_ClientSecret = sts_ClientSecret s,
        ea_Audience = sts_ExternalAccountAudience s, ea_SubjectTokenType = TokenTypeAccessToken,
        ea_SubjectToken = originalToken, ea_Scopes = sts_ExternalAccountScopes s\<rparr> w"

section \<open>Exchanges\<close>

datatype exchange_error =
    TargetExchangeFailed string te_error
  | UnknownAuthMode string
  | StrategyNotFound string
  | NoTokenURL
  | ConfigInvalid te_error
  | StrategyFailed string te_error
  | BuiltInFailed string

definition bearer_token :: "'w call_ctx \<Rightarrow> string option" where
  "bearer_token ctx = (case cx_Authorization ctx of
     None \<Rightarrow> None
   | Some auth \<Rightarrow> (if HasPrefix auth ''Bearer '' then Some (TrimPrefix auth ''Bearer '') else None))"

definition with_bearer :: "'w call_ctx \<Rightarrow> string \<Rightarrow> 'w call_ctx" where
  "with_bearer ctx token = ctx\<lparr>cx_Authorization := Some (''Bearer '' @ token)\<rparr>"

text \<open>The configuration built from the server's settings; \<open>requireTLS\<close> is set separately.\<close>

definition sts_target_config :: "(string \<Rightarrow> string) \<Rightarrow> StaticConfig \<Rightarrow> string \<Rightarrow> 'w TargetTokenExchangeConfig" where
  "sts_target_config getenv cfg tokenURL =
     \<lparr>te_TokenURL = tokenURL, te_ClientID = c_StsClientId cfg, te_ClientSecret = c_StsClientSecret cfg,
      te_Audience = c_StsAudience cfg, te_SubjectTokenType = c_StsSubjectTokenType cfg,
      te_RequestedTokenType = c_StsRequestedTokenType cfg, te_SubjectIssuer = [], te_Scopes = c_StsScopes cfg,
      te_CAFile = c_CertificateAuthority cfg,
      te_AuthStyle = (if c_StsAuthStyle cfg = [] then ''params'' else c_StsAuthStyle cfg),
      te_ClientCertFile = c_StsClientCertFile cfg, te_ClientKeyFile = c_StsClientKeyFile cfg,
      te_AssertionLifetime = 0, te_FederatedTokenFile = c_StsFederatedTokenFile cfg,
      te_TLSMinVersion = GetTLSMinVersionConfig getenv cfg,
      te_TLSCipherSuites = GetTLSCipherSuitesConfig getenv cfg,
      te_client = None, te_clientCAFile = [], te_clientTLSMinVersion = [], te_clientTLSCipherSuites = [],
      te_requireTLS = None\<rparr>"

text \<open>The token URL of an OIDC provider, if there is one and it is not empty.\<close>

definition provider_token_url :: "string option \<Rightarrow> string" where
  "provider_token_url oidcProvider = (case oidcProvider of None \<Rightarrow> [] | Some u \<Rightarrow> u)"

definition strategyBasedTokenExchange ::
  "('h, 'w) exchange_env \<Rightarrow> StaticConfig \<Rightarrow> string option \<Rightarrow> string \<Rightarrow> string \<Rightarrow> 'w TargetTokenExchangeConfig option
   \<Rightarrow> 'w call_ctx \<Rightarrow> 'w \<Rightarrow> (exchange_error, 'w call_ctx) result \<times> 'w TargetTokenExchangeConfig option \<times> 'w" where
  "strategyBasedTokenExchange xe baseConfig oidcProvider token strategy cachedConfig ctx w =
     (case exchanger_get (xe_Registry xe) strategy of
        None \<Rightarrow> (Inl (StrategyNotFound strategy), cachedConfig, w)
      | Some exchange \<Rightarrow>
          (let built = (case cachedConfig of
                 Some cfg \<Rightarrow> Inr cfg
               | None \<Rightarrow>
                   (let tokenURL = provider_token_url oidcProvider in
                    if tokenURL = [] then Inl NoTokenURL
                    else
                      (let cfg = sts_target_config (xe_Getenv xe) baseConfig tokenURL in
                       case Target_Validate cfg of
                         Some e \<Rightarrow> Inl (ConfigInvalid e)
                       | None \<Rightarrow> Inr cfg)))
           in case built of
                Inl e \<Rightarrow> (Inl e, cachedConfig, w)
              | Inr cfg0 \<Rightarrow>
                  (let cfg = SetRequireTLS (Some (\<lambda>_. c_RequireTLS baseConfig)) cfg0 in
                   case exchange (xe_Exchange xe) cfg token w of
                     (r, cfg1, w1) \<Rightarrow>
                       ((case r of
                           Inl e \<Rightarrow> Inl (StrategyFailed strategy e)
                         | Inr newToken \<Rightarrow> Inr (with_bearer ctx (tk_AccessToken newToken))),
                        (case cachedConfig of None \<Rightarrow> None | Some _ \<Rightarrow> Some cfg1), w1))))"

text \<open>\<open>doTokenExchange\<close> of \<open>token_exchange.go\<close>: the token of the resulting context.\<close>

definition token_of_context :: "string \<Rightarrow> (exchange_error, 'w call_ctx) result \<Rightarrow> (exchange_error, string) result" where
  "token_of_context token r = (case r of
     Inl e \<Rightarrow> Inl e
   | Inr exchangedCtx \<Rightarrow>
       (case bearer_token exchangedCtx of Some t \<Rightarrow> Inr t | None \<Rightarrow> Inr token))"

definition exchangePassthroughToken ::
  "('h, 'w) exchange_env \<Rightarrow> StaticConfig \<Rightarrow> string option \<Rightarrow> 'h option \<Rightarrow> string \<Rightarrow> 'w TargetTokenExchangeConfig option
   \<Rightarrow> 'w call_ctx \<Rightarrow> 'w \<Rightarrow> (exchange_error, string) result \<times> 'w TargetTokenExchangeConfig option \<times> 'w" where
  "exchangePassthroughToken xe baseConfig oidcProvider httpClient token stsConfig ctx w =
     (let strategy = c_TokenExchangeStrategy baseConfig in
      if strategy \<noteq> [] then
        (case strategyBasedTokenExchange xe baseConfig oidcProvider token strategy stsConfig ctx w of
           (r, cfg, w1) \<Rightarrow> (token_of_context token r, cfg, w1))
      else
        (let sts = NewFromConfig baseConfig oidcProvider in
         if sts_IsEnabled sts then
           (case ExternalAccountTokenExchange xe sts httpClient token w of
              (r, w1) \<Rightarrow>
                (token_of_context token
                   (case r of Inl e \<Rightarrow> Inl (BuiltInFailed e)
                    | Inr newToken \<Rightarrow> Inr (with_bearer ctx (tk_AccessToken newToken))),
                 stsConfig, w1))
         else (Inr token, stsConfig, w)))"

definition stsExchangeTokenInContext ::
  "('h, 'w) exchange_env \<Rightarrow> StaticConfig \<Rightarrow> string option \<Rightarrow> 'h option \<Rightarrow> string \<Rightarrow> 'w TargetTokenExchangeConfig option
   \<Rightarrow> 'w call_ctx \<Rightarrow> 'w \<Rightarrow> (exchange_error, 'w call_ctx) result \<times> 'w TargetTokenExchangeConfig option \<times> 'w" where
  "stsExchangeTokenInContext xe baseConfig oidcProvider httpClient token stsConfig ctx w =
     (let mode = ResolveClusterAuthMode baseConfig in
      if mode = ''kubeconfig'' then (Inr (ctx\<lparr>cx_Authorization := Some []\<rparr>), stsConfig, w)
      else if mode = ''passthrough'' then
        (case exchangePassthroughToken xe baseConfig oidcProvider httpClient token stsConfig ctx w of
           (Inl e, cfg, w1) \<Rightarrow> (Inl e, cfg, w1)
         | (Inr exchangedToken, cfg, w1) \<Rightarrow> (Inr (with_bearer ctx exchangedToken), cfg, w1))
      else (Inl (UnknownAuthMode mode), stsConfig, w))"

text \<open>
  The optional \<open>TokenExchangeProvider\<close> interface of a provider, for one target: its
  configuration, if any, and its strategy. \<open>None\<close> stands for a provider without the interface.
\<close>

type_synonym 'w target_exchange = "('w TargetTokenExchangeConfig option \<times> string) option"

definition ExchangeTokenInContext ::
  "('h, 'w) exchange_env \<Rightarrow> StaticConfig \<Rightarrow> string option \<Rightarrow> 'h option \<Rightarrow> 'w target_exchange \<Rightarrow> string
   \<Rightarrow> 'w TargetTokenExchangeConfig option \<Rightarrow> 'w call_ctx \<Rightarrow> 'w
   \<Rightarrow> (exchange_error, 'w call_ctx) result \<times> 'w target_exchange \<times> 'w TargetTokenExchangeConfig option \<times> 'w" where
  "ExchangeTokenInContext xe baseConfig oidcProvider httpClient tep target stsConfig ctx w =
     (case bearer_token ctx of
        None \<Rightarrow> (Inr ctx, tep, stsConfig, w)
      | Some subjectToken \<Rightarrow>
          (let fallback = (\<lambda>tep'. case stsExchangeTokenInContext xe baseConfig oidcProvider httpClient subjectToken stsConfig ctx w of
                 (r, cfg, w1) \<Rightarrow> (r, tep', cfg, w1))
           in case tep of
                None \<Rightarrow> fallback None
              | Some (None, strategy) \<Rightarrow> fallback tep
              | Some (Some exCfg0, strategy) \<Rightarrow>
                  (let exCfg = SetRequireTLS (Some (\<lambda>_. c_RequireTLS baseConfig)) exCfg0 in
                   case exchanger_get (xe_Registry xe) strategy of
                     None \<Rightarrow> fallback (Some (Some exCfg, strategy))
                   | Some exchange \<Rightarrow>
                       (case exchange (xe_Exchange xe) exCfg subjectToken w of
                          (r, exCfg1, w1) \<Rightarrow>
                            ((case r of
                                Inl e \<Rightarrow> Inl (TargetExchangeFailed target e)
                              | Inr newToken \<Rightarrow> Inr (with_bearer ctx (tk_AccessToken newToken))),
                             Some (Some exCfg1, strategy), stsConfig, w1)))))"

end
