(* ===== verification/Providers.thy ===== *)
theory Providers
  imports Sts Mcp_Tools Http_Server
begin

text \<open>
  Cluster access: clients and managers (\<open>src/pkg/kubernetes/kubernetes.go\<close>, \<open>manager.go\<close>,
  \<open>configuration.go\<close>), the single-cluster and kubeconfig providers, the filter on available
  kinds (\<open>provider_gvk_filter.go\<close>) and the wrapper that exchanges tokens
  (\<open>provider_token_exchange.go\<close>).

  A client is its configuration: where it connects, with which credentials, through which
  transport wrappers. Loading kubeconfig files, the in-cluster configuration and the
  construction of the API clients are parameters. The watchers a provider starts are not
  part of its state here.
\<close>

section \<open>Clients\<close>

text \<open>Transport wrappers, innermost first: access control for a base configuration and host.\<close>

datatype wrapper = AccessControlWrap StaticConfig string | UserAgentWrap

record rest_config =
  rc_Host :: string
  rc_APIPath :: string
  rc_Insecure :: bool
  rc_ServerName :: string
  rc_CAFile :: string
  rc_CAData :: string
  rc_CertFile :: string
  rc_CertData :: string
  rc_KeyFile :: string
  rc_KeyData :: string
  rc_Username :: string
  rc_Password :: string
  rc_BearerToken :: string
  rc_BearerTokenFile :: string
  rc_Impersonate :: "string option"
  rc_ExecProvider :: "string option"
  rc_AuthProvider :: "string option"
  rc_UserAgent :: string
  rc_QPS :: rat
  rc_Burst :: int
  rc_Timeout :: int
  rc_Wrappers :: "wrapper list"

record raw_config =
  rk_CurrentContext :: string
  rk_Contexts :: "string list"
  rk_AuthInfos :: "string list"

text \<open>\<open>kb_rawConfig\<close> is what \<open>clientCmdConfig.RawConfig()\<close> returns.\<close>

record Kubernetes =
  kb_config :: StaticConfig
  kb_rawConfig :: "(string, raw_config) result"
  kb_restConfig :: rest_config
  kb_discoveryTimeout :: int

text \<open>
  Constructors of client-go: the HTTP client of a configuration with its time-out, and the
  errors the API clients may give.
\<close>

record client_env =
  ce_DefaultUserAgent :: string
  ce_HTTPClientFor :: "rest_config \<Rightarrow> (string, int) result"
  ce_Discovery :: "rest_config \<Rightarrow> string option"
  ce_Clientset :: "rest_config \<Rightarrow> string option"
  ce_Dynamic :: "rest_config \<Rightarrow> string option"
  ce_Metrics :: "rest_config \<Rightarrow> string option"

definition defaultDiscoveryTimeout :: int where
  "defaultDiscoveryTimeout = 10 * 1000000000"

definition NewKubernetes ::
  "client_env \<Rightarrow> StaticConfig \<Rightarrow> (string, raw_config) result \<Rightarrow> rest_config \<Rightarrow> (string, Kubernetes) result" where
  "NewKubernetes ce baseConfig raw restConfig =
     (let rc1 = (if rc_UserAgent restConfig = [] then restConfig\<lparr>rc_UserAgent := ce_DefaultUserAgent ce\<rparr>
                 else restConfig);
          rc = rc1\<lparr>rc_Wrappers := rc_Wrappers rc1 @ [AccessControlWrap baseConfig (rc_Host rc1), UserAgentWrap]\<rparr>
      in case ce_HTTPClientFor ce rc of
           Inl e \<Rightarrow> Inl (''failed to create HTTP client: '' @ e)
         | Inr timeout \<Rightarrow>
             (case orElseErr (map_option (\<lambda>e. ''failed to create discovery client: '' @ e) (ce_Discovery ce rc))
                     (orElseErr (ce_Clientset ce rc) (orElseErr (ce_Dynamic ce rc) (ce_Metrics ce rc))) of
                Some e \<Rightarrow> Inl e
              | None \<Rightarrow>
                  Inr \<lparr>kb_config = baseConfig, kb_rawConfig = raw, kb_restConfig = rc,
                       kb_discoveryTimeout = (if timeout \<le> 0 then defaultDiscoveryTimeout else timeout)\<rparr>))"

section \<open>Managers\<close>

record Manager =
  mg_kubernetes :: Kubernetes
  mg_config :: StaticConfig

definition CustomUserAgent :: string where
  "CustomUserAgent = ''kubernetes-mcp-server/bearer-token-auth''"

text \<open>The configuration of a client that acts with a bearer token only.\<close>

definition derived_config :: "rest_config \<Rightarrow> string \<Rightarrow> string \<Rightarrow> rest_config" where
  "derived_config base token userAgent =
     \<lparr>rc_Host = rc_Host base, rc_APIPath = rc_APIPath base, rc_Insecure = rc_Insecure base,
      rc_ServerName = rc_ServerName base, rc_CAFile = rc_CAFile base, rc_CAData = rc_CAData base,
      rc_CertFile = [], rc_CertData = [], rc_KeyFile = [], rc_KeyData = [], rc_Username = [], rc_Password = [],
      rc_BearerToken = token, rc_BearerTokenFile = [], rc_Impersonate = None, rc_ExecProvider = None,
      rc_AuthProvider = None, rc_UserAgent = userAgent, rc_QPS = rc_QPS base, rc_Burst = rc_Burst base,
      rc_Timeout = rc_Timeout base, rc_Wrappers = []\<rparr>"

definition Derived :: "client_env \<Rightarrow> Manager \<Rightarrow> 'w call_ctx \<Rightarrow> (derive_error, Kubernetes) result" where
  "Derived ce m ctx =
     (case bearer_token ctx of
        None \<Rightarrow>
          (if c_RequireOAuth (mg_config m) then Inl (DeriveError ''oauth token required'')
           else Inr (mg_kubernetes m))
      | Some token \<Rightarrow>
          (let userAgent = (case cx_UserAgent ctx of
                 Some ua \<Rightarrow> (if ua \<noteq> [] then ua else CustomUserAgent)
               | None \<Rightarrow> CustomUserAgent);
               derivedCfg = derived_config (kb_restConfig (mg_kubernetes m)) token userAgent
           in case kb_rawConfig (mg_kubernetes m) of
                Inl e \<Rightarrow> Inl (DeriveError (''failed to get kubeconfig: '' @ e))
              | Inr raw \<Rightarrow>
                  (case NewKubernetes ce (mg_config m) (Inr (raw\<lparr>rk_AuthInfos := []\<rparr>)) derivedCfg of
                     Inl e \<Rightarrow> Inl (DeriveError (''failed to create derived client: '' @ e))
                   | Inr derived \<Rightarrow> Inr derived)))"

text \<open>
  The world outside: \<open>rest.InClusterConfig()\<close> with its error, loading the kubeconfig of a path
  and the client configuration of one of its contexts.
\<close>

record 'w kube_env =
  ke_Client :: client_env
  ke_InCluster :: "'w \<Rightarrow> rest_config option \<times> string option"
  ke_Load :: "string \<Rightarrow> 'w \<Rightarrow> (string, raw_config) result"
  ke_ClientConfig :: "string \<Rightarrow> string \<Rightarrow> 'w \<Rightarrow> (string, rest_config) result"
  ke_RateLimit :: "rest_config \<Rightarrow> rest_config"

definition InClusterConfig :: "'w kube_env \<Rightarrow> 'w \<Rightarrow> rest_config option \<times> string option" where
  "InClusterConfig env w =
     (case ke_InCluster env w of
        (cfg, err) \<Rightarrow> (map_option (\<lambda>c. c\<lparr>rc_Host := ''https://kubernetes.default.svc''\<rparr>) cfg, err))"

definition IsInCluster :: "'w kube_env \<Rightarrow> StaticConfig \<Rightarrow> 'w \<Rightarrow> bool" where
  "IsInCluster env cfg w =
     (if c_KubeConfig cfg \<noteq> [] then False
      else (case InClusterConfig env w of (restConfig, err) \<Rightarrow> err = None \<and> restConfig \<noteq> None))"

datatype mgr_error =
    KubeconfigInClusterNotAllowed
  | InClusterNotInCluster
  | LoadFailed string
  | NoContexts
  | ManyContexts "string list"
  | RestConfigFailed string
  | NewClientFailed string
  | KubeconfigWithInClusterManager string
  | KubeconfigWithInClusterStrategy string
  | InClusterConfigFailed string
  | RawConfigFailed string

definition resolveKubeconfigContext :: "(string, raw_config) result \<Rightarrow> string \<Rightarrow> (mgr_error, string) result" where
  "resolveKubeconfigContext loaded kubeconfigContext =
     (if kubeconfigContext \<noteq> [] then Inr kubeconfigContext
      else (case loaded of
              Inl e \<Rightarrow> Inl (LoadFailed e)
            | Inr rawConfig \<Rightarrow>
                (if rk_CurrentContext rawConfig \<noteq> [] then Inr (rk_CurrentContext rawConfig)
                 else (case rk_Contexts rawConfig of
                         [] \<Rightarrow> Inl NoContexts
                       | [name] \<Rightarrow> Inr name
                       | _ \<Rightarrow> Inl (ManyContexts (sort (rk_Contexts rawConfig)))))))"

definition NewManager ::
  "'w kube_env \<Rightarrow> StaticConfig \<Rightarrow> rest_config \<Rightarrow> (string, raw_config) result \<Rightarrow> (mgr_error, Manager) result" where
  "NewManager env config restConfig raw =
     (case NewKubernetes (ke_Client env) config raw (ke_RateLimit env restConfig) of
        Inl e \<Rightarrow> Inl (NewClientFailed e)
      | Inr k \<Rightarrow> Inr \<lparr>mg_kubernetes = k, mg_config = config\<rparr>)"

definition NewKubeconfigManager ::
  "'w kube_env \<Rightarrow> StaticConfig \<Rightarrow> string \<Rightarrow> 'w \<Rightarrow> (mgr_error, Manager) result" where
  "NewKubeconfigManager env config kubeconfigContext w =
     (if IsInCluster env config w then Inl KubeconfigInClusterNotAllowed
      else
        (let raw = ke_Load env (c_KubeConfig config) w in
         bindE (resolveKubeconfigContext raw kubeconfigContext) (\<lambda>resolvedContext.
           bindE (mapErr RestConfigFailed (ke_ClientConfig env (c_KubeConfig config) resolvedContext w)) (\<lambda>restConfig.
             NewManager env config restConfig raw))))"

definition NewInClusterManager :: "'w kube_env \<Rightarrow> StaticConfig \<Rightarrow> 'w \<Rightarrow> (mgr_error, Manager) result" where
  "NewInClusterManager env config w =
     (if c_KubeConfig config \<noteq> [] then Inl (KubeconfigWithInClusterManager (c_KubeConfig config))
      else if \<not> IsInCluster env config w then Inl InClusterNotInCluster
      else (case InClusterConfig env w of
              (_, Some e) \<Rightarrow> Inl (InClusterConfigFailed e)
            | (restConfig, None) \<Rightarrow>
                NewManager env config (the restConfig)
                  (Inr \<lparr>rk_CurrentContext = ''in-cluster'', rk_Contexts = [''in-cluster''], rk_AuthInfos = [''user'']\<rparr>)))"

section \<open>The single-cluster provider\<close>

record singleClusterProvider =
  sg_BaseConfig :: StaticConfig
  sg_strategy :: string
  sg_manager :: "Manager option"

definition single_reset ::
  "'w kube_env \<Rightarrow> singleClusterProvider \<Rightarrow> 'w \<Rightarrow> mgr_error option \<times> singleClusterProvider" where
  "single_reset env p w =
     (let cfg = sg_BaseConfig p in
      if c_KubeConfig cfg \<noteq> [] \<and> sg_strategy p = ''in-cluster''
      then (Some (KubeconfigWithInClusterStrategy (c_KubeConfig cfg)), p)
      else
        (case (if sg_strategy p = ''in-cluster'' \<or> IsInCluster env cfg w then NewInClusterManager env cfg w
               else NewKubeconfigManager env cfg [] w) of
           Inl e \<Rightarrow> (Some e, p\<lparr>sg_manager := None\<rparr>)
         | Inr m \<Rightarrow> (None, p\<lparr>sg_manager := Some m\<rparr>)))"

definition newSingleClusterProvider ::
  "'w kube_env \<Rightarrow> string \<Rightarrow> StaticConfig \<Rightarrow> 'w \<Rightarrow> (mgr_error, singleClusterProvider) result" where
  "newSingleClusterProvider env strategy cfg w =
     (case single_reset env \<lparr>sg_BaseConfig = cfg, sg_strategy = strategy, sg_manager = None\<rparr> w of
        (Some e, _) \<Rightarrow> Inl e
      | (None, p) \<Rightarrow> Inr p)"

text \<open>A nil manager, left behind by a failed reset, is dereferenced: the model's error is the panic.\<close>

definition single_GetDerivedKubernetes ::
  "'w kube_env \<Rightarrow> 'w call_ctx \<Rightarrow> string \<Rightarrow> singleClusterProvider \<Rightarrow> 'w
   \<Rightarrow> (derive_error, Kubernetes) result \<times> singleClusterProvider" where
  "single_GetDerivedKubernetes env ctx target p w =
     (if target \<noteq> [] then
        (Inl (ErrUnknownTarget (''unable to get manager for other context/cluster with '' @ sg_strategy p
           @ '' strategy: unknown target'')), p)
      else (case sg_manager p of
              None \<Rightarrow> (Inl (DeriveError ''nil manager''), p)
            | Some m \<Rightarrow> (Derived (ke_Client env) m ctx, p)))"

section \<open>The kubeconfig provider\<close>

record kubeConfigClusterProvider =
  kp_BaseConfig :: StaticConfig
  kp_defaultContext :: string
  kp_managers :: "(string \<times> Manager option) list"

definition kubeconfig_reset ::
  "'w kube_env \<Rightarrow> kubeConfigClusterProvider \<Rightarrow> 'w \<Rightarrow> mgr_error option \<times> kubeConfigClusterProvider" where
  "kubeconfig_reset env p w =
     (case NewKubeconfigManager env (kp_BaseConfig p) [] w of
        Inl e \<Rightarrow> (Some e, p)
      | Inr m \<Rightarrow>
          (case kb_rawConfig (mg_kubernetes m) of
             Inl e \<Rightarrow> (Some (RawConfigFailed e), p)
           | Inr rawConfig \<Rightarrow>
               (let defaultContext = (case rk_Contexts rawConfig of
                      [name] \<Rightarrow> (if rk_CurrentContext rawConfig = [] then name else rk_CurrentContext rawConfig)
                    | _ \<Rightarrow> rk_CurrentContext rawConfig)
                in (None, p\<lparr>kp_defaultContext := defaultContext,
                            kp_managers := (defaultContext, Some m)
                              # map (\<lambda>name. (name, None)) (filter (\<lambda>name. name \<noteq> defaultContext) (rk_Contexts rawConfig))\<rparr>))))"

definition newKubeConfigClusterProvider ::
  "'w kube_env \<Rightarrow> StaticConfig \<Rightarrow> 'w \<Rightarrow> (mgr_error, kubeConfigClusterProvider) result" where
  "newKubeConfigClusterProvider env cfg w =
     (case kubeconfig_reset env \<lparr>kp_BaseConfig = cfg, kp_defaultContext = [], kp_managers = []\<rparr> w of
        (Some e, _) \<Rightarrow> Inl e
      | (None, p) \<Rightarrow> Inr p)"

text \<open>
  The double-checked lookup of \<open>managerForContext\<close>: one step under its lock. A missing default
  manager would be a nil dereference.
\<close>

definition managerForContext ::
  "'w kube_env \<Rightarrow> string \<Rightarrow> kubeConfigClusterProvider \<Rightarrow> 'w
   \<Rightarrow> (derive_error, Manager) result \<times> kubeConfigClusterProvider" where
  "managerForContext env kubeContext p w =
     (case map_of (kp_managers p) kubeContext of
        Some (Some m) \<Rightarrow> (Inr m, p)
      | _ \<Rightarrow>
          (case map_of (kp_managers p) (kp_defaultContext p) of
             Some (Some baseManager) \<Rightarrow>
               (case NewKubeconfigManager env (mg_config baseManager) kubeContext w of
                  Inl e \<Rightarrow> (Inl (ErrUnknownTarget ''unknown target''), p)
                | Inr m \<Rightarrow> (Inr m, p\<lparr>kp_managers := AList.update kubeContext (Some m) (kp_managers p)\<rparr>))
           | _ \<Rightarrow> (Inl (DeriveError ''nil manager''), p)))"

definition kubeconfig_IsMultiTarget :: "kubeConfigClusterProvider \<Rightarrow> bool" where
  "kubeconfig_IsMultiTarget p \<longleftrightarrow> length (kp_managers p) > 1"

definition kubeconfig_GetTargets :: "kubeConfigClusterProvider \<Rightarrow> string list" where
  "kubeconfig_GetTargets p = map fst (kp_managers p)"

fun managers_for ::
  "'w kube_env \<Rightarrow> string list \<Rightarrow> kubeConfigClusterProvider \<Rightarrow> 'w
   \<Rightarrow> (derive_error, Manager list) result \<times> kubeConfigClusterProvider" where
  "managers_for env [] p w = (Inr [], p)"
| "managers_for env (cn # cns) p w =
     (case managerForContext env cn p w of
        (Inl e, p1) \<Rightarrow> (Inl e, p1)
      | (Inr m, p1) \<Rightarrow>
          (case managers_for env cns p1 w of
             (Inl e, p2) \<Rightarrow> (Inl e, p2)
           | (Inr ms, p2) \<Rightarrow> (Inr (m # ms), p2)))"

definition kubeconfig_GetTargetManagers ::
  "'w kube_env \<Rightarrow> kubeConfigClusterProvider \<Rightarrow> 'w \<Rightarrow> (derive_error, Manager list) result \<times> kubeConfigClusterProvider" where
  "kubeconfig_GetTargetManagers env p w = managers_for env (kubeconfig_GetTargets p) p w"

definition kubeconfig_GetDerivedKubernetes ::
  "'w kube_env \<Rightarrow> 'w call_ctx \<Rightarrow> string \<Rightarrow> kubeConfigClusterProvider \<Rightarrow> 'w
   \<Rightarrow> (derive_error, Kubernetes) result \<times> kubeConfigClusterProvider" where
  "kubeconfig_GetDerivedKubernetes env ctx kubeContext p w =
     (case managerForContext env kubeContext p w of
        (Inl e, p1) \<Rightarrow> (Inl e, p1)
      | (Inr m, p1) \<Rightarrow> (Derived (ke_Client env) m ctx, p1))"

section \<open>Available kinds\<close>

text \<open>
  Discovery for a group and version: the kinds of its resources, not found, or another error.
\<close>

datatype discovery_answer = Kinds "string list" | NotFound | DiscoveryFailed string

fun HasGVKs :: "(string \<Rightarrow> string \<Rightarrow> discovery_answer) \<Rightarrow> GroupVersionKind list \<Rightarrow> (string, bool) result" where
  "HasGVKs discover [] = Inr True"
| "HasGVKs discover (gvk # gvks) =
     (case discover (gvk_Group gvk) (gvk_Version gvk) of
        NotFound \<Rightarrow> Inr False
      | DiscoveryFailed e \<Rightarrow> Inl e
      | Kinds ks \<Rightarrow> (if gvk_Kind gvk \<in> set ks then HasGVKs discover gvks else Inr False))"

fun any_manager_has ::
  "client_env \<Rightarrow> (Kubernetes \<Rightarrow> string \<Rightarrow> string \<Rightarrow> discovery_answer) \<Rightarrow> 'w call_ctx \<Rightarrow> GroupVersionKind list
   \<Rightarrow> Manager list \<Rightarrow> bool" where
  "any_manager_has ce discover ctx gvks [] = False"
| "any_manager_has ce discover ctx gvks (m # ms) =
     (case Derived ce m ctx of
        Inl _ \<Rightarrow> True
      | Inr k \<Rightarrow>
          (case HasGVKs (discover k) gvks of
             Inl _ \<Rightarrow> True
           | Inr hasGVKs \<Rightarrow> (if hasGVKs then True else any_manager_has ce discover ctx gvks ms)))"

definition AnyTargetHasGVKs ::
  "client_env \<Rightarrow> (Kubernetes \<Rightarrow> string \<Rightarrow> string \<Rightarrow> discovery_answer) \<Rightarrow> 'w call_ctx \<Rightarrow> GroupVersionKind list
   \<Rightarrow> (derive_error, Manager list) result \<Rightarrow> bool" where
  "AnyTargetHasGVKs ce discover ctx gvks managers =
     (if length gvks = 0 then True
      else (case managers of Inl _ \<Rightarrow> True | Inr mgrs \<Rightarrow> any_manager_has ce discover ctx gvks mgrs))"

section \<open>The token-exchanging wrapper\<close>

record stsConfigCacheKey =
  ck_TokenURL :: string
  ck_Strategy :: string
  ck_ClientID :: string
  ck_ClientSecret :: string
  ck_Audience :: string
  ck_SubjectTokenType :: string
  ck_RequestedTokenType :: string
  ck_Scopes :: string
  ck_AuthStyle :: string
  ck_ClientCertFile :: string
  ck_ClientKeyFile :: string
  ck_FederatedTokenFile :: string
  ck_CAFile :: string
  ck_TLSMinVersion :: string
  ck_TLSCipherSuites :: string
  ck_RequireTLS :: bool

definition newStsConfigCacheKey :: "(string \<Rightarrow> string) \<Rightarrow> string \<Rightarrow> StaticConfig \<Rightarrow> stsConfigCacheKey" where
  "newStsConfigCacheKey getenv tokenURL cfg =
     \<lparr>ck_TokenURL = tokenURL, ck_Strategy = c_TokenExchangeStrategy cfg, ck_ClientID = c_StsClientId cfg,
      ck_ClientSecret = c_StsClientSecret cfg, ck_Audience = c_StsAudience cfg,
      ck_SubjectTokenType = c_StsSubjectTokenType cfg, ck_RequestedTokenType = c_StsRequestedTokenType cfg,
      ck_Scopes = Join [CHR 0x00] (c_StsScopes cfg), ck_AuthStyle = c_StsAuthStyle cfg,
      ck_ClientCertFile = c_StsClientCertFile cfg, ck_ClientKeyFile = c_StsClientKeyFile cfg,
      ck_FederatedTokenFile = c_StsFederatedTokenFile cfg, ck_CAFile = c_CertificateAuthority cfg,
      ck_TLSMinVersion = GetTLSMinVersionConfig getenv cfg,
      ck_TLSCipherSuites = Join [CHR 0x00] (GetTLSCipherSuitesConfig getenv cfg),
      ck_RequireTLS = c_RequireTLS cfg\<rparr>"

record ('p, 'w) tokenExchangingProvider =
  xp_provider :: 'p
  xp_stsConfig :: "'w TargetTokenExchangeConfig option"
  xp_stsConfigKey :: stsConfigCacheKey

definition getOrBuildStsConfig ::
  "(string \<Rightarrow> string) \<Rightarrow> string option \<Rightarrow> StaticConfig \<Rightarrow> ('p, 'w) tokenExchangingProvider
   \<Rightarrow> 'w TargetTokenExchangeConfig option \<times> ('p, 'w) tokenExchangingProvider" where
  "getOrBuildStsConfig getenv oidcProvider baseConfig p =
     (if c_TokenExchangeStrategy baseConfig = [] then (None, p)
      else
        (let tokenURL = provider_token_url oidcProvider in
         if tokenURL = [] then (None, p)
         else
           (let key = newStsConfigCacheKey getenv tokenURL baseConfig in
            if xp_stsConfig p \<noteq> None \<and> xp_stsConfigKey p = key then (xp_stsConfig p, p)
            else
              (let cfg = SetRequireTLS (Some (\<lambda>_. c_RequireTLS baseConfig))
                     (sts_target_config getenv baseConfig tokenURL)
               in case Target_Validate cfg of
                    Some _ \<Rightarrow> (None, p)
                  | None \<Rightarrow> (Some cfg, p\<lparr>xp_stsConfig := Some cfg, xp_stsConfigKey := key\<rparr>)))))"

text \<open>
  \<open>GetDerivedKubernetes\<close> of the wrapper, over the wrapped provider's operation \<open>derive\<close> and its
  optional per-target exchange configuration \<open>tep\<close>. The exchange updates the configuration
  object it was given; when that is the cached one, the cache sees the update.
\<close>

definition exchanging_GetDerivedKubernetes ::
  "('w call_ctx \<Rightarrow> string \<Rightarrow> 'p \<Rightarrow> 'w \<Rightarrow> (derive_error, Kubernetes) result \<times> 'p)
   \<Rightarrow> ('p \<Rightarrow> string \<Rightarrow> 'w target_exchange) \<Rightarrow> ('h, 'w) exchange_env \<Rightarrow> ('w \<Rightarrow> StaticConfig option)
   \<Rightarrow> ('w \<Rightarrow> (string, 'h) Snapshot option) \<Rightarrow> 'w call_ctx \<Rightarrow> string \<Rightarrow> ('p, 'w) tokenExchangingProvider \<Rightarrow> 'w
   \<Rightarrow> (exchange_error + derive_error, Kubernetes) result \<times> ('p, 'w) tokenExchangingProvider \<times> 'w" where
  "exchanging_GetDerivedKubernetes derive tep xe baseConfigProvider oauthState ctx target p w =
     (let direct = (\<lambda>ctx p w. case derive ctx target (xp_provider p) w of
            (r, inner) \<Rightarrow> (mapErr Inr r, p\<lparr>xp_provider := inner\<rparr>, w))
      in case oauthState w of
           None \<Rightarrow> direct ctx p w
         | Some snap \<Rightarrow>
             (case baseConfigProvider w of
                None \<Rightarrow> direct ctx p w
              | Some baseConfig \<Rightarrow>
                  (case getOrBuildStsConfig (xe_Getenv xe) (sn_OIDCProvider snap) baseConfig p of
                     (stsConfig, p1) \<Rightarrow>
                       (case ExchangeTokenInContext xe baseConfig (sn_OIDCProvider snap) (sn_HTTPClient snap)
                               (tep (xp_provider p1) target) target stsConfig ctx w of
                          (r, _, stsConfig1, w1) \<Rightarrow>
                            (let p2 = (if stsConfig = None then p1 else p1\<lparr>xp_stsConfig := stsConfig1\<rparr>) in
                             case r of
                               Inl e \<Rightarrow> (Inl (Inl e), p2, w1)
                             | Inr ctx1 \<Rightarrow> direct ctx1 p2 w1)))))"

section \<open>Choosing a provider\<close>

definition resolveStrategy :: "'w kube_env \<Rightarrow> StaticConfig \<Rightarrow> 'w \<Rightarrow> string" where
  "resolveStrategy env cfg w =
     (if c_ClusterProviderStrategy cfg \<noteq> [] then c_ClusterProviderStrategy cfg
      else if c_KubeConfig cfg \<noteq> [] then ''kubeconfig''
      else (case InClusterConfig env w of
              (_, None) \<Rightarrow> ''in-cluster''
            | (_, Some _) \<Rightarrow> ''kubeconfig''))"

text \<open>
  The two providers of this theory behind the \<open>Provider\<close> interface, and their factories as
  \<open>init\<close> registers them.
\<close>

datatype cluster_provider = SingleCluster singleClusterProvider | KubeConfigCluster kubeConfigClusterProvider

definition cluster_factories ::
  "'w kube_env \<Rightarrow> (string \<times> (StaticConfig \<Rightarrow> 'w \<Rightarrow> (mgr_error, cluster_provider) result)) list" where
  "cluster_factories env =
     [(''in-cluster'', \<lambda>cfg w. map_sum id SingleCluster (newSingleClusterProvider env ''in-cluster'' cfg w)),
      (''disabled'', \<lambda>cfg w. map_sum id SingleCluster (newSingleClusterProvider env ''disabled'' cfg w)),
      (''kubeconfig'', \<lambda>cfg w. map_sum id KubeConfigCluster (newKubeConfigClusterProvider env cfg w))]"

datatype provider_error = NoFactory provider_registry_error | FactoryFailed mgr_error

definition NewProvider ::
  "'w kube_env \<Rightarrow> (StaticConfig \<Rightarrow> 'w \<Rightarrow> (mgr_error, 'p) result) providerRegistry \<Rightarrow> StaticConfig \<Rightarrow> 'w
   \<Rightarrow> (provider_error, 'p) result" where
  "NewProvider env reg cfg w =
     (case provider_get reg (resolveStrategy env cfg w) of
        Inl e \<Rightarrow> Inl (NoFactory e)
      | Inr factory \<Rightarrow> mapErr FactoryFailed (factory cfg w))"

fun cluster_GetDerivedKubernetes ::
  "'w kube_env \<Rightarrow> 'w call_ctx \<Rightarrow> string \<Rightarrow> cluster_provider \<Rightarrow> 'w
   \<Rightarrow> (derive_error, Kubernetes) result \<times> cluster_provider" where
  "cluster_GetDerivedKubernetes env ctx target (SingleCluster p) w =
     map_prod id SingleCluster (single_GetDerivedKubernetes env ctx target p w)"
| "cluster_GetDerivedKubernetes env ctx target (KubeConfigCluster p) w =
     map_prod id KubeConfigCluster (kubeconfig_GetDerivedKubernetes env ctx target p w)"

end
