(* ===== verification/Identity.thy ===== *)
theory Identity
  imports Providers
begin

text \<open>
  Whose credentials reach a cluster. The laws a provider promises about the clients it derives
  are the locale \<open>identity_provider\<close>; the providers of \<open>src/pkg/kubernetes/\<close> satisfy it, and
  the token-exchanging wrapper is verified once over it.
\<close>

section \<open>Clients\<close>

text \<open>A client whose only credential is a bearer token.\<close>

definition token_only :: "string \<Rightarrow> rest_config \<Rightarrow> bool" where
  "token_only tok rc \<longleftrightarrow> rc_BearerToken rc = tok \<and> rc_BearerTokenFile rc = [] \<and> rc_CertFile rc = [] \<and> rc_CertData rc = []
     \<and> rc_KeyFile rc = [] \<and> rc_KeyData rc = [] \<and> rc_Username rc = [] \<and> rc_Password rc = []
     \<and> rc_Impersonate rc = None \<and> rc_ExecProvider rc = None \<and> rc_AuthProvider rc = None"

text \<open>A client whose requests pass the access control of the configuration, for the host it calls.\<close>

definition guarded :: "StaticConfig \<Rightarrow> rest_config \<Rightarrow> bool" where
  "guarded cfg rc \<longleftrightarrow> AccessControlWrap cfg (rc_Host rc) \<in> set (rc_Wrappers rc)"

definition mgr_wf :: "StaticConfig \<Rightarrow> Manager \<Rightarrow> bool" where
  "mgr_wf cfg m \<longleftrightarrow> mg_config m = cfg \<and> kb_config (mg_kubernetes m) = cfg \<and> guarded cfg (kb_restConfig (mg_kubernetes m))"

lemma NewKubernetes_guarded:
  assumes "NewKubernetes ce cfg raw rc = Inr k"
  shows "kb_config k = cfg" and "guarded cfg (kb_restConfig k)" and "rc_Host (kb_restConfig k) = rc_Host rc"
    and "token_only tok rc \<Longrightarrow> token_only tok (kb_restConfig k)"
  using assms by (auto simp: NewKubernetes_def guarded_def token_only_def Let_def split: if_splits sum.splits option.splits)

lemma derived_config_token_only: "token_only tok (derived_config base tok ua)"
  by (simp add: derived_config_def token_only_def)

lemma Derived_token:
  assumes "Derived ce m ctx = Inr k" "bearer_token ctx = Some tok"
  shows "token_only tok (kb_restConfig k)" and "guarded (mg_config m) (kb_restConfig k)"
    and "rc_Host (kb_restConfig k) = rc_Host (kb_restConfig (mg_kubernetes m))"
proof -
  let ?rc = "\<lambda>ua. derived_config (kb_restConfig (mg_kubernetes m)) tok ua"
  obtain raw ua where new: "NewKubernetes ce (mg_config m) raw (?rc ua) = Inr k"
    using assms by (auto simp: Derived_def Let_def split: sum.splits)
  show "token_only tok (kb_restConfig k)"
    using NewKubernetes_guarded(4) [OF new] derived_config_token_only by blast
  show "guarded (mg_config m) (kb_restConfig k)"
    using NewKubernetes_guarded(2) [OF new] .
  show "rc_Host (kb_restConfig k) = rc_Host (kb_restConfig (mg_kubernetes m))"
    using NewKubernetes_guarded(3) [OF new] by (simp add: derived_config_def)
qed

lemma Derived_no_token:
  assumes "Derived ce m ctx = Inr k" "bearer_token ctx = None"
  shows "k = mg_kubernetes m" and "\<not> c_RequireOAuth (mg_config m)"
  using assms by (auto simp: Derived_def split: if_splits)

lemma Derived_guarded: "Derived ce m ctx = Inr k \<Longrightarrow> mgr_wf cfg m \<Longrightarrow> guarded cfg (kb_restConfig k)"
  by (cases "bearer_token ctx") (auto simp: mgr_wf_def dest: Derived_token(2) Derived_no_token)

section \<open>The providers keep their managers well-formed\<close>

lemma NewManager_wf: "NewManager env cfg rc raw = Inr m \<Longrightarrow> mgr_wf cfg m"
  by (auto simp: NewManager_def mgr_wf_def dest: NewKubernetes_guarded split: sum.splits)

lemma NewKubeconfigManager_wf: "NewKubeconfigManager env cfg kc w = Inr m \<Longrightarrow> mgr_wf cfg m"
  by (auto simp: NewKubeconfigManager_def bindE_Inr_iff Let_def intro: NewManager_wf split: if_splits)

lemma NewInClusterManager_wf: "NewInClusterManager env cfg w = Inr m \<Longrightarrow> mgr_wf cfg m"
  by (auto simp: NewInClusterManager_def intro: NewManager_wf split: if_splits prod.splits option.splits)

definition single_inv :: "singleClusterProvider \<Rightarrow> bool" where
  "single_inv p \<longleftrightarrow> (case sg_manager p of None \<Rightarrow> True | Some m \<Rightarrow> mgr_wf (sg_BaseConfig p) m)"

text \<open>The kubeconfig provider always holds the manager of its default context.\<close>

definition kubeconfig_inv :: "kubeConfigClusterProvider \<Rightarrow> bool" where
  "kubeconfig_inv p \<longleftrightarrow> (\<exists>m. map_of (kp_managers p) (kp_defaultContext p) = Some (Some m))
     \<and> (\<forall>c m. map_of (kp_managers p) c = Some (Some m) \<longrightarrow> mgr_wf (kp_BaseConfig p) m)"

lemma kubeconfig_inv_wf:
  "kubeconfig_inv p \<Longrightarrow> map_of (kp_managers p) c = Some (Some m) \<Longrightarrow> mgr_wf (kp_BaseConfig p) m"
  by (simp add: kubeconfig_inv_def)

lemma single_reset_inv:
  assumes "single_reset env p w = (e, p')" "single_inv p"
  shows "single_inv p'" and "sg_BaseConfig p' = sg_BaseConfig p"
  using assms by (auto simp: single_reset_def single_inv_def Let_def
      intro: NewInClusterManager_wf NewKubeconfigManager_wf split: if_splits sum.splits)

lemma NewKubernetes_raw: "NewKubernetes ce cfg raw rc = Inr k \<Longrightarrow> kb_rawConfig k = raw"
  by (auto simp: NewKubernetes_def Let_def split: if_splits sum.splits option.splits)

lemma NewManager_raw: "NewManager env cfg rc raw = Inr m \<Longrightarrow> kb_rawConfig (mg_kubernetes m) = raw"
  by (cases "NewKubernetes (ke_Client env) cfg raw (ke_RateLimit env rc)")
     (auto simp: NewManager_def dest: NewKubernetes_raw)

lemma NewKubeconfigManager_raw:
  "NewKubeconfigManager env cfg kc w = Inr m \<Longrightarrow> kb_rawConfig (mg_kubernetes m) = ke_Load env (c_KubeConfig cfg) w"
  by (auto simp: NewKubeconfigManager_def bindE_Inr_iff Let_def dest: NewManager_raw split: if_splits)

lemma kubeconfig_reset_ok:
  assumes "kubeconfig_reset env p w = (None, p')"
  obtains m raw where "NewKubeconfigManager env (kp_BaseConfig p) [] w = Inr m"
    "ke_Load env (c_KubeConfig (kp_BaseConfig p)) w = Inr raw"
    "p' = p\<lparr>kp_defaultContext := kp_defaultContext p', kp_managers := (kp_defaultContext p', Some m)
       # map (\<lambda>name. (name, None)) (filter (\<lambda>name. name \<noteq> kp_defaultContext p') (rk_Contexts raw))\<rparr>"
  using assms NewKubeconfigManager_raw [of env "kp_BaseConfig p" "[]" w]
  by (auto simp: kubeconfig_reset_def Let_def split: sum.splits)

lemma map_of_None_pairs: "map_of (map (\<lambda>n. (n, None)) ns) c = Some (Some m) \<longleftrightarrow> False"
  by (induction ns) auto

lemma kubeconfig_reset_inv:
  assumes reset: "kubeconfig_reset env p w = (None, p')"
  shows "kubeconfig_inv p'" and "kp_BaseConfig p' = kp_BaseConfig p"
proof -
  obtain m raw where new: "NewKubeconfigManager env (kp_BaseConfig p) [] w = Inr m"
    and raw: "ke_Load env (c_KubeConfig (kp_BaseConfig p)) w = Inr raw"
    and p': "p' = p\<lparr>kp_defaultContext := kp_defaultContext p', kp_managers := (kp_defaultContext p', Some m)
       # map (\<lambda>name. (name, None)) (filter (\<lambda>name. name \<noteq> kp_defaultContext p') (rk_Contexts raw))\<rparr>"
    using kubeconfig_reset_ok [OF reset] .
  show base: "kp_BaseConfig p' = kp_BaseConfig p"
    by (subst p') simp
  have mgrs: "kp_managers p' = (kp_defaultContext p', Some m)
       # map (\<lambda>name. (name, None)) (filter (\<lambda>name. name \<noteq> kp_defaultContext p') (rk_Contexts raw))"
    by (subst p') simp
  have "mgr_wf (kp_BaseConfig p') m"
    using NewKubeconfigManager_wf [OF new] base by simp
  then show "kubeconfig_inv p'"
    unfolding kubeconfig_inv_def mgrs by (auto simp: comp_def map_of_None_pairs)
qed

lemma kubeconfig_reset_failed: "kubeconfig_reset env p w = (Some e, p') \<Longrightarrow> p' = p"
  by (auto simp: kubeconfig_reset_def Let_def split: sum.splits)

lemma managerForContext_hit: "map_of (kp_managers p) kc = Some (Some m) \<Longrightarrow> managerForContext env kc p w = (Inr m, p)"
  by (simp add: managerForContext_def)

lemma managerForContext_miss:
  assumes "map_of (kp_managers p) (kp_defaultContext p) = Some (Some base)" "\<nexists>m0. map_of (kp_managers p) kc = Some (Some m0)"
  shows "managerForContext env kc p w = (case NewKubeconfigManager env (mg_config base) kc w of
         Inl e \<Rightarrow> (Inl (ErrUnknownTarget ''unknown target''), p)
       | Inr m \<Rightarrow> (Inr m, p\<lparr>kp_managers := AList.update kc (Some m) (kp_managers p)\<rparr>))"
proof (cases "map_of (kp_managers p) kc")
  case None
  then show ?thesis unfolding managerForContext_def assms(1) by simp
next
  case (Some x)
  then have "x = None" using assms(2) by (cases x) auto
  then show ?thesis unfolding managerForContext_def assms(1) using Some by simp
qed

lemma managerForContext_inv:
  assumes "managerForContext env kc p w = (r, p')" "kubeconfig_inv p"
  shows "kubeconfig_inv p'" and "kp_BaseConfig p' = kp_BaseConfig p"
    and "r = Inr m \<Longrightarrow> mgr_wf (kp_BaseConfig p) m"
    and "r = Inr m \<Longrightarrow> map_of (kp_managers p') kc = Some (Some m)"
    and "r \<noteq> Inl (DeriveError ''nil manager'')"
proof -
  obtain base where base: "map_of (kp_managers p) (kp_defaultContext p) = Some (Some base)"
    using assms(2) by (auto simp: kubeconfig_inv_def)
  have cfg: "mg_config base = kp_BaseConfig p"
    using kubeconfig_inv_wf [OF assms(2) base] by (simp add: mgr_wf_def)
  consider (cached) m0 where "map_of (kp_managers p) kc = Some (Some m0)" "r = Inr m0" "p' = p"
    | (unknown) "r = Inl (ErrUnknownTarget ''unknown target'')" "p' = p"
    | (fresh) m0 where "NewKubeconfigManager env (kp_BaseConfig p) kc w = Inr m0" "r = Inr m0"
        "p' = p\<lparr>kp_managers := AList.update kc (Some m0) (kp_managers p)\<rparr>"
  proof (cases "\<exists>m0. map_of (kp_managers p) kc = Some (Some m0)")
    case True
    then obtain m0 where m0: "map_of (kp_managers p) kc = Some (Some m0)" by blast
    show ?thesis using assms(1) cached [OF m0] managerForContext_hit [where env = env and w = w, OF m0] by simp
  next
    case False
    then have run: "managerForContext env kc p w = (case NewKubeconfigManager env (kp_BaseConfig p) kc w of
         Inl e \<Rightarrow> (Inl (ErrUnknownTarget ''unknown target''), p)
       | Inr m \<Rightarrow> (Inr m, p\<lparr>kp_managers := AList.update kc (Some m) (kp_managers p)\<rparr>))"
      using managerForContext_miss [OF base] cfg by simp
    show ?thesis
    proof (cases "NewKubeconfigManager env (kp_BaseConfig p) kc w")
      case (Inl e) then show ?thesis using assms(1) unknown unfolding run by simp
    next
      case (Inr m0) then show ?thesis using assms(1) fresh [OF Inr] unfolding run by simp
    qed
  qed
  then have "kubeconfig_inv p' \<and> kp_BaseConfig p' = kp_BaseConfig p \<and> r \<noteq> Inl (DeriveError ''nil manager'')
      \<and> (\<forall>m. r = Inr m \<longrightarrow> mgr_wf (kp_BaseConfig p) m \<and> map_of (kp_managers p') kc = Some (Some m))"
  proof cases
    case (cached m0) then show ?thesis using assms(2) kubeconfig_inv_wf by auto
  next
    case unknown then show ?thesis using assms(2) by simp
  next
    case (fresh m0)
    then show ?thesis
      using NewKubeconfigManager_wf [OF fresh(1)] assms(2)
      by (auto simp: kubeconfig_inv_def update_conv')
  qed
  then show "kubeconfig_inv p'" "kp_BaseConfig p' = kp_BaseConfig p" "r \<noteq> Inl (DeriveError ''nil manager'')"
    "r = Inr m \<Longrightarrow> mgr_wf (kp_BaseConfig p) m" "r = Inr m \<Longrightarrow> map_of (kp_managers p') kc = Some (Some m)"
    by blast+
qed

lemma managers_for_inv:
  assumes "managers_for env cns p w = (r, p')" "kubeconfig_inv p"
  shows "kubeconfig_inv p' \<and> kp_BaseConfig p' = kp_BaseConfig p"
  using assms
proof (induction cns arbitrary: p r p')
  case (Cons cn cns)
  obtain r1 p1 where one: "managerForContext env cn p w = (r1, p1)" by fastforce
  obtain r2 p2 where two: "managers_for env cns p1 w = (r2, p2)" by fastforce
  note step = managerForContext_inv(1,2) [OF one Cons.prems(2)]
  have "p' = p1 \<or> p' = p2"
    using Cons.prems(1) one two by (auto split: sum.splits)
  then show ?case using step Cons.IH [OF two step(1)] by auto
qed simp

section \<open>The interface\<close>

text \<open>
  What a provider promises of the clients it derives for a request. With a bearer token the
  client has that token and no other credential; without one there is a client only if OAuth is
  not required. Every client is guarded by the provider's access control.
\<close>

locale identity_provider =
  fixes derive :: "'w call_ctx \<Rightarrow> string \<Rightarrow> 'p \<Rightarrow> 'w \<Rightarrow> (derive_error, Kubernetes) result \<times> 'p"
    and inv :: "'p \<Rightarrow> bool"
    and conf :: "'p \<Rightarrow> StaticConfig"
  assumes keeps: "derive ctx target p w = (r, p') \<Longrightarrow> inv p \<Longrightarrow> inv p' \<and> conf p' = conf p"
    and with_token:
      "derive ctx target p w = (Inr k, p') \<Longrightarrow> inv p \<Longrightarrow> bearer_token ctx = Some tok \<Longrightarrow> token_only tok (kb_restConfig k)"
    and without_token:
      "derive ctx target p w = (Inr k, p') \<Longrightarrow> inv p \<Longrightarrow> bearer_token ctx = None \<Longrightarrow> \<not> c_RequireOAuth (conf p)"
    and guards: "derive ctx target p w = (Inr k, p') \<Longrightarrow> inv p \<Longrightarrow> guarded (conf p) (kb_restConfig k)"

text \<open>
  The tokens an exchange may put in place of the subject token, with the exchange configured:
  the strategy of the target, the server's strategy, the built-in service, or none at all.
\<close>

inductive cluster_token ::
  "('h, 'w) exchange_env \<Rightarrow> StaticConfig \<Rightarrow> string option \<Rightarrow> 'w target_exchange \<Rightarrow> string \<Rightarrow> string \<Rightarrow> bool"
  for xe :: "('h, 'w) exchange_env" and cfg :: StaticConfig and oidc :: "string option"
    and tep :: "'w target_exchange" and subject :: string where
  for_target: "tep = Some (Some c, strategy) \<Longrightarrow> exchanger_get (xe_Registry xe) strategy = Some ex
     \<Longrightarrow> ex (xe_Exchange xe) c1 subject w0 = (Inr t, c2, w1) \<Longrightarrow> c1 = SetRequireTLS (Some (\<lambda>_. c_RequireTLS cfg)) c
     \<Longrightarrow> cluster_token xe cfg oidc tep subject (tk_AccessToken t)"
| by_strategy: "c_TokenExchangeStrategy cfg \<noteq> [] \<Longrightarrow> exchanger_get (xe_Registry xe) (c_TokenExchangeStrategy cfg) = Some ex
     \<Longrightarrow> ex (xe_Exchange xe) c subject w0 = (Inr t, c2, w1)
     \<Longrightarrow> cluster_token xe cfg oidc tep subject (tk_AccessToken t)"
| built_in: "c_TokenExchangeStrategy cfg = [] \<Longrightarrow> sts_IsEnabled (NewFromConfig cfg oidc)
     \<Longrightarrow> ExternalAccountTokenExchange xe (NewFromConfig cfg oidc) h subject w0 = (Inr t, w1)
     \<Longrightarrow> cluster_token xe cfg oidc tep subject (tk_AccessToken t)"
| unchanged: "c_TokenExchangeStrategy cfg = [] \<Longrightarrow> \<not> sts_IsEnabled (NewFromConfig cfg oidc)
     \<Longrightarrow> cluster_token xe cfg oidc tep subject subject"

lemma bearer_with_bearer [simp]: "bearer_token (with_bearer ctx tok) = Some tok"
proof -
  have "HasPrefix (''Bearer '' @ tok) ''Bearer ''" and "TrimPrefix (''Bearer '' @ tok) ''Bearer '' = tok"
    by (rule HasPrefix_append, rule TrimPrefix_append)
  then show ?thesis by (simp add: bearer_token_def with_bearer_def del: append.simps)
qed

lemma bearer_cleared [simp]: "bearer_token (ctx\<lparr>cx_Authorization := Some []\<rparr>) = None"
  by (simp add: bearer_token_def)

lemma strategy_exchange_token:
  assumes "strategyBasedTokenExchange xe cfg oidc tok strategy cached ctx w = (Inr ctx1, c1, w1)"
  obtains ex c w0 t c2 w2 where "exchanger_get (xe_Registry xe) strategy = Some ex"
    "ex (xe_Exchange xe) c tok w0 = (Inr t, c2, w2)" "ctx1 = with_bearer ctx (tk_AccessToken t)"
  using assms
  by (auto simp: strategyBasedTokenExchange_def Let_def split: option.splits sum.splits prod.splits if_splits)

lemma passthrough_token:
  assumes "exchangePassthroughToken xe cfg oidc h tok sts ctx w = (Inr tok1, c1, w1)"
  shows "cluster_token xe cfg oidc tep tok tok1"
proof (cases "c_TokenExchangeStrategy cfg = []")
  case True
  then show ?thesis
    using assms
    by (auto simp: exchangePassthroughToken_def token_of_context_def Let_def
        intro: cluster_token.intros split: if_splits sum.splits prod.splits)
next
  case False
  then obtain ctx1 c2 where run: "strategyBasedTokenExchange xe cfg oidc tok (c_TokenExchangeStrategy cfg) sts ctx w = (Inr ctx1, c2, w1)"
    and tok1: "token_of_context tok (Inr ctx1) = Inr tok1"
    using assms by (auto simp: exchangePassthroughToken_def token_of_context_def Let_def split: sum.splits prod.splits)
  from strategy_exchange_token [OF run] obtain ex c w0 t c3 w2
    where "exchanger_get (xe_Registry xe) (c_TokenExchangeStrategy cfg) = Some ex"
      "ex (xe_Exchange xe) c tok w0 = (Inr t, c3, w2)" and ctx1: "ctx1 = with_bearer ctx (tk_AccessToken t)" .
  moreover have "tok1 = tk_AccessToken t"
    using tok1 ctx1 by (simp add: token_of_context_def)
  ultimately show ?thesis using False by (auto intro: cluster_token.by_strategy)
qed

text \<open>The context after a successful exchange: untouched, cleared, or with an exchanged token.\<close>

lemma exchange_context:
  assumes run: "ExchangeTokenInContext xe cfg oidc h tep target sts ctx w = (Inr ctx1, tep1, sts1, w1)"
  shows "bearer_token ctx = None \<and> ctx1 = ctx
       \<or> (\<exists>subject tok. bearer_token ctx = Some subject \<and> bearer_token ctx1 = Some tok \<and> cluster_token xe cfg oidc tep subject tok)
       \<or> (\<exists>subject. bearer_token ctx = Some subject \<and> bearer_token ctx1 = None \<and> ResolveClusterAuthMode cfg = ''kubeconfig'')"
proof (cases "bearer_token ctx")
  case None
  then show ?thesis using run by (simp add: ExchangeTokenInContext_def)
next
  case (Some subject)
  have fallback: "ResolveClusterAuthMode cfg = ''kubeconfig'' \<and> bearer_token ctx1 = None
      \<or> (\<exists>tok. bearer_token ctx1 = Some tok \<and> cluster_token xe cfg oidc tep subject tok)"
    if "stsExchangeTokenInContext xe cfg oidc h subject sts ctx w = (Inr ctx1, c, w2)" for c w2
    using that passthrough_token
    by (auto simp: stsExchangeTokenInContext_def Let_def split: if_splits sum.splits prod.splits)
  consider (fb) c w2 where "stsExchangeTokenInContext xe cfg oidc h subject sts ctx w = (Inr ctx1, c, w2)"
    | (ex) t :: oauth2_Token where "bearer_token ctx1 = Some (tk_AccessToken t)" "cluster_token xe cfg oidc tep subject (tk_AccessToken t)"
  proof (cases "\<exists>c strategy ex. tep = Some (Some c, strategy) \<and> exchanger_get (xe_Registry xe) strategy = Some ex")
    case False
    then show ?thesis
      using run Some fb by (auto simp: ExchangeTokenInContext_def Let_def split: option.splits prod.splits)
  next
    case True
    then obtain c strategy x where tep: "tep = Some (Some c, strategy)"
      and x: "exchanger_get (xe_Registry xe) strategy = Some x" by blast
    then obtain t c2 w2 where xt: "x (xe_Exchange xe) (SetRequireTLS (Some (\<lambda>_. c_RequireTLS cfg)) c) subject w = (Inr t, c2, w2)"
      and "ctx1 = with_bearer ctx (tk_AccessToken t)"
      using run Some by (auto simp: ExchangeTokenInContext_def Let_def split: sum.splits prod.splits)
    then show ?thesis
      using ex [of t] cluster_token.for_target [where cfg = cfg and oidc = oidc, OF tep x xt refl] by simp
  qed
  then show ?thesis using fallback Some by cases auto
qed

context identity_provider
begin

text \<open>The wrapper keeps the promises of the provider it wraps, with the exchanged token as identity.\<close>

lemma direct_identity:
  assumes "derive ctx target p w = (Inr k, p')" "inv p"
  shows "(case bearer_token ctx of Some tok \<Rightarrow> token_only tok (kb_restConfig k) | None \<Rightarrow> \<not> c_RequireOAuth (conf p))"
  using assms with_token without_token by (auto split: option.split)

lemma exchanging_keeps:
  assumes "exchanging_GetDerivedKubernetes derive tep xe bcp oauthState ctx target p w = (r, p', w')" "inv (xp_provider p)"
  shows "inv (xp_provider p') \<and> conf (xp_provider p') = conf (xp_provider p)"
proof -
  have built: "xp_provider (snd (getOrBuildStsConfig ge oidc cfg p)) = xp_provider p" for ge oidc cfg
    by (auto simp: getOrBuildStsConfig_def Let_def split: option.split)
  have "xp_provider p' = xp_provider p \<or> (\<exists>ctx' w0 r'. derive ctx' target (xp_provider p) w0 = (r', xp_provider p'))"
    using assms(1) built
    by (auto simp: exchanging_GetDerivedKubernetes_def Let_def split: option.splits prod.splits sum.splits if_splits)
       (metis snd_conv)+
  then show ?thesis using assms(2) keeps by auto
qed

text \<open>
  The identity of a client derived for a request: \<open>conf\<close> is the provider's configuration,
  \<open>base\<close> the current one with the OAuth snapshot, when the exchange is active.
\<close>

end

definition plain_identity :: "StaticConfig \<Rightarrow> 'w call_ctx \<Rightarrow> rest_config \<Rightarrow> bool" where
  "plain_identity cfg ctx rc \<longleftrightarrow> (case bearer_token ctx of
     Some tok \<Rightarrow> token_only tok rc
   | None \<Rightarrow> \<not> c_RequireOAuth cfg)"

definition exchanged_identity ::
  "('h, 'w) exchange_env \<Rightarrow> StaticConfig \<Rightarrow> string option \<Rightarrow> 'w target_exchange \<Rightarrow> StaticConfig \<Rightarrow> 'w call_ctx \<Rightarrow> rest_config \<Rightarrow> bool" where
  "exchanged_identity xe base oidc tep cfg ctx rc \<longleftrightarrow> (case bearer_token ctx of
     Some subject \<Rightarrow>
       (\<exists>tok. token_only tok rc \<and> cluster_token xe base oidc tep subject tok)
       \<or> ResolveClusterAuthMode base = ''kubeconfig'' \<and> \<not> c_RequireOAuth cfg
   | None \<Rightarrow> \<not> c_RequireOAuth cfg)"

text \<open>The identity rules in force: with exchange only when there is an OAuth snapshot and a configuration.\<close>

definition request_identity ::
  "('h, 'w) exchange_env \<Rightarrow> StaticConfig option \<Rightarrow> (string, 'h) Snapshot option \<Rightarrow> 'w target_exchange
   \<Rightarrow> StaticConfig \<Rightarrow> 'w call_ctx \<Rightarrow> rest_config \<Rightarrow> bool" where
  "request_identity xe baseConfig snap tep cfg ctx rc \<longleftrightarrow> (case (snap, baseConfig) of
     (Some s, Some base) \<Rightarrow> exchanged_identity xe base (sn_OIDCProvider s) tep cfg ctx rc
   | _ \<Rightarrow> plain_identity cfg ctx rc)"

lemma getOrBuildStsConfig_provider [simp]: "xp_provider (snd (getOrBuildStsConfig ge oidc cfg p)) = xp_provider p"
  by (auto simp: getOrBuildStsConfig_def Let_def split: option.split)

text \<open>The two ways through the wrapper to a client.\<close>

lemma exchanging_client:
  assumes "exchanging_GetDerivedKubernetes derive tep xe bcp oauthState ctx target p w = (Inr k, p', w')"
  obtains (direct) "oauthState w = None \<or> bcp w = None" "derive ctx target (xp_provider p) w = (Inr k, xp_provider p')"
    | (exchange) snap base sts ctx1 tep1 sts1 w1 where "oauthState w = Some snap" "bcp w = Some base"
        "ExchangeTokenInContext xe base (sn_OIDCProvider snap) (sn_HTTPClient snap) (tep (xp_provider p) target) target sts ctx w
           = (Inr ctx1, tep1, sts1, w1)"
        "derive ctx1 target (xp_provider p) w1 = (Inr k, xp_provider p')"
proof (cases "\<exists>snap base. oauthState w = Some snap \<and> bcp w = Some base")
  case False
  then show ?thesis
    using assms that(1)
    by (auto simp: exchanging_GetDerivedKubernetes_def Let_def mapErr_Inr_iff split: option.splits prod.splits)
next
  case True
  then obtain snap base where sb: "oauthState w = Some snap" "bcp w = Some base" by blast
  obtain sts p1 where built: "getOrBuildStsConfig (xe_Getenv xe) (sn_OIDCProvider snap) base p = (sts, p1)" by fastforce
  have p1: "xp_provider p1 = xp_provider p"
    using getOrBuildStsConfig_provider [of "xe_Getenv xe" "sn_OIDCProvider snap" base p] by (simp add: built)
  obtain r tep1 sts1 w1 where ex: "ExchangeTokenInContext xe base (sn_OIDCProvider snap) (sn_HTTPClient snap)
      (tep (xp_provider p) target) target sts ctx w = (r, tep1, sts1, w1)" by (metis prod_cases4)
  show ?thesis
  proof (cases r)
    case (Inl e)
    then show ?thesis
      using assms sb ex by (simp add: exchanging_GetDerivedKubernetes_def built p1 Let_def)
  next
    case (Inr ctx1)
    then show ?thesis
      using assms sb ex that(2)
      by (cases "sts = None") (auto simp: exchanging_GetDerivedKubernetes_def built p1 Let_def split: prod.splits)
  qed
qed

context identity_provider
begin

lemma exchanging_identity:
  assumes run: "exchanging_GetDerivedKubernetes derive tep xe bcp oauthState ctx target p w = (Inr k, p', w')"
    and inv: "inv (xp_provider p)"
  shows "request_identity xe (bcp w) (oauthState w) (tep (xp_provider p) target) (conf (xp_provider p)) ctx (kb_restConfig k)"
    and "guarded (conf (xp_provider p)) (kb_restConfig k)"
proof -
  show "guarded (conf (xp_provider p)) (kb_restConfig k)"
    using run inv by (elim exchanging_client) (auto intro: guards)
  show "request_identity xe (bcp w) (oauthState w) (tep (xp_provider p) target) (conf (xp_provider p)) ctx (kb_restConfig k)"
    using run
  proof (cases rule: exchanging_client)
    case direct
    then show ?thesis
      using direct_identity [OF direct(2) inv] by (auto simp: request_identity_def plain_identity_def split: option.split)
  next
    case (exchange snap base sts ctx1 tep1 sts1 w1)
    note id = direct_identity [OF exchange(4) inv]
    have "exchanged_identity xe base (sn_OIDCProvider snap) (tep (xp_provider p) target) (conf (xp_provider p)) ctx (kb_restConfig k)"
      using exchange_context [OF exchange(3)] id by (auto simp: exchanged_identity_def)
    then show ?thesis using exchange(1,2) by (simp add: request_identity_def)
  qed
qed

end

text \<open>
  A provider that derives its clients from well-formed managers keeps these promises; this is
  how all providers of the program do it.
\<close>

locale manager_provider =
  fixes derive :: "'w call_ctx \<Rightarrow> string \<Rightarrow> 'p \<Rightarrow> 'w \<Rightarrow> (derive_error, Kubernetes) result \<times> 'p"
    and inv :: "'p \<Rightarrow> bool"
    and conf :: "'p \<Rightarrow> StaticConfig"
    and ce :: client_env
  assumes derive_keeps: "derive ctx target p w = (r, p') \<Longrightarrow> inv p \<Longrightarrow> inv p' \<and> conf p' = conf p"
    and derives: "derive ctx target p w = (Inr k, p') \<Longrightarrow> inv p
      \<Longrightarrow> \<exists>m. mgr_wf (conf p) m \<and> Derived ce m ctx = Inr k"

sublocale manager_provider \<subseteq> identity_provider derive inv conf
proof unfold_locales
  fix ctx :: "'w call_ctx" and target p w r p' k tok
  show "derive ctx target p w = (r, p') \<Longrightarrow> inv p \<Longrightarrow> inv p' \<and> conf p' = conf p"
    by (rule derive_keeps)
  assume run: "derive ctx target p w = (Inr k, p')" and inv: "inv p"
  obtain m where m: "mgr_wf (conf p) m" "Derived ce m ctx = Inr k"
    using derives [OF run inv] by blast
  show "bearer_token ctx = Some tok \<Longrightarrow> token_only tok (kb_restConfig k)"
    using Derived_token(1) [OF m(2)] .
  show "bearer_token ctx = None \<Longrightarrow> \<not> c_RequireOAuth (conf p)"
    using Derived_no_token(2) [OF m(2)] m(1) by (simp add: mgr_wf_def)
  show "guarded (conf p) (kb_restConfig k)"
    using Derived_guarded [OF m(2,1)] .
qed

section \<open>The providers implement it\<close>

fun cluster_conf :: "cluster_provider \<Rightarrow> StaticConfig" where
  "cluster_conf (SingleCluster p) = sg_BaseConfig p"
| "cluster_conf (KubeConfigCluster p) = kp_BaseConfig p"

fun cluster_inv :: "cluster_provider \<Rightarrow> bool" where
  "cluster_inv (SingleCluster p) \<longleftrightarrow> single_inv p"
| "cluster_inv (KubeConfigCluster p) \<longleftrightarrow> kubeconfig_inv p"

lemma single_derives:
  assumes "single_GetDerivedKubernetes env ctx target p w = (Inr k, p')" "single_inv p"
  obtains m where "mgr_wf (sg_BaseConfig p) m" "Derived (ke_Client env) m ctx = Inr k"
  using assms by (auto simp: single_GetDerivedKubernetes_def single_inv_def split: if_splits option.splits)

lemma single_unchanged: "single_GetDerivedKubernetes env ctx target p w = (r, p') \<Longrightarrow> p' = p"
  by (auto simp: single_GetDerivedKubernetes_def split: if_splits option.splits)

lemma kubeconfig_derives:
  assumes "kubeconfig_GetDerivedKubernetes env ctx target p w = (r, p')" "kubeconfig_inv p"
  shows "kubeconfig_inv p'" and "kp_BaseConfig p' = kp_BaseConfig p"
    and "r = Inr k \<Longrightarrow> \<exists>m. mgr_wf (kp_BaseConfig p) m \<and> Derived (ke_Client env) m ctx = Inr k"
proof -
  obtain r1 p1 where mgr: "managerForContext env target p w = (r1, p1)" by fastforce
  note inv = managerForContext_inv [OF mgr assms(2)]
  show "kubeconfig_inv p'" "kp_BaseConfig p' = kp_BaseConfig p"
    using assms(1) inv(1,2) by (auto simp: kubeconfig_GetDerivedKubernetes_def mgr split: sum.splits)
  show "\<exists>m. mgr_wf (kp_BaseConfig p) m \<and> Derived (ke_Client env) m ctx = Inr k" if "r = Inr k"
    using assms(1) inv(3) that by (auto simp: kubeconfig_GetDerivedKubernetes_def mgr split: sum.splits)
qed

lemma cluster_derives:
  assumes "cluster_GetDerivedKubernetes env ctx target p w = (r, p')" "cluster_inv p"
  shows "cluster_inv p'" and "cluster_conf p' = cluster_conf p"
    and "r = Inr k \<Longrightarrow> \<exists>m. mgr_wf (cluster_conf p) m \<and> Derived (ke_Client env) m ctx = Inr k"
proof -
  have "cluster_inv p' \<and> cluster_conf p' = cluster_conf p
      \<and> (r = Inr k \<longrightarrow> (\<exists>m. mgr_wf (cluster_conf p) m \<and> Derived (ke_Client env) m ctx = Inr k))"
  proof (cases p)
    case (SingleCluster s)
    then obtain s' where run: "single_GetDerivedKubernetes env ctx target s w = (r, s')" and "p' = SingleCluster s'"
      using assms(1) by (cases "single_GetDerivedKubernetes env ctx target s w") auto
    moreover have "\<exists>m. mgr_wf (sg_BaseConfig s) m \<and> Derived (ke_Client env) m ctx = Inr k" if "r = Inr k"
      using single_derives [OF run [unfolded that]] assms(2) SingleCluster by auto
    ultimately show ?thesis
      using assms(2) SingleCluster single_unchanged [OF run] by simp
  next
    case (KubeConfigCluster s)
    then obtain s' where run: "kubeconfig_GetDerivedKubernetes env ctx target s w = (r, s')" and "p' = KubeConfigCluster s'"
      using assms(1) by (cases "kubeconfig_GetDerivedKubernetes env ctx target s w") auto
    then show ?thesis
      using assms(2) KubeConfigCluster kubeconfig_derives [OF run] by simp
  qed
  then show "cluster_inv p'" "cluster_conf p' = cluster_conf p"
    "r = Inr k \<Longrightarrow> \<exists>m. mgr_wf (cluster_conf p) m \<and> Derived (ke_Client env) m ctx = Inr k"
    by blast+
qed

interpretation cluster: manager_provider "cluster_GetDerivedKubernetes env" cluster_inv cluster_conf "ke_Client env"
  for env :: "'w kube_env"
  by unfold_locales (auto dest: cluster_derives(1) cluster_derives(2) cluster_derives(3) [OF _ _ refl])

section \<open>Reachable providers\<close>

text \<open>What the watchers run when the kubeconfig changes.\<close>

fun cluster_reset :: "'w kube_env \<Rightarrow> cluster_provider \<Rightarrow> 'w \<Rightarrow> mgr_error option \<times> cluster_provider" where
  "cluster_reset env (SingleCluster p) w = map_prod id SingleCluster (single_reset env p w)"
| "cluster_reset env (KubeConfigCluster p) w = map_prod id KubeConfigCluster (kubeconfig_reset env p w)"

inductive provider_run :: "'w kube_env \<Rightarrow> StaticConfig \<Rightarrow> cluster_provider \<Rightarrow> bool"
  for env :: "'w kube_env" and cfg :: StaticConfig where
  created: "NewProvider env \<lparr>factories = cluster_factories env\<rparr> cfg w = Inr p \<Longrightarrow> provider_run env cfg p"
| derived: "provider_run env cfg p \<Longrightarrow> cluster_GetDerivedKubernetes env ctx target p w = (r, p') \<Longrightarrow> provider_run env cfg p'"
| listed: "provider_run env cfg (KubeConfigCluster p) \<Longrightarrow> kubeconfig_GetTargetManagers env p w = (ms, p')
     \<Longrightarrow> provider_run env cfg (KubeConfigCluster p')"
| reset: "provider_run env cfg p \<Longrightarrow> cluster_reset env p w = (e, p') \<Longrightarrow> provider_run env cfg p'"

lemma cluster_reset_inv:
  assumes "cluster_reset env p w = (e, p')" "cluster_inv p"
  shows "cluster_inv p' \<and> cluster_conf p' = cluster_conf p"
proof (cases p)
  case (SingleCluster s)
  then show ?thesis
    using assms single_reset_inv by (cases "single_reset env s w") fastforce
next
  case (KubeConfigCluster s)
  then obtain s' where run: "kubeconfig_reset env s w = (e, s')" and p': "p' = KubeConfigCluster s'"
    using assms by (cases "kubeconfig_reset env s w") auto
  show ?thesis
    using run assms(2) KubeConfigCluster p' kubeconfig_reset_inv kubeconfig_reset_failed by (cases e) fastforce+
qed

lemma new_cluster_inv:
  assumes "NewProvider env \<lparr>factories = cluster_factories env\<rparr> cfg w = Inr p"
  shows "cluster_inv p \<and> cluster_conf p = cfg"
proof -
  have single: "single_inv s \<and> sg_BaseConfig s = cfg" if "newSingleClusterProvider env strategy cfg w = Inr s" for strategy s
  proof -
    let ?p = "\<lparr>sg_BaseConfig = cfg, sg_strategy = strategy, sg_manager = None\<rparr>"
    have "single_inv ?p" by (simp add: single_inv_def)
    moreover have "single_reset env ?p w = (None, s)"
      using that by (auto simp: newSingleClusterProvider_def split: prod.splits option.splits)
    ultimately show ?thesis using single_reset_inv by fastforce
  qed
  have kube: "kubeconfig_inv s \<and> kp_BaseConfig s = cfg" if "newKubeConfigClusterProvider env cfg w = Inr s" for s
  proof -
    let ?p = "\<lparr>kp_BaseConfig = cfg, kp_defaultContext = [], kp_managers = []\<rparr>"
    have "kubeconfig_reset env ?p w = (None, s)"
      using that by (auto simp: newKubeConfigClusterProvider_def split: prod.splits option.splits)
    then show ?thesis using kubeconfig_reset_inv by fastforce
  qed
  obtain f where "map_of (cluster_factories env) (resolveStrategy env cfg w) = Some f" "f cfg w = Inr p"
    using assms by (auto simp: NewProvider_def provider_get_def split: option.splits)
  then show ?thesis
    using single kube by (auto simp: cluster_factories_def map_sum_def split: if_splits sum.splits)
qed

lemma provider_run_inv: "provider_run env cfg p \<Longrightarrow> cluster_inv p \<and> cluster_conf p = cfg"
proof (induction rule: provider_run.induct)
  case (created w p) then show ?case by (rule new_cluster_inv)
next
  case (derived p ctx target w r p') then show ?case using cluster_derives(1,2) by metis
next
  case (listed p w ms p') then show ?case
    by (auto simp: kubeconfig_GetTargetManagers_def dest: managers_for_inv)
next
  case (reset p w e p') then show ?case using cluster_reset_inv by metis
qed

text \<open>
  C3: whose identity a cluster sees. Whatever happened to the provider before (requests,
  listings of targets, resets after kubeconfig changes), a client it derives for a request behind
  the token-exchanging wrapper has an identity the request is entitled to. If the request carries
  a bearer token, the client's only credential is a token obtained from that token by the
  configured exchange (or the token itself when no exchange is configured); the server's own
  credentials are used only if the request has no token, or in kubeconfig mode, and in
  neither case when OAuth is required. Every client is wrapped in the access control of the
  configuration for the host it calls.
\<close>

theorem identity_isolation:
  assumes "provider_run env cfg (xp_provider x)"
    and "exchanging_GetDerivedKubernetes (cluster_GetDerivedKubernetes env) tep xe baseConfig oauthState ctx target x w
      = (Inr k, x', w')"
  shows "request_identity xe (baseConfig w) (oauthState w) (tep (xp_provider x) target) cfg ctx (kb_restConfig k)
    \<and> guarded cfg (kb_restConfig k)"
proof -
  have "cluster_inv (xp_provider x)" "cluster_conf (xp_provider x) = cfg"
    using provider_run_inv [OF assms(1)] by auto
  then show ?thesis
    using cluster.exchanging_identity [OF assms(2)] by simp
qed

text \<open>
  A server that requires OAuth, with a kubeconfig of one context whose user has a client
  certificate, and a request with the token \<open>t\<close>.
\<close>

definition demo_cfg :: StaticConfig where
  "demo_cfg = zeroConfig\<lparr>c_RequireOAuth := True, c_KubeConfig := ''/k''\<rparr>"

definition demo_rest :: rest_config where
  "demo_rest = (derived_config undefined [] ''agent'')\<lparr>rc_Host := ''https://c'', rc_CertData := ''cert'', rc_KeyData := ''key''\<rparr>"

definition demo_raw :: raw_config where
  "demo_raw = \<lparr>rk_CurrentContext = [], rk_Contexts = [''dev''], rk_AuthInfos = [''admin'']\<rparr>"

definition demo_env :: "nat kube_env" where
  "demo_env = \<lparr>ke_Client = \<lparr>ce_DefaultUserAgent = [], ce_HTTPClientFor = (\<lambda>_. Inr 0), ce_Discovery = (\<lambda>_. None),
       ce_Clientset = (\<lambda>_. None), ce_Dynamic = (\<lambda>_. None), ce_Metrics = (\<lambda>_. None)\<rparr>,
     ke_InCluster = (\<lambda>_. (None, Some [])), ke_Load = (\<lambda>_ _. Inr demo_raw),
     ke_ClientConfig = (\<lambda>_ _ _. Inr demo_rest), ke_RateLimit = id\<rparr>"

definition demo_xe :: "(unit, nat) exchange_env" where
  "demo_xe = \<lparr>xe_Exchange = accept_env, xe_Registry = \<lparr>exchangers = []\<rparr>, xe_Getenv = (\<lambda>_. []),
     xe_ExternalAccount = (\<lambda>_ _ w. (Inl [], w))\<rparr>"

definition demo_snap :: "(string, unit) Snapshot" where
  "demo_snap = \<lparr>sn_OIDCProvider = Some ''https://sts'', sn_HTTPClient = None, sn_AuthorizationURL = [],
     sn_CertificateAuthority = [], sn_TLSMinVersion = [], sn_TLSCipherSuites = [], sn_OAuthScopes = [],
     sn_DisableDynamicClientRegistration = False\<rparr>"

definition demo_ctx :: "nat call_ctx" where
  "demo_ctx = \<lparr>cx_Session = undefined, cx_Authorization = Some (''Bearer '' @ ''t''), cx_UserAgent = None\<rparr>"

definition demo_manager :: Manager where
  "demo_manager = (case NewKubeconfigManager demo_env demo_cfg [] 0 of Inr m \<Rightarrow> m)"

definition demo_provider :: kubeConfigClusterProvider where
  "demo_provider = \<lparr>kp_BaseConfig = demo_cfg, kp_defaultContext = ''dev'', kp_managers = [(''dev'', Some demo_manager)]\<rparr>"

lemma demo_config [simp]: "c_KubeConfig demo_cfg = ''/k''" "c_RequireOAuth demo_cfg" "c_TokenExchangeStrategy demo_cfg = []"
  "c_ClusterProviderStrategy demo_cfg = []" "c_StsClientId demo_cfg = []" "c_ClusterAuthMode demo_cfg = []"
  by (simp_all add: demo_cfg_def zeroConfig_def)

lemma demo_new: "NewKubeconfigManager demo_env demo_cfg [] 0 = Inr demo_manager"
  by (simp add: demo_manager_def NewKubeconfigManager_def NewManager_def NewKubernetes_def demo_env_def demo_raw_def
      IsInCluster_def resolveKubeconfigContext_def Let_def)

lemma demo_manager_raw: "kb_rawConfig (mg_kubernetes demo_manager) = Inr demo_raw"
  using NewKubeconfigManager_raw [OF demo_new] by (simp add: demo_env_def)

lemma demo_reset:
  "kubeconfig_reset demo_env \<lparr>kp_BaseConfig = demo_cfg, kp_defaultContext = [], kp_managers = []\<rparr> 0 = (None, demo_provider)"
  by (simp add: kubeconfig_reset_def demo_new demo_manager_raw demo_provider_def)
     (simp add: demo_raw_def Let_def)

lemma demo_bearer: "bearer_token demo_ctx = Some ''t''"
  by (simp add: bearer_token_def demo_ctx_def TrimPrefix_def)

lemma demo_derived: "\<exists>k. Derived (ke_Client demo_env) demo_manager demo_ctx = Inr k"
  unfolding Derived_def demo_bearer option.case demo_manager_raw
  by (simp add: NewKubernetes_def demo_env_def demo_ctx_def Let_def)

definition demo_wrapper :: "(cluster_provider, nat) tokenExchangingProvider" where
  "demo_wrapper = \<lparr>xp_provider = KubeConfigCluster demo_provider, xp_stsConfig = None, xp_stsConfigKey = undefined\<rparr>"

lemma demo_run: "provider_run demo_env demo_cfg (KubeConfigCluster demo_provider)"
proof (rule provider_run.created)
  show "NewProvider demo_env \<lparr>factories = cluster_factories demo_env\<rparr> demo_cfg 0 = Inr (KubeConfigCluster demo_provider)"
    by (simp add: NewProvider_def resolveStrategy_def provider_get_def cluster_factories_def newKubeConfigClusterProvider_def demo_reset)
qed

lemma demo_exchange:
  "\<exists>k x'. exchanging_GetDerivedKubernetes (cluster_GetDerivedKubernetes demo_env) (\<lambda>_ _. None) demo_xe (\<lambda>_. Some demo_cfg)
     (\<lambda>_. Some demo_snap) demo_ctx ''dev'' demo_wrapper 0 = (Inr k, x', 0)"
proof -
  have ctx: "with_bearer demo_ctx ''t'' = demo_ctx"
    by (simp add: with_bearer_def demo_ctx_def)
  have "ExchangeTokenInContext demo_xe demo_cfg (sn_OIDCProvider demo_snap) (sn_HTTPClient demo_snap) None ''dev'' None demo_ctx 0
      = (Inr demo_ctx, None, None, 0)"
    unfolding ExchangeTokenInContext_def demo_bearer option.case Let_def stsExchangeTokenInContext_def
    by (simp add: exchangePassthroughToken_def ResolveClusterAuthMode_def sts_IsEnabled_def NewFromConfig_def ctx)
  moreover have "managerForContext demo_env ''dev'' demo_provider 0 = (Inr demo_manager, demo_provider)"
    by (rule managerForContext_hit) (simp add: demo_provider_def)
  moreover obtain k where "Derived (ke_Client demo_env) demo_manager demo_ctx = Inr k" using demo_derived by blast
  ultimately show ?thesis
    by (simp add: exchanging_GetDerivedKubernetes_def getOrBuildStsConfig_def kubeconfig_GetDerivedKubernetes_def demo_wrapper_def)
qed

theorem identity_isolation_witness:
  "\<exists>k x'. exchanging_GetDerivedKubernetes (cluster_GetDerivedKubernetes demo_env) (\<lambda>_ _. None) demo_xe (\<lambda>_. Some demo_cfg)
     (\<lambda>_. Some demo_snap) demo_ctx ''dev'' demo_wrapper 0 = (Inr k, x', 0)
     \<and> request_identity demo_xe (Some demo_cfg) (Some demo_snap) None demo_cfg demo_ctx (kb_restConfig k)
     \<and> guarded demo_cfg (kb_restConfig k)"
proof -
  obtain k x' where run: "exchanging_GetDerivedKubernetes (cluster_GetDerivedKubernetes demo_env) (\<lambda>_ _. None) demo_xe
     (\<lambda>_. Some demo_cfg) (\<lambda>_. Some demo_snap) demo_ctx ''dev'' demo_wrapper 0 = (Inr k, x', 0)"
    using demo_exchange by blast
  have "provider_run demo_env demo_cfg (xp_provider demo_wrapper)"
    using demo_run by (simp add: demo_wrapper_def)
  from identity_isolation [OF this run] run show ?thesis by blast
qed

end
