(* ===== verification/Provider_State.thy ===== *)
theory Provider_State
  imports Identity
begin

text \<open>
  The state of the providers of \<open>src/pkg/kubernetes/\<close> over time: the managers created lazily
  by the kubeconfig provider, what a failed reset leaves behind, and the memoised exchange
  configuration of the token-exchanging wrapper.
\<close>

section \<open>Lazy managers\<close>

text \<open>The reference: a manager built afresh for every request.\<close>

definition eager_GetDerivedKubernetes ::
  "'w kube_env \<Rightarrow> StaticConfig \<Rightarrow> 'w call_ctx \<Rightarrow> string \<Rightarrow> 'w \<Rightarrow> (derive_error, Kubernetes) result" where
  "eager_GetDerivedKubernetes env cfg ctx kubeContext w =
     (case NewKubeconfigManager env cfg kubeContext w of
        Inl _ \<Rightarrow> Inl (ErrUnknownTarget ''unknown target'')
      | Inr m \<Rightarrow> Derived (ke_Client env) m ctx)"

text \<open>A kubeconfig provider between two resets: the files it reads do not change.\<close>

inductive kubeconfig_session :: "'w kube_env \<Rightarrow> StaticConfig \<Rightarrow> 'w \<Rightarrow> kubeConfigClusterProvider \<Rightarrow> bool"
  for env :: "'w kube_env" and cfg :: StaticConfig and w :: 'w where
  reset: "kp_BaseConfig p = cfg \<Longrightarrow> kubeconfig_reset env p w = (None, p') \<Longrightarrow> kubeconfig_session env cfg w p'"
| derive: "kubeconfig_session env cfg w p \<Longrightarrow> kubeconfig_GetDerivedKubernetes env ctx kubeContext p w = (r, p')
     \<Longrightarrow> kubeconfig_session env cfg w p'"
| targets: "kubeconfig_session env cfg w p \<Longrightarrow> kubeconfig_GetTargetManagers env p w = (r, p')
     \<Longrightarrow> kubeconfig_session env cfg w p'"

definition cache_inv :: "'w kube_env \<Rightarrow> StaticConfig \<Rightarrow> 'w \<Rightarrow> kubeConfigClusterProvider \<Rightarrow> bool" where
  "cache_inv env cfg w p \<longleftrightarrow> kubeconfig_inv p \<and> kp_BaseConfig p = cfg
     \<and> (\<forall>c m. map_of (kp_managers p) c = Some (Some m) \<longrightarrow> NewKubeconfigManager env cfg c w = Inr m)"

text \<open>The context that an empty name stands for is the default context of the provider.\<close>

lemma resolve_name: "c \<noteq> [] \<Longrightarrow> resolveKubeconfigContext raw c = Inr c"
  by (simp add: resolveKubeconfigContext_def)

lemma resolve_default:
  assumes "kubeconfig_reset env p w = (None, p')"
  shows "resolveKubeconfigContext (ke_Load env (c_KubeConfig (kp_BaseConfig p)) w) [] = Inr (kp_defaultContext p')"
    and "kp_defaultContext p' \<noteq> [] \<or> [] \<in> set (kubeconfig_GetTargets p')"
proof -
  obtain m raw where new: "NewKubeconfigManager env (kp_BaseConfig p) [] w = Inr m"
    and raw: "ke_Load env (c_KubeConfig (kp_BaseConfig p)) w = Inr raw"
    using kubeconfig_reset_ok [OF assms] by metis
  then obtain c where c: "resolveKubeconfigContext (Inr raw) [] = Inr c"
    by (auto simp: NewKubeconfigManager_def bindE_Inr_iff Let_def split: if_splits)
  have "kb_rawConfig (mg_kubernetes m) = Inr raw"
    using NewKubeconfigManager_raw [OF new] raw by simp
  then have p': "kp_defaultContext p' = (case rk_Contexts raw of
        [name] \<Rightarrow> (if rk_CurrentContext raw = [] then name else rk_CurrentContext raw)
      | _ \<Rightarrow> rk_CurrentContext raw)"
    and mgrs: "kp_defaultContext p' \<in> set (kubeconfig_GetTargets p')"
    using assms new by (auto simp: kubeconfig_reset_def kubeconfig_GetTargets_def Let_def)
  show "kp_defaultContext p' \<noteq> [] \<or> [] \<in> set (kubeconfig_GetTargets p')"
    using mgrs by auto
  show "resolveKubeconfigContext (ke_Load env (c_KubeConfig (kp_BaseConfig p)) w) [] = Inr (kp_defaultContext p')"
    using c unfolding raw p' resolveKubeconfigContext_def
    by (auto split: if_splits list.splits)
qed

lemma NewKubeconfigManager_resolved:
  assumes "resolveKubeconfigContext (ke_Load env (c_KubeConfig cfg) w) c = resolveKubeconfigContext (ke_Load env (c_KubeConfig cfg) w) d"
  shows "NewKubeconfigManager env cfg c w = NewKubeconfigManager env cfg d w"
  using assms by (simp add: NewKubeconfigManager_def Let_def)

lemma NewKubeconfigManager_default:
  assumes "kubeconfig_reset env p w = (None, p')"
  shows "NewKubeconfigManager env (kp_BaseConfig p) (kp_defaultContext p') w = NewKubeconfigManager env (kp_BaseConfig p) [] w"
proof (cases "kp_defaultContext p' = []")
  case False
  then show ?thesis
    using resolve_default(1) [OF assms] resolve_name by (intro NewKubeconfigManager_resolved) simp
qed simp

lemma kubeconfig_reset_cache:
  assumes reset: "kubeconfig_reset env p w = (None, p')"
  shows "cache_inv env (kp_BaseConfig p) w p'"
proof -
  obtain m raw where new: "NewKubeconfigManager env (kp_BaseConfig p) [] w = Inr m"
    and "ke_Load env (c_KubeConfig (kp_BaseConfig p)) w = Inr raw"
    and p': "p' = p\<lparr>kp_defaultContext := kp_defaultContext p', kp_managers := (kp_defaultContext p', Some m)
       # map (\<lambda>name. (name, None)) (filter (\<lambda>name. name \<noteq> kp_defaultContext p') (rk_Contexts raw))\<rparr>"
    using kubeconfig_reset_ok [OF reset] .
  have mgrs: "kp_managers p' = (kp_defaultContext p', Some m)
       # map (\<lambda>name. (name, None)) (filter (\<lambda>name. name \<noteq> kp_defaultContext p') (rk_Contexts raw))"
    by (subst p') simp
  have "NewKubeconfigManager env (kp_BaseConfig p) c w = Inr m'" if "map_of (kp_managers p') c = Some (Some m')" for c m'
    using that new NewKubeconfigManager_default [OF reset] unfolding mgrs
    by (auto simp: map_of_None_pairs split: if_splits)
  then show ?thesis
    using kubeconfig_reset_inv [OF reset] by (simp add: cache_inv_def)
qed

text \<open>A lookup in a sound cache is what building the manager gives, and keeps the cache sound.\<close>

lemma managerForContext_cache:
  assumes "cache_inv env cfg w p"
  shows "managerForContext env c p w = (case NewKubeconfigManager env cfg c w of
        Inl _ \<Rightarrow> (Inl (ErrUnknownTarget ''unknown target''), p)
      | Inr m \<Rightarrow> (Inr m, if map_of (kp_managers p) c = Some (Some m) then p
                          else p\<lparr>kp_managers := AList.update c (Some m) (kp_managers p)\<rparr>))"
    and "cache_inv env cfg w (snd (managerForContext env c p w))"
proof -
  have inv: "kubeconfig_inv p" and cfg: "kp_BaseConfig p = cfg"
    and sound: "\<And>c m. map_of (kp_managers p) c = Some (Some m) \<Longrightarrow> NewKubeconfigManager env cfg c w = Inr m"
    using assms by (auto simp: cache_inv_def)
  obtain base where base: "map_of (kp_managers p) (kp_defaultContext p) = Some (Some base)" and bcfg: "mg_config base = cfg"
    using inv cfg kubeconfig_inv_wf [OF inv] by (auto simp: kubeconfig_inv_def mgr_wf_def)
  show eq: "managerForContext env c p w = (case NewKubeconfigManager env cfg c w of
        Inl _ \<Rightarrow> (Inl (ErrUnknownTarget ''unknown target''), p)
      | Inr m \<Rightarrow> (Inr m, if map_of (kp_managers p) c = Some (Some m) then p
                          else p\<lparr>kp_managers := AList.update c (Some m) (kp_managers p)\<rparr>))"
  proof (cases "\<exists>m. map_of (kp_managers p) c = Some (Some m)")
    case True
    then obtain m where m: "map_of (kp_managers p) c = Some (Some m)" by blast
    show ?thesis
      using managerForContext_hit [where env = env and w = w, OF m] sound [OF m] m by simp
  next
    case False
    then show ?thesis
      using managerForContext_miss [where env = env and w = w, OF base False] bcfg
      by (cases "NewKubeconfigManager env cfg c w") auto
  qed
  have "kubeconfig_inv (snd (managerForContext env c p w))" "kp_BaseConfig (snd (managerForContext env c p w)) = cfg"
    using managerForContext_inv(1,2) [OF _ inv] cfg by (metis prod.collapse)+
  moreover have "NewKubeconfigManager env cfg d w = Inr m"
    if "map_of (kp_managers (snd (managerForContext env c p w))) d = Some (Some m)" for d m
    using that sound unfolding eq
    by (cases "NewKubeconfigManager env cfg c w") (auto simp: update_conv' split: if_splits)
  ultimately show "cache_inv env cfg w (snd (managerForContext env c p w))"
    by (simp add: cache_inv_def)
qed

lemma managers_for_cache:
  "cache_inv env cfg w p \<Longrightarrow> cache_inv env cfg w (snd (managers_for env cns p w))"
proof (induction cns arbitrary: p)
  case (Cons c cns)
  obtain r p1 where one: "managerForContext env c p w = (r, p1)" by fastforce
  have p1: "cache_inv env cfg w p1"
    using managerForContext_cache(2) [OF Cons.prems, of c] one by simp
  obtain r2 p2 where two: "managers_for env cns p1 w = (r2, p2)" by fastforce
  show ?case
    using Cons.IH [OF p1] p1 by (simp add: one two split: sum.split)
qed simp

lemma kubeconfig_derive_cache:
  assumes "cache_inv env cfg w p"
  shows "fst (kubeconfig_GetDerivedKubernetes env ctx c p w) = eager_GetDerivedKubernetes env cfg ctx c w"
    and "cache_inv env cfg w (snd (kubeconfig_GetDerivedKubernetes env ctx c p w))"
proof -
  show "fst (kubeconfig_GetDerivedKubernetes env ctx c p w) = eager_GetDerivedKubernetes env cfg ctx c w"
    by (cases "NewKubeconfigManager env cfg c w")
       (simp_all add: kubeconfig_GetDerivedKubernetes_def eager_GetDerivedKubernetes_def managerForContext_cache(1) [OF assms])
  show "cache_inv env cfg w (snd (kubeconfig_GetDerivedKubernetes env ctx c p w))"
    using managerForContext_cache(2) [OF assms, of c]
    by (auto simp: kubeconfig_GetDerivedKubernetes_def split: prod.split sum.split)
qed

lemma session_cache: "kubeconfig_session env cfg w p \<Longrightarrow> cache_inv env cfg w p"
proof (induction rule: kubeconfig_session.induct)
  case (reset p p') then show ?case using kubeconfig_reset_cache by metis
next
  case (derive p ctx c r p') then show ?case using kubeconfig_derive_cache(2) by (metis snd_conv)
next
  case (targets p r p') then show ?case
    using managers_for_cache by (metis kubeconfig_GetTargetManagers_def snd_conv)
qed


lemma demo_session: "kubeconfig_session demo_env demo_cfg 0 demo_provider"
  by (rule kubeconfig_session.reset [OF _ demo_reset]) simp


text \<open>
  The empty context, which a prompt without a cluster argument passes, is kept as a context of
  its own: from then on the provider lists a target without a name and has several targets,
  even if the kubeconfig has one context.
\<close>

lemma empty_target_registered:
  assumes "cache_inv env cfg w p" "[] \<notin> set (kubeconfig_GetTargets p)" "NewKubeconfigManager env cfg [] w = Inr m"
    and "kubeconfig_GetDerivedKubernetes env ctx [] p w = (r, p')"
  shows "[] \<in> set (kubeconfig_GetTargets p')" and "kubeconfig_IsMultiTarget p'"
proof -
  have new: "map_of (kp_managers p) [] = None"
    using assms(2) by (simp add: kubeconfig_GetTargets_def map_of_eq_None_iff)
  then have p': "kp_managers p' = AList.update [] (Some m) (kp_managers p)"
    using assms(3,4) managerForContext_cache(1) [OF assms(1), of "[]"]
    by (auto simp: kubeconfig_GetDerivedKubernetes_def)
  have upd: "AList.update k v xs = xs @ [(k, v)]" if "k \<notin> fst ` set xs" for k :: string and v :: "Manager option" and xs
    using that by (induction xs) auto
  have "kp_managers p \<noteq> []"
    using assms(1) by (auto simp: cache_inv_def kubeconfig_inv_def)
  moreover have "kp_managers p' = kp_managers p @ [([], Some m)]"
    using p' upd assms(2) by (simp add: kubeconfig_GetTargets_def)
  ultimately show "[] \<in> set (kubeconfig_GetTargets p')" "kubeconfig_IsMultiTarget p'"
    by (auto simp: kubeconfig_GetTargets_def kubeconfig_IsMultiTarget_def Suc_lessI)
qed

text \<open>
  The error path of the empty target. Between two resets, a request with an empty context
  that succeeds makes the provider list an unnamed target next to the contexts of the kubeconfig,
  and so report several targets.
\<close>

theorem empty_target_pollutes:
  assumes "kubeconfig_session env cfg w p" "[] \<notin> set (kubeconfig_GetTargets p)"
    and "kubeconfig_GetDerivedKubernetes env ctx [] p w = (Inr k, p')"
  shows "[] \<in> set (kubeconfig_GetTargets p') \<and> kubeconfig_IsMultiTarget p'"
proof -
  note cache = session_cache [OF assms(1)]
  obtain m where "NewKubeconfigManager env cfg [] w = Inr m"
    using kubeconfig_derive_cache(1) [OF cache, of ctx "[]"] assms(3)
    by (auto simp: eager_GetDerivedKubernetes_def split: sum.splits)
  then show ?thesis using empty_target_registered [OF cache assms(2)] assms(3) by blast
qed

lemma demo_derive:
  "kubeconfig_GetDerivedKubernetes demo_env demo_ctx [] demo_provider 0
     = (Derived (ke_Client demo_env) demo_manager demo_ctx, demo_provider\<lparr>kp_managers := [(''dev'', Some demo_manager), ([], Some demo_manager)]\<rparr>)"
  using managerForContext_cache(1) [OF session_cache [OF demo_session], of "[]"]
  by (simp add: kubeconfig_GetDerivedKubernetes_def demo_new) (simp add: demo_provider_def)

theorem empty_target_pollutes_witness:
  "kubeconfig_GetTargets demo_provider = [''dev'']
   \<and> (\<exists>k p'. kubeconfig_GetDerivedKubernetes demo_env demo_ctx [] demo_provider 0 = (Inr k, p')
        \<and> [] \<in> set (kubeconfig_GetTargets p') \<and> kubeconfig_IsMultiTarget p')"
proof -
  have targets: "kubeconfig_GetTargets demo_provider = [''dev'']"
    by (simp add: kubeconfig_GetTargets_def demo_provider_def)
  obtain k p' where run: "kubeconfig_GetDerivedKubernetes demo_env demo_ctx [] demo_provider 0 = (Inr k, p')"
    using demo_derive demo_derived by metis
  have "[] \<notin> set (kubeconfig_GetTargets demo_provider)" by (simp add: targets)
  then show ?thesis
    using targets run empty_target_pollutes [OF demo_session _ run] by blast
qed

section \<open>Failed resets\<close>

text \<open>
  What a failed reset leaves. A kubeconfig provider whose reset fails (the file is gone or
  no longer names a context) goes on exactly as before. The single-cluster provider does not:
  it has closed its manager and stored nil, so that every later request for its cluster
  dereferences nil, unless the failure was the rejected combination of kubeconfig and strategy.
\<close>

theorem failed_reset:
  assumes "cluster_reset env p w = (Some e, p')"
  shows "(case p of
       KubeConfigCluster s \<Rightarrow> p' = p
     | SingleCluster s \<Rightarrow>
         if c_KubeConfig (sg_BaseConfig s) \<noteq> [] \<and> sg_strategy s = ''in-cluster'' then p' = p
         else (\<forall>ctx v. fst (cluster_GetDerivedKubernetes env ctx [] p' v) = Inl (DeriveError ''nil manager'')))"
proof (cases p)
  case (SingleCluster s)
  then show ?thesis
    using assms by (auto simp: single_reset_def single_GetDerivedKubernetes_def Let_def split: if_splits sum.splits)
next
  case (KubeConfigCluster s)
  then show ?thesis
    using assms by (cases "kubeconfig_reset env s w") (auto dest: kubeconfig_reset_failed)
qed

text \<open>A kubeconfig that disappears.\<close>

definition gone_env :: "nat kube_env" where
  "gone_env = demo_env\<lparr>ke_Load := (\<lambda>_ _. Inl ''no such file'')\<rparr>"

definition demo_single :: singleClusterProvider where
  "demo_single = \<lparr>sg_BaseConfig = demo_cfg, sg_strategy = ''disabled'', sg_manager = Some demo_manager\<rparr>"

theorem failed_reset_witness:
  "\<exists>p'. cluster_reset gone_env (SingleCluster demo_single) 0 = (Some (LoadFailed ''no such file''), p')
     \<and> (\<forall>ctx v. fst (cluster_GetDerivedKubernetes gone_env ctx [] p' v) = Inl (DeriveError ''nil manager''))"
proof -
  let ?p' = "SingleCluster (demo_single\<lparr>sg_manager := None\<rparr>)"
  have run: "cluster_reset gone_env (SingleCluster demo_single) 0 = (Some (LoadFailed ''no such file''), ?p')"
    by (simp add: single_reset_def demo_single_def gone_env_def demo_env_def IsInCluster_def NewKubeconfigManager_def
        resolveKubeconfigContext_def Let_def)
  have "\<not> (c_KubeConfig (sg_BaseConfig demo_single) \<noteq> [] \<and> sg_strategy demo_single = ''in-cluster'')"
    by (simp add: demo_single_def)
  then show ?thesis
    using run failed_reset [OF run] by (auto split: if_splits)
qed

section \<open>The memoised exchange configuration\<close>

text \<open>Exchanges change no setting of the configuration they are given.\<close>

lemma HTTPClient_settings: "HTTPClient env c w = (r, c') \<Longrightarrow> settings c' = settings c"
  by (auto simp: HTTPClient_def settings_def Let_def split: if_splits sum.splits)

lemma exchange_with_settings: "exchange_with mk wrap env c t w = (r, c', w') \<Longrightarrow> settings c' = settings c"
  by (auto simp: exchange_with_def split: prod.splits sum.splits dest: HTTPClient_settings)

definition registered_strategies :: "'w token_exchanger tokenExchangerRegistry" where
  "registered_strategies = \<lparr>exchangers = map (\<lambda>(name, exchange, key). (name, exchange)) strategies\<rparr>"

lemma registered_settings:
  assumes "exchanger_get registered_strategies name = Some exchange" "exchange env c t w = (r, c', w')"
  shows "settings c' = settings c"
  using assms
  by (auto simp: registered_strategies_def strategies_def exchanger_get_def rfc8693_Exchange_def keycloakV1_Exchange_def
      entraOBO_Exchange_def split: if_splits dest: exchange_with_settings)

lemma strategy_settings:
  assumes reg: "xe_Registry xe = registered_strategies"
    and run: "strategyBasedTokenExchange xe base oidc tok strategy (Some c) ctx w = (r, c1, w1)"
  shows "\<exists>c'. c1 = Some c' \<and> (c' = c \<or> settings c' = settings (SetRequireTLS (Some (\<lambda>_. c_RequireTLS base)) c))"
proof (cases "exchanger_get (xe_Registry xe) strategy")
  case None
  then show ?thesis using run by (auto simp: strategyBasedTokenExchange_def)
next
  case (Some exchange)
  obtain r2 c2 w2 where ex: "exchange (xe_Exchange xe) (SetRequireTLS (Some (\<lambda>_. c_RequireTLS base)) c) tok w = (r2, c2, w2)"
    by (metis prod_cases3)
  have "settings c2 = settings (SetRequireTLS (Some (\<lambda>_. c_RequireTLS base)) c)"
    using registered_settings [OF Some [unfolded reg] ex] .
  then show ?thesis using run Some ex by (auto simp: strategyBasedTokenExchange_def Let_def)
qed

lemma sts_exchange_settings:
  assumes reg: "xe_Registry xe = registered_strategies"
    and run: "stsExchangeTokenInContext xe base oidc h tok (Some c) ctx w = (r, c1, w1)"
  shows "\<exists>c'. c1 = Some c' \<and> (c' = c \<or> settings c' = settings (SetRequireTLS (Some (\<lambda>_. c_RequireTLS base)) c))"
proof -
  have "c1 = Some c \<or> (\<exists>r' w'. strategyBasedTokenExchange xe base oidc tok (c_TokenExchangeStrategy base) (Some c) ctx w = (r', c1, w'))"
    using run by (auto simp: stsExchangeTokenInContext_def exchangePassthroughToken_def Let_def
        split: if_splits prod.splits sum.splits)
  then show ?thesis using strategy_settings [OF reg] by blast
qed

lemma exchange_settings:
  assumes reg: "xe_Registry xe = registered_strategies"
    and run: "ExchangeTokenInContext xe base oidc h tep target (Some c) ctx w = (r, tep1, c1, w1)"
  shows "\<exists>c'. c1 = Some c' \<and> (c' = c \<or> settings c' = settings (SetRequireTLS (Some (\<lambda>_. c_RequireTLS base)) c))"
proof -
  have "c1 = Some c \<or> (\<exists>r' tok w'. stsExchangeTokenInContext xe base oidc h tok (Some c) ctx w = (r', c1, w'))"
    using run by (auto simp: ExchangeTokenInContext_def Let_def split: option.splits prod.splits)
  then show ?thesis using sts_exchange_settings [OF reg] by blast
qed

text \<open>
  The reference: the configuration built for the current settings, if they are complete and valid.
\<close>

definition fresh_sts_config ::
  "(string \<Rightarrow> string) \<Rightarrow> string \<Rightarrow> StaticConfig \<Rightarrow> 'w TargetTokenExchangeConfig" where
  "fresh_sts_config getenv tokenURL cfg = SetRequireTLS (Some (\<lambda>_. c_RequireTLS cfg)) (sts_target_config getenv cfg tokenURL)"

definition rebuilt_sts_config ::
  "(string \<Rightarrow> string) \<Rightarrow> string option \<Rightarrow> StaticConfig \<Rightarrow> 'w TargetTokenExchangeConfig option" where
  "rebuilt_sts_config getenv oidcProvider cfg =
     (let tokenURL = provider_token_url oidcProvider; c = fresh_sts_config getenv tokenURL cfg in
      if c_TokenExchangeStrategy cfg = [] \<or> tokenURL = [] \<or> Target_Validate c \<noteq> None then None else Some c)"

text \<open>Lists the cache key keeps apart: their elements are not empty and have no NUL byte.\<close>

definition joinable :: "string list \<Rightarrow> bool" where
  "joinable ws \<longleftrightarrow> list_all (\<lambda>w. w \<noteq> [] \<and> CHR 0x00 \<notin> set w) ws"

definition joinable_cfg :: "(string \<Rightarrow> string) \<Rightarrow> StaticConfig \<Rightarrow> bool" where
  "joinable_cfg getenv cfg \<longleftrightarrow> joinable (c_StsScopes cfg) \<and> joinable (GetTLSCipherSuitesConfig getenv cfg)"

lemma Join_joinable:
  assumes "joinable xs" "joinable ys" "Join [CHR 0x00] xs = Join [CHR 0x00] ys"
  shows "xs = ys"
proof -
  have empty: "ws = [] \<longleftrightarrow> Join [CHR 0x00] ws = []" if "joinable ws" for ws
    using that by (cases ws rule: list.exhaust; cases "tl ws") (auto simp: joinable_def Join_Cons)
  have split: "Split CHR 0x00 (Join [CHR 0x00] ws) = ws" if "joinable ws" "ws \<noteq> []" for ws
    using that by (intro Split_Join) (auto simp: joinable_def list_all_iff)
  show ?thesis
    using empty [OF assms(1)] empty [OF assms(2)] split [OF assms(1)] split [OF assms(2)] assms(3) by metis
qed

lemma cache_key_settings:
  assumes "newStsConfigCacheKey getenv url cfg = newStsConfigCacheKey getenv url' cfg'"
    and "joinable_cfg getenv cfg" "joinable_cfg getenv cfg'"
  shows "fresh_sts_config getenv url cfg = fresh_sts_config getenv url' cfg'"
proof -
  have "c_StsScopes cfg = c_StsScopes cfg'" "GetTLSCipherSuitesConfig getenv cfg = GetTLSCipherSuitesConfig getenv cfg'"
    using assms by (auto simp: newStsConfigCacheKey_def joinable_cfg_def intro: Join_joinable)
  then show ?thesis
    using assms(1) by (simp add: newStsConfigCacheKey_def fresh_sts_config_def sts_target_config_def SetRequireTLS_def)
qed

definition sts_cache_inv :: "(string \<Rightarrow> string) \<Rightarrow> ('p, 'w) tokenExchangingProvider \<Rightarrow> bool" where
  "sts_cache_inv getenv x \<longleftrightarrow> (\<forall>c. xp_stsConfig x = Some c \<longrightarrow>
     (\<exists>url cfg. xp_stsConfigKey x = newStsConfigCacheKey getenv url cfg \<and> joinable_cfg getenv cfg
        \<and> settings c = settings (fresh_sts_config getenv url cfg) \<and> Target_Validate (fresh_sts_config getenv url cfg :: 'w TargetTokenExchangeConfig) = None))"

lemma settings_fresh: "settings (fresh_sts_config getenv url cfg) = fresh_sts_config getenv url cfg"
  by (simp add: settings_def fresh_sts_config_def sts_target_config_def SetRequireTLS_def)

lemma getOrBuild_eq:
  "getOrBuildStsConfig getenv oidc cfg x =
     (let url = provider_token_url oidc; key = newStsConfigCacheKey getenv url cfg; fresh = fresh_sts_config getenv url cfg in
      if c_TokenExchangeStrategy cfg = [] \<or> url = [] then (None, x)
      else if xp_stsConfig x \<noteq> None \<and> xp_stsConfigKey x = key then (xp_stsConfig x, x)
      else if Target_Validate fresh \<noteq> None then (None, x)
      else (Some fresh, x\<lparr>xp_stsConfig := Some fresh, xp_stsConfigKey := key\<rparr>))"
  by (simp add: getOrBuildStsConfig_def fresh_sts_config_def Let_def split: option.split)

lemma getOrBuild_current:
  fixes x :: "('p, 'w) tokenExchangingProvider"
  assumes inv: "sts_cache_inv getenv x" and cfg: "joinable_cfg getenv cfg"
    and run: "getOrBuildStsConfig getenv oidc cfg x = (c, x')"
  shows "map_option settings c = rebuilt_sts_config getenv oidc cfg" and "sts_cache_inv getenv x'"
    and "c = Some c0 \<Longrightarrow> xp_stsConfig x' = Some c0
      \<and> xp_stsConfigKey x' = newStsConfigCacheKey getenv (provider_token_url oidc) cfg"
proof -
  let ?url = "provider_token_url oidc"
  let ?key = "newStsConfigCacheKey getenv ?url cfg"
  let ?fresh = "fresh_sts_config getenv ?url cfg :: 'w TargetTokenExchangeConfig"
  consider (off) "c_TokenExchangeStrategy cfg = [] \<or> ?url = []" "c = None" "x' = x"
    | (hit) c1 where "c_TokenExchangeStrategy cfg \<noteq> []" "?url \<noteq> []" "xp_stsConfig x = Some c1" "xp_stsConfigKey x = ?key"
        "c = Some c1" "x' = x"
    | (invalid) "Target_Validate ?fresh \<noteq> None" "c = None" "x' = x"
    | (built) "c_TokenExchangeStrategy cfg \<noteq> []" "?url \<noteq> []" "Target_Validate ?fresh = None" "c = Some ?fresh"
        "x' = x\<lparr>xp_stsConfig := Some ?fresh, xp_stsConfigKey := ?key\<rparr>"
  proof (cases "c_TokenExchangeStrategy cfg = [] \<or> ?url = []")
    case True
    then show ?thesis using run off by (auto simp: getOrBuild_eq Let_def)
  next
    case on: False
    then have run': "(if xp_stsConfig x \<noteq> None \<and> xp_stsConfigKey x = ?key then (xp_stsConfig x, x)
        else if Target_Validate ?fresh \<noteq> None then (None, x)
        else (Some ?fresh, x\<lparr>xp_stsConfig := Some ?fresh, xp_stsConfigKey := ?key\<rparr>)) = (c, x')"
      using run by (simp only: getOrBuild_eq Let_def if_False)
    show ?thesis
    proof (cases "xp_stsConfig x \<noteq> None \<and> xp_stsConfigKey x = ?key")
      case True
      then obtain c1 where c1: "xp_stsConfig x = Some c1" by blast
      show ?thesis using run' True on c1 by (intro hit [of c1]) auto
    next
      case False
      note tail = run' [unfolded if_not_P [OF False]]
      show ?thesis
      proof (cases "Target_Validate ?fresh = None")
        case True
        then have "Some ?fresh = c" "x\<lparr>xp_stsConfig := Some ?fresh, xp_stsConfigKey := ?key\<rparr> = x'"
          using tail by (auto simp: if_True)
        then show ?thesis using on True by (intro built) (simp_all only: de_Morgan_disj simp_thms)
      next
        case invalid': False
        then show ?thesis using tail by (intro invalid) simp_all
      qed
    qed
  qed
  then have "map_option settings c = rebuilt_sts_config getenv oidc cfg \<and> sts_cache_inv getenv x'
      \<and> (c = Some c0 \<longrightarrow> xp_stsConfig x' = Some c0 \<and> xp_stsConfigKey x' = ?key)"
  proof cases
    case off then show ?thesis using inv by (auto simp: rebuilt_sts_config_def)
  next
    case (hit c1)
    then obtain url cfg' where "?key = newStsConfigCacheKey getenv url cfg'" "joinable_cfg getenv cfg'"
      and c1: "settings c1 = settings (fresh_sts_config getenv url cfg')"
      and ok: "Target_Validate (fresh_sts_config getenv url cfg' :: 'w TargetTokenExchangeConfig) = None"
      using inv by (auto simp: sts_cache_inv_def)
    then have "?fresh = fresh_sts_config getenv url cfg'"
      using cache_key_settings cfg by metis
    then show ?thesis
      using hit c1 ok inv by (simp add: rebuilt_sts_config_def settings_fresh)
  next
    case invalid then show ?thesis using inv by (auto simp: rebuilt_sts_config_def Let_def)
  next
    case built
    then show ?thesis using cfg by (auto simp: rebuilt_sts_config_def sts_cache_inv_def settings_fresh)
  qed
  then show "map_option settings c = rebuilt_sts_config getenv oidc cfg" "sts_cache_inv getenv x'"
    "c = Some c0 \<Longrightarrow> xp_stsConfig x' = Some c0 \<and> xp_stsConfigKey x' = ?key" by auto
qed

text \<open>
  A wrapper in use: created without a configuration, then requests, each under the
  configuration of its moment.
\<close>

inductive wrapper_run ::
  "('w call_ctx \<Rightarrow> string \<Rightarrow> 'p \<Rightarrow> 'w \<Rightarrow> (derive_error, Kubernetes) result \<times> 'p)
   \<Rightarrow> ('p \<Rightarrow> string \<Rightarrow> 'w target_exchange) \<Rightarrow> ('h, 'w) exchange_env \<Rightarrow> ('w \<Rightarrow> StaticConfig option)
   \<Rightarrow> ('w \<Rightarrow> (string, 'h) Snapshot option) \<Rightarrow> ('p, 'w) tokenExchangingProvider \<Rightarrow> bool"
  for derive tep xe baseConfig oauthState where
  created: "xp_stsConfig x = None \<Longrightarrow> wrapper_run derive tep xe baseConfig oauthState x"
| request: "wrapper_run derive tep xe baseConfig oauthState x
     \<Longrightarrow> pred_option (joinable_cfg (xe_Getenv xe)) (baseConfig w)
     \<Longrightarrow> exchanging_GetDerivedKubernetes derive tep xe baseConfig oauthState ctx target x w = (r, x', w')
     \<Longrightarrow> wrapper_run derive tep xe baseConfig oauthState x'"

lemma exchanging_cache:
  fixes xe :: "('h, 'w) exchange_env"
  assumes reg: "xe_Registry xe = registered_strategies"
    and inv: "sts_cache_inv (xe_Getenv xe) x"
    and cfg: "pred_option (joinable_cfg (xe_Getenv xe)) (baseConfig w)"
    and run: "exchanging_GetDerivedKubernetes derive tep xe baseConfig oauthState ctx target x w = (r, x', w')"
  shows "sts_cache_inv (xe_Getenv xe) x'"
proof (cases "\<exists>snap base. oauthState w = Some snap \<and> baseConfig w = Some base")
  case False
  then have "xp_stsConfig x' = xp_stsConfig x \<and> xp_stsConfigKey x' = xp_stsConfigKey x"
    using run by (auto simp: exchanging_GetDerivedKubernetes_def Let_def split: option.splits prod.splits)
  then show ?thesis using inv by (simp add: sts_cache_inv_def)
next
  case True
  then obtain snap base where sb: "oauthState w = Some snap" "baseConfig w = Some base" by blast
  obtain sts x1 where built: "getOrBuildStsConfig (xe_Getenv xe) (sn_OIDCProvider snap) base x = (sts, x1)" by fastforce
  have join: "joinable_cfg (xe_Getenv xe) base" using cfg sb by simp
  note current = getOrBuild_current [OF inv join built]
  obtain r1 tep1 sts1 w1 where ex: "ExchangeTokenInContext xe base (sn_OIDCProvider snap) (sn_HTTPClient snap)
      (tep (xp_provider x1) target) target sts ctx w = (r1, tep1, sts1, w1)" by (metis prod_cases4)
  define x2 where "x2 = (if sts = None then x1 else x1\<lparr>xp_stsConfig := sts1\<rparr>)"
  have x': "xp_stsConfig x' = xp_stsConfig x2 \<and> xp_stsConfigKey x' = xp_stsConfigKey x2"
    using run sb ex
    by (cases r1) (auto simp: exchanging_GetDerivedKubernetes_def built Let_def x2_def [symmetric] split: prod.splits)
  have "sts_cache_inv (xe_Getenv xe) x2"
  proof (cases sts)
    case None
    then show ?thesis using current(2) by (simp add: x2_def)
  next
    case (Some c)
    let ?fresh = "fresh_sts_config (xe_Getenv xe) (provider_token_url (sn_OIDCProvider snap)) base :: 'w TargetTokenExchangeConfig"
    have fresh: "settings c = ?fresh" and valid: "Target_Validate ?fresh = None"
      using current(1) by (auto simp: Some rebuilt_sts_config_def Let_def split: if_splits)
    obtain c' where c': "sts1 = Some c'" "c' = c \<or> settings c' = settings (SetRequireTLS (Some (\<lambda>_. c_RequireTLS base)) c)"
      using exchange_settings [OF reg ex [unfolded Some]] by blast
    have "settings (SetRequireTLS e c) = SetRequireTLS e (settings c)" for e
      by (simp add: settings_def SetRequireTLS_def)
    then have "settings c' = ?fresh"
      using c'(2) fresh by (auto simp: fresh_sts_config_def SetRequireTLS_def)
    then show ?thesis
      using current(3) [OF Some] c'(1) Some join valid by (auto simp: sts_cache_inv_def x2_def settings_fresh)
  qed
  then show ?thesis using x' by (simp add: sts_cache_inv_def)
qed

lemma wrapper_run_cache:
  assumes "wrapper_run derive tep xe baseConfig oauthState x" "xe_Registry xe = registered_strategies"
  shows "sts_cache_inv (xe_Getenv xe) x"
  using assms(1)
proof (induction rule: wrapper_run.induct)
  case (created x) then show ?case by (simp add: sts_cache_inv_def)
next
  case (request x w ctx target r x' w') then show ?case using exchanging_cache [OF assms(2)] by blast
qed

text \<open>
  C32: the memoised exchange configuration is never stale. After any requests under any
  configurations (reloads included), the configuration an exchange is given has the settings
  that building it from the current configuration, token endpoint and environment would give,
  and there is none exactly when that configuration is incomplete or invalid; only the HTTP
  client built earlier is kept. The key compares joined lists, so scopes and cipher suites are
  taken to be non-empty strings without NUL.
\<close>

theorem sts_config_current:
  assumes "wrapper_run derive tep xe baseConfig oauthState x" "xe_Registry xe = registered_strategies"
    and "joinable_cfg (xe_Getenv xe) cfg" "getOrBuildStsConfig (xe_Getenv xe) oidc cfg x = (c, x')"
  shows "map_option settings c = rebuilt_sts_config (xe_Getenv xe) oidc cfg"
  using getOrBuild_current(1) [OF wrapper_run_cache [OF assms(1,2)] assms(3,4)] .

text \<open>A server with a strategy, and a request that leaves its configuration in the cache.\<close>

definition strategy_cfg :: StaticConfig where
  "strategy_cfg = zeroConfig\<lparr>c_TokenExchangeStrategy := ''rfc8693'', c_StsScopes := [''openid'']\<rparr>"

definition strategy_xe :: "(unit, nat) exchange_env" where
  "strategy_xe = \<lparr>xe_Exchange = accept_env, xe_Registry = registered_strategies, xe_Getenv = (\<lambda>_. []),
     xe_ExternalAccount = (\<lambda>_ _ w. (Inl [], w))\<rparr>"

lemma strategy_cfg_fields [simp]: "c_TokenExchangeStrategy strategy_cfg = ''rfc8693''" "c_StsScopes strategy_cfg = [''openid'']"
  "c_StsAuthStyle strategy_cfg = []" "c_TLSCipherSuites strategy_cfg = []"
  by (simp_all add: strategy_cfg_def zeroConfig_def)

definition warm_wrapper :: "(unit, nat) tokenExchangingProvider" where
  "warm_wrapper = \<lparr>xp_provider = (), xp_stsConfig = Some (fresh_sts_config (\<lambda>_. []) ''https://sts'' strategy_cfg),
     xp_stsConfigKey = newStsConfigCacheKey (\<lambda>_. []) ''https://sts'' strategy_cfg\<rparr>"

lemma strategy_joinable: "joinable_cfg (\<lambda>_. []) strategy_cfg"
  by (simp add: joinable_cfg_def joinable_def GetTLSCipherSuitesConfig_def)

lemma strategy_rebuilt:
  "rebuilt_sts_config (\<lambda>_. []) (Some ''https://sts'') strategy_cfg = Some (fresh_sts_config (\<lambda>_. []) ''https://sts'' strategy_cfg)"
  by (simp add: rebuilt_sts_config_def provider_token_url_def Target_Validate_def fresh_sts_config_def SetRequireTLS_def
      sts_target_config_def)

lemma warm_run:
  "wrapper_run (\<lambda>_ _ p _. (Inl (DeriveError []), p)) (\<lambda>_ _. None) strategy_xe (\<lambda>_. Some strategy_cfg)
     (\<lambda>_. Some demo_snap) warm_wrapper"
proof (rule wrapper_run.request)
  let ?x = "\<lparr>xp_provider = (), xp_stsConfig = None, xp_stsConfigKey = undefined\<rparr> :: (unit, nat) tokenExchangingProvider"
  let ?ctx = "\<lparr>cx_Session = undefined, cx_Authorization = None, cx_UserAgent = None\<rparr> :: nat call_ctx"
  show "wrapper_run (\<lambda>_ _ p _. (Inl (DeriveError []), p)) (\<lambda>_ _. None) strategy_xe (\<lambda>_. Some strategy_cfg)
     (\<lambda>_. Some demo_snap) ?x" by (rule wrapper_run.created) simp
  show "pred_option (joinable_cfg (xe_Getenv strategy_xe)) ((\<lambda>_. Some strategy_cfg) (0 :: nat))"
    using strategy_joinable by (simp add: strategy_xe_def)
  have "Target_Validate (fresh_sts_config (\<lambda>_. []) ''https://sts'' strategy_cfg :: nat TargetTokenExchangeConfig) = None"
    by (simp add: Target_Validate_def fresh_sts_config_def SetRequireTLS_def sts_target_config_def)
  then have "getOrBuildStsConfig (\<lambda>_. []) (Some ''https://sts'') strategy_cfg ?x = (xp_stsConfig warm_wrapper, warm_wrapper)"
    by (simp add: getOrBuild_eq provider_token_url_def warm_wrapper_def Let_def)
  then show "exchanging_GetDerivedKubernetes (\<lambda>_ _ p _. (Inl (DeriveError []), p)) (\<lambda>_ _. None) strategy_xe
     (\<lambda>_. Some strategy_cfg) (\<lambda>_. Some demo_snap) ?ctx [] ?x 0 = (Inl (Inr (DeriveError [])), warm_wrapper, 0)"
    by (simp add: exchanging_GetDerivedKubernetes_def ExchangeTokenInContext_def bearer_token_def strategy_xe_def
        demo_snap_def Let_def)
qed

theorem sts_config_current_witness:
  "\<exists>c. getOrBuildStsConfig (\<lambda>_. []) (Some ''https://sts'') strategy_cfg warm_wrapper = (Some c, warm_wrapper)
     \<and> Some (settings c) = rebuilt_sts_config (\<lambda>_. []) (Some ''https://sts'') strategy_cfg"
proof -
  obtain c where run: "getOrBuildStsConfig (\<lambda>_. []) (Some ''https://sts'') strategy_cfg warm_wrapper = (Some c, warm_wrapper)"
    by (simp add: getOrBuild_eq provider_token_url_def warm_wrapper_def Let_def)
  have "xe_Registry strategy_xe = registered_strategies" "xe_Getenv strategy_xe = (\<lambda>_. [])"
    by (simp_all add: strategy_xe_def)
  then show ?thesis
    using sts_config_current [OF warm_run, of strategy_cfg "Some ''https://sts''"] strategy_joinable run by simp
qed

end
