(* ===== verification/Watchers.thy ===== *)
theory Watchers
  imports Go_Prelude Providers "HOL-Library.Word"
begin

text \<open>
  The watchers that trigger reloads: \<open>src/pkg/kubernetes/watcher/kubeconfig.go\<close>, \<open>cluster.go\<close>
  and \<open>src/pkg/kcp/workspace_watcher.go\<close>. The three share their life cycle (\<open>Watch\<close>, a
  goroutine, \<open>Close\<close>) and the debouncing of changes by a timer.

  A channel is whether it has been closed, a pending timer its deadline, the goroutine whether
  it is running. The steps of concurrent calls are a relation; the mutex makes each step atomic,
  and \<open>Close\<close> has two of them, since it gives up the mutex while it waits. Times are
  nanoseconds.
\<close>

section \<open>State\<close>

record 'st watcher =
  wt_pollInterval :: int
  wt_debounceWindow :: int
  wt_lastKnownState :: 'st
  wt_debounceTimer :: "int option"
  wt_stopCh :: bool
  wt_stoppedCh :: bool
  wt_started :: bool
  wt_running :: bool

definition new_watcher :: "'st \<Rightarrow> int \<Rightarrow> int \<Rightarrow> 'st watcher" where
  "new_watcher zero pollInterval debounceWindow =
     \<lparr>wt_pollInterval = pollInterval, wt_debounceWindow = debounceWindow, wt_lastKnownState = zero,
      wt_debounceTimer = None, wt_stopCh = False, wt_stoppedCh = False, wt_started = False, wt_running = False\<rparr>"

text \<open>\<open>strconv.Atoi\<close>: decimal digits with an optional sign, within 64 bits.\<close>

definition digit_val :: "char \<Rightarrow> nat" where "digit_val c = of_char c - 48"

definition is_digit :: "char \<Rightarrow> bool" where
  "is_digit c \<longleftrightarrow> (48 :: nat) \<le> of_char c \<and> of_char c \<le> (57 :: nat)"

definition Atoi :: "string \<Rightarrow> int option" where
  "Atoi s =
     (let ds = (case s of c # cs \<Rightarrow> (if c = CHR ''-'' \<or> c = CHR ''+'' then cs else s) | [] \<Rightarrow> []);
          n = foldl (\<lambda>acc c. 10 * acc + int (digit_val c)) 0 ds;
          v = (if HasPrefix s ''-'' then - n else n)
      in if ds = [] \<or> \<not> list_all is_digit ds \<or> v < - (2 ^ 63) \<or> v \<ge> 2 ^ 63 then None else Some v)"

definition Millisecond :: int where "Millisecond = 1000000"
definition Second :: int where "Second = 1000 * Millisecond"

text \<open>\<open>time.Duration(ms) * time.Millisecond\<close> in 64 bits.\<close>

definition millis :: "int \<Rightarrow> int" where
  "millis ms = sint (word_of_int (ms * Millisecond) :: 64 word)"

definition env_duration :: "(string \<Rightarrow> string) \<Rightarrow> string \<Rightarrow> int \<Rightarrow> int" where
  "env_duration getenv name dflt =
     (if getenv name = [] then dflt
      else (case Atoi (getenv name) of
              Some ms \<Rightarrow> (if ms > 0 then millis ms else dflt)
            | None \<Rightarrow> dflt))"

section \<open>Operations\<close>

subsection \<open>The kubeconfig watcher\<close>

definition NewKubeconfig :: "(string \<Rightarrow> string) \<Rightarrow> unit watcher" where
  "NewKubeconfig getenv =
     new_watcher () 0 (env_duration getenv ''KUBECONFIG_DEBOUNCE_WINDOW_MS'' (100 * Millisecond))"

text \<open>
  \<open>files\<close> is the loading precedence, \<open>notifies\<close> whether a file watcher could be created. The
  goroutine starts only when there is something to watch.
\<close>

definition Kubeconfig_Watch :: "string list \<Rightarrow> bool \<Rightarrow> unit \<Rightarrow> unit watcher \<Rightarrow> unit watcher" where
  "Kubeconfig_Watch files notifies u w =
     (if wt_started w then w
      else (let w1 = w\<lparr>wt_started := True\<rparr> in
            if files = [] \<or> \<not> notifies then w1 else w1\<lparr>wt_running := True\<rparr>))"

definition Kubeconfig_event :: "int \<Rightarrow> unit \<Rightarrow> unit watcher \<Rightarrow> unit watcher" where
  "Kubeconfig_event now u w = w\<lparr>wt_debounceTimer := Some (now + wt_debounceWindow w)\<rparr>"

definition Kubeconfig_fired :: "bool \<Rightarrow> unit \<Rightarrow> unit watcher \<Rightarrow> unit watcher" where
  "Kubeconfig_fired ok u w = w\<lparr>wt_debounceTimer := None\<rparr>"

subsection \<open>The cluster state watcher\<close>

record clusterState =
  cs_apiGroups :: "string list"
  cs_isOpenShift :: bool

definition projectGVK :: GroupVersionKind where
  "projectGVK = \<lparr>gvk_Group = ''project.openshift.io'', gvk_Version = ''v1'', gvk_Kind = ''Project''\<rparr>"

definition cluster_captureState ::
  "(string, string list) result \<Rightarrow> (string \<Rightarrow> string \<Rightarrow> discovery_answer) \<Rightarrow> clusterState" where
  "cluster_captureState groups discover =
     \<lparr>cs_apiGroups = (case groups of Inl _ \<Rightarrow> [] | Inr names \<Rightarrow> sort names),
      cs_isOpenShift = (case HasGVKs discover [projectGVK] of Inl _ \<Rightarrow> False | Inr hasProject \<Rightarrow> hasProject)\<rparr>"

definition NewClusterState :: "(string \<Rightarrow> string) \<Rightarrow> clusterState watcher" where
  "NewClusterState getenv =
     new_watcher \<lparr>cs_apiGroups = [], cs_isOpenShift = False\<rparr>
       (env_duration getenv ''CLUSTER_STATE_POLL_INTERVAL_MS'' (30 * Second))
       (env_duration getenv ''CLUSTER_STATE_DEBOUNCE_WINDOW_MS'' (5 * Second))"

definition ClusterState_Watch :: "clusterState \<Rightarrow> clusterState watcher \<Rightarrow> clusterState watcher" where
  "ClusterState_Watch captured w =
     (if wt_started w then w else w\<lparr>wt_started := True, wt_lastKnownState := captured, wt_running := True\<rparr>)"

text \<open>The comparison loop: some element differs; the lists have one length there.\<close>

fun lists_differ :: "string list \<Rightarrow> string list \<Rightarrow> bool" where
  "lists_differ (x # xs) (y # ys) = (if x \<noteq> y then True else lists_differ xs ys)"
| "lists_differ _ _ = False"

definition cluster_changed :: "clusterState \<Rightarrow> clusterState \<Rightarrow> bool" where
  "cluster_changed current known =
     (let changed = (cs_isOpenShift current \<noteq> cs_isOpenShift known
            \<or> length (cs_apiGroups current) \<noteq> length (cs_apiGroups known))
      in if \<not> changed then lists_differ (cs_apiGroups current) (cs_apiGroups known) else True)"

definition ClusterState_tick :: "int \<Rightarrow> clusterState \<Rightarrow> clusterState watcher \<Rightarrow> clusterState watcher" where
  "ClusterState_tick now current w =
     (if cluster_changed current (wt_lastKnownState w) then w\<lparr>wt_debounceTimer := Some (now + wt_debounceWindow w)\<rparr>
      else w)"

text \<open>The timer's function: \<open>ok\<close> is the outcome of \<open>onChange\<close>, \<open>captured\<close> the state after it.\<close>

definition ClusterState_fired :: "bool \<Rightarrow> clusterState \<Rightarrow> clusterState watcher \<Rightarrow> clusterState watcher" where
  "ClusterState_fired ok captured w =
     (let w1 = w\<lparr>wt_debounceTimer := None\<rparr> in if ok then w1\<lparr>wt_lastKnownState := captured\<rparr> else w1)"

subsection \<open>The workspace watcher\<close>

record workspaceState =
  ws_workspaces :: "string list"

definition workspace_captureState :: "(string, string list) result \<Rightarrow> workspaceState" where
  "workspace_captureState items =
     \<lparr>ws_workspaces = (case items of Inl _ \<Rightarrow> [] | Inr names \<Rightarrow> sort (filter (\<lambda>name. name \<noteq> []) names))\<rparr>"

definition NewWorkspaceWatcher :: "(string \<Rightarrow> string) \<Rightarrow> workspaceState watcher" where
  "NewWorkspaceWatcher getenv =
     new_watcher \<lparr>ws_workspaces = []\<rparr>
       (env_duration getenv ''WORKSPACE_POLL_INTERVAL_MS'' (60 * Second))
       (env_duration getenv ''WORKSPACE_DEBOUNCE_WINDOW_MS'' (5 * Second))"

definition Workspace_Watch :: "workspaceState \<Rightarrow> workspaceState watcher \<Rightarrow> workspaceState watcher" where
  "Workspace_Watch captured w =
     (if wt_started w then w else w\<lparr>wt_started := True, wt_lastKnownState := captured, wt_running := True\<rparr>)"

definition workspace_changed :: "workspaceState \<Rightarrow> workspaceState \<Rightarrow> bool" where
  "workspace_changed current known =
     (if length (ws_workspaces current) \<noteq> length (ws_workspaces known) then True
      else lists_differ (ws_workspaces current) (ws_workspaces known))"

definition Workspace_tick :: "int \<Rightarrow> workspaceState \<Rightarrow> workspaceState watcher \<Rightarrow> workspaceState watcher" where
  "Workspace_tick now current w =
     (if workspace_changed current (wt_lastKnownState w) then w\<lparr>wt_debounceTimer := Some (now + wt_debounceWindow w)\<rparr>
      else w)"

definition Workspace_fired :: "bool \<Rightarrow> workspaceState \<Rightarrow> workspaceState watcher \<Rightarrow> workspaceState watcher" where
  "Workspace_fired ok captured w =
     (let w1 = w\<lparr>wt_debounceTimer := None\<rparr> in if ok then w1\<lparr>wt_lastKnownState := captured\<rparr> else w1)"

subsection \<open>Closing\<close>

text \<open>
  The first part of \<open>Close\<close>, the same in the three watchers: it either returns, or has closed
  \<open>stopCh\<close> and waits for the goroutine. The second part runs once \<open>stoppedCh\<close> is closed.
\<close>

datatype close_outcome = Returned | Waiting

definition Close_begin :: "'st watcher \<Rightarrow> close_outcome \<times> 'st watcher" where
  "Close_begin w =
     (let w1 = w\<lparr>wt_debounceTimer := None\<rparr> in
      if \<not> wt_started w1 then (Returned, w1)
      else if wt_stopCh w1 then (Returned, w1)
      else (Waiting, w1\<lparr>wt_stopCh := True\<rparr>))"

definition Close_end :: "'st watcher \<Rightarrow> 'st watcher" where
  "Close_end w = w\<lparr>wt_started := False, wt_stopCh := False, wt_stoppedCh := False\<rparr>"

text \<open>The goroutine's return closes \<open>stoppedCh\<close>.\<close>

definition goroutine_return :: "'st watcher \<Rightarrow> 'st watcher" where
  "goroutine_return w = w\<lparr>wt_running := False, wt_stoppedCh := True\<rparr>"

section \<open>Concurrent use\<close>

text \<open>
  A watcher and the number of \<open>Close\<close> calls that wait. \<open>drains\<close> is whether the goroutine may also
  return because its event source was closed, as the kubeconfig watcher's does.
\<close>

inductive watcher_step ::
  "('st \<Rightarrow> 'st watcher \<Rightarrow> 'st watcher) \<Rightarrow> (int \<Rightarrow> 'st \<Rightarrow> 'st watcher \<Rightarrow> 'st watcher)
   \<Rightarrow> (bool \<Rightarrow> 'st \<Rightarrow> 'st watcher \<Rightarrow> 'st watcher) \<Rightarrow> bool \<Rightarrow> 'st watcher \<times> nat \<Rightarrow> 'st watcher \<times> nat \<Rightarrow> bool"
  for watch tick fired drains where
  watches: "watcher_step watch tick fired drains (w, n) (watch captured w, n)"
| ticks: "wt_running w \<Longrightarrow> watcher_step watch tick fired drains (w, n) (tick now captured w, n)"
| fires: "wt_debounceTimer w = Some d \<Longrightarrow> watcher_step watch tick fired drains (w, n) (fired ok captured w, n)"
| stops: "wt_running w \<Longrightarrow> wt_stopCh w \<or> drains \<Longrightarrow> watcher_step watch tick fired drains (w, n) (goroutine_return w, n)"
| close_returns: "Close_begin w = (Returned, w') \<Longrightarrow> watcher_step watch tick fired drains (w, n) (w', n)"
| close_waits: "Close_begin w = (Waiting, w') \<Longrightarrow> watcher_step watch tick fired drains (w, n) (w', Suc n)"
| close_ends: "wt_stoppedCh w \<Longrightarrow> watcher_step watch tick fired drains (w, Suc n) (Close_end w, n)"

definition watcher_runs where
  "watcher_runs watch tick fired drains = (watcher_step watch tick fired drains)\<^sup>*\<^sup>*"

text \<open>
  Whatever happened to a new watcher, the waiting calls of \<open>Close\<close> can be completed.
\<close>

definition always_closes ::
  "('st \<Rightarrow> 'st watcher \<Rightarrow> 'st watcher) \<Rightarrow> (int \<Rightarrow> 'st \<Rightarrow> 'st watcher \<Rightarrow> 'st watcher)
   \<Rightarrow> (bool \<Rightarrow> 'st \<Rightarrow> 'st watcher \<Rightarrow> 'st watcher) \<Rightarrow> bool \<Rightarrow> 'st watcher \<Rightarrow> bool" where
  "always_closes watch tick fired drains w0 \<longleftrightarrow>
     (\<forall>c. watcher_runs watch tick fired drains (w0, 0) c
        \<longrightarrow> (\<exists>w. watcher_runs watch tick fired drains c (w, 0)))"

text \<open>
  What the life cycle relies on: \<open>Watch\<close> marks the watcher as started only together with the
  start of its goroutine; ticks and the timer touch neither.
\<close>

definition same_life :: "'st watcher \<Rightarrow> 'st watcher \<Rightarrow> bool" where
  "same_life w' w \<longleftrightarrow> wt_started w' = wt_started w \<and> wt_running w' = wt_running w
     \<and> wt_stopCh w' = wt_stopCh w \<and> wt_stoppedCh w' = wt_stoppedCh w"

locale watcher_life =
  fixes watch :: "'st \<Rightarrow> 'st watcher \<Rightarrow> 'st watcher"
    and tick :: "int \<Rightarrow> 'st \<Rightarrow> 'st watcher \<Rightarrow> 'st watcher"
    and fired :: "bool \<Rightarrow> 'st \<Rightarrow> 'st watcher \<Rightarrow> 'st watcher"
    and drains :: bool
  assumes watch_started: "wt_started w \<Longrightarrow> watch captured w = w"
    and watch_starts: "\<not> wt_started w \<Longrightarrow> wt_started (watch captured w) \<and> wt_running (watch captured w)
      \<and> wt_stopCh (watch captured w) = wt_stopCh w \<and> wt_stoppedCh (watch captured w) = wt_stoppedCh w"
    and tick_life: "same_life (tick now captured w) w"
    and fired_life: "same_life (fired ok captured w) w"
begin

definition life_inv :: "'st watcher \<times> nat \<Rightarrow> bool" where
  "life_inv c \<longleftrightarrow> (case c of (w, n) \<Rightarrow>
     (wt_started w \<longleftrightarrow> wt_running w \<or> wt_stoppedCh w) \<and> \<not> (wt_running w \<and> wt_stoppedCh w)
     \<and> (if wt_stopCh w then wt_started w \<and> n = 1 else n = 0))"

lemma life_inv_new: "life_inv (new_watcher s p d, 0)"
  by (simp add: life_inv_def new_watcher_def)

lemma life_inv_same: "same_life w' w \<Longrightarrow> life_inv (w', n) = life_inv (w, n)"
  by (simp add: life_inv_def same_life_def)

lemma life_inv_step:
  assumes "watcher_step watch tick fired drains c c'" "life_inv c"
  shows "life_inv c'"
  using assms
proof (induction rule: watcher_step.induct)
  case (watches w n captured)
  then show ?case
    using watch_started [of w captured] watch_starts [of w captured]
    by (cases "wt_started w") (auto simp: life_inv_def split: if_splits)
next
  case (ticks w n now captured) then show ?case using life_inv_same [OF tick_life] by simp
next
  case (fires w d n ok captured) then show ?case using life_inv_same [OF fired_life] by simp
qed (auto simp: life_inv_def Close_begin_def Close_end_def goroutine_return_def Let_def split: if_splits)

lemma life_inv_runs: "watcher_runs watch tick fired drains c c' \<Longrightarrow> life_inv c \<Longrightarrow> life_inv c'"
  unfolding watcher_runs_def by (induction rule: rtranclp_induct) (auto intro: life_inv_step)

text \<open>A waiting call completes as soon as the goroutine has seen \<open>stopCh\<close>.\<close>

lemma waiting_completes:
  assumes "life_inv (w, n)"
  shows "\<exists>w'. watcher_runs watch tick fired drains (w, n) (w', 0)"
proof (cases "wt_stopCh w")
  case False
  then show ?thesis using assms unfolding watcher_runs_def life_inv_def by auto
next
  case True
  then have n: "n = Suc 0" and started: "wt_running w \<or> wt_stoppedCh w"
    using assms by (auto simp: life_inv_def)
  have ends: "watcher_runs watch tick fired drains (v, Suc 0) (Close_end v, 0)" if "wt_stoppedCh v" for v
    unfolding watcher_runs_def using watcher_step.close_ends [OF that] by blast
  show ?thesis
  proof (cases "wt_stoppedCh w")
    case stopped: True
    then show ?thesis using ends n by blast
  next
    case False
    then have "watcher_step watch tick fired drains (w, Suc 0) (goroutine_return w, Suc 0)"
      using started True by (intro watcher_step.stops) auto
    moreover have "wt_stoppedCh (goroutine_return w)" by (simp add: goroutine_return_def)
    ultimately show ?thesis
      using ends n unfolding watcher_runs_def by (meson converse_rtranclp_into_rtranclp)
  qed
qed

lemma life_always_closes: "always_closes watch tick fired drains (new_watcher s p d)"
  unfolding always_closes_def
proof (intro allI impI)
  fix c
  assume "watcher_runs watch tick fired drains (new_watcher s p d, 0) c"
  then have "life_inv (fst c, snd c)" using life_inv_runs life_inv_new by (metis prod.collapse)
  then show "\<exists>w. watcher_runs watch tick fired drains c (w, 0)" using waiting_completes by fastforce
qed

end

interpretation cluster_life: watcher_life ClusterState_Watch ClusterState_tick ClusterState_fired False
  by unfold_locales
     (auto simp: ClusterState_Watch_def ClusterState_tick_def ClusterState_fired_def same_life_def Let_def)

interpretation workspace_life: watcher_life Workspace_Watch Workspace_tick Workspace_fired False
  by unfold_locales
     (auto simp: Workspace_Watch_def Workspace_tick_def Workspace_fired_def same_life_def Let_def)

text \<open>The kubeconfig watcher keeps the contract once it has files to watch.\<close>

definition Kubeconfig_Watch_active :: "unit \<Rightarrow> unit watcher \<Rightarrow> unit watcher" where
  "Kubeconfig_Watch_active = Kubeconfig_Watch [[]] True"

lemma Kubeconfig_Watch_files: "files \<noteq> [] \<Longrightarrow> notifies \<Longrightarrow> Kubeconfig_Watch files notifies = Kubeconfig_Watch_active"
  by (auto simp: Kubeconfig_Watch_active_def Kubeconfig_Watch_def fun_eq_iff)

interpretation kubeconfig_life: watcher_life Kubeconfig_Watch_active Kubeconfig_event Kubeconfig_fired True
  by unfold_locales
     (auto simp: Kubeconfig_Watch_active_def Kubeconfig_Watch_def Kubeconfig_event_def Kubeconfig_fired_def
       same_life_def Let_def)

text \<open>Without files, \<open>Close\<close> waits for a goroutine that was never started.\<close>

definition stuck :: "unit watcher \<times> nat \<Rightarrow> bool" where
  "stuck c \<longleftrightarrow> (case c of (w, n) \<Rightarrow> n > 0 \<and> wt_started w \<and> wt_stopCh w \<and> \<not> wt_running w \<and> \<not> wt_stoppedCh w)"

lemma stuck_step:
  assumes "watcher_step (Kubeconfig_Watch files notifies) Kubeconfig_event Kubeconfig_fired True c c'" "stuck c"
  shows "stuck c'"
  using assms
  by (induction rule: watcher_step.induct)
     (auto simp: stuck_def Kubeconfig_Watch_def Kubeconfig_fired_def Close_begin_def Let_def split: if_splits)

lemma kubeconfig_close_hangs:
  assumes "files = [] \<or> \<not> notifies"
  shows "\<not> always_closes (Kubeconfig_Watch files notifies) Kubeconfig_event Kubeconfig_fired True (new_watcher () p d)"
proof
  let ?step = "watcher_step (Kubeconfig_Watch files notifies) Kubeconfig_event Kubeconfig_fired True"
  let ?w = "(new_watcher () p d)\<lparr>wt_started := True\<rparr>"
  assume closes: "always_closes (Kubeconfig_Watch files notifies) Kubeconfig_event Kubeconfig_fired True (new_watcher () p d)"
  have "?step (new_watcher () p d, 0) (Kubeconfig_Watch files notifies () (new_watcher () p d), 0)"
    by (rule watcher_step.watches)
  then have one: "?step (new_watcher () p d, 0) (?w, 0)"
    using assms by (auto simp: Kubeconfig_Watch_def new_watcher_def)
  have two: "?step (?w, 0) (?w\<lparr>wt_stopCh := True\<rparr>, Suc 0)"
    by (rule watcher_step.close_waits) (simp add: Close_begin_def new_watcher_def)
  have runs: "?step\<^sup>*\<^sup>* (new_watcher () p d, 0) (?w\<lparr>wt_stopCh := True\<rparr>, Suc 0)"
    using one two by (meson converse_rtranclp_into_rtranclp rtranclp.rtrancl_refl)
  then obtain w where "?step\<^sup>*\<^sup>* (?w\<lparr>wt_stopCh := True\<rparr>, Suc 0) (w, 0)"
    using closes by (auto simp: always_closes_def watcher_runs_def)
  then have "stuck (w, 0)"
  proof (induction rule: rtranclp_induct)
    case base then show ?case by (simp add: stuck_def new_watcher_def)
  next
    case (step c c') then show ?case using stuck_step by blast
  qed
  then show False by (simp add: stuck_def)
qed

text \<open>
  C34: closing a watcher always succeeds, with one exception. In every reachable state of
  a cluster state or workspace watcher, in whatever order Watch, ticks, timers and Close calls
  interleave, the waiting Close calls can be completed. The kubeconfig watcher has that property
  exactly if it has files to watch and could create a file watcher: otherwise it counts as
  started without a goroutine, and its Close waits forever.
\<close>

theorem watcher_close_liveness:
  "always_closes ClusterState_Watch ClusterState_tick ClusterState_fired False (NewClusterState getenv)
   \<and> always_closes Workspace_Watch Workspace_tick Workspace_fired False (NewWorkspaceWatcher getenv)
   \<and> (always_closes (Kubeconfig_Watch files notifies) Kubeconfig_event Kubeconfig_fired True (NewKubeconfig getenv)
        \<longleftrightarrow> files \<noteq> [] \<and> notifies)"
proof (intro conjI)
  show "always_closes ClusterState_Watch ClusterState_tick ClusterState_fired False (NewClusterState getenv)"
    unfolding NewClusterState_def by (rule cluster_life.life_always_closes)
  show "always_closes Workspace_Watch Workspace_tick Workspace_fired False (NewWorkspaceWatcher getenv)"
    unfolding NewWorkspaceWatcher_def by (rule workspace_life.life_always_closes)
  show "always_closes (Kubeconfig_Watch files notifies) Kubeconfig_event Kubeconfig_fired True (NewKubeconfig getenv)
        \<longleftrightarrow> files \<noteq> [] \<and> notifies"
    unfolding NewKubeconfig_def
    using kubeconfig_close_hangs kubeconfig_life.life_always_closes Kubeconfig_Watch_files by metis
qed

text \<open>
  \<open>Close\<close> stops the timer before it waits. A tick that the goroutine takes before it sees \<open>stopCh\<close>
  sets a new one: the watcher is closed with a pending reload.
\<close>

lemma close_leaves_timer:
  assumes "cluster_changed s (wt_lastKnownState w)" "wt_running w" "wt_started w" "\<not> wt_stopCh w"
  shows "\<exists>w'. watcher_runs ClusterState_Watch ClusterState_tick ClusterState_fired False (w, 0) (w', 0)
     \<and> \<not> wt_started w' \<and> wt_debounceTimer w' = Some (now + wt_debounceWindow w)"
proof -
  let ?step = "watcher_step ClusterState_Watch ClusterState_tick ClusterState_fired False"
  let ?w1 = "w\<lparr>wt_debounceTimer := None, wt_stopCh := True\<rparr>"
  let ?w2 = "ClusterState_tick now s ?w1"
  have "?step (w, 0) (?w1, Suc 0)"
    by (rule watcher_step.close_waits) (use assms in \<open>simp add: Close_begin_def\<close>)
  moreover have "?step (?w1, Suc 0) (?w2, Suc 0)"
    by (rule watcher_step.ticks) (use assms in simp)
  moreover have "?step (?w2, Suc 0) (goroutine_return ?w2, Suc 0)"
    by (rule watcher_step.stops) (use assms in \<open>simp_all add: ClusterState_tick_def\<close>)
  moreover have "?step (goroutine_return ?w2, Suc 0) (Close_end (goroutine_return ?w2), 0)"
    by (rule watcher_step.close_ends) (simp add: goroutine_return_def)
  ultimately have "?step\<^sup>*\<^sup>* (w, 0) (Close_end (goroutine_return ?w2), 0)"
    by (meson converse_rtranclp_into_rtranclp rtranclp.rtrancl_refl)
  moreover have "\<not> wt_started (Close_end (goroutine_return ?w2))"
    "wt_debounceTimer (Close_end (goroutine_return ?w2)) = Some (now + wt_debounceWindow w)"
    using assms by (simp_all add: Close_end_def goroutine_return_def ClusterState_tick_def)
  ultimately show ?thesis unfolding watcher_runs_def by blast
qed

section \<open>Polling over time\<close>

text \<open>
  A watcher over its ticks, at the multiples of the poll interval: a timer that is due by
  then has fired. \<open>st\<close> is the state of the cluster and \<open>ok\<close> the outcome of a reload at a
  time; the result has the times of the reloads.
\<close>

definition fire_due ::
  "(bool \<Rightarrow> 'st \<Rightarrow> 'st watcher \<Rightarrow> 'st watcher) \<Rightarrow> (int \<Rightarrow> 'st) \<Rightarrow> (int \<Rightarrow> bool) \<Rightarrow> int
   \<Rightarrow> 'st watcher \<times> int list \<Rightarrow> 'st watcher \<times> int list" where
  "fire_due fired st ok now c = (case c of (w, rs) \<Rightarrow>
     (case wt_debounceTimer w of
        Some d \<Rightarrow> (if d \<le> now then (fired (ok d) (st d) w, rs @ [d]) else (w, rs))
      | None \<Rightarrow> (w, rs)))"

primrec poll_run ::
  "(int \<Rightarrow> 'st \<Rightarrow> 'st watcher \<Rightarrow> 'st watcher) \<Rightarrow> (bool \<Rightarrow> 'st \<Rightarrow> 'st watcher \<Rightarrow> 'st watcher)
   \<Rightarrow> (int \<Rightarrow> 'st) \<Rightarrow> (int \<Rightarrow> bool) \<Rightarrow> 'st watcher \<Rightarrow> nat \<Rightarrow> 'st watcher \<times> int list" where
  "poll_run tick fired st ok w 0 = (w, [])"
| "poll_run tick fired st ok w (Suc n) =
     (let now = int (Suc n) * wt_pollInterval w in
      case fire_due fired st ok now (poll_run tick fired st ok w n) of
        (w1, rs) \<Rightarrow> (tick now (st now) w1, rs))"

lemma lists_differ_iff: "length xs = length ys \<Longrightarrow> lists_differ xs ys \<longleftrightarrow> xs \<noteq> ys"
  by (induction xs ys rule: list_induct2) auto

lemma cluster_changed_iff: "cluster_changed a b \<longleftrightarrow> a \<noteq> b"
  by (cases a; cases b) (auto simp: cluster_changed_def lists_differ_iff Let_def)

lemma workspace_changed_iff: "workspace_changed a b \<longleftrightarrow> a \<noteq> b"
  by (cases a; cases b) (auto simp: workspace_changed_def lists_differ_iff)

text \<open>What the polling watchers do at a tick and when their timer fires.\<close>

locale polled_watcher =
  fixes tick :: "int \<Rightarrow> 'st \<Rightarrow> 'st watcher \<Rightarrow> 'st watcher"
    and fired :: "bool \<Rightarrow> 'st \<Rightarrow> 'st watcher \<Rightarrow> 'st watcher"
  assumes tick: "tick now s w =
      (if s \<noteq> wt_lastKnownState w then w\<lparr>wt_debounceTimer := Some (now + wt_debounceWindow w)\<rparr> else w)"
    and fired: "fired ok s w = (if ok then w\<lparr>wt_debounceTimer := None, wt_lastKnownState := s\<rparr>
      else w\<lparr>wt_debounceTimer := None\<rparr>)"
begin

lemma fields:
  "wt_debounceTimer (tick now s w) = (if s \<noteq> wt_lastKnownState w then Some (now + wt_debounceWindow w) else wt_debounceTimer w)"
  "wt_lastKnownState (tick now s w) = wt_lastKnownState w"
  "wt_debounceWindow (tick now s w) = wt_debounceWindow w" "wt_pollInterval (tick now s w) = wt_pollInterval w"
  "wt_debounceTimer (fired ok s w) = None"
  "wt_lastKnownState (fired ok s w) = (if ok then s else wt_lastKnownState w)"
  "wt_debounceWindow (fired ok s w) = wt_debounceWindow w" "wt_pollInterval (fired ok s w) = wt_pollInterval w"
  by (simp_all add: tick fired)

lemma run_settings:
  "wt_pollInterval (fst (poll_run tick fired st ok w n)) = wt_pollInterval w
   \<and> wt_debounceWindow (fst (poll_run tick fired st ok w n)) = wt_debounceWindow w"
  by (induction n) (auto simp: fire_due_def fields Let_def split: prod.splits option.splits)

text \<open>The window is shorter than the interval: every timer has fired by the next tick.\<close>

lemma run_timer:
  assumes "wt_debounceTimer w = None" "wt_debounceWindow w < wt_pollInterval w"
  shows "wt_debounceTimer (fst (poll_run tick fired st ok w n)) \<in> {None, Some (int n * wt_pollInterval w + wt_debounceWindow w)}"
proof (induction n)
  case (Suc n)
  obtain v rs where v: "poll_run tick fired st ok w n = (v, rs)" by fastforce
  then have "wt_debounceWindow v = wt_debounceWindow w"
    using run_settings [of st ok w n] by simp
  then show ?case
    using assms(2) Suc unfolding poll_run.simps v by (auto simp: fire_due_def fields Let_def distrib_right split: if_splits)
qed (use assms in simp)

lemma run_Suc:
  assumes "wt_debounceTimer w = None" "wt_debounceWindow w < wt_pollInterval w"
  shows "poll_run tick fired st ok w (Suc n) =
     (let now = int (Suc n) * wt_pollInterval w; d = int n * wt_pollInterval w + wt_debounceWindow w in
      case poll_run tick fired st ok w n of
        (v, rs) \<Rightarrow> if wt_debounceTimer v = None then (tick now (st now) v, rs)
                    else (tick now (st now) (fired (ok d) (st d) v), rs @ [d]))"
proof -
  obtain v rs where v: "poll_run tick fired st ok w n = (v, rs)" by fastforce
  then have "wt_debounceTimer v \<in> {None, Some (int n * wt_pollInterval w + wt_debounceWindow w)}"
    using run_timer [OF assms, of st ok n] by simp
  then show ?thesis
    using assms(2) by (auto simp: v fire_due_def Let_def distrib_right)
qed

text \<open>A tick at a settled state sets the timer exactly if the state differs from the known one.\<close>

lemma run_pending:
  assumes w: "wt_debounceTimer w = None" "wt_debounceWindow w < wt_pollInterval w"
    and st: "st (int (Suc n) * wt_pollInterval w) = s"
  shows "wt_debounceTimer (fst (poll_run tick fired st ok w (Suc n)))
     = (if wt_lastKnownState (fst (poll_run tick fired st ok w (Suc n))) = s then None
        else Some (int (Suc n) * wt_pollInterval w + wt_debounceWindow w))"
proof -
  obtain v rs where v: "poll_run tick fired st ok w n = (v, rs)" by fastforce
  then have "wt_debounceWindow v = wt_debounceWindow w"
    using run_settings [of st ok w n] by simp
  then show ?thesis
    unfolding run_Suc [OF w] using st by (auto simp: v fields Let_def)
qed

text \<open>A settled state that the last reload has seen stays known, without further reloads.\<close>

lemma run_quiet:
  assumes w: "wt_debounceTimer w = None" "wt_debounceWindow w < wt_pollInterval w"
    and st: "\<And>t. t \<ge> int k * wt_pollInterval w \<Longrightarrow> st t = s" "0 < wt_pollInterval w"
    and known: "poll_run tick fired st ok w k = (v, rs)" "wt_lastKnownState v = s" "wt_debounceTimer v = None"
  shows "k \<le> m \<Longrightarrow> poll_run tick fired st ok w m = (v, rs)"
proof (induction m rule: dec_induct)
  case base then show ?case using known by simp
next
  case (step m)
  have "int k * wt_pollInterval w \<le> int (Suc m) * wt_pollInterval w"
    using step(1) st(2) by (intro mult_right_mono) auto
  then have "st (int (Suc m) * wt_pollInterval w) = s" by (rule st(1))
  then show ?case
    unfolding run_Suc [OF w] step.IH using known by (simp add: tick Let_def)
qed

lemma run_settles:
  assumes w: "wt_debounceTimer w = None" "0 < wt_debounceWindow w" "wt_debounceWindow w < wt_pollInterval w"
    and st: "\<And>t. t \<ge> int k * wt_pollInterval w \<Longrightarrow> st t = s" "0 < k"
    and ok: "ok (int k * wt_pollInterval w + wt_debounceWindow w)" and m: "k < m"
  shows "wt_lastKnownState (fst (poll_run tick fired st ok w m)) = s"
    and "snd (poll_run tick fired st ok w m) = snd (poll_run tick fired st ok w (Suc k))"
proof -
  obtain j where k: "k = Suc j" using st(2) by (cases k) auto
  obtain v rs where v: "poll_run tick fired st ok w k = (v, rs)" by fastforce
  have "st (int (Suc j) * wt_pollInterval w) = s" using st(1) k by simp
  then have timer: "wt_debounceTimer v = (if wt_lastKnownState v = s then None
      else Some (int k * wt_pollInterval w + wt_debounceWindow w))"
    using run_pending [OF w(1,3), of st j s ok] v k by simp
  have now: "st (int k * wt_pollInterval w + wt_debounceWindow w) = s" "st (int (Suc k) * wt_pollInterval w) = s"
    using st(1) w(2,3) by (simp_all add: distrib_right)
  obtain v' rs' where v': "poll_run tick fired st ok w (Suc k) = (v', rs')" by fastforce
  have known: "wt_lastKnownState v' = s" "wt_debounceTimer v' = None"
    using v' timer now ok unfolding run_Suc [OF w(1,3)]
    by (auto simp: v fields Let_def split: if_splits)
  have later: "st t = s" if "t \<ge> int (Suc k) * wt_pollInterval w" for t
    using that st(1) w(2,3) by (simp add: distrib_right)
  have "poll_run tick fired st ok w m = (v', rs')"
    by (rule run_quiet [OF w(1,3) later _ v' known]) (use w m in auto)
  then show "wt_lastKnownState (fst (poll_run tick fired st ok w m)) = s"
    "snd (poll_run tick fired st ok w m) = snd (poll_run tick fired st ok w (Suc k))"
    using known v' by simp_all
qed

text \<open>The window is longer than the interval: each tick postpones the reload again.\<close>

lemma run_starves:
  assumes w: "wt_debounceTimer w = None" "wt_pollInterval w < wt_debounceWindow w"
    and st: "\<And>t. st t = s" "s \<noteq> wt_lastKnownState w"
  shows "snd (poll_run tick fired st ok w n) = []"
proof -
  have "snd (poll_run tick fired st ok w n) = []
     \<and> wt_lastKnownState (fst (poll_run tick fired st ok w n)) = wt_lastKnownState w
     \<and> wt_debounceTimer (fst (poll_run tick fired st ok w n)) \<in> {None, Some (int n * wt_pollInterval w + wt_debounceWindow w)}"
  proof (induction n)
    case (Suc n)
    obtain v rs where v: "poll_run tick fired st ok w n = (v, rs)" by fastforce
    then have "wt_debounceWindow v = wt_debounceWindow w"
      using run_settings [of st ok w n] by simp
    then show ?case
      using w(2) st Suc unfolding poll_run.simps v by (auto simp: fire_due_def fields Let_def distrib_right split: if_splits)
  qed (use w in simp)
  then show ?thesis by blast
qed

end

interpretation cluster_poll: polled_watcher ClusterState_tick ClusterState_fired
  by unfold_locales (auto simp: ClusterState_tick_def ClusterState_fired_def cluster_changed_iff Let_def)

interpretation workspace_poll: polled_watcher Workspace_tick Workspace_fired
  by unfold_locales (auto simp: Workspace_tick_def Workspace_fired_def workspace_changed_iff Let_def)


text \<open>The default watcher, and a cluster that turns out to be OpenShift from the second tick on.\<close>

lemma default_watcher:
  "wt_debounceTimer (NewClusterState (\<lambda>_. [])) = None" "wt_pollInterval (NewClusterState (\<lambda>_. [])) = 30 * Second"
  "wt_debounceWindow (NewClusterState (\<lambda>_. [])) = 5 * Second" "0 < Second"
  by (simp_all add: NewClusterState_def new_watcher_def env_duration_def Second_def Millisecond_def)


end
