(* ===== verification/Kcp.thy ===== *)
theory Kcp
  imports Identity
begin

text \<open>
  The kcp provider: \<open>src/pkg/kcp/workspace.go\<close>, \<open>provider.go\<close> and \<open>kcp.go\<close>. Workspaces form
  a hierarchy that is discovered through the API of each workspace; each workspace is a target
  with a manager of its own.

  Listing the child workspaces at a URL is a parameter: an error stands for a client that cannot
  be built or a list that fails. Discovery recurses as deep as the hierarchy; the model bounds
  the depth by fuel, and the result \<open>None\<close> is a recursion that has not returned yet.
\<close>

section \<open>URLs\<close>

definition clusters_segment :: string where "clusters_segment = ''/clusters/''"

definition ParseServerURL :: "string \<Rightarrow> string \<times> string" where
  "ParseServerURL serverURL =
     (case Index serverURL clusters_segment of
        None \<Rightarrow> (serverURL, [])
      | Some clustersIndex \<Rightarrow>
          (take clustersIndex serverURL,
           TrimSuffix (drop (clustersIndex + length clusters_segment) serverURL) ''/''))"

definition ExtractWorkspaceFromURL :: "string \<Rightarrow> string" where
  "ExtractWorkspaceFromURL serverURL = snd (ParseServerURL serverURL)"

definition ConstructWorkspaceURL :: "string \<Rightarrow> string \<Rightarrow> string" where
  "ConstructWorkspaceURL baseURL workspace = baseURL @ ''/clusters/'' @ workspace"

section \<open>Discovery\<close>

fun DiscoverWorkspacesRecursive ::
  "(string \<Rightarrow> (string, string list) result) \<Rightarrow> string \<Rightarrow> nat \<Rightarrow> string \<Rightarrow> string list \<Rightarrow> string list option"
and discover_items ::
  "(string \<Rightarrow> (string, string list) result) \<Rightarrow> string \<Rightarrow> nat \<Rightarrow> string \<Rightarrow> string list \<Rightarrow> string list \<Rightarrow> string list option" where
  "DiscoverWorkspacesRecursive ls host 0 parentWorkspace discovered = None"
| "DiscoverWorkspacesRecursive ls host (Suc fuel) parentWorkspace discovered =
     (case ls (ConstructWorkspaceURL (fst (ParseServerURL host)) parentWorkspace) of
        Inl _ \<Rightarrow> Some discovered
      | Inr items \<Rightarrow> discover_items ls host fuel parentWorkspace items discovered)"
| "discover_items ls host fuel parentWorkspace [] discovered = Some discovered"
| "discover_items ls host fuel parentWorkspace (childName # items) discovered =
     (if childName = [] then discover_items ls host fuel parentWorkspace items discovered
      else
        (let fullPath = parentWorkspace @ '':'' @ childName in
         if fullPath \<in> set discovered then discover_items ls host fuel parentWorkspace items discovered
         else (case DiscoverWorkspacesRecursive ls host fuel fullPath (discovered @ [fullPath]) of
                 None \<Rightarrow> None
               | Some discovered1 \<Rightarrow> discover_items ls host fuel parentWorkspace items discovered1)))"

text \<open>The recursion gives no error: what cannot be listed is skipped.\<close>

definition DiscoverAllWorkspaces ::
  "(string \<Rightarrow> (string, string list) result) \<Rightarrow> string \<Rightarrow> nat \<Rightarrow> string \<Rightarrow> (string, string list) result option" where
  "DiscoverAllWorkspaces ls host fuel rootWorkspace =
     map_option Inr (DiscoverWorkspacesRecursive ls host fuel rootWorkspace [rootWorkspace])"

definition ListWorkspaces ::
  "(string \<Rightarrow> (string, string list) result) \<Rightarrow> rest_config \<Rightarrow> nat \<Rightarrow> (string, string list) result option" where
  "ListWorkspaces ls restConfig fuel =
     (let currentWorkspace = ExtractWorkspaceFromURL (rc_Host restConfig) in
      DiscoverAllWorkspaces ls (rc_Host restConfig) fuel
        (if currentWorkspace = [] then ''root'' else currentWorkspace))"

section \<open>The provider\<close>

record kcp_cluster =
  kl_Server :: string
  kl_CAData :: string
  kl_CA :: string
  kl_Insecure :: bool

record kcp_context =
  kt_Cluster :: string
  kt_AuthInfo :: string

record kcp_raw =
  kr_CurrentContext :: string
  kr_Contexts :: "(string \<times> kcp_context) list"
  kr_Clusters :: "(string \<times> kcp_cluster) list"
  kr_AuthInfos :: "string list"

text \<open>What the manager of a workspace keeps of a kubeconfig.\<close>

definition raw_of :: "kcp_raw \<Rightarrow> raw_config" where
  "raw_of r = \<lparr>rk_CurrentContext = kr_CurrentContext r, rk_Contexts = map fst (kr_Contexts r), rk_AuthInfos = kr_AuthInfos r\<rparr>"

record 'w kcp_env =
  kx_Kube :: "'w kube_env"
  kx_RawConfig :: "string \<Rightarrow> 'w \<Rightarrow> (string, kcp_raw) result"
  kx_ClientConfig :: "string \<Rightarrow> 'w \<Rightarrow> (string, rest_config) result"
  kx_List :: "rest_config \<Rightarrow> string \<Rightarrow> 'w \<Rightarrow> (string, string list) result"

record kcpClusterProvider =
  kw_BaseConfig :: StaticConfig
  kw_baseServerURL :: string
  kw_restConfig :: "rest_config option"
  kw_defaultWorkspace :: string
  kw_managers :: "(string \<times> Manager option) list"

datatype kcp_error =
    KcpLoad string
  | NoCurrentContext
  | NoCurrentCluster
  | NoWorkspaceInURL
  | KcpRestConfig string
  | KcpBaseManager mgr_error
  | KcpDiscovery string
  | KcpClient derive_error

definition workspacesFromKubeconfig ::
  "'w kcp_env \<Rightarrow> kcpClusterProvider \<Rightarrow> 'w \<Rightarrow> (string, string list) result" where
  "workspacesFromKubeconfig env p w =
     (case kx_RawConfig env (c_KubeConfig (kw_BaseConfig p)) w of
        Inl e \<Rightarrow> Inl e
      | Inr raw \<Rightarrow> Inr (remdups (filter (\<lambda>ws. ws \<noteq> [])
                    (map (\<lambda>(_, cluster). ExtractWorkspaceFromURL (kl_Server cluster)) (kr_Clusters raw)))))"

definition kcp_workspaces ::
  "'w kcp_env \<Rightarrow> nat \<Rightarrow> kcpClusterProvider \<Rightarrow> rest_config \<Rightarrow> 'w \<Rightarrow> (string, string list) result option" where
  "kcp_workspaces env fuel p restConfig w =
     (case DiscoverAllWorkspaces (\<lambda>url. kx_List env restConfig url w) (rc_Host restConfig) fuel (kw_defaultWorkspace p) of
        None \<Rightarrow> None
      | Some (Inl _) \<Rightarrow> Some (workspacesFromKubeconfig env p w)
      | Some (Inr workspaceList) \<Rightarrow> Some (Inr workspaceList))"

definition kcp_current_cluster :: "kcp_raw \<Rightarrow> (kcp_error, kcp_cluster) result" where
  "kcp_current_cluster raw =
     (case map_of (kr_Contexts raw) (kr_CurrentContext raw) of
        None \<Rightarrow> Inl NoCurrentContext
      | Some currentContext \<Rightarrow>
          (case map_of (kr_Clusters raw) (kt_Cluster currentContext) of
             None \<Rightarrow> Inl NoCurrentCluster
           | Some currentCluster \<Rightarrow> Inr currentCluster))"

text \<open>The last steps: the managers of the workspaces, then a client for the watchers.\<close>

definition kcp_store ::
  "'w kcp_env \<Rightarrow> 'w call_ctx \<Rightarrow> Manager \<Rightarrow> string list \<Rightarrow> kcpClusterProvider \<Rightarrow> kcp_error option \<times> kcpClusterProvider" where
  "kcp_store env ctx baseManager workspaceList p =
     ((case Derived (ke_Client (kx_Kube env)) baseManager ctx of Inl e \<Rightarrow> Some (KcpClient e) | Inr _ \<Rightarrow> None),
      p\<lparr>kw_managers := AList.update (kw_defaultWorkspace p) (Some baseManager) (map (\<lambda>ws. (ws, None)) workspaceList)\<rparr>)"

text \<open>
  \<open>reset\<close> stores what it has found as it goes: the failures after the first steps leave a provider
  with some of its fields changed. \<open>ctx\<close> is the context of the caller.
\<close>

definition kcp_reset ::
  "'w kcp_env \<Rightarrow> nat \<Rightarrow> 'w call_ctx \<Rightarrow> kcpClusterProvider \<Rightarrow> 'w \<Rightarrow> (kcp_error option \<times> kcpClusterProvider) option" where
  "kcp_reset env fuel ctx p w =
     (let path = c_KubeConfig (kw_BaseConfig p) in
      case kx_RawConfig env path w of
        Inl e \<Rightarrow> Some (Some (KcpLoad e), p)
      | Inr raw \<Rightarrow>
          (case kcp_current_cluster raw of
             Inl e \<Rightarrow> Some (Some e, p)
           | Inr currentCluster \<Rightarrow>
               (let p1 = p\<lparr>kw_baseServerURL := fst (ParseServerURL (kl_Server currentCluster)),
                           kw_defaultWorkspace := snd (ParseServerURL (kl_Server currentCluster))\<rparr>
                in if kw_defaultWorkspace p1 = [] then Some (Some NoWorkspaceInURL, p1)
                   else
                     (case kx_ClientConfig env path w of
                        Inl e \<Rightarrow> Some (Some (KcpRestConfig e), p1\<lparr>kw_restConfig := None\<rparr>)
                      | Inr restConfig \<Rightarrow>
                          (let p2 = p1\<lparr>kw_restConfig := Some restConfig\<rparr> in
                           case NewKubeconfigManager (kx_Kube env) (kw_BaseConfig p) (kr_CurrentContext raw) w of
                             Inl e \<Rightarrow> Some (Some (KcpBaseManager e), p2)
                           | Inr baseManager \<Rightarrow>
                               (case kcp_workspaces env fuel p2 restConfig w of
                                  None \<Rightarrow> None
                                | Some (Inl e) \<Rightarrow> Some (Some (KcpDiscovery e), p2)
                                | Some (Inr workspaceList) \<Rightarrow> Some (kcp_store env ctx baseManager workspaceList p2)))))))"

definition newKcpClusterProvider ::
  "'w kcp_env \<Rightarrow> nat \<Rightarrow> 'w call_ctx \<Rightarrow> StaticConfig \<Rightarrow> 'w \<Rightarrow> (kcp_error, kcpClusterProvider) result option" where
  "newKcpClusterProvider env fuel ctx cfg w =
     (case kcp_reset env fuel ctx \<lparr>kw_BaseConfig = cfg, kw_baseServerURL = [], kw_restConfig = None,
              kw_defaultWorkspace = [], kw_managers = []\<rparr> w of
        None \<Rightarrow> None
      | Some (Some e, _) \<Rightarrow> Some (Inl e)
      | Some (None, p) \<Rightarrow> Some (Inr p))"

text \<open>
  The context of a workspace, and the kubeconfig extended with it. A context without its
  cluster, or no current context, is a nil dereference: the result \<open>None\<close>.
\<close>

fun find_workspace_context ::
  "(string \<times> kcp_cluster) list \<Rightarrow> string \<Rightarrow> (string \<times> kcp_context) list \<Rightarrow> string option option" where
  "find_workspace_context clusters workspace [] = Some None"
| "find_workspace_context clusters workspace ((ctxName, ctx) # contexts) =
     (case map_of clusters (kt_Cluster ctx) of
        None \<Rightarrow> None
      | Some cluster \<Rightarrow>
          (if ExtractWorkspaceFromURL (kl_Server cluster) = workspace then Some (Some ctxName)
           else find_workspace_context clusters workspace contexts))"

definition findOrCreateWorkspaceContext ::
  "string \<Rightarrow> kcp_raw \<Rightarrow> string \<Rightarrow> (string \<times> kcp_raw) option" where
  "findOrCreateWorkspaceContext baseServerURL raw workspace =
     (case find_workspace_context (kr_Clusters raw) workspace (kr_Contexts raw) of
        None \<Rightarrow> None
      | Some (Some ctxName) \<Rightarrow> Some (ctxName, raw)
      | Some None \<Rightarrow>
          (case map_of (kr_Contexts raw) (kr_CurrentContext raw) of
             None \<Rightarrow> None
           | Some currentContext \<Rightarrow>
               (case map_of (kr_Clusters raw) (kt_Cluster currentContext) of
                  None \<Rightarrow> None
                | Some currentCluster \<Rightarrow>
                    (let contextName = ''kcp-'' @ workspace; clusterName = ''kcp-cluster-'' @ workspace in
                     Some (contextName,
                       raw\<lparr>kr_Clusters := AList.update clusterName
                              \<lparr>kl_Server = ConstructWorkspaceURL baseServerURL workspace, kl_CAData = kl_CAData currentCluster,
                               kl_CA = kl_CA currentCluster, kl_Insecure = kl_Insecure currentCluster\<rparr> (kr_Clusters raw),
                            kr_Contexts := AList.update contextName
                              \<lparr>kt_Cluster = clusterName, kt_AuthInfo = kt_AuthInfo currentContext\<rparr> (kr_Contexts raw)\<rparr>)))))"

definition create_workspace_manager ::
  "'w kcp_env \<Rightarrow> string \<Rightarrow> kcpClusterProvider \<Rightarrow> 'w \<Rightarrow> (derive_error, Manager) result" where
  "create_workspace_manager env workspace p w =
     (case kw_restConfig p of
        None \<Rightarrow> Inl (DeriveError ''nil rest config'')
      | Some restConfig \<Rightarrow>
          (case kx_RawConfig env (c_KubeConfig (kw_BaseConfig p)) w of
             Inl e \<Rightarrow> Inl (DeriveError (''failed to get kubeconfig: '' @ e))
           | Inr raw \<Rightarrow>
               (case findOrCreateWorkspaceContext (kw_baseServerURL p) raw workspace of
                  None \<Rightarrow> Inl (DeriveError ''nil cluster'')
                | Some (contextName, raw1) \<Rightarrow>
                    mapErr (\<lambda>_. DeriveError (''failed to create manager for workspace '' @ workspace))
                      (NewManager (kx_Kube env) (kw_BaseConfig p)
                         (restConfig\<lparr>rc_Host := ConstructWorkspaceURL (kw_baseServerURL p) workspace\<rparr>)
                         (Inr (raw_of raw1))))))"

definition managerForWorkspace ::
  "'w kcp_env \<Rightarrow> string \<Rightarrow> kcpClusterProvider \<Rightarrow> 'w \<Rightarrow> (derive_error, Manager) result \<times> kcpClusterProvider" where
  "managerForWorkspace env workspace p w =
     (case map_of (kw_managers p) workspace of
        Some (Some m) \<Rightarrow> (Inr m, p)
      | None \<Rightarrow> (Inl (ErrUnknownTarget (''workspace '' @ workspace @ '' not found: unknown target'')), p)
      | Some None \<Rightarrow>
          (case create_workspace_manager env workspace p w of
             Inl e \<Rightarrow> (Inl e, p)
           | Inr m \<Rightarrow> (Inr m, p\<lparr>kw_managers := AList.update workspace (Some m) (kw_managers p)\<rparr>)))"

definition kcp_IsMultiTarget :: "kcpClusterProvider \<Rightarrow> bool" where
  "kcp_IsMultiTarget p \<longleftrightarrow> length (kw_managers p) > 1"

definition kcp_GetTargets :: "kcpClusterProvider \<Rightarrow> string list" where
  "kcp_GetTargets p = sort (map fst (kw_managers p))"

definition kcp_GetDerivedKubernetes ::
  "'w kcp_env \<Rightarrow> 'w call_ctx \<Rightarrow> string \<Rightarrow> kcpClusterProvider \<Rightarrow> 'w
   \<Rightarrow> (derive_error, Kubernetes) result \<times> kcpClusterProvider" where
  "kcp_GetDerivedKubernetes env ctx workspace p w =
     (case managerForWorkspace env (if workspace = [] then kw_defaultWorkspace p else workspace) p w of
        (Inl e, p1) \<Rightarrow> (Inl e, p1)
      | (Inr m, p1) \<Rightarrow> (Derived (ke_Client (kx_Kube env)) m ctx, p1))"

fun workspace_managers ::
  "'w kcp_env \<Rightarrow> string list \<Rightarrow> kcpClusterProvider \<Rightarrow> 'w \<Rightarrow> (derive_error, Manager list) result \<times> kcpClusterProvider" where
  "workspace_managers env [] p w = (Inr [], p)"
| "workspace_managers env (cn # cns) p w =
     (case managerForWorkspace env cn p w of
        (Inl e, p1) \<Rightarrow> (Inl e, p1)
      | (Inr m, p1) \<Rightarrow>
          (case workspace_managers env cns p1 w of
             (Inl e, p2) \<Rightarrow> (Inl e, p2)
           | (Inr ms, p2) \<Rightarrow> (Inr (m # ms), p2)))"

definition kcp_GetTargetManagers ::
  "'w kcp_env \<Rightarrow> kcpClusterProvider \<Rightarrow> 'w \<Rightarrow> (derive_error, Manager list) result \<times> kcpClusterProvider" where
  "kcp_GetTargetManagers env p w = workspace_managers env (kcp_GetTargets p) p w"

section \<open>Workspace URLs\<close>

text \<open>A base URL that does not itself lead into a workspace.\<close>

definition base_url :: "string \<Rightarrow> bool" where
  "base_url b \<longleftrightarrow> Index (b @ clusters_segment) clusters_segment = Some (length b)"

lemma Index_append:
  assumes "Index (a @ p) p = Some (length a)" "p \<noteq> []"
  shows "Index (a @ p @ t) p = Some (length a)"
  using assms
proof (induction a)
  case Nil
  then obtain c q where "p = c # q" by (cases p) auto
  then show ?case by (simp add: HasPrefix_append [of "c # q" t, simplified])
next
  case (Cons x a)
  have "\<not> HasPrefix (x # a @ p) p" "Index (a @ p) p = Some (length a)"
    using Cons.prems(1) by (auto split: if_splits)
  moreover have "HasPrefix (x # a @ p) p = HasPrefix (x # a @ p @ t) p"
  proof -
    have "take (length p) ((x # a @ p) @ t) = take (length p) (x # a @ p)" by (subst take_append) simp
    then show ?thesis by (simp add: HasPrefix_def del: take_append)
  qed
  ultimately show ?case using Cons.IH Cons.prems(2) by simp
qed

lemma workspace_url_roundtrip:
  assumes "base_url b" "\<not> HasSuffix ws ''/''"
  shows "ParseServerURL (ConstructWorkspaceURL b ws) = (b, ws)"
proof -
  have "Index (b @ clusters_segment @ ws) clusters_segment = Some (length b)"
    using assms(1) by (intro Index_append) (auto simp: base_url_def clusters_segment_def)
  then show ?thesis
    using assms(2)
    by (simp add: ParseServerURL_def ConstructWorkspaceURL_def TrimSuffix_def clusters_segment_def)
qed

section \<open>Discovery finds the hierarchy\<close>

definition children :: "(string \<Rightarrow> (string, string list) result) \<Rightarrow> string \<Rightarrow> string \<Rightarrow> string set" where
  "children ls host parent = (case ls (ConstructWorkspaceURL (fst (ParseServerURL host)) parent) of
     Inl _ \<Rightarrow> {}
   | Inr items \<Rightarrow> {parent @ '':'' @ c | c. c \<in> set items \<and> c \<noteq> []})"

text \<open>The workspaces below a root, itself included.\<close>

inductive_set workspaces :: "(string \<Rightarrow> (string, string list) result) \<Rightarrow> string \<Rightarrow> string \<Rightarrow> string set"
  for ls :: "string \<Rightarrow> (string, string list) result" and host :: string and root :: string where
  root: "root \<in> workspaces ls host root"
| child: "x \<in> workspaces ls host root \<Longrightarrow> y \<in> children ls host x \<Longrightarrow> y \<in> workspaces ls host root"

text \<open>What a recursion adds: the new workspaces have their children, and lie in every closed set.\<close>

definition grows :: "(string \<Rightarrow> string set) \<Rightarrow> string list \<Rightarrow> string list \<Rightarrow> bool" where
  "grows ch disc res \<longleftrightarrow> set disc \<subseteq> set res \<and> (\<forall>x \<in> set res - set disc. ch x \<subseteq> set res)
     \<and> (distinct disc \<longrightarrow> distinct res)"

lemma grows_refl: "grows ch disc disc"
  by (simp add: grows_def)

lemma grows_trans:
  assumes "grows ch (disc @ [x]) d1" "ch x \<subseteq> set d1" "x \<notin> set disc" "grows ch d1 res"
  shows "grows ch disc res"
  unfolding grows_def
proof (intro conjI ballI impI)
  show "set disc \<subseteq> set res" using assms by (auto simp: grows_def)
  show "distinct res" if "distinct disc" using that assms by (auto simp: grows_def)
  fix y assume y: "y \<in> set res - set disc"
  consider "y = x" | "y \<in> set d1 - set (disc @ [x])" | "y \<in> set res - set d1" using y by auto
  moreover have "set d1 \<subseteq> set res" "\<forall>z \<in> set res - set d1. ch z \<subseteq> set res"
    "\<forall>z \<in> set d1 - set (disc @ [x]). ch z \<subseteq> set d1"
    using assms(1,4) by (simp_all add: grows_def)
  ultimately show "ch y \<subseteq> set res" using assms(2) by cases blast+
qed

lemma discover_grows:
  "DiscoverWorkspacesRecursive ls host fuel parent disc = Some res
     \<Longrightarrow> grows (children ls host) disc res \<and> children ls host parent \<subseteq> set res"
  "discover_items ls host fuel parent items disc = Some res
     \<Longrightarrow> grows (children ls host) disc res \<and> (\<forall>c \<in> set items. c \<noteq> [] \<longrightarrow> parent @ '':'' @ c \<in> set res)"
proof (induction ls host fuel parent disc and ls host fuel parent items disc arbitrary: res and res
    rule: DiscoverWorkspacesRecursive_discover_items.induct)
  case (2 ls host fuel parent disc)
  then show ?case by (auto simp: children_def grows_refl split: sum.splits)
next
  case (4 ls host fuel parent c items disc)
  let ?full = "parent @ '':'' @ c"
  consider (empty) "c = []" | (known) "c \<noteq> []" "?full \<in> set disc" | (new) "c \<noteq> []" "?full \<notin> set disc" by blast
  then show ?case
  proof cases
    case empty
    then show ?thesis using 4 by auto
  next
    case known
    have "grows (children ls host) disc res \<and> (\<forall>c \<in> set items. c \<noteq> [] \<longrightarrow> parent @ '':'' @ c \<in> set res)"
      using 4(2) [OF known(1) refl] 4(5) known by (simp add: Let_def)
    then show ?thesis using known by (auto simp: grows_def)
  next
    case new
    then obtain d1 where d1: "DiscoverWorkspacesRecursive ls host fuel ?full (disc @ [?full]) = Some d1"
      and rest: "discover_items ls host fuel parent items d1 = Some res"
      using 4(5) by (auto simp: Let_def split: option.splits)
    have one: "grows (children ls host) (disc @ [?full]) d1" "children ls host ?full \<subseteq> set d1"
      using 4(3) [OF new(1) refl new(2) d1] by auto
    have two: "grows (children ls host) d1 res" "\<forall>c \<in> set items. c \<noteq> [] \<longrightarrow> parent @ '':'' @ c \<in> set res"
      using 4(4) [OF new(1) refl new(2) d1 rest] by auto
    have "?full \<in> set res" using one(1) two(1) by (auto simp: grows_def)
    then show ?thesis using grows_trans [OF one new(2) two(1)] two(2) by auto
  qed
qed (auto simp: grows_refl)

lemma discover_within:
  assumes closed: "\<And>x. x \<in> S \<Longrightarrow> children ls host x \<subseteq> S"
  shows "DiscoverWorkspacesRecursive ls host fuel parent disc = Some res \<Longrightarrow> parent \<in> S \<Longrightarrow> set disc \<subseteq> S \<Longrightarrow> set res \<subseteq> S"
    and "discover_items ls host fuel parent items disc = Some res
      \<Longrightarrow> (\<forall>c \<in> set items. c \<noteq> [] \<longrightarrow> parent @ '':'' @ c \<in> S) \<Longrightarrow> set disc \<subseteq> S \<Longrightarrow> set res \<subseteq> S"
  using closed
proof (induction ls host fuel parent disc and ls host fuel parent items disc arbitrary: res and res
    rule: DiscoverWorkspacesRecursive_discover_items.induct)
  case (2 ls host fuel parent disc)
  show ?case
  proof (cases "ls (ConstructWorkspaceURL (fst (ParseServerURL host)) parent)")
    case (Inl e) then show ?thesis using 2 by simp
  next
    case (Inr items)
    have "\<forall>c \<in> set items. c \<noteq> [] \<longrightarrow> parent @ '':'' @ c \<in> S"
      using 2(5) [OF 2(3)] Inr by (auto simp: children_def)
    then show ?thesis using 2 Inr by simp
  qed
next
  case (4 ls host fuel parent c items disc)
  let ?full = "parent @ '':'' @ c"
  consider (empty) "c = []" | (known) "c \<noteq> []" "?full \<in> set disc" | (new) "c \<noteq> []" "?full \<notin> set disc" by blast
  then show ?case
  proof cases
    case empty
    then show ?thesis using 4 by auto
  next
    case known
    then show ?thesis using 4(2) [OF known(1) refl] 4(5-8) by (simp add: Let_def)
  next
    case new
    then obtain d1 where d1: "DiscoverWorkspacesRecursive ls host fuel ?full (disc @ [?full]) = Some d1"
      and rest: "discover_items ls host fuel parent items d1 = Some res"
      using 4(5) by (auto simp: Let_def split: option.splits)
    have "?full \<in> S" using 4(6) new(1) by simp
    then have "set d1 \<subseteq> S" using 4(3) [OF new(1) refl new(2) d1] 4(7,8) by simp
    then show ?thesis using 4(4) [OF new(1) refl new(2) d1 rest] 4(6,8) by simp
  qed
qed auto

text \<open>Paths grow with their depth, so a bound on the length of paths bounds the recursion.\<close>

lemma discover_terminates:
  assumes bound: "\<And>x. x \<in> S \<Longrightarrow> length x \<le> n" and closed: "\<And>x. x \<in> S \<Longrightarrow> children ls host x \<subseteq> S"
  shows "parent \<in> S \<Longrightarrow> n < fuel + length parent \<Longrightarrow> DiscoverWorkspacesRecursive ls host fuel parent disc \<noteq> None"
    and "(\<forall>c \<in> set items. c \<noteq> [] \<longrightarrow> parent @ '':'' @ c \<in> S) \<Longrightarrow> n \<le> fuel + length parent
      \<Longrightarrow> discover_items ls host fuel parent items disc \<noteq> None"
  using closed
proof (induction ls host fuel parent disc and ls host fuel parent items disc
    rule: DiscoverWorkspacesRecursive_discover_items.induct)
  case (1 ls host parent disc) then show ?case using bound [of parent] by simp
next
  case (2 ls host fuel parent disc)
  show ?case
  proof (cases "ls (ConstructWorkspaceURL (fst (ParseServerURL host)) parent)")
    case (Inl e) then show ?thesis by simp
  next
    case (Inr items)
    have "\<forall>c \<in> set items. c \<noteq> [] \<longrightarrow> parent @ '':'' @ c \<in> S"
      using 2(4) [OF 2(2)] Inr by (auto simp: children_def)
    then show ?thesis using 2 Inr by simp
  qed
next
  case (3 ls host fuel parent disc) then show ?case by simp
next
  case (4 ls host fuel parent c items disc)
  let ?full = "parent @ '':'' @ c"
  consider (empty) "c = []" | (known) "c \<noteq> []" "?full \<in> set disc" | (new) "c \<noteq> []" "?full \<notin> set disc" by blast
  then show ?case
  proof cases
    case empty then show ?thesis using 4(1,5-7) by simp
  next
    case known then show ?thesis using 4(2) [OF known(1) refl known(2)] 4(5-7) by (simp add: Let_def)
  next
    case new
    have "?full \<in> S" using 4(5) new(1) by simp
    moreover have "n < fuel + length ?full" using 4(6) by simp
    ultimately obtain d1 where d1: "DiscoverWorkspacesRecursive ls host fuel ?full (disc @ [?full]) = Some d1"
      using 4(3) [OF new(1) refl new(2)] 4(7) by blast
    then show ?thesis using 4(4) [OF new(1) refl new(2) d1] 4(5-7) new by (simp add: Let_def)
  qed
qed

lemma children_workspaces: "x \<in> workspaces ls host rt \<Longrightarrow> children ls host x \<subseteq> workspaces ls host rt"
  by (auto intro: workspaces.child)

lemma discover_exact:
  assumes "DiscoverWorkspacesRecursive ls host fuel rt [rt] = Some res"
  shows "set res = workspaces ls host rt" and "distinct res"
proof -
  have grow: "grows (children ls host) [rt] res" "children ls host rt \<subseteq> set res"
    using discover_grows(1) [OF assms] by auto
  show "distinct res" using grow(1) by (simp add: grows_def)
  have "set res \<subseteq> workspaces ls host rt"
    by (rule discover_within(1) [OF _ assms]) (auto intro: workspaces.root workspaces.child)
  moreover have "x \<in> set res" if "x \<in> workspaces ls host rt" for x
    using that
  proof induction
    case root then show ?case using grow(1) by (simp add: grows_def)
  next
    case (child x y)
    then show ?case using grow by (cases "x = rt") (auto simp: grows_def)
  qed
  ultimately show "set res = workspaces ls host rt" by blast
qed

lemma discovery_result:
  assumes "DiscoverAllWorkspaces ls host fuel rt = Some res"
  shows "\<exists>ws. res = Inr ws \<and> distinct ws \<and> set ws = workspaces ls host rt"
proof -
  obtain ws where ws: "res = Inr ws" "DiscoverWorkspacesRecursive ls host fuel rt [rt] = Some ws"
    using assms by (auto simp: DiscoverAllWorkspaces_def)
  show ?thesis using discover_exact [OF ws(2)] ws(1) by simp
qed

lemma discovery_returns:
  assumes fin: "finite (workspaces ls host rt)" and fuel: "Max (length ` workspaces ls host rt) < fuel"
  shows "DiscoverAllWorkspaces ls host fuel rt \<noteq> None"
proof -
  have bound: "length x \<le> Max (length ` workspaces ls host rt)" if "x \<in> workspaces ls host rt" for x
    using that fin by simp
  have "DiscoverWorkspacesRecursive ls host fuel rt [rt] \<noteq> None"
    by (rule discover_terminates(1) [OF bound children_workspaces workspaces.root])
       (auto intro: trans_less_add1 [OF fuel])
  then show ?thesis by (simp add: DiscoverAllWorkspaces_def)
qed

text \<open>
  C36: workspace discovery terminates with the whole hierarchy. If the hierarchy below the root
  is finite, the recursion returns (with any fuel above the length of the longest workspace
  path), and if it returns, the hierarchy is finite; the result is never an error, has no
  duplicates, and is exactly the set of workspaces reachable from the root through listings that succeed.
\<close>

theorem kcp_discovery_complete:
  "(finite (workspaces ls host rt) \<longleftrightarrow> (\<exists>fuel res. DiscoverAllWorkspaces ls host fuel rt = Some res))
   \<and> (finite (workspaces ls host rt) \<longrightarrow>
        (\<forall>fuel > Max (length ` workspaces ls host rt). DiscoverAllWorkspaces ls host fuel rt \<noteq> None))
   \<and> (\<forall>fuel res. DiscoverAllWorkspaces ls host fuel rt = Some res
        \<longrightarrow> (\<exists>ws. res = Inr ws \<and> distinct ws \<and> set ws = workspaces ls host rt))"
proof (intro conjI impI allI iffI)
  show "\<exists>ws. res = Inr ws \<and> distinct ws \<and> set ws = workspaces ls host rt"
    if "DiscoverAllWorkspaces ls host fuel rt = Some res" for fuel res
    using discovery_result [OF that] .
  show "finite (workspaces ls host rt)" if "\<exists>fuel res. DiscoverAllWorkspaces ls host fuel rt = Some res"
    using that discovery_result by (metis List.finite_set)
  show "DiscoverAllWorkspaces ls host fuel rt \<noteq> None"
    if "finite (workspaces ls host rt)" "Max (length ` workspaces ls host rt) < fuel" for fuel
    using discovery_returns [OF that] .
  show "\<exists>fuel res. DiscoverAllWorkspaces ls host fuel rt = Some res" if "finite (workspaces ls host rt)"
    using discovery_returns [OF that lessI] by auto
qed

text \<open>A root with one child that has none.\<close>

definition two_workspaces :: "string \<Rightarrow> (string, string list) result" where
  "two_workspaces url = (if url = ''https://k/clusters/root'' then Inr [''team'', []] else Inl ''forbidden'')"

theorem kcp_discovery_complete_witness:
  "DiscoverAllWorkspaces two_workspaces ''https://k/clusters/root'' 2 ''root'' = Some (Inr [''root'', ''root:team''])
   \<and> workspaces two_workspaces ''https://k/clusters/root'' ''root'' = {''root'', ''root:team''}"
proof -
  have run: "DiscoverAllWorkspaces two_workspaces ''https://k/clusters/root'' 2 ''root'' = Some (Inr [''root'', ''root:team''])"
    by code_simp
  then have "set [''root'', ''root:team''] = workspaces two_workspaces ''https://k/clusters/root'' ''root''"
    using kcp_discovery_complete [of two_workspaces "''https://k/clusters/root''" "''root''"] by fastforce
  then show ?thesis using run by simp
qed

section \<open>The provider derives its clients from its managers\<close>

definition kcp_inv :: "kcpClusterProvider \<Rightarrow> bool" where
  "kcp_inv p \<longleftrightarrow> (\<forall>ws m. map_of (kw_managers p) ws = Some (Some m) \<longrightarrow> mgr_wf (kw_BaseConfig p) m)"

lemma kcp_inv_wf: "kcp_inv p \<Longrightarrow> map_of (kw_managers p) ws = Some (Some m) \<Longrightarrow> mgr_wf (kw_BaseConfig p) m"
  by (simp add: kcp_inv_def)

lemma create_workspace_manager_Inr:
  assumes "create_workspace_manager env ws p w = Inr m"
  obtains rc raw where "NewManager (kx_Kube env) (kw_BaseConfig p) rc raw = Inr m"
    "rc_Host rc = ConstructWorkspaceURL (kw_baseServerURL p) ws"
proof -
  obtain rc raw where "NewManager (kx_Kube env) (kw_BaseConfig p)
      (rc\<lparr>rc_Host := ConstructWorkspaceURL (kw_baseServerURL p) ws\<rparr>) raw = Inr m"
    using assms by (auto simp: create_workspace_manager_def split: option.splits sum.splits prod.splits)
  then show ?thesis using that by fastforce
qed

lemma managerForWorkspace_cases:
  assumes "managerForWorkspace env ws p w = (r, p')"
  obtains (cached) m where "map_of (kw_managers p) ws = Some (Some m)" "r = Inr m" "p' = p"
    | (failed) e where "r = Inl e" "p' = p"
    | (created) m where "map_of (kw_managers p) ws = Some None" "create_workspace_manager env ws p w = Inr m" "r = Inr m"
        "p' = p\<lparr>kw_managers := AList.update ws (Some m) (kw_managers p)\<rparr>"
proof (cases "map_of (kw_managers p) ws = Some None")
  case True
  show ?thesis
  proof (cases "create_workspace_manager env ws p w")
    case (Inl e) then show ?thesis using assms True failed [of e] by (simp add: managerForWorkspace_def)
  next
    case (Inr m) then show ?thesis using assms True created [OF True Inr] by (simp add: managerForWorkspace_def)
  qed
next
  case False
  show ?thesis
  proof (cases "map_of (kw_managers p) ws")
    case None
    then have "r = Inl (ErrUnknownTarget (''workspace '' @ ws @ '' not found: unknown target''))" "p' = p"
      using assms by (simp_all add: managerForWorkspace_def)
    then show ?thesis by (rule failed)
  next
    case (Some slot)
    then obtain m where m: "map_of (kw_managers p) ws = Some (Some m)" using False by (cases slot) auto
    show ?thesis using assms cached [OF m] m by (simp add: managerForWorkspace_def)
  qed
qed

lemma managerForWorkspace_inv:
  assumes "managerForWorkspace env ws p w = (r, p')" "kcp_inv p"
  shows "kcp_inv p'" and "kw_BaseConfig p' = kw_BaseConfig p" and "r = Inr m \<Longrightarrow> mgr_wf (kw_BaseConfig p) m"
proof -
  have "kcp_inv p' \<and> kw_BaseConfig p' = kw_BaseConfig p \<and> (r = Inr m \<longrightarrow> mgr_wf (kw_BaseConfig p) m)"
    using assms(1)
  proof (cases rule: managerForWorkspace_cases)
    case (cached m0) then show ?thesis using assms(2) kcp_inv_wf by auto
  next
    case (failed e) then show ?thesis using assms(2) by simp
  next
    case (created m0)
    have "mgr_wf (kw_BaseConfig p) m0"
      using create_workspace_manager_Inr [OF created(2)] NewManager_wf by metis
    then show ?thesis using created assms(2) by (auto simp: kcp_inv_def update_conv')
  qed
  then show "kcp_inv p'" "kw_BaseConfig p' = kw_BaseConfig p" "r = Inr m \<Longrightarrow> mgr_wf (kw_BaseConfig p) m" by auto
qed

lemma kcp_derives:
  assumes "kcp_GetDerivedKubernetes env ctx ws p w = (r, p')" "kcp_inv p"
  shows "kcp_inv p' \<and> kw_BaseConfig p' = kw_BaseConfig p"
    and "r = Inr k \<Longrightarrow> \<exists>m. mgr_wf (kw_BaseConfig p) m \<and> Derived (ke_Client (kx_Kube env)) m ctx = Inr k"
proof -
  obtain r1 p1 where mgr: "managerForWorkspace env (if ws = [] then kw_defaultWorkspace p else ws) p w = (r1, p1)" by fastforce
  note inv = managerForWorkspace_inv [OF mgr assms(2)]
  show "kcp_inv p' \<and> kw_BaseConfig p' = kw_BaseConfig p"
    using assms(1) inv(1,2) unfolding kcp_GetDerivedKubernetes_def mgr by (auto split: sum.splits)
  show "\<exists>m. mgr_wf (kw_BaseConfig p) m \<and> Derived (ke_Client (kx_Kube env)) m ctx = Inr k" if "r = Inr k"
    using assms(1) inv(3) that unfolding kcp_GetDerivedKubernetes_def mgr by (auto split: sum.splits)
qed

interpretation kcp: manager_provider "kcp_GetDerivedKubernetes env" kcp_inv kw_BaseConfig "ke_Client (kx_Kube env)"
  for env :: "'w kcp_env"
  by unfold_locales (auto dest: kcp_derives(1) kcp_derives(2) [OF _ _ refl])

text \<open>The fallback to the workspaces of the kubeconfig is never taken: discovery gives no error.\<close>

lemma kcp_workspaces_api:
  assumes "kcp_workspaces env fuel p restConfig w = Some r"
  shows "\<exists>wsl. r = Inr wsl
    \<and> set wsl = workspaces (\<lambda>url. kx_List env restConfig url w) (rc_Host restConfig) (kw_defaultWorkspace p)"
  using assms by (auto simp: kcp_workspaces_def dest: discovery_result split: option.splits sum.splits)

text \<open>What a successful reset has done.\<close>

lemma kcp_reset_ok:
  assumes "kcp_reset env fuel ctx p w = Some (None, p')"
  obtains raw :: kcp_raw and restConfig base wsl p2 where
    "NewKubeconfigManager (kx_Kube env) (kw_BaseConfig p) (kr_CurrentContext raw) w = Inr base"
    "kcp_workspaces env fuel p2 restConfig w = Some (Inr wsl)" "kcp_store env ctx base wsl p2 = (None, p')"
    "kw_BaseConfig p2 = kw_BaseConfig p" "kw_defaultWorkspace p2 \<noteq> []" "kw_restConfig p2 = Some restConfig"
proof -
  obtain raw :: kcp_raw and cluster :: kcp_cluster and restConfig base wsl where new: "NewKubeconfigManager (kx_Kube env) (kw_BaseConfig p) (kr_CurrentContext raw) w = Inr base"
    and ws: "snd (ParseServerURL (kl_Server cluster)) \<noteq> []"
    and disc: "kcp_workspaces env fuel (p\<lparr>kw_baseServerURL := fst (ParseServerURL (kl_Server cluster)),
        kw_defaultWorkspace := snd (ParseServerURL (kl_Server cluster)), kw_restConfig := Some restConfig\<rparr>) restConfig w = Some (Inr wsl)"
    and store: "kcp_store env ctx base wsl (p\<lparr>kw_baseServerURL := fst (ParseServerURL (kl_Server cluster)),
        kw_defaultWorkspace := snd (ParseServerURL (kl_Server cluster)), kw_restConfig := Some restConfig\<rparr>) = (None, p')"
    using assms unfolding kcp_reset_def Let_def by (auto split: sum.splits option.splits if_splits)
  show ?thesis by (rule that [OF new disc store]) (use ws in simp_all)
qed

lemma kcp_reset_inv:
  assumes "kcp_reset env fuel ctx p w = Some (None, p')"
  shows "kcp_inv p'" and "kw_BaseConfig p' = kw_BaseConfig p" and "c_RequireOAuth (kw_BaseConfig p) \<Longrightarrow> bearer_token ctx \<noteq> None"
proof -
  obtain raw :: kcp_raw and restConfig base wsl p2 where
    base: "NewKubeconfigManager (kx_Kube env) (kw_BaseConfig p) (kr_CurrentContext raw) w = Inr base"
    and store: "kcp_store env ctx base wsl p2 = (None, p')" and cfg: "kw_BaseConfig p2 = kw_BaseConfig p"
    using kcp_reset_ok [OF assms] by metis
  have wf: "mgr_wf (kw_BaseConfig p) base" by (rule NewKubeconfigManager_wf [OF base])
  have p': "kw_managers p' = AList.update (kw_defaultWorkspace p2) (Some base) (map (\<lambda>ws. (ws, None)) wsl)"
    "kw_BaseConfig p' = kw_BaseConfig p"
    using store cfg by (auto simp: kcp_store_def)
  show "kw_BaseConfig p' = kw_BaseConfig p" by (rule p')
  show "kcp_inv p'" using wf p' by (auto simp: kcp_inv_def update_conv' map_of_None_pairs split: if_splits)
  obtain k where "Derived (ke_Client (kx_Kube env)) base ctx = Inr k"
    using store by (auto simp: kcp_store_def split: sum.splits)
  then show "bearer_token ctx \<noteq> None" if "c_RequireOAuth (kw_BaseConfig p)"
    using that wf Derived_no_token(2) [of _ base ctx k] by (auto simp: mgr_wf_def simp del: not_None_eq)
qed

text \<open>
  With \<open>require_oauth\<close> the provider cannot be created: \<open>reset\<close> derives a client for its watchers
  in the context of the start-up, which carries no token.
\<close>

lemma kcp_oauth_unavailable:
  assumes "c_RequireOAuth cfg" "bearer_token ctx = None"
  shows "newKcpClusterProvider env fuel ctx cfg w \<noteq> Some (Inr p)"
proof
  let ?p0 = "\<lparr>kw_BaseConfig = cfg, kw_baseServerURL = [], kw_restConfig = None, kw_defaultWorkspace = [], kw_managers = []\<rparr>"
  assume "newKcpClusterProvider env fuel ctx cfg w = Some (Inr p)"
  then have "kcp_reset env fuel ctx ?p0 w = Some (None, p)"
    by (auto simp: newKcpClusterProvider_def split: option.splits)
  then show False using kcp_reset_inv(3) [of env fuel ctx ?p0 w p] assms by simp
qed

end
