(* ===== verification/Acm.thy ===== *)
theory Acm
  imports Kcp Well_Known Filepath
begin

text \<open>
  The provider for an ACM hub and its managed clusters: \<open>src/pkg/kubernetes/provider_acm_hub.go\<close>.
  The targets are the managed clusters of the hub; the first request for one creates its manager,
  which reaches the cluster through the cluster proxy. A goroutine watches the managed clusters.

  What the API of the hub answers is a parameter (\<open>acm_env\<close>). The lock \<open>mu\<close> makes every access to
  the map of managers atomic, but \<open>managerForCluster\<close> releases it between its lookup and its
  store: the two halves are operations of their own, and a schedule interleaves them with events.
\<close>

section \<open>Configuration\<close>

definition ACMHubTargetParameterName :: string where "ACMHubTargetParameterName = ''cluster''"
definition LocalClusterLabel :: string where "LocalClusterLabel = ''local-cluster''"

record 'w ACMProviderConfig =
  ac_ClusterProxyAddonHost :: string
  ac_SkipTLSVerify :: bool
  ac_CAFile :: string
  ac_TokenExchangeStrategy :: string
  ac_Clusters :: "(string \<times> 'w TargetTokenExchangeConfig) list"

record 'w ACMKubeConfigProviderConfig =
  ak_ACM :: "'w ACMProviderConfig"
  ak_ContextName :: string

text \<open>The errors that \<open>errors.Join\<close> collects, in order; no error is nil.\<close>

definition ACM_Validate :: "'w ACMProviderConfig \<Rightarrow> string list" where
  "ACM_Validate c =
     (if \<not> ac_SkipTLSVerify c \<and> ac_CAFile c = []
      then [''cluster_proxy_addon_ca_file is required if tls verification is not disabled''] else [])"

definition ACMKubeConfig_Validate :: "'w ACMKubeConfigProviderConfig \<Rightarrow> string list" where
  "ACMKubeConfig_Validate c =
     ACM_Validate (ak_ACM c) @
     (if ak_ContextName c = [] then [''context_name is required if acm-kubeconfig strategy is used''] else [])"

definition ResolveClusterProxyAddonCAFilePath :: "string \<Rightarrow> 'w ACMProviderConfig \<Rightarrow> 'w ACMProviderConfig" where
  "ResolveClusterProxyAddonCAFilePath configDir c = c\<lparr>ac_CAFile := path_Join [configDir, ac_CAFile c]\<rparr>"

text \<open>\<open>decode\<close> is the TOML decoder.\<close>

definition parseAcmConfig ::
  "('t \<Rightarrow> ('e, 'w ACMProviderConfig) result) \<Rightarrow> string \<Rightarrow> 't \<Rightarrow> ('e, 'w ACMProviderConfig) result" where
  "parseAcmConfig decode configDir prim =
     (case decode prim of
        Inl e \<Rightarrow> Inl e
      | Inr cfg \<Rightarrow> Inr (ResolveClusterProxyAddonCAFilePath configDir cfg))"

definition parseAcmKubeConfigConfig ::
  "('t \<Rightarrow> ('e, 'w ACMKubeConfigProviderConfig) result) \<Rightarrow> string \<Rightarrow> 't \<Rightarrow> ('e, 'w ACMKubeConfigProviderConfig) result" where
  "parseAcmKubeConfigConfig decode configDir prim =
     (case decode prim of
        Inl e \<Rightarrow> Inl e
      | Inr cfg \<Rightarrow> Inr (cfg\<lparr>ak_ACM := ResolveClusterProxyAddonCAFilePath configDir (ak_ACM cfg)\<rparr>))"

section \<open>The hub\<close>

record managed_cluster =
  mc_Name :: string
  mc_Labels :: "(string \<times> string) list"
  mc_ResourceVersion :: string

definition is_hub :: "managed_cluster \<Rightarrow> bool" where
  "is_hub obj \<longleftrightarrow> map_of (mc_Labels obj) LocalClusterLabel = Some ''true''"

record proxy_service =
  sv_Name :: string
  sv_Namespace :: string
  sv_Ports :: "(string \<times> int) list"

text \<open>
  What the API of the hub answers to a client: the resources of each group and version, the host
  of the route (the inner error is a field that is no string, \<open>None\<close> a field that is missing), the
  service of the proxy, and the list of the managed clusters with its resource version.
\<close>

record 'w acm_env =
  ax_Kube :: "'w kube_env"
  ax_Resources :: "rest_config \<Rightarrow> 'w \<Rightarrow> (string, (string \<times> string list) list) result"
  ax_Route :: "rest_config \<Rightarrow> 'w \<Rightarrow> (string, (string, string option) result) result"
  ax_Service :: "rest_config \<Rightarrow> 'w \<Rightarrow> (string, proxy_service) result"
  ax_ManagedClusters :: "rest_config \<Rightarrow> 'w \<Rightarrow> (string, managed_cluster list \<times> string) result"

definition hub_rest :: "Manager \<Rightarrow> rest_config" where
  "hub_rest m = kb_restConfig (mg_kubernetes m)"

definition IsACMHub :: "'w acm_env \<Rightarrow> Manager \<Rightarrow> 'w \<Rightarrow> bool" where
  "IsACMHub env m w =
     (case ax_Resources env (hub_rest m) w of
        Inl _ \<Rightarrow> False
      | Inr apiLists \<Rightarrow>
          list_ex (\<lambda>(groupVersion, kinds). groupVersion = ''cluster.open-cluster-management.io/v1''
            \<and> list_ex (\<lambda>kind. kind = ''ManagedCluster'') kinds) apiLists)"

definition print_int :: "int \<Rightarrow> string" where
  "print_int i = (if i < 0 then CHR ''-'' # Itoa (nat (- i)) else Itoa (nat i))"

fun proxy_port :: "int \<Rightarrow> (string \<times> int) list \<Rightarrow> int" where
  "proxy_port port [] = port"
| "proxy_port port ((name, p) # ports) = proxy_port (if name = ''user-port'' then p else port) ports"

definition service_host :: "'w acm_env \<Rightarrow> Manager \<Rightarrow> 'w \<Rightarrow> (string, string) result" where
  "service_host env m w =
     (let notFound = Inl ''failed to auto-discover cluster-proxy host: route and service not found'' in
      case ax_Service env (hub_rest m) w of
        Inl _ \<Rightarrow> notFound
      | Inr svc \<Rightarrow>
          (case sv_Ports svc of
             [] \<Rightarrow> notFound
           | (_, first) # _ \<Rightarrow>
               Inr (sv_Name svc @ ''.'' @ sv_Namespace svc @ ''.svc.cluster.local:''
                    @ print_int (proxy_port first (sv_Ports svc)))))"

definition discoverClusterProxyHost :: "'w acm_env \<Rightarrow> Manager \<Rightarrow> bool \<Rightarrow> 'w \<Rightarrow> (string, string) result" where
  "discoverClusterProxyHost env m isClusterProviderACMKubeConfig w =
     (case (if isClusterProviderACMKubeConfig then ax_Route env (hub_rest m) w else Inl []) of
        Inr (Inr (Some host)) \<Rightarrow> (if host \<noteq> [] then Inr host else service_host env m w)
      | _ \<Rightarrow> service_host env m w)"

section \<open>The provider\<close>

record 'w acmHubClusterProvider =
  ah_hubManager :: Manager
  ah_clusterProxyHost :: string
  ah_skipTLSVerify :: bool
  ah_clusterProxyCAFile :: string
  ah_watchKubeConfig :: bool
  ah_targetTokenConfigs :: "(string \<times> 'w TargetTokenExchangeConfig) list"
  ah_exchangeStrategy :: string
  ah_watchCancelled :: bool
  ah_initialResourceVersion :: string
  ah_clusterManagers :: "(string \<times> Manager option) list"
  ah_hubClusterName :: string
  ah_watchStarted :: bool

definition setHubClusterName :: "string \<Rightarrow> 'w acmHubClusterProvider \<Rightarrow> 'w acmHubClusterProvider" where
  "setHubClusterName name p = p\<lparr>ah_hubClusterName := name\<rparr>"

definition addCluster :: "string \<Rightarrow> 'w acmHubClusterProvider \<Rightarrow> 'w acmHubClusterProvider" where
  "addCluster name p =
     (case map_of (ah_clusterManagers p) name of
        None \<Rightarrow> p\<lparr>ah_clusterManagers := AList.update name None (ah_clusterManagers p)\<rparr>
      | Some _ \<Rightarrow> p)"

definition removeCluster :: "string \<Rightarrow> 'w acmHubClusterProvider \<Rightarrow> 'w acmHubClusterProvider" where
  "removeCluster name p = p\<lparr>ah_clusterManagers := AList.delete name (ah_clusterManagers p)\<rparr>"

definition acm_GetDefaultTarget :: "'w acmHubClusterProvider \<Rightarrow> string" where
  "acm_GetDefaultTarget p = (if ah_hubClusterName p = [] then ''local-cluster'' else ah_hubClusterName p)"

definition acm_GetTargets :: "'w acmHubClusterProvider \<Rightarrow> string list" where
  "acm_GetTargets p = sort (map fst (ah_clusterManagers p))"

definition acm_IsMultiTarget :: "'w acmHubClusterProvider \<Rightarrow> bool" where
  "acm_IsMultiTarget p \<longleftrightarrow> length (ah_clusterManagers p) > 1"

fun refresh_items :: "managed_cluster list \<Rightarrow> 'w acmHubClusterProvider \<Rightarrow> 'w acmHubClusterProvider" where
  "refresh_items [] p = p"
| "refresh_items (item # items) p =
     (let p1 = (if mc_Name item \<noteq> [] then addCluster (mc_Name item) p else p)
      in refresh_items items (if is_hub item then setHubClusterName (mc_Name item) p1 else p1))"

definition refreshClusters ::
  "'w acm_env \<Rightarrow> 'w acmHubClusterProvider \<Rightarrow> 'w \<Rightarrow> (string, string) result \<times> 'w acmHubClusterProvider" where
  "refreshClusters env p w =
     (case ax_ManagedClusters env (hub_rest (ah_hubManager p)) w of
        Inl e \<Rightarrow> (Inl (''failed to list cluster managers: '' @ e), p)
      | Inr (items, resourceVersion) \<Rightarrow> (Inr resourceVersion, refresh_items items p))"

datatype acm_error =
    HubManagerFailed mgr_error
  | MissingProviderConfig string
  | NotACMHub
  | ProxyDiscoveryFailed string

definition initial_provider ::
  "Manager \<Rightarrow> 'w ACMProviderConfig \<Rightarrow> bool \<Rightarrow> string \<Rightarrow> 'w acmHubClusterProvider" where
  "initial_provider m cfg watchKubeConfig clusterProxyHost =
     \<lparr>ah_hubManager = m, ah_clusterProxyHost = clusterProxyHost, ah_skipTLSVerify = ac_SkipTLSVerify cfg,
      ah_clusterProxyCAFile = ac_CAFile cfg, ah_watchKubeConfig = watchKubeConfig,
      ah_targetTokenConfigs = ac_Clusters cfg, ah_exchangeStrategy = ac_TokenExchangeStrategy cfg,
      ah_watchCancelled = False, ah_initialResourceVersion = [], ah_clusterManagers = [],
      ah_hubClusterName = [], ah_watchStarted = False\<rparr>"

text \<open>A list that fails is a warning: the provider starts with no targets and an empty resource version.\<close>

definition newACMClusterProvider ::
  "'w acm_env \<Rightarrow> Manager \<Rightarrow> 'w ACMProviderConfig \<Rightarrow> bool \<Rightarrow> 'w \<Rightarrow> (acm_error, 'w acmHubClusterProvider) result" where
  "newACMClusterProvider env m cfg watchKubeConfig w =
     (if \<not> IsACMHub env m w then Inl NotACMHub
      else
        (case (if ac_ClusterProxyAddonHost cfg = [] then discoverClusterProxyHost env m watchKubeConfig w
               else Inr (ac_ClusterProxyAddonHost cfg)) of
           Inl e \<Rightarrow> Inl (ProxyDiscoveryFailed e)
         | Inr clusterProxyHost \<Rightarrow>
             (case refreshClusters env (initial_provider m cfg watchKubeConfig clusterProxyHost) w of
                (Inl _, p) \<Rightarrow> Inr p
              | (Inr resourceVersion, p) \<Rightarrow> Inr (p\<lparr>ah_initialResourceVersion := resourceVersion\<rparr>))))"

text \<open>\<open>GetProviderConfig\<close> of the strategy is the argument \<open>providerCfg\<close>.\<close>

definition newACMHubClusterProvider ::
  "'w acm_env \<Rightarrow> StaticConfig \<Rightarrow> 'w ACMProviderConfig option \<Rightarrow> 'w \<Rightarrow> (acm_error, 'w acmHubClusterProvider) result" where
  "newACMHubClusterProvider env cfg providerCfg w =
     (case NewInClusterManager (ax_Kube env) cfg w of
        Inl e \<Rightarrow> Inl (HubManagerFailed e)
      | Inr m \<Rightarrow>
          (case providerCfg of
             None \<Rightarrow> Inl (MissingProviderConfig ''acm'')
           | Some pc \<Rightarrow> newACMClusterProvider env m pc False w))"

definition newACMKubeConfigClusterProvider ::
  "'w acm_env \<Rightarrow> StaticConfig \<Rightarrow> 'w ACMKubeConfigProviderConfig option \<Rightarrow> 'w \<Rightarrow> (acm_error, 'w acmHubClusterProvider) result" where
  "newACMKubeConfigClusterProvider env cfg providerCfg w =
     (case providerCfg of
        None \<Rightarrow> Inl (MissingProviderConfig ''acm-kubeconfig'')
      | Some pc \<Rightarrow>
          (case NewKubeconfigManager (ax_Kube env) cfg (ak_ContextName pc) w of
             Inl e \<Rightarrow> Inl (HubManagerFailed e)
           | Inr m \<Rightarrow> newACMClusterProvider env m (ak_ACM pc) True w))"

section \<open>Managers of the managed clusters\<close>

definition proxy_url :: "'w acmHubClusterProvider \<Rightarrow> string \<Rightarrow> string" where
  "proxy_url p cluster = ''https://'' @ ah_clusterProxyHost p @ ''/'' @ cluster"

text \<open>The TLS settings of the hub are replaced as a whole: its client certificate goes with them.\<close>

definition proxy_config :: "'w acmHubClusterProvider \<Rightarrow> string \<Rightarrow> rest_config" where
  "proxy_config p cluster =
     (hub_rest (ah_hubManager p))
       \<lparr>rc_Host := proxy_url p cluster, rc_Insecure := ah_skipTLSVerify p, rc_ServerName := [],
        rc_CAFile := (if ah_skipTLSVerify p then [] else ah_clusterProxyCAFile p), rc_CAData := [],
        rc_CertFile := [], rc_CertData := [], rc_KeyFile := [], rc_KeyData := []\<rparr>"

text \<open>The clusters of the kubeconfig of the hub, rewritten for the proxy.\<close>

definition proxy_cluster :: "'w acmHubClusterProvider \<Rightarrow> string \<Rightarrow> kcp_cluster \<Rightarrow> kcp_cluster" where
  "proxy_cluster p cluster cc =
     (if ah_skipTLSVerify p
      then cc\<lparr>kl_Server := proxy_url p cluster, kl_Insecure := True, kl_CA := [], kl_CAData := []\<rparr>
      else cc\<lparr>kl_Server := proxy_url p cluster, kl_CA := ah_clusterProxyCAFile p, kl_CAData := [], kl_Insecure := False\<rparr>)"

definition create_cluster_manager ::
  "'w acm_env \<Rightarrow> string \<Rightarrow> 'w acmHubClusterProvider \<Rightarrow> (derive_error, Manager) result" where
  "create_cluster_manager env cluster p =
     (case kb_rawConfig (mg_kubernetes (ah_hubManager p)) of
        Inl e \<Rightarrow> Inl (DeriveError (''failed to get hub kubeconfig: '' @ e))
      | Inr hubRawConfig \<Rightarrow>
          mapErr (\<lambda>_. DeriveError (''failed to create manager for cluster '' @ cluster))
            (NewManager (ax_Kube env) (mg_config (ah_hubManager p)) (proxy_config p cluster) (Inr hubRawConfig)))"

text \<open>
  The first half looks the cluster up under the read lock and creates a manager without any lock;
  the second half stores it under the write lock. \<open>Ready\<close> is a result that needs no second half.
\<close>

datatype manager_lookup = Ready "(derive_error, Manager) result" | Created Manager

definition managerForCluster_begin ::
  "'w acm_env \<Rightarrow> string \<Rightarrow> 'w acmHubClusterProvider \<Rightarrow> manager_lookup" where
  "managerForCluster_begin env cluster p =
     (case map_of (ah_clusterManagers p) cluster of
        Some (Some m) \<Rightarrow> Ready (Inr m)
      | None \<Rightarrow> Ready (Inl (DeriveError (''cluster '' @ cluster @ '' not found'')))
      | Some None \<Rightarrow>
          (case create_cluster_manager env cluster p of
             Inl e \<Rightarrow> Ready (Inl e)
           | Inr m \<Rightarrow> Created m))"

definition managerForCluster_store ::
  "string \<Rightarrow> Manager \<Rightarrow> 'w acmHubClusterProvider \<Rightarrow> Manager \<times> 'w acmHubClusterProvider" where
  "managerForCluster_store cluster newManager p =
     (case map_of (ah_clusterManagers p) cluster of
        Some (Some existingManager) \<Rightarrow> (existingManager, p)
      | _ \<Rightarrow> (newManager, p\<lparr>ah_clusterManagers := AList.update cluster (Some newManager) (ah_clusterManagers p)\<rparr>))"

definition managerForCluster ::
  "'w acm_env \<Rightarrow> string \<Rightarrow> 'w acmHubClusterProvider \<Rightarrow> (derive_error, Manager) result \<times> 'w acmHubClusterProvider" where
  "managerForCluster env cluster p =
     (case managerForCluster_begin env cluster p of
        Ready r \<Rightarrow> (r, p)
      | Created newManager \<Rightarrow> map_prod Inr id (managerForCluster_store cluster newManager p))"

definition acm_GetDerivedKubernetes ::
  "'w acm_env \<Rightarrow> 'w call_ctx \<Rightarrow> string \<Rightarrow> 'w acmHubClusterProvider \<Rightarrow> 'w
   \<Rightarrow> (derive_error, Kubernetes) result \<times> 'w acmHubClusterProvider" where
  "acm_GetDerivedKubernetes env ctx target p w =
     (if target = [] \<or> target = acm_GetDefaultTarget p
      then (Derived (ke_Client (ax_Kube env)) (ah_hubManager p) ctx, p)
      else (case managerForCluster env target p of
              (Inl e, p1) \<Rightarrow> (Inl e, p1)
            | (Inr m, p1) \<Rightarrow> (Derived (ke_Client (ax_Kube env)) m ctx, p1)))"

section \<open>Token exchange\<close>

definition TokenTypeJWT :: string where "TokenTypeJWT = ''urn:ietf:params:oauth:token-type:jwt''"

definition detectSubjectTokenType ::
  "'w acmHubClusterProvider \<Rightarrow> string \<Rightarrow> 'w TargetTokenExchangeConfig \<Rightarrow> string" where
  "detectSubjectTokenType p target targetCfg =
     (let defaultTarget = acm_GetDefaultTarget p;
          byName = (if target = defaultTarget then TokenTypeAccessToken else TokenTypeJWT)
      in case map_of (ah_targetTokenConfigs p) defaultTarget of
           None \<Rightarrow> byName
         | Some hubCfg \<Rightarrow>
             (if te_TokenURL hubCfg \<noteq> [] \<and> te_TokenURL targetCfg \<noteq> []
              then (if te_TokenURL targetCfg = te_TokenURL hubCfg then TokenTypeAccessToken else TokenTypeJWT)
              else byName))"

text \<open>The detected type is written to the configuration, which later calls share.\<close>

definition acm_GetTokenExchangeConfig ::
  "string \<Rightarrow> 'w acmHubClusterProvider \<Rightarrow> 'w TargetTokenExchangeConfig option \<times> 'w acmHubClusterProvider" where
  "acm_GetTokenExchangeConfig target0 p =
     (let target = (if target0 = [] then acm_GetDefaultTarget p else target0) in
      case map_of (ah_targetTokenConfigs p) target of
        None \<Rightarrow> (None, p)
      | Some cfg \<Rightarrow>
          (if te_SubjectTokenType cfg = []
           then (let cfg1 = cfg\<lparr>te_SubjectTokenType := detectSubjectTokenType p target cfg\<rparr>
                 in (Some cfg1, p\<lparr>ah_targetTokenConfigs := AList.update target cfg1 (ah_targetTokenConfigs p)\<rparr>))
           else (Some cfg, p)))"

section \<open>The watch on the managed clusters\<close>

datatype watch_type = Added | Modified | Deleted | Bookmark | ErrorEvent

text \<open>An object that is not \<open>Unstructured\<close>, such as the status of an error event, is \<open>None\<close>.\<close>

type_synonym watch_event = "watch_type \<times> managed_cluster option"

text \<open>
  \<open>aw_requests\<close>, \<open>aw_sleeps\<close> and \<open>aw_reloads\<close> record what the goroutine has done: the resource
  versions it watched from, the delays it slept, and the targets when it called \<open>onTargetsChanged\<close>
  (whose error is only logged).
\<close>

record 'w acm_watch =
  aw_provider :: "'w acmHubClusterProvider"
  aw_resourceVersion :: string
  aw_delay :: int
  aw_requests :: "string list"
  aw_sleeps :: "int list"
  aw_reloads :: "string list list"

text \<open>
  Durations in nanoseconds. The delay stays below ten minutes, so that neither the conversion to
  \<open>float64\<close> and back nor the 64 bits of a duration change the product with the rate.
\<close>

definition initialDelay :: int where "initialDelay = 1000000000"
definition maxDelay :: int where "maxDelay = 5 * 60 * 1000000000"

definition watch_reload :: "'w acm_watch \<Rightarrow> 'w acm_watch" where
  "watch_reload s = s\<lparr>aw_reloads := aw_reloads s @ [acm_GetTargets (aw_provider s)]\<rparr>"

definition apply_watch_event :: "watch_type \<Rightarrow> managed_cluster \<Rightarrow> 'w acmHubClusterProvider \<Rightarrow> 'w acmHubClusterProvider" where
  "apply_watch_event t obj p =
     (case t of
        Added \<Rightarrow> (let p1 = addCluster (mc_Name obj) p
                  in if is_hub obj then setHubClusterName (mc_Name obj) p1 else p1)
      | Deleted \<Rightarrow> removeCluster (mc_Name obj) p
      | _ \<Rightarrow> p)"

fun handle_watch_event :: "watch_event \<Rightarrow> 'w acm_watch \<Rightarrow> 'w acm_watch" where
  "handle_watch_event (t, None) s = s"
| "handle_watch_event (t, Some obj) s =
     (let s1 = s\<lparr>aw_resourceVersion := mc_ResourceVersion obj, aw_provider := apply_watch_event t obj (aw_provider s)\<rparr>
      in if t = Added \<or> t = Deleted then watch_reload s1 else s1)"

text \<open>
  One turn of the loop: the context is done, the watch cannot be started, or its events until the
  stream closes.
\<close>

datatype watch_round = CtxDone | StartFailed | Streamed "watch_event list"

fun watch_turns :: "watch_round list \<Rightarrow> 'w acm_watch \<Rightarrow> 'w acm_watch" where
  "watch_turns [] s = s"
| "watch_turns (CtxDone # rounds) s = s"
| "watch_turns (StartFailed # rounds) s =
     watch_turns rounds
       (s\<lparr>aw_requests := aw_requests s @ [aw_resourceVersion s], aw_sleeps := aw_sleeps s @ [aw_delay s],
          aw_delay := min (aw_delay s * 2) maxDelay\<rparr>)"
| "watch_turns (Streamed events # rounds) s =
     watch_turns rounds
       (fold handle_watch_event events
          (s\<lparr>aw_requests := aw_requests s @ [aw_resourceVersion s], aw_delay := initialDelay\<rparr>))"

definition watchManagedClusters ::
  "string \<Rightarrow> watch_round list \<Rightarrow> 'w acmHubClusterProvider \<Rightarrow> 'w acm_watch" where
  "watchManagedClusters resourceVersion rounds p =
     watch_turns rounds \<lparr>aw_provider = p, aw_resourceVersion = resourceVersion, aw_delay = initialDelay,
       aw_requests = [], aw_sleeps = [], aw_reloads = []\<rparr>"

text \<open>What \<open>WatchTargets\<close> starts.\<close>

datatype acm_watcher = WatchKubeConfig | WatchClusterState | WatchManagedClusters string

definition acm_WatchTargets :: "'w acmHubClusterProvider \<Rightarrow> acm_watcher list \<times> 'w acmHubClusterProvider" where
  "acm_WatchTargets p =
     ((if ah_watchKubeConfig p then [WatchKubeConfig] else []) @ [WatchClusterState]
        @ (if ah_watchStarted p then [] else [WatchManagedClusters (ah_initialResourceVersion p)]),
      p\<lparr>ah_watchStarted := True\<rparr>)"

definition acm_Close :: "'w acmHubClusterProvider \<Rightarrow> 'w acmHubClusterProvider" where
  "acm_Close p = p\<lparr>ah_watchCancelled := True, ah_watchStarted := False\<rparr>"

section \<open>Backoff\<close>

text \<open>The delays by the number of failures since the watch was last established.\<close>

fun backoff_delays :: "nat \<Rightarrow> watch_round list \<Rightarrow> int list" where
  "backoff_delays k [] = []"
| "backoff_delays k (CtxDone # rounds) = []"
| "backoff_delays k (StartFailed # rounds) = min (2 ^ k * initialDelay) maxDelay # backoff_delays (Suc k) rounds"
| "backoff_delays k (Streamed events # rounds) = backoff_delays 0 rounds"

lemma handle_watch_event_loop [simp]:
  "aw_delay (handle_watch_event e s) = aw_delay s" "aw_sleeps (handle_watch_event e s) = aw_sleeps s"
  "aw_requests (handle_watch_event e s) = aw_requests s"
  by (cases e; cases "snd e"; simp add: Let_def watch_reload_def)+

lemma fold_handle_loop [simp]:
  "aw_delay (fold handle_watch_event es s) = aw_delay s" "aw_sleeps (fold handle_watch_event es s) = aw_sleeps s"
  "aw_requests (fold handle_watch_event es s) = aw_requests s"
  by (induction es arbitrary: s) simp_all

lemma delay_doubles: "min (min (2 ^ k * initialDelay) maxDelay * 2) maxDelay = min (2 ^ Suc k * initialDelay) maxDelay"
  by (simp add: initialDelay_def maxDelay_def)

lemma watch_turns_sleeps:
  "aw_delay s = min (2 ^ k * initialDelay) maxDelay
   \<Longrightarrow> aw_sleeps (watch_turns rounds s) = aw_sleeps s @ backoff_delays k rounds"
proof (induction k rounds arbitrary: s rule: backoff_delays.induct)
  case (3 k rounds)
  show ?case using 3(1) [of "s\<lparr>aw_requests := aw_requests s @ [aw_resourceVersion s], aw_sleeps := aw_sleeps s @ [aw_delay s],
      aw_delay := min (aw_delay s * 2) maxDelay\<rparr>"] 3(2) delay_doubles [of k] by simp
next
  case (4 k events rounds)
  show ?case using 4(1) [of "fold handle_watch_event events
      (s\<lparr>aw_requests := aw_requests s @ [aw_resourceVersion s], aw_delay := initialDelay\<rparr>)"]
    by (simp add: initialDelay_def maxDelay_def)
qed simp_all

lemma backoff_delays_bounds: "d \<in> set (backoff_delays k rounds) \<Longrightarrow> initialDelay \<le> d \<and> d \<le> maxDelay"
  by (induction k rounds rule: backoff_delays.induct) (auto simp: initialDelay_def maxDelay_def)

text \<open>
  The backoff of the watch on the managed clusters. Whatever the hub answers, the goroutine
  sleeps only after a watch that could not be started, the k-th time in a row (from 0) for 2^k
  seconds or five minutes if that is less; a watch that starts resets the delay. So every sleep
  is between one second and five minutes, and n failures in a row are spaced by n sleeps.
\<close>

theorem acm_watch_backoff:
  "aw_sleeps (watchManagedClusters rv rounds p) = backoff_delays 0 rounds
   \<and> list_all (\<lambda>d. initialDelay \<le> d \<and> d \<le> maxDelay) (aw_sleeps (watchManagedClusters rv rounds p))
   \<and> aw_sleeps (watchManagedClusters rv (replicate n StartFailed) p) = map (\<lambda>k. min (2 ^ k * initialDelay) maxDelay) [0..<n]"
proof -
  have all: "aw_sleeps (watchManagedClusters rv rs p) = backoff_delays 0 rs" for rs
    unfolding watchManagedClusters_def
    by (subst watch_turns_sleeps [of _ 0]) (simp_all add: initialDelay_def maxDelay_def)
  have "backoff_delays k (replicate n StartFailed) = map (\<lambda>k. min (2 ^ k * initialDelay) maxDelay) [k..<k + n]" for k
    by (induction n arbitrary: k) (simp_all add: upt_conv_Cons del: upt_Suc)
  then show ?thesis using all backoff_delays_bounds by (simp add: list_all_iff)
qed

section \<open>Targets\<close>

definition acm_clusters :: "'w acmHubClusterProvider \<Rightarrow> string set" where
  "acm_clusters p = fst ` set (ah_clusterManagers p)"

definition acm_wf :: "'w acmHubClusterProvider \<Rightarrow> bool" where
  "acm_wf p \<longleftrightarrow> distinct (map fst (ah_clusterManagers p))"

lemma acm_clusters_dom: "acm_clusters p = dom (map_of (ah_clusterManagers p))"
  by (simp add: acm_clusters_def dom_map_of_conv_image_fst)

lemma finite_acm_clusters [simp]: "finite (acm_clusters p)"
  by (simp add: acm_clusters_def)

lemma setHubClusterName_clusters [simp]:
  "ah_clusterManagers (setHubClusterName n p) = ah_clusterManagers p"
  "acm_clusters (setHubClusterName n p) = acm_clusters p" "acm_wf (setHubClusterName n p) = acm_wf p"
  by (simp_all add: setHubClusterName_def acm_clusters_def acm_wf_def)

lemma addCluster_clusters [simp]: "acm_clusters (addCluster n p) = insert n (acm_clusters p)"
  by (auto simp: addCluster_def acm_clusters_dom update_conv' split: option.splits)

lemma addCluster_wf [simp]: "acm_wf p \<Longrightarrow> acm_wf (addCluster n p)"
  by (simp add: addCluster_def acm_wf_def distinct_update split: option.splits)

lemma removeCluster_clusters [simp]: "acm_clusters (removeCluster n p) = acm_clusters p - {n}"
  by (auto simp: removeCluster_def acm_clusters_def AList.delete_eq image_iff)

lemma removeCluster_wf [simp]: "acm_wf p \<Longrightarrow> acm_wf (removeCluster n p)"
  by (simp add: removeCluster_def acm_wf_def distinct_delete)

lemma store_clusters [simp]:
  "acm_clusters (snd (managerForCluster_store c m p)) = insert c (acm_clusters p)"
  by (auto simp: managerForCluster_store_def acm_clusters_dom update_conv' split: option.splits)

lemma store_wf [simp]: "acm_wf p \<Longrightarrow> acm_wf (snd (managerForCluster_store c m p))"
  by (simp add: managerForCluster_store_def acm_wf_def distinct_update split: option.splits)

lemma begin_known: "managerForCluster_begin env c p = Created m \<Longrightarrow> c \<in> acm_clusters p"
  by (auto simp: managerForCluster_begin_def acm_clusters_dom split: option.splits)

lemma acm_GetTargets_set: "set (acm_GetTargets p) = acm_clusters p"
  by (simp add: acm_GetTargets_def acm_clusters_def)

lemma acm_GetTargets_exact: "acm_wf p \<Longrightarrow> acm_GetTargets p = sorted_list_of_set (acm_clusters p)"
  using sorted_list_of_set_sort_remdups [of "map fst (ah_clusterManagers p)"]
  by (simp add: acm_GetTargets_def acm_wf_def acm_clusters_def distinct_remdups_id)

lemma refresh_items_clusters:
  "acm_clusters (refresh_items items p) = acm_clusters p \<union> (mc_Name ` set items - {[]})"
  "acm_wf p \<Longrightarrow> acm_wf (refresh_items items p)"
  by (induction items arbitrary: p) (auto simp: Let_def)

text \<open>The managed clusters that the events leave.\<close>

fun live_step :: "watch_type \<times> managed_cluster \<Rightarrow> string set \<Rightarrow> string set" where
  "live_step (Added, obj) S = insert (mc_Name obj) S"
| "live_step (Deleted, obj) S = S - {mc_Name obj}"
| "live_step (_, obj) S = S"

definition live_clusters :: "(watch_type \<times> managed_cluster) list \<Rightarrow> string set \<Rightarrow> string set" where
  "live_clusters evs S = fold live_step evs S"

lemma live_clusters_snoc: "live_clusters (evs @ [e]) S = live_step e (live_clusters evs S)"
  by (simp add: live_clusters_def)

lemma apply_watch_event_clusters: "acm_clusters (apply_watch_event t obj p) = live_step (t, obj) (acm_clusters p)"
  by (cases t) (simp_all add: apply_watch_event_def Let_def)

lemma apply_watch_event_wf: "acm_wf p \<Longrightarrow> acm_wf (apply_watch_event t obj p)"
  by (cases t) (simp_all add: apply_watch_event_def Let_def)

text \<open>
  The schedules of events and requests. \<open>acm_run env p0 p fl evs raced\<close>: from \<open>p0\<close>, after the
  events \<open>evs\<close>, the provider is \<open>p\<close>, the requests \<open>fl\<close> are between their halves, and \<open>raced\<close>
  are the clusters that were deleted while a request for them was.
\<close>

inductive acm_run ::
  "'w acm_env \<Rightarrow> 'w acmHubClusterProvider \<Rightarrow> 'w acmHubClusterProvider \<Rightarrow> (string \<times> Manager) list
   \<Rightarrow> (watch_type \<times> managed_cluster) list \<Rightarrow> string set \<Rightarrow> bool"
  for env :: "'w acm_env" and p0 :: "'w acmHubClusterProvider" where
  start: "acm_run env p0 p0 [] [] {}"
| event: "acm_run env p0 p fl evs raced
    \<Longrightarrow> acm_run env p0 (apply_watch_event t obj p) fl (evs @ [(t, obj)])
          (if t = Deleted \<and> mc_Name obj \<in> fst ` set fl then insert (mc_Name obj) raced else raced)"
| begin_request: "acm_run env p0 p fl evs raced \<Longrightarrow> managerForCluster_begin env c p = Created m
    \<Longrightarrow> acm_run env p0 p ((c, m) # fl) evs raced"
| store_request: "acm_run env p0 p (fl1 @ (c, m) # fl2) evs raced
    \<Longrightarrow> acm_run env p0 (snd (managerForCluster_store c m p)) (fl1 @ fl2) evs raced"

lemma acm_run_wf: "acm_run env p0 p fl evs raced \<Longrightarrow> acm_wf p0 \<Longrightarrow> acm_wf p"
  by (induction rule: acm_run.induct) (simp_all add: apply_watch_event_wf)

lemma acm_run_clusters:
  assumes "acm_run env p0 p fl evs raced"
  shows "live_clusters evs (acm_clusters p0) \<subseteq> acm_clusters p
    \<and> acm_clusters p \<subseteq> live_clusters evs (acm_clusters p0) \<union> raced \<and> fst ` set fl \<subseteq> acm_clusters p \<union> raced"
  using assms
proof induction
  case start
  then show ?case by (simp add: live_clusters_def)
next
  case (event p fl evs raced t obj)
  then show ?case
    by (cases t; cases "mc_Name obj \<in> fst ` set fl")
       (simp_all add: apply_watch_event_clusters live_clusters_snoc, blast+)
next
  case (begin_request p fl evs raced c m)
  then show ?case using begin_known [OF begin_request.hyps(2)] by simp
next
  case (store_request p fl1 c m fl2 evs raced)
  then show ?case by auto
qed

lemma initial_provider_fields [simp]:
  "ah_clusterManagers (initial_provider m cfg wk h) = []" "ah_hubManager (initial_provider m cfg wk h) = m"
  by (simp_all add: initial_provider_def)

lemma new_acm_refreshed:
  assumes "newACMClusterProvider env m cfg wk w = Inr p"
  obtains h e where "refreshClusters env (initial_provider m cfg wk h) w = (Inl e, p)"
    | h rv q where "refreshClusters env (initial_provider m cfg wk h) w = (Inr rv, q)" "p = q\<lparr>ah_initialResourceVersion := rv\<rparr>"
  using assms by (auto simp: newACMClusterProvider_def split: if_splits sum.splits prod.splits)

lemma new_acm_clusters:
  assumes "newACMClusterProvider env m cfg wk w = Inr p" "ax_ManagedClusters env (hub_rest m) w = Inr (items, rv)"
  shows "acm_wf p" and "acm_clusters p = mc_Name ` set items - {[]}" and "ah_initialResourceVersion p = rv"
    and "ah_hubManager p = m"
proof -
  obtain q where p: "p = (refresh_items items q)\<lparr>ah_initialResourceVersion := rv\<rparr>"
    and q: "ah_clusterManagers q = []" "ah_hubManager q = m"
    using assms(1)
  proof (cases rule: new_acm_refreshed)
    case (2 h rv' q')
    then show ?thesis using assms(2) by (intro that [of "initial_provider m cfg wk h"]) (auto simp: refreshClusters_def)
  qed (use assms(2) in \<open>simp add: refreshClusters_def\<close>)
  have wf: "acm_wf q" "acm_clusters q = {}" using q by (simp_all add: acm_wf_def acm_clusters_def)
  have upd: "acm_wf p = acm_wf (refresh_items items q)" "acm_clusters p = acm_clusters (refresh_items items q)"
    using p by (simp_all add: acm_wf_def acm_clusters_def)
  show "acm_wf p" "acm_clusters p = mc_Name ` set items - {[]}"
    unfolding upd using refresh_items_clusters(2) [OF wf(1)] by (simp_all add: refresh_items_clusters(1) wf)
  show "ah_initialResourceVersion p = rv" using p by simp
  have "ah_hubManager (refresh_items is r) = ah_hubManager r" for "is" and r :: "'a acmHubClusterProvider"
    by (induction "is" arbitrary: r)
       (simp_all add: Let_def addCluster_def setHubClusterName_def split: option.splits)
  then show "ah_hubManager p = m" using p q by simp
qed

text \<open>
  C38: the targets are the managed clusters. Start from a provider built on a hub that lists its
  managed clusters, and let any events of the watch and any requests for clusters interleave, the
  two halves of a request included. The targets are sorted and distinct, contain every cluster
  that the list and the events leave, and contain no other cluster unless it was deleted while a
  request for it was between its halves; with no such race they are exactly the managed clusters.
\<close>

theorem acm_targets_follow_hub:
  assumes "newACMClusterProvider env m cfg wk w = Inr p0" "ax_ManagedClusters env (hub_rest m) w = Inr (items, rv)"
    and "acm_run env p0 p fl evs raced"
  shows "sorted (acm_GetTargets p) \<and> distinct (acm_GetTargets p)
    \<and> live_clusters evs (mc_Name ` set items - {[]}) \<subseteq> set (acm_GetTargets p)
    \<and> set (acm_GetTargets p) \<subseteq> live_clusters evs (mc_Name ` set items - {[]}) \<union> raced
    \<and> (raced = {} \<longrightarrow> acm_GetTargets p = sorted_list_of_set (live_clusters evs (mc_Name ` set items - {[]})))"
proof -
  note new = new_acm_clusters [OF assms(1,2)]
  have wf: "acm_wf p" by (rule acm_run_wf [OF assms(3) new(1)])
  have "live_clusters evs (acm_clusters p0) \<subseteq> acm_clusters p" "acm_clusters p \<subseteq> live_clusters evs (acm_clusters p0) \<union> raced"
    using acm_run_clusters [OF assms(3)] by auto
  then show ?thesis
    unfolding acm_GetTargets_exact [OF wf] new(2) by auto
qed

definition acm_demo_cluster :: "string \<Rightarrow> bool \<Rightarrow> managed_cluster" where
  "acm_demo_cluster name hub =
     \<lparr>mc_Name = name, mc_Labels = (if hub then [(''local-cluster'', ''true'')] else []), mc_ResourceVersion = ''7''\<rparr>"

definition acm_demo_env :: "nat acm_env" where
  "acm_demo_env = \<lparr>ax_Kube = demo_env, ax_Resources = (\<lambda>_ _. Inr [(''cluster.open-cluster-management.io/v1'', [''ManagedCluster''])]),
     ax_Route = (\<lambda>_ _. Inl []), ax_Service = (\<lambda>_ _. Inl []),
     ax_ManagedClusters = (\<lambda>_ _. Inr ([acm_demo_cluster ''hub'' True, acm_demo_cluster ''east'' False], ''6''))\<rparr>"

definition acm_demo_cfg :: "nat ACMProviderConfig" where
  "acm_demo_cfg = \<lparr>ac_ClusterProxyAddonHost = ''proxy'', ac_SkipTLSVerify = False, ac_CAFile = ''/ca'',
     ac_TokenExchangeStrategy = [], ac_Clusters = []\<rparr>"

lemma acm_demo_new: "\<exists>p0. newACMClusterProvider acm_demo_env demo_manager acm_demo_cfg False 0 = Inr p0"
  by (simp add: newACMClusterProvider_def IsACMHub_def refreshClusters_def acm_demo_env_def acm_demo_cfg_def)

theorem acm_targets_follow_hub_witness:
  "\<exists>p0. newACMClusterProvider acm_demo_env demo_manager acm_demo_cfg False 0 = Inr p0
   \<and> acm_GetTargets (apply_watch_event Deleted (acm_demo_cluster ''east'' False)
       (apply_watch_event Added (acm_demo_cluster ''west'' False) p0)) = [''hub'', ''west'']"
proof -
  obtain p0 where new: "newACMClusterProvider acm_demo_env demo_manager acm_demo_cfg False 0 = Inr p0"
    using acm_demo_new by blast
  have ls: "ax_ManagedClusters acm_demo_env (hub_rest demo_manager) 0
      = Inr ([acm_demo_cluster ''hub'' True, acm_demo_cluster ''east'' False], ''6'')"
    by (simp add: acm_demo_env_def)
  have run: "acm_run acm_demo_env p0 (apply_watch_event Deleted (acm_demo_cluster ''east'' False)
       (apply_watch_event Added (acm_demo_cluster ''west'' False) p0)) []
       [(Added, acm_demo_cluster ''west'' False), (Deleted, acm_demo_cluster ''east'' False)] {}"
    using acm_run.event [OF acm_run.event [OF acm_run.start]] by fastforce
  have "{''west'', ''hub'', ''east''} - {''east''} = {''hub'', ''west''}" by auto
  moreover have "sorted_list_of_set {''hub'', ''west''} = [''hub'', ''west'']" by code_simp
  ultimately show ?thesis
    using acm_targets_follow_hub [OF new ls run] new by (simp add: live_clusters_def acm_demo_cluster_def)
qed

text \<open>
  The race: a cluster deleted while the first request for it is between its halves is a target
  again when the request stores its manager, and no event will remove it.
\<close>

lemma deleted_cluster_resurrected:
  assumes "managerForCluster_begin env (mc_Name obj) p = Created m"
  shows "\<exists>p'. acm_run env p p' [] [(Deleted, obj)] {mc_Name obj} \<and> mc_Name obj \<in> set (acm_GetTargets p')"
proof (intro exI conjI)
  let ?q = "apply_watch_event Deleted obj p"
  have "acm_run env p ?q [(mc_Name obj, m)] [(Deleted, obj)] {mc_Name obj}"
    using acm_run.event [OF acm_run.begin_request [OF acm_run.start assms], of Deleted obj] by simp
  then show "acm_run env p (snd (managerForCluster_store (mc_Name obj) m ?q)) [] [(Deleted, obj)] {mc_Name obj}"
    using acm_run.store_request [of env p ?q "[]" "mc_Name obj" m "[]"] by simp
  show "mc_Name obj \<in> set (acm_GetTargets (snd (managerForCluster_store (mc_Name obj) m ?q)))"
    by (simp add: acm_GetTargets_set)
qed

section \<open>The watch\<close>

text \<open>The events that the turns of the loop handle.\<close>

fun round_events :: "watch_round list \<Rightarrow> (watch_type \<times> managed_cluster) list" where
  "round_events [] = []"
| "round_events (CtxDone # rounds) = []"
| "round_events (StartFailed # rounds) = round_events rounds"
| "round_events (Streamed events # rounds) =
     [(t, obj). (t, Some obj) \<leftarrow> events] @ round_events rounds"

lemma fold_handle_provider:
  "aw_provider (fold handle_watch_event events s)
   = fold (\<lambda>(t, obj). apply_watch_event t obj) [(t, obj). (t, Some obj) \<leftarrow> events] (aw_provider s)"
proof (induction events arbitrary: s)
  case (Cons e events)
  then show ?case by (cases e; cases "snd e") (auto simp: Let_def watch_reload_def)
qed simp

lemma watch_turns_provider:
  "aw_provider (watch_turns rounds s) = fold (\<lambda>(t, obj). apply_watch_event t obj) (round_events rounds) (aw_provider s)"
  by (induction rounds s rule: watch_turns.induct) (simp_all add: fold_handle_provider)

text \<open>The loop is a run without requests; whenever the targets change, they are reloaded.\<close>

lemma events_run:
  "acm_run env p (fold (\<lambda>(t, obj). apply_watch_event t obj) evs p) [] evs {}"
proof (induction evs rule: rev_induct)
  case Nil show ?case using acm_run.start by simp
next
  case (snoc e evs)
  then show ?case using acm_run.event [OF snoc, of "fst e" "snd e"] by (simp add: case_prod_beta)
qed

lemma watch_is_run: "acm_run env p (aw_provider (watchManagedClusters rv rounds p)) [] (round_events rounds) {}"
  unfolding watchManagedClusters_def watch_turns_provider using events_run by simp

definition reloaded :: "'w acmHubClusterProvider \<Rightarrow> 'w acm_watch \<Rightarrow> bool" where
  "reloaded p0 s \<longleftrightarrow> (if aw_reloads s = [] then acm_GetTargets (aw_provider s) = acm_GetTargets p0
     else List.last (aw_reloads s) = acm_GetTargets (aw_provider s))"

lemma reloaded_handle: "reloaded p0 s \<Longrightarrow> reloaded p0 (handle_watch_event e s)"
proof (cases e)
  case (Pair t o')
  assume "reloaded p0 s"
  then show ?thesis unfolding Pair
    by (cases o'; cases t) (auto simp: reloaded_def Let_def watch_reload_def apply_watch_event_def)
qed

lemma reloaded_fold: "reloaded p0 s \<Longrightarrow> reloaded p0 (fold handle_watch_event es s)"
  by (induction es arbitrary: s) (simp_all add: reloaded_handle)

lemma reloaded_frame:
  "reloaded p0 (s\<lparr>aw_requests := a\<rparr>) = reloaded p0 s" "reloaded p0 (s\<lparr>aw_sleeps := b\<rparr>) = reloaded p0 s"
  "reloaded p0 (s\<lparr>aw_delay := d\<rparr>) = reloaded p0 s"
  by (simp_all add: reloaded_def)

lemma watch_reloads: "reloaded p0 s \<Longrightarrow> reloaded p0 (watch_turns rounds s)"
  by (induction rounds s rule: watch_turns.induct) (simp_all add: reloaded_frame reloaded_fold)

text \<open>
  The watch never lists again: once its resource version has expired, so that each stream brings
  only the error, the loop asks for the same version again and again without a pause.
\<close>

lemma expired_watch_spins:
  "aw_requests (watchManagedClusters rv (replicate n (Streamed [(ErrorEvent, None)])) p) = replicate n rv
   \<and> aw_sleeps (watchManagedClusters rv (replicate n (Streamed [(ErrorEvent, None)])) p) = []"
proof -
  have "aw_requests (watch_turns (replicate n (Streamed [(ErrorEvent, None)])) s) = aw_requests s @ replicate n (aw_resourceVersion s)
      \<and> aw_sleeps (watch_turns (replicate n (Streamed [(ErrorEvent, None)])) s) = aw_sleeps s" for s :: "'a acm_watch"
    by (induction n arbitrary: s) simp_all
  then show ?thesis by (simp add: watchManagedClusters_def)
qed

section \<open>Clients of the managed clusters\<close>

definition acm_conf :: "'w acmHubClusterProvider \<Rightarrow> StaticConfig" where
  "acm_conf p = mg_config (ah_hubManager p)"

definition acm_inv :: "'w acmHubClusterProvider \<Rightarrow> bool" where
  "acm_inv p \<longleftrightarrow> mgr_wf (acm_conf p) (ah_hubManager p)
     \<and> (\<forall>c m. map_of (ah_clusterManagers p) c = Some (Some m) \<longrightarrow> mgr_wf (acm_conf p) m)"

lemma create_cluster_manager_wf: "create_cluster_manager env c p = Inr m \<Longrightarrow> mgr_wf (acm_conf p) m"
  by (auto simp: create_cluster_manager_def acm_conf_def intro: NewManager_wf split: sum.splits)

lemma begin_wf:
  assumes "acm_inv p"
  shows "managerForCluster_begin env c p = Ready (Inr m) \<Longrightarrow> mgr_wf (acm_conf p) m"
    and "managerForCluster_begin env c p = Created m \<Longrightarrow> mgr_wf (acm_conf p) m"
  using assms
  by (auto simp: managerForCluster_begin_def acm_inv_def dest: create_cluster_manager_wf split: option.splits sum.splits)

lemma store_inv:
  assumes "acm_inv p" "mgr_wf (acm_conf p) m"
  shows "acm_inv (snd (managerForCluster_store c m p))"
    and "acm_conf (snd (managerForCluster_store c m p)) = acm_conf p"
    and "mgr_wf (acm_conf p) (fst (managerForCluster_store c m p))"
  using assms
  by (auto simp: managerForCluster_store_def acm_inv_def acm_conf_def update_conv' split: option.splits if_splits)

lemma managerForCluster_inv:
  assumes "managerForCluster env c p = (r, p')" "acm_inv p"
  shows "acm_inv p' \<and> acm_conf p' = acm_conf p" and "r = Inr m \<Longrightarrow> mgr_wf (acm_conf p) m"
proof -
  have "acm_inv p' \<and> acm_conf p' = acm_conf p \<and> (r = Inr m \<longrightarrow> mgr_wf (acm_conf p) m)"
  proof (cases "managerForCluster_begin env c p")
    case (Ready r0)
    then show ?thesis using assms begin_wf(1) [OF assms(2)] by (auto simp: managerForCluster_def)
  next
    case (Created m0)
    note st = store_inv [OF assms(2) begin_wf(2) [OF assms(2) Created], of c]
    show ?thesis using assms(1) Created st by (auto simp: managerForCluster_def map_prod_def split: prod.splits)
  qed
  then show "acm_inv p' \<and> acm_conf p' = acm_conf p" "r = Inr m \<Longrightarrow> mgr_wf (acm_conf p) m" by auto
qed

lemma acm_derives:
  assumes "acm_GetDerivedKubernetes env ctx target p w = (r, p')" "acm_inv p"
  shows "acm_inv p' \<and> acm_conf p' = acm_conf p"
    and "r = Inr k \<Longrightarrow> \<exists>m. mgr_wf (acm_conf p) m \<and> Derived (ke_Client (ax_Kube env)) m ctx = Inr k"
proof -
  obtain r1 p1 where mgr: "managerForCluster env target p = (r1, p1)" by fastforce
  note inv = managerForCluster_inv [OF mgr assms(2)]
  show "acm_inv p' \<and> acm_conf p' = acm_conf p"
    using assms inv(1) unfolding acm_GetDerivedKubernetes_def mgr by (auto split: sum.splits if_splits)
  have "mgr_wf (acm_conf p) (ah_hubManager p)" using assms(2) by (simp add: acm_inv_def)
  then show "\<exists>m. mgr_wf (acm_conf p) m \<and> Derived (ke_Client (ax_Kube env)) m ctx = Inr k" if "r = Inr k"
    using assms(1) inv(2) that unfolding acm_GetDerivedKubernetes_def mgr by (auto split: sum.splits if_splits)
qed

interpretation acm: manager_provider "acm_GetDerivedKubernetes env" acm_inv acm_conf "ke_Client (ax_Kube env)"
  for env :: "'w acm_env"
  by unfold_locales (auto dest: acm_derives(1) acm_derives(2) [OF _ _ refl])

text \<open>The invariant holds of new providers and through every schedule.\<close>

lemma acm_inv_None:
  assumes "ah_clusterManagers p = []" "mgr_wf (acm_conf p) (ah_hubManager p)"
  shows "acm_inv p"
  using assms by (simp add: acm_inv_def)

lemma addCluster_inv: "acm_inv p \<Longrightarrow> acm_inv (addCluster n p)" "acm_conf (addCluster n p) = acm_conf p"
  by (auto simp: addCluster_def acm_inv_def acm_conf_def update_conv' split: option.splits if_splits)

lemma setHub_inv: "acm_inv (setHubClusterName n p) = acm_inv p" "acm_conf (setHubClusterName n p) = acm_conf p"
  by (simp_all add: setHubClusterName_def acm_inv_def acm_conf_def)

lemma removeCluster_inv: "acm_inv p \<Longrightarrow> acm_inv (removeCluster n p)" "acm_conf (removeCluster n p) = acm_conf p"
  by (auto simp: removeCluster_def acm_inv_def acm_conf_def delete_conv' split: if_splits)

lemmas acm_inv_ops = addCluster_inv setHub_inv removeCluster_inv

lemma apply_watch_event_inv:
  "acm_inv p \<Longrightarrow> acm_inv (apply_watch_event t obj p)" "acm_conf (apply_watch_event t obj p) = acm_conf p"
  by (cases t; simp add: apply_watch_event_def Let_def acm_inv_ops)+

lemma refresh_items_inv:
  "acm_inv p \<Longrightarrow> acm_inv (refresh_items items p)" "acm_conf (refresh_items items p) = acm_conf p"
  by (induction items arbitrary: p) (simp_all add: Let_def acm_inv_ops)

lemma acm_run_inv:
  assumes "acm_run env p0 p fl evs raced" "acm_inv p0"
  shows "acm_inv p \<and> acm_conf p = acm_conf p0 \<and> (\<forall>(c, m) \<in> set fl. mgr_wf (acm_conf p0) m)"
  using assms
proof induction
  case (begin_request p fl evs raced c m)
  then show ?case using begin_wf(2) [OF _ begin_request.hyps(2)] by auto
next
  case (store_request p fl1 c m fl2 evs raced)
  then have "acm_inv p" "acm_conf p = acm_conf p0" "mgr_wf (acm_conf p) m" by auto
  then show ?case using store_inv [of p m c] store_request by auto
qed (simp_all add: apply_watch_event_inv)

lemma new_acm_inv:
  assumes "newACMClusterProvider env m pc wk w = Inr p" "mgr_wf cfg m"
  shows "acm_inv p \<and> acm_conf p = cfg"
proof -
  have cfg: "mg_config m = cfg" using assms(2) by (simp add: mgr_wf_def)
  have init: "acm_inv (initial_provider m pc wk h)" "acm_conf (initial_provider m pc wk h) = cfg" for h
    using cfg assms(2) by (auto simp: acm_conf_def intro: acm_inv_None)
  have version: "acm_inv (r\<lparr>ah_initialResourceVersion := v\<rparr>) = acm_inv r" "acm_conf (r\<lparr>ah_initialResourceVersion := v\<rparr>) = acm_conf r"
    for r :: "'a acmHubClusterProvider" and v
    by (simp_all add: acm_inv_def acm_conf_def)
  have refresh: "acm_inv p' \<and> acm_conf p' = cfg" if "refreshClusters env (initial_provider m pc wk h) w = (r, p')" for h r p'
    using that init by (auto simp: refreshClusters_def refresh_items_inv split: sum.splits prod.splits)
  show ?thesis
    using assms(1) by (cases rule: new_acm_refreshed) (auto simp: version dest: refresh)
qed

lemma acm_provider_inv:
  "newACMHubClusterProvider env cfg pc w = Inr p \<Longrightarrow> acm_inv p \<and> acm_conf p = cfg"
  "newACMKubeConfigClusterProvider env cfg pk w = Inr p \<Longrightarrow> acm_inv p \<and> acm_conf p = cfg"
  by (auto simp: newACMHubClusterProvider_def newACMKubeConfigClusterProvider_def
      dest!: NewInClusterManager_wf NewKubeconfigManager_wf dest: new_acm_inv split: sum.splits option.splits)

text \<open>The two descriptions of a proxied cluster, for the client and in the kubeconfig, agree.\<close>

lemma proxy_cluster_agrees:
  "kl_Server (proxy_cluster p c cc) = rc_Host (proxy_config p c)"
  "kl_Insecure (proxy_cluster p c cc) = rc_Insecure (proxy_config p c)"
  "kl_CA (proxy_cluster p c cc) = rc_CAFile (proxy_config p c)" "kl_CAData (proxy_cluster p c cc) = rc_CAData (proxy_config p c)"
  by (simp_all add: proxy_cluster_def proxy_config_def)

text \<open>
  So the token-exchanging wrapper over this provider gives each request an identity it is
  entitled to, at every point of every schedule.
\<close>

lemma acm_identity:
  assumes "newACMHubClusterProvider env cfg pc w0 = Inr p0 \<or> newACMKubeConfigClusterProvider env cfg pk w0 = Inr p0"
    and "acm_run env p0 (xp_provider x) fl evs raced"
    and "exchanging_GetDerivedKubernetes (acm_GetDerivedKubernetes env) tep xe baseConfig oauthState ctx target x w = (Inr k, x', w')"
  shows "request_identity xe (baseConfig w) (oauthState w) (tep (xp_provider x) target) cfg ctx (kb_restConfig k)"
    and "guarded cfg (kb_restConfig k)"
proof -
  have "acm_inv p0" "acm_conf p0 = cfg" using assms(1) acm_provider_inv by metis+
  then have inv: "acm_inv (xp_provider x)" and conf: "acm_conf (xp_provider x) = cfg"
    using acm_run_inv [OF assms(2)] by auto
  show "request_identity xe (baseConfig w) (oauthState w) (tep (xp_provider x) target) cfg ctx (kb_restConfig k)"
    using acm.exchanging_identity(1) [OF assms(3) inv] conf by simp
  show "guarded cfg (kb_restConfig k)"
    using acm.exchanging_identity(2) [OF assms(3) inv] conf by simp
qed

section \<open>The CA file\<close>

lemma path_Join_nonempty: "d \<noteq> [] \<Longrightarrow> path_Join [d, f] \<noteq> []"
proof -
  have "Clean q \<noteq> []" for q
  proof -
    have join: "list_all (\<lambda>c. c \<noteq> []) ws \<Longrightarrow> ws \<noteq> [] \<Longrightarrow> Join ''/'' ws \<noteq> []" for ws
      by (cases ws rule: list.exhaust; cases "tl ws") auto
    have "list_all (\<lambda>c. c \<noteq> []) (clean_comps r [] cs)" for r cs by (rule clean_comps_all) simp_all
    then have "clean_comps r [] cs \<noteq> [] \<Longrightarrow> Join ''/'' (clean_comps r [] cs) \<noteq> []" for r cs
      using join by blast
    then show ?thesis by (simp add: Clean_def Let_def)
  qed
  then show "d \<noteq> [] \<Longrightarrow> path_Join [d, f] \<noteq> []" by (simp add: path_Join_def)
qed

text \<open>
  The check for a missing CA file cannot fail after parsing: the empty name has become the
  directory of the configuration. An absolute name is looked up below that directory.
\<close>

lemma acm_ca_check_dead:
  assumes "parseAcmConfig decode configDir prim = Inr cfg" "configDir \<noteq> []"
  shows "ACM_Validate cfg = []"
  using assms path_Join_nonempty
  by (auto simp: parseAcmConfig_def ACM_Validate_def ResolveClusterProxyAddonCAFilePath_def split: sum.splits)

lemma acm_absolute_ca_moved:
  "ac_CAFile (ResolveClusterProxyAddonCAFilePath ''/etc/mcp'' (acm_demo_cfg\<lparr>ac_CAFile := ''/run/ca.crt''\<rparr>)) = ''/etc/mcp/run/ca.crt''"
  by code_simp

section \<open>The type of the subject token\<close>

text \<open>
  With the token endpoints of the hub and the target configured, the exchange is within a realm
  exactly if they are the same; the answer is kept for later calls.
\<close>

lemma acm_subject_token_type:
  assumes "map_of (ah_targetTokenConfigs p) target = Some cfg" "te_SubjectTokenType cfg = []" "target \<noteq> []"
    and "map_of (ah_targetTokenConfigs p) (acm_GetDefaultTarget p) = Some hub" "te_TokenURL hub \<noteq> []" "te_TokenURL cfg \<noteq> []"
    and "acm_GetTokenExchangeConfig target p = (Some cfg', p')"
  shows "te_SubjectTokenType cfg' = (if te_TokenURL cfg = te_TokenURL hub then TokenTypeAccessToken else TokenTypeJWT)"
    and "acm_GetTokenExchangeConfig target p' = (Some cfg', p')"
proof -
  have cfg': "cfg' = cfg\<lparr>te_SubjectTokenType := detectSubjectTokenType p target cfg\<rparr>"
    and p': "p' = p\<lparr>ah_targetTokenConfigs := AList.update target cfg' (ah_targetTokenConfigs p)\<rparr>"
    using assms by (auto simp: acm_GetTokenExchangeConfig_def Let_def)
  show type: "te_SubjectTokenType cfg' = (if te_TokenURL cfg = te_TokenURL hub then TokenTypeAccessToken else TokenTypeJWT)"
    unfolding cfg' using assms by (simp add: detectSubjectTokenType_def Let_def)
  then have "te_SubjectTokenType cfg' \<noteq> []" by (simp add: TokenTypeAccessToken_def TokenTypeJWT_def)
  then show "acm_GetTokenExchangeConfig target p' = (Some cfg', p')"
    using assms(3) unfolding p' by (simp add: acm_GetTokenExchangeConfig_def update_conv')
qed

end
