(* ===== verification/Actions.thy ===== *)
theory Actions
  imports Go_Prelude
begin

text \<open>
  Sequences of calls to the outside world, each of which may fail: an action takes a world and
  gives a result and the world it leaves. The component theories write the bodies of handlers as
  actions; \<open>keeps P\<close> says that an action leads from worlds with \<open>P\<close> to worlds with \<open>P\<close>.
\<close>

type_synonym ('w, 'a) action = "'w \<Rightarrow> (string, 'a) result \<times> 'w"

definition retA :: "'a \<Rightarrow> ('w, 'a) action" where
  "retA x w = (Inr x, w)"

definition failA :: "string \<Rightarrow> ('w, 'a) action" where
  "failA e w = (Inl e, w)"

definition bindA :: "('w, 'a) action \<Rightarrow> ('a \<Rightarrow> ('w, 'b) action) \<Rightarrow> ('w, 'b) action" where
  "bindA m f w = (case m w of (Inl e, w1) \<Rightarrow> (Inl e, w1) | (Inr x, w1) \<Rightarrow> f x w1)"

text \<open>An action whose error the caller inspects, and one whose error the caller wraps.\<close>

definition tryA :: "('w, 'a) action \<Rightarrow> ('w, (string, 'a) result) action" where
  "tryA m w = (case m w of (r, w1) \<Rightarrow> (Inr r, w1))"

definition wrapA :: "string \<Rightarrow> ('w, 'a) action \<Rightarrow> ('w, 'a) action" where
  "wrapA msg m w = (case m w of (r, w1) \<Rightarrow> (mapErr (\<lambda>e. msg @ e) r, w1))"

definition liftA :: "(string, 'a) result \<Rightarrow> ('w, 'a) action" where
  "liftA r w = (r, w)"

fun forA :: "'a list \<Rightarrow> ('a \<Rightarrow> ('w, 'b) action) \<Rightarrow> ('w, 'b list) action" where
  "forA [] f = retA []"
| "forA (x # xs) f = bindA (f x) (\<lambda>y. bindA (forA xs f) (\<lambda>ys. retA (y # ys)))"

definition keeps :: "('w \<Rightarrow> bool) \<Rightarrow> ('w, 'a) action \<Rightarrow> bool" where
  "keeps P m \<longleftrightarrow> (\<forall>w. P w \<longrightarrow> P (snd (m w)))"

named_theorems keeps_intros

lemma keepsD: "keeps P m \<Longrightarrow> P w \<Longrightarrow> P (snd (m w))"
  by (simp add: keeps_def)

lemma keeps_ret [keeps_intros]: "keeps P (retA x)"
  by (simp add: keeps_def retA_def)

lemma keeps_fail [keeps_intros]: "keeps P (failA e)"
  by (simp add: keeps_def failA_def)

lemma keeps_lift [keeps_intros]: "keeps P (liftA r)"
  by (simp add: keeps_def liftA_def)

lemma keeps_bind [keeps_intros]:
  assumes "keeps P m" "\<And>x. keeps P (f x)"
  shows "keeps P (bindA m f)"
  unfolding keeps_def
proof (intro allI impI)
  fix w assume w: "P w"
  obtain r w1 where m: "m w = (r, w1)" by fastforce
  have "P w1" using keepsD [OF assms(1) w] m by simp
  then show "P (snd (bindA m f w))"
    using keepsD [OF assms(2)] by (cases r) (simp_all add: bindA_def m)
qed

lemma keeps_try [keeps_intros]: "keeps P m \<Longrightarrow> keeps P (tryA m)"
  by (auto simp: keeps_def tryA_def split: prod.splits)

lemma keeps_wrap [keeps_intros]: "keeps P m \<Longrightarrow> keeps P (wrapA msg m)"
  by (auto simp: keeps_def wrapA_def split: prod.splits)

lemma keeps_for [keeps_intros]: "(\<And>x. keeps P (f x)) \<Longrightarrow> keeps P (forA xs f)"
  by (induction xs) (auto intro: keeps_intros)

lemma keeps_if [keeps_intros]: "(b \<Longrightarrow> keeps P m) \<Longrightarrow> (\<not> b \<Longrightarrow> keeps P n) \<Longrightarrow> keeps P (if b then m else n)"
  by simp

lemma keeps_option [keeps_intros]:
  "keeps P m \<Longrightarrow> (\<And>x. keeps P (f x)) \<Longrightarrow> keeps P (case o' of None \<Rightarrow> m | Some x \<Rightarrow> f x)"
  by (cases o') simp_all

lemma keeps_sum [keeps_intros]:
  "(\<And>x. keeps P (f x)) \<Longrightarrow> (\<And>y. keeps P (g y)) \<Longrightarrow> keeps P (case s of Inl x \<Rightarrow> f x | Inr y \<Rightarrow> g y)"
  by (cases s) simp_all

lemma keeps_prod [keeps_intros]: "(\<And>x y. keeps P (f x y)) \<Longrightarrow> keeps P (case p of (x, y) \<Rightarrow> f x y)"
  by (cases p) simp

lemma keeps_let [keeps_intros]: "keeps P (f x) \<Longrightarrow> keeps P (let y = x in f y)"
  by simp

section \<open>Evaluation\<close>

lemma bindA_simps [simp]:
  "bindA (retA x) f = f x" "bindA (failA e) f = failA e" "bindA (liftA (Inr x)) f = f x" "bindA (liftA (Inl e)) f = failA e"
  by (simp_all add: bindA_def retA_def failA_def liftA_def fun_eq_iff)

lemma bindA_assoc: "bindA (bindA m f) g = bindA m (\<lambda>x. bindA (f x) g)"
  by (simp add: bindA_def fun_eq_iff split: prod.split sum.split)

lemma bindA_Inr: "m w = (Inr x, w1) \<Longrightarrow> bindA m f w = f x w1"
  by (simp add: bindA_def)

lemma bindA_Inl: "m w = (Inl e, w1) \<Longrightarrow> bindA m f w = (Inl e, w1)"
  by (simp add: bindA_def)

text \<open>An action that always gives a result.\<close>

definition total :: "('w, 'a) action \<Rightarrow> bool" where
  "total m \<longleftrightarrow> (\<forall>w. \<exists>x. fst (m w) = Inr x)"

lemma total_ret: "total (retA x)"
  by (simp add: total_def retA_def)

lemma total_try: "total (tryA m)"
  by (simp add: total_def tryA_def split: prod.split)

lemma total_bind: "total m \<Longrightarrow> (\<And>x. total (f x)) \<Longrightarrow> total (bindA m f)"
  unfolding total_def bindA_def by (metis (no_types, lifting) case_prod_beta sum.simps(6))

end
