(* ===== verification/Output.thy ===== *)
theory Output
  imports Mcp_Tools "HOL-Library.AList"
begin

text \<open>
  Output formats: \<open>src/pkg/output/output.go\<close>. Kubernetes objects are unstructured JSON; the YAML
  encoder, the table printer and the decoder of the objects embedded in table rows are
  parameters (\<open>out_env\<close>).
\<close>

section \<open>Unstructured objects\<close>

text \<open>\<open>getNestedString\<close>: the string at a path, empty if there is none.\<close>

fun nested_string :: "string list \<Rightarrow> json_object \<Rightarrow> string" where
  "nested_string [] obj = []"
| "nested_string [f] obj = (case map_of obj f of Some (JStr s) \<Rightarrow> s | _ \<Rightarrow> [])"
| "nested_string (f # fs) obj = (case map_of obj f of Some (JObj m) \<Rightarrow> nested_string fs m | _ \<Rightarrow> [])"

definition obj_GetName :: "json_object \<Rightarrow> string" where
  "obj_GetName = nested_string [''metadata'', ''name'']"

definition obj_GetNamespace :: "json_object \<Rightarrow> string" where
  "obj_GetNamespace = nested_string [''metadata'', ''namespace'']"

text \<open>\<open>SetManagedFields(nil)\<close>.\<close>

definition remove_managed :: "json_object \<Rightarrow> json_object" where
  "remove_managed obj =
     (case map_of obj ''metadata'' of
        Some (JObj m) \<Rightarrow> AList.update ''metadata'' (JObj (AList.delete ''managedFields'' m)) obj
      | _ \<Rightarrow> obj)"

text \<open>A table as the API server sends it; \<open>rw_Raw\<close> and \<open>rw_Object\<close> are the object of a row.\<close>

record table_row =
  rw_Cells :: "json list"
  rw_Raw :: "string option"
  rw_Object :: "json_object option"

record kube_table =
  tb_Columns :: "(string \<times> string) list"
  tb_Rows :: "table_row list"

text \<open>
  \<open>runtime.Unstructured\<close>: a list, an object, or an object of kind \<open>Table\<close>, which the converter
  turns into a table and back.
\<close>

datatype unstructured = UList "json_object list" | UObject json_object | UTable kube_table

record out_env =
  oe_Marshal :: "json \<Rightarrow> (string, string) result"
  oe_PrintTable :: "bool \<Rightarrow> unstructured \<Rightarrow> string \<times> string option"
  oe_DecodeRaw :: "string \<Rightarrow> (string, json_object) result"
  oe_TableJson :: "kube_table \<Rightarrow> json_object"

section \<open>YAML\<close>

text \<open>
  Lists and objects lose their managed fields, in place: the second result is the object the
  caller still holds. Other values (such as slices of objects) are encoded as they are.
\<close>

fun clean_managed :: "out_env \<Rightarrow> unstructured \<Rightarrow> unstructured" where
  "clean_managed env (UList items) = UList (map remove_managed items)"
| "clean_managed env (UObject obj) = UObject (remove_managed obj)"
| "clean_managed env (UTable t) = UObject (remove_managed (oe_TableJson env t))"

fun unstructured_json :: "out_env \<Rightarrow> unstructured \<Rightarrow> json" where
  "unstructured_json env (UList items) = JArr (map JObj items)"
| "unstructured_json env (UObject obj) = JObj obj"
| "unstructured_json env (UTable t) = JObj (oe_TableJson env t)"

definition MarshalYaml :: "out_env \<Rightarrow> unstructured \<Rightarrow> (string, string) result \<times> unstructured" where
  "MarshalYaml env v = (let v1 = clean_managed env v in (oe_Marshal env (unstructured_json env v1), v1))"

definition MarshalYaml_other :: "out_env \<Rightarrow> json \<Rightarrow> (string, string) result" where
  "MarshalYaml_other env v = oe_Marshal env v"

record PrintResult =
  pr_Text :: string
  pr_Structured :: "structured option"

fun object_structured :: "unstructured \<Rightarrow> structured option" where
  "object_structured (UList items) = Some (Slice (map JObj items))"
| "object_structured (UObject obj) = Some (Object obj)"
| "object_structured (UTable t) = None"

definition yaml_PrintObjStructured :: "out_env \<Rightarrow> unstructured \<Rightarrow> (string, PrintResult) result" where
  "yaml_PrintObjStructured env obj =
     (case MarshalYaml env obj of
        (Inl err, _) \<Rightarrow> Inl err
      | (Inr txt, obj1) \<Rightarrow> Inr \<lparr>pr_Text = txt, pr_Structured = object_structured obj1\<rparr>)"

section \<open>Tables\<close>

definition decode_row :: "out_env \<Rightarrow> table_row \<Rightarrow> table_row" where
  "decode_row env row =
     (case (rw_Raw row, rw_Object row) of
        (Some raw, None) \<Rightarrow> row\<lparr>rw_Object := result_option (oe_DecodeRaw env raw)\<rparr>
      | _ \<Rightarrow> row)"

text \<open>A namespace column is printed if the object decoded for some row has a namespace.\<close>

definition row_namespaced :: "out_env \<Rightarrow> table_row \<Rightarrow> bool" where
  "row_namespaced env row =
     (case (rw_Raw row, rw_Object row) of
        (Some raw, None) \<Rightarrow>
          (case oe_DecodeRaw env raw of Inl _ \<Rightarrow> False | Inr obj \<Rightarrow> obj_GetNamespace obj \<noteq> [])
      | _ \<Rightarrow> False)"

fun printTable :: "out_env \<Rightarrow> unstructured \<Rightarrow> string \<times> kube_table option \<times> string option" where
  "printTable env (UTable t) =
     (let t1 = t\<lparr>tb_Rows := map (decode_row env) (tb_Rows t)\<rparr> in
      case oe_PrintTable env (list_ex (row_namespaced env) (tb_Rows t)) (UTable t1) of
        (txt, err) \<Rightarrow> (txt, Some t1, err))"
| "printTable env obj = (case oe_PrintTable env False obj of (txt, err) \<Rightarrow> (txt, None, err))"

definition row_structured :: "kube_table \<Rightarrow> table_row \<Rightarrow> json_object" where
  "row_structured t row =
     (let item = fold (\<lambda>(col, cell). AList.update (fst col) cell) (zip (tb_Columns t) (rw_Cells row)) [] in
      case rw_Object row of
        None \<Rightarrow> item
      | Some u \<Rightarrow> (if obj_GetNamespace u \<noteq> [] then AList.update ''Namespace'' (JStr (obj_GetNamespace u)) item else item))"

definition tableToStructured :: "kube_table option \<Rightarrow> structured option" where
  "tableToStructured table =
     (case table of
        None \<Rightarrow> None
      | Some t \<Rightarrow> (if tb_Rows t = [] then None else Some (Slice (map (\<lambda>row. JObj (row_structured t row)) (tb_Rows t)))))"

definition table_PrintObjStructured :: "out_env \<Rightarrow> unstructured \<Rightarrow> (string, PrintResult) result" where
  "table_PrintObjStructured env obj =
     (case printTable env obj of
        (_, _, Some err) \<Rightarrow> Inl err
      | (txt, t, None) \<Rightarrow> Inr \<lparr>pr_Text = txt, pr_Structured = tableToStructured t\<rparr>)"

section \<open>The formats\<close>

text \<open>
  A format is its name, as \<open>FromString\<close> finds it. A nil format is a nil dereference; it does not
  occur in a validated configuration.
\<close>

definition output_AsTable :: "string \<Rightarrow> bool" where
  "output_AsTable format \<longleftrightarrow> format = ''table''"

definition output_PrintObj :: "out_env \<Rightarrow> string \<Rightarrow> unstructured \<Rightarrow> string \<times> string option" where
  "output_PrintObj env format obj =
     (if output_AsTable format then (case printTable env obj of (txt, _, err) \<Rightarrow> (txt, err))
      else (case MarshalYaml env obj of (Inl err, _) \<Rightarrow> ([], Some err) | (Inr txt, _) \<Rightarrow> (txt, None)))"

definition output_PrintObjStructured :: "out_env \<Rightarrow> string \<Rightarrow> unstructured \<Rightarrow> (string, PrintResult) result" where
  "output_PrintObjStructured env format obj =
     (if output_AsTable format then table_PrintObjStructured env obj else yaml_PrintObjStructured env obj)"

section \<open>What is printed\<close>

definition managed_free :: "json_object \<Rightarrow> bool" where
  "managed_free obj \<longleftrightarrow> (\<forall>m. map_of obj ''metadata'' = Some (JObj m) \<longrightarrow> map_of m ''managedFields'' = None)"

lemma remove_managed_free: "managed_free (remove_managed obj)"
  by (auto simp: managed_free_def remove_managed_def update_conv' delete_conv' split: option.splits json.splits)

text \<open>Nothing else of the object changes.\<close>

lemma remove_managed_other: "k \<noteq> ''metadata'' \<Longrightarrow> map_of (remove_managed obj) k = map_of obj k"
  by (auto simp: remove_managed_def update_conv' split: option.splits json.splits)

fun structured_json :: "structured \<Rightarrow> json" where
  "structured_json NilSlice = JNull"
| "structured_json (Slice vs) = JArr vs"
| "structured_json (Array vs) = JArr vs"
| "structured_json (Object fs) = JObj fs"
| "structured_json (OtherKind j) = j"

fun structured_objects :: "structured \<Rightarrow> json_object list" where
  "structured_objects (Slice vs) = concat (map (\<lambda>v. case v of JObj fs \<Rightarrow> [fs] | _ \<Rightarrow> []) vs)"
| "structured_objects (Object fs) = [fs]"
| "structured_objects _ = []"

lemma yaml_structured:
  assumes "yaml_PrintObjStructured env obj = Inr r"
  obtains s where "pr_Structured r = Some s" "oe_Marshal env (structured_json s) = Inr (pr_Text r)"
    "list_all managed_free (structured_objects s)"
proof (cases obj)
  case (UList items)
  then show ?thesis
    using assms that [of "Slice (map (JObj \<circ> remove_managed) items)"]
    by (auto simp: yaml_PrintObjStructured_def MarshalYaml_def remove_managed_free list_all_iff split: sum.splits)
next
  case (UObject fs)
  then show ?thesis
    using assms that [of "Object (remove_managed fs)"]
    by (auto simp: yaml_PrintObjStructured_def MarshalYaml_def remove_managed_free split: sum.splits)
next
  case (UTable t)
  then show ?thesis
    using assms that [of "Object (remove_managed (oe_TableJson env t))"]
    by (auto simp: yaml_PrintObjStructured_def MarshalYaml_def remove_managed_free split: sum.splits)
qed

text \<open>A cell of a table reaches the structured result under the name of its column.\<close>

lemma row_structured_cell:
  assumes "distinct (map fst (tb_Columns t))" "i < length (tb_Columns t)" "i < length (rw_Cells row)"
    and "fst (tb_Columns t ! i) \<noteq> ''Namespace''"
  shows "map_of (row_structured t row) (fst (tb_Columns t ! i)) = Some (rw_Cells row ! i)"
proof -
  have "map_of (fold (\<lambda>(col, cell). AList.update (fst col) cell) (zip cols cells) acc) (fst (cols ! j)) = Some (cells ! j)"
    if "distinct (map fst cols)" "j < length cols" "j < length cells" for cols :: "(string \<times> string) list" and cells :: "json list" and acc j
    using that
  proof (induction cols arbitrary: cells acc j)
    case (Cons c cols)
    obtain v vs where cells: "cells = v # vs" using Cons.prems by (cases cells) auto
    have keep: "map_of (fold (\<lambda>(col, cell). AList.update (fst col) cell) (zip cs ws) a) n = map_of a n"
      if "n \<notin> fst ` set cs" for cs :: "(string \<times> string) list" and ws :: "json list" and a n
      using that by (induction cs arbitrary: ws a) (auto simp: update_conv' zip_Cons1 split: list.splits)
    show ?case
    proof (cases j)
      case 0
      then show ?thesis using cells Cons.prems keep [of "fst c" cols vs] by (auto simp: update_conv')
    next
      case (Suc i)
      then show ?thesis using cells Cons by simp
    qed
  qed simp
  then have "map_of (fold (\<lambda>(col, cell). AList.update (fst col) cell) (zip (tb_Columns t) (rw_Cells row)) [])
      (fst (tb_Columns t ! i)) = Some (rw_Cells row ! i)" using assms by blast
  then show ?thesis
    using assms(4) by (simp add: row_structured_def Let_def update_conv' split: option.split)
qed

end
