(* ===== verification/Core_Ops.thy ===== *)
theory Core_Ops
  imports Actions Output Validators
begin

text \<open>
  The operations on a cluster that tools are made of: \<open>src/pkg/kubernetes/resources.go\<close>, \<open>pods.go\<close>,
  \<open>nodes.go\<close>, \<open>namespaces.go\<close> and \<open>events.go\<close>. The clients of client-go are the parameter
  \<open>kube_client\<close>: one action per call, grouped into those that read and those that write.
\<close>

section \<open>Clients\<close>

record ListOptions =
  lo_LabelSelector :: string
  lo_FieldSelector :: string
  lo_AsTable :: bool

record kube_pod =
  po_Containers :: "string list"
  po_Annotations :: "(string \<times> string) list"
  po_Phase :: string

record log_options =
  pl_Container :: string
  pl_Previous :: bool
  pl_TailLines :: int

record kube_node =
  no_Name :: string
  no_Allocatable :: "(string \<times> string) list option"
  no_Swap :: "int option"

text \<open>
  Reading: REST mapping, discovery (kind and scope of the resources of a group version), the
  namespace of the kubeconfig, access reviews, lists, objects, logs, metrics and the proxy of a
  node. Writing: apply (by this server's field manager, forced), update, delete and exec. Resetting
  the mapper changes the client only.
\<close>

record 'w kube_client =
  kc_RESTMapping :: "GroupVersionKind \<Rightarrow> ('w, GroupVersionResource) action"
  kc_ResetMapper :: "('w, unit) action"
  kc_ServerResources :: "string \<Rightarrow> ('w, (string \<times> bool) list) action"
  kc_Namespace :: "('w, string) action"
  kc_Auth :: "'w auth_client"
  kc_List :: "GroupVersionResource \<Rightarrow> string \<Rightarrow> ListOptions \<Rightarrow> ('w, json_object list) action"
  kc_Table :: "string list \<Rightarrow> ListOptions \<Rightarrow> ('w, kube_table) action"
  kc_Get :: "GroupVersionResource \<Rightarrow> string \<Rightarrow> string \<Rightarrow> string list \<Rightarrow> ('w, json_object) action"
  kc_PodGet :: "string \<Rightarrow> string \<Rightarrow> ('w, kube_pod) action"
  kc_PodLogs :: "string \<Rightarrow> string \<Rightarrow> log_options \<Rightarrow> ('w, string) action"
  kc_ServiceList :: "string \<Rightarrow> (string \<times> string) list \<Rightarrow> ('w, string list) action"
  kc_RouteList :: "string \<Rightarrow> (string \<times> string) list \<Rightarrow> ('w, string list) action"
  kc_NodeGet :: "string \<Rightarrow> ('w, unit) action"
  kc_NodeList :: "string \<Rightarrow> ('w, kube_node list) action"
  kc_NodeProxy :: "string list \<Rightarrow> (string \<times> string) list \<Rightarrow> ('w, string) action"
  kc_PodMetrics :: "string \<Rightarrow> string \<Rightarrow> ('w, json_object) action"
  kc_PodMetricsList :: "string \<Rightarrow> string \<Rightarrow> ('w, json_object list) action"
  kc_NodeMetrics :: "string \<Rightarrow> ('w, json_object) action"
  kc_NodeMetricsList :: "string \<Rightarrow> ('w, json_object list) action"
  kc_Apply :: "GroupVersionResource \<Rightarrow> string \<Rightarrow> string \<Rightarrow> json_object \<Rightarrow> ('w, json_object) action"
  kc_Update :: "GroupVersionResource \<Rightarrow> string \<Rightarrow> json_object \<Rightarrow> string list \<Rightarrow> ('w, json_object) action"
  kc_Delete :: "GroupVersionResource \<Rightarrow> string \<Rightarrow> string \<Rightarrow> int option \<Rightarrow> ('w, unit) action"
  kc_ServiceDelete :: "string \<Rightarrow> string \<Rightarrow> ('w, unit) action"
  kc_RouteDelete :: "string \<Rightarrow> string \<Rightarrow> ('w, unit) action"
  kc_Exec :: "string \<Rightarrow> string \<Rightarrow> string \<Rightarrow> string list \<Rightarrow> ('w, string \<times> string) action"

section \<open>Resources\<close>

text \<open>\<open>GroupVersion.String()\<close> and \<open>schema.ParseGroupVersion\<close>.\<close>

definition gv_String :: "string \<Rightarrow> string \<Rightarrow> string" where
  "gv_String grp version = (if grp \<noteq> [] then grp @ ''/'' @ version else version)"

definition ParseGroupVersion :: "string \<Rightarrow> (string \<times> string) option" where
  "ParseGroupVersion gv =
     (if gv = [] \<or> gv = ''/'' then Some ([], [])
      else (case Split (CHR ''/'') gv of
              [v] \<Rightarrow> Some ([], v)
            | [g, v] \<Rightarrow> Some (g, v)
            | _ \<Rightarrow> None))"

text \<open>\<open>GroupVersionKind()\<close> of an unstructured object.\<close>

definition obj_GVK :: "json_object \<Rightarrow> GroupVersionKind" where
  "obj_GVK obj =
     (case ParseGroupVersion (nested_string [''apiVersion''] obj) of
        None \<Rightarrow> \<lparr>gvk_Group = [], gvk_Version = [], gvk_Kind = []\<rparr>
      | Some (g, v) \<Rightarrow> \<lparr>gvk_Group = g, gvk_Version = v, gvk_Kind = nested_string [''kind''] obj\<rparr>)"

definition NamespaceOrDefault :: "'w kube_client \<Rightarrow> string \<Rightarrow> ('w, string) action" where
  "NamespaceOrDefault k ns =
     (if ns = [] then bindA (tryA (kc_Namespace k)) (\<lambda>r. retA (case r of Inr n \<Rightarrow> n | Inl _ \<Rightarrow> []))
      else retA ns)"

definition resourceFor :: "'w kube_client \<Rightarrow> GroupVersionKind \<Rightarrow> ('w, GroupVersionResource) action" where
  "resourceFor k gvk = kc_RESTMapping k gvk"

definition isNamespaced :: "'w kube_client \<Rightarrow> GroupVersionKind \<Rightarrow> ('w, bool) action" where
  "isNamespaced k gvk =
     bindA (kc_ServerResources k (gv_String (gvk_Group gvk) (gvk_Version gvk))) (\<lambda>apiResources.
       retA (case find (\<lambda>(kind, _). kind = gvk_Kind gvk) apiResources of None \<Rightarrow> False | Some (_, namespaced) \<Rightarrow> namespaced))"

definition supportsGroupVersion :: "'w kube_client \<Rightarrow> string \<Rightarrow> ('w, bool) action" where
  "supportsGroupVersion k groupVersion =
     bindA (tryA (kc_ServerResources k groupVersion)) (\<lambda>r. retA (case r of Inl _ \<Rightarrow> False | Inr _ \<Rightarrow> True))"

definition canIUse :: "'w kube_client \<Rightarrow> GroupVersionResource \<Rightarrow> string \<Rightarrow> string \<Rightarrow> ('w, bool) action" where
  "canIUse k gvr ns verb =
     bindA (tryA (CanI (Some (kc_Auth k)) gvr ns [] verb)) (\<lambda>r. retA (case r of Inl _ \<Rightarrow> False | Inr allowed \<Rightarrow> allowed))"

text \<open>The namespace of an operation on one object: the configured one for a namespaced kind without one.\<close>

definition object_namespace :: "'w kube_client \<Rightarrow> GroupVersionKind \<Rightarrow> string \<Rightarrow> ('w, string) action" where
  "object_namespace k gvk ns =
     bindA (tryA (isNamespaced k gvk)) (\<lambda>namespaced.
       if namespaced = Inr True then NamespaceOrDefault k ns else retA ns)"

definition table_url :: "GroupVersionResource \<Rightarrow> string \<Rightarrow> string list" where
  "table_url gvr ns =
     (if gvr_Group gvr = [] then [''api''] else [''apis'', gvr_Group gvr]) @ [gvr_Version gvr]
     @ (if ns \<noteq> [] then [''namespaces'', ns] else []) @ [gvr_Resource gvr]"

definition resourcesListAsTable ::
  "'w kube_client \<Rightarrow> GroupVersionKind \<Rightarrow> GroupVersionResource \<Rightarrow> string \<Rightarrow> ListOptions \<Rightarrow> ('w, unstructured) action" where
  "resourcesListAsTable k gvk gvr ns options =
     bindA (kc_Table k (table_url gvr ns) options) (\<lambda>t.
       retA (UTable \<lparr>tb_Columns = [(''apiVersion'', ''string''), (''kind'', ''string'')] @ tb_Columns t,
                     tb_Rows = map (\<lambda>row. row\<lparr>rw_Cells := [JStr (gv_String (gvr_Group gvr) (gvr_Version gvr)), JStr (gvk_Kind gvk)]
                                       @ rw_Cells row\<rparr>) (tb_Rows t)\<rparr>))"

definition ResourcesList ::
  "'w kube_client \<Rightarrow> GroupVersionKind \<Rightarrow> string \<Rightarrow> ListOptions \<Rightarrow> ('w, unstructured) action" where
  "ResourcesList k gvk ns options =
     bindA (resourceFor k gvk) (\<lambda>gvr.
     bindA (tryA (isNamespaced k gvk)) (\<lambda>namespaced.
     bindA (if namespaced = Inr True
            then bindA (canIUse k gvr ns ''list'') (\<lambda>allowed.
                   if \<not> allowed \<and> ns = [] then NamespaceOrDefault k [] else retA ns)
            else retA ns) (\<lambda>ns1.
       if lo_AsTable options then resourcesListAsTable k gvk gvr ns1 options
       else bindA (kc_List k gvr ns1 options) (\<lambda>items. retA (UList items)))))"

definition ResourcesGet :: "'w kube_client \<Rightarrow> GroupVersionKind \<Rightarrow> string \<Rightarrow> string \<Rightarrow> ('w, json_object) action" where
  "ResourcesGet k gvk ns name =
     bindA (resourceFor k gvk) (\<lambda>gvr. bindA (object_namespace k gvk ns) (\<lambda>ns1. kc_Get k gvr ns1 name []))"

definition ResourcesDelete ::
  "'w kube_client \<Rightarrow> GroupVersionKind \<Rightarrow> string \<Rightarrow> string \<Rightarrow> int option \<Rightarrow> ('w, unit) action" where
  "ResourcesDelete k gvk ns name gracePeriodSeconds =
     bindA (resourceFor k gvk) (\<lambda>gvr. bindA (object_namespace k gvk ns) (\<lambda>ns1. kc_Delete k gvr ns1 name gracePeriodSeconds))"

text \<open>\<open>SetNestedField\<close> for \<open>spec.replicas\<close>: the spec must be an object, and is created if missing.\<close>

definition set_replicas :: "int \<Rightarrow> json_object \<Rightarrow> (string, json_object) result" where
  "set_replicas n obj =
     (case map_of obj ''spec'' of
        None \<Rightarrow> Inr (AList.update ''spec'' (JObj [(''replicas'', JNum (of_int n))]) obj)
      | Some (JObj spec) \<Rightarrow> Inr (AList.update ''spec'' (JObj (AList.update ''replicas'' (JNum (of_int n)) spec)) obj)
      | Some _ \<Rightarrow> Inl ''failed to set .spec.replicas on scale object'')"

definition ResourcesScale ::
  "'w kube_client \<Rightarrow> GroupVersionKind \<Rightarrow> string \<Rightarrow> string \<Rightarrow> int \<Rightarrow> bool \<Rightarrow> ('w, json_object) action" where
  "ResourcesScale k gvk ns name desiredScale shouldScale =
     bindA (resourceFor k gvk) (\<lambda>gvr.
     bindA (bindA (tryA (isNamespaced k gvk)) (\<lambda>namespaced.
              if namespaced = Inr True then NamespaceOrDefault k ns else retA [])) (\<lambda>ns1.
     bindA (kc_Get k gvr ns1 name [''scale'']) (\<lambda>scale.
       if shouldScale then
         bindA (liftA (set_replicas desiredScale scale)) (\<lambda>scale1.
           wrapA ''failed to update scale: '' (kc_Update k gvr ns1 scale1 [''scale'']))
       else retA scale)))"

definition apply_object :: "'w kube_client \<Rightarrow> json_object \<Rightarrow> ('w, json_object) action" where
  "apply_object k obj =
     bindA (resourceFor k (obj_GVK obj)) (\<lambda>gvr.
     bindA (object_namespace k (obj_GVK obj) (obj_GetNamespace obj)) (\<lambda>ns1.
     bindA (kc_Apply k gvr ns1 (obj_GetName obj) obj) (\<lambda>applied.
       if gvk_Kind (obj_GVK obj) = ''CustomResourceDefinition'' then bindA (kc_ResetMapper k) (\<lambda>_. retA applied)
       else retA applied)))"

definition resourcesCreateOrUpdate :: "'w kube_client \<Rightarrow> json_object list \<Rightarrow> ('w, json_object list) action" where
  "resourcesCreateOrUpdate k resources = forA resources (apply_object k)"

text \<open>The documents of a YAML stream: the pieces between matches of \<open>\r?\n---\r?\n\<close>.\<close>

fun strip_cr :: "string \<Rightarrow> string" where
  "strip_cr (c # s) = (if c = CHR 0x0D then s else c # s)"
| "strip_cr [] = []"

definition separator_rest :: "string \<Rightarrow> string option" where
  "separator_rest s =
     (let s1 = strip_cr s in
      if HasPrefix s1 (CHR 0x0A # ''---'') then
        (case strip_cr (drop 4 s1) of
           c # rest \<Rightarrow> (if c = CHR 0x0A then Some rest else None)
         | [] \<Rightarrow> None)
      else None)"

lemma strip_cr_length: "length (strip_cr s) \<le> length s"
  by (cases s) simp_all

lemma separator_rest_length: "separator_rest s = Some rest \<Longrightarrow> length rest < length s"
proof -
  assume "separator_rest s = Some rest"
  then have "length (strip_cr (drop 4 (strip_cr s))) = Suc (length rest)"
    by (auto simp: separator_rest_def Let_def split: if_splits list.splits)
  then have "Suc (length rest) \<le> length (drop 4 (strip_cr s))" using strip_cr_length by metis
  then show ?thesis using strip_cr_length [of s] by simp
qed

function split_documents :: "string \<Rightarrow> string \<Rightarrow> string list" where
  "split_documents acc s =
     (case separator_rest s of
        Some rest \<Rightarrow> rev acc # split_documents [] rest
      | None \<Rightarrow> (case s of [] \<Rightarrow> [rev acc] | c # s1 \<Rightarrow> split_documents (c # acc) s1))"
  by pat_completeness auto
termination
  by (relation "measure (\<lambda>(acc, s). length s)") (auto dest: separator_rest_length)

declare split_documents.simps [simp del]

definition parse_document :: "(string \<Rightarrow> (string, json_object) result) \<Rightarrow> string \<Rightarrow> (string, json_object) result" where
  "parse_document decode r = (case decode r of Inl e \<Rightarrow> Inl e | Inr obj \<Rightarrow> Inr (AList.delete ''status'' obj))"

fun parse_documents :: "(string \<Rightarrow> (string, json_object) result) \<Rightarrow> string list \<Rightarrow> (string, json_object list) result" where
  "parse_documents decode [] = Inr []"
| "parse_documents decode (r # rs) =
     bindE (parse_document decode r) (\<lambda>obj. bindE (parse_documents decode rs) (\<lambda>objs. Inr (obj # objs)))"

definition ResourcesCreateOrUpdate ::
  "(string \<Rightarrow> (string, json_object) result) \<Rightarrow> 'w kube_client \<Rightarrow> string \<Rightarrow> ('w, json_object list) action" where
  "ResourcesCreateOrUpdate decode k resource =
     bindA (liftA (parse_documents decode (split_documents [] resource))) (resourcesCreateOrUpdate k)"

section \<open>Pods\<close>

definition DefaultTailLines :: int where "DefaultTailLines = 100"
definition DefaultContainerAnnotation :: string where
  "DefaultContainerAnnotation = ''kubectl.kubernetes.io/default-container''"
definition BinaryName :: string where "BinaryName = ''kubernetes-mcp-server''"
definition AppKubernetesName :: string where "AppKubernetesName = ''app.kubernetes.io/name''"
definition AppKubernetesComponent :: string where "AppKubernetesComponent = ''app.kubernetes.io/component''"
definition AppKubernetesManagedBy :: string where "AppKubernetesManagedBy = ''app.kubernetes.io/managed-by''"
definition AppKubernetesPartOf :: string where "AppKubernetesPartOf = ''app.kubernetes.io/part-of''"

definition pod_gvk :: GroupVersionKind where
  "pod_gvk = \<lparr>gvk_Group = [], gvk_Version = ''v1'', gvk_Kind = ''Pod''\<rparr>"

definition resolveContainer :: "kube_pod \<Rightarrow> string \<Rightarrow> string" where
  "resolveContainer pod container =
     (if container \<noteq> [] then container
      else if length (po_Containers pod) = 1 then hd (po_Containers pod)
      else (case map_of (po_Annotations pod) DefaultContainerAnnotation of
              Some defaultContainer \<Rightarrow>
                (if defaultContainer \<noteq> [] then defaultContainer
                 else if po_Containers pod \<noteq> [] then hd (po_Containers pod) else [])
            | None \<Rightarrow> (if po_Containers pod \<noteq> [] then hd (po_Containers pod) else [])))"

definition PodsListInAllNamespaces :: "'w kube_client \<Rightarrow> ListOptions \<Rightarrow> ('w, unstructured) action" where
  "PodsListInAllNamespaces k options = ResourcesList k pod_gvk [] options"

definition PodsListInNamespace :: "'w kube_client \<Rightarrow> string \<Rightarrow> ListOptions \<Rightarrow> ('w, unstructured) action" where
  "PodsListInNamespace k ns options = ResourcesList k pod_gvk ns options"

definition PodsGet :: "'w kube_client \<Rightarrow> string \<Rightarrow> string \<Rightarrow> ('w, json_object) action" where
  "PodsGet k ns name = bindA (NamespaceOrDefault k ns) (\<lambda>ns1. ResourcesGet k pod_gvk ns1 name)"

text \<open>The label of an object; labels with a value that is no string are no labels at all.\<close>

definition obj_label :: "string \<Rightarrow> json_object \<Rightarrow> string" where
  "obj_label key obj =
     (case map_of obj ''metadata'' of
        Some (JObj m) \<Rightarrow>
          (case map_of m ''labels'' of
             Some (JObj labels) \<Rightarrow>
               (if list_all (\<lambda>(_, v). (case v of JStr _ \<Rightarrow> True | JNull \<Rightarrow> True | _ \<Rightarrow> False)) labels
                then (case map_of labels key of Some (JStr s) \<Rightarrow> s | _ \<Rightarrow> []) else [])
           | _ \<Rightarrow> [])
      | _ \<Rightarrow> [])"

text \<open>Errors of the clean-up are ignored: a list that fails is empty, a delete that fails is skipped.\<close>

definition delete_listed :: "('w, string list) action \<Rightarrow> (string \<Rightarrow> ('w, unit) action) \<Rightarrow> ('w, unit) action" where
  "delete_listed ls del =
     bindA (tryA ls) (\<lambda>r. case r of
         Inl _ \<Rightarrow> retA ()
       | Inr names \<Rightarrow> bindA (forA names (\<lambda>name. tryA (del name))) (\<lambda>_. retA ()))"

definition PodsDelete :: "'w kube_client \<Rightarrow> string \<Rightarrow> string \<Rightarrow> ('w, string) action" where
  "PodsDelete k ns0 name =
     bindA (NamespaceOrDefault k ns0) (\<lambda>ns.
     bindA (ResourcesGet k pod_gvk ns name) (\<lambda>pod.
       let isManaged = (obj_label AppKubernetesManagedBy pod = BinaryName);
           selector = [(AppKubernetesManagedBy, BinaryName), (AppKubernetesName, obj_label AppKubernetesName pod)]
       in bindA (if isManaged then delete_listed (kc_ServiceList k ns selector) (kc_ServiceDelete k ns) else retA ()) (\<lambda>_.
          bindA (if isManaged then supportsGroupVersion k ''route.openshift.io/v1'' else retA False) (\<lambda>routes.
          bindA (if routes then delete_listed (kc_RouteList k ns selector) (kc_RouteDelete k ns) else retA ()) (\<lambda>_.
          bindA (ResourcesDelete k pod_gvk ns name None) (\<lambda>_. retA ''Pod deleted successfully''))))))"

definition PodsLog :: "'w kube_client \<Rightarrow> string \<Rightarrow> string \<Rightarrow> string \<Rightarrow> bool \<Rightarrow> int \<Rightarrow> ('w, string) action" where
  "PodsLog k ns0 name container previous tail =
     bindA (NamespaceOrDefault k ns0) (\<lambda>ns.
     bindA (if container = [] then bindA (kc_PodGet k ns name) (\<lambda>pod. retA (resolveContainer pod [])) else retA container) (\<lambda>c.
       kc_PodLogs k ns name
         \<lparr>pl_Container = c, pl_Previous = previous, pl_TailLines = (if tail > 0 then tail else DefaultTailLines)\<rparr>))"

text \<open>The objects of \<open>PodsRun\<close>; the converter to unstructured objects is a parameter.\<close>

datatype run_object =
    RunPod (run_name: string) (run_namespace: string) (run_labels: "(string \<times> string) list") (run_image: string) (run_port: "int option")
  | RunService (run_name: string) (run_namespace: string) (run_labels: "(string \<times> string) list") (svc_port: int)
  | RunRoute (run_name: string) (run_namespace: string) (run_labels: "(string \<times> string) list") (route_port: int)

definition run_objects :: "string \<Rightarrow> string \<Rightarrow> string \<Rightarrow> int \<Rightarrow> bool \<Rightarrow> run_object list" where
  "run_objects name ns img port routes =
     (let labels = [(AppKubernetesName, name), (AppKubernetesComponent, name), (AppKubernetesManagedBy, BinaryName),
                    (AppKubernetesPartOf, BinaryName @ ''-run-sandbox'')]
      in [RunPod name ns labels img (if port > 0 then Some port else None)]
         @ (if port > 0 then [RunService name ns labels port] else [])
         @ (if port > 0 \<and> routes then [RunRoute name ns labels port] else []))"

definition PodsRun ::
  "(run_object \<Rightarrow> (string, json_object) result) \<Rightarrow> ('w, string) action \<Rightarrow> 'w kube_client
   \<Rightarrow> string \<Rightarrow> string \<Rightarrow> string \<Rightarrow> int \<Rightarrow> ('w, json_object list) action" where
  "PodsRun convert rand k ns0 name0 img port =
     bindA (if name0 = [] then bindA rand (\<lambda>suffix. retA (BinaryName @ ''-run-'' @ suffix)) else retA name0) (\<lambda>name.
     bindA (NamespaceOrDefault k ns0) (\<lambda>ns.
     bindA (if port > 0 then supportsGroupVersion k ''route.openshift.io/v1'' else retA False) (\<lambda>routes.
     bindA (forA (run_objects name ns img port routes) (\<lambda>obj. liftA (convert obj))) (\<lambda>toCreate.
       resourcesCreateOrUpdate k toCreate))))"

definition PodsTop :: "'w kube_client \<Rightarrow> bool \<Rightarrow> string \<Rightarrow> string \<Rightarrow> string \<Rightarrow> ('w, json_object list) action" where
  "PodsTop k allNamespaces ns0 name labelSelector =
     bindA (supportsGroupVersion k ''metrics.k8s.io/v1beta1'') (\<lambda>supported.
       if \<not> supported then failA ''metrics API is not available''
       else
         bindA (if allNamespaces \<and> ns0 = [] then retA [] else NamespaceOrDefault k ns0) (\<lambda>ns.
           if name \<noteq> [] then
             wrapA (''failed to get metrics for pod '' @ ns @ ''/'' @ name @ '': '')
               (bindA (kc_PodMetrics k ns name) (\<lambda>m. retA [m]))
           else wrapA (''failed to list pod metrics in namespace '' @ ns @ '': '') (kc_PodMetricsList k ns labelSelector)))"

definition PodsExec :: "'w kube_client \<Rightarrow> string \<Rightarrow> string \<Rightarrow> string \<Rightarrow> string list \<Rightarrow> ('w, string \<times> string) action" where
  "PodsExec k ns0 name container command =
     bindA (NamespaceOrDefault k ns0) (\<lambda>ns.
     bindA (kc_PodGet k ns name) (\<lambda>pod.
       if po_Phase pod = ''Succeeded'' \<or> po_Phase pod = ''Failed''
       then failA (''cannot exec into a container in a completed pod; current phase is '' @ po_Phase pod)
       else kc_Exec k ns name (resolveContainer pod container) command))"

section \<open>Namespaces, nodes and events\<close>

definition NamespacesList :: "'w kube_client \<Rightarrow> ListOptions \<Rightarrow> ('w, unstructured) action" where
  "NamespacesList k options = ResourcesList k \<lparr>gvk_Group = [], gvk_Version = ''v1'', gvk_Kind = ''Namespace''\<rparr> [] options"

definition ProjectsList :: "'w kube_client \<Rightarrow> ListOptions \<Rightarrow> ('w, unstructured) action" where
  "ProjectsList k options =
     ResourcesList k \<lparr>gvk_Group = ''project.openshift.io'', gvk_Version = ''v1'', gvk_Kind = ''Project''\<rparr> [] options"

definition NodesLog :: "(int \<Rightarrow> string) \<Rightarrow> 'w kube_client \<Rightarrow> string \<Rightarrow> string \<Rightarrow> int \<Rightarrow> ('w, string) action" where
  "NodesLog itoa k name query tailLines =
     bindA (wrapA (''failed to get node '' @ name @ '': '') (kc_NodeGet k name)) (\<lambda>_.
       wrapA ''failed to get node logs: ''
         (kc_NodeProxy k [''api'', ''v1'', ''nodes'', name, ''proxy'', ''logs'']
            ([(''query'', query)] @ (if tailLines > 0 then [(''tailLines'', itoa tailLines)] else []))))"

definition NodesStatsSummary :: "'w kube_client \<Rightarrow> string \<Rightarrow> ('w, string) action" where
  "NodesStatsSummary k name =
     bindA (wrapA (''failed to get node '' @ name @ '': '') (kc_NodeGet k name)) (\<lambda>_.
       wrapA ''failed to get node stats summary: ''
         (kc_NodeProxy k [''api'', ''v1'', ''nodes'', name, ''proxy'', ''stats'', ''summary''] []))"

definition NodesTop :: "'w kube_client \<Rightarrow> string \<Rightarrow> string \<Rightarrow> ('w, json_object list) action" where
  "NodesTop k name labelSelector =
     bindA (supportsGroupVersion k ''metrics.k8s.io/v1beta1'') (\<lambda>supported.
       if \<not> supported then failA ''metrics API is not available''
       else if name \<noteq> [] then
         wrapA (''failed to get metrics for node '' @ name @ '': '') (bindA (kc_NodeMetrics k name) (\<lambda>m. retA [m]))
       else wrapA ''failed to list node metrics: '' (kc_NodeMetricsList k labelSelector))"

text \<open>An event as the converter gives it; a time of \<open>None\<close> is the zero time.\<close>

record kube_event =
  ev_Namespace :: string
  ev_EventTime :: "int option"
  ev_Series :: "int option option"
  ev_Count :: int
  ev_LastTimestamp :: "int option"
  ev_FirstTimestamp :: "int option"
  ev_Type :: string
  ev_Reason :: string
  ev_APIVersion :: string
  ev_Kind :: string
  ev_Name :: string
  ev_Message :: string

definition event_timestamp :: "kube_event \<Rightarrow> int option" where
  "event_timestamp event =
     (case ev_EventTime event of
        Some t \<Rightarrow> Some t
      | None \<Rightarrow>
          (case ev_Series event of
             Some lastObservedTime \<Rightarrow> lastObservedTime
           | None \<Rightarrow> (if ev_Count event > 1 then ev_LastTimestamp event else ev_FirstTimestamp event)))"

definition event_entry :: "(int option \<Rightarrow> string) \<Rightarrow> kube_event \<Rightarrow> json_object" where
  "event_entry timeString event =
     [(''Namespace'', JStr (ev_Namespace event)), (''Timestamp'', JStr (timeString (event_timestamp event))),
      (''Type'', JStr (ev_Type event)), (''Reason'', JStr (ev_Reason event)),
      (''InvolvedObject'', JObj [(''apiVersion'', JStr (ev_APIVersion event)), (''Kind'', JStr (ev_Kind event)),
         (''Name'', JStr (ev_Name event))]),
      (''Message'', JStr (TrimSpace (ev_Message event)))]"

text \<open>The list is not a table here: the type assertion to \<open>UnstructuredList\<close> would panic on one.\<close>

definition EventsList ::
  "(json_object \<Rightarrow> (string, kube_event) result) \<Rightarrow> (int option \<Rightarrow> string) \<Rightarrow> 'w kube_client \<Rightarrow> string \<Rightarrow> ListOptions
   \<Rightarrow> ('w, json_object list) action" where
  "EventsList convert timeString k ns options =
     bindA (ResourcesList k \<lparr>gvk_Group = [], gvk_Version = ''v1'', gvk_Kind = ''Event''\<rparr> ns options) (\<lambda>raw.
       case raw of
         UList items \<Rightarrow> forA items (\<lambda>item. bindA (liftA (convert item)) (\<lambda>event. retA (event_entry timeString event)))
       | _ \<Rightarrow> failA ''interface conversion: runtime.Unstructured is not *unstructured.UnstructuredList'')"

section \<open>What the operations do to the cluster\<close>

text \<open>A property of worlds that the calls which read keep; so does resetting the mapper.\<close>

definition reads_keep :: "('w \<Rightarrow> bool) \<Rightarrow> 'w kube_client \<Rightarrow> bool" where
  "reads_keep P k \<longleftrightarrow>
     (\<forall>gvk. keeps P (kc_RESTMapping k gvk)) \<and> keeps P (kc_ResetMapper k) \<and> (\<forall>gv. keeps P (kc_ServerResources k gv))
   \<and> keeps P (kc_Namespace k) \<and> (\<forall>a. keeps P (kc_Auth k a)) \<and> (\<forall>g n opts. keeps P (kc_List k g n opts))
   \<and> (\<forall>u opts. keeps P (kc_Table k u opts)) \<and> (\<forall>g n name sub. keeps P (kc_Get k g n name sub))
   \<and> (\<forall>n name. keeps P (kc_PodGet k n name)) \<and> (\<forall>n name opts. keeps P (kc_PodLogs k n name opts))
   \<and> (\<forall>n sel. keeps P (kc_ServiceList k n sel)) \<and> (\<forall>n sel. keeps P (kc_RouteList k n sel))
   \<and> (\<forall>name. keeps P (kc_NodeGet k name)) \<and> (\<forall>sel. keeps P (kc_NodeList k sel))
   \<and> (\<forall>u ps. keeps P (kc_NodeProxy k u ps)) \<and> (\<forall>n name. keeps P (kc_PodMetrics k n name))
   \<and> (\<forall>n sel. keeps P (kc_PodMetricsList k n sel)) \<and> (\<forall>name. keeps P (kc_NodeMetrics k name))
   \<and> (\<forall>sel. keeps P (kc_NodeMetricsList k sel))"

lemma reads_keepD:
  assumes "reads_keep P k"
  shows "keeps P (kc_RESTMapping k gvk)" "keeps P (kc_ResetMapper k)" "keeps P (kc_ServerResources k gv)"
    "keeps P (kc_Namespace k)" "keeps P (kc_Auth k a)" "keeps P (kc_List k g n opts)" "keeps P (kc_Table k u opts)"
    "keeps P (kc_Get k g n name sub)" "keeps P (kc_PodGet k n name)" "keeps P (kc_PodLogs k n name lopts)"
    "keeps P (kc_ServiceList k n lsel)" "keeps P (kc_RouteList k n lsel)" "keeps P (kc_NodeGet k name)"
    "keeps P (kc_NodeList k sel)" "keeps P (kc_NodeProxy k u ps)" "keeps P (kc_PodMetrics k n name)"
    "keeps P (kc_PodMetricsList k n sel)" "keeps P (kc_NodeMetrics k name)" "keeps P (kc_NodeMetricsList k sel)"
  using assms by (simp_all add: reads_keep_def)

lemma keeps_CanI: "reads_keep P k \<Longrightarrow> keeps P (CanI (Some (kc_Auth k)) gvr ns name verb)"
  using reads_keepD(5) [of P k]
  by (auto simp: keeps_def CanI_def split: prod.splits sum.splits)
     (metis snd_conv)+

lemma keeps_unstructured [keeps_intros]:
  "(\<And>x. keeps P (f x)) \<Longrightarrow> (\<And>x. keeps P (g x)) \<Longrightarrow> (\<And>x. keeps P (h x))
   \<Longrightarrow> keeps P (case u of UList x \<Rightarrow> f x | UObject x \<Rightarrow> g x | UTable x \<Rightarrow> h x)"
  by (cases u) simp_all

lemma NamespaceOrDefault_keeps: "reads_keep P k \<Longrightarrow> keeps P (NamespaceOrDefault k ns)"
  unfolding NamespaceOrDefault_def by (intro keeps_intros reads_keepD)

lemma isNamespaced_keeps: "reads_keep P k \<Longrightarrow> keeps P (isNamespaced k gvk)"
  unfolding isNamespaced_def by (intro keeps_intros reads_keepD)

lemma supportsGroupVersion_keeps: "reads_keep P k \<Longrightarrow> keeps P (supportsGroupVersion k gv)"
  unfolding supportsGroupVersion_def by (intro keeps_intros reads_keepD)

lemma resourceFor_keeps: "reads_keep P k \<Longrightarrow> keeps P (resourceFor k gvk)"
  unfolding resourceFor_def by (rule reads_keepD)

lemma canIUse_keeps: "reads_keep P k \<Longrightarrow> keeps P (canIUse k gvr ns verb)"
  unfolding canIUse_def by (intro keeps_intros keeps_CanI)

lemma object_namespace_keeps: "reads_keep P k \<Longrightarrow> keeps P (object_namespace k gvk ns)"
  unfolding object_namespace_def by (intro keeps_intros isNamespaced_keeps NamespaceOrDefault_keeps)

lemmas lookup_keeps = NamespaceOrDefault_keeps isNamespaced_keeps supportsGroupVersion_keeps resourceFor_keeps
  canIUse_keeps object_namespace_keeps

lemma ResourcesList_keeps: "reads_keep P k \<Longrightarrow> keeps P (ResourcesList k gvk ns options)"
  unfolding ResourcesList_def resourcesListAsTable_def by (intro keeps_intros lookup_keeps reads_keepD)

lemma ResourcesGet_keeps: "reads_keep P k \<Longrightarrow> keeps P (ResourcesGet k gvk ns name)"
  unfolding ResourcesGet_def by (intro keeps_intros lookup_keeps reads_keepD)

lemma PodsGet_keeps: "reads_keep P k \<Longrightarrow> keeps P (PodsGet k ns name)"
  unfolding PodsGet_def by (intro keeps_intros lookup_keeps ResourcesGet_keeps)

lemma PodsLog_keeps: "reads_keep P k \<Longrightarrow> keeps P (PodsLog k ns name c prev tail)"
  unfolding PodsLog_def by (intro keeps_intros lookup_keeps reads_keepD)

lemma PodsTop_keeps: "reads_keep P k \<Longrightarrow> keeps P (PodsTop k all ns name sel)"
  unfolding PodsTop_def by (intro keeps_intros lookup_keeps reads_keepD)

lemma NodesLog_keeps: "reads_keep P k \<Longrightarrow> keeps P (NodesLog itoa k name query tail)"
  unfolding NodesLog_def by (intro keeps_intros reads_keepD)

lemma NodesStatsSummary_keeps: "reads_keep P k \<Longrightarrow> keeps P (NodesStatsSummary k name)"
  unfolding NodesStatsSummary_def by (intro keeps_intros reads_keepD)

lemma NodesTop_keeps: "reads_keep P k \<Longrightarrow> keeps P (NodesTop k name sel)"
  unfolding NodesTop_def by (intro keeps_intros lookup_keeps reads_keepD)

lemma EventsList_keeps: "reads_keep P k \<Longrightarrow> keeps P (EventsList convert ts k ns options)"
  unfolding EventsList_def by (intro keeps_intros ResourcesList_keeps)

lemmas read_ops_keep = ResourcesList_keeps ResourcesGet_keeps PodsGet_keeps PodsLog_keeps PodsTop_keeps
  NodesLog_keeps NodesStatsSummary_keeps NodesTop_keeps EventsList_keeps

lemma PodsList_keeps:
  "reads_keep P k \<Longrightarrow> keeps P (PodsListInAllNamespaces k options)"
  "reads_keep P k \<Longrightarrow> keeps P (PodsListInNamespace k ns options)"
  "reads_keep P k \<Longrightarrow> keeps P (NamespacesList k options)" "reads_keep P k \<Longrightarrow> keeps P (ProjectsList k options)"
  unfolding PodsListInAllNamespaces_def PodsListInNamespace_def NamespacesList_def ProjectsList_def
  by (intro ResourcesList_keeps; assumption)+

section \<open>Applying resources\<close>

lemma parse_documents_status:
  "parse_documents decode ds = Inr objs \<Longrightarrow> obj \<in> set objs \<Longrightarrow> map_of obj ''status'' = None"
proof (induction ds arbitrary: objs)
  case (Cons d ds)
  then obtain o1 os where "parse_document decode d = Inr o1" "parse_documents decode ds = Inr os" "objs = o1 # os"
    by (auto simp: bindE_Inr_iff)
  then show ?case using Cons by (auto simp: parse_document_def delete_conv' split: sum.splits)
qed simp

lemma parse_documents_ok:
  "(\<exists>objs. parse_documents decode ds = Inr objs) \<longleftrightarrow> (\<forall>d \<in> set ds. \<exists>obj. decode d = Inr obj)"
proof (induction ds)
  case (Cons d ds)
  show ?case
  proof (cases "decode d")
    case (Inl e) then show ?thesis by (simp add: parse_document_def)
  next
    case (Inr obj) then show ?thesis using Cons by (auto simp: parse_document_def bindE_Inr_iff)
  qed
qed simp

lemma apply_object_keeps:
  assumes "reads_keep P k" "\<And>g n. keeps P (kc_Apply k g n (obj_GetName obj) obj)"
  shows "keeps P (apply_object k obj)"
  unfolding apply_object_def using assms by (intro keeps_intros lookup_keeps reads_keepD)

lemma keeps_for_set: "(\<And>x. x \<in> set xs \<Longrightarrow> keeps P (f x)) \<Longrightarrow> keeps P (forA xs f)"
  by (induction xs) (auto intro: keeps_intros)

text \<open>The objects of a call are applied in order, and none after one that fails.\<close>

lemma create_or_update_prefix:
  "resourcesCreateOrUpdate k (xs @ x # ys) w =
     (case resourcesCreateOrUpdate k xs w of
        (Inl e, w1) \<Rightarrow> (Inl e, w1)
      | (Inr done', w1) \<Rightarrow>
          (case apply_object k x w1 of
             (Inl e, w2) \<Rightarrow> (Inl e, w2)
           | (Inr y, w2) \<Rightarrow>
               (case resourcesCreateOrUpdate k ys w2 of
                  (Inl e, w3) \<Rightarrow> (Inl e, w3)
                | (Inr rest, w3) \<Rightarrow> (Inr (done' @ y # rest), w3))))"
  unfolding resourcesCreateOrUpdate_def
  by (induction xs arbitrary: w) (auto simp: bindA_def retA_def split: prod.splits sum.splits)

text \<open>
  \<open>resources_create_or_update\<close> writes only what it may. If one document of the manifest cannot
  be parsed, the world is left as it was; otherwise the parsed objects are applied. No object it
  applies has a status: whatever reading calls and applications of objects without a status
  keep, the operation keeps.
\<close>

theorem create_or_update_statusless:
  assumes "reads_keep P k" and "\<forall>g n name obj. map_of obj ''status'' = None \<longrightarrow> keeps P (kc_Apply k g n name obj)"
  shows "keeps P (ResourcesCreateOrUpdate decode k manifest)
    \<and> ((\<exists>d \<in> set (split_documents [] manifest). \<forall>obj. decode d \<noteq> Inr obj)
        \<longrightarrow> (\<exists>e. ResourcesCreateOrUpdate decode k manifest w = (Inl e, w)))"
proof
  show "keeps P (ResourcesCreateOrUpdate decode k manifest)"
  proof (cases "parse_documents decode (split_documents [] manifest)")
    case (Inl e)
    then show ?thesis by (simp add: ResourcesCreateOrUpdate_def keeps_fail)
  next
    case (Inr objs)
    have "keeps P (forA objs (apply_object k))"
      using assms parse_documents_status [OF Inr] by (intro keeps_for_set apply_object_keeps) auto
    then show ?thesis using Inr by (simp add: ResourcesCreateOrUpdate_def resourcesCreateOrUpdate_def)
  qed
  show "(\<exists>d \<in> set (split_documents [] manifest). \<forall>obj. decode d \<noteq> Inr obj)
      \<longrightarrow> (\<exists>e. ResourcesCreateOrUpdate decode k manifest w = (Inl e, w))"
  proof
    assume "\<exists>d \<in> set (split_documents [] manifest). \<forall>obj. decode d \<noteq> Inr obj"
    then obtain e where "parse_documents decode (split_documents [] manifest) = Inl e"
      using parse_documents_ok [of decode] by (metis sum.exhaust)
    then show "\<exists>e. ResourcesCreateOrUpdate decode k manifest w = (Inl e, w)"
      by (simp add: ResourcesCreateOrUpdate_def failA_def)
  qed
qed

text \<open>
  A client for a cluster with no resources but a service API; the world counts what is written,
  an applied object as much as \<open>cost\<close> says.
\<close>

definition counting_client :: "(json_object \<Rightarrow> nat) \<Rightarrow> nat kube_client" where
  "counting_client cost =
     \<lparr>kc_RESTMapping = (\<lambda>gvk. retA \<lparr>gvr_Group = gvk_Group gvk, gvr_Version = gvk_Version gvk, gvr_Resource = ''services''\<rparr>),
      kc_ResetMapper = retA (), kc_ServerResources = (\<lambda>_. retA [(''Service'', True)]), kc_Namespace = retA ''default'',
      kc_Auth = (\<lambda>_. retA True), kc_List = (\<lambda>_ _ _. retA []), kc_Table = (\<lambda>_ _. retA \<lparr>tb_Columns = [], tb_Rows = []\<rparr>),
      kc_Get = (\<lambda>_ _ _ _. failA ''not found''), kc_PodGet = (\<lambda>_ _. failA ''not found''), kc_PodLogs = (\<lambda>_ _ _. failA ''not found''),
      kc_ServiceList = (\<lambda>_ _. retA []), kc_RouteList = (\<lambda>_ _. retA []), kc_NodeGet = (\<lambda>_. failA ''not found''),
      kc_NodeList = (\<lambda>_. retA []), kc_NodeProxy = (\<lambda>_ _. failA ''not found''), kc_PodMetrics = (\<lambda>_ _. failA ''not found''),
      kc_PodMetricsList = (\<lambda>_ _. retA []), kc_NodeMetrics = (\<lambda>_. failA ''not found''), kc_NodeMetricsList = (\<lambda>_. retA []),
      kc_Apply = (\<lambda>_ _ _ obj w. (Inr obj, w + cost obj)), kc_Update = (\<lambda>_ _ obj _ w. (Inr obj, Suc w)),
      kc_Delete = (\<lambda>_ _ _ _ w. (Inr (), Suc w)), kc_ServiceDelete = (\<lambda>_ _ w. (Inr (), Suc w)),
      kc_RouteDelete = (\<lambda>_ _ w. (Inr (), Suc w)), kc_Exec = (\<lambda>_ _ _ _ w. (Inr ([], []), Suc w))\<rparr>"

lemma counting_reads: "reads_keep P (counting_client cost)"
  by (simp add: reads_keep_def counting_client_def keeps_ret keeps_fail)

definition decode_service :: "string \<Rightarrow> (string, json_object) result" where
  "decode_service d = (if d = ''svc'' then Inr [(''apiVersion'', JStr ''v1''), (''kind'', JStr ''Service''),
       (''metadata'', JObj [(''name'', JStr ''a'')]), (''status'', JStr ''ready'')]
     else Inl ''yaml'')"

lemma decode_two: "split_documents [] (''svc'' @ [CHR 0x0A] @ ''---'' @ [CHR 0x0A] @ ''bad'') = [''svc'', ''bad'']"
  "split_documents [] ''svc'' = [''svc'']"
  by code_simp+

theorem create_or_update_statusless_witness:
  "snd (ResourcesCreateOrUpdate decode_service (counting_client (\<lambda>obj. if map_of obj ''status'' = None then 0 else 1)) ''svc'' 0) = 0
   \<and> (\<exists>e. ResourcesCreateOrUpdate decode_service (counting_client (\<lambda>obj. if map_of obj ''status'' = None then 0 else 1))
        (''svc'' @ [CHR 0x0A] @ ''---'' @ [CHR 0x0A] @ ''bad'') 0 = (Inl e, 0))"
proof -
  let ?k = "counting_client (\<lambda>obj. if map_of obj ''status'' = None then 0 else 1)"
  have ap: "\<forall>g n name obj. map_of obj ''status'' = None \<longrightarrow> keeps (\<lambda>w. w = 0) (kc_Apply ?k g n name obj)"
    by (simp add: counting_client_def keeps_def)
  note law = create_or_update_statusless [OF counting_reads ap, of decode_service]
  have "snd (ResourcesCreateOrUpdate decode_service ?k ''svc'' 0) = 0"
    using law [of "''svc''" 0] keepsD [of "\<lambda>w. w = 0" _ 0] by blast
  moreover have "\<exists>d \<in> set (split_documents [] (''svc'' @ [CHR 0x0A] @ ''---'' @ [CHR 0x0A] @ ''bad'')). \<forall>obj. decode_service d \<noteq> Inr obj"
    unfolding decode_two by (simp add: decode_service_def)
  ultimately show ?thesis using law by blast
qed

end
