(* ===== verification/Params.thy ===== *)
theory Params
  imports Mcp_Tools
begin

text \<open>
  The arguments of tool calls: \<open>src/pkg/api/params.go\<close>. A handler extracts its arguments
  through \<open>Params\<close>, which remembers the first type mismatch.
\<close>

section \<open>Integers\<close>

text \<open>
  Arguments are decoded JSON, whose numbers are \<open>float64\<close>. Converting one to \<open>int64\<close> truncates
  towards zero; outside the range of \<open>int64\<close> Go leaves the result to the implementation, here
  the parameter \<open>oor\<close>.
\<close>

definition trunc :: "rat \<Rightarrow> int" where
  "trunc r = (if 0 \<le> r then \<lfloor>r\<rfloor> else \<lceil>r\<rceil>)"

definition in_int64 :: "int \<Rightarrow> bool" where
  "in_int64 i \<longleftrightarrow> - (2 ^ 63) \<le> i \<and> i < 2 ^ 63"

definition int64_of_float :: "(rat \<Rightarrow> int) \<Rightarrow> rat \<Rightarrow> int" where
  "int64_of_float oor r = (if in_int64 (trunc r) then trunc r else oor r)"

text \<open>The name \<open>%T\<close> prints for a decoded value.\<close>

fun go_type :: "json \<Rightarrow> string" where
  "go_type JNull = ''<nil>''"
| "go_type (JBool _) = ''bool''"
| "go_type (JNum _) = ''float64''"
| "go_type (JStr _) = ''string''"
| "go_type (JArr _) = ''[]interface {}''"
| "go_type (JObj _) = ''map[string]interface {}''"

definition ErrInvalidInt64Type :: "json \<Rightarrow> string" where
  "ErrInvalidInt64Type v = ''expected integer, got '' @ go_type v"

definition ParseInt64 :: "(rat \<Rightarrow> int) \<Rightarrow> json \<Rightarrow> (string, int) result" where
  "ParseInt64 oor v = (case v of JNum r \<Rightarrow> Inr (int64_of_float oor r) | _ \<Rightarrow> Inl (ErrInvalidInt64Type v))"

section \<open>Single arguments\<close>

definition RequiredString :: "json_object \<Rightarrow> string \<Rightarrow> (string, string) result" where
  "RequiredString args key =
     (case map_of args key of
        None \<Rightarrow> Inl (key @ '' parameter required'')
      | Some (JStr str) \<Rightarrow> Inr str
      | Some _ \<Rightarrow> Inl (key @ '' parameter must be a string''))"

definition optionalString :: "json_object \<Rightarrow> string \<Rightarrow> string \<Rightarrow> (string, string) result" where
  "optionalString args key defaultVal =
     (case map_of args key of
        None \<Rightarrow> Inr defaultVal
      | Some (JStr str) \<Rightarrow> Inr str
      | Some _ \<Rightarrow> Inl (key @ '' parameter must be a string''))"

definition optionalBool :: "json_object \<Rightarrow> string \<Rightarrow> bool \<Rightarrow> (string, bool) result" where
  "optionalBool args key defaultVal =
     (case map_of args key of
        None \<Rightarrow> Inr defaultVal
      | Some (JBool b) \<Rightarrow> Inr b
      | Some _ \<Rightarrow> Inl (key @ '' parameter must be a boolean''))"

text \<open>The deprecated variants take the default for a value of the wrong type.\<close>

definition OptionalString :: "json_object \<Rightarrow> string \<Rightarrow> string \<Rightarrow> string" where
  "OptionalString args key defaultVal =
     (case optionalString args key defaultVal of Inl _ \<Rightarrow> defaultVal | Inr str \<Rightarrow> str)"

definition OptionalBool :: "json_object \<Rightarrow> string \<Rightarrow> bool \<Rightarrow> bool" where
  "OptionalBool args key defaultVal =
     (case optionalBool args key defaultVal of Inl _ \<Rightarrow> defaultVal | Inr b \<Rightarrow> b)"

section \<open>Sticky errors\<close>

record Params =
  pa_Arguments :: json_object
  pa_err :: "string option"

definition WrapParams :: "json_object \<Rightarrow> Params" where
  "WrapParams args = \<lparr>pa_Arguments = args, pa_err = None\<rparr>"

definition Params_Err :: "Params \<Rightarrow> string option" where
  "Params_Err p = pa_err p"

definition Params_RequiredString :: "string \<Rightarrow> Params \<Rightarrow> string \<times> Params" where
  "Params_RequiredString key p =
     (if pa_err p \<noteq> None then ([], p)
      else (case RequiredString (pa_Arguments p) key of
              Inl err \<Rightarrow> ([], p\<lparr>pa_err := Some err\<rparr>)
            | Inr v \<Rightarrow> (v, p)))"

definition Params_OptionalString :: "string \<Rightarrow> string \<Rightarrow> Params \<Rightarrow> string \<times> Params" where
  "Params_OptionalString key defaultVal p =
     (if pa_err p \<noteq> None then (defaultVal, p)
      else (case optionalString (pa_Arguments p) key defaultVal of
              Inl err \<Rightarrow> (defaultVal, p\<lparr>pa_err := Some err\<rparr>)
            | Inr v \<Rightarrow> (v, p)))"

definition Params_OptionalBool :: "string \<Rightarrow> bool \<Rightarrow> Params \<Rightarrow> bool \<times> Params" where
  "Params_OptionalBool key defaultVal p =
     (if pa_err p \<noteq> None then (defaultVal, p)
      else (case optionalBool (pa_Arguments p) key defaultVal of
              Inl err \<Rightarrow> (defaultVal, p\<lparr>pa_err := Some err\<rparr>)
            | Inr v \<Rightarrow> (v, p)))"

definition Params_OptionalInt64 :: "(rat \<Rightarrow> int) \<Rightarrow> string \<Rightarrow> int \<Rightarrow> Params \<Rightarrow> int \<times> Params" where
  "Params_OptionalInt64 oor key defaultVal p =
     (if pa_err p \<noteq> None then (defaultVal, p)
      else (case map_of (pa_Arguments p) key of
              None \<Rightarrow> (defaultVal, p)
            | Some JNull \<Rightarrow> (defaultVal, p)
            | Some val \<Rightarrow>
                (case ParseInt64 oor val of
                   Inl err \<Rightarrow> (defaultVal, p\<lparr>pa_err := Some (key @ '' parameter must be an integer: '' @ err)\<rparr>)
                 | Inr v \<Rightarrow> (v, p))))"

section \<open>A handler's extractions\<close>

datatype extraction =
    ReqString string
  | OptString string string
  | OptBool string bool
  | OptInt string int

datatype argument = StrArg string | BoolArg bool | IntArg int

fun extract_arg :: "(rat \<Rightarrow> int) \<Rightarrow> extraction \<Rightarrow> Params \<Rightarrow> argument \<times> Params" where
  "extract_arg oor (ReqString k) p = map_prod StrArg id (Params_RequiredString k p)"
| "extract_arg oor (OptString k d) p = map_prod StrArg id (Params_OptionalString k d p)"
| "extract_arg oor (OptBool k d) p = map_prod BoolArg id (Params_OptionalBool k d p)"
| "extract_arg oor (OptInt k d) p = map_prod IntArg id (Params_OptionalInt64 oor k d p)"

fun extract_all :: "(rat \<Rightarrow> int) \<Rightarrow> extraction list \<Rightarrow> Params \<Rightarrow> argument list \<times> Params" where
  "extract_all oor [] p = ([], p)"
| "extract_all oor (e # es) p =
     (case extract_arg oor e p of (v, p1) \<Rightarrow> (case extract_all oor es p1 of (vs, p2) \<Rightarrow> (v # vs, p2)))"

text \<open>The specification: each argument by itself.\<close>

fun default_argument :: "extraction \<Rightarrow> argument" where
  "default_argument (ReqString k) = StrArg []"
| "default_argument (OptString k d) = StrArg d"
| "default_argument (OptBool k d) = BoolArg d"
| "default_argument (OptInt k d) = IntArg d"

fun argument_error :: "json_object \<Rightarrow> extraction \<Rightarrow> string option" where
  "argument_error args (ReqString k) = (case map_of args k of
     None \<Rightarrow> Some (k @ '' parameter required'') | Some (JStr _) \<Rightarrow> None | Some _ \<Rightarrow> Some (k @ '' parameter must be a string''))"
| "argument_error args (OptString k d) = (case map_of args k of
     None \<Rightarrow> None | Some (JStr _) \<Rightarrow> None | Some _ \<Rightarrow> Some (k @ '' parameter must be a string''))"
| "argument_error args (OptBool k d) = (case map_of args k of
     None \<Rightarrow> None | Some (JBool _) \<Rightarrow> None | Some _ \<Rightarrow> Some (k @ '' parameter must be a boolean''))"
| "argument_error args (OptInt k d) = (case map_of args k of
     None \<Rightarrow> None | Some JNull \<Rightarrow> None | Some (JNum _) \<Rightarrow> None
   | Some v \<Rightarrow> Some (k @ '' parameter must be an integer: expected integer, got '' @ go_type v))"

fun argument_value :: "(rat \<Rightarrow> int) \<Rightarrow> json_object \<Rightarrow> extraction \<Rightarrow> argument" where
  "argument_value oor args e = (case (e, map_of args (case e of ReqString k \<Rightarrow> k | OptString k _ \<Rightarrow> k | OptBool k _ \<Rightarrow> k | OptInt k _ \<Rightarrow> k)) of
     (ReqString _, Some (JStr s)) \<Rightarrow> StrArg s
   | (OptString _ _, Some (JStr s)) \<Rightarrow> StrArg s
   | (OptBool _ _, Some (JBool b)) \<Rightarrow> BoolArg b
   | (OptInt _ _, Some (JNum r)) \<Rightarrow> IntArg (int64_of_float oor r)
   | _ \<Rightarrow> default_argument e)"

lemma extract_failed: "pa_err p = Some err \<Longrightarrow> extract_arg oor e p = (default_argument e, p)"
  by (cases e)
     (simp_all add: Params_RequiredString_def Params_OptionalString_def Params_OptionalBool_def Params_OptionalInt64_def)

lemma extract_ok:
  assumes "pa_err p = None"
  shows "extract_arg oor e p = (argument_value oor (pa_Arguments p) e, p\<lparr>pa_err := argument_error (pa_Arguments p) e\<rparr>)"
proof (cases e)
  case (ReqString k)
  then show ?thesis using assms
    by (auto simp: Params_RequiredString_def RequiredString_def split: option.splits json.splits)
next
  case (OptString k d)
  then show ?thesis using assms
    by (auto simp: Params_OptionalString_def optionalString_def split: option.splits json.splits)
next
  case (OptBool k d)
  then show ?thesis using assms
    by (auto simp: Params_OptionalBool_def optionalBool_def split: option.splits json.splits)
next
  case (OptInt k d)
  then show ?thesis using assms
    by (auto simp: Params_OptionalInt64_def ParseInt64_def ErrInvalidInt64Type_def split: option.splits json.splits)
qed

lemma extract_all_failed: "pa_err p = Some err \<Longrightarrow> extract_all oor es p = (map default_argument es, p)"
  by (induction es) (simp_all add: extract_failed)

text \<open>The errors of the extractions, in order.\<close>

definition argument_errors :: "json_object \<Rightarrow> extraction list \<Rightarrow> string list" where
  "argument_errors args es = concat (map (\<lambda>e. case argument_error args e of None \<Rightarrow> [] | Some err \<Rightarrow> [err]) es)"

lemma argument_errors_simps [simp]:
  "argument_errors args [] = []"
  "argument_errors args (e # es) = (case argument_error args e of None \<Rightarrow> [] | Some err \<Rightarrow> [err]) @ argument_errors args es"
  by (simp_all add: argument_errors_def)

lemma extract_all_spec:
  assumes "pa_err p = None" "pa_Arguments p = args"
  shows "pa_err (snd (extract_all oor es p)) = (case argument_errors args es of [] \<Rightarrow> None | err # _ \<Rightarrow> Some err)"
    and "fst (extract_all oor es p) = map (argument_value oor args) (takeWhile (\<lambda>e. argument_error args e = None) es)
       @ map default_argument (dropWhile (\<lambda>e. argument_error args e = None) es)"
proof -
  have "pa_err (snd (extract_all oor es p)) = (case argument_errors args es of [] \<Rightarrow> None | err # _ \<Rightarrow> Some err)
      \<and> fst (extract_all oor es p) = map (argument_value oor args) (takeWhile (\<lambda>e. argument_error args e = None) es)
       @ map default_argument (dropWhile (\<lambda>e. argument_error args e = None) es)"
    using assms
  proof (induction es arbitrary: p)
    case (Cons e es)
    show ?case
    proof (cases "argument_error args e")
      case None
      then have "p\<lparr>pa_err := argument_error args e\<rparr> = p" using Cons.prems by simp
      then show ?thesis using Cons None by (simp add: extract_ok case_prod_beta)
    next
      case (Some err)
      have "argument_value oor args e = default_argument e"
        using Some by (cases e) (auto split: option.splits json.splits)
      then show ?thesis using Cons.prems Some
        by (simp add: extract_ok extract_all_failed [of "p\<lparr>pa_err := Some err\<rparr>" err])
    qed
  qed simp
  then show "pa_err (snd (extract_all oor es p)) = (case argument_errors args es of [] \<Rightarrow> None | err # _ \<Rightarrow> Some err)"
    "fst (extract_all oor es p) = map (argument_value oor args) (takeWhile (\<lambda>e. argument_error args e = None) es)
       @ map default_argument (dropWhile (\<lambda>e. argument_error args e = None) es)" by blast+
qed

lemma extract_all_Err:
  "Params_Err (snd (extract_all oor es (WrapParams args))) = (case argument_errors args es of [] \<Rightarrow> None | err # _ \<Rightarrow> Some err)"
  using extract_all_spec(1) [of "WrapParams args"] by (simp add: Params_Err_def WrapParams_def)

text \<open>
  The extractions of a handler report the first mismatch and nothing else. After any sequence
  of extractions, \<open>Err\<close> is nil exactly if every argument by itself is well-typed (and present, if
  required), and otherwise the error of the first that is not; the values up to that one are
  those of the arguments, and all later ones are the defaults.
\<close>

theorem params_first_error:
  "Params_Err (snd (extract_all oor es (WrapParams args)))
     = (case argument_errors args es of [] \<Rightarrow> None | err # _ \<Rightarrow> Some err)
   \<and> fst (extract_all oor es (WrapParams args))
     = map (argument_value oor args) (takeWhile (\<lambda>e. argument_error args e = None) es)
       @ map default_argument (dropWhile (\<lambda>e. argument_error args e = None) es)"
  using extract_all_spec(2) [of "WrapParams args" args oor es] by (simp add: extract_all_Err) (simp add: WrapParams_def)

end
