(* ===== verification/Core_Tools.thy ===== *)
theory Core_Tools
  imports Core_Ops Params
begin

text \<open>
  The core toolset: \<open>src/pkg/toolsets/core/\<close> (\<open>toolset.go\<close>, \<open>pods.go\<close>, \<open>resources.go\<close>, \<open>nodes.go\<close>,
  \<open>namespaces.go\<close>, \<open>events.go\<close>). Each handler extracts its arguments, runs an operation of
  \<open>Core_Ops\<close> and formats the result. The texts that describe tools and arguments to a model are a
  parameter (\<open>doc\<close>).
\<close>

section \<open>Handlers\<close>

text \<open>
  Libraries a handler uses: the conversion of large numbers to \<open>int64\<close>, the YAML decoder, the
  converters between typed and unstructured objects, \<open>Time.String\<close>, random names and the printers
  of metrics.
\<close>

record 'w core_env =
  co_Out :: out_env
  co_Overflow :: "rat \<Rightarrow> int"
  co_DecodeYaml :: "string \<Rightarrow> (string, json_object) result"
  co_Event :: "json_object \<Rightarrow> (string, kube_event) result"
  co_TimeString :: "int option \<Rightarrow> string"
  co_Convert :: "run_object \<Rightarrow> (string, json_object) result"
  co_Rand :: "('w, string) action"
  co_PrintPods :: "json_object list \<Rightarrow> (string, string) result"
  co_PrintNodes :: "json_object list \<Rightarrow> (string \<times> (string \<times> string) list) list \<Rightarrow> (string, string) result"

type_synonym 'w core_params = "('w, 'w kube_client) ToolHandlerParams"
type_synonym 'w core_handler = "'w core_env \<Rightarrow> 'w core_params \<Rightarrow> ('w, ToolCallResult) action"

definition errorResult :: "string \<Rightarrow> ToolCallResult" where
  "errorResult err = NewToolCallResult [] (Some err)"

text \<open>Run an operation; its error becomes the error of the result, behind a prefix.\<close>

definition run_op :: "string \<Rightarrow> ('w, 'a) action \<Rightarrow> ('a \<Rightarrow> ToolCallResult) \<Rightarrow> ('w, ToolCallResult) action" where
  "run_op prefix m f = bindA (tryA m) (\<lambda>r. retA (case r of Inl e \<Rightarrow> errorResult (prefix @ e) | Inr x \<Rightarrow> f x))"

definition check_params :: "string \<Rightarrow> Params \<Rightarrow> ('w, ToolCallResult) action \<Rightarrow> ('w, ToolCallResult) action" where
  "check_params prefix p m = (case Params_Err p of Some e \<Rightarrow> retA (errorResult (prefix @ e)) | None \<Rightarrow> m)"

text \<open>The output format; a validated configuration has one.\<close>

definition list_format :: "'w core_params \<Rightarrow> string" where
  "list_format params = (case hp_ListOutput params of Some f \<Rightarrow> f | None \<Rightarrow> [])"

definition print_list :: "'w core_env \<Rightarrow> 'w core_params \<Rightarrow> unstructured \<Rightarrow> ToolCallResult" where
  "print_list env params ret = (case output_PrintObj (co_Out env) (list_format params) ret of (txt, err) \<Rightarrow> NewToolCallResult txt err)"

definition print_yaml :: "'w core_env \<Rightarrow> unstructured \<Rightarrow> ToolCallResult" where
  "print_yaml env ret = (case fst (MarshalYaml (co_Out env) ret) of
     Inl e \<Rightarrow> NewToolCallResult [] (Some e) | Inr txt \<Rightarrow> NewToolCallResult txt None)"

definition print_applied :: "'w core_env \<Rightarrow> string \<Rightarrow> json_object list \<Rightarrow> ToolCallResult" where
  "print_applied env prefix resources =
     (let header = ''# The following resources (YAML) have been created or updated successfully'' @ [CHR 0x0A] in
      case MarshalYaml_other (co_Out env) (JArr (map JObj resources)) of
        Inl e \<Rightarrow> NewToolCallResult header (Some (prefix @ e))
      | Inr txt \<Rightarrow> NewToolCallResult (header @ txt) None)"

definition podsListInAllNamespaces :: "'w core_handler" where
  "podsListInAllNamespaces env params =
     (let p = WrapParams (hp_Arguments params);
          (labelSelector, p1) = Params_OptionalString ''labelSelector'' [] p;
          (fieldSelector, p2) = Params_OptionalString ''fieldSelector'' [] p1
      in check_params ''failed to list pods in all namespaces: '' p2
           (run_op ''failed to list pods in all namespaces: ''
              (PodsListInAllNamespaces (hp_KubernetesClient params)
                 \<lparr>lo_LabelSelector = labelSelector, lo_FieldSelector = fieldSelector, lo_AsTable = output_AsTable (list_format params)\<rparr>)
              (print_list env params)))"

definition podsListInNamespace :: "'w core_handler" where
  "podsListInNamespace env params =
     (let p = WrapParams (hp_Arguments params);
          (ns, p1) = Params_RequiredString ''namespace'' p;
          (labelSelector, p2) = Params_OptionalString ''labelSelector'' [] p1;
          (fieldSelector, p3) = Params_OptionalString ''fieldSelector'' [] p2
      in check_params ''failed to list pods in namespace: '' p3
           (run_op (''failed to list pods in namespace '' @ ns @ '': '')
              (PodsListInNamespace (hp_KubernetesClient params) ns
                 \<lparr>lo_LabelSelector = labelSelector, lo_FieldSelector = fieldSelector, lo_AsTable = output_AsTable (list_format params)\<rparr>)
              (print_list env params)))"

definition podsGet :: "'w core_handler" where
  "podsGet env params =
     (let p = WrapParams (hp_Arguments params);
          (ns, p1) = Params_OptionalString ''namespace'' [] p;
          (name, p2) = Params_RequiredString ''name'' p1
      in check_params ''failed to get pod: '' p2
           (run_op (''failed to get pod '' @ name @ '' in namespace '' @ ns @ '': '')
              (PodsGet (hp_KubernetesClient params) ns name) (\<lambda>ret. print_yaml env (UObject ret))))"

definition podsDelete :: "'w core_handler" where
  "podsDelete env params =
     (let p = WrapParams (hp_Arguments params);
          (ns, p1) = Params_OptionalString ''namespace'' [] p;
          (name, p2) = Params_RequiredString ''name'' p1
      in check_params ''failed to delete pod: '' p2
           (run_op (''failed to delete pod '' @ name @ '' in namespace '' @ ns @ '': '')
              (PodsDelete (hp_KubernetesClient params) ns name) (\<lambda>ret. NewToolCallResult ret None)))"

definition podsTop :: "'w core_handler" where
  "podsTop env params =
     (let p = WrapParams (hp_Arguments params);
          (allNamespaces, p1) = Params_OptionalBool ''all_namespaces'' True p;
          (ns, p2) = Params_OptionalString ''namespace'' [] p1;
          (name, p3) = Params_OptionalString ''name'' [] p2;
          (labelSelector, p4) = Params_OptionalString ''label_selector'' [] p3
      in check_params ''failed to get pods top: '' p4
           (run_op ''failed to get pods top: ''
              (bindA (PodsTop (hp_KubernetesClient params) allNamespaces ns name labelSelector) (\<lambda>items. liftA (co_PrintPods env items)))
              (\<lambda>txt. NewToolCallResult txt None)))"

fun command_strings :: "json list \<Rightarrow> string list option" where
  "command_strings [] = Some []"
| "command_strings (JStr s # cmds) = map_option ((#) s) (command_strings cmds)"
| "command_strings (_ # cmds) = None"

definition podsExec :: "'w core_handler" where
  "podsExec env params =
     (let p = WrapParams (hp_Arguments params);
          (ns, p1) = Params_OptionalString ''namespace'' [] p;
          (name, p2) = Params_RequiredString ''name'' p1;
          (container, p3) = Params_OptionalString ''container'' [] p2
      in check_params ''failed to exec in pod: '' p3
           (case (case map_of (hp_Arguments params) ''command'' of Some (JArr cmds) \<Rightarrow> command_strings cmds | _ \<Rightarrow> None) of
              None \<Rightarrow> retA (errorResult ''failed to exec in pod: command parameter must be an array of strings'')
            | Some command \<Rightarrow>
                run_op (''failed to exec in pod '' @ name @ '' in namespace '' @ ns @ '': '')
                  (PodsExec (hp_KubernetesClient params) ns name container command)
                  (\<lambda>(out, err). NewToolCallResult
                     (if out \<noteq> [] then out else if err \<noteq> [] then err
                      else ''The executed command in pod '' @ name @ '' in namespace '' @ ns @ '' has not produced any output'') None)))"

definition podsLog :: "'w core_handler" where
  "podsLog env params =
     (let p = WrapParams (hp_Arguments params);
          (ns, p1) = Params_OptionalString ''namespace'' [] p;
          (name, p2) = Params_RequiredString ''name'' p1;
          (container, p3) = Params_OptionalString ''container'' [] p2;
          (previous, p4) = Params_OptionalBool ''previous'' False p3;
          (tail, p5) = Params_OptionalInt64 (co_Overflow env) ''tail'' 0 p4
      in check_params ''failed to get pod log: '' p5
           (run_op (''failed to get pod '' @ name @ '' log in namespace '' @ ns @ '': '')
              (PodsLog (hp_KubernetesClient params) ns name container previous tail)
              (\<lambda>ret. NewToolCallResult
                 (if ret = [] then ''The pod '' @ name @ '' in namespace '' @ ns @ '' has not logged any message yet'' else ret) None)))"

text \<open>The conversion of an \<open>int64\<close> to \<open>int32\<close> keeps the low 32 bits.\<close>

definition int32 :: "int \<Rightarrow> int" where
  "int32 i = (i + 2 ^ 31) mod 2 ^ 32 - 2 ^ 31"

definition podsRun :: "'w core_handler" where
  "podsRun env params =
     (let p = WrapParams (hp_Arguments params);
          (ns, p1) = Params_OptionalString ''namespace'' [] p;
          (name, p2) = Params_OptionalString ''name'' [] p1;
          (img, p3) = Params_RequiredString ''image'' p2;
          (port, p4) = Params_OptionalInt64 (co_Overflow env) ''port'' 0 p3
      in check_params ''failed to run pod: '' p4
           (run_op (''failed to run pod '' @ name @ '' in namespace '' @ ns @ '': '')
              (PodsRun (co_Convert env) (co_Rand env) (hp_KubernetesClient params) ns name img (int32 port))
              (print_applied env ''failed to run pod: '')))"

text \<open>An argument that is missing reads as nil.\<close>

definition arg :: "json_object \<Rightarrow> string \<Rightarrow> json" where
  "arg args key = (case map_of args key of None \<Rightarrow> JNull | Some v \<Rightarrow> v)"

definition parseGroupVersionKind :: "json_object \<Rightarrow> (string, GroupVersionKind) result" where
  "parseGroupVersionKind args =
     (if arg args ''apiVersion'' = JNull then Inl ''missing argument apiVersion''
      else if arg args ''kind'' = JNull then Inl ''missing argument kind''
      else (case arg args ''apiVersion'' of
              JStr a \<Rightarrow>
                (case ParseGroupVersion a of
                   None \<Rightarrow> Inl ''invalid argument apiVersion''
                 | Some (g, v) \<Rightarrow>
                     (case arg args ''kind'' of
                        JStr kd \<Rightarrow> Inr \<lparr>gvk_Group = g, gvk_Version = v, gvk_Kind = kd\<rparr>
                      | _ \<Rightarrow> Inl ''kind is not a string''))
            | _ \<Rightarrow> Inl ''apiVersion is not a string''))"

text \<open>An optional string (nil counts as missing), as the handlers for resources read it.\<close>

definition nullable_string :: "json_object \<Rightarrow> string \<Rightarrow> (string, string) result" where
  "nullable_string args key =
     (case arg args key of JNull \<Rightarrow> Inr [] | JStr s \<Rightarrow> Inr s | _ \<Rightarrow> Inl (key @ '' is not a string''))"

definition fail_result :: "(string, 'a) result \<Rightarrow> ('a \<Rightarrow> ('w, ToolCallResult) action) \<Rightarrow> ('w, ToolCallResult) action" where
  "fail_result r f = (case r of Inl e \<Rightarrow> retA (errorResult e) | Inr x \<Rightarrow> f x)"

definition print_structured :: "string \<Rightarrow> (string, PrintResult) result \<Rightarrow> ToolCallResult" where
  "print_structured prefix r =
     (case r of
        Inl e \<Rightarrow> errorResult (prefix @ e)
      | Inr printed \<Rightarrow> NewToolCallResultFull (pr_Text printed) (pr_Structured printed) None)"

definition resourcesList :: "'w core_handler" where
  "resourcesList env params =
     (let args = hp_Arguments params in
      fail_result (nullable_string args ''labelSelector'') (\<lambda>labelSelector.
      fail_result (nullable_string args ''fieldSelector'') (\<lambda>fieldSelector.
      fail_result (mapErr (\<lambda>e. ''failed to list resources, '' @ e) (parseGroupVersionKind args)) (\<lambda>gvk.
      fail_result (nullable_string args ''namespace'') (\<lambda>ns.
        run_op ''failed to list resources: ''
          (ResourcesList (hp_KubernetesClient params) gvk ns
             \<lparr>lo_LabelSelector = labelSelector, lo_FieldSelector = fieldSelector, lo_AsTable = output_AsTable (list_format params)\<rparr>)
          (\<lambda>ret. print_structured ''failed to format resources: '' (output_PrintObjStructured (co_Out env) (list_format params) ret)))))))"

text \<open>The arguments that name one object; \<open>verb\<close> is what the messages call the operation.\<close>

definition object_args ::
  "string \<Rightarrow> json_object \<Rightarrow> (GroupVersionKind \<Rightarrow> string \<Rightarrow> string \<Rightarrow> ('w, ToolCallResult) action) \<Rightarrow> ('w, ToolCallResult) action" where
  "object_args verb args f =
     fail_result (mapErr (\<lambda>e. ''failed to '' @ verb @ '', '' @ e) (parseGroupVersionKind args)) (\<lambda>gvk.
       if arg args ''name'' = JNull then retA (errorResult (''failed to '' @ verb @ '', missing argument name''))
       else fail_result (nullable_string args ''namespace'') (\<lambda>ns.
            fail_result (nullable_string args ''name'') (\<lambda>name. f gvk ns name)))"

definition resourcesGet :: "'w core_handler" where
  "resourcesGet env params =
     object_args ''get resource'' (hp_Arguments params) (\<lambda>gvk ns name.
       run_op ''failed to get resource: '' (ResourcesGet (hp_KubernetesClient params) gvk ns name)
         (\<lambda>ret. print_structured ''failed to format resource: '' (yaml_PrintObjStructured (co_Out env) (UObject ret))))"

definition tool_resourcesCreateOrUpdate :: "'w core_handler" where
  "tool_resourcesCreateOrUpdate env params =
     (case arg (hp_Arguments params) ''resource'' of
        JNull \<Rightarrow> retA (errorResult ''failed to create or update resources, missing argument resource'')
      | JStr r \<Rightarrow>
          (if r = [] then retA (errorResult ''failed to create or update resources, missing argument resource'')
           else run_op ''failed to create or update resources: ''
                  (ResourcesCreateOrUpdate (co_DecodeYaml env) (hp_KubernetesClient params) r)
                  (print_applied env ''failed to create or update resources: ''))
      | _ \<Rightarrow> retA (errorResult ''resource is not a string''))"

definition resourcesDelete :: "'w core_handler" where
  "resourcesDelete env params =
     object_args ''delete resource'' (hp_Arguments params) (\<lambda>gvk ns name.
       fail_result
         (case map_of (hp_Arguments params) ''gracePeriodSeconds'' of
            None \<Rightarrow> Inr None
          | Some value \<Rightarrow>
              (case ParseInt64 (co_Overflow env) value of
                 Inl _ \<Rightarrow> Inl ''failed to delete resource, invalid argument gracePeriodSeconds''
               | Inr n \<Rightarrow> Inr (Some n)))
         (\<lambda>grace. run_op ''failed to delete resource: '' (ResourcesDelete (hp_KubernetesClient params) gvk ns name grace)
            (\<lambda>_. NewToolCallResult ''Resource deleted successfully'' None)))"

definition parseScaleValue :: "(rat \<Rightarrow> int) \<Rightarrow> json \<Rightarrow> (string, int) result" where
  "parseScaleValue oor desiredScale = mapErr (\<lambda>e. ''failed to parse scale parameter: '' @ e) (ParseInt64 oor desiredScale)"

definition resourcesScale :: "'w core_handler" where
  "resourcesScale env params =
     object_args ''get/update resource scale'' (hp_Arguments params) (\<lambda>gvk ns name.
       fail_result
         (case map_of (hp_Arguments params) ''scale'' of
            None \<Rightarrow> Inr (0, False)
          | Some scaleVal \<Rightarrow> (case parseScaleValue (co_Overflow env) scaleVal of Inl e \<Rightarrow> Inl e | Inr n \<Rightarrow> Inr (n, True)))
         (\<lambda>(desiredScale, shouldScale).
            run_op ''failed to get/update resource scale: ''
              (ResourcesScale (hp_KubernetesClient params) gvk ns name desiredScale shouldScale)
              (\<lambda>scale. case fst (MarshalYaml (co_Out env) (UObject scale)) of
                 Inl e \<Rightarrow> errorResult ''failed to marshall scale to yaml format''
               | Inr txt \<Rightarrow> NewToolCallResult (''# Current resource scale (YAML) is below'' @ [CHR 0x0A] @ txt) None)))"

definition eventsList :: "'w core_handler" where
  "eventsList env params =
     (let p = WrapParams (hp_Arguments params);
          (ns, p1) = Params_OptionalString ''namespace'' [] p;
          (fieldSelector, p2) = Params_OptionalString ''fieldSelector'' [] p1;
          prefix = ''failed to list events in all namespaces: ''
      in check_params prefix p2
           (run_op prefix
              (EventsList (co_Event env) (co_TimeString env) (hp_KubernetesClient params) ns
                 \<lparr>lo_LabelSelector = [], lo_FieldSelector = fieldSelector, lo_AsTable = False\<rparr>)
              (\<lambda>eventMap.
                 if eventMap = [] then NewToolCallResult ''# No events found'' None
                 else (let header = ''# The following events (YAML format) were found:'' @ [CHR 0x0A] in
                       case MarshalYaml_other (co_Out env) (JArr (map JObj eventMap)) of
                         Inl e \<Rightarrow> NewToolCallResult header (Some (prefix @ e))
                       | Inr txt \<Rightarrow> NewToolCallResult (header @ txt) None))))"

definition namespacesList :: "'w core_handler" where
  "namespacesList env params =
     (let p = WrapParams (hp_Arguments params);
          (fieldSelector, p1) = Params_OptionalString ''fieldSelector'' [] p
      in check_params ''failed to list namespaces: '' p1
           (run_op ''failed to list namespaces: ''
              (NamespacesList (hp_KubernetesClient params)
                 \<lparr>lo_LabelSelector = [], lo_FieldSelector = fieldSelector, lo_AsTable = output_AsTable (list_format params)\<rparr>)
              (print_list env params)))"

definition projectsList :: "'w core_handler" where
  "projectsList env params =
     run_op ''failed to list projects: ''
       (ProjectsList (hp_KubernetesClient params)
          \<lparr>lo_LabelSelector = [], lo_FieldSelector = [], lo_AsTable = output_AsTable (list_format params)\<rparr>)
       (print_list env params)"

definition int_text :: "int \<Rightarrow> string" where
  "int_text i = (if i < 0 then CHR ''-'' # digits (nat (- i)) else digits (nat i))"

definition nodesLog :: "'w core_handler" where
  "nodesLog env params =
     (let args = hp_Arguments params in
      case arg args ''name'' of
        JStr name \<Rightarrow>
          (if name = [] then retA (errorResult ''failed to get node log, missing argument name'')
           else (case arg args ''query'' of
                   JStr query \<Rightarrow>
                     (if query = [] then retA (errorResult ''failed to get node log, missing argument query'')
                      else fail_result
                        (if arg args ''tailLines'' = JNull then Inr 0
                         else mapErr (\<lambda>e. ''failed to parse tailLines parameter: '' @ e) (ParseInt64 (co_Overflow env) (arg args ''tailLines'')))
                        (\<lambda>tailInt. run_op (''failed to get node log for '' @ name @ '': '')
                           (NodesLog int_text (hp_KubernetesClient params) name query tailInt)
                           (\<lambda>ret. NewToolCallResult
                              (if ret = [] then ''The node '' @ name @ '' has not logged any message yet or the log file is empty'' else ret)
                              None)))
                 | _ \<Rightarrow> retA (errorResult ''failed to get node log, missing argument query'')))
      | _ \<Rightarrow> retA (errorResult ''failed to get node log, missing argument name''))"

definition nodesStatsSummary :: "'w core_handler" where
  "nodesStatsSummary env params =
     (case arg (hp_Arguments params) ''name'' of
        JStr name \<Rightarrow>
          (if name = [] then retA (errorResult ''failed to get node stats summary, missing argument name'')
           else run_op (''failed to get node stats summary for '' @ name @ '': '')
                  (NodesStatsSummary (hp_KubernetesClient params) name) (\<lambda>ret. NewToolCallResult ret None))
      | _ \<Rightarrow> retA (errorResult ''failed to get node stats summary, missing argument name''))"

text \<open>A node with swap but no allocatable resources is a write to a nil map: a panic, here an error of the action.\<close>

definition node_available :: "kube_node \<Rightarrow> ('w, string \<times> (string \<times> string) list) action" where
  "node_available n =
     (case (no_Swap n, no_Allocatable n) of
        (None, None) \<Rightarrow> retA (no_Name n, [])
      | (None, Some alloc) \<Rightarrow> retA (no_Name n, alloc)
      | (Some swap, None) \<Rightarrow> failA ''assignment to entry in nil map''
      | (Some swap, Some alloc) \<Rightarrow> retA (no_Name n, AList.update ''swap'' (int_text swap) alloc))"

definition nodesTop :: "'w core_handler" where
  "nodesTop env params =
     (let args = hp_Arguments params;
          name = GetString args ''name'' [];
          labelSelector = GetString args ''label_selector'' []
      in bindA (tryA (NodesTop (hp_KubernetesClient params) name labelSelector)) (\<lambda>metrics.
         fail_result (mapErr (\<lambda>e. ''failed to get nodes top: '' @ e) metrics) (\<lambda>nodeMetrics.
         bindA (tryA (kc_NodeList (hp_KubernetesClient params) labelSelector)) (\<lambda>nodes.
         fail_result (mapErr (\<lambda>e. ''failed to list nodes: '' @ e) nodes) (\<lambda>nodeList.
         bindA (forA nodeList node_available) (\<lambda>availableResources.
           retA (case co_PrintNodes env nodeMetrics availableResources of
                   Inl e \<Rightarrow> errorResult (''failed to print node metrics: '' @ e)
                 | Inr txt \<Rightarrow> NewToolCallResult txt None)))))))"

section \<open>The tools\<close>

record 'w FilteringProvider =
  fp_IsTargetCompatibilityToolFiltersEnabled :: "'w \<Rightarrow> bool"
  fp_AnyTargetHasGVKs :: "GroupVersionKind list \<Rightarrow> 'w \<Rightarrow> bool"

definition NodeMetricsGVK :: GroupVersionKind where
  "NodeMetricsGVK = \<lparr>gvk_Group = ''metrics.k8s.io'', gvk_Version = ''v1beta1'', gvk_Kind = ''NodeMetrics''\<rparr>"

definition PodMetricsGVK :: GroupVersionKind where
  "PodMetricsGVK = \<lparr>gvk_Group = ''metrics.k8s.io'', gvk_Version = ''v1beta1'', gvk_Kind = ''PodMetrics''\<rparr>"

definition HasNodeMetrics :: "'w FilteringProvider \<Rightarrow> 'w \<Rightarrow> bool" where
  "HasNodeMetrics p = fp_AnyTargetHasGVKs p [NodeMetricsGVK]"

definition HasPodMetrics :: "'w FilteringProvider \<Rightarrow> 'w \<Rightarrow> bool" where
  "HasPodMetrics p = fp_AnyTargetHasGVKs p [PodMetricsGVK]"

text \<open>
  A tool by its name, title, hints (read-only, destructive, idempotent; every tool has the hint of
  an open world), the types of its arguments, its handler and filters. \<open>doc\<close> gives the description
  of a tool (with the empty argument) and of its arguments.
\<close>

definition core_tool ::
  "(string \<Rightarrow> string \<Rightarrow> string) \<Rightarrow> string \<Rightarrow> string \<Rightarrow> bool option \<Rightarrow> bool option \<Rightarrow> bool option \<Rightarrow> (string \<times> string) list
   \<Rightarrow> (('w, 'k) ToolHandlerParams \<Rightarrow> ('w, ToolCallResult) action) \<Rightarrow> ('w \<Rightarrow> bool) list \<Rightarrow> ('w, 'k) ServerTool" where
  "core_tool doc name title readOnly destructive idempotent props handler filters =
     \<lparr>st_Tool = \<lparr>tl_Name = name, tl_Description = doc name [],
        tl_Annotations = \<lparr>an_Title = title, an_ReadOnlyHint = readOnly, an_DestructiveHint = destructive,
          an_IdempotentHint = idempotent, an_OpenWorldHint = Some True\<rparr>,
        tl_Meta = [],
        tl_InputSchema = Some (Schema ''object'' []
          (if props = [] then None else Some (map (\<lambda>(n, t). (n, Schema t (doc name n) None)) props))),
        tl_OutputSchema = None\<rparr>,
      st_Handler = handler, st_ClusterAware = None, st_TargetListProvider = None, st_TargetCompatibilityFilters = filters\<rparr>"

definition initEvents :: "(string \<Rightarrow> string \<Rightarrow> string) \<Rightarrow> 'w core_env \<Rightarrow> ('w, 'w kube_client) ServerTool list" where
  "initEvents doc env =
     [core_tool doc ''events_list'' ''Events: List'' (Some True) (Some False) None
        [(''namespace'', ''string''), (''fieldSelector'', ''string'')] (eventsList env) []]"

definition initNamespaces ::
  "(string \<Rightarrow> string \<Rightarrow> string) \<Rightarrow> 'w core_env \<Rightarrow> 'w FilteringProvider \<Rightarrow> ('w, 'w kube_client) ServerTool list" where
  "initNamespaces doc env p =
     [core_tool doc ''namespaces_list'' ''Namespaces: List'' (Some True) (Some False) None
        [(''fieldSelector'', ''string'')] (namespacesList env) [],
      core_tool doc ''projects_list'' ''Projects: List'' (Some True) (Some False) None [] (projectsList env)
        [fp_AnyTargetHasGVKs p [\<lparr>gvk_Group = ''project.openshift.io'', gvk_Version = ''v1'', gvk_Kind = ''Project''\<rparr>]]]"

definition initNodes ::
  "(string \<Rightarrow> string \<Rightarrow> string) \<Rightarrow> 'w core_env \<Rightarrow> 'w FilteringProvider \<Rightarrow> ('w, 'w kube_client) ServerTool list" where
  "initNodes doc env p =
     [core_tool doc ''nodes_log'' ''Node: Log'' (Some True) (Some False) None
        [(''name'', ''string''), (''query'', ''string''), (''tailLines'', ''integer'')] (nodesLog env) [],
      core_tool doc ''nodes_stats_summary'' ''Node: Stats Summary'' (Some True) (Some False) None
        [(''name'', ''string'')] (nodesStatsSummary env) [],
      core_tool doc ''nodes_top'' ''Nodes: Top'' (Some True) (Some False) (Some True)
        [(''name'', ''string''), (''label_selector'', ''string'')] (nodesTop env) [HasNodeMetrics p]]"

definition initPods ::
  "(string \<Rightarrow> string \<Rightarrow> string) \<Rightarrow> 'w core_env \<Rightarrow> 'w FilteringProvider \<Rightarrow> ('w, 'w kube_client) ServerTool list" where
  "initPods doc env p =
     [core_tool doc ''pods_list'' ''Pods: List'' (Some True) (Some False) None
        [(''labelSelector'', ''string''), (''fieldSelector'', ''string'')] (podsListInAllNamespaces env) [],
      core_tool doc ''pods_list_in_namespace'' ''Pods: List in Namespace'' (Some True) (Some False) None
        [(''namespace'', ''string''), (''labelSelector'', ''string''), (''fieldSelector'', ''string'')] (podsListInNamespace env) [],
      core_tool doc ''pods_get'' ''Pods: Get'' (Some True) (Some False) None
        [(''namespace'', ''string''), (''name'', ''string'')] (podsGet env) [],
      core_tool doc ''pods_delete'' ''Pods: Delete'' None (Some True) (Some True)
        [(''namespace'', ''string''), (''name'', ''string'')] (podsDelete env) [],
      core_tool doc ''pods_top'' ''Pods: Top'' (Some True) (Some False) (Some True)
        [(''all_namespaces'', ''boolean''), (''namespace'', ''string''), (''name'', ''string''), (''label_selector'', ''string'')]
        (podsTop env) [HasPodMetrics p],
      core_tool doc ''pods_exec'' ''Pods: Exec'' None (Some True) None
        [(''namespace'', ''string''), (''name'', ''string''), (''command'', ''array''), (''container'', ''string'')] (podsExec env) [],
      core_tool doc ''pods_log'' ''Pods: Log'' (Some True) (Some False) None
        [(''namespace'', ''string''), (''name'', ''string''), (''container'', ''string''), (''tail'', ''integer''), (''previous'', ''boolean'')]
        (podsLog env) [],
      core_tool doc ''pods_run'' ''Pods: Run'' None (Some False) None
        [(''namespace'', ''string''), (''name'', ''string''), (''image'', ''string''), (''port'', ''number'')] (podsRun env) []]"

definition commonApiVersion :: "'w FilteringProvider \<Rightarrow> 'w \<Rightarrow> string" where
  "commonApiVersion p w =
     ''(common apiVersion and kind include: v1 Pod, v1 Service, v1 Node, apps/v1 Deployment, networking.k8s.io/v1 Ingress''
     @ (if \<not> fp_IsTargetCompatibilityToolFiltersEnabled p w
           \<or> fp_AnyTargetHasGVKs p [\<lparr>gvk_Group = ''route.openshift.io'', gvk_Version = ''v1'', gvk_Kind = ''Route''\<rparr>] w
        then '', route.openshift.io/v1 Route'' else []) @ '')''"

text \<open>The descriptions of all but the last tool end with examples of kinds.\<close>

definition initResources ::
  "(string \<Rightarrow> string \<Rightarrow> string) \<Rightarrow> 'w core_env \<Rightarrow> 'w FilteringProvider \<Rightarrow> 'w \<Rightarrow> ('w, 'w kube_client) ServerTool list" where
  "initResources doc env p w =
     (let docs = (\<lambda>name prop. doc name prop @ (if prop = [] then commonApiVersion p w else []));
          object = [(''apiVersion'', ''string''), (''kind'', ''string''), (''namespace'', ''string''), (''name'', ''string'')]
      in
     [core_tool docs ''resources_list'' ''Resources: List'' (Some True) (Some False) None
        [(''apiVersion'', ''string''), (''kind'', ''string''), (''namespace'', ''string''), (''labelSelector'', ''string''),
         (''fieldSelector'', ''string'')] (resourcesList env) [],
      core_tool docs ''resources_get'' ''Resources: Get'' (Some True) (Some False) None object (resourcesGet env) [],
      core_tool docs ''resources_create_or_update'' ''Resources: Create or Update'' None (Some True) (Some True)
        [(''resource'', ''string'')] (tool_resourcesCreateOrUpdate env) [],
      core_tool docs ''resources_delete'' ''Resources: Delete'' None (Some True) (Some True)
        (object @ [(''gracePeriodSeconds'', ''integer'')]) (resourcesDelete env) [],
      core_tool doc ''resources_scale'' ''Resources: Scale'' None (Some True) (Some True)
        (object @ [(''scale'', ''integer'')]) (resourcesScale env) []])"

definition core_GetTools ::
  "(string \<Rightarrow> string \<Rightarrow> string) \<Rightarrow> 'w core_env \<Rightarrow> 'w FilteringProvider \<Rightarrow> 'w \<Rightarrow> ('w, 'w kube_client) ServerTool list" where
  "core_GetTools doc env p w = initEvents doc env @ initNamespaces doc env p @ initNodes doc env p @ initPods doc env p
     @ initResources doc env p w"

section \<open>What tools may do\<close>

lemma keeps_run_op [keeps_intros]: "keeps P m \<Longrightarrow> keeps P (run_op prefix m f)"
  unfolding run_op_def by (intro keeps_intros)

lemma keeps_check_params [keeps_intros]: "keeps P m \<Longrightarrow> keeps P (check_params prefix p m)"
  unfolding check_params_def by (intro keeps_intros)

lemma keeps_fail_result [keeps_intros]: "(\<And>x. keeps P (f x)) \<Longrightarrow> keeps P (fail_result r f)"
  unfolding fail_result_def by (intro keeps_intros)

lemma keeps_object_args [keeps_intros]: "(\<And>gvk ns name. keeps P (f gvk ns name)) \<Longrightarrow> keeps P (object_args verb args f)"
  unfolding object_args_def by (intro keeps_intros)

lemma keeps_json [keeps_intros]:
  "keeps P a \<Longrightarrow> (\<And>x. keeps P (b x)) \<Longrightarrow> (\<And>x. keeps P (c x)) \<Longrightarrow> (\<And>x. keeps P (d x)) \<Longrightarrow> (\<And>x. keeps P (e x)) \<Longrightarrow> (\<And>x. keeps P (f x))
   \<Longrightarrow> keeps P (case j of JNull \<Rightarrow> a | JBool x \<Rightarrow> b x | JNum x \<Rightarrow> c x | JStr x \<Rightarrow> d x | JArr x \<Rightarrow> e x | JObj x \<Rightarrow> f x)"
  by (cases j) simp_all

lemma keeps_node_available: "keeps P (node_available n)"
  by (cases "no_Swap n"; cases "no_Allocatable n") (simp_all add: node_available_def keeps_intros)

lemma read_handlers_keep:
  assumes "reads_keep P (hp_KubernetesClient params)"
  shows "keeps P (podsListInAllNamespaces env params)" "keeps P (podsListInNamespace env params)"
    "keeps P (podsGet env params)" "keeps P (podsTop env params)" "keeps P (podsLog env params)"
    "keeps P (resourcesList env params)" "keeps P (resourcesGet env params)" "keeps P (eventsList env params)"
    "keeps P (namespacesList env params)" "keeps P (projectsList env params)" "keeps P (nodesLog env params)"
    "keeps P (nodesStatsSummary env params)" "keeps P (nodesTop env params)"
  unfolding podsListInAllNamespaces_def podsListInNamespace_def podsGet_def podsTop_def podsLog_def resourcesList_def
    resourcesGet_def eventsList_def namespacesList_def projectsList_def nodesLog_def nodesStatsSummary_def nodesTop_def
  using assms by (intro keeps_intros keeps_node_available read_ops_keep PodsList_keeps reads_keepD; simp)+

lemma core_tool_fields [simp]:
  "st_Handler (core_tool doc name title ro de idem props handler filters) = handler"
  "an_ReadOnlyHint (tl_Annotations (st_Tool (core_tool doc name title ro de idem props handler filters))) = ro"
  "an_DestructiveHint (tl_Annotations (st_Tool (core_tool doc name title ro de idem props handler filters))) = de"
  "tl_Name (st_Tool (core_tool doc name title ro de idem props handler filters)) = name"
  by (simp_all add: core_tool_def)

lemma read_only_tools_keep:
  assumes "t \<in> set (core_GetTools doc env p w0)" "an_ReadOnlyHint (tl_Annotations (st_Tool t)) = Some True"
    and "reads_keep P (hp_KubernetesClient params)"
  shows "keeps P (st_Handler t params)"
  using assms(1,2) read_handlers_keep [OF assms(3)]
  by (auto simp: core_GetTools_def initEvents_def initNamespaces_def initNodes_def initPods_def initResources_def Let_def)

lemma PodsRun_keeps:
  assumes "reads_keep P k" "keeps P rand" "\<And>g n name obj. keeps P (kc_Apply k g n name obj)"
  shows "keeps P (PodsRun convert rand k ns name img port)"
  unfolding PodsRun_def resourcesCreateOrUpdate_def
  using assms by (intro keeps_intros lookup_keeps apply_object_keeps)

lemma podsRun_keeps:
  assumes "reads_keep P (hp_KubernetesClient params)" "keeps P (co_Rand env)"
    and "\<And>g n name obj. keeps P (kc_Apply (hp_KubernetesClient params) g n name obj)"
  shows "keeps P (podsRun env params)"
  unfolding podsRun_def using assms by (intro keeps_intros PodsRun_keeps)

lemma nondestructive_tools_keep:
  assumes "t \<in> set (core_GetTools doc env p w0)" "an_DestructiveHint (tl_Annotations (st_Tool t)) \<noteq> Some True"
    and "reads_keep P (hp_KubernetesClient params)" "keeps P (co_Rand env)"
    and "\<And>g n name obj. keeps P (kc_Apply (hp_KubernetesClient params) g n name obj)"
  shows "keeps P (st_Handler t params)"
  using assms(1,2) read_handlers_keep [OF assms(3)] podsRun_keeps [OF assms(3-5)]
  by (auto simp: core_GetTools_def initEvents_def initNamespaces_def initNodes_def initPods_def initResources_def Let_def)

section \<open>Calls through the server\<close>

lemma CheckToolRules_keeps:
  assumes "\<And>ps w. P w \<Longrightarrow> P (snd (elicit ps w))" "P w"
  shows "P (snd (CheckToolRules rules elicit name hint w))"
proof -
  have "P (snd (CheckConfirmation elicit msg fb w))" for msg fb
    using assms(1) [OF assms(2), of "confirmation_params msg"]
    by (auto simp: CheckConfirmation_def split: prod.splits sum.splits)
  then show ?thesis using assms(2) by (simp add: CheckToolRules_def Let_def split: prod.split)
qed

text \<open>
  A call of a tool keeps what the elicitation, the provider and the handler, with every client
  the provider gives it, keep.
\<close>

lemma goSdkHandler_keeps:
  assumes elicit: "\<And>ps w. P w \<Longrightarrow> P (snd (sessionElicitor_Elicit (cx_Session ctx) ps w))"
    and derive: "\<And>target w r w'. pv_GetDerivedKubernetes pv ctx target w = (r, w') \<Longrightarrow> P w \<Longrightarrow> P w' \<and> (\<forall>k. r = Inr k \<longrightarrow> Q k)"
    and handler: "\<And>params. Q (hp_KubernetesClient params) \<Longrightarrow> keeps P (st_Handler t params)"
    and "P w"
  shows "P (snd (goSdkHandler unmarshal pv cfg t ctx request w))"
proof (cases "GoSdkToolCallRequestToToolCallRequest unmarshal request")
  case (Inl e)
  then show ?thesis using assms(4) by (simp add: goSdkHandler_def)
next
  case (Inr req)
  obtain name args where req: "req = (name, args)" by fastforce
  obtain c w1 where c: "CheckToolRules (rules_of cfg) (sessionElicitor_Elicit (cx_Session ctx)) (tl_Name (st_Tool t))
      (an_DestructiveHint (tl_Annotations (st_Tool t))) w = (c, w1)" by fastforce
  have w1: "P w1"
    using CheckToolRules_keeps [where P = P and elicit = "sessionElicitor_Elicit (cx_Session ctx)", OF elicit assms(4),
      of "rules_of cfg" "tl_Name (st_Tool t)" "an_DestructiveHint (tl_Annotations (st_Tool t))"] unfolding c by simp
  obtain r w2 where d: "pv_GetDerivedKubernetes pv ctx (GetString args (pv_TargetParameterName pv) (pv_DefaultTarget pv)) w1 = (r, w2)"
    by fastforce
  have w2: "P w2" "\<And>k. r = Inr k \<Longrightarrow> Q k" using derive [OF d w1] by auto
  have handled: "P (snd (st_Handler t params w2))" if "Q (hp_KubernetesClient params)" for params
    using keepsD [OF handler [OF that] w2(1)] .
  show ?thesis
  proof (cases r)
    case (Inl e)
    then show ?thesis using w1 w2(1) Inr
      by (cases c; cases e) (simp_all add: goSdkHandler_def req c d Let_def)
  next
    case k: (Inr k)
    let ?params = "\<lparr>hp_Context = ctx, hp_BaseConfig = cfg, hp_KubernetesClient = k, hp_Arguments = args,
        hp_ListOutput = output_FromString (c_ListOutput cfg)\<rparr>"
    have h: "P (snd (st_Handler t ?params w2))" using handled [of ?params] w2(2) [OF k] by simp
    show ?thesis using w1 h Inr k
      by (cases c; cases "st_Handler t ?params w2"; cases "fst (st_Handler t ?params w2)")
         (simp_all add: goSdkHandler_def req c d Let_def)
  qed
qed

text \<open>
  C5: a read-only server writes nothing. Take any tool of the core toolset that the server offers
  under \<open>read_only\<close>, and any call of it, whatever its arguments and the answers of the cluster.
  What the prompts, the provider and the reading calls of the clients it hands out leave as it
  is, the whole call leaves as it is: no apply, update, delete or exec is sent.
\<close>

theorem read_only_writes_nothing:
  assumes "t \<in> set (core_GetTools doc env fp w0)" "c_ReadOnly cfg" "isToolApplicable cfg w1 t"
    and "\<And>ps w. P w \<Longrightarrow> P (snd (sessionElicitor_Elicit (cx_Session ctx) ps w))"
    and "\<And>target w r w'. pv_GetDerivedKubernetes pv ctx target w = (r, w') \<Longrightarrow> P w \<Longrightarrow> P w' \<and> (\<forall>k. r = Inr k \<longrightarrow> reads_keep P k)"
    and "P w"
  shows "P (snd (goSdkHandler unmarshal pv cfg t ctx request w))"
proof -
  have hint: "an_ReadOnlyHint (tl_Annotations (st_Tool t)) = Some True"
    using assms(2,3) by (simp add: isToolApplicable_iff)
  show ?thesis
    by (rule goSdkHandler_keeps [where Q = "reads_keep P", OF assms(4,5) _ assms(6)])
       (auto intro: read_only_tools_keep [OF assms(1) hint])
qed

text \<open>
  C6: without destructive tools nothing is deleted, scaled or executed. With
  \<open>disable_destructive\<close>, a call of a tool the server offers may apply objects (\<open>pods_run\<close> does)
  but sends no delete, update or exec: it keeps whatever prompts, provider, random names, reading
  calls and apply keep.
\<close>

theorem disable_destructive_limits:
  assumes "t \<in> set (core_GetTools doc env fp w0)" "c_DisableDestructive cfg" "isToolApplicable cfg w1 t"
    and "\<And>ps w. P w \<Longrightarrow> P (snd (sessionElicitor_Elicit (cx_Session ctx) ps w))" "keeps P (co_Rand env)"
    and "\<And>target w r w'. pv_GetDerivedKubernetes pv ctx target w = (r, w') \<Longrightarrow> P w
      \<Longrightarrow> P w' \<and> (\<forall>k. r = Inr k \<longrightarrow> reads_keep P k \<and> (\<forall>g n name obj. keeps P (kc_Apply k g n name obj)))"
    and "P w"
  shows "P (snd (goSdkHandler unmarshal pv cfg t ctx request w))"
proof -
  have hint: "an_DestructiveHint (tl_Annotations (st_Tool t)) \<noteq> Some True"
    using assms(2,3) by (simp add: isToolApplicable_iff)
  show ?thesis
    by (rule goSdkHandler_keeps [where Q = "\<lambda>k. reads_keep P k \<and> (\<forall>g n name obj. keeps P (kc_Apply k g n name obj))",
          OF assms(4,6) _ assms(7)])
       (auto intro: nondestructive_tools_keep [OF assms(1) hint _ assms(5)])
qed

text \<open>A cluster that counts what is written to it, and calls of tools on it.\<close>

definition demo_core_env :: "nat core_env" where
  "demo_core_env = \<lparr>co_Out = \<lparr>oe_Marshal = (\<lambda>_. Inr ''yaml''), oe_PrintTable = (\<lambda>_ _. ([], None)), oe_DecodeRaw = (\<lambda>_. Inl []),
       oe_TableJson = (\<lambda>_. [])\<rparr>,
     co_Overflow = (\<lambda>_. 0), co_DecodeYaml = decode_service, co_Event = (\<lambda>_. Inl []), co_TimeString = (\<lambda>_. []),
     co_Convert = (\<lambda>obj. Inr [(''kind'', JStr ''Service'')]), co_Rand = retA ''x'', co_PrintPods = (\<lambda>_. Inr []), co_PrintNodes = (\<lambda>_ _. Inr [])\<rparr>"

definition demo_fp :: "nat FilteringProvider" where
  "demo_fp = \<lparr>fp_IsTargetCompatibilityToolFiltersEnabled = (\<lambda>_. False), fp_AnyTargetHasGVKs = (\<lambda>_ _. False)\<rparr>"

definition counting_provider :: "(json_object \<Rightarrow> nat) \<Rightarrow> (nat, nat kube_client) Provider" where
  "counting_provider cost = \<lparr>pv_TargetParameterName = ''context'', pv_DefaultTarget = [], pv_IsMultiTarget = False,
     pv_GetTargets = (\<lambda>w. (Inr [], w)), pv_GetDerivedKubernetes = (\<lambda>_ _ w. (Inr (counting_client cost), w))\<rparr>"

definition no_session :: "nat call_ctx" where
  "no_session = \<lparr>cx_Session = NoSession, cx_Authorization = None, cx_UserAgent = None\<rparr>"

lemma no_session_keeps: "P w \<Longrightarrow> P (snd (sessionElicitor_Elicit (cx_Session no_session) ps w))"
  by (simp add: sessionElicitor_Elicit_def no_session_def)

theorem read_only_writes_nothing_witness:
  "snd (goSdkHandler (\<lambda>_. Inr [(''resource'', JStr ''svc'')]) (counting_provider (\<lambda>_. 1)) (zeroConfig\<lparr>c_ReadOnly := True\<rparr>)
     (hd (core_GetTools (\<lambda>_ _. []) demo_core_env demo_fp 0)) no_session (CallToolParamsRaw ''events_list'' ''{}'') 0) = 0
   \<and> \<not> isToolApplicable (zeroConfig\<lparr>c_ReadOnly := True\<rparr>) 0 (core_GetTools (\<lambda>_ _. []) demo_core_env demo_fp 0 ! 9)"
proof -
  let ?tools = "core_GetTools (\<lambda>_ _. []) demo_core_env demo_fp 0"
  have tool: "hd ?tools \<in> set ?tools" by (simp add: core_GetTools_def initEvents_def)
  have ok: "isToolApplicable (zeroConfig\<lparr>c_ReadOnly := True\<rparr>) 0 (hd ?tools)"
    by (simp add: isToolApplicable_iff zeroConfig_def core_GetTools_def initEvents_def)
  have derive: "w' = 0 \<and> (\<forall>k. r = Inr k \<longrightarrow> reads_keep (\<lambda>w. w = 0) k)"
    if "pv_GetDerivedKubernetes (counting_provider (\<lambda>_. 1)) no_session target w = (r, w')" "w = 0" for target w r w'
    using that by (auto simp: counting_provider_def counting_reads)
  have "\<not> isToolApplicable (zeroConfig\<lparr>c_ReadOnly := True\<rparr>) 0 (?tools ! 9)"
    by (simp add: isToolApplicable_iff core_GetTools_def initEvents_def initNamespaces_def initNodes_def initPods_def)
  then show ?thesis
    using read_only_writes_nothing [where P = "\<lambda>w. w = 0" and ctx = no_session, OF tool _ ok no_session_keeps [where P = "\<lambda>w. w = 0"] derive refl] by simp
qed

theorem disable_destructive_limits_witness:
  "snd (goSdkHandler (\<lambda>_. Inr [(''image'', JStr ''nginx'')]) (counting_provider (\<lambda>_. 0)) (zeroConfig\<lparr>c_DisableDestructive := True\<rparr>)
     (core_GetTools (\<lambda>_ _. []) demo_core_env demo_fp 0 ! 13) no_session (CallToolParamsRaw ''pods_run'' ''{}'') 0) = 0
   \<and> tl_Name (st_Tool (core_GetTools (\<lambda>_ _. []) demo_core_env demo_fp 0 ! 13)) = ''pods_run''"
proof -
  let ?tools = "core_GetTools (\<lambda>_ _. []) demo_core_env demo_fp 0" and ?cfg = "zeroConfig\<lparr>c_DisableDestructive := True\<rparr>"
  have run: "?tools ! 13 = core_tool (\<lambda>_ _. []) ''pods_run'' ''Pods: Run'' None (Some False) None
        [(''namespace'', ''string''), (''name'', ''string''), (''image'', ''string''), (''port'', ''number'')] (podsRun demo_core_env) []"
    and len: "13 < length ?tools"
    by (simp_all add: core_GetTools_def initEvents_def initNamespaces_def initNodes_def initPods_def)
  have tool: "?tools ! 13 \<in> set ?tools" using len by (rule nth_mem)
  have ok: "isToolApplicable ?cfg 0 (?tools ! 13)"
    unfolding run by (simp add: isToolApplicable_iff zeroConfig_def core_tool_def)
  have derive: "w' = 0 \<and> (\<forall>k. r = Inr k \<longrightarrow> reads_keep (\<lambda>w. w = 0) k \<and> (\<forall>g n name obj. keeps (\<lambda>w. w = 0) (kc_Apply k g n name obj)))"
    if "pv_GetDerivedKubernetes (counting_provider (\<lambda>_. 0)) no_session target w = (r, w')" "w = 0" for target w r w'
    using that by (auto simp: counting_provider_def counting_reads) (simp add: counting_client_def keeps_def)
  have rand: "keeps (\<lambda>w. w = 0) (co_Rand demo_core_env)" by (simp add: demo_core_env_def keeps_ret)
  have cfg: "c_DisableDestructive ?cfg" by simp
  have "snd (goSdkHandler (\<lambda>_. Inr [(''image'', JStr ''nginx'')]) (counting_provider (\<lambda>_. 0)) ?cfg (?tools ! 13) no_session
      (CallToolParamsRaw ''pods_run'' ''{}'') 0) = 0"
    by (rule disable_destructive_limits [where P = "\<lambda>w. w = 0", OF tool cfg ok no_session_keeps [where P = "\<lambda>w. w = 0"] rand derive refl])
  then show ?thesis using run by simp
qed

section \<open>Arguments are checked before anything is done\<close>

lemma podsDelete_params:
  "podsDelete env params =
     check_params ''failed to delete pod: '' (snd (extract_all (co_Overflow env) [OptString ''namespace'' [], ReqString ''name'']
        (WrapParams (hp_Arguments params))))
       (case fst (extract_all (co_Overflow env) [OptString ''namespace'' [], ReqString ''name''] (WrapParams (hp_Arguments params))) of
          [StrArg ns, StrArg name] \<Rightarrow>
            run_op (''failed to delete pod '' @ name @ '' in namespace '' @ ns @ '': '')
              (PodsDelete (hp_KubernetesClient params) ns name) (\<lambda>ret. NewToolCallResult ret None))"
  by (simp add: podsDelete_def Let_def map_prod_def split: prod.split)

lemma podsRun_params:
  "podsRun env params =
     check_params ''failed to run pod: '' (snd (extract_all (co_Overflow env)
        [OptString ''namespace'' [], OptString ''name'' [], ReqString ''image'', OptInt ''port'' 0] (WrapParams (hp_Arguments params))))
       (case fst (extract_all (co_Overflow env)
          [OptString ''namespace'' [], OptString ''name'' [], ReqString ''image'', OptInt ''port'' 0] (WrapParams (hp_Arguments params))) of
          [StrArg ns, StrArg name, StrArg img, IntArg port] \<Rightarrow>
            run_op (''failed to run pod '' @ name @ '' in namespace '' @ ns @ '': '')
              (PodsRun (co_Convert env) (co_Rand env) (hp_KubernetesClient params) ns name img (int32 port))
              (print_applied env ''failed to run pod: ''))"
  by (simp add: podsRun_def Let_def map_prod_def split: prod.split)

lemma check_params_error:
  "check_params prefix (snd (extract_all oor es (WrapParams args))) m w =
     (case argument_errors args es of [] \<Rightarrow> m w | err # _ \<Rightarrow> (Inr (errorResult (prefix @ err)), w))"
  by (simp add: check_params_def extract_all_Err retA_def split: list.split)

lemma podsDelete_checks:
  "argument_errors (hp_Arguments params) [OptString ''namespace'' [], ReqString ''name''] = err # errs
   \<Longrightarrow> podsDelete env params w = (Inr (errorResult (''failed to delete pod: '' @ err)), w)"
  unfolding podsDelete_params check_params_error by simp

lemma podsRun_checks:
  "argument_errors (hp_Arguments params) [OptString ''namespace'' [], OptString ''name'' [], ReqString ''image'', OptInt ''port'' 0] = err # errs
   \<Longrightarrow> podsRun env params w = (Inr (errorResult (''failed to run pod: '' @ err)), w)"
  unfolding podsRun_params check_params_error by simp

section \<open>Ports\<close>

lemma int32_bounds: "- (2 ^ 31) \<le> int32 i" "int32 i < 2 ^ 31"
  by (simp_all add: int32_def)

lemma int32_id: "- (2 ^ 31) \<le> i \<Longrightarrow> i < 2 ^ 31 \<Longrightarrow> int32 i = i"
  by (simp add: int32_def)

text \<open>A port that does not fit wraps: \<open>pods_run\<close> with port 4294967376 exposes port 80.\<close>

lemma port_wraps: "int32 4294967376 = 80"
  by (simp add: int32_def)

text \<open>
  A named pod without a namespace: with the default of \<open>all_namespaces\<close> the metrics are asked for in
  the empty namespace, in which no pod has a name.
\<close>

lemma pods_top_name_needs_namespace:
  assumes "supportsGroupVersion k ''metrics.k8s.io/v1beta1'' w = (Inr True, w1)" "name \<noteq> []"
  shows "PodsTop k True [] name sel w
    = wrapA (''failed to get metrics for pod /'' @ name @ '': '') (bindA (kc_PodMetrics k [] name) (\<lambda>m. retA [m])) w1"
  using assms by (simp add: PodsTop_def bindA_def)

end
