(* ===== verification/Nested.thy ===== *)
theory Nested
  imports Core_Tools
begin

text \<open>
  The accessors of \<open>k8s.io/apimachinery/pkg/apis/meta/v1/unstructured\<close> for fields at a path
  (\<open>NestedString\<close>, \<open>NestedMap\<close>, \<open>NestedSlice\<close>, \<open>SetNestedField\<close>, \<open>GetLabels\<close>, \<open>GetAnnotations\<close>), and the type
  assertions on decoded values that the code makes with them.
\<close>

section \<open>Reading\<close>

text \<open>A field is found, missing, or the path runs into a value of another type.\<close>

datatype 'a nested = NFound 'a | NMissing | NError

fun nested_field :: "string list \<Rightarrow> json \<Rightarrow> json nested" where
  "nested_field [] v = NFound v"
| "nested_field (f # fs) v = (case v of
     JNull \<Rightarrow> NMissing
   | JObj m \<Rightarrow> (case map_of m f of None \<Rightarrow> NMissing | Some v' \<Rightarrow> nested_field fs v')
   | _ \<Rightarrow> NError)"

definition nested_as :: "(json \<Rightarrow> 'a option) \<Rightarrow> string list \<Rightarrow> json_object \<Rightarrow> 'a nested" where
  "nested_as conv path obj = (case nested_field path (JObj obj) of
     NFound v \<Rightarrow> (case conv v of Some x \<Rightarrow> NFound x | None \<Rightarrow> NError)
   | NMissing \<Rightarrow> NMissing
   | NError \<Rightarrow> NError)"

fun as_string :: "json \<Rightarrow> string option" where
  "as_string (JStr s) = Some s"
| "as_string _ = None"

fun as_object :: "json \<Rightarrow> json_object option" where
  "as_object (JObj m) = Some m"
| "as_object _ = None"

fun as_array :: "json \<Rightarrow> json list option" where
  "as_array (JArr xs) = Some xs"
| "as_array _ = None"

abbreviation NestedString :: "string list \<Rightarrow> json_object \<Rightarrow> string nested" where
  "NestedString \<equiv> nested_as as_string"

abbreviation NestedMap :: "string list \<Rightarrow> json_object \<Rightarrow> json_object nested" where
  "NestedMap \<equiv> nested_as as_object"

abbreviation NestedSlice :: "string list \<Rightarrow> json_object \<Rightarrow> json list nested" where
  "NestedSlice \<equiv> nested_as as_array"

text \<open>The value when the caller drops \<open>found\<close> and the error: the zero value then.\<close>

definition found_or :: "'a \<Rightarrow> 'a nested \<Rightarrow> 'a" where
  "found_or d r = (case r of NFound x \<Rightarrow> x | _ \<Rightarrow> d)"

text \<open>\<open>m[key].(string)\<close> and \<open>m[key].(map[string]any)\<close>, with the zero value for a failed assertion.\<close>

definition string_at :: "string \<Rightarrow> json_object \<Rightarrow> string" where
  "string_at key m = (case map_of m key of Some (JStr s) \<Rightarrow> s | _ \<Rightarrow> [])"

definition object_at :: "string \<Rightarrow> json_object \<Rightarrow> json_object option" where
  "object_at key m = (case map_of m key of Some (JObj o') \<Rightarrow> Some o' | _ \<Rightarrow> None)"

text \<open>\<open>NestedStringMap\<close>: no map unless all values are strings.\<close>

fun string_map :: "json_object \<Rightarrow> (string \<times> string) list option" where
  "string_map [] = Some []"
| "string_map ((k, v) # m) = (case v of JStr s \<Rightarrow> map_option ((#) (k, s)) (string_map m) | _ \<Rightarrow> None)"

abbreviation NestedStringMap :: "string list \<Rightarrow> json_object \<Rightarrow> (string \<times> string) list nested" where
  "NestedStringMap \<equiv> nested_as (\<lambda>v. Option.bind (as_object v) string_map)"

text \<open>\<open>GetLabels\<close> and \<open>GetAnnotations\<close>, for which a null value is the empty string.\<close>

definition null_strings :: "json_object \<Rightarrow> json_object" where
  "null_strings m = map (\<lambda>(k, v). (k, if v = JNull then JStr [] else v)) m"

definition obj_GetLabels :: "json_object \<Rightarrow> (string \<times> string) list option" where
  "obj_GetLabels obj = (case NestedMap [''metadata'', ''labels''] obj of NFound m \<Rightarrow> string_map (null_strings m) | _ \<Rightarrow> None)"

definition obj_GetAnnotations :: "json_object \<Rightarrow> (string \<times> string) list option" where
  "obj_GetAnnotations obj = (case NestedMap [''metadata'', ''annotations''] obj of NFound m \<Rightarrow> string_map (null_strings m) | _ \<Rightarrow> None)"

text \<open>Indexing a map of strings, which may be nil.\<close>

definition label_at :: "string \<Rightarrow> (string \<times> string) list option \<Rightarrow> string" where
  "label_at key m = (case m of None \<Rightarrow> [] | Some m \<Rightarrow> (case map_of m key of None \<Rightarrow> [] | Some s \<Rightarrow> s))"

section \<open>Writing\<close>

text \<open>\<open>SetNestedField\<close> for a field of \<open>spec\<close>.\<close>

definition set_spec_field :: "string \<Rightarrow> json \<Rightarrow> json_object \<Rightarrow> (string, json_object) result" where
  "set_spec_field field v obj =
     (case map_of obj ''spec'' of
        None \<Rightarrow> Inr (AList.update ''spec'' (JObj [(field, v)]) obj)
      | Some (JObj spec) \<Rightarrow> Inr (AList.update ''spec'' (JObj (AList.update field v spec)) obj)
      | Some _ \<Rightarrow> Inl ''value cannot be set because .spec is not a map[string]interface{}'')"

lemma set_spec_field_get:
  "set_spec_field field (JStr s) obj = Inr obj' \<Longrightarrow> NestedString [''spec'', field] obj' = NFound s"
  by (auto simp: set_spec_field_def nested_as_def update_conv' split: option.splits json.splits)

lemma set_spec_field_other:
  assumes "set_spec_field field v obj = Inr obj'"
  shows "key \<noteq> ''spec'' \<Longrightarrow> map_of obj' key = map_of obj key"
    "f \<noteq> field \<Longrightarrow> NestedString [''spec'', f] obj' = NestedString [''spec'', f] obj"
  using assms by (auto simp: set_spec_field_def nested_as_def update_conv' split: option.splits json.splits)

lemma set_spec_field_names:
  assumes "set_spec_field field v obj = Inr obj'"
  shows "obj_GetName obj' = obj_GetName obj" "obj_GetNamespace obj' = obj_GetNamespace obj"
  using set_spec_field_other(1) [OF assms, of "''metadata''"] by (simp_all add: obj_GetName_def obj_GetNamespace_def)

text \<open>\<open>SetNestedField\<close> for a field at a path, whose objects are created where they are missing.\<close>

fun set_nested :: "string \<Rightarrow> string list \<Rightarrow> string \<Rightarrow> json \<Rightarrow> json_object \<Rightarrow> (string, json_object) result" where
  "set_nested pre [] f v m = Inr (AList.update f v m)"
| "set_nested pre (g # gs) f v m =
     (let inside = (\<lambda>m1. case set_nested (pre @ ''.'' @ g) gs f v m1 of Inl e \<Rightarrow> Inl e | Inr m2 \<Rightarrow> Inr (AList.update g (JObj m2) m)) in
      case map_of m g of
        None \<Rightarrow> inside []
      | Some (JObj m1) \<Rightarrow> inside m1
      | Some _ \<Rightarrow> Inl (''value cannot be set because '' @ pre @ ''.'' @ g @ '' is not a map[string]interface{}''))"

lemma set_nested_get: "set_nested pre path f v obj = Inr obj' \<Longrightarrow> nested_field (path @ [f]) (JObj obj') = NFound v"
  by (induction pre path f v obj arbitrary: obj' rule: set_nested.induct)
     (auto simp: update_conv' split: option.splits json.splits sum.splits)

lemma set_nested_other:
  assumes "set_nested pre path f v obj = Inr obj'" "g \<noteq> f"
  shows "nested_field (path @ [g]) (JObj obj') = nested_field (path @ [g]) (JObj obj)"
  using assms
proof (induction pre path f v obj arbitrary: obj' rule: set_nested.induct)
  case (2 pre h gs f v m)
  from 2(2) obtain m1 m2 where m: "set_nested (pre @ ''.'' @ h) gs f v m1 = Inr m2" "obj' = AList.update h (JObj m2) m"
      "map_of m h = None \<and> m1 = [] \<or> map_of m h = Some (JObj m1)"
    by (auto split: option.splits json.splits sum.splits)
  have "nested_field (gs @ [g]) (JObj m2) = nested_field (gs @ [g]) (JObj m1)" by (rule 2(1) [OF m(1) 2(3)])
  moreover have "nested_field (gs @ [g]) (JObj []) = NMissing" by (cases gs) simp_all
  ultimately show ?case using m by (auto simp: update_conv')
qed (simp add: update_conv')

section \<open>Actions that read fields\<close>

lemma keeps_nested [keeps_intros]:
  "(\<And>x. keeps P (f x)) \<Longrightarrow> keeps P m \<Longrightarrow> keeps P m' \<Longrightarrow> keeps P (case r of NError \<Rightarrow> m | NMissing \<Rightarrow> m' | NFound x \<Rightarrow> f x)"
  by (cases r) simp_all

text \<open>Actions that always give a result.\<close>

lemma total_if: "total m \<Longrightarrow> total n \<Longrightarrow> total (if b then m else n)"
  by simp

lemma total_for: "(\<And>x. total (f x)) \<Longrightarrow> total (forA xs f)"
  by (induction xs) (simp_all add: total_ret total_bind)

lemma total_option: "total m \<Longrightarrow> (\<And>x. total (f x)) \<Longrightarrow> total (case o' of None \<Rightarrow> m | Some x \<Rightarrow> f x)"
  by (cases o') simp_all

lemma total_sum: "(\<And>x. total (f x)) \<Longrightarrow> (\<And>y. total (g y)) \<Longrightarrow> total (case s of Inl x \<Rightarrow> f x | Inr y \<Rightarrow> g y)"
  by (cases s) simp_all

lemma total_prod: "(\<And>x y. total (f x y)) \<Longrightarrow> total (case p of (x, y) \<Rightarrow> f x y)"
  by (cases p) simp

lemma total_let: "total (f x) \<Longrightarrow> total (let y = x in f y)"
  by simp

lemma total_nested:
  "(\<And>x. total (f x)) \<Longrightarrow> total m \<Longrightarrow> total m' \<Longrightarrow> total (case r of NError \<Rightarrow> m | NMissing \<Rightarrow> m' | NFound x \<Rightarrow> f x)"
  by (cases r) simp_all

lemmas total_intros = total_bind total_try total_ret total_if total_for total_option total_sum total_prod total_let total_nested

text \<open>An action that always gives a result, and only such as satisfy \<open>Q\<close>.\<close>

definition gives :: "('a \<Rightarrow> bool) \<Rightarrow> ('w, 'a) action \<Rightarrow> bool" where
  "gives Q m \<longleftrightarrow> (\<forall>w. \<exists>x. fst (m w) = Inr x \<and> Q x)"

lemma gives_bind: "total m \<Longrightarrow> (\<And>x. gives Q (f x)) \<Longrightarrow> gives Q (bindA m f)"
  unfolding gives_def
proof (intro allI)
  fix w assume a: "total m" "\<And>x. \<forall>w. \<exists>y. fst (f x w) = Inr y \<and> Q y"
  obtain x w1 where "m w = (Inr x, w1)" using a(1) unfolding total_def by (metis prod.collapse)
  then show "\<exists>y. fst (bindA m f w) = Inr y \<and> Q y" using a(2) by (simp add: bindA_Inr)
qed

lemma gives_prod: "(\<And>x y. gives Q (f x y)) \<Longrightarrow> gives Q (case p of (x, y) \<Rightarrow> f x y)"
  by (cases p) simp

lemma gives_ret: "Q x \<Longrightarrow> gives Q (retA x)"
  by (simp add: gives_def retA_def)

section \<open>A cluster in which there is nothing to read\<close>

definition idle_client :: "'w kube_client" where
  "idle_client =
     \<lparr>kc_RESTMapping = (\<lambda>gvk. retA \<lparr>gvr_Group = gvk_Group gvk, gvr_Version = gvk_Version gvk, gvr_Resource = gvk_Kind gvk\<rparr>),
      kc_ResetMapper = retA (), kc_ServerResources = (\<lambda>_. retA []), kc_Namespace = retA ''default'',
      kc_Auth = (\<lambda>_. retA True), kc_List = (\<lambda>_ _ _. retA []), kc_Table = (\<lambda>_ _. retA \<lparr>tb_Columns = [], tb_Rows = []\<rparr>),
      kc_Get = (\<lambda>_ _ _ _. failA ''not found''), kc_PodGet = (\<lambda>_ _. failA ''not found''), kc_PodLogs = (\<lambda>_ _ _. failA ''not found''),
      kc_ServiceList = (\<lambda>_ _. retA []), kc_RouteList = (\<lambda>_ _. retA []), kc_NodeGet = (\<lambda>_. failA ''not found''),
      kc_NodeList = (\<lambda>_. retA []), kc_NodeProxy = (\<lambda>_ _. failA ''not found''), kc_PodMetrics = (\<lambda>_ _. failA ''not found''),
      kc_PodMetricsList = (\<lambda>_ _. retA []), kc_NodeMetrics = (\<lambda>_. failA ''not found''), kc_NodeMetricsList = (\<lambda>_. retA []),
      kc_Apply = (\<lambda>_ _ _ obj. retA obj), kc_Update = (\<lambda>_ _ obj _. retA obj), kc_Delete = (\<lambda>_ _ _ _. retA ()),
      kc_ServiceDelete = (\<lambda>_ _. retA ()), kc_RouteDelete = (\<lambda>_ _. retA ()), kc_Exec = (\<lambda>_ _ _ _. retA ([], []))\<rparr>"

lemma idle_reads: "reads_keep P idle_client"
  by (simp add: reads_keep_def idle_client_def keeps_ret keeps_fail)

end
