(* ===== verification/Health_Check.thy ===== *)
theory Health_Check
  imports Nested Mcp_Server
begin

text \<open>
  The prompt that gathers the health of a cluster: \<open>src/pkg/toolsets/core/health_check.go\<close>. Lists of
  typed objects come from the clientset, a parameter; of each object the model has the fields the code
  reads. Counters of restarts are 32-bit integers, times are nanoseconds, none being the zero time.
\<close>

section \<open>Objects\<close>

record node_condition =
  hcc_Type :: string
  hcc_Status :: string
  hcc_Message :: string

record hc_node =
  hn_Name :: string
  hn_Conditions :: "node_condition list"

record container_status =
  hs_Ready :: bool
  hs_RestartCount :: "32 word"
  hs_Waiting :: "(string \<times> string) option"
  hs_Terminated :: "string option"

record hc_pod =
  kp_Namespace :: string
  kp_Name :: string
  kp_Phase :: string
  kp_ContainerStatuses :: "container_status list"

text \<open>A workload: its namespace and name, and the numbers of its status (and spec, for a stateful set).\<close>

record deployment =
  dy_Namespace :: string
  dy_Name :: string
  dy_ReadyReplicas :: int
  dy_Replicas :: int
  dy_UnavailableReplicas :: int

record stateful_set =
  ss_Namespace :: string
  ss_Name :: string
  ss_SpecReplicas :: "int option"
  ss_ReadyReplicas :: int

record daemon_set =
  da_Namespace :: string
  da_Name :: string
  da_NumberReady :: int
  da_DesiredNumberScheduled :: int
  da_NumberUnavailable :: int

record volume_claim =
  vcl_Namespace :: string
  vcl_Name :: string
  vcl_Phase :: string

record hc_event =
  he_Type :: string
  he_LastTimestamp :: "int option"
  he_EventTime :: "int option"
  he_Kind :: string
  he_Name :: string
  he_Reason :: string
  he_Count :: int
  he_Message :: string

record 'w health_client =
  hk_Client :: "'w kube_client"
  hk_NamespaceGet :: "string \<Rightarrow> ('w, unit) action"
  hk_Namespaces :: "('w, string list) action"
  hk_Nodes :: "('w, hc_node list) action"
  hk_Pods :: "string \<Rightarrow> ('w, hc_pod list) action"
  hk_Deployments :: "string \<Rightarrow> ('w, deployment list) action"
  hk_StatefulSets :: "string \<Rightarrow> ('w, stateful_set list) action"
  hk_DaemonSets :: "string \<Rightarrow> ('w, daemon_set list) action"
  hk_Claims :: "string \<Rightarrow> ('w, volume_claim list) action"
  hk_Events :: "string \<Rightarrow> ('w, hc_event list) action"
  hk_Now :: "'w \<Rightarrow> int"
  hk_RFC3339 :: "int \<Rightarrow> string"

type_synonym 'w health_params = "('w, 'w health_client) PromptHandlerParams"

text \<open>Reading the clock.\<close>

definition readA :: "('w \<Rightarrow> 'a) \<Rightarrow> ('w, 'a) action" where
  "readA g w = (Inr (g w), w)"

definition nl :: string where "nl = [CHR 0x0A]"

text \<open>An entry of a section: a head and its issues as a list, and a section of entries.\<close>

definition with_issues :: "string \<Rightarrow> string list \<Rightarrow> string" where
  "with_issues head iss = head @ nl @ ''  - '' @ Join (nl @ ''  - '') iss"

definition hc_section :: "string \<Rightarrow> string list \<Rightarrow> string \<Rightarrow> string" where
  "hc_section summary entries none = summary @ nl @ nl @ (if entries \<noteq> [] then Join (nl @ nl) entries else none)"

section \<open>Nodes and pods\<close>

definition node_step :: "string \<times> nat \<times> string list \<Rightarrow> node_condition \<Rightarrow> string \<times> nat \<times> string list" where
  "node_step s cond = (case s of (nodeStatus, healthy, iss) \<Rightarrow>
     if hcc_Type cond = ''Ready'' then
       (if hcc_Status cond = ''True'' then (''Ready'', healthy + 1, iss)
        else (''NotReady'', healthy, iss @ [''Not ready: '' @ hcc_Message cond]))
     else if hcc_Status cond = ''True'' then (nodeStatus, healthy, iss @ [hcc_Type cond @ '': '' @ hcc_Message cond])
     else s)"

definition node_state :: "hc_node \<Rightarrow> string \<times> nat \<times> string list" where
  "node_state node = foldl node_step (''Unknown'', 0, []) (hn_Conditions node)"

definition node_entry :: "hc_node \<Rightarrow> string list" where
  "node_entry node = (case node_state node of (nodeStatus, healthy, iss) \<Rightarrow>
     if iss \<noteq> [] then [with_issues (''- **'' @ hn_Name node @ ''** (Status: '' @ nodeStatus @ '')'') iss] else [])"

definition node_text :: "hc_node list \<Rightarrow> string" where
  "node_text nodes =
     (if nodes = [] then ''No nodes found''
      else hc_section (''**Total:** '' @ digits (length nodes) @ '' | **Healthy:** ''
             @ digits (sum_list (map (\<lambda>n. fst (snd (node_state n))) nodes)))
             (concat (map node_entry nodes)) ''*All nodes are healthy*'')"

definition gatherNodeDiagnostics :: "'w health_client \<Rightarrow> ('w, string) action" where
  "gatherNodeDiagnostics c = bindA (hk_Nodes c) (\<lambda>nodes. retA (node_text nodes))"

definition podHighRestartThreshold :: int where "podHighRestartThreshold = 5"

definition container_issue_list :: "container_status \<Rightarrow> string list" where
  "container_issue_list cs =
     (case hs_Waiting cs of None \<Rightarrow> []
      | Some (reason, message) \<Rightarrow>
          (if reason \<in> {''CrashLoopBackOff'', ''ImagePullBackOff'', ''ErrImagePull''}
           then [''Container waiting: '' @ reason @ '' - '' @ message] else []))
     @ (case hs_Terminated cs of None \<Rightarrow> []
        | Some reason \<Rightarrow> (if reason \<in> {''Error'', ''OOMKilled''} then [''Container terminated: '' @ reason] else []))"

definition pod_issues :: "hc_pod \<Rightarrow> string list" where
  "pod_issues pod =
     concat (map container_issue_list (kp_ContainerStatuses pod))
     @ (if kp_Phase pod \<noteq> ''Running'' \<and> kp_Phase pod \<noteq> ''Succeeded'' then [''Pod in '' @ kp_Phase pod @ '' phase''] else [])"

definition pod_restarts :: "hc_pod \<Rightarrow> 32 word" where
  "pod_restarts pod = sum_list (map hs_RestartCount (kp_ContainerStatuses pod))"

definition pod_entry :: "hc_pod \<Rightarrow> string list" where
  "pod_entry pod =
     (let iss = pod_issues pod; restarts = sint (pod_restarts pod) in
      if iss \<noteq> [] \<or> restarts > podHighRestartThreshold then
        [with_issues
           (''- **'' @ kp_Namespace pod @ ''/'' @ kp_Name pod @ ''** (Phase: '' @ kp_Phase pod
              @ '', Ready: '' @ digits (length (filter hs_Ready (kp_ContainerStatuses pod))) @ ''/'' @ digits (length (kp_ContainerStatuses pod))
              @ '', Restarts: '' @ int_text restarts @ '')'') iss]
      else [])"

definition pod_text :: "hc_pod list \<Rightarrow> string" where
  "pod_text pods =
     (if pods = [] then ''No pods found''
      else (let problemPods = concat (map pod_entry pods) in
            hc_section (''**Total:** '' @ digits (length pods) @ '' | **With Issues:** '' @ digits (length problemPods))
              problemPods ''*No pod issues detected*''))"

definition gatherPodDiagnostics :: "'w health_client \<Rightarrow> string \<Rightarrow> ('w, string) action" where
  "gatherPodDiagnostics c ns = bindA (hk_Pods c ns) (\<lambda>pods. retA (pod_text pods))"

section \<open>Workloads, claims and operators\<close>

definition workload_entry :: "string \<Rightarrow> string \<Rightarrow> string \<Rightarrow> string list \<Rightarrow> string list" where
  "workload_entry ns name ready iss =
     (if iss \<noteq> [] then [with_issues (''- **'' @ ns @ ''/'' @ name @ ''** (Ready: '' @ ready @ '')'') iss] else [])"

definition ratio :: "int \<Rightarrow> int \<Rightarrow> string" where
  "ratio a b = int_text a @ ''/'' @ int_text b"

definition deployment_entry :: "deployment \<Rightarrow> string list" where
  "deployment_entry d =
     workload_entry (dy_Namespace d) (dy_Name d) (ratio (dy_ReadyReplicas d) (dy_Replicas d))
       (if dy_UnavailableReplicas d > 0 then [int_text (dy_UnavailableReplicas d) @ '' replicas unavailable''] else [])"

definition stateful_set_entry :: "stateful_set \<Rightarrow> string list" where
  "stateful_set_entry s =
     (let specReplicas = (case ss_SpecReplicas s of None \<Rightarrow> 1 | Some n \<Rightarrow> n); ready = ratio (ss_ReadyReplicas s) specReplicas in
      workload_entry (ss_Namespace s) (ss_Name s) ready
        (if ss_ReadyReplicas s < specReplicas then [''Only '' @ ready @ '' replicas ready''] else []))"

definition daemon_set_entry :: "daemon_set \<Rightarrow> string list" where
  "daemon_set_entry d =
     workload_entry (da_Namespace d) (da_Name d) (ratio (da_NumberReady d) (da_DesiredNumberScheduled d))
       (if da_NumberUnavailable d > 0 then [int_text (da_NumberUnavailable d) @ '' pods unavailable''] else [])"

definition workload_text :: "string \<Rightarrow> ('a \<Rightarrow> string list) \<Rightarrow> 'a list \<Rightarrow> string" where
  "workload_text kind entry items =
     (if items = [] then ''No '' @ kind @ ''s found''
      else (let es = concat (map entry items) in
            hc_section (''**'' @ kind @ ''s with Issues:** '' @ digits (length es)) es (''*No '' @ kind @ '' issues detected*'')))"

definition gatherWorkloadDiagnostics :: "'w health_client \<Rightarrow> string \<Rightarrow> string \<Rightarrow> ('w, string) action" where
  "gatherWorkloadDiagnostics c kind ns =
     (if kind = ''Deployment'' then bindA (hk_Deployments c ns) (\<lambda>items. retA (workload_text kind deployment_entry items))
      else if kind = ''StatefulSet'' then bindA (hk_StatefulSets c ns) (\<lambda>items. retA (workload_text kind stateful_set_entry items))
      else if kind = ''DaemonSet'' then bindA (hk_DaemonSets c ns) (\<lambda>items. retA (workload_text kind daemon_set_entry items))
      else failA (''unsupported workload kind: '' @ kind))"

definition claim_entry :: "volume_claim \<Rightarrow> string list" where
  "claim_entry p =
     (if vcl_Phase p \<noteq> ''Bound'' then
        [with_issues (''- **'' @ vcl_Namespace p @ ''/'' @ vcl_Name p @ ''** (Status: '' @ vcl_Phase p @ '')'') [''PVC not bound'']] else [])"

definition gatherPVCDiagnostics :: "'w health_client \<Rightarrow> string \<Rightarrow> ('w, string) action" where
  "gatherPVCDiagnostics c ns = bindA (hk_Claims c ns) (\<lambda>items. retA (workload_text ''PVC'' claim_entry items))"

definition operator_step :: "string \<times> string \<times> string list \<Rightarrow> json \<Rightarrow> string \<times> string \<times> string list" where
  "operator_step s cond = (case s of (available, degraded, iss) \<Rightarrow>
     let m = (case as_object cond of None \<Rightarrow> [] | Some m \<Rightarrow> m);
         condType = string_at ''type'' m; condStatus = string_at ''status'' m; message = string_at ''message'' m
     in if condType = ''Available'' then
          (condStatus, degraded, if condStatus \<noteq> ''True'' then iss @ [''Not available: '' @ message] else iss)
        else if condType = ''Degraded'' then
          (available, condStatus, if condStatus = ''True'' then iss @ [''Degraded: '' @ message] else iss)
        else s)"

definition operator_conditions :: "json_object \<Rightarrow> json list" where
  "operator_conditions op = (case object_at ''status'' op of
     None \<Rightarrow> []
   | Some status \<Rightarrow> (case map_of status ''conditions'' of Some (JArr conditions) \<Rightarrow> conditions | _ \<Rightarrow> []))"

definition operator_entry :: "json_object \<Rightarrow> string list" where
  "operator_entry op =
     (let name = (case object_at ''metadata'' op of None \<Rightarrow> [] | Some m \<Rightarrow> string_at ''name'' m);
          (available, degraded, iss) = foldl operator_step (''Unknown'', ''Unknown'', []) (operator_conditions op)
      in if iss \<noteq> [] then
           [with_issues (''- **'' @ name @ ''** (Available: '' @ available @ '', Degraded: '' @ degraded @ '')'') iss]
         else [])"

definition cluster_operator_gvk :: GroupVersionKind where
  "cluster_operator_gvk = \<lparr>gvk_Group = ''config.openshift.io'', gvk_Version = ''v1'', gvk_Kind = ''ClusterOperator''\<rparr>"

definition gatherClusterOperatorDiagnostics :: "'w health_client \<Rightarrow> ('w, string) action" where
  "gatherClusterOperatorDiagnostics c =
     bindA (ResourcesList (hk_Client c) cluster_operator_gvk [] \<lparr>lo_LabelSelector = [], lo_FieldSelector = [], lo_AsTable = False\<rparr>) (\<lambda>l.
       retA (case l of
         UList items \<Rightarrow>
           (if items = [] then ''No cluster operators found''
            else (let es = concat (map operator_entry items) in
                  hc_section (''**Operators with Issues:** '' @ digits (length es)) es ''*All cluster operators are healthy*''))
       | _ \<Rightarrow> ''No cluster operators found''))"

section \<open>Events\<close>

definition hour :: int where "hour = 3600 * 1000000000"

text \<open>An event counts if it is a warning or an error and was seen in the last hour.\<close>

definition recent_event :: "int \<Rightarrow> hc_event \<Rightarrow> bool" where
  "recent_event now ev \<longleftrightarrow>
     (he_Type ev = ''Warning'' \<or> he_Type ev = ''Error'')
     \<and> (case (if he_LastTimestamp ev = None then he_EventTime ev else he_LastTimestamp ev) of
          None \<Rightarrow> False | Some t \<Rightarrow> \<not> t < now - hour)"

definition event_entry :: "string \<Rightarrow> hc_event \<Rightarrow> string" where
  "event_entry ns ev =
     with_issues (''- **'' @ he_Kind ev @ ''/'' @ he_Name ev @ ''** in `'' @ ns @ ''` ('' @ he_Reason ev @ '', Count: '' @ int_text (he_Count ev) @ '')'')
       [if length (he_Message ev) > 150 then take 150 (he_Message ev) @ ''...'' else he_Message ev]"

definition event_namespaces :: "'w health_client \<Rightarrow> string \<Rightarrow> ('w, string list) action" where
  "event_namespaces c ns =
     (if ns \<noteq> [] then retA [ns]
      else bindA (tryA (hk_Namespaces c)) (\<lambda>r. retA ([''default'', ''kube-system'']
             @ (case r of Inl _ \<Rightarrow> [] | Inr nss \<Rightarrow> filter (\<lambda>n. HasPrefix n ''openshift-'') nss))))"

definition recent_events :: "int \<Rightarrow> (string \<times> hc_event list) list \<Rightarrow> (string \<times> hc_event) list" where
  "recent_events now found = concat (map (\<lambda>(ns, evs). map (Pair ns) (filter (recent_event now) evs)) found)"

definition event_text :: "int \<Rightarrow> (string \<times> hc_event list) list \<Rightarrow> string" where
  "event_text now found =
     (let recent = recent_events now found in
      hc_section (''**Warnings:** '' @ digits (length (filter (\<lambda>(ns, ev). he_Type ev = ''Warning'') recent))
                  @ '' | **Errors:** '' @ digits (length (filter (\<lambda>(ns, ev). he_Type ev \<noteq> ''Warning'') recent)))
        (map (\<lambda>(ns, ev). event_entry ns ev) (take 20 recent)) ''*No recent warning/error events*'')"

definition gatherEventDiagnostics :: "'w health_client \<Rightarrow> string \<Rightarrow> ('w, string) action" where
  "gatherEventDiagnostics c ns =
     bindA (event_namespaces c ns) (\<lambda>nss.
     bindA (readA (hk_Now c)) (\<lambda>now.
       bindA (forA nss (\<lambda>n. bindA (tryA (hk_Events c n)) (\<lambda>r. retA (n, case r of Inl _ \<Rightarrow> [] | Inr evs \<Rightarrow> evs))))
         (\<lambda>found. retA (event_text now found))))"

section \<open>The prompt\<close>

record clusterDiagnostics =
  cd_Nodes :: string
  cd_Pods :: string
  cd_Deployments :: string
  cd_StatefulSets :: string
  cd_DaemonSets :: string
  cd_PVCs :: string
  cd_ClusterOperators :: string
  cd_Events :: string
  cd_CollectionTime :: int
  cd_TotalNamespaces :: nat
  cd_NamespaceScoped :: bool
  cd_TargetNamespace :: string
  cd_NamespaceWarning :: string

text \<open>A part that cannot be gathered stays empty.\<close>

definition gathered :: "('w, string) action \<Rightarrow> ('w, string) action" where
  "gathered m = bindA (tryA m) (\<lambda>r. retA (case r of Inl _ \<Rightarrow> [] | Inr txt \<Rightarrow> txt))"

definition gatherClusterDiagnostics :: "'w health_client \<Rightarrow> string \<Rightarrow> bool \<Rightarrow> ('w, clusterDiagnostics) action" where
  "gatherClusterDiagnostics c ns checkEvents =
      bindA (readA (hk_Now c)) (\<lambda>now.
      bindA (gathered (gatherNodeDiagnostics c)) (\<lambda>nodes.
      bindA (gathered (gatherPodDiagnostics c ns)) (\<lambda>pods.
      bindA (gathered (gatherWorkloadDiagnostics c ''Deployment'' ns)) (\<lambda>deployments.
      bindA (gathered (gatherWorkloadDiagnostics c ''StatefulSet'' ns)) (\<lambda>statefulSets.
      bindA (gathered (gatherWorkloadDiagnostics c ''DaemonSet'' ns)) (\<lambda>daemonSets.
      bindA (gathered (gatherPVCDiagnostics c ns)) (\<lambda>pvcs.
      bindA (gathered (gatherClusterOperatorDiagnostics c)) (\<lambda>operators.
      bindA (if checkEvents then gathered (gatherEventDiagnostics c ns) else retA []) (\<lambda>events.
      bindA (tryA (hk_Namespaces c)) (\<lambda>nss.
        retA \<lparr>cd_Nodes = nodes, cd_Pods = pods, cd_Deployments = deployments, cd_StatefulSets = statefulSets, cd_DaemonSets = daemonSets,
              cd_PVCs = pvcs, cd_ClusterOperators = operators, cd_Events = events, cd_CollectionTime = now,
              cd_TotalNamespaces = (case nss of Inl _ \<Rightarrow> 0 | Inr l \<Rightarrow> length l), cd_NamespaceScoped = (ns \<noteq> []),
              cd_TargetNamespace = ns, cd_NamespaceWarning = []\<rparr>))))))))))"

definition hc_part :: "string \<Rightarrow> string \<Rightarrow> string" where
  "hc_part title txt = (if txt \<noteq> [] then title @ nl @ nl @ txt @ nl @ nl else [])"

definition warning_sign :: string where
  "warning_sign = [CHR 0xE2, CHR 0x9A, CHR 0xA0, CHR 0xEF, CHR 0xB8, CHR 0x8F]"

definition formatHealthCheckPrompt :: "(int \<Rightarrow> string) \<Rightarrow> clusterDiagnostics \<Rightarrow> string" where
  "formatHealthCheckPrompt rfc3339 diag =
     ''# Cluster Health Check Diagnostic Data'' @ nl @ nl @ ''**Collection Time:** '' @ rfc3339 (cd_CollectionTime diag) @ nl
     @ (if cd_NamespaceWarning diag \<noteq> [] then
          nl @ warning_sign @ ''  **WARNING:** '' @ cd_NamespaceWarning diag @ nl @ nl
          @ ''**Note:** Please verify the namespace name and try again if you want namespace-specific diagnostics.'' @ nl
        else [])
     @ (if cd_NamespaceScoped diag then ''**Scope:** Namespace `'' @ cd_TargetNamespace diag @ ''`'' @ nl
        else ''**Scope:** All namespaces (Total: '' @ digits (cd_TotalNamespaces diag) @ '')'' @ nl) @ nl
     @ ''## Your Task'' @ nl @ nl @ ''Analyze the following cluster diagnostic data and provide:'' @ nl
     @ ''1. **Overall Health Status**: Healthy, Warning, or Critical'' @ nl
     @ ''2. **Critical Issues**: Issues requiring immediate attention'' @ nl
     @ ''3. **Warnings**: Non-critical issues that should be addressed'' @ nl
     @ ''4. **Recommendations**: Suggested actions to improve cluster health'' @ nl
     @ ''5. **Summary**: Brief overview of findings by component'' @ nl @ nl
     @ ''---'' @ nl @ nl
     @ hc_part ''## 1. Nodes'' (cd_Nodes diag)
     @ hc_part ''## 2. Cluster Operators (OpenShift)'' (cd_ClusterOperators diag)
     @ hc_part ''## 3. Pods'' (cd_Pods diag)
     @ (if cd_Deployments diag \<noteq> [] \<or> cd_StatefulSets diag \<noteq> [] \<or> cd_DaemonSets diag \<noteq> [] then
          ''## 4. Workload Controllers'' @ nl @ nl @ hc_part ''### Deployments'' (cd_Deployments diag)
          @ hc_part ''### StatefulSets'' (cd_StatefulSets diag) @ hc_part ''### DaemonSets'' (cd_DaemonSets diag)
        else [])
     @ hc_part ''## 5. Persistent Volume Claims'' (cd_PVCs diag)
     @ hc_part ''## 6. Recent Events (Last Hour)'' (cd_Events diag)
     @ ''---'' @ nl @ nl @ ''**Please analyze the above diagnostic data and provide your comprehensive health assessment.**'' @ nl"

text \<open>The namespace that is checked, and the warning when the requested one cannot be read.\<close>

definition check_scope :: "'w health_client \<Rightarrow> string \<Rightarrow> ('w, string \<times> string) action" where
  "check_scope c ns =
     (if ns = [] then retA (ns, [])
      else bindA (tryA (hk_NamespaceGet c ns)) (\<lambda>r. retA (case r of
        Inl _ \<Rightarrow> ([], ''Namespace '' @ [CHR 0x27] @ ns @ [CHR 0x27] @ '' not found or not accessible. Showing cluster-wide information instead.'')
      | Inr _ \<Rightarrow> (ns, []))))"

definition clusterHealthCheckHandler :: "('w, 'w health_client) PromptHandlerFunc" where
  "clusterHealthCheckHandler params =
     (let c = ph_KubernetesClient params;
          requested = (case ph_Arguments params ''namespace'' of None \<Rightarrow> [] | Some n \<Rightarrow> n);
          checkEvents = (ph_Arguments params ''check_events'' \<noteq> Some ''false'')
      in bindA (check_scope c requested) (\<lambda>(ns, warning).
         bindA (wrapA ''failed to gather cluster diagnostics: '' (gatherClusterDiagnostics c ns checkEvents)) (\<lambda>diag.
         let diag = diag\<lparr>cd_NamespaceWarning := warning\<rparr>;
             diag = (if requested \<noteq> [] \<and> warning \<noteq> [] then diag\<lparr>cd_TargetNamespace := requested, cd_NamespaceScoped := False\<rparr> else diag)
         in retA (NewPromptCallResult ''Cluster health diagnostic data gathered successfully''
              [\<lparr>pm_Role = ''user'', pm_Type = ''text'', pm_Text = formatHealthCheckPrompt (hk_RFC3339 c) diag\<rparr>,
               \<lparr>pm_Role = ''assistant'', pm_Type = ''text'',
                pm_Text = ''I'' @ [CHR 0x27] @ ''ll analyze the cluster health diagnostic data and provide a comprehensive assessment.''\<rparr>] None))))"

definition initHealthChecks :: "('w, 'w health_client) server_prompt list" where
  "initHealthChecks =
     [\<lparr>sp_Prompt = \<lparr>p_Name = ''cluster-health-check'', p_Title = ''Cluster Health Check'',
         p_Description = ''Perform comprehensive health assessment of Kubernetes/OpenShift cluster'',
         p_Arguments = [\<lparr>pa_Name = ''namespace'', pa_Description = ''Optional namespace to limit health check scope (default: all namespaces)'', pa_Required = False\<rparr>,
           \<lparr>pa_Name = ''check_events'', pa_Description = ''Include recent warning/error events (true/false, default: true)'', pa_Required = False\<rparr>],
         p_Templates = []\<rparr>,
       sp_Handler = clusterHealthCheckHandler, sp_ClusterAware = None\<rparr>]"

section \<open>What a check does\<close>

definition health_reads_keep :: "('w \<Rightarrow> bool) \<Rightarrow> 'w health_client \<Rightarrow> bool" where
  "health_reads_keep P c \<longleftrightarrow>
     reads_keep P (hk_Client c) \<and> (\<forall>ns. keeps P (hk_NamespaceGet c ns)) \<and> keeps P (hk_Namespaces c) \<and> keeps P (hk_Nodes c)
   \<and> (\<forall>ns. keeps P (hk_Pods c ns)) \<and> (\<forall>ns. keeps P (hk_Deployments c ns)) \<and> (\<forall>ns. keeps P (hk_StatefulSets c ns))
   \<and> (\<forall>ns. keeps P (hk_DaemonSets c ns)) \<and> (\<forall>ns. keeps P (hk_Claims c ns)) \<and> (\<forall>ns. keeps P (hk_Events c ns))"

lemma health_reads_keepD:
  assumes "health_reads_keep P c"
  shows "reads_keep P (hk_Client c)" "keeps P (hk_NamespaceGet c ns)" "keeps P (hk_Namespaces c)" "keeps P (hk_Nodes c)"
    "keeps P (hk_Pods c ns)" "keeps P (hk_Deployments c ns)" "keeps P (hk_StatefulSets c ns)" "keeps P (hk_DaemonSets c ns)"
    "keeps P (hk_Claims c ns)" "keeps P (hk_Events c ns)"
  using assms by (simp_all add: health_reads_keep_def)

lemma keeps_read [keeps_intros]: "keeps P (readA g)"
  by (simp add: keeps_def readA_def)

lemma total_read: "total (readA g)"
  by (simp add: total_def readA_def)

lemma gather_keeps:
  assumes "health_reads_keep P c"
  shows "keeps P (gatherClusterDiagnostics c ns ev)"
proof -
  note reads = health_reads_keepD [OF assms]
  have "keeps P (gatherNodeDiagnostics c)" "keeps P (gatherPodDiagnostics c ns)" "keeps P (gatherPVCDiagnostics c ns)"
    "\<And>kind. keeps P (gatherWorkloadDiagnostics c kind ns)"
    unfolding gatherNodeDiagnostics_def gatherPodDiagnostics_def gatherPVCDiagnostics_def gatherWorkloadDiagnostics_def
    by (intro keeps_intros reads)+
  moreover have "keeps P (gatherClusterOperatorDiagnostics c)"
    unfolding gatherClusterOperatorDiagnostics_def by (intro keeps_intros ResourcesList_keeps reads)
  moreover have "keeps P (event_namespaces c ns)" unfolding event_namespaces_def by (intro keeps_intros reads)
  then have "keeps P (gatherEventDiagnostics c ns)"
    unfolding gatherEventDiagnostics_def by (intro keeps_intros reads)
  ultimately show ?thesis
    unfolding gatherClusterDiagnostics_def gathered_def by (intro keeps_intros reads)
qed

lemma gather_total: "total (gatherClusterDiagnostics c ns ev)"
  unfolding gatherClusterDiagnostics_def gathered_def by (intro total_read total_intros)

lemma total_wrap: "total m \<Longrightarrow> total (wrapA msg m)"
  unfolding total_def wrapA_def by (metis (no_types, lifting) case_prod_beta fst_conv mapErr.simps(2))

lemma check_scope_total: "total (check_scope c ns)"
  unfolding check_scope_def by (intro total_intros)

text \<open>
  The health check reads, and always answers. Whatever the cluster answers, the prompt is given
  with the diagnostic data as its first message and without an error; parts that cannot be read are left out. The
  handler keeps whatever the reading calls keep.
\<close>

theorem health_check_answers:
  assumes "health_reads_keep P (ph_KubernetesClient params)" "P w"
  shows "P (snd (clusterHealthCheckHandler params w))
    \<and> (\<exists>res. fst (clusterHealthCheckHandler params w) = Inr res \<and> pr_Error res = None \<and> length (pr_Messages res) = 2
         \<and> HasPrefix (pm_Text (hd (pr_Messages res))) ''# Cluster Health Check Diagnostic Data'')"
proof
  have "keeps P (check_scope (ph_KubernetesClient params) ns)" for ns
    unfolding check_scope_def by (intro keeps_intros health_reads_keepD assms)
  then have "keeps P (clusterHealthCheckHandler params)"
    unfolding clusterHealthCheckHandler_def Let_def by (intro keeps_intros gather_keeps assms)
  then show "P (snd (clusterHealthCheckHandler params w))" using assms(2) by (rule keepsD)
  have "gives (\<lambda>res. pr_Error res = None \<and> length (pr_Messages res) = 2
         \<and> HasPrefix (pm_Text (hd (pr_Messages res))) ''# Cluster Health Check Diagnostic Data'') (clusterHealthCheckHandler params)"
    unfolding clusterHealthCheckHandler_def Let_def
    by (intro gives_bind gives_prod gives_ret check_scope_total total_wrap gather_total)
      (simp add: NewPromptCallResult_def formatHealthCheckPrompt_def)
  then show "\<exists>res. fst (clusterHealthCheckHandler params w) = Inr res \<and> pr_Error res = None \<and> length (pr_Messages res) = 2
         \<and> HasPrefix (pm_Text (hd (pr_Messages res))) ''# Cluster Health Check Diagnostic Data''"
    unfolding gives_def by blast
qed

section \<open>The scope of a check\<close>

text \<open>Two clusters that differ at most in what other namespaces hold.\<close>

definition same_in :: "string \<Rightarrow> 'w health_client \<Rightarrow> 'w health_client \<Rightarrow> bool" where
  "same_in ns c c' \<longleftrightarrow>
     hk_Client c' = hk_Client c \<and> hk_NamespaceGet c' = hk_NamespaceGet c \<and> hk_Namespaces c' = hk_Namespaces c \<and> hk_Nodes c' = hk_Nodes c
   \<and> hk_Now c' = hk_Now c \<and> hk_RFC3339 c' = hk_RFC3339 c
   \<and> hk_Pods c' ns = hk_Pods c ns \<and> hk_Deployments c' ns = hk_Deployments c ns \<and> hk_StatefulSets c' ns = hk_StatefulSets c ns
   \<and> hk_DaemonSets c' ns = hk_DaemonSets c ns \<and> hk_Claims c' ns = hk_Claims c ns \<and> hk_Events c' ns = hk_Events c ns"

lemma gather_same:
  assumes "same_in ns c c'" "ns \<noteq> []"
  shows "gatherClusterDiagnostics c' ns ev = gatherClusterDiagnostics c ns ev"
proof -
  note same = assms(1) [unfolded same_in_def]
  have "gatherNodeDiagnostics c' = gatherNodeDiagnostics c" "gatherPodDiagnostics c' ns = gatherPodDiagnostics c ns"
    "gatherPVCDiagnostics c' ns = gatherPVCDiagnostics c ns" "gatherClusterOperatorDiagnostics c' = gatherClusterOperatorDiagnostics c"
    unfolding gatherNodeDiagnostics_def gatherPodDiagnostics_def gatherPVCDiagnostics_def gatherClusterOperatorDiagnostics_def
    by (simp_all add: same)
  moreover have "gatherWorkloadDiagnostics c' kind ns = gatherWorkloadDiagnostics c kind ns" for kind
    unfolding gatherWorkloadDiagnostics_def by (simp add: same)
  moreover have "gatherEventDiagnostics c' ns = gatherEventDiagnostics c ns"
    unfolding gatherEventDiagnostics_def event_namespaces_def using assms(2) by (simp add: same)
  ultimately show ?thesis unfolding gatherClusterDiagnostics_def by (simp add: same)
qed

text \<open>
  A health check of a namespace that exists shows nothing of other namespaces: clusters that
  differ only in the pods, workloads, claims and events of other namespaces get the same answer.
\<close>

theorem health_check_scoped:
  assumes "ph_Arguments params ''namespace'' = Some ns" "ns \<noteq> []"
    and "hk_NamespaceGet (ph_KubernetesClient params) ns w = (Inr (), w1)"
    and "same_in ns (ph_KubernetesClient params) c'"
  shows "clusterHealthCheckHandler (params\<lparr>ph_KubernetesClient := c'\<rparr>) w = clusterHealthCheckHandler params w"
proof -
  have "check_scope (ph_KubernetesClient params) ns w = (Inr (ns, []), w1)"
    using assms(2,3) by (simp add: check_scope_def bindA_def tryA_def retA_def)
  moreover have "check_scope c' = check_scope (ph_KubernetesClient params)"
    using assms(4) unfolding same_in_def by (intro ext) (simp only: check_scope_def)
  moreover have "hk_RFC3339 c' = hk_RFC3339 (ph_KubernetesClient params)" using assms(4) by (simp add: same_in_def)
  ultimately show ?thesis
    using gather_same [OF assms(4,2)] assms(1) by (simp add: clusterHealthCheckHandler_def Let_def bindA_Inr)
qed

text \<open>A cluster with two namespaces, and one in which only the pods of the other namespace differ.\<close>

definition quiet_cluster :: "nat health_client" where
  "quiet_cluster =
     \<lparr>hk_Client = counting_client (\<lambda>_. 1), hk_NamespaceGet = (\<lambda>ns. if ns = ''a'' then retA () else failA ''forbidden''), hk_Namespaces = retA [''a'', ''b''],
      hk_Nodes = retA [], hk_Pods = (\<lambda>_. retA []), hk_Deployments = (\<lambda>_. retA []), hk_StatefulSets = (\<lambda>_. retA []), hk_DaemonSets = (\<lambda>_. retA []),
      hk_Claims = (\<lambda>_. retA []), hk_Events = (\<lambda>_. failA ''forbidden''), hk_Now = (\<lambda>_. 0), hk_RFC3339 = (\<lambda>_. [])\<rparr>"

definition quiet_params :: "nat health_params" where
  "quiet_params =
     \<lparr>ph_Context = no_session, ph_BaseConfig = zeroConfig, ph_KubernetesClient = quiet_cluster, ph_Arguments = [''namespace'' \<mapsto> ''a'']\<rparr>"

definition failing_pod :: hc_pod where
  "failing_pod = \<lparr>kp_Namespace = ''b'', kp_Name = ''p'', kp_Phase = ''Failed'', kp_ContainerStatuses = []\<rparr>"

theorem health_check_scoped_witness:
  "clusterHealthCheckHandler (quiet_params\<lparr>ph_KubernetesClient := quiet_cluster\<lparr>hk_Pods := (\<lambda>ns. if ns = ''b'' then retA [failing_pod] else retA [])\<rparr>\<rparr>) 0
   = clusterHealthCheckHandler quiet_params 0
   \<and> pod_entry failing_pod \<noteq> []"
proof
  show "clusterHealthCheckHandler (quiet_params\<lparr>ph_KubernetesClient := quiet_cluster\<lparr>hk_Pods := (\<lambda>ns. if ns = ''b'' then retA [failing_pod] else retA [])\<rparr>\<rparr>) 0
    = clusterHealthCheckHandler quiet_params 0"
    by (rule health_check_scoped [where ns = "''a''" and ?w1.0 = 0]) (simp_all add: quiet_params_def quiet_cluster_def same_in_def retA_def)
  show "pod_entry failing_pod \<noteq> []" by (simp add: pod_entry_def pod_issues_def failing_pod_def)
qed

theorem health_check_answers_witness:
  "\<exists>res. clusterHealthCheckHandler quiet_params 0 = (Inr res, 0)"
proof -
  have "health_reads_keep (\<lambda>w. w = 0) quiet_cluster"
    using counting_reads by (simp add: health_reads_keep_def quiet_cluster_def keeps_ret keeps_fail)
  then show ?thesis
    using health_check_answers [where P = "\<lambda>w. w = 0" and params = quiet_params and w = 0] by (auto simp: quiet_params_def prod_eq_iff)
qed

section \<open>Verdicts\<close>

text \<open>
  A node whose kubelet has not reported has no condition \<open>Ready\<close>. It is not counted as healthy and not
  listed either, so the section says that all nodes are healthy.
\<close>

lemma silent_node_healthy:
  "node_text [\<lparr>hn_Name = ''n'', hn_Conditions = []\<rparr>] = ''**Total:** 1 | **Healthy:** 0'' @ nl @ nl @ ''*All nodes are healthy*''"
  by (simp add: node_text_def node_entry_def node_state_def hc_section_def digits.simps)

text \<open>
  The events that are shown are the first twenty in the order of the lists, not the most recent: twenty
  events of one namespace hide those of all later ones.
\<close>

lemma shown_events_first:
  "length (filter (recent_event now) evs) \<ge> 20 \<Longrightarrow>
   take 20 (recent_events now ((ns, evs) # rest)) = map (Pair ns) (take 20 (filter (recent_event now) evs))"
  by (simp add: recent_events_def take_map)

text \<open>Restarts are added at 32 bits: a sum above the largest such integer is negative and below the threshold.\<close>

lemma restarts_wrap:
  "pod_entry (failing_pod\<lparr>kp_Phase := ''Running'', kp_ContainerStatuses :=
     replicate 2 \<lparr>hs_Ready = True, hs_RestartCount = 0x7FFFFFFF, hs_Waiting = None, hs_Terminated = None\<rparr>\<rparr>) = []"
  by (simp add: pod_entry_def pod_issues_def container_issue_list_def pod_restarts_def failing_pod_def podHighRestartThreshold_def numeral_2_eq_2)

end
