(* ===== verification/Node_Debug.thy ===== *)
theory Node_Debug
  imports Core_Tools Token_Exchange Filepath
begin

text \<open>
  Commands on nodes: \<open>src/pkg/cluster-diagnostics/nodesdebug/nodes_debug.go\<close> creates a privileged pod
  on a node, waits until it runs, executes a command in it and deletes it;
  \<open>src/pkg/toolsets/cluster-diagnostics/\<close> offers this as the tool \<open>nodes_debug_exec\<close>.
\<close>

section \<open>Runes\<close>

text \<open>
  \<open>utf8.DecodeRuneInString\<close>: the first rune of a string and its number of bytes. An invalid
  encoding gives \<open>RuneError\<close> and one byte.
\<close>

definition RuneError :: nat where "RuneError = 0xFFFD"

definition byte_in :: "nat \<Rightarrow> nat \<Rightarrow> char \<Rightarrow> bool" where
  "byte_in lo hi c \<longleftrightarrow> lo \<le> (of_char c :: nat) \<and> (of_char c :: nat) \<le> hi"

definition low6 :: "char \<Rightarrow> nat" where "low6 c = of_char c mod 64"

text \<open>The bounds of the second byte, by the first one.\<close>

definition second_ok :: "char \<Rightarrow> char \<Rightarrow> bool" where
  "second_ok b0 b1 =
     (if of_char b0 = (0xE0::nat) then byte_in 0xA0 0xBF b1
      else if of_char b0 = (0xED::nat) then byte_in 0x80 0x9F b1
      else if of_char b0 = (0xF0::nat) then byte_in 0x90 0xBF b1
      else if of_char b0 = (0xF4::nat) then byte_in 0x80 0x8F b1
      else byte_in 0x80 0xBF b1)"

fun DecodeRuneInString :: "string \<Rightarrow> nat \<times> nat" where
  "DecodeRuneInString [] = (RuneError, 0)"
| "DecodeRuneInString (b0 # s) =
     (if byte_in 0 0x7F b0 then (of_char b0, 1)
      else if byte_in 0xC2 0xDF b0 then
        (case s of b1 # _ \<Rightarrow> (if second_ok b0 b1 then (of_char b0 mod 32 * 64 + low6 b1, 2) else (RuneError, 1))
         | _ \<Rightarrow> (RuneError, 1))
      else if byte_in 0xE0 0xEF b0 then
        (case s of b1 # b2 # _ \<Rightarrow>
             (if second_ok b0 b1 \<and> byte_in 0x80 0xBF b2 then (of_char b0 mod 16 * 4096 + low6 b1 * 64 + low6 b2, 3)
              else (RuneError, 1))
         | _ \<Rightarrow> (RuneError, 1))
      else if byte_in 0xF0 0xF4 b0 then
        (case s of b1 # b2 # b3 # _ \<Rightarrow>
             (if second_ok b0 b1 \<and> byte_in 0x80 0xBF b2 \<and> byte_in 0x80 0xBF b3
              then (of_char b0 mod 8 * 262144 + low6 b1 * 4096 + low6 b2 * 64 + low6 b3, 4) else (RuneError, 1))
         | _ \<Rightarrow> (RuneError, 1))
      else (RuneError, 1))"

text \<open>The runes a \<open>range\<close> loop over a string visits.\<close>

lemma rune_size: "s \<noteq> [] \<Longrightarrow> 0 < snd (DecodeRuneInString s)"
  by (cases s) (auto split: list.splits)

lemma rune_shorter: "s \<noteq> [] \<Longrightarrow> (r, n) = DecodeRuneInString s \<Longrightarrow> length s - n < length s"
  using rune_size by (metis diff_less length_greater_0_conv snd_conv)

function runes :: "string \<Rightarrow> nat list" where
  "runes s = (if s = [] then [] else (case DecodeRuneInString s of (r, n) \<Rightarrow> r # runes (drop n s)))"
  by pat_completeness auto
termination
  by (relation "measure length") (auto dest: rune_shorter simp del: DecodeRuneInString.simps)

declare runes.simps [simp del]

lemma runes_ascii: "list_all (byte_in 0 0x7F) s \<Longrightarrow> runes s = map of_char s"
proof (induction s)
  case (Cons b s)
  then show ?case by (subst runes.simps) simp
qed (simp add: runes.simps)

text \<open>
  \<open>unicode.ToLower\<close> on runes, as far as the result is an ASCII character: besides the capital
  letters these are the capital I with a dot and the Kelvin sign. Every other rune stays outside ASCII.
\<close>

definition lower_rune :: "nat \<Rightarrow> nat" where
  "lower_rune r =
     (if 65 \<le> r \<and> r \<le> 90 then r + 32 else if r = 0x130 then 105 else if r = 0x212A then 107 else r)"

definition hex_upper :: "nat \<Rightarrow> char" where
  "hex_upper n = ''0123456789ABCDEF'' ! (n mod 16)"

fun hex_digits :: "nat \<Rightarrow> string" where
  "hex_digits n = (if n < 16 then [hex_upper n] else hex_digits (n div 16) @ [hex_upper n])"

declare hex_digits.simps [simp del]

definition pad_zero :: "nat \<Rightarrow> string \<Rightarrow> string" where
  "pad_zero n s = replicate (n - length s) (CHR ''0'') @ s"

section \<open>Paths and names\<close>

definition DefaultNodeDebugImage :: string where
  "DefaultNodeDebugImage = ''registry.access.redhat.com/ubi9/toolbox:latest''"
definition NodeDebugContainerName :: string where "NodeDebugContainerName = ''debug''"
definition DefaultNodeDebugTimeout :: int where "DefaultNodeDebugTimeout = 60 * 1000000000"

definition name_char :: "char \<Rightarrow> bool" where
  "name_char c \<longleftrightarrow> c \<in> set ''abcdefghijklmnopqrstuvwxyz0123456789-''"

definition path_char :: "char \<Rightarrow> bool" where
  "path_char c \<longleftrightarrow> c \<in> set ''abcdefghijklmnopqrstuvwxyzABCDEFGHIJKLMNOPQRSTUVWXYZ0123456789/_.~-''"

text \<open>Where the first character is that \<open>pathUnsafeChar\<close> matches.\<close>

fun unsafe_index :: "string \<Rightarrow> nat option" where
  "unsafe_index [] = None"
| "unsafe_index (c # s) = (if path_char c then map_option Suc (unsafe_index s) else Some 0)"

definition validatePath :: "string \<Rightarrow> string \<Rightarrow> string option" where
  "validatePath path pathType =
     (if path = [] then None
      else if \<not> IsAbs path then Some (pathType @ '' must be an absolute path (start with /), got: '' @ path)
      else if ''..'' \<in> set (Split (CHR ''/'') path) then
        Some (pathType @ '' contains path traversal element '' @ [CHR 0x27] @ ''..'' @ [CHR 0x27] @ '': '' @ path)
      else (case unsafe_index path of
              None \<Rightarrow> None
            | Some i \<Rightarrow>
                (case DecodeRuneInString (drop i path) of (r, width) \<Rightarrow>
                   if r = RuneError \<and> width \<le> 1 then
                     Some (pathType @ '' contains invalid/unsafe byte at position '' @ digits i @ '': 0x''
                       @ pad_zero 2 (hex_digits (of_char (path ! i))))
                   else
                     Some (pathType @ '' contains unsafe character at position '' @ digits i @ '': '' @ take width (drop i path)
                       @ '' (U+'' @ pad_zero 4 (hex_digits r) @ '')''))))"

definition sanitizeForName :: "string \<Rightarrow> string" where
  "sanitizeForName name =
     (let b = map (\<lambda>r. if r < 128 \<and> name_char (char_of r) then char_of r else CHR ''-'') (map lower_rune (runes name));
          sanitized = Trim (CHR ''-'') b;
          sanitized = (if sanitized = [] then ''node'' else sanitized)
      in if length sanitized > 40 then take 40 sanitized else sanitized)"

text \<open>\<open>strings.TrimRight\<close> with a one-byte cutset.\<close>

definition TrimRight :: "char \<Rightarrow> string \<Rightarrow> string" where
  "TrimRight c s = rev (dropWhile (\<lambda>x. x = c) (rev s))"

section \<open>The debug pod\<close>

record debug_pod =
  dp_Name :: string
  dp_Namespace :: string
  dp_Labels :: "(string \<times> string) list"
  dp_AutomountServiceAccountToken :: bool
  dp_HostNetwork :: bool
  dp_HostPID :: bool
  dp_HostIPC :: bool
  dp_NodeName :: string
  dp_RestartPolicy :: string
  dp_RunAsUser :: int
  dp_TolerateAll :: bool
  dp_HostPath :: string
  dp_ContainerName :: string
  dp_Image :: string
  dp_ImagePullPolicy :: string
  dp_Command :: "string list"
  dp_Privileged :: bool
  dp_MountPath :: string

text \<open>
  Contexts: that of the caller, one with a timeout derived from it, and a fresh one with a timeout
  (nanoseconds).
\<close>

datatype debug_ctx = CallerCtx | TimedCtx int | BackgroundCtx int

text \<open>
  The client a node is debugged with. Every call runs under a context, so the clients of the cluster
  depend on it; the pods of a namespace are created (giving the name of the created pod), read (phase
  and message) and deleted. Not found errors are told apart by the API machinery, whose polling
  gives the number of intervals that pass before a context is done. The last two fields
  are whether the context of the caller has a deadline, and the random suffix of names.
\<close>

record 'w node_debug_client =
  nd_Client :: "debug_ctx \<Rightarrow> 'w kube_client"
  nd_PodCreate :: "debug_ctx \<Rightarrow> string \<Rightarrow> debug_pod \<Rightarrow> ('w, string) action"
  nd_PodStatus :: "debug_ctx \<Rightarrow> string \<Rightarrow> string \<Rightarrow> ('w, string \<times> string) action"
  nd_PodDelete :: "debug_ctx \<Rightarrow> string \<Rightarrow> string \<Rightarrow> ('w, unit) action"
  nd_IsNotFound :: "string \<Rightarrow> bool"
  nd_Intervals :: "debug_ctx \<Rightarrow> 'w \<Rightarrow> nat"
  nd_CtxErr :: "debug_ctx \<Rightarrow> string"
  nd_HasDeadline :: bool
  nd_Rand :: "('w, string) action"

definition node_gvk :: GroupVersionKind where
  "node_gvk = \<lparr>gvk_Group = [], gvk_Version = ''v1'', gvk_Kind = ''Node''\<rparr>"

definition DoesNodeExist :: "'w node_debug_client \<Rightarrow> debug_ctx \<Rightarrow> string \<Rightarrow> ('w, bool) action" where
  "DoesNodeExist c ctx name =
     bindA (tryA (ResourcesGet (nd_Client c ctx) node_gvk [] name)) (\<lambda>r. case r of
       Inr _ \<Rightarrow> retA True
     | Inl err \<Rightarrow> (if nd_IsNotFound c err then retA False else failA (''failed to check if node '' @ name @ '' exists: '' @ err)))"

definition debug_pod_node :: "string \<Rightarrow> string \<Rightarrow> string" where
  "debug_pod_node nodeName suffix =
     (let sanitizedNode = sanitizeForName nodeName;
          maxNodeLen = 63 - int (length ''node-debug-'') - 1 - int (length suffix);
          maxNodeLen = (if maxNodeLen < 1 then 1 else maxNodeLen)
      in if int (length sanitizedNode) > maxNodeLen then TrimRight (CHR ''-'') (take (nat maxNodeLen) sanitizedNode) else sanitizedNode)"

definition debug_pod_of :: "string \<Rightarrow> string \<Rightarrow> string \<Rightarrow> string \<Rightarrow> string \<Rightarrow> string \<Rightarrow> debug_pod" where
  "debug_pod_of nodeName suffix ns img hostPath mountPath =
     (let sanitizedNode = debug_pod_node nodeName suffix in
      \<lparr>dp_Name = ''node-debug-'' @ sanitizedNode @ ''-'' @ suffix, dp_Namespace = ns,
       dp_Labels = [(AppKubernetesManagedBy, BinaryName), (AppKubernetesComponent, ''node-debug''),
                    (AppKubernetesName, ''node-debug-'' @ sanitizedNode)],
       dp_AutomountServiceAccountToken = False, dp_HostNetwork = True, dp_HostPID = True, dp_HostIPC = True,
       dp_NodeName = nodeName, dp_RestartPolicy = ''Never'', dp_RunAsUser = 0, dp_TolerateAll = True,
       dp_HostPath = (if hostPath = [] then ''/'' else hostPath), dp_ContainerName = NodeDebugContainerName, dp_Image = img,
       dp_ImagePullPolicy = ''IfNotPresent'', dp_Command = [''sleep'', ''infinity''], dp_Privileged = True,
       dp_MountPath = (if mountPath = [] then ''/host'' else mountPath)\<rparr>)"

definition createDebugPod ::
  "'w node_debug_client \<Rightarrow> debug_ctx \<Rightarrow> string \<Rightarrow> string \<Rightarrow> string \<Rightarrow> string \<Rightarrow> string \<Rightarrow> ('w, string) action" where
  "createDebugPod c ctx nodeName ns img hostPath mountPath =
     bindA (nd_Rand c) (\<lambda>suffix.
       wrapA ''failed to create debug pod: '' (nd_PodCreate c ctx ns (debug_pod_of nodeName suffix ns img hostPath mountPath)))"

text \<open>The condition of the poll, and \<open>PollUntilContextCancel\<close>, which tests it at once.\<close>

definition poll_condition :: "'w node_debug_client \<Rightarrow> debug_ctx \<Rightarrow> string \<Rightarrow> string \<Rightarrow> ('w, bool) action" where
  "poll_condition c ctx ns podName =
     bindA (wrapA (''failed to get debug pod '' @ podName @ '' status: '') (nd_PodStatus c ctx ns podName)) (\<lambda>(phase, message).
       if phase = ''Failed'' then failA (''debug pod '' @ podName @ '' failed: '' @ message)
       else if phase = ''Running'' then retA True
       else retA False)"

fun PollUntilContextCancel :: "nat \<Rightarrow> string \<Rightarrow> ('w, bool) action \<Rightarrow> ('w, unit) action" where
  "PollUntilContextCancel 0 err cond = bindA cond (\<lambda>ok. if ok then retA () else failA err)"
| "PollUntilContextCancel (Suc n) err cond = bindA cond (\<lambda>ok. if ok then retA () else PollUntilContextCancel n err cond)"

definition pollForRunning :: "'w node_debug_client \<Rightarrow> debug_ctx \<Rightarrow> string \<Rightarrow> string \<Rightarrow> ('w, unit) action" where
  "pollForRunning c ctx ns podName w =
     PollUntilContextCancel (nd_Intervals c ctx w) (nd_CtxErr c ctx) (poll_condition c ctx ns podName) w"

text \<open>Logs and deletion have a context of their own, for thirty seconds.\<close>

definition cleanup_ctx :: debug_ctx where "cleanup_ctx = BackgroundCtx (30 * 1000000000)"

definition retrieveLogs :: "'w node_debug_client \<Rightarrow> string \<Rightarrow> string \<Rightarrow> ('w, string) action" where
  "retrieveLogs c ns podName =
     bindA (wrapA ''failed to retrieve debug pod logs: ''
              (PodsLog (nd_Client c cleanup_ctx) ns podName NodeDebugContainerName False 0))
       (\<lambda>logs. retA (TrimSpace logs))"

text \<open>The context of the calls: a timeout of its own, the deadline of the caller, or the default.\<close>

definition timeout_ctx :: "bool \<Rightarrow> int \<Rightarrow> debug_ctx" where
  "timeout_ctx hasDeadline timeout =
     (if timeout \<le> 0 then (if hasDeadline then CallerCtx else TimedCtx DefaultNodeDebugTimeout) else TimedCtx timeout)"

text \<open>After the pod was created.\<close>

definition use_debug_pod ::
  "'w node_debug_client \<Rightarrow> debug_ctx \<Rightarrow> string \<Rightarrow> string list \<Rightarrow> string \<Rightarrow> ('w, string \<times> string) action" where
  "use_debug_pod c ctx ns command podName =
     bindA (pollForRunning c ctx ns podName) (\<lambda>_.
     bindA (tryA (PodsExec (nd_Client c ctx) ns podName NodeDebugContainerName command)) (\<lambda>r. case r of
       Inr out \<Rightarrow> retA out
     | Inl execErr \<Rightarrow>
         (let msg = ''failed to execute command in debug pod '' @ podName @ '' in namespace '' @ ns @ '': '' @ execErr in
          bindA (tryA (retrieveLogs c ns podName)) (\<lambda>l. case l of
            Inr logs \<Rightarrow> (if logs \<noteq> [] then failA (msg @ [CHR 0x0A] @ ''logs:'' @ [CHR 0x0A] @ logs) else failA msg)
          | Inl _ \<Rightarrow> failA msg))))"

text \<open>From the creation of the pod on: the deletion is deferred, and its error only logged.\<close>

definition debug_session ::
  "'w node_debug_client \<Rightarrow> debug_ctx \<Rightarrow> string \<Rightarrow> string \<Rightarrow> string \<Rightarrow> string list \<Rightarrow> string \<Rightarrow> string \<Rightarrow> ('w, string \<times> string) action" where
  "debug_session c ctx ns nodeName img command hostPath mountPath =
     bindA (createDebugPod c ctx nodeName ns img hostPath mountPath) (\<lambda>podName.
     bindA (tryA (use_debug_pod c ctx ns command podName)) (\<lambda>r.
     bindA (tryA (nd_PodDelete c cleanup_ctx ns podName)) (\<lambda>_. liftA r)))"

definition NodesDebugExec ::
  "'w node_debug_client \<Rightarrow> string \<Rightarrow> string \<Rightarrow> string \<Rightarrow> string list \<Rightarrow> string \<Rightarrow> string \<Rightarrow> int \<Rightarrow> ('w, string \<times> string) action" where
  "NodesDebugExec c namespace nodeName img command hostPath mountPath timeout =
     (if nodeName = [] then failA ''node name is required''
      else if command = [] then failA ''command is required''
      else case validatePath hostPath ''hostPath'' of Some err \<Rightarrow> failA (''invalid hostPath: '' @ err) | None \<Rightarrow>
      (case validatePath mountPath ''mountPath'' of Some err \<Rightarrow> failA (''invalid mountPath: '' @ err) | None \<Rightarrow>
       bindA (NamespaceOrDefault (nd_Client c CallerCtx) namespace) (\<lambda>configured.
       let ns = (if configured = [] then ''default'' else configured);
           debugImage = (if img = [] then DefaultNodeDebugImage else img);
           ctx = timeout_ctx (nd_HasDeadline c) timeout
       in bindA (wrapA (''failed to check if node '' @ nodeName @ '' exists: '') (DoesNodeExist c ctx nodeName)) (\<lambda>exists.
          if \<not> exists then failA (''node '' @ nodeName @ '' does not exist'')
          else debug_session c ctx ns nodeName debugImage command hostPath mountPath))))"

section \<open>The tool\<close>

definition toStringSlice :: "json \<Rightarrow> (string, string list) result" where
  "toStringSlice a = (case a of
     JNull \<Rightarrow> Inl ''command is required''
   | JArr raw \<Rightarrow>
       (if raw = [] then Inl ''command array cannot be empty''
        else (case command_strings raw of None \<Rightarrow> Inl ''command items must be strings'' | Some command \<Rightarrow> Inr command))
   | _ \<Rightarrow> Inl ''command must be an array of strings'')"

text \<open>
  \<open>timeout_seconds\<close>; decoded arguments have no other numbers than \<open>float64\<close>. The product of the
  seconds and \<open>time.Second\<close> wraps around at 64 bits.
\<close>

definition debug_timeout :: "(rat \<Rightarrow> int) \<Rightarrow> json \<Rightarrow> (string, int) result" where
  "debug_timeout oor timeoutRaw = (case timeoutRaw of
     JNull \<Rightarrow> Inr 0
   | JNum v \<Rightarrow>
       (if v < 1 \<or> v \<noteq> of_int (trunc v)
        then Inl ''failed to execute command on node: timeout_seconds must be an integer >= 1''
        else Inr (seconds (int64_of_float oor v)))
   | _ \<Rightarrow> Inl ''failed to execute command on node: timeout_seconds must be a numeric value'')"

definition debug_output :: "string \<Rightarrow> string \<Rightarrow> string" where
  "debug_output stdout stderr =
     (if stdout = [] then stderr
      else if stderr \<noteq> [] then ''-- stdout --'' @ [CHR 0x0A] @ stdout @ [CHR 0x0A] @ ''-- stderr --'' @ [CHR 0x0A] @ stderr
      else stdout)"

definition nodesDebugExec ::
  "(rat \<Rightarrow> int) \<Rightarrow> ('w, 'w node_debug_client) ToolHandlerParams \<Rightarrow> ('w, ToolCallResult) action" where
  "nodesDebugExec oor params =
     (let args = hp_Arguments params;
          p = WrapParams args;
          (nodeName, p1) = Params_RequiredString ''node'' p;
          (ns, p2) = Params_OptionalString ''namespace'' [] p1;
          (img, p3) = Params_OptionalString ''image'' [] p2
      in check_params ''failed to execute command on node: '' p3
           (fail_result (mapErr (\<lambda>e. ''failed to execute command on node: invalid command argument: '' @ e) (toStringSlice (arg args ''command'')))
             (\<lambda>command.
            fail_result (debug_timeout oor (arg args ''timeout_seconds'')) (\<lambda>timeout.
            run_op [] (NodesDebugExec (hp_KubernetesClient params) ns nodeName img command [] [] timeout)
              (\<lambda>(stdout, stderr). NewToolCallResult
                 (debug_output (if stdout = [] \<and> stderr = [] then ''Command executed successfully on node '' @ nodeName @ '' but produced no output.''
                                else stdout) stderr) None)))))"

definition InitNodes ::
  "(string \<Rightarrow> string \<Rightarrow> string) \<Rightarrow> (rat \<Rightarrow> int) \<Rightarrow> ('w, 'w node_debug_client) ServerTool list" where
  "InitNodes doc oor =
     [core_tool doc ''nodes_debug_exec'' ''Nodes: Debug Exec'' (Some False) (Some True) (Some False)
        [(''node'', ''string''), (''command'', ''array''), (''namespace'', ''string''), (''image'', ''string''),
         (''timeout_seconds'', ''integer'')] (nodesDebugExec oor) []]"

definition clusterDiagnostics_GetTools ::
  "(string \<Rightarrow> string \<Rightarrow> string) \<Rightarrow> (rat \<Rightarrow> int) \<Rightarrow> ('w, 'w node_debug_client) ServerTool list" where
  "clusterDiagnostics_GetTools doc oor = InitNodes doc oor"

section \<open>Safe paths\<close>

lemma unsafe_index_None: "unsafe_index s = None \<longleftrightarrow> list_all path_char s"
  by (induction s) auto

text \<open>
  The paths \<open>nodes_debug.go\<close> mounts are exactly the safe ones: no path at all, or an absolute one
  of letters, digits and \<open>/_.~-\<close> with no element \<open>..\<close>; every other path is refused.
\<close>

theorem validatePath_exact:
  "validatePath path pathType = None \<longleftrightarrow>
     path = [] \<or> (hd path = CHR ''/'' \<and> ''..'' \<notin> set (Split (CHR ''/'') path) \<and> list_all path_char path)"
proof (cases "path = []")
  case False
  then have "IsAbs path \<longleftrightarrow> hd path = CHR ''/''" by (cases path) (simp_all add: IsAbs_def)
  then show ?thesis using False unsafe_index_None [of path]
    by (cases "unsafe_index path"; cases "DecodeRuneInString (drop (the (unsafe_index path)) path)") (simp_all add: validatePath_def)
qed (simp add: validatePath_def)

section \<open>Names\<close>

lemma Trim_length: "length (Trim c s) \<le> length s"
  unfolding Trim_def by (metis length_rev length_dropWhile_le order_trans)

lemma Trim_set: "set (Trim c s) \<subseteq> set s"
  unfolding Trim_def by (auto dest!: set_dropWhileD)

lemma TrimRight_length: "length (TrimRight c s) \<le> length s"
  unfolding TrimRight_def by (metis length_rev length_dropWhile_le)

lemma Trim_hd: "Trim c s \<noteq> [] \<Longrightarrow> hd (Trim c s) \<noteq> c"
proof -
  define d where "d = dropWhile (\<lambda>x. x = c) s"
  assume ne: "Trim c s \<noteq> []"
  have trim: "Trim c s = TrimRight c d" by (simp add: Trim_def TrimRight_def d_def)
  then have d: "d \<noteq> []" using ne by (auto simp: TrimRight_def)
  then have hd: "hd d \<noteq> c" unfolding d_def using hd_dropWhile [of "\<lambda>x. x = c" s] by blast
  obtain xs where "d = TrimRight c d @ xs"
    unfolding TrimRight_def by (metis rev_append rev_rev_ident takeWhile_dropWhile_id)
  then show ?thesis using ne hd unfolding trim by (metis hd_append2)
qed

lemma sanitize_chars: "list_all name_char (sanitizeForName name)"
proof -
  define b where "b = map (\<lambda>r. if r < 128 \<and> name_char (char_of r) then char_of r else CHR ''-'') (map lower_rune (runes name))"
  have b: "list_all name_char b" by (auto simp: b_def list_all_iff name_char_def)
  have t: "list_all name_char (Trim (CHR ''-'') b)" using b Trim_set [of "CHR ''-''" b] by (auto simp: list_all_iff)
  have n: "list_all name_char ''node''" by (simp add: name_char_def)
  have tk: "list_all name_char (take 40 (Trim (CHR ''-'') b))" using t by (auto simp: list_all_iff dest: in_set_takeD)
  show ?thesis unfolding sanitizeForName_def Let_def b_def [symmetric] using t n tk by simp
qed

lemma sanitize_length: "length (sanitizeForName name) \<le> 40" "sanitizeForName name \<noteq> []"
  by (auto simp: sanitizeForName_def Let_def)

lemma sanitize_hd: "hd (sanitizeForName name) \<noteq> CHR ''-''"
  using Trim_hd by (auto simp: sanitizeForName_def Let_def hd_take)

text \<open>
  With the suffixes of five characters the program asks for, the second truncation, the only one
  that trims a dash, never applies.
\<close>

lemma debug_pod_node_sanitized: "length suffix = 5 \<Longrightarrow> debug_pod_node nodeName suffix = sanitizeForName nodeName"
  using sanitize_length(1) [of nodeName] by (simp add: debug_pod_node_def Let_def)

text \<open>
  Whatever the name of a node, its debug pod has a valid name: at most 63 characters, all of
  them lower-case letters, digits and dashes, a letter first and an alphanumeric last, as long as
  the random suffix has five letters or digits.
\<close>

definition suffix_ok :: "string \<Rightarrow> bool" where
  "suffix_ok s \<longleftrightarrow> length s = 5 \<and> list_all (\<lambda>c. name_char c \<and> c \<noteq> CHR ''-'') s"

theorem debug_pod_name_valid:
  assumes "suffix_ok suffix"
  shows "length (dp_Name (debug_pod_of nodeName suffix ns img hp mp)) \<le> 63
    \<and> list_all name_char (dp_Name (debug_pod_of nodeName suffix ns img hp mp))
    \<and> hd (dp_Name (debug_pod_of nodeName suffix ns img hp mp)) = CHR ''n''
    \<and> List.last (dp_Name (debug_pod_of nodeName suffix ns img hp mp)) \<noteq> CHR ''-''"
proof -
  have len: "length suffix = 5" and chars: "list_all (\<lambda>c. name_char c \<and> c \<noteq> CHR ''-'') suffix"
    using assms by (auto simp: suffix_ok_def)
  have name: "dp_Name (debug_pod_of nodeName suffix ns img hp mp) = ''node-debug-'' @ sanitizeForName nodeName @ ''-'' @ suffix"
    by (simp add: debug_pod_of_def Let_def debug_pod_node_sanitized [OF len])
  have ne: "suffix \<noteq> []" using len by auto
  then have "List.last suffix \<noteq> CHR ''-''" using chars by (auto simp: list_all_iff)
  moreover have "list_all name_char suffix" using chars by (auto simp: list_all_iff)
  moreover have "list_all name_char ''node-debug-''" "name_char (CHR ''-'')" by (simp_all add: name_char_def)
  ultimately show ?thesis
    unfolding name using sanitize_length(1) [of nodeName] sanitize_chars [of nodeName] len ne by simp
qed

theorem debug_pod_name_valid_witness:
  "suffix_ok ''x7k2q'' \<and> length (dp_Name (debug_pod_of ''Worker_0.example'' ''x7k2q'' ''default'' [] [] [])) \<le> 63"
proof -
  have "suffix_ok ''x7k2q''" by (simp add: suffix_ok_def name_char_def)
  then show ?thesis using debug_pod_name_valid [of "''x7k2q''" "''Worker_0.example''" "''default''" "[]" "[]" "[]"] by blast
qed

text \<open>A DNS name in lower case: only its dots are replaced.\<close>

lemma name_char_rune:
  assumes "name_char c"
  shows "of_char c < (128::nat)" "lower_rune (of_char c) = of_char c" "byte_in 0 0x7F c"
proof -
  have "of_char c < (128::nat) \<and> \<not> (65 \<le> (of_char c :: nat) \<and> (of_char c :: nat) \<le> 90)"
    using assms by (auto simp: name_char_def)
  then show "of_char c < (128::nat)" "lower_rune (of_char c) = of_char c" "byte_in 0 0x7F c"
    by (auto simp: lower_rune_def byte_in_def)
qed

lemma sanitize_dns:
  assumes "list_all (\<lambda>c. name_char c \<or> c = CHR ''.'') s" "Trim (CHR ''-'') (map (\<lambda>c. if c = CHR ''.'' then CHR ''-'' else c) s) \<noteq> []"
  shows "sanitizeForName s = take 40 (Trim (CHR ''-'') (map (\<lambda>c. if c = CHR ''.'' then CHR ''-'' else c) s))"
proof -
  have dot: "byte_in 0 0x7F (CHR ''.'')" "lower_rune (of_char (CHR ''.'')) = 46" "\<not> name_char (CHR ''.'')"
    by (simp_all add: byte_in_def lower_rune_def name_char_def)
  have dot_char: "char_of (46::nat) = CHR ''.''" by code_simp
  have "runes s = map of_char s"
    using assms(1) dot(1) name_char_rune(3) by (intro runes_ascii) (auto simp: list_all_iff)
  moreover have "map (\<lambda>r. if r < 128 \<and> name_char (char_of r) then char_of r else CHR ''-'') (map lower_rune (map of_char s))
      = map (\<lambda>c. if c = CHR ''.'' then CHR ''-'' else c) s"
    using assms(1) dot name_char_rune dot_char by (auto simp: list_all_iff)
  ultimately show ?thesis unfolding sanitizeForName_def Let_def using assms(2) by (simp only:) simp
qed

text \<open>
  The label is another matter. A label value has to end with an alphanumeric character, but the cut at
  40 characters may leave a dash: for nodes with such names the API server refuses the pod.
\<close>

definition label_value_ok :: "string \<Rightarrow> bool" where
  "label_value_ok v \<longleftrightarrow> v = [] \<or> length v \<le> 63 \<and> List.last v \<notin> set ''-_.''"

lemma debug_pod_label_refused:
  "map_of (dp_Labels (debug_pod_of ''ip-10-100-123-14.ap-northeast-1.compute.internal'' ''x7k2q'' ns img hp mp)) AppKubernetesName
     = Some ''node-debug-ip-10-100-123-14-ap-northeast-1-compute-''"
  "\<not> label_value_ok ''node-debug-ip-10-100-123-14-ap-northeast-1-compute-''"
proof -
  have "sanitizeForName ''ip-10-100-123-14.ap-northeast-1.compute.internal'' = ''ip-10-100-123-14-ap-northeast-1-compute-''"
    by (subst sanitize_dns) (simp_all add: name_char_def Trim_def)
  then show "map_of (dp_Labels (debug_pod_of ''ip-10-100-123-14.ap-northeast-1.compute.internal'' ''x7k2q'' ns img hp mp)) AppKubernetesName
     = Some ''node-debug-ip-10-100-123-14-ap-northeast-1-compute-''"
    by (simp add: debug_pod_of_def Let_def debug_pod_node_sanitized AppKubernetesManagedBy_def AppKubernetesComponent_def AppKubernetesName_def)
qed (simp add: label_value_ok_def)

section \<open>The life of a debug pod\<close>

text \<open>
  What the code relies on of the calls, for the set \<open>live\<close> of debug pods in a cluster: reading,
  executing and choosing a random name leave it; creating a pod adds exactly that pod, under a name that
  was not in use, or nothing when it fails; deleting a pod removes it, or nothing when it fails.
\<close>

definition pod_laws :: "('w \<Rightarrow> (string \<times> string) set) \<Rightarrow> 'w node_debug_client \<Rightarrow> bool" where
  "pod_laws live c \<longleftrightarrow>
     (\<forall>L ctx. reads_keep (\<lambda>w. live w = L) (nd_Client c ctx)
       \<and> (\<forall>n p co cmd. keeps (\<lambda>w. live w = L) (kc_Exec (nd_Client c ctx) n p co cmd))
       \<and> (\<forall>n p. keeps (\<lambda>w. live w = L) (nd_PodStatus c ctx n p)) \<and> keeps (\<lambda>w. live w = L) (nd_Rand c))
   \<and> (\<forall>ctx n pod w. case nd_PodCreate c ctx n pod w of
        (Inl _, w') \<Rightarrow> live w' = live w
      | (Inr name, w') \<Rightarrow> (n, name) \<notin> live w \<and> live w' = insert (n, name) (live w))
   \<and> (\<forall>ctx n name w. case nd_PodDelete c ctx n name w of
        (Inl _, w') \<Rightarrow> live w' = live w
      | (Inr _, w') \<Rightarrow> live w' = live w - {(n, name)})"

lemma pod_laws_reads: "pod_laws live c \<Longrightarrow> reads_keep (\<lambda>w. live w = L) (nd_Client c ctx)"
  and pod_laws_exec: "pod_laws live c \<Longrightarrow> keeps (\<lambda>w. live w = L) (kc_Exec (nd_Client c ctx) n p co cmd)"
  and pod_laws_status: "pod_laws live c \<Longrightarrow> keeps (\<lambda>w. live w = L) (nd_PodStatus c ctx n p)"
  and pod_laws_rand: "pod_laws live c \<Longrightarrow> keeps (\<lambda>w. live w = L) (nd_Rand c)"
  by (simp_all add: pod_laws_def)

lemma PodsExec_keeps:
  "reads_keep P k \<Longrightarrow> (\<And>n p co cmd. keeps P (kc_Exec k n p co cmd)) \<Longrightarrow> keeps P (PodsExec k ns name container command)"
  unfolding PodsExec_def by (intro keeps_intros lookup_keeps reads_keepD)

lemma keeps_poll: "keeps P cond \<Longrightarrow> keeps P (PollUntilContextCancel n err cond)"
  by (induction n) (auto intro!: keeps_intros)

lemma pollForRunning_keeps: "(\<And>n p. keeps P (nd_PodStatus c ctx n p)) \<Longrightarrow> keeps P (pollForRunning c ctx ns podName)"
proof -
  assume "\<And>n p. keeps P (nd_PodStatus c ctx n p)"
  then have "keeps P (poll_condition c ctx ns podName)" unfolding poll_condition_def by (intro keeps_intros)
  then show ?thesis using keeps_poll unfolding pollForRunning_def keeps_def by metis
qed

lemma use_debug_pod_keeps: "pod_laws live c \<Longrightarrow> keeps (\<lambda>w. live w = L) (use_debug_pod c ctx ns command podName)"
  unfolding use_debug_pod_def retrieveLogs_def
  by (intro keeps_intros pollForRunning_keeps PodsExec_keeps PodsLog_keeps pod_laws_reads pod_laws_exec pod_laws_status; assumption)

lemma DoesNodeExist_keeps: "pod_laws live c \<Longrightarrow> keeps (\<lambda>w. live w = L) (DoesNodeExist c ctx name)"
  unfolding DoesNodeExist_def by (intro keeps_intros ResourcesGet_keeps pod_laws_reads)

definition leaked :: "('w \<Rightarrow> (string \<times> string) set) \<Rightarrow> 'w node_debug_client \<Rightarrow> 'w \<Rightarrow> 'w \<Rightarrow> bool" where
  "leaked live c w w' \<longleftrightarrow>
     (\<exists>ns name w1 e. live w' = insert (ns, name) (live w) \<and> fst (nd_PodDelete c cleanup_ctx ns name w1) = Inl e)"

lemma createDebugPod_live:
  assumes "pod_laws live c"
  shows "case createDebugPod c ctx nodeName ns img hp mp w of
      (Inl _, w') \<Rightarrow> live w' = live w
    | (Inr name, w') \<Rightarrow> (ns, name) \<notin> live w \<and> live w' = insert (ns, name) (live w)"
proof -
  obtain r w1 where r: "nd_Rand c w = (r, w1)" by fastforce
  then have w1: "live w1 = live w" using keepsD [OF pod_laws_rand [OF assms], of w "live w"] by simp
  show ?thesis
  proof (cases r)
    case (Inr suffix)
    let ?pod = "debug_pod_of nodeName suffix ns img hp mp"
    have "case nd_PodCreate c ctx ns ?pod w1 of (Inl _, w') \<Rightarrow> live w' = live w1
      | (Inr name, w') \<Rightarrow> (ns, name) \<notin> live w1 \<and> live w' = insert (ns, name) (live w1)"
      using assms by (simp add: pod_laws_def)
    then show ?thesis using w1
      by (auto simp: createDebugPod_def bindA_def wrapA_def r Inr split: prod.splits sum.splits)
  qed (simp add: createDebugPod_def bindA_def r w1)
qed

text \<open>Actions that leave the debug pods as they were, or one more whose deletion failed.\<close>

definition settles :: "('w \<Rightarrow> (string \<times> string) set) \<Rightarrow> 'w node_debug_client \<Rightarrow> ('w, 'a) action \<Rightarrow> bool" where
  "settles live c m \<longleftrightarrow> (\<forall>w. live (snd (m w)) = live w \<or> leaked live c w (snd (m w)))"

lemma settles_fail: "settles live c (failA e)"
  by (simp add: settles_def failA_def)

lemma settles_bind:
  assumes "\<And>L. keeps (\<lambda>w. live w = L) m" "\<And>x. settles live c (f x)"
  shows "settles live c (bindA m f)"
  unfolding settles_def
proof
  fix w
  obtain r w1 where m: "m w = (r, w1)" by fastforce
  then have w1: "live w1 = live w" using keepsD [OF assms(1), of w "live w"] by simp
  then have "leaked live c w1 = leaked live c w" by (simp add: leaked_def fun_eq_iff)
  then show "live (snd (bindA m f w)) = live w \<or> leaked live c w (snd (bindA m f w))"
    using assms(2) w1 unfolding settles_def by (cases r) (simp_all add: bindA_def m, metis)
qed

text \<open>A pod that is created, used and deleted in any case; the errors of the deletion are dropped.\<close>

definition pod_session ::
  "('w, string) action \<Rightarrow> (string \<Rightarrow> ('w, 'a) action) \<Rightarrow> (string \<Rightarrow> ('w, unit) action) \<Rightarrow> ('w, 'a) action" where
  "pod_session create use delete =
     bindA create (\<lambda>name. bindA (tryA (use name)) (\<lambda>r. bindA (tryA (delete name)) (\<lambda>_. liftA r)))"

lemma pod_session_live:
  assumes create: "case create w of (Inl _, w') \<Rightarrow> live w' = live w
      | (Inr name, w') \<Rightarrow> (ns, name) \<notin> live w \<and> live w' = insert (ns, name) (live w)"
    and "use": "\<And>L name. keeps (\<lambda>w. live w = L) (use name)"
    and delete: "\<And>name w. case delete name w of (Inl _, w') \<Rightarrow> live w' = live w | (Inr _, w') \<Rightarrow> live w' = live w - {(ns, name)}"
  shows "live (snd (pod_session create use delete w)) = live w
    \<or> (\<exists>name w1 e. live (snd (pod_session create use delete w)) = insert (ns, name) (live w) \<and> fst (delete name w1) = Inl e)"
proof -
  obtain r w1 where r: "create w = (r, w1)" by fastforce
  show ?thesis
  proof (cases r)
    case (Inl e) then show ?thesis using create by (simp add: pod_session_def bindA_def r)
  next
    case (Inr name)
    obtain u w2 where u: "use name w1 = (u, w2)" by fastforce
    have w2: "live w2 = live w1" using keepsD [OF "use", of w1 "live w1" name] u by simp
    obtain d w3 where d: "delete name w2 = (d, w3)" by fastforce
    have res: "snd (pod_session create use delete w) = w3"
      by (simp add: pod_session_def bindA_def tryA_def liftA_def r Inr u d)
    show ?thesis
    proof (cases d)
      case (Inr x)
      then have "live w3 = live w" using delete [of w2 name] create w2 \<open>r = Inr name\<close> r d by auto
      then show ?thesis using res by simp
    next
      case (Inl e)
      then have "live w3 = insert (ns, name) (live w)" using delete [of w2 name] create w2 \<open>r = Inr name\<close> r d by auto
      then show ?thesis using res d Inl by (metis fst_conv)
    qed
  qed
qed

lemma debug_session_settles:
  assumes "pod_laws live c"
  shows "settles live c (debug_session c ctx ns nodeName img command hp mp)"
proof -
  let ?create = "createDebugPod c ctx nodeName ns img hp mp" and ?use = "use_debug_pod c ctx ns command" and ?delete = "nd_PodDelete c cleanup_ctx ns"
  have "debug_session c ctx ns nodeName img command hp mp = pod_session ?create ?use ?delete"
    by (simp add: debug_session_def pod_session_def)
  moreover have "case ?delete name w of (Inl _, w') \<Rightarrow> live w' = live w | (Inr _, w') \<Rightarrow> live w' = live w - {(ns, name)}" for name w
    using assms by (simp add: pod_laws_def)
  moreover have "live (snd (pod_session ?create ?use ?delete w)) = live w
      \<or> (\<exists>name w1 e. live (snd (pod_session ?create ?use ?delete w)) = insert (ns, name) (live w) \<and> fst (?delete name w1) = Inl e)" for w
    by (rule pod_session_live) (use createDebugPod_live [OF assms] use_debug_pod_keeps [OF assms] calculation(2) in auto)
  ultimately show ?thesis unfolding settles_def leaked_def by metis
qed

lemma NodesDebugExec_settles:
  assumes "pod_laws live c"
  shows "settles live c (NodesDebugExec c namespace nodeName img command hp mp timeout)"
  unfolding NodesDebugExec_def Let_def
  by (auto split: option.split intro!: settles_fail settles_bind debug_session_settles assms
      keeps_intros DoesNodeExist_keeps NamespaceOrDefault_keeps pod_laws_reads)

text \<open>
  C9: debug pods are cleaned up. Whatever happens on the way (the node is missing, the pod fails
  or never runs, the context of the call ends, the command fails), after the call the cluster has
  the debug pods it had before it; the one exception is a deletion that itself failed, although it ran
  under a context of its own, and then exactly that one pod is left.
\<close>

theorem debug_pod_removed:
  assumes "pod_laws live c"
  shows "live (snd (NodesDebugExec c namespace nodeName img command hp mp timeout w)) = live w
    \<or> (\<exists>ns name w1 e. live (snd (NodesDebugExec c namespace nodeName img command hp mp timeout w)) = insert (ns, name) (live w)
        \<and> fst (nd_PodDelete c cleanup_ctx ns name w1) = Inl e)"
  using NodesDebugExec_settles [OF assms] unfolding settles_def leaked_def by blast

text \<open>A cluster whose world is its list of debug pods; every pod stays pending, and the context ends.\<close>

definition pending_client :: "(string \<times> string) list node_debug_client" where
  "pending_client =
     \<lparr>nd_Client = (\<lambda>_.
        \<lparr>kc_RESTMapping = (\<lambda>gvk. retA \<lparr>gvr_Group = [], gvr_Version = ''v1'', gvr_Resource = ''nodes''\<rparr>),
         kc_ResetMapper = retA (), kc_ServerResources = (\<lambda>_. retA [(''Node'', False)]), kc_Namespace = retA ''default'',
         kc_Auth = (\<lambda>_. retA True), kc_List = (\<lambda>_ _ _. retA []), kc_Table = (\<lambda>_ _. retA \<lparr>tb_Columns = [], tb_Rows = []\<rparr>),
         kc_Get = (\<lambda>_ _ _ _. retA []), kc_PodGet = (\<lambda>_ _. failA ''not found''), kc_PodLogs = (\<lambda>_ _ _. failA ''not found''),
         kc_ServiceList = (\<lambda>_ _. retA []), kc_RouteList = (\<lambda>_ _. retA []), kc_NodeGet = (\<lambda>_. retA ()),
         kc_NodeList = (\<lambda>_. retA []), kc_NodeProxy = (\<lambda>_ _. failA ''not found''), kc_PodMetrics = (\<lambda>_ _. failA ''not found''),
         kc_PodMetricsList = (\<lambda>_ _. retA []), kc_NodeMetrics = (\<lambda>_. failA ''not found''), kc_NodeMetricsList = (\<lambda>_. retA []),
         kc_Apply = (\<lambda>_ _ _ obj. retA obj), kc_Update = (\<lambda>_ _ obj _. retA obj), kc_Delete = (\<lambda>_ _ _ _. retA ()),
         kc_ServiceDelete = (\<lambda>_ _. retA ()), kc_RouteDelete = (\<lambda>_ _. retA ()), kc_Exec = (\<lambda>_ _ _ _. retA ([], []))\<rparr>),
      nd_PodCreate = (\<lambda>_ n pod w. if (n, dp_Name pod) \<in> set w then (Inl ''already exists'', w) else (Inr (dp_Name pod), (n, dp_Name pod) # w)),
      nd_PodStatus = (\<lambda>_ _ _. retA (''Pending'', [])),
      nd_PodDelete = (\<lambda>_ n name w. (Inr (), removeAll (n, name) w)),
      nd_IsNotFound = (\<lambda>_. False), nd_Intervals = (\<lambda>_ _. 3), nd_CtxErr = (\<lambda>_. ''context deadline exceeded''),
      nd_HasDeadline = False, nd_Rand = retA ''x7k2q''\<rparr>"

lemma pending_client_laws: "pod_laws set pending_client"
  by (auto simp: pod_laws_def pending_client_def reads_keep_def keeps_ret keeps_fail split: prod.splits if_splits)

theorem debug_pod_removed_witness:
  "pod_laws set pending_client
   \<and> set (snd (NodesDebugExec pending_client [] ''w'' [] [''ls''] [] [] 0 [(''default'', ''other'')])) = {(''default'', ''other'')}
   \<and> fst (NodesDebugExec pending_client [] ''w'' [] [''ls''] [] [] 0 [(''default'', ''other'')]) = Inl ''context deadline exceeded''"
proof -
  have "fst (NodesDebugExec pending_client [] ''w'' [] [''ls''] [] [] 0 [(''default'', ''other'')]) = Inl ''context deadline exceeded''"
    by code_simp
  moreover have "fst (nd_PodDelete pending_client ctx ns name w1) \<noteq> Inl e" for ctx ns name w1 e
    by (simp add: pending_client_def)
  ultimately show ?thesis
    using debug_pod_removed [OF pending_client_laws, of "[]" "''w''" "[]" "[''ls'']" "[]" "[]" 0 "[(''default'', ''other'')]"]
      pending_client_laws by simp
qed

section \<open>Other facts\<close>

text \<open>Arguments that are refused are refused before anything is done.\<close>

lemma NodesDebugExec_refuses:
  assumes "nodeName = [] \<or> command = [] \<or> validatePath hp ''hostPath'' \<noteq> None \<or> validatePath mp ''mountPath'' \<noteq> None"
  shows "\<exists>e. NodesDebugExec c namespace nodeName img command hp mp timeout w = (Inl e, w)"
  using assms by (auto simp: NodesDebugExec_def failA_def split: option.split)

text \<open>Every context the calls run under ends: it has the deadline of the caller or a positive timeout.\<close>

lemma timeout_ctx_ends:
  "timeout_ctx d timeout = CallerCtx \<and> d \<or> (\<exists>t > 0. timeout_ctx d timeout = TimedCtx t)"
  by (simp add: timeout_ctx_def DefaultNodeDebugTimeout_def)

text \<open>
  A timeout of more than 9223372036 seconds wraps around: the call then runs under the default
  timeout of a minute, or a shorter one than was asked for.
\<close>

lemma debug_timeout_wraps:
  "debug_timeout oor (JNum 9223372037) = Inr (- 9223372036709551616)"
  "timeout_ctx False (- 9223372036709551616) = TimedCtx DefaultNodeDebugTimeout"
  by (simp_all add: debug_timeout_def trunc_def int64_of_float_def in_int64_def seconds_def timeout_ctx_def signed_take_bit_eq_if_negative)

lemma debug_timeout_exact:
  assumes "debug_timeout oor (JNum v) = Inr t" "v \<le> 9223372036"
  shows "t = trunc v * 1000000000 \<and> 0 < t"
proof -
  define n where "n = trunc v"
  have v: "1 \<le> v" "v = of_int n" and t: "t = seconds (int64_of_float oor v)"
    using assms(1) by (auto simp: debug_timeout_def n_def split: if_splits)
  have n: "1 \<le> n" "n \<le> 9223372036" using v assms(2) by simp_all
  then have "int64_of_float oor v = n" by (simp add: int64_of_float_def in_int64_def n_def [symmetric])
  moreover have "seconds n = n * 1000000000"
  proof -
    have "sint (word_of_int (n * 1000000000) :: 64 word) = signed_take_bit 63 (n * 1000000000)"
      by (simp only: sint_sbintrunc') simp
    also have "\<dots> = n * 1000000000" using n by (intro signed_take_bit_int_eq_self) auto
    finally show ?thesis unfolding seconds_def .
  qed
  ultimately show ?thesis using n t by (simp add: n_def)
qed

end
