(* ===== verification/Diagnostics.thy ===== *)
theory Diagnostics
  imports Node_Debug
begin

text \<open>
  Network diagnostics: the toolsets \<open>cni-diagnostics\<close> (\<open>src/pkg/toolsets/cni-diagnostics/\<close>) and
  \<open>ovn-kubernetes\<close> (\<open>src/pkg/toolsets/ovnkubernetes/\<close>). Their handlers check and bound the arguments
  and hand them to the servers of \<open>ovn-kubernetes-mcp\<close>, which run commands on nodes and in pods through the
  functions the handlers give them. Those servers are a parameter.
\<close>

section \<open>Servers of ovn-kubernetes-mcp\<close>

record HeadTailParams =
  ht_Head :: int
  ht_Tail :: int
  ht_ApplyTailFirst :: bool

datatype kernel_op =
    GetConntrack string string
  | GetIptables string string string
  | GetNFT string string
  | GetIPCommandOutput string string string

record kernel_request =
  kr_Node :: string
  kr_Namespace :: string
  kr_Op :: kernel_op
  kr_HeadTail :: HeadTailParams
  kr_TimeoutSeconds :: int

record tcpdump_request =
  td_TargetType :: string
  td_Name :: string
  td_Namespace :: string
  td_ContainerName :: string
  td_Interface :: string
  td_PacketCount :: int
  td_BPFFilter :: string
  td_Snaplen :: int
  td_TimeoutSeconds :: int

record pwru_request =
  pw_NodeName :: string
  pw_NodePodNamespace :: string
  pw_BPFFilter :: string
  pw_OutputLimitLines :: int
  pw_TimeoutSeconds :: int

datatype net_request = Tcpdump tcpdump_request | Pwru pwru_request

datatype ovn_request =
    OvnShow string string string HeadTailParams
  | OvnGet string string string string string string string HeadTailParams
  | ListLogicalFlows string string string string HeadTailParams
  | OvnTrace string string string string string string HeadTailParams

datatype ovs_request =
    Vsctl string string string string HeadTailParams
  | Ofctl string string string string string HeadTailParams
  | Appctl string string string string string "string list" string HeadTailParams

text \<open>
  A command on a node: whether the context it is run under has a deadline, the namespace, the node, the
  image, the command, the path on the host, where to mount it, and a timeout. A command in a
  pod: namespace, pod, container and command.
\<close>

type_synonym 'w run_debug =
  "bool \<Rightarrow> string \<Rightarrow> string \<Rightarrow> string \<Rightarrow> string list \<Rightarrow> string \<Rightarrow> string \<Rightarrow> int \<Rightarrow> ('w, string \<times> string) action"
type_synonym 'w run_exec = "string \<Rightarrow> string \<Rightarrow> string \<Rightarrow> string list \<Rightarrow> ('w, string \<times> string) action"

text \<open>
  The servers: each is built from the functions that run commands and answers requests. The type
  assertion on a parsed configuration, and the constants of the upstream packages, belong to them too.
\<close>

record cni_Config =
  KernelDebugImage_f :: string
  TcpdumpImage_f :: string
  PwruImage_f :: string

record 'w ovn_upstream =
  up_NewKernel :: "'w run_debug \<Rightarrow> string \<Rightarrow> (string, kernel_request \<Rightarrow> ('w, string) action) result"
  up_NewNetwork :: "'w run_debug \<Rightarrow> 'w run_exec \<Rightarrow> string \<Rightarrow> string \<Rightarrow> (string, net_request \<Rightarrow> ('w, string \<times> string) action) result"
  up_NewOVN :: "'w run_exec \<Rightarrow> (string, ovn_request \<Rightarrow> ('w, json) action) result"
  up_NewOVS :: "'w run_exec \<Rightarrow> (string, ovs_request \<Rightarrow> ('w, json) action) result"
  up_Config :: "string \<Rightarrow> cni_Config option"
  up_Overflow :: "rat \<Rightarrow> int"
  up_Marshal :: "structured \<Rightarrow> (string, string) result"

definition MaxTimeoutSeconds :: int where "MaxTimeoutSeconds = 300"
definition DefaultPacketCount :: int where "DefaultPacketCount = 100"
definition MaxPacketCount :: int where "MaxPacketCount = 1000"
definition DefaultSnaplen :: int where "DefaultSnaplen = 96"
definition MaxSnaplen :: int where "MaxSnaplen = 1500"
definition DefaultOutputLimitLines :: int where "DefaultOutputLimitLines = 100"
definition MaxOutputLimitLines :: int where "MaxOutputLimitLines = 1000"

type_synonym 'w diag_params = "('w, 'w node_debug_client) ToolHandlerParams"
type_synonym 'w diag_handler = "'w ovn_upstream \<Rightarrow> 'w diag_params \<Rightarrow> ('w, ToolCallResult) action"

section \<open>Configuration\<close>

definition DefaultNetshootImage :: string where "DefaultNetshootImage = ''nicolaka/netshoot:v0.16''"
definition DefaultPwruImage :: string where "DefaultPwruImage = ''docker.io/cilium/pwru:v1.0.10''"

definition cni_GetConfig :: "'w ovn_upstream \<Rightarrow> 'w diag_params \<Rightarrow> cni_Config option" where
  "cni_GetConfig up params =
     Option.bind (map_of (c_parsedToolsetConfigs (hp_BaseConfig params)) ''cni-diagnostics'') (up_Config up)"

definition cni_Validate :: "cni_Config option \<Rightarrow> string option" where
  "cni_Validate c = (case c of None \<Rightarrow> Some ''cni-diagnostics config is nil'' | Some _ \<Rightarrow> None)"

definition cnidiagnosticsToolsetParser ::
  "(string \<Rightarrow> (string, cni_Config) result) \<Rightarrow> string \<Rightarrow> (string, cni_Config) result" where
  "cnidiagnosticsToolsetParser primitiveDecode primitive =
     bindE (primitiveDecode primitive) (\<lambda>cfg. Inr
       \<lparr>KernelDebugImage_f = (if KernelDebugImage_f cfg = [] then DefaultNetshootImage else KernelDebugImage_f cfg),
        TcpdumpImage_f = (if TcpdumpImage_f cfg = [] then DefaultNetshootImage else TcpdumpImage_f cfg),
        PwruImage_f = (if PwruImage_f cfg = [] then DefaultPwruImage else PwruImage_f cfg)\<rparr>)"

definition KernelDebugImage :: "'w ovn_upstream \<Rightarrow> 'w diag_params \<Rightarrow> string" where
  "KernelDebugImage up params = (case cni_GetConfig up params of None \<Rightarrow> DefaultNetshootImage | Some c \<Rightarrow> KernelDebugImage_f c)"

definition TcpdumpImage :: "'w ovn_upstream \<Rightarrow> 'w diag_params \<Rightarrow> string" where
  "TcpdumpImage up params = (case cni_GetConfig up params of None \<Rightarrow> DefaultNetshootImage | Some c \<Rightarrow> TcpdumpImage_f c)"

definition PwruImage :: "'w ovn_upstream \<Rightarrow> 'w diag_params \<Rightarrow> string" where
  "PwruImage up params = (case cni_GetConfig up params of None \<Rightarrow> DefaultPwruImage | Some c \<Rightarrow> PwruImage_f c)"

section \<open>Adapters\<close>

definition NewRunDebugNodeCommand :: "'w node_debug_client \<Rightarrow> 'w run_debug" where
  "NewRunDebugNodeCommand k hasDeadline ns nodeName img command hostPath mountPath timeout =
     NodesDebugExec (k\<lparr>nd_HasDeadline := hasDeadline\<rparr>) ns nodeName img command hostPath mountPath timeout"

definition NewRunPodExecCommand :: "'w node_debug_client \<Rightarrow> 'w run_exec" where
  "NewRunPodExecCommand k ns name container command = PodsExec (nd_Client k CallerCtx) ns name container command"

section \<open>Arguments\<close>

definition ParamsErrorResult :: "Params \<Rightarrow> ('w, ToolCallResult) action \<Rightarrow> ('w, ToolCallResult) action" where
  "ParamsErrorResult p m = check_params ''invalid parameters: '' p m"

definition ValidateHeadTail :: "int \<Rightarrow> int \<Rightarrow> bool \<Rightarrow> (string, HeadTailParams) result" where
  "ValidateHeadTail head tail applyTailFirst =
     (if head < 0 then Inl ''head must be greater than or equal to 0''
      else if tail < 0 then Inl ''tail must be greater than or equal to 0''
      else Inr \<lparr>ht_Head = head, ht_Tail = tail, ht_ApplyTailFirst = applyTailFirst\<rparr>)"

definition ValidateTimeout :: "int \<Rightarrow> (string, int) result" where
  "ValidateTimeout timeoutSecs =
     (if 0 \<le> timeoutSecs then Inr (uint (word_of_int (min timeoutSecs MaxTimeoutSeconds) :: 32 word))
      else Inl ''timeout_seconds must be greater than or equal to 0'')"

definition NormalizeBoundedInt :: "string \<Rightarrow> int \<Rightarrow> int \<Rightarrow> int \<Rightarrow> (string, int) result" where
  "NormalizeBoundedInt fieldName value maxVal defaultWhenZero =
     (if 0 \<le> value then
        (let value = min value maxVal in Inr (if value = 0 then defaultWhenZero else value))
      else Inl (fieldName @ '' must be greater than or equal to 0''))"

definition FormatCommandOutput :: "string \<Rightarrow> string \<Rightarrow> string" where
  "FormatCommandOutput output stderr =
     (if stderr = [] then output
      else ''-- stdout --'' @ [CHR 0x0A] @ output @ [CHR 0x0A] @ ''-- stderr --'' @ [CHR 0x0A] @ stderr)"

text \<open>\<open>head\<close>, \<open>tail\<close> and \<open>apply_tail_first\<close>; an \<open>int\<close> has 64 bits.\<close>

definition head_tail_args :: "(rat \<Rightarrow> int) \<Rightarrow> Params \<Rightarrow> (int \<times> int \<times> bool) \<times> Params" where
  "head_tail_args oor p =
     (let (head, p1) = Params_OptionalInt64 oor ''head'' 0 p;
          (tail, p2) = Params_OptionalInt64 oor ''tail'' 0 p1;
          (applyTailFirst, p3) = Params_OptionalBool ''apply_tail_first'' False p2
      in ((head, tail, applyTailFirst), p3))"

section \<open>Kernel tools\<close>

text \<open>What the four handlers do alike, from the last four arguments on.\<close>

definition kernel_handler ::
  "'w ovn_upstream \<Rightarrow> 'w diag_params \<Rightarrow> string \<Rightarrow> string \<Rightarrow> string \<Rightarrow> kernel_op \<Rightarrow> Params \<Rightarrow> ('w, ToolCallResult) action" where
  "kernel_handler up params what node ns kop p =
     (let (ht0, p1) = head_tail_args (up_Overflow up) p;
          (timeoutSecs, p2) = Params_OptionalInt64 (up_Overflow up) ''timeout_seconds'' 0 p1
      in ParamsErrorResult p2
           (fail_result (case ht0 of (head, tail, applyTailFirst) \<Rightarrow> ValidateHeadTail head tail applyTailFirst) (\<lambda>ht.
            fail_result (ValidateTimeout timeoutSecs) (\<lambda>timeout.
            fail_result (mapErr (\<lambda>e. ''failed to create MCP server: '' @ e)
                (up_NewKernel up (NewRunDebugNodeCommand (hp_KubernetesClient params)) (KernelDebugImage up params))) (\<lambda>upstreamServer.
            run_op (''failed to get '' @ what @ '': '')
              (upstreamServer \<lparr>kr_Node = node, kr_Namespace = ns, kr_Op = kop, kr_HeadTail = ht, kr_TimeoutSeconds = timeout\<rparr>)
              (\<lambda>output. NewToolCallResult output None))))))"

definition conntrackHandler :: "'w diag_handler" where
  "conntrackHandler up params =
     (let p = WrapParams (hp_Arguments params);
          (node, p1) = Params_RequiredString ''node'' p;
          (ns, p2) = Params_OptionalString ''namespace'' [] p1;
          (command, p3) = Params_OptionalString ''command'' [] p2;
          (filterParams, p4) = Params_OptionalString ''filter_parameters'' [] p3
      in kernel_handler up params ''conntrack data'' node ns (GetConntrack command filterParams) p4)"

definition iptablesHandler :: "'w diag_handler" where
  "iptablesHandler up params =
     (let p = WrapParams (hp_Arguments params);
          (node, p1) = Params_RequiredString ''node'' p;
          (ns, p2) = Params_OptionalString ''namespace'' [] p1;
          (command, p3) = Params_OptionalString ''command'' ''-L'' p2;
          (tbl, p4) = Params_OptionalString ''table'' [] p3;
          (filterParams, p5) = Params_OptionalString ''filter_parameters'' [] p4
      in kernel_handler up params ''iptables data'' node ns (GetIptables tbl command filterParams) p5)"

definition nftHandler :: "'w diag_handler" where
  "nftHandler up params =
     (let p = WrapParams (hp_Arguments params);
          (node, p1) = Params_RequiredString ''node'' p;
          (ns, p2) = Params_OptionalString ''namespace'' [] p1;
          (command, p3) = Params_RequiredString ''command'' p2;
          (addressFamilies, p4) = Params_OptionalString ''address_families'' [] p3
      in kernel_handler up params ''nftables data'' node ns (GetNFT command addressFamilies) p4)"

definition ipHandler :: "'w diag_handler" where
  "ipHandler up params =
     (let p = WrapParams (hp_Arguments params);
          (node, p1) = Params_RequiredString ''node'' p;
          (ns, p2) = Params_OptionalString ''namespace'' [] p1;
          (command, p3) = Params_RequiredString ''command'' p2;
          (options, p4) = Params_OptionalString ''options'' [] p3;
          (filterParams, p5) = Params_OptionalString ''filter_parameters'' [] p4
      in kernel_handler up params ''ip command output'' node ns (GetIPCommandOutput options command filterParams) p5)"

section \<open>Packet capture\<close>

definition quoted :: "string \<Rightarrow> string" where
  "quoted s = [CHR 0x27] @ s @ [CHR 0x27]"

definition tcpdump_target :: "string \<Rightarrow> string \<Rightarrow> string \<Rightarrow> (string, unit) result" where
  "tcpdump_target targetType name ns =
     (if targetType \<noteq> ''node'' \<and> targetType \<noteq> ''pod'' then
        Inl (''target_type must be '' @ quoted ''node'' @ '' or '' @ quoted ''pod'')
      else if name = [] then Inl (''name is required when target_type is '' @ quoted targetType)
      else if targetType = ''pod'' \<and> ns = [] then Inl (''namespace is required when target_type is '' @ quoted ''pod'')
      else Inr ())"

definition net_server ::
  "'w ovn_upstream \<Rightarrow> 'w diag_params \<Rightarrow> string \<Rightarrow> string \<Rightarrow> (string, net_request \<Rightarrow> ('w, string \<times> string) action) result" where
  "net_server up params tcpdumpImage pwruImage =
     mapErr (\<lambda>e. ''failed to create MCP server: '' @ e)
       (up_NewNetwork up (NewRunDebugNodeCommand (hp_KubernetesClient params)) (NewRunPodExecCommand (hp_KubernetesClient params))
          tcpdumpImage pwruImage)"

definition tcpdumpHandler :: "'w diag_handler" where
  "tcpdumpHandler up params =
     (let p = WrapParams (hp_Arguments params); oor = up_Overflow up;
          (targetType, p1) = Params_RequiredString ''target_type'' p;
          (name, p2) = Params_RequiredString ''name'' p1;
          (ns, p3) = Params_OptionalString ''namespace'' [] p2;
          (containerName, p4) = Params_OptionalString ''container_name'' [] p3;
          (iface, p5) = Params_OptionalString ''interface'' [] p4;
          (packetCount, p6) = Params_OptionalInt64 oor ''packet_count'' 0 p5;
          (bpfFilter, p7) = Params_OptionalString ''bpf_filter'' [] p6;
          (snaplen, p8) = Params_OptionalInt64 oor ''snaplen'' 0 p7;
          (timeoutSecs, p9) = Params_OptionalInt64 oor ''timeout_seconds'' 0 p8
      in ParamsErrorResult p9
           (fail_result (tcpdump_target targetType name ns) (\<lambda>_.
            fail_result (NormalizeBoundedInt ''packet_count'' packetCount MaxPacketCount DefaultPacketCount) (\<lambda>packetCount.
            fail_result (NormalizeBoundedInt ''snaplen'' snaplen MaxSnaplen DefaultSnaplen) (\<lambda>snaplen.
            fail_result (ValidateTimeout timeoutSecs) (\<lambda>timeout.
            fail_result (net_server up params (TcpdumpImage up params) []) (\<lambda>upstreamServer.
            run_op ''failed to capture packets: ''
              (upstreamServer (Tcpdump \<lparr>td_TargetType = targetType, td_Name = name, td_Namespace = ns, td_ContainerName = containerName,
                 td_Interface = iface, td_PacketCount = packetCount, td_BPFFilter = bpfFilter, td_Snaplen = snaplen,
                 td_TimeoutSeconds = timeout\<rparr>))
              (\<lambda>(output, stderr). NewToolCallResult (FormatCommandOutput output stderr) None))))))))"

definition pwruHandler :: "'w diag_handler" where
  "pwruHandler up params =
     (let p = WrapParams (hp_Arguments params); oor = up_Overflow up;
          (nodeName, p1) = Params_RequiredString ''node_name'' p;
          (nodePodNamespace, p2) = Params_OptionalString ''node_pod_namespace'' [] p1;
          (bpfFilter, p3) = Params_OptionalString ''bpf_filter'' [] p2;
          (outputLimitLines, p4) = Params_OptionalInt64 oor ''output_limit_lines'' 0 p3;
          (timeoutSecs, p5) = Params_OptionalInt64 oor ''timeout_seconds'' 0 p4
      in ParamsErrorResult p5
           (fail_result (NormalizeBoundedInt ''output_limit_lines'' outputLimitLines MaxOutputLimitLines DefaultOutputLimitLines) (\<lambda>outputLimitLines.
            fail_result (ValidateTimeout timeoutSecs) (\<lambda>timeout.
            fail_result (net_server up params [] (PwruImage up params)) (\<lambda>upstreamServer.
            run_op ''failed to trace packets: ''
              (upstreamServer (Pwru \<lparr>pw_NodeName = nodeName, pw_NodePodNamespace = nodePodNamespace, pw_BPFFilter = bpfFilter,
                 pw_OutputLimitLines = outputLimitLines, pw_TimeoutSeconds = timeout\<rparr>))
              (\<lambda>(output, stderr). NewToolCallResult (FormatCommandOutput output stderr) None))))))"

section \<open>OVN\<close>

definition containerForDatabase :: "string \<Rightarrow> string" where
  "containerForDatabase database = (if database = ''sbdb'' then ''sbdb'' else ''nbdb'')"

text \<open>The container is the one given here, whatever the server asks for.\<close>

definition newOVNServer ::
  "'w ovn_upstream \<Rightarrow> 'w diag_params \<Rightarrow> string \<Rightarrow> (string, ovn_request \<Rightarrow> ('w, json) action) result" where
  "newOVNServer up params container =
     up_NewOVN up (\<lambda>ns name _ command. PodsExec (nd_Client (hp_KubernetesClient params) CallerCtx) ns name container command)"

definition ovn_call ::
  "'w ovn_upstream \<Rightarrow> 'w diag_params \<Rightarrow> string \<Rightarrow> ovn_request \<Rightarrow> ('w, ToolCallResult) action" where
  "ovn_call up params container req =
     fail_result (newOVNServer up params container) (\<lambda>server.
       run_op [] (server req) (\<lambda>result. NewToolCallResultStructured (up_Marshal up) (Some (OtherKind result)) None))"

definition head_tail :: "int \<times> int \<times> bool \<Rightarrow> HeadTailParams" where
  "head_tail ht = (case ht of (head, tail, applyTailFirst) \<Rightarrow> \<lparr>ht_Head = head, ht_Tail = tail, ht_ApplyTailFirst = applyTailFirst\<rparr>)"

definition ovnShow :: "'w diag_handler" where
  "ovnShow up params =
     (let p = WrapParams (hp_Arguments params);
          (ns, p1) = Params_OptionalString ''namespace'' ''openshift-ovn-kubernetes'' p;
          (name, p2) = Params_RequiredString ''name'' p1;
          (database, p3) = Params_RequiredString ''database'' p2;
          (ht, p4) = head_tail_args (up_Overflow up) p3
      in check_params ''failed to run ovn show: '' p4
           (ovn_call up params (containerForDatabase database) (OvnShow ns name database (head_tail ht))))"

definition ovnGet :: "'w diag_handler" where
  "ovnGet up params =
     (let p = WrapParams (hp_Arguments params);
          (ns, p1) = Params_OptionalString ''namespace'' ''openshift-ovn-kubernetes'' p;
          (name, p2) = Params_RequiredString ''name'' p1;
          (database, p3) = Params_RequiredString ''database'' p2;
          (tbl, p4) = Params_RequiredString ''table'' p3;
          (row, p5) = Params_OptionalString ''record'' [] p4;
          (columns, p6) = Params_OptionalString ''columns'' [] p5;
          (pat, p7) = Params_OptionalString ''pattern'' [] p6;
          (ht, p8) = head_tail_args (up_Overflow up) p7
      in check_params ''failed to run ovn get: '' p8
           (ovn_call up params (containerForDatabase database) (OvnGet ns name database tbl row columns pat (head_tail ht))))"

definition ovnLFlowList :: "'w diag_handler" where
  "ovnLFlowList up params =
     (let p = WrapParams (hp_Arguments params);
          (ns, p1) = Params_OptionalString ''namespace'' ''openshift-ovn-kubernetes'' p;
          (name, p2) = Params_RequiredString ''name'' p1;
          (datapath, p3) = Params_OptionalString ''datapath'' [] p2;
          (pat, p4) = Params_OptionalString ''pattern'' [] p3;
          (ht, p5) = head_tail_args (up_Overflow up) p4
      in check_params ''failed to run ovn lflow-list: '' p5
           (ovn_call up params ''sbdb'' (ListLogicalFlows ns name datapath pat (head_tail ht))))"

definition ovnTrace :: "'w diag_handler" where
  "ovnTrace up params =
     (let p = WrapParams (hp_Arguments params);
          (ns, p1) = Params_OptionalString ''namespace'' ''openshift-ovn-kubernetes'' p;
          (name, p2) = Params_RequiredString ''name'' p1;
          (datapath, p3) = Params_RequiredString ''datapath'' p2;
          (microflow, p4) = Params_RequiredString ''microflow'' p3;
          (mode, p5) = Params_OptionalString ''mode'' [] p4;
          (pat, p6) = Params_OptionalString ''pattern'' [] p5;
          (ht, p7) = head_tail_args (up_Overflow up) p6
      in check_params ''failed to run ovn trace: '' p7
           (ovn_call up params ''northd'' (OvnTrace ns name datapath microflow mode pat (head_tail ht))))"

section \<open>OVS\<close>

definition newOVSServer ::
  "'w ovn_upstream \<Rightarrow> 'w diag_params \<Rightarrow> (string, ovs_request \<Rightarrow> ('w, json) action) result" where
  "newOVSServer up params =
     up_NewOVS up (\<lambda>ns name _ command. PodsExec (nd_Client (hp_KubernetesClient params) CallerCtx) ns name ''ovn-controller'' command)"

fun slice_strings :: "string \<Rightarrow> nat \<Rightarrow> json list \<Rightarrow> (string, string list) result" where
  "slice_strings key i [] = Inr []"
| "slice_strings key i (JStr s # vs) = bindE (slice_strings key (Suc i) vs) (\<lambda>out. Inr (s # out))"
| "slice_strings key i (_ # vs) = Inl (key @ ''['' @ digits i @ ''] must be a string'')"

definition optionalStringSlice :: "json_object \<Rightarrow> string \<Rightarrow> (string, string list) result" where
  "optionalStringSlice args key = (case arg args key of JArr raw \<Rightarrow> slice_strings key 0 raw | _ \<Rightarrow> Inr [])"

text \<open>Errors leave through \<open>NewToolCallResultStructured\<close> with no result, which has no content.\<close>

definition structured_error :: "'w ovn_upstream \<Rightarrow> string \<Rightarrow> ToolCallResult" where
  "structured_error up err = NewToolCallResultStructured (up_Marshal up) None (Some err)"

definition ovs_call ::
  "'w ovn_upstream \<Rightarrow> 'w diag_params \<Rightarrow> Params \<Rightarrow> ovs_request \<Rightarrow> ('w, ToolCallResult) action" where
  "ovs_call up params p req =
     (case Params_Err p of
        Some err \<Rightarrow> retA (structured_error up err)
      | None \<Rightarrow>
          (case newOVSServer up params of
             Inl err \<Rightarrow> retA (structured_error up err)
           | Inr srv \<Rightarrow>
               bindA (tryA (srv req)) (\<lambda>r. retA (case r of
                 Inl err \<Rightarrow> structured_error up err
               | Inr result \<Rightarrow> NewToolCallResultStructured (up_Marshal up) (Some (OtherKind result)) None))))"

definition ovsVsctl :: "'w diag_handler" where
  "ovsVsctl up params =
     (let p = WrapParams (hp_Arguments params);
          (ns, p1) = Params_RequiredString ''namespace'' p;
          (name, p2) = Params_RequiredString ''name'' p1;
          (act, p3) = Params_RequiredString ''action'' p2;
          (bridge, p4) = Params_OptionalString ''bridge'' [] p3;
          (ht, p5) = head_tail_args (up_Overflow up) p4
      in ovs_call up params p5 (Vsctl ns name act bridge (head_tail ht)))"

definition ovsOfctl :: "'w diag_handler" where
  "ovsOfctl up params =
     (let p = WrapParams (hp_Arguments params);
          (ns, p1) = Params_RequiredString ''namespace'' p;
          (name, p2) = Params_RequiredString ''name'' p1;
          (act, p3) = Params_RequiredString ''action'' p2;
          (bridge, p4) = Params_RequiredString ''bridge'' p3;
          (pat, p5) = Params_OptionalString ''pattern'' [] p4;
          (ht, p6) = head_tail_args (up_Overflow up) p5
      in ovs_call up params p6 (Ofctl ns name act bridge pat (head_tail ht)))"

definition ovsAppctl :: "'w diag_handler" where
  "ovsAppctl up params =
     (case optionalStringSlice (hp_Arguments params) ''additional_params'' of
        Inl err \<Rightarrow> retA (structured_error up err)
      | Inr additionalParams \<Rightarrow>
          (let p = WrapParams (hp_Arguments params);
               (ns, p1) = Params_RequiredString ''namespace'' p;
               (name, p2) = Params_RequiredString ''name'' p1;
               (act, p3) = Params_RequiredString ''action'' p2;
               (bridge, p4) = Params_OptionalString ''bridge'' [] p3;
               (flow, p5) = Params_OptionalString ''flow'' [] p4;
               (pat, p6) = Params_OptionalString ''pattern'' [] p5;
               (ht, p7) = head_tail_args (up_Overflow up) p6
           in ovs_call up params p7 (Appctl ns name act bridge flow additionalParams pat (head_tail ht))))"

section \<open>The tools\<close>

text \<open>\<open>ReadOnlyAnnotations\<close>: read-only, not destructive, in an open world.\<close>

definition read_only_tool ::
  "(string \<Rightarrow> string \<Rightarrow> string) \<Rightarrow> string \<Rightarrow> string \<Rightarrow> bool \<Rightarrow> (string \<times> string) list
   \<Rightarrow> ('w diag_params \<Rightarrow> ('w, ToolCallResult) action) \<Rightarrow> ('w, 'w node_debug_client) ServerTool" where
  "read_only_tool doc name title idempotent props handler =
     core_tool doc name title (Some True) (Some False) (Some idempotent) props handler []"

definition head_tail_props :: "(string \<times> string) list" where
  "head_tail_props = [(''head'', ''integer''), (''tail'', ''integer''), (''apply_tail_first'', ''boolean'')]"

definition timeout_props :: "(string \<times> string) list" where
  "timeout_props = [(''timeout_seconds'', ''integer'')]"

definition initConntrackTool where
  "initConntrackTool doc up =
     read_only_tool doc ''get-conntrack'' ''CNI-Diagnostics: Kernel Connection Tracking'' True
       ([(''node'', ''string''), (''namespace'', ''string''), (''command'', ''string''), (''filter_parameters'', ''string'')]
        @ head_tail_props @ timeout_props) (conntrackHandler up)"

definition initIPtablesTool where
  "initIPtablesTool doc up =
     read_only_tool doc ''get-iptables'' ''CNI-Diagnostics: Kernel IPtables'' True
       ([(''node'', ''string''), (''namespace'', ''string''), (''table'', ''string''), (''command'', ''string''), (''filter_parameters'', ''string'')]
        @ head_tail_props @ timeout_props) (iptablesHandler up)"

definition initNFTTool where
  "initNFTTool doc up =
     read_only_tool doc ''get-nft'' ''CNI-Diagnostics: Kernel NFtables'' True
       ([(''node'', ''string''), (''namespace'', ''string''), (''command'', ''string''), (''address_families'', ''string'')]
        @ head_tail_props @ timeout_props) (nftHandler up)"

definition initIPTool where
  "initIPTool doc up =
     read_only_tool doc ''get-ip'' ''CNI-Diagnostics: Kernel IP Command'' True
       ([(''node'', ''string''), (''namespace'', ''string''), (''options'', ''string''), (''command'', ''string''), (''filter_parameters'', ''string'')]
        @ head_tail_props @ timeout_props) (ipHandler up)"

definition initTcpdumpTool where
  "initTcpdumpTool doc up =
     read_only_tool doc ''tcpdump'' ''CNI-Diagnostics: Network Packet Capture'' False
       ([(''target_type'', ''string''), (''name'', ''string''), (''namespace'', ''string''), (''container_name'', ''string''),
         (''interface'', ''string''), (''packet_count'', ''integer''), (''bpf_filter'', ''string''), (''snaplen'', ''integer'')]
        @ timeout_props) (tcpdumpHandler up)"

definition initPwruTool where
  "initPwruTool doc up =
     read_only_tool doc ''pwru'' ''CNI-Diagnostics: Network eBPF Packet Tracing'' False
       ([(''node_name'', ''string''), (''node_pod_namespace'', ''string''), (''bpf_filter'', ''string''), (''output_limit_lines'', ''integer'')]
        @ timeout_props) (pwruHandler up)"

definition InitKernelTools where
  "InitKernelTools doc up = [initConntrackTool doc up, initIPtablesTool doc up, initNFTTool doc up, initIPTool doc up]"

definition InitNetworkTools where
  "InitNetworkTools doc up = [initTcpdumpTool doc up, initPwruTool doc up]"

definition cni_GetTools ::
  "(string \<Rightarrow> string \<Rightarrow> string) \<Rightarrow> 'w ovn_upstream \<Rightarrow> ('w, 'w node_debug_client) ServerTool list" where
  "cni_GetTools doc up = InitKernelTools doc up @ InitNetworkTools doc up"

definition InitOVNTools ::
  "(string \<Rightarrow> string \<Rightarrow> string) \<Rightarrow> 'w ovn_upstream \<Rightarrow> ('w, 'w node_debug_client) ServerTool list" where
  "InitOVNTools doc up =
     [read_only_tool doc ''ovn_show'' ''OVN: Show'' True
        ([(''namespace'', ''string''), (''name'', ''string''), (''database'', ''string'')] @ head_tail_props) (ovnShow up),
      read_only_tool doc ''ovn_get'' ''OVN: Get'' True
        ([(''namespace'', ''string''), (''name'', ''string''), (''database'', ''string''), (''table'', ''string''), (''record'', ''string''),
          (''columns'', ''string''), (''pattern'', ''string'')] @ head_tail_props) (ovnGet up),
      read_only_tool doc ''ovn_lflow_list'' ''OVN: Logical Flow List'' True
        ([(''namespace'', ''string''), (''name'', ''string''), (''datapath'', ''string''), (''pattern'', ''string'')] @ head_tail_props) (ovnLFlowList up),
      read_only_tool doc ''ovn_trace'' ''OVN: Trace'' True
        ([(''namespace'', ''string''), (''name'', ''string''), (''datapath'', ''string''), (''microflow'', ''string''), (''mode'', ''string''),
          (''pattern'', ''string'')] @ head_tail_props) (ovnTrace up)]"

definition ovs_Tools ::
  "(string \<Rightarrow> string \<Rightarrow> string) \<Rightarrow> 'w ovn_upstream \<Rightarrow> ('w, 'w node_debug_client) ServerTool list" where
  "ovs_Tools doc up =
     [core_tool doc ''ovs_vsctl'' ''OVN-Kubernetes: ovs-vsctl'' (Some True) None None
        ([(''namespace'', ''string''), (''name'', ''string''), (''action'', ''string''), (''bridge'', ''string'')] @ head_tail_props) (ovsVsctl up) [],
      core_tool doc ''ovs_ofctl'' ''OVN-Kubernetes: ovs-ofctl'' (Some True) None None
        ([(''namespace'', ''string''), (''name'', ''string''), (''action'', ''string''), (''bridge'', ''string''), (''pattern'', ''string'')]
         @ head_tail_props) (ovsOfctl up) [],
      core_tool doc ''ovs_appctl'' ''OVN-Kubernetes: ovs-appctl'' (Some True) None None
        ([(''namespace'', ''string''), (''name'', ''string''), (''action'', ''string''), (''bridge'', ''string''), (''flow'', ''string''),
          (''additional_params'', ''array''), (''pattern'', ''string'')] @ head_tail_props) (ovsAppctl up) []]"

definition ovn_GetTools ::
  "(string \<Rightarrow> string \<Rightarrow> string) \<Rightarrow> 'w ovn_upstream \<Rightarrow> ('w, 'w node_debug_client) ServerTool list" where
  "ovn_GetTools doc up = InitOVNTools doc up @ ovs_Tools doc up"

section \<open>Bounds\<close>

text \<open>What the servers may be asked for.\<close>

definition timeout_bounded :: "int \<Rightarrow> bool" where
  "timeout_bounded t \<longleftrightarrow> 0 \<le> t \<and> t \<le> 300"

definition kernel_bounded :: "kernel_request \<Rightarrow> bool" where
  "kernel_bounded r \<longleftrightarrow> timeout_bounded (kr_TimeoutSeconds r) \<and> 0 \<le> ht_Head (kr_HeadTail r) \<and> 0 \<le> ht_Tail (kr_HeadTail r)"

fun net_bounded :: "net_request \<Rightarrow> bool" where
  "net_bounded (Tcpdump r) \<longleftrightarrow>
     timeout_bounded (td_TimeoutSeconds r) \<and> 1 \<le> td_PacketCount r \<and> td_PacketCount r \<le> 1000 \<and> 1 \<le> td_Snaplen r \<and> td_Snaplen r \<le> 1500
   \<and> td_Name r \<noteq> [] \<and> (td_TargetType r = ''node'' \<or> td_TargetType r = ''pod'' \<and> td_Namespace r \<noteq> [])"
| "net_bounded (Pwru r) \<longleftrightarrow> timeout_bounded (pw_TimeoutSeconds r) \<and> 1 \<le> pw_OutputLimitLines r \<and> pw_OutputLimitLines r \<le> 1000"

lemma ValidateTimeout_ok: "ValidateTimeout t = Inr n \<Longrightarrow> timeout_bounded n \<and> n = min t 300"
proof -
  assume a: "ValidateTimeout t = Inr n"
  then have t: "0 \<le> t" and n: "n = uint (word_of_int (min t 300) :: 32 word)"
    by (auto simp: ValidateTimeout_def MaxTimeoutSeconds_def split: if_splits)
  have "n = min t 300" unfolding n using t by (simp add: uint_word_of_int_eq take_bit_int_eq_self_iff)
  then show ?thesis using t by (simp add: timeout_bounded_def)
qed

lemma NormalizeBoundedInt_ok:
  "NormalizeBoundedInt f v m d = Inr n \<Longrightarrow> 1 \<le> d \<Longrightarrow> d \<le> m \<Longrightarrow> 1 \<le> n \<and> n \<le> m"
  by (auto simp: NormalizeBoundedInt_def Let_def split: if_splits)

lemma ValidateHeadTail_ok: "ValidateHeadTail h t a = Inr ht \<Longrightarrow> 0 \<le> ht_Head ht \<and> 0 \<le> ht_Tail ht"
  by (auto simp: ValidateHeadTail_def split: if_splits)

lemma tcpdump_target_ok:
  "tcpdump_target ty name ns = Inr u \<Longrightarrow> name \<noteq> [] \<and> (ty = ''node'' \<or> ty = ''pod'' \<and> ns \<noteq> [])"
  by (auto simp: tcpdump_target_def split: if_splits)

lemma keeps_fail_result_ok: "(\<And>x. r = Inr x \<Longrightarrow> keeps P (f x)) \<Longrightarrow> keeps P (fail_result r f)"
  by (cases r) (simp_all add: fail_result_def keeps_ret)

lemma keeps_ParamsErrorResult: "keeps P m \<Longrightarrow> keeps P (ParamsErrorResult p m)"
  unfolding ParamsErrorResult_def by (rule keeps_check_params)

lemmas diag_intros = keeps_prod keeps_fail_result_ok keeps_ParamsErrorResult keeps_check_params keeps_run_op

lemma kernel_handler_keeps:
  assumes "\<And>img srv req. up_NewKernel up (NewRunDebugNodeCommand (hp_KubernetesClient params)) img = Inr srv
      \<Longrightarrow> kernel_bounded req \<Longrightarrow> keeps P (srv req)"
  shows "keeps P (kernel_handler up params what node ns kop p)"
  unfolding kernel_handler_def Let_def
  by (intro diag_intros assms)
     (auto simp: kernel_bounded_def dest: ValidateTimeout_ok ValidateHeadTail_ok split: prod.splits)

lemma kernel_tools_keep:
  assumes "\<And>img srv req. up_NewKernel up (NewRunDebugNodeCommand (hp_KubernetesClient params)) img = Inr srv
      \<Longrightarrow> kernel_bounded req \<Longrightarrow> keeps P (srv req)"
  shows "t \<in> set (InitKernelTools doc up) \<Longrightarrow> keeps P (st_Handler t params)"
proof -
  have "keeps P (kernel_handler up params what node ns kop p)" for what node ns kop p
    by (rule kernel_handler_keeps) (rule assms)
  then show "t \<in> set (InitKernelTools doc up) \<Longrightarrow> keeps P (st_Handler t params)"
    by (auto simp: InitKernelTools_def initConntrackTool_def initIPtablesTool_def initNFTTool_def initIPTool_def read_only_tool_def
        conntrackHandler_def iptablesHandler_def nftHandler_def ipHandler_def Let_def intro!: keeps_prod)
qed

lemma net_tools_keep:
  assumes "\<And>srv req i1 i2. net_server up params i1 i2 = Inr srv \<Longrightarrow> net_bounded req \<Longrightarrow> keeps P (srv req)"
  shows "t \<in> set (InitNetworkTools doc up) \<Longrightarrow> keeps P (st_Handler t params)"
proof -
  have "keeps P (tcpdumpHandler up params)"
    unfolding tcpdumpHandler_def Let_def
    by (intro diag_intros assms)
       (auto simp: MaxPacketCount_def DefaultPacketCount_def MaxSnaplen_def DefaultSnaplen_def
         dest!: ValidateTimeout_ok tcpdump_target_ok NormalizeBoundedInt_ok)
  moreover have "keeps P (pwruHandler up params)"
    unfolding pwruHandler_def Let_def
    by (intro diag_intros assms)
       (auto simp: MaxOutputLimitLines_def DefaultOutputLimitLines_def dest!: ValidateTimeout_ok NormalizeBoundedInt_ok)
  ultimately show "t \<in> set (InitNetworkTools doc up) \<Longrightarrow> keeps P (st_Handler t params)"
    by (auto simp: InitNetworkTools_def initTcpdumpTool_def initPwruTool_def read_only_tool_def)
qed


section \<open>What diagnostics leave behind\<close>

text \<open>
  The servers act on the cluster through the functions they are given: whatever these keep, answers to
  requests keep.
\<close>

definition through_runners :: "('w \<Rightarrow> bool) \<Rightarrow> 'w ovn_upstream \<Rightarrow> bool" where
  "through_runners P up \<longleftrightarrow>
     (\<forall>run img srv req. up_NewKernel up run img = Inr srv \<longrightarrow> (\<forall>d ns n i c h m t. keeps P (run d ns n i c h m t)) \<longrightarrow> keeps P (srv req))
   \<and> (\<forall>run exec i1 i2 srv req. up_NewNetwork up run exec i1 i2 = Inr srv \<longrightarrow> (\<forall>d ns n i c h m t. keeps P (run d ns n i c h m t))
        \<longrightarrow> (\<forall>ns n co c. keeps P (exec ns n co c)) \<longrightarrow> keeps P (srv req))
   \<and> (\<forall>exec srv req. up_NewOVN up exec = Inr srv \<longrightarrow> (\<forall>ns n co c. keeps P (exec ns n co c)) \<longrightarrow> keeps P (srv req))
   \<and> (\<forall>exec srv req. up_NewOVS up exec = Inr srv \<longrightarrow> (\<forall>ns n co c. keeps P (exec ns n co c)) \<longrightarrow> keeps P (srv req))"

lemma NodesDebugExec_keeps_live:
  assumes "pod_laws live c" "\<And>ns n w. \<exists>w'. nd_PodDelete c cleanup_ctx ns n w = (Inr (), w')"
  shows "keeps (\<lambda>w. live w = L) (NodesDebugExec (c\<lparr>nd_HasDeadline := d\<rparr>) ns node img cmd hp mp t)"
proof -
  let ?c = "c\<lparr>nd_HasDeadline := d\<rparr>"
  have "pod_laws live ?c" using assms(1) by (simp add: pod_laws_def)
  note settles = NodesDebugExec_settles [OF this, of ns node img cmd hp mp t]
  have "\<not> leaked live ?c w w'" for w w'
    using assms(2) by (simp add: leaked_def) (metis fst_conv sum.distinct(1))
  then show ?thesis using settles unfolding settles_def keeps_def by metis
qed

lemma exec_keeps_live:
  "pod_laws live c \<Longrightarrow> keeps (\<lambda>w. live w = L) (PodsExec (nd_Client c ctx) ns name container cmd)"
  by (intro PodsExec_keeps pod_laws_reads pod_laws_exec)

lemma ovn_handlers_keep:
  assumes "through_runners P up" "\<And>ns n co cmd. keeps P (PodsExec (nd_Client (hp_KubernetesClient params) CallerCtx) ns n co cmd)"
  shows "t \<in> set (ovn_GetTools doc up) \<Longrightarrow> keeps P (st_Handler t params)"
proof -
  have "keeps P (srv req)" if "newOVNServer up params container = Inr srv" for srv req container
    using assms that unfolding through_runners_def newOVNServer_def by blast
  then have ovn: "keeps P (ovn_call up params container req)" for container req
    unfolding ovn_call_def by (intro keeps_fail_result_ok keeps_run_op)
  have srv: "keeps P (srv req)" if "newOVSServer up params = Inr srv" for srv req
    using assms that unfolding through_runners_def newOVSServer_def by blast
  have ovs: "keeps P (ovs_call up params p req)" for p req
    unfolding ovs_call_def
    by (cases "newOVSServer up params") (auto intro!: keeps_intros srv split: option.split)
  show "t \<in> set (ovn_GetTools doc up) \<Longrightarrow> keeps P (st_Handler t params)"
    by (auto simp: ovn_GetTools_def InitOVNTools_def ovs_Tools_def read_only_tool_def ovnShow_def ovnGet_def ovnLFlowList_def
        ovnTrace_def ovsVsctl_def ovsOfctl_def ovsAppctl_def Let_def
        intro!: keeps_prod keeps_check_params keeps_sum keeps_ret ovn ovs)
qed


text \<open>Servers that run one command per request, and those that note a request out of bounds.\<close>

definition demo_upstream :: "'w ovn_upstream" where
  "demo_upstream =
     \<lparr>up_NewKernel = (\<lambda>run img. Inr (\<lambda>r. bindA (run True (kr_Namespace r) (kr_Node r) img [''conntrack''] [] [] 0) (\<lambda>(out, _). retA out))),
      up_NewNetwork = (\<lambda>run exec _ _. Inr (\<lambda>_. exec ''a'' ''b'' ''c'' [''tcpdump''])),
      up_NewOVN = (\<lambda>exec. Inr (\<lambda>_. bindA (exec ''a'' ''b'' [] [''ovn-nbctl'']) (\<lambda>(out, _). retA (JStr out)))),
      up_NewOVS = (\<lambda>_. Inl ''no server''), up_Config = (\<lambda>_. None), up_Overflow = (\<lambda>_. 0), up_Marshal = (\<lambda>_. Inr [])\<rparr>"

lemma demo_through_runners: "through_runners P demo_upstream"
  by (auto simp: through_runners_def demo_upstream_def intro!: keeps_intros)

definition demo_diag_params :: "json_object \<Rightarrow> (string \<times> string) list diag_params" where
  "demo_diag_params args = \<lparr>hp_Context = \<lparr>cx_Session = NoSession, cx_Authorization = None, cx_UserAgent = None\<rparr>, hp_BaseConfig = zeroConfig,
     hp_KubernetesClient = pending_client, hp_Arguments = args, hp_ListOutput = None\<rparr>"


definition noting_upstream :: "(string \<times> string) list ovn_upstream" where
  "noting_upstream = demo_upstream
     \<lparr>up_NewKernel := (\<lambda>_ _. Inr (\<lambda>r w. (Inr [], if kernel_bounded r then w else (kr_Node r, kr_Namespace r) # w))),
      up_NewNetwork := (\<lambda>_ _ _ _. Inr (\<lambda>r w. (Inr ([], []), if net_bounded r then w else (''net'', ''net'') # w)))\<rparr>"


section \<open>Read-only servers\<close>

text \<open>
  The tools are annotated as read-only, so a server under \<open>read_only\<close> offers them; yet calling one
  creates a pod with the privileges of the node. Here the world keeps every pod that was created.
\<close>

lemma diagnostics_offered_read_only:
  assumes "c_EnabledTools cfg = None" "c_DisabledTools cfg = None" "t \<in> set (cni_GetTools doc up @ ovn_GetTools doc up)"
  shows "isToolApplicable cfg w t"
  using assms
  by (auto simp: isToolApplicable_iff cni_GetTools_def ovn_GetTools_def InitKernelTools_def InitNetworkTools_def InitOVNTools_def ovs_Tools_def
      initConntrackTool_def initIPtablesTool_def initNFTTool_def initIPTool_def initTcpdumpTool_def initPwruTool_def read_only_tool_def core_tool_def)

definition recording_params :: "(string \<times> string) list diag_params" where
  "recording_params = (demo_diag_params [(''node'', JStr ''w'')])
     \<lparr>hp_KubernetesClient := pending_client\<lparr>nd_PodDelete := (\<lambda>_ _ _. retA ())\<rparr>\<rparr>"

lemma read_only_tool_creates_pod:
  "isToolApplicable (zeroConfig\<lparr>c_ReadOnly := True, c_DisableDestructive := True\<rparr>) [] (hd (cni_GetTools (\<lambda>_ _. []) demo_upstream))"
  "snd (st_Handler (hd (cni_GetTools (\<lambda>_ _. []) demo_upstream)) recording_params []) = [(''default'', ''node-debug-w-x7k2q'')]"
  "dp_Privileged (debug_pod_of ''w'' ''x7k2q'' ns img hp mp)"
proof -
  show "isToolApplicable (zeroConfig\<lparr>c_ReadOnly := True, c_DisableDestructive := True\<rparr>) [] (hd (cni_GetTools (\<lambda>_ _. []) demo_upstream))"
    by (rule diagnostics_offered_read_only [where doc = "\<lambda>_ _. []" and up = demo_upstream])
       (simp_all add: zeroConfig_def cni_GetTools_def InitKernelTools_def)
  show "snd (st_Handler (hd (cni_GetTools (\<lambda>_ _. []) demo_upstream)) recording_params []) = [(''default'', ''node-debug-w-x7k2q'')]"
    by code_simp
qed (simp add: debug_pod_of_def Let_def)

end
