(* ===== verification/Prometheus.thy ===== *)
theory Prometheus
  imports Node_Debug Providers
begin

text \<open>
  The client of Prometheus: \<open>src/pkg/prometheus/client.go\<close> and \<open>options.go\<close>. Options are functions
  on the client. Files, certificate pools, the HTTP transport and the JSON decoder belong to the environment; a pool
  is the list of its certificates.
\<close>

section \<open>Clients and options\<close>

record prom_Client =
  pc_baseURL :: string
  pc_bearerToken :: string
  pc_RootCAs :: "string list option"
  pc_InsecureSkipVerify :: bool
  pc_timeout :: int

text \<open>A request as the transport gets it; the answer is a status, what was read of the body up to one byte above the limit, and an error of reading.\<close>

record prom_request =
  pq_URL :: string
  pq_Authorization :: "string option"
  pq_RootCAs :: "string list option"
  pq_InsecureSkipVerify :: bool
  pq_Timeout :: int

record QueryResult =
  qr_Status :: string
  qr_Result :: json

record 'w prom_env =
  pe_ReadFile :: "string \<Rightarrow> (string, string) result"
  pe_SystemCertPool :: "string list option"
  pe_AppendCertsFromPEM :: "string list \<Rightarrow> string \<Rightarrow> string list option"
  pe_ParseURL :: "string \<Rightarrow> (string, unit) result"
  pe_Do :: "prom_request \<Rightarrow> ('w, nat \<times> string \<times> string option) action"
  pe_Unmarshal :: "string \<Rightarrow> (string, QueryResult) result"

type_synonym prom_option = "prom_Client \<Rightarrow> prom_Client"

definition prom_DefaultTimeout :: int where "prom_DefaultTimeout = 30 * 1000000000"
definition MaxResponseSize :: nat where "MaxResponseSize = 10 * 1024 * 1024"

definition prom_NewClient :: "string \<Rightarrow> prom_option list \<Rightarrow> prom_Client" where
  "prom_NewClient baseURL opts =
     foldl (\<lambda>c opt. opt c)
       \<lparr>pc_baseURL = baseURL, pc_bearerToken = [], pc_RootCAs = None, pc_InsecureSkipVerify = False, pc_timeout = prom_DefaultTimeout\<rparr> opts"

definition WithBearerToken :: "string \<Rightarrow> prom_option" where
  "WithBearerToken token c = c\<lparr>pc_bearerToken := TrimSpace token\<rparr>"

definition WithBearerTokenFromRESTConfig :: "'w prom_env \<Rightarrow> rest_config option \<Rightarrow> prom_option" where
  "WithBearerTokenFromRESTConfig env config c = (case config of
     None \<Rightarrow> c
   | Some cfg \<Rightarrow>
       (if rc_BearerToken cfg \<noteq> [] then c\<lparr>pc_bearerToken := rc_BearerToken cfg\<rparr>
        else if rc_BearerTokenFile cfg \<noteq> [] then
          (case pe_ReadFile env (rc_BearerTokenFile cfg) of Inl _ \<Rightarrow> c | Inr token \<Rightarrow> c\<lparr>pc_bearerToken := TrimSpace token\<rparr>)
        else c))"

text \<open>The system pool, or an empty one, with the certificates of a PEM text.\<close>

definition pool_with :: "'w prom_env \<Rightarrow> string \<Rightarrow> string list option" where
  "pool_with env pem = pe_AppendCertsFromPEM env (case pe_SystemCertPool env of Some p \<Rightarrow> p | None \<Rightarrow> []) pem"

definition cluster_pool :: "'w prom_env \<Rightarrow> rest_config \<Rightarrow> string list option" where
  "cluster_pool env cfg =
     (case (if rc_CAData cfg \<noteq> [] then pool_with env (rc_CAData cfg) else None) of
        Some p \<Rightarrow> Some p
      | None \<Rightarrow>
          (if rc_CAFile cfg \<noteq> [] then
             (case pe_ReadFile env (rc_CAFile cfg) of Inl _ \<Rightarrow> None | Inr caPEM \<Rightarrow> pool_with env caPEM)
           else None))"

definition WithTLSFromRESTConfig :: "'w prom_env \<Rightarrow> rest_config option \<Rightarrow> prom_option" where
  "WithTLSFromRESTConfig env config c = (case config of
     None \<Rightarrow> c
   | Some cfg \<Rightarrow>
       (case cluster_pool env cfg of
          Some p \<Rightarrow> c\<lparr>pc_RootCAs := Some p\<rparr>
        | None \<Rightarrow>
            (case pe_SystemCertPool env of
               Some p \<Rightarrow> c\<lparr>pc_RootCAs := Some p\<rparr>
             | None \<Rightarrow> c\<lparr>pc_InsecureSkipVerify := True\<rparr>)))"

definition WithCustomCA :: "'w prom_env \<Rightarrow> string \<Rightarrow> prom_option" where
  "WithCustomCA env caFile c =
     (let caFile = TrimSpace caFile in
      if caFile = [] then c
      else (case pe_ReadFile env caFile of
              Inl _ \<Rightarrow> c
            | Inr caPEM \<Rightarrow> (case pool_with env caPEM of Some p \<Rightarrow> c\<lparr>pc_RootCAs := Some p\<rparr> | None \<Rightarrow> c)))"

definition WithInsecure :: "bool \<Rightarrow> prom_option" where
  "WithInsecure insecure c = c\<lparr>pc_InsecureSkipVerify := insecure\<rparr>"

definition WithTimeout :: "int \<Rightarrow> prom_option" where
  "WithTimeout timeout c = c\<lparr>pc_timeout := timeout\<rparr>"

section \<open>Requests\<close>

text \<open>\<open>url.QueryEscape\<close>, and \<open>Values.Encode\<close> for values whose keys are in order.\<close>

definition escape_char :: "char \<Rightarrow> string" where
  "escape_char c =
     (if list_ex (\<lambda>x. x = c) ''ABCDEFGHIJKLMNOPQRSTUVWXYZabcdefghijklmnopqrstuvwxyz0123456789-_.~'' then [c]
      else if c = CHR '' '' then ''+''
      else ''%'' @ pad_zero 2 (hex_digits (of_char c)))"

definition QueryEscape :: "string \<Rightarrow> string" where
  "QueryEscape s = concat (map escape_char s)"

definition Values_Encode :: "(string \<times> string) list \<Rightarrow> string" where
  "Values_Encode vs = Join ''&'' (map (\<lambda>(k, v). QueryEscape k @ ''='' @ QueryEscape v) vs)"

definition truncateString :: "string \<Rightarrow> nat \<Rightarrow> string" where
  "truncateString s maxLen = (if length s \<le> maxLen then s else take maxLen s @ ''...'')"

definition prom_request_of :: "prom_Client \<Rightarrow> string \<Rightarrow> (string \<times> string) list \<Rightarrow> prom_request" where
  "prom_request_of c endpoint params =
     \<lparr>pq_URL = pc_baseURL c @ endpoint @ (if params \<noteq> [] then ''?'' @ Values_Encode params else []),
      pq_Authorization = (if pc_bearerToken c \<noteq> [] then Some (''Bearer '' @ pc_bearerToken c) else None),
      pq_RootCAs = pc_RootCAs c, pq_InsecureSkipVerify = pc_InsecureSkipVerify c, pq_Timeout = pc_timeout c\<rparr>"

definition executeRequest :: "'w prom_env \<Rightarrow> prom_Client \<Rightarrow> string \<Rightarrow> (string \<times> string) list \<Rightarrow> ('w, string) action" where
  "executeRequest env c endpoint params =
     (let req = prom_request_of c endpoint params in
      bindA (wrapA ''failed to create request: '' (liftA (pe_ParseURL env (pq_URL req)))) (\<lambda>_.
      bindA (wrapA ''request failed: '' (pe_Do env req)) (\<lambda>(status, content, readErr).
        case readErr of
          Some e \<Rightarrow> failA (''failed to read response: '' @ e)
        | None \<Rightarrow>
            (if length content > MaxResponseSize then
               failA (''response size exceeds maximum of '' @ digits MaxResponseSize @ '' bytes'')
             else if status \<noteq> 200 then failA (''HTTP '' @ digits status @ '': '' @ truncateString content 200)
             else retA content))))"

definition prom_Query :: "'w prom_env \<Rightarrow> prom_Client \<Rightarrow> string \<Rightarrow> string \<Rightarrow> ('w, QueryResult) action" where
  "prom_Query env c query timeStr =
     bindA (executeRequest env c ''/api/v1/query'' ((''query'', query) # (if timeStr \<noteq> [] then [(''time'', timeStr)] else []))) (\<lambda>body.
       wrapA ''failed to parse query response: '' (liftA (pe_Unmarshal env body)))"

definition prom_QueryRange :: "'w prom_env \<Rightarrow> prom_Client \<Rightarrow> string \<Rightarrow> string \<Rightarrow> string \<Rightarrow> string \<Rightarrow> ('w, QueryResult) action" where
  "prom_QueryRange env c query start stop step =
     bindA (executeRequest env c ''/api/v1/query_range'' [(''end'', stop), (''query'', query), (''start'', start), (''step'', step)]) (\<lambda>body.
       wrapA ''failed to parse query_range response: '' (liftA (pe_Unmarshal env body)))"

definition prom_QueryRaw :: "'w prom_env \<Rightarrow> prom_Client \<Rightarrow> string \<Rightarrow> (string \<times> string) list \<Rightarrow> ('w, string) action" where
  "prom_QueryRaw env c endpoint params = executeRequest env c endpoint params"

section \<open>Whom a client trusts\<close>

lemma NewClient_baseURL:
  "(\<And>opt c. opt \<in> set opts \<Longrightarrow> pc_baseURL (opt c) = pc_baseURL c) \<Longrightarrow> pc_baseURL (prom_NewClient baseURL opts) = baseURL"
  unfolding prom_NewClient_def
proof (induction opts rule: rev_induct)
  case (snoc opt opts) then show ?case by simp
qed simp

lemma option_baseURL:
  "pc_baseURL (WithBearerTokenFromRESTConfig env cfg c) = pc_baseURL c" "pc_baseURL (WithTLSFromRESTConfig env cfg c) = pc_baseURL c"
  "pc_baseURL (WithInsecure b c) = pc_baseURL c"
  by (simp_all add: WithBearerTokenFromRESTConfig_def WithTLSFromRESTConfig_def WithInsecure_def split: option.split sum.split)

text \<open>
  Verification of the server is skipped only when the configuration of the cluster says so, or when
  neither its certificates nor those of the system can be loaded. A system that can load its own certificates never skips it.
\<close>

lemma rest_client_verifies:
  assumes "pe_SystemCertPool env \<noteq> None" "\<not> rc_Insecure cfg"
  shows "\<not> pc_InsecureSkipVerify (prom_NewClient url
      ([WithBearerTokenFromRESTConfig env (Some cfg), WithTLSFromRESTConfig env (Some cfg)] @ (if rc_Insecure cfg then [WithInsecure True] else [])))"
  using assms
  by (auto simp: prom_NewClient_def WithBearerTokenFromRESTConfig_def WithTLSFromRESTConfig_def split: option.split sum.split)

lemma unverified_token:
  assumes "pe_SystemCertPool env = None" "rc_CAData cfg = []" "rc_CAFile cfg = []" "rc_BearerToken cfg = token" "token \<noteq> []"
  shows "pq_InsecureSkipVerify (prom_request_of (prom_NewClient url
      [WithBearerTokenFromRESTConfig env (Some cfg), WithTLSFromRESTConfig env (Some cfg)]) endpoint params)"
    "pq_Authorization (prom_request_of (prom_NewClient url
      [WithBearerTokenFromRESTConfig env (Some cfg), WithTLSFromRESTConfig env (Some cfg)]) endpoint params) = Some (''Bearer '' @ token)"
  using assms by (simp_all add: prom_request_of_def prom_NewClient_def WithBearerTokenFromRESTConfig_def WithTLSFromRESTConfig_def cluster_pool_def)

lemma keeps_executeRequest:
  assumes "\<And>params. keeps P (pe_Do env (prom_request_of c endpoint params))"
  shows "keeps P (executeRequest env c endpoint params)"
  unfolding executeRequest_def by (intro keeps_intros assms)

end
