(* ===== verification/Netedge.thy ===== *)
theory Netedge
  imports Prometheus Nested Http_Server
begin

text \<open>
  The toolset for ingress and DNS: \<open>src/pkg/toolsets/netedge/\<close>. Reads of the cluster go through its client; a DNS probe
  runs in a pod of its own; the local probes and Prometheus are reached through transports of the environment.
\<close>

section \<open>Clients\<close>

text \<open>A pod that runs one command without privileges.\<close>

record probe_pod =
  pb_Name :: string
  pb_Namespace :: string
  pb_AutomountServiceAccountToken :: bool
  pb_RestartPolicy :: string
  pb_Container :: string
  pb_Image :: string
  pb_Command :: "string list"
  pb_RunAsNonRoot :: bool
  pb_AllowPrivilegeEscalation :: bool
  pb_Drop :: "string list"
  pb_SeccompProfile :: string
  pb_Requests :: "string \<times> string"
  pb_Limits :: "string \<times> string"

record dns_reply =
  dr_Answers :: "string list"
  dr_Rcode :: string
  dr_Milliseconds :: int

record http_reply =
  hr_StatusCode :: int
  hr_Headers :: json
  hr_Milliseconds :: int

text \<open>
  The client of the cluster and its configuration; the calls on pods (\<open>ne_Ticks\<close> is how often a wait polls before its
  time is over; a stream of logs may fail while it is read); an exchange with a DNS server; an HTTP request, whose
  URL and method are checked when it is built; Prometheus, and the order in which queries sent at once are answered; the encoders.
\<close>

record 'w netedge_client =
  ne_Client :: "'w kube_client"
  ne_RESTConfig :: rest_config
  ne_CreatePod :: "string \<Rightarrow> probe_pod \<Rightarrow> ('w, string) action"
  ne_PodPhase :: "string \<Rightarrow> string \<Rightarrow> ('w, string) action"
  ne_Ticks :: "'w \<Rightarrow> nat"
  ne_LogStream :: "string \<Rightarrow> string \<Rightarrow> ('w, (string, string) result) action"
  ne_DeletePod :: "string \<Rightarrow> string \<Rightarrow> ('w, unit) action"
  ne_Rand :: "('w, string) action"
  ne_Exchange :: "string \<Rightarrow> string \<Rightarrow> string \<Rightarrow> ('w, dns_reply) action"
  ne_KnownType :: "string \<Rightarrow> bool"
  ne_Fqdn :: "string \<Rightarrow> string"
  ne_NewRequest :: "string \<Rightarrow> string \<Rightarrow> (string, unit) result"
  ne_Do :: "int \<Rightarrow> string \<Rightarrow> string \<Rightarrow> ('w, http_reply) action"
  ne_Prom :: "'w prom_env"
  ne_Order :: "(string \<times> string) list \<Rightarrow> (string \<times> string) list"
  ne_Now :: "'w \<Rightarrow> string"
  ne_Marshal :: "structured \<Rightarrow> (string, string) result"
  ne_Yaml :: "json \<Rightarrow> (string, string) result"
  ne_Json :: "json \<Rightarrow> (string, string) result"
  ne_AccessErr :: "json_object \<Rightarrow> string"
  ne_Overflow :: "rat \<Rightarrow> int"

type_synonym 'w netedge_params = "('w, 'w netedge_client) ToolHandlerParams"

text \<open>\<open>params.GetArguments()[key].(string)\<close>, where a failed assertion and the empty string are the same.\<close>

definition text_arg :: "'w netedge_params \<Rightarrow> string \<Rightarrow> string" where
  "text_arg params key = string_at key (hp_Arguments params)"

definition structured_fail :: "'w netedge_client \<Rightarrow> string \<Rightarrow> ('w, ToolCallResult) action" where
  "structured_fail c err = retA (NewToolCallResultStructured (ne_Marshal c) None (Some err))"

definition structured_ok :: "'w netedge_client \<Rightarrow> json_object \<Rightarrow> ToolCallResult" where
  "structured_ok c obj = NewToolCallResultStructured (ne_Marshal c) (Some (OtherKind (JObj obj))) None"

definition fail_structured ::
  "'w netedge_client \<Rightarrow> (string, 'a) result \<Rightarrow> ('a \<Rightarrow> ('w, ToolCallResult) action) \<Rightarrow> ('w, ToolCallResult) action" where
  "fail_structured c r f = (case r of Inl err \<Rightarrow> structured_fail c err | Inr x \<Rightarrow> f x)"

section \<open>DNS in a pod\<close>

text \<open>\<open>net.ParseIP\<close>: dotted decimals, or groups of hexadecimal digits with at most one \<open>::\<close>, the last two of which may be dotted.\<close>

definition is_digit :: "char \<Rightarrow> bool" where
  "is_digit c \<longleftrightarrow> list_ex (\<lambda>x. x = c) ''0123456789''"

definition octet :: "string \<Rightarrow> bool" where
  "octet p \<longleftrightarrow> p \<noteq> [] \<and> length p \<le> 3 \<and> list_all is_digit p \<and> (hd p = CHR ''0'' \<longrightarrow> length p = 1)
     \<and> foldl (\<lambda>n c. 10 * n + (of_char c - 48)) (0 :: nat) p \<le> 255"

definition ipv4 :: "string \<Rightarrow> bool" where
  "ipv4 s \<longleftrightarrow> (let ps = Split (CHR ''.'') s in length ps = 4 \<and> list_all octet ps)"

definition is_hex :: "char \<Rightarrow> bool" where
  "is_hex c \<longleftrightarrow> list_ex (\<lambda>x. x = c) ''0123456789abcdefABCDEF''"

text \<open>The groups still to come, whether \<open>::\<close> was seen, and the rest of the text.\<close>

fun ipv6_groups :: "nat \<Rightarrow> bool \<Rightarrow> string \<Rightarrow> bool" where
  "ipv6_groups 0 ell s = (s = [] \<and> \<not> ell)"
| "ipv6_groups (Suc n) ell s =
     (let g = takeWhile is_hex s in
      g \<noteq> [] \<and> length g \<le> 4
      \<and> (case drop (length g) s of
           [] \<Rightarrow> (if n = 0 then \<not> ell else ell)
         | c # s1 \<Rightarrow>
             (if c = CHR ''.'' then n \<ge> 1 \<and> (if n = 1 then \<not> ell else ell) \<and> ipv4 s
              else if c \<noteq> CHR '':'' \<or> s1 = [] then False
              else if hd s1 = CHR '':'' then \<not> ell \<and> (if tl s1 = [] then n > 0 else ipv6_groups n True (tl s1))
              else ipv6_groups n ell s1)))"

definition ipv6 :: "string \<Rightarrow> bool" where
  "ipv6 s \<longleftrightarrow> (if HasPrefix s ''::'' then drop 2 s = [] \<or> ipv6_groups 8 True (drop 2 s) else ipv6_groups 8 False s)"

definition ParseIP :: "string \<Rightarrow> bool" where
  "ParseIP s \<longleftrightarrow> (case find (\<lambda>c. c = CHR ''.'' \<or> c = CHR '':'' \<or> c = CHR ''%'') s of
     None \<Rightarrow> False
   | Some c \<Rightarrow> (if c = CHR ''.'' then ipv4 s else c = CHR '':'' \<and> CHR ''%'' \<notin> set s \<and> ipv6 s))"

definition dnsProbeImage :: string where "dnsProbeImage = ''registry.redhat.io/openshift4/network-tools-rhel9''"
definition dnsProbePodPrefix :: string where "dnsProbePodPrefix = ''mcp-dns-probe-''"

definition supportedRecordTypes :: "string list" where
  "supportedRecordTypes = [''A'', ''AAAA'', ''ANY'', ''CNAME'', ''MX'', ''NS'', ''PTR'', ''SOA'', ''SRV'', ''TXT'']"

definition not_a_name :: "string \<Rightarrow> bool" where
  "not_a_name name \<longleftrightarrow>
     list_ex (\<lambda>c. c = CHR '' '' \<or> c = CHR 0x09 \<or> c = CHR 0x0D \<or> c = CHR 0x0A) name
     \<or> HasPrefix name ''-'' \<or> HasPrefix name ''+'' \<or> HasPrefix name ''@''"

definition dns_probe_pod :: "string \<Rightarrow> string \<Rightarrow> string \<Rightarrow> string \<Rightarrow> string \<Rightarrow> probe_pod" where
  "dns_probe_pod podName ns targetServer targetName recordType =
     \<lparr>pb_Name = podName, pb_Namespace = ns, pb_AutomountServiceAccountToken = False, pb_RestartPolicy = ''Never'',
      pb_Container = ''dns-probe'', pb_Image = dnsProbeImage,
      pb_Command = [''/usr/bin/dig'', ''@'' @ targetServer, targetName, recordType],
      pb_RunAsNonRoot = True, pb_AllowPrivilegeEscalation = False, pb_Drop = [''ALL''], pb_SeccompProfile = ''RuntimeDefault'',
      pb_Requests = (''50m'', ''64Mi''), pb_Limits = (''100m'', ''128Mi'')\<rparr>"

fun wait_ticks :: "nat \<Rightarrow> string \<Rightarrow> ('w, string) action \<Rightarrow> ('w, string) action" where
  "wait_ticks 0 err phase = failA err"
| "wait_ticks (Suc n) err phase =
     bindA (wrapA ''failed to get pod status: '' phase) (\<lambda>ph.
       if ph = ''Succeeded'' \<or> ph = ''Failed'' then retA ph else wait_ticks n err phase)"

definition WaitForPod :: "'w netedge_client \<Rightarrow> string \<Rightarrow> string \<Rightarrow> ('w, string) action" where
  "WaitForPod c ns name w =
     wait_ticks (ne_Ticks c w) (''timed out waiting for pod '' @ ns @ ''/'' @ name @ '' to complete'') (ne_PodPhase c ns name) w"

definition GetPodLogs :: "'w netedge_client \<Rightarrow> string \<Rightarrow> string \<Rightarrow> ('w, string) action" where
  "GetPodLogs c ns name =
     bindA (wrapA ''failed to get pod logs: '' (ne_LogStream c ns name)) (\<lambda>r.
       wrapA ''failed to read pod logs: '' (liftA r))"

definition use_probe_pod :: "'w netedge_client \<Rightarrow> string \<Rightarrow> string \<Rightarrow> ('w, json_object) action" where
  "use_probe_pod c ns podName =
     bindA (wrapA ''error waiting for DNS probe pod: '' (WaitForPod c ns podName)) (\<lambda>phase.
     bindA (tryA (GetPodLogs c ns podName)) (\<lambda>r.
       retA [(''pod_name'', JStr podName),
             (''output'', JStr (case r of Inl err \<Rightarrow> ''failed to retrieve pod logs: '' @ err | Inr logs \<Rightarrow> logs)),
             (''phase'', JStr phase)]))"

definition run_dns_probe :: "'w netedge_client \<Rightarrow> string \<Rightarrow> string \<Rightarrow> string \<Rightarrow> string \<Rightarrow> ('w, json_object) action" where
  "run_dns_probe c ns targetServer targetName recordType =
     bindA (ne_Rand c) (\<lambda>suffix.
       pod_session
         (wrapA ''failed to create DNS probe pod: '' (ne_CreatePod c ns (dns_probe_pod (dnsProbePodPrefix @ suffix) ns targetServer targetName recordType)))
         (use_probe_pod c ns) (ne_DeletePod c ns))"

definition execDNSInPod :: "'w netedge_params \<Rightarrow> ('w, ToolCallResult) action" where
  "execDNSInPod params =
     (let c = hp_KubernetesClient params; ns = text_arg params ''namespace''; targetServer = text_arg params ''target_server'';
          targetName = text_arg params ''target_name'';
          recordType = (let t = text_arg params ''record_type'' in ToUpper (if t = [] then ''A'' else t))
      in if ns = [] then structured_fail c ''namespace parameter is required''
         else if targetServer = [] then structured_fail c ''target_server parameter is required''
         else if \<not> ParseIP targetServer then structured_fail c ''target_server must be a valid IP address''
         else if targetName = [] then structured_fail c ''target_name parameter is required''
         else if not_a_name targetName then structured_fail c ''target_name must be a DNS name, not a dig option''
         else if recordType \<notin> set supportedRecordTypes then structured_fail c (''unsupported record_type: '' @ recordType)
         else bindA (tryA (run_dns_probe c ns targetServer targetName recordType)) (\<lambda>r. case r of
             Inl err \<Rightarrow> structured_fail c err | Inr obj \<Rightarrow> retA (structured_ok c obj)))"

section \<open>Probes from the server\<close>

definition JoinHostPort :: "string \<Rightarrow> string \<Rightarrow> string" where
  "JoinHostPort host port =
     (if list_ex (\<lambda>c. c = CHR '':'' \<or> c = CHR ''%'') host then ''['' @ host @ '']:'' @ port else host @ '':'' @ port)"

definition probeDNSLocal :: "(string \<Rightarrow> string) \<Rightarrow> 'w netedge_params \<Rightarrow> ('w, ToolCallResult) action" where
  "probeDNSLocal splitErr params =
     (let c = hp_KubernetesClient params; server = text_arg params ''server''; name = text_arg params ''name'';
          typ = (let t = text_arg params ''type'' in if t = [] then ''A'' else t)
      in if server = [] then structured_fail c ''server parameter is required''
         else if name = [] then structured_fail c ''name parameter is required''
         else fail_structured c
           (if SplitHost server \<noteq> None then Inr server
            else if SplitHost (JoinHostPort server ''53'') \<noteq> None then Inr (JoinHostPort server ''53'')
            else Inl (''invalid server address format: '' @ splitErr server)) (\<lambda>addr.
           if \<not> ne_KnownType c (ToUpper typ) then structured_fail c (''invalid or unsupported DNS record type: '' @ typ)
           else bindA (tryA (ne_Exchange c addr (ne_Fqdn c name) (ToUpper typ))) (\<lambda>r. case r of
               Inl err \<Rightarrow> structured_fail c (''DNS query failed: '' @ err)
             | Inr reply \<Rightarrow> retA (structured_ok c
                 [(''answers'', JArr (map (\<lambda>a. JStr (map (\<lambda>x. if x = CHR 0x09 then CHR '' '' else x) a)) (dr_Answers reply))),
                  (''rcode'', JStr (dr_Rcode reply)), (''latency_ms'', JNum (of_int (dr_Milliseconds reply)))]))))"

text \<open>\<open>timeout_seconds\<close> counts if it is a positive number; its fraction is cut off.\<close>

definition probe_timeout :: "(rat \<Rightarrow> int) \<Rightarrow> json_object \<Rightarrow> int" where
  "probe_timeout oor args = (case map_of args ''timeout_seconds'' of
     Some (JNum ts) \<Rightarrow> (if ts > 0 then int64_of_float oor ts else 5)
   | _ \<Rightarrow> 5)"

definition probeHTTP :: "'w netedge_params \<Rightarrow> ('w, ToolCallResult) action" where
  "probeHTTP params =
     (let c = hp_KubernetesClient params; url = text_arg params ''url'';
          method = ToUpper (let m = text_arg params ''method'' in if m = [] then ''GET'' else m)
      in if url = [] then structured_fail c ''url parameter is required''
         else fail_structured c (mapErr (\<lambda>e. ''failed to create HTTP request: '' @ e) (ne_NewRequest c method url)) (\<lambda>_.
           bindA (tryA (ne_Do c (seconds (probe_timeout (ne_Overflow c) (hp_Arguments params))) method url)) (\<lambda>r. case r of
               Inl err \<Rightarrow> structured_fail c (''HTTP request failed: '' @ err)
             | Inr resp \<Rightarrow> retA (structured_ok c
                 [(''status_code'', JNum (of_int (hr_StatusCode resp))), (''headers'', hr_Headers resp),
                  (''latency_ms'', JNum (of_int (hr_Milliseconds resp)))]))))"

section \<open>Objects of the cluster\<close>

text \<open>A nil slice is null.\<close>

definition strings_json :: "string list \<Rightarrow> json" where
  "strings_json xs = (if xs = [] then JNull else JArr (map JStr xs))"

definition json_strings :: "json list \<Rightarrow> string list" where
  "json_strings vs = concat (map (\<lambda>v. case as_string v of Some s \<Rightarrow> [s] | None \<Rightarrow> []) vs)"

definition endpoint_addresses :: "json \<Rightarrow> string list" where
  "endpoint_addresses ep = (case ep of
     JObj m \<Rightarrow> (case map_of m ''addresses'' of Some (JArr addrs) \<Rightarrow> json_strings addrs | _ \<Rightarrow> []) | _ \<Rightarrow> [])"

definition endpoint_nodes :: "json \<Rightarrow> string list" where
  "endpoint_nodes ep = (case ep of
     JObj m \<Rightarrow> (case map_of m ''nodeName'' of Some (JStr nodeName) \<Rightarrow> [nodeName] | _ \<Rightarrow> []) | _ \<Rightarrow> [])"

definition optional_field :: "string \<Rightarrow> ('a \<Rightarrow> json) \<Rightarrow> 'a nested \<Rightarrow> json_object" where
  "optional_field key conv r = (case r of NFound x \<Rightarrow> [(key, conv x)] | _ \<Rightarrow> [])"

definition slice_fields :: "json_object \<Rightarrow> json_object" where
  "slice_fields eps =
     [(''Name'', JStr (obj_GetName eps)), (''Namespace'', JStr (obj_GetNamespace eps))]
     @ (case NestedSlice [''endpoints''] eps of
          NFound endpoints \<Rightarrow>
            [(''Addresses'', strings_json (concat (map endpoint_addresses endpoints))),
             (''NodeNames'', strings_json (concat (map endpoint_nodes endpoints)))]
        | _ \<Rightarrow> [])
     @ optional_field ''Ports'' JArr (NestedSlice [''ports''] eps)"

definition list_options :: "string \<Rightarrow> string \<Rightarrow> ListOptions" where
  "list_options labelSelector fieldSelector = \<lparr>lo_LabelSelector = labelSelector, lo_FieldSelector = fieldSelector, lo_AsTable = False\<rparr>"

definition yaml_text :: "'w netedge_client \<Rightarrow> string \<Rightarrow> json_object \<Rightarrow> ToolCallResult" where
  "yaml_text c what obj = (case ne_Yaml c (JObj obj) of
     Inl err \<Rightarrow> errorResult (''failed to marshal '' @ what @ '' as yaml: '' @ err)
   | Inr txt \<Rightarrow> NewToolCallResult txt None)"

definition getServiceEndpoints :: "'w netedge_params \<Rightarrow> ('w, ToolCallResult) action" where
  "getServiceEndpoints params =
     (let c = hp_KubernetesClient params; args = hp_Arguments params in
      fail_result (RequiredString args ''namespace'') (\<lambda>ns.
      fail_result (RequiredString args ''service'') (\<lambda>serviceName.
        run_op (''failed to list EndpointSlices for service '' @ ns @ ''/'' @ serviceName @ '': '')
          (kc_List (ne_Client c) \<lparr>gvr_Group = ''discovery.k8s.io'', gvr_Version = ''v1'', gvr_Resource = ''endpointslices''\<rparr> ns
             (list_options (''kubernetes.io/service-name='' @ serviceName) []))
          (\<lambda>items. if items = [] then errorResult (''no EndpointSlices found for service '' @ ns @ ''/'' @ serviceName)
             else yaml_text c ''endpoint slices''
               [(''KeyFields'', JArr (map (JObj \<circ> slice_fields) items)), (''RawEndpointSlices'', JArr (map JObj items))]))))"

definition routeGVR :: GroupVersionResource where
  "routeGVR = \<lparr>gvr_Group = ''route.openshift.io'', gvr_Version = ''v1'', gvr_Resource = ''routes''\<rparr>"

definition tlsSensitiveFields :: "string list" where
  "tlsSensitiveFields = [''key'', ''certificate'', ''caCertificate'']"

fun redact_tls :: "string list \<Rightarrow> json_object \<Rightarrow> (string, json_object) result" where
  "redact_tls [] route = Inr route"
| "redact_tls (field # rest) route = (case NestedString [''spec'', ''tls'', field] route of
     NFound _ \<Rightarrow>
       (case set_nested [] [''spec'', ''tls''] field (JStr ''<redacted>'') route of
          Inl err \<Rightarrow> Inl (''failed to redact tls.'' @ field @ '': '' @ err)
        | Inr route1 \<Rightarrow> redact_tls rest route1)
   | _ \<Rightarrow> redact_tls rest route)"

definition route_fields :: "json_object \<Rightarrow> json_object" where
  "route_fields route =
     [(''Name'', JStr (obj_GetName route)), (''Namespace'', JStr (obj_GetNamespace route))]
     @ optional_field ''Host'' JStr (NestedString [''spec'', ''host''] route)
     @ optional_field ''TLS'' JObj (NestedMap [''spec'', ''tls''] route)
     @ optional_field ''To'' JObj (NestedMap [''spec'', ''to''] route)
     @ optional_field ''Port'' JObj (NestedMap [''spec'', ''port''] route)
     @ optional_field ''IngressStatus'' JArr (NestedSlice [''status'', ''ingress''] route)"

definition route_report :: "'w netedge_client \<Rightarrow> json_object \<Rightarrow> ToolCallResult" where
  "route_report c route = (case redact_tls tlsSensitiveFields route of
     Inl err \<Rightarrow> errorResult err
   | Inr sanitizedRoute \<Rightarrow>
       yaml_text c ''route'' [(''KeyFields'', JObj (route_fields sanitizedRoute)), (''RawRoute'', JObj sanitizedRoute)])"

definition inspectRoute :: "'w netedge_params \<Rightarrow> ('w, ToolCallResult) action" where
  "inspectRoute params =
     (let c = hp_KubernetesClient params; args = hp_Arguments params in
      fail_result (RequiredString args ''namespace'') (\<lambda>ns.
      fail_result (RequiredString args ''route'') (\<lambda>routeName.
        run_op (''failed to get route '' @ ns @ ''/'' @ routeName @ '': '')
          (kc_Get (ne_Client c) routeGVR ns routeName []) (route_report c))))"

definition getCoreDNSConfig :: "'w netedge_params \<Rightarrow> ('w, ToolCallResult) action" where
  "getCoreDNSConfig params =
     (let c = hp_KubernetesClient params in
      run_op ''failed to get dns-default ConfigMap: ''
        (kc_Get (ne_Client c) \<lparr>gvr_Group = [], gvr_Version = ''v1'', gvr_Resource = ''configmaps''\<rparr> ''openshift-dns'' ''dns-default'' [])
        (\<lambda>cm. case NestedStringMap [''data''] cm of
            NError \<Rightarrow> errorResult (''failed to parse ConfigMap data: '' @ ne_AccessErr c cm)
          | NMissing \<Rightarrow> errorResult ''ConfigMap has no data''
          | NFound data \<Rightarrow>
              (case map_of data ''Corefile'' of
                 None \<Rightarrow> errorResult ''corefile not found in dns-default ConfigMap''
               | Some corefile \<Rightarrow> NewToolCallResult corefile None)))"

section \<open>Routers\<close>

definition ingressNamespace :: string where "ingressNamespace = ''openshift-ingress''"
definition defaultIngressControllerName :: string where "defaultIngressControllerName = ''default''"
definition routerContainerName :: string where "routerContainerName = ''router''"
definition defaultConfigTailLines :: int where "defaultConfigTailLines = 200"
definition defaultSessionLimit :: int where "defaultSessionLimit = 50"

definition podGVR :: GroupVersionResource where
  "podGVR = \<lparr>gvr_Group = [], gvr_Version = ''v1'', gvr_Resource = ''pods''\<rparr>"

definition haproxySectionKeywords :: "string list" where
  "haproxySectionKeywords = [''global'', ''defaults'', ''frontend'', ''backend'', ''listen'']"

definition configSectionType :: "string \<Rightarrow> string" where
  "configSectionType line =
     (case find (\<lambda>kw. HasPrefix line kw
         \<and> (length line = length kw \<or> line ! length kw = CHR '' '' \<or> line ! length kw = CHR 0x09)) haproxySectionKeywords of
        Some kw \<Rightarrow> kw
      | None \<Rightarrow> [])"

text \<open>\<open>xs[len(xs)-int(n):]\<close> and \<open>xs[:n]\<close> in 64-bit arithmetic; out of range is a panic, the value \<open>None\<close>.\<close>

definition slice_from_end :: "'a list \<Rightarrow> int \<Rightarrow> 'a list option" where
  "slice_from_end xs n =
     (let i = sint (word_of_int (int (length xs) - n) :: 64 word) in
      if 0 \<le> i \<and> i \<le> int (length xs) then Some (drop (nat i) xs) else None)"

definition slice_to :: "'a list \<Rightarrow> int \<Rightarrow> 'a list option" where
  "slice_to xs n = (if 0 \<le> n \<and> n \<le> int (length xs) then Some (take (nat n) xs) else None)"

text \<open>The lines of the sections whose header is asked for; lines before the first header belong to none.\<close>

definition header_matches :: "string \<Rightarrow> string \<Rightarrow> string \<Rightarrow> bool" where
  "header_matches sec flt line \<longleftrightarrow>
     (sec = [] \<or> configSectionType line = sec) \<and> (flt = [] \<or> Contains (ToLower line) (ToLower flt))"

fun section_lines :: "string \<Rightarrow> string \<Rightarrow> bool \<Rightarrow> string list \<Rightarrow> string list" where
  "section_lines sec flt inc [] = []"
| "section_lines sec flt inc (line # lines) =
     (let inc1 = (if configSectionType line \<noteq> [] then header_matches sec flt line else inc) in
      (if inc1 then [line] else []) @ section_lines sec flt inc1 lines)"

text \<open>The lines shown, the number of all lines, and whether some are left out.\<close>

definition truncateConfigOutput :: "string \<Rightarrow> int \<Rightarrow> string \<Rightarrow> string \<Rightarrow> (string list \<times> nat \<times> bool) option" where
  "truncateConfigOutput output tailLines sec flt =
     (if output = [] then Some ([], 0, False)
      else
        (let allLines = Split (CHR 0x0A) output;
             resultLines = (if sec = [] \<and> flt = [] then allLines else section_lines sec flt False allLines)
         in if int (length resultLines) \<le> tailLines then Some (resultLines, length allLines, False)
            else map_option (\<lambda>result. (result, length allLines, True)) (slice_from_end resultLines tailLines)))"

text \<open>A session is a line that begins with \<open>0x\<close> and the lines up to the next; lines before the first belong to none.\<close>

fun session_blocks :: "string list list \<Rightarrow> string list \<Rightarrow> string list \<Rightarrow> string list list" where
  "session_blocks blocks current [] = (if current \<noteq> [] then blocks @ [current] else blocks)"
| "session_blocks blocks current (line # lines) =
     (if HasPrefix line ''0x'' then session_blocks (if current \<noteq> [] then blocks @ [current] else blocks) [line] lines
      else session_blocks blocks (if current \<noteq> [] then current @ [line] else current) lines)"

definition blockContainsSubstring :: "string list \<Rightarrow> string \<Rightarrow> bool" where
  "blockContainsSubstring block substr \<longleftrightarrow> list_ex (\<lambda>line. Contains (ToLower line) substr) block"

definition truncateSessionsOutput :: "string \<Rightarrow> int \<Rightarrow> string \<Rightarrow> (string list list \<times> nat \<times> bool) option" where
  "truncateSessionsOutput output limit flt =
     (if output = [] then Some ([], 0, False)
      else
        (let blocks = session_blocks [] [] (Split (CHR 0x0A) output);
             kept = (if flt \<noteq> [] then filter (\<lambda>b. blockContainsSubstring b (ToLower flt)) blocks else blocks)
         in if int (length kept) > limit then map_option (\<lambda>bs. (bs, length blocks, True)) (slice_to kept limit)
            else Some (kept, length blocks, False)))"

definition getAnyRouterPod :: "'w netedge_client \<Rightarrow> string \<Rightarrow> ('w, string) action" where
  "getAnyRouterPod c icName =
     bindA (wrapA ''failed to list router pods: ''
       (kc_List (ne_Client c) podGVR ingressNamespace
          (list_options (''ingresscontroller.operator.openshift.io/deployment-ingresscontroller='' @ icName) ''status.phase=Running''))) (\<lambda>items.
       case items of pod # _ \<Rightarrow> retA (obj_GetName pod) | [] \<Rightarrow> failA ''no running router pod found'')"

definition md_lines :: "string list \<Rightarrow> string" where
  "md_lines ls = Join [CHR 0x0A] ls"

definition fence :: string where "fence = [CHR 0x60, CHR 0x60, CHR 0x60]"

text \<open>
  What the tools share: the pod asked for or any one, a command in its container, and a report of what the
  command wrote. The body of a report may panic, which is an error of the action.
\<close>

definition router_report ::
  "'w netedge_client \<Rightarrow> string \<Rightarrow> string \<Rightarrow> string list \<Rightarrow> string \<Rightarrow> (string \<Rightarrow> string list option) \<Rightarrow> ('w, ToolCallResult) action" where
  "router_report c title what command pod0 render =
     bindA (tryA (if pod0 = [] then getAnyRouterPod c defaultIngressControllerName else retA pod0)) (\<lambda>r. case r of
         Inl err \<Rightarrow> retA (NewToolCallResult (md_lines [''# '' @ title, ''Error getting router pod: '' @ err]) (Some err))
       | Inr pod \<Rightarrow>
           (let header = ''# '' @ title @ '' (pod: '' @ pod @ '')'' in
            bindA (tryA (PodsExec (ne_Client c) ingressNamespace pod routerContainerName command)) (\<lambda>r. case r of
                Inl err \<Rightarrow> retA (NewToolCallResult (md_lines [header, ''Error '' @ what @ '' from pod '' @ Quote pod @ '': '' @ err]) (Some err))
              | Inr (out, _) \<Rightarrow>
                  (case render out of
                     None \<Rightarrow> failA ''panic: runtime error: slice bounds out of range''
                   | Some ls \<Rightarrow> retA (NewToolCallResult (md_lines (header # ls)) None)))))"

definition backquoted :: "string \<Rightarrow> string" where
  "backquoted s = [CHR 0x60] @ s @ [CHR 0x60]"

definition render_config :: "int \<Rightarrow> string \<Rightarrow> string \<Rightarrow> string \<Rightarrow> string list option" where
  "render_config tailLines sec flt out =
     map_option (\<lambda>(shown, totalLines, wasTruncated).
       (if wasTruncated then
          [''**Output truncated**: showing '' @ digits (length shown) @ '' of '' @ digits totalLines @ '' total lines. Use '' @ backquoted ''section''
           @ '', '' @ backquoted ''filter'' @ '', or increase '' @ backquoted ''tail_lines'' @ '' to refine.'']
        else if sec \<noteq> [] \<or> flt \<noteq> [] then
          [''Showing '' @ digits (length shown) @ '' lines (filtered from '' @ digits totalLines @ '' total).'']
        else [])
       @ [fence, Join [CHR 0x0A] shown, fence]) (truncateConfigOutput out tailLines sec flt)"

definition getRouterConfig :: "'w netedge_params \<Rightarrow> ('w, ToolCallResult) action" where
  "getRouterConfig params =
     (let c = hp_KubernetesClient params;
          (pod, p1) = Params_OptionalString ''pod'' [] (WrapParams (hp_Arguments params));
          (tailLines, p2) = Params_OptionalInt64 (ne_Overflow c) ''tail_lines'' defaultConfigTailLines p1;
          (sec, p3) = Params_OptionalString ''section'' [] p2;
          (flt, p4) = Params_OptionalString ''filter'' [] p3
      in check_params ''invalid parameters: '' p4
           (router_report c ''Router configuration'' ''showing router configuration'' [''cat'', ''/var/lib/haproxy/conf/haproxy.config''] pod
              (render_config tailLines sec flt)))"

definition admin_command :: "string \<Rightarrow> string list" where
  "admin_command cmd = [''sh'', ''-c'', ''echo '' @ [CHR 0x27] @ cmd @ [CHR 0x27] @ '' | socat stdio /var/lib/haproxy/run/haproxy.sock'']"

definition getRouterInfo :: "'w netedge_params \<Rightarrow> ('w, ToolCallResult) action" where
  "getRouterInfo params =
     (let (pod, p1) = Params_OptionalString ''pod'' [] (WrapParams (hp_Arguments params)) in
      check_params ''invalid parameters: '' p1
        (router_report (hp_KubernetesClient params) ''Router HAProxy info'' ''getting HAProxy info'' (admin_command ''show info'') pod
           (\<lambda>out. Some [fence, out, fence])))"

definition render_sessions :: "int \<Rightarrow> string \<Rightarrow> string \<Rightarrow> string list option" where
  "render_sessions limit flt out =
     map_option (\<lambda>(shown, totalSessions, wasTruncated).
       (if wasTruncated then
          [''**Output truncated**: showing '' @ digits (length shown) @ '' of '' @ digits totalSessions @ '' total sessions. Use '' @ backquoted ''filter''
           @ '' to narrow results or increase '' @ backquoted ''limit'' @ '' to see more.'']
        else if flt \<noteq> [] then
          [''Showing '' @ digits (length shown) @ '' sessions (filtered from '' @ digits totalSessions @ '' total).'']
        else [])
       @ [fence, Join [CHR 0x0A] (concat shown), fence]) (truncateSessionsOutput out limit flt)"

definition getRouterSessions :: "'w netedge_params \<Rightarrow> ('w, ToolCallResult) action" where
  "getRouterSessions params =
     (let c = hp_KubernetesClient params;
          (pod, p1) = Params_OptionalString ''pod'' [] (WrapParams (hp_Arguments params));
          (limit, p2) = Params_OptionalInt64 (ne_Overflow c) ''limit'' defaultSessionLimit p1;
          (flt, p3) = Params_OptionalString ''filter'' [] p2
      in check_params ''invalid parameters: '' p3
           (router_report c ''Router active sessions'' ''getting active sessions'' (admin_command ''show sess all'') pod (render_sessions limit flt)))"

section \<open>Queries to Prometheus\<close>

definition thanosQuerierRoute :: string where "thanosQuerierRoute = ''thanos-querier''"
definition defaultMonitoringNamespace :: string where "defaultMonitoringNamespace = ''openshift-monitoring''"

definition dquoted :: "string \<Rightarrow> string" where
  "dquoted s = [CHR 0x22] @ s @ [CHR 0x22]"

definition diagnostic_queries :: "string \<Rightarrow> (string \<times> string) list option" where
  "diagnostic_queries target =
     (if target = ''ingress'' then Some
        [(''ingress_error_rate'', ''sum(rate(haproxy_server_http_responses_total{code!~'' @ dquoted ''2..'' @ ''}[5m]))''),
         (''ingress_active_conns'', ''sum(haproxy_backend_connections_active_total)''),
         (''ingress_reloads_last_day'', ''changes(haproxy_server_start_time_seconds[1d])''),
         (''ingress_top_error_routes'', ''topk(5, sum by (route) (rate(haproxy_server_http_responses_total{code!~'' @ dquoted ''2..'' @ ''}[5m])))'')]
      else if target = ''dns'' then Some
        [(''dns_request_rate'', ''sum(rate(coredns_dns_request_count_total[5m]))''),
         (''dns_nxdomain_rate'', ''sum(rate(coredns_dns_request_count_total{rcode='' @ dquoted ''NXDOMAIN'' @ ''}[5m]))''),
         (''dns_servfail_rate'', ''sum(rate(coredns_dns_request_count_total{rcode='' @ dquoted ''SERVFAIL'' @ ''}[5m]))''),
         (''dns_panic_recovery'', ''sum(rate(coredns_panic_count_total[5m]))''),
         (''dns_error_breakdown'', ''sum by (rcode) (rate(coredns_dns_request_count_total{rcode!='' @ dquoted ''NOERROR'' @ ''}[5m]))''),
         (''dns_rewrite_count'', ''sum(rate(coredns_plugin_rewrite_request_count_total[5m]))'')]
      else if target = ''operators'' then Some
        [(''active_alerts'', ''ALERTS{alertstate='' @ dquoted ''firing'' @ '', namespace=~'' @ dquoted ''openshift-ingress-operator|openshift-dns'' @ ''}''),
         (''operator_up'', ''up{job=~'' @ dquoted ''cluster-ingress-operator|dns-operator'' @ ''}'')]
      else None)"

definition getRouteURL :: "'w netedge_client \<Rightarrow> string \<Rightarrow> string \<Rightarrow> ('w, string) action" where
  "getRouteURL c routeName ns =
     bindA (wrapA (''failed to get route '' @ ns @ ''/'' @ routeName @ '': '') (kc_Get (ne_Client c) routeGVR ns routeName [])) (\<lambda>route.
       case NestedString [''spec'', ''host''] route of
         NError \<Rightarrow> failA (''failed to read route host: '' @ ne_AccessErr c route)
       | NMissing \<Rightarrow> failA (''route '' @ ns @ ''/'' @ routeName @ '' has no host configured'')
       | NFound host \<Rightarrow>
           (if host = [] then failA (''route '' @ ns @ ''/'' @ routeName @ '' has no host configured'') else retA (''https://'' @ host)))"

definition cluster_prom_client :: "'w netedge_client \<Rightarrow> string \<Rightarrow> prom_Client" where
  "cluster_prom_client c baseURL =
     prom_NewClient baseURL
       ([WithBearerTokenFromRESTConfig (ne_Prom c) (Some (ne_RESTConfig c)), WithTLSFromRESTConfig (ne_Prom c) (Some (ne_RESTConfig c))]
        @ (if rc_Insecure (ne_RESTConfig c) then [WithInsecure True] else []))"

text \<open>One query with its result or error.\<close>

definition diagnostic_result :: "'w netedge_client \<Rightarrow> prom_Client \<Rightarrow> string \<times> string \<Rightarrow> ('w, json) action" where
  "diagnostic_result c client nq = (\<lambda>w.
     bindA (tryA (prom_Query (ne_Prom c) client (snd nq) [])) (\<lambda>r.
       retA (JObj ([(''name'', JStr (fst nq)), (''query'', JStr (snd nq))]
         @ (case r of Inl err \<Rightarrow> (if err \<noteq> [] then [(''error'', JStr err)] else []) | Inr res \<Rightarrow> [(''result'', qr_Result res)])
         @ [(''timestamp'', JStr (ne_Now c w))]))) w)"

definition handleDiagnosticTarget :: "'w netedge_params \<Rightarrow> string \<Rightarrow> ('w, ToolCallResult) action" where
  "handleDiagnosticTarget params target =
     (let c = hp_KubernetesClient params in
      case diagnostic_queries target of
        None \<Rightarrow> retA (errorResult (''unknown diagnostic target: '' @ target))
      | Some queries \<Rightarrow>
          bindA (tryA (getRouteURL c thanosQuerierRoute defaultMonitoringNamespace)) (\<lambda>r. case r of
              Inl err \<Rightarrow> retA (errorResult (''failed to get Thanos Querier route: '' @ err))
            | Inr baseURL \<Rightarrow>
                bindA (forA (ne_Order c queries) (diagnostic_result c (cluster_prom_client c baseURL))) (\<lambda>results.
                  retA (case ne_Json c (JArr results) of
                      Inl err \<Rightarrow> errorResult (''failed to marshal diagnostic results: '' @ err)
                    | Inr txt \<Rightarrow> NewToolCallResult txt None))))"

definition queryPrometheusHandler :: "'w netedge_params \<Rightarrow> ('w, ToolCallResult) action" where
  "queryPrometheusHandler params =
     (let target = text_arg params ''diagnostic_target'' in
      if target = [] then retA (errorResult ''diagnostic_target is required'') else handleDiagnosticTarget params target)"

section \<open>The toolset\<close>

definition netedge_ToolsetName :: string where "netedge_ToolsetName = ''netedge''"

text \<open>Tools that do not change the cluster; those that do not need one have no argument for it.\<close>

definition probe_tool where
  "probe_tool doc name title props handler = core_tool doc name title (Some True) (Some False) None props handler []"

definition InitQueryPrometheus :: "(string \<Rightarrow> string \<Rightarrow> string) \<Rightarrow> ('w, 'w netedge_client) ServerTool list" where
  "InitQueryPrometheus doc =
     [core_tool doc (netedge_ToolsetName @ ''_query_prometheus'') ''NetEdge Diagnostics'' (Some True) (Some False) (Some True)
        [(''diagnostic_target'', ''string'')] queryPrometheusHandler []]"

definition initCoreDNS :: "(string \<Rightarrow> string \<Rightarrow> string) \<Rightarrow> ('w, 'w netedge_client) ServerTool list" where
  "initCoreDNS doc = [probe_tool doc ''get_coredns_config'' ''Get CoreDNS Config'' [] getCoreDNSConfig]"

definition initEndpoints :: "(string \<Rightarrow> string \<Rightarrow> string) \<Rightarrow> ('w, 'w netedge_client) ServerTool list" where
  "initEndpoints doc =
     [probe_tool doc ''get_service_endpoints'' ''Get Service Endpoints'' [(''namespace'', ''string''), (''service'', ''string'')] getServiceEndpoints]"

definition initProbeDNSLocal :: "(string \<Rightarrow> string \<Rightarrow> string) \<Rightarrow> (string \<Rightarrow> string) \<Rightarrow> ('w, 'w netedge_client) ServerTool list" where
  "initProbeDNSLocal doc splitErr =
     [(probe_tool doc ''probe_dns_local'' ''Probe DNS (Local)'' [(''server'', ''string''), (''name'', ''string''), (''type'', ''string'')]
         (probeDNSLocal splitErr))\<lparr>st_ClusterAware := Some False\<rparr>]"

definition initProbeHTTP :: "(string \<Rightarrow> string \<Rightarrow> string) \<Rightarrow> ('w, 'w netedge_client) ServerTool list" where
  "initProbeHTTP doc =
     [(probe_tool doc ''probe_http'' ''Probe HTTP'' [(''url'', ''string''), (''method'', ''string''), (''timeout_seconds'', ''integer'')]
         probeHTTP)\<lparr>st_ClusterAware := Some False\<rparr>]"

definition initRoutes :: "(string \<Rightarrow> string \<Rightarrow> string) \<Rightarrow> ('w, 'w netedge_client) ServerTool list" where
  "initRoutes doc = [probe_tool doc ''inspect_route'' ''Inspect Route'' [(''namespace'', ''string''), (''route'', ''string'')] inspectRoute]"

definition initExecDNSInPod :: "(string \<Rightarrow> string \<Rightarrow> string) \<Rightarrow> ('w, 'w netedge_client) ServerTool list" where
  "initExecDNSInPod doc =
     [core_tool doc ''exec_dns_in_pod'' ''Exec DNS in Pod'' (Some False) (Some False) (Some False)
        [(''namespace'', ''string''), (''target_server'', ''string''), (''target_name'', ''string''), (''record_type'', ''string'')] execDNSInPod []]"

definition initRouter :: "(string \<Rightarrow> string \<Rightarrow> string) \<Rightarrow> ('w, 'w netedge_client) ServerTool list" where
  "initRouter doc =
     [probe_tool doc ''get_router_config'' ''Get Router Config''
        [(''pod'', ''string''), (''tail_lines'', ''integer''), (''section'', ''string''), (''filter'', ''string'')] getRouterConfig,
      probe_tool doc ''get_router_info'' ''Get Router Info'' [(''pod'', ''string'')] getRouterInfo,
      probe_tool doc ''get_router_sessions'' ''Get Router Sessions''
        [(''pod'', ''string''), (''limit'', ''integer''), (''filter'', ''string'')] getRouterSessions]"

definition netedge_GetTools :: "(string \<Rightarrow> string \<Rightarrow> string) \<Rightarrow> (string \<Rightarrow> string) \<Rightarrow> ('w, 'w netedge_client) ServerTool list" where
  "netedge_GetTools doc splitErr =
     InitQueryPrometheus doc @ initCoreDNS doc @ initEndpoints doc @ initProbeDNSLocal doc splitErr @ initProbeHTTP doc
     @ initRoutes doc @ initExecDNSInPod doc @ initRouter doc"

section \<open>What a DNS probe does to the cluster\<close>

definition probe_reads :: "('w \<Rightarrow> bool) \<Rightarrow> 'w netedge_client \<Rightarrow> bool" where
  "probe_reads P c \<longleftrightarrow>
     (\<forall>ns name. keeps P (ne_PodPhase c ns name)) \<and> (\<forall>ns name. keeps P (ne_LogStream c ns name)) \<and> keeps P (ne_Rand c)"

text \<open>A pod is created under a name that is free, or not at all; a deletion removes that pod, or fails; nothing else changes them.\<close>

definition probe_laws :: "('w \<Rightarrow> (string \<times> string) set) \<Rightarrow> 'w netedge_client \<Rightarrow> bool" where
  "probe_laws live c \<longleftrightarrow>
     (\<forall>L. probe_reads (\<lambda>w. live w = L) c)
   \<and> (\<forall>ns pod w. case ne_CreatePod c ns pod w of (Inl _, w') \<Rightarrow> live w' = live w
        | (Inr name, w') \<Rightarrow> (ns, name) \<notin> live w \<and> live w' = insert (ns, name) (live w))
   \<and> (\<forall>ns name w. case ne_DeletePod c ns name w of (Inl _, w') \<Rightarrow> live w' = live w | (Inr _, w') \<Rightarrow> live w' = live w - {(ns, name)})"

lemma wait_ticks_keeps: "keeps P phase \<Longrightarrow> keeps P (wait_ticks n err phase)"
  by (induction n) (auto intro!: keeps_intros)

lemma WaitForPod_keeps: "probe_reads P c \<Longrightarrow> keeps P (WaitForPod c ns name)"
  using wait_ticks_keeps [of P "ne_PodPhase c ns name"] by (simp add: keeps_def WaitForPod_def probe_reads_def)

lemma use_probe_pod_keeps: "probe_reads P c \<Longrightarrow> keeps P (use_probe_pod c ns name)"
  unfolding use_probe_pod_def GetPodLogs_def by (intro keeps_intros WaitForPod_keeps) (auto simp: probe_reads_def)

lemma run_dns_probe_keeps:
  assumes "probe_reads P c" "\<And>podName. keeps P (ne_CreatePod c ns (dns_probe_pod podName ns ip name typ))" "\<And>podName. keeps P (ne_DeletePod c ns podName)"
  shows "keeps P (run_dns_probe c ns ip name typ)"
  unfolding run_dns_probe_def pod_session_def using assms
  by (intro keeps_intros use_probe_pod_keeps) (auto simp: probe_reads_def)

lemma wrapped_create:
  assumes "case m w of (Inl _, w') \<Rightarrow> P w' | (Inr name, w') \<Rightarrow> Q name w'"
  shows "case wrapA msg m w of (Inl _, w') \<Rightarrow> P w' | (Inr name, w') \<Rightarrow> Q name w'"
  using assms by (auto simp: wrapA_def split: prod.splits sum.splits)

definition settled :: "('w \<Rightarrow> (string \<times> string) set) \<Rightarrow> 'w netedge_client \<Rightarrow> ('w, 'a) action \<Rightarrow> 'w \<Rightarrow> bool" where
  "settled live c m w \<longleftrightarrow> live (snd (m w)) = live w
     \<or> (\<exists>ns name w1 e. live (snd (m w)) = insert (ns, name) (live w) \<and> fst (ne_DeletePod c ns name w1) = Inl e)"

lemma run_dns_probe_settled:
  assumes "probe_laws live c"
  shows "settled live c (run_dns_probe c ns ip name typ) w"
proof -
  obtain r w1 where r: "ne_Rand c w = (r, w1)" by fastforce
  have w1: "live w1 = live w"
    using assms r unfolding probe_laws_def probe_reads_def keeps_def by (metis snd_conv)
  have create: "case wrapA msg (ne_CreatePod c ns pod) w1 of (Inl _, w') \<Rightarrow> live w' = live w1
      | (Inr name, w') \<Rightarrow> (ns, name) \<notin> live w1 \<and> live w' = insert (ns, name) (live w1)" for msg pod
    by (rule wrapped_create) (use assms in \<open>simp add: probe_laws_def\<close>)
  have "live (snd (pod_session (wrapA msg (ne_CreatePod c ns pod)) (use_probe_pod c ns) (ne_DeletePod c ns) w1)) = live w1
    \<or> (\<exists>name w2 e. live (snd (pod_session (wrapA msg (ne_CreatePod c ns pod)) (use_probe_pod c ns) (ne_DeletePod c ns) w1))
          = insert (ns, name) (live w1) \<and> fst (ne_DeletePod c ns name w2) = Inl e)" for msg pod
    by (rule pod_session_live [where live = live and create = "wrapA msg (ne_CreatePod c ns pod)" and w = w1, OF create]) (use assms in \<open>auto simp: probe_laws_def intro: use_probe_pod_keeps\<close>)
  then have session: "settled live c (pod_session (wrapA msg (ne_CreatePod c ns pod)) (use_probe_pod c ns) (ne_DeletePod c ns)) w1" for msg pod
    unfolding settled_def by blast
  show ?thesis
  proof (cases r)
    case (Inl e) then show ?thesis using w1 by (simp add: settled_def run_dns_probe_def bindA_Inl r)
  next
    case (Inr suffix) then show ?thesis using w1 session by (simp add: settled_def run_dns_probe_def bindA_Inr r)
  qed
qed

lemma settled_try: "settled live c m w \<Longrightarrow> settled live c (bindA (tryA m) (\<lambda>r. retA (f r))) w"
  by (simp add: settled_def bindA_def tryA_def retA_def case_prod_beta)

text \<open>The two ways a call ends: at a check of its arguments, or with a probe.\<close>

definition probe_args :: "string \<Rightarrow> string \<Rightarrow> string \<Rightarrow> bool" where
  "probe_args ip name typ \<longleftrightarrow> ParseIP ip \<and> name \<noteq> [] \<and> \<not> not_a_name name \<and> typ \<in> set supportedRecordTypes"

lemma ex_ret: "(\<exists>res. (if b then retA x else m) = retA res) \<longleftrightarrow> b \<or> (\<exists>res. m = retA res)"
  by auto

lemma execDNSInPod_cases:
  obtains (refused) res where "execDNSInPod params = retA res"
  | (probed) ns ip name ty f where "ns \<noteq> []" "probe_args ip name ty"
      "execDNSInPod params = bindA (tryA (run_dns_probe (hp_KubernetesClient params) ns ip name ty)) (\<lambda>r. retA (f r))"
proof -
  let ?c = "hp_KubernetesClient params" and ?ns = "text_arg params ''namespace''" and ?ip = "text_arg params ''target_server''"
  let ?name = "text_arg params ''target_name''" and ?t = "text_arg params ''record_type''"
  let ?ty = "ToUpper (if ?t = [] then ''A'' else ?t)"
  have final: "(\<lambda>r. case r of Inl err \<Rightarrow> structured_fail ?c err | Inr obj \<Rightarrow> retA (structured_ok ?c obj))
      = (\<lambda>r. retA (case r of Inl err \<Rightarrow> NewToolCallResultStructured (ne_Marshal ?c) None (Some err) | Inr obj \<Rightarrow> structured_ok ?c obj))"
    by (auto simp: fun_eq_iff structured_fail_def split: sum.split)
  show thesis
  proof (cases "?ns \<noteq> [] \<and> ?ip \<noteq> [] \<and> probe_args ?ip ?name ?ty")
    case True
    then have "execDNSInPod params = bindA (tryA (run_dns_probe ?c ?ns ?ip ?name ?ty))
        (\<lambda>r. case r of Inl err \<Rightarrow> structured_fail ?c err | Inr obj \<Rightarrow> retA (structured_ok ?c obj))"
      by (simp add: execDNSInPod_def Let_def probe_args_def)
    then show thesis using True unfolding final by (intro probed) auto
  next
    case False
    then have "\<exists>res. execDNSInPod params = retA res"
      unfolding execDNSInPod_def Let_def structured_fail_def probe_args_def ex_ret by blast
    then show thesis using refused by blast
  qed
qed

text \<open>
  C31: a DNS probe runs \<open>dig\<close> and nothing else in the cluster. The only pods the tool creates run
  \<open>/usr/bin/dig @ip name type\<close>, without a shell, without privileges and without the token of a service account, for
  an IP address, a name that \<open>dig\<close> cannot take for an option, and one of ten record types: what such pods (and reading
  and deleting them) preserve of the world, a call preserves, whatever its arguments are. After
  the call the cluster has the pods it had before; the one exception is a deletion that itself failed, and then one pod is left.
\<close>

theorem dns_probe_confined:
  assumes "probe_laws live (hp_KubernetesClient params)" "probe_reads P (hp_KubernetesClient params)"
    and "\<forall>ns podName ip name typ. probe_args ip name typ
      \<longrightarrow> keeps P (ne_CreatePod (hp_KubernetesClient params) ns (dns_probe_pod podName ns ip name typ))"
    and "\<forall>ns podName. keeps P (ne_DeletePod (hp_KubernetesClient params) ns podName)"
  shows "(P w \<longrightarrow> P (snd (execDNSInPod params w))) \<and> settled live (hp_KubernetesClient params) (execDNSInPod params) w"
proof (cases rule: execDNSInPod_cases [of params])
  case (refused res)
  then show ?thesis by (simp add: settled_def retA_def)
next
  case (probed ns ip name ty f)
  have "keeps P (run_dns_probe (hp_KubernetesClient params) ns ip name ty)"
    using assms probed(2) by (intro run_dns_probe_keeps) auto
  then have "keeps P (execDNSInPod params)" unfolding probed(3) by (intro keeps_intros)
  moreover have "settled live (hp_KubernetesClient params) (execDNSInPod params) w"
    unfolding probed(3) by (intro settled_try run_dns_probe_settled assms(1))
  ultimately show ?thesis by (simp add: keeps_def)
qed

text \<open>A cluster that notes its pods and what they run, and answers probes at the second poll.\<close>

definition noting_netedge :: "((string \<times> string) list \<times> string list list) netedge_client" where
  "noting_netedge =
     \<lparr>ne_Client = idle_client,
      ne_RESTConfig = \<lparr>rc_Host = [], rc_APIPath = [], rc_Insecure = False, rc_ServerName = [], rc_CAFile = [], rc_CAData = [], rc_CertFile = [],
        rc_CertData = [], rc_KeyFile = [], rc_KeyData = [], rc_Username = [], rc_Password = [], rc_BearerToken = ''t'', rc_BearerTokenFile = [],
        rc_Impersonate = None, rc_ExecProvider = None, rc_AuthProvider = None, rc_UserAgent = [], rc_QPS = 0, rc_Burst = 0,
        rc_Timeout = 0, rc_Wrappers = []\<rparr>,
      ne_CreatePod = (\<lambda>ns pod (L, log). if (ns, pb_Name pod) \<in> set L then (Inl ''exists'', (L, log))
        else (Inr (pb_Name pod), ((ns, pb_Name pod) # L, pb_Command pod # log))),
      ne_PodPhase = (\<lambda>_ _. retA ''Succeeded''), ne_Ticks = (\<lambda>_. 2), ne_LogStream = (\<lambda>_ _. retA (Inr ''status: NOERROR'')),
      ne_DeletePod = (\<lambda>ns name (L, log). (Inr (), (filter (\<lambda>x. x \<noteq> (ns, name)) L, log))), ne_Rand = retA ''x7'',
      ne_Exchange = (\<lambda>_ _ _. failA ''no''), ne_KnownType = (\<lambda>_. True), ne_Fqdn = (\<lambda>n. n @ ''.''), ne_NewRequest = (\<lambda>_ _. Inr ()),
      ne_Do = (\<lambda>_ _ _. failA ''no''),
      ne_Prom = \<lparr>pe_ReadFile = (\<lambda>_. Inl ''no''), pe_SystemCertPool = None, pe_AppendCertsFromPEM = (\<lambda>_ _. None), pe_ParseURL = (\<lambda>_. Inr ()),
        pe_Do = (\<lambda>_. failA ''no''), pe_Unmarshal = (\<lambda>_. Inl ''no'')\<rparr>,
      ne_Order = (\<lambda>qs. qs), ne_Now = (\<lambda>_. []), ne_Marshal = (\<lambda>_. Inr []), ne_Yaml = (\<lambda>_. Inr []), ne_Json = (\<lambda>_. Inr []),
      ne_AccessErr = (\<lambda>_. []), ne_Overflow = (\<lambda>_. 0)\<rparr>"

definition netedge_call :: "json_object \<Rightarrow> ((string \<times> string) list \<times> string list list) netedge_params" where
  "netedge_call args = \<lparr>hp_Context = \<lparr>cx_Session = NoSession, cx_Authorization = None, cx_UserAgent = None\<rparr>, hp_BaseConfig = zeroConfig,
     hp_KubernetesClient = noting_netedge, hp_Arguments = args, hp_ListOutput = None\<rparr>"

lemma noting_reads: "probe_reads P noting_netedge"
  by (simp add: probe_reads_def noting_netedge_def keeps_ret)

lemma noting_laws: "probe_laws (\<lambda>w. set (fst w)) noting_netedge"
  unfolding probe_laws_def
  by (auto simp: noting_reads) (auto simp: noting_netedge_def split: if_splits)

theorem dns_probe_confined_witness:
  "list_all (\<lambda>cmd. hd cmd = ''/usr/bin/dig'' \<and> length cmd = 4)
     (snd (snd (execDNSInPod (netedge_call [(''namespace'', JStr ''n''), (''target_server'', JStr ''10.0.0.10''), (''target_name'', JStr ''a.b'')])
        ([(''n'', ''p'')], []))))
   \<and> ParseIP ''10.0.0.10'' \<and> \<not> ParseIP ''-f'' \<and> not_a_name ''+trace''"
proof -
  let ?params = "netedge_call [(''namespace'', JStr ''n''), (''target_server'', JStr ''10.0.0.10''), (''target_name'', JStr ''a.b'')]"
  let ?P = "\<lambda>w :: (string \<times> string) list \<times> string list list. list_all (\<lambda>cmd. hd cmd = ''/usr/bin/dig'' \<and> length cmd = 4) (snd w)"
  have c: "hp_KubernetesClient ?params = noting_netedge" by (simp add: netedge_call_def)
  have "?P (snd (execDNSInPod ?params ([(''n'', ''p'')], [])))"
    using dns_probe_confined [where P = ?P and params = ?params and w = "([(''n'', ''p'')], [])", unfolded c, OF noting_laws noting_reads]
    by (simp add: noting_netedge_def keeps_def dns_probe_pod_def split: prod.split)
  moreover have "ParseIP ''10.0.0.10''" "\<not> ParseIP ''-f''" "not_a_name ''+trace''" by code_simp+
  ultimately show ?thesis by blast
qed

section \<open>What a report of a route hides\<close>

lemma redact_tls_at:
  assumes "redact_tls fs route = Inr r"
  shows "nested_field [''spec'', ''tls'', g] (JObj r)
    = (if g \<in> set fs \<and> (\<exists>s. NestedString [''spec'', ''tls'', g] route = NFound s) then NFound (JStr ''<redacted>'')
       else nested_field [''spec'', ''tls'', g] (JObj route))"
  using assms
proof (induction fs route rule: redact_tls.induct)
  case (2 f fs route)
  show ?case
  proof (cases "\<exists>s. NestedString [''spec'', ''tls'', f] route = NFound s")
    case True
    then obtain route1 where r1: "set_nested [] [''spec'', ''tls''] f (JStr ''<redacted>'') route = Inr route1" "redact_tls fs route1 = Inr r"
      using 2(4) by (auto split: sum.splits)
    have here: "nested_field [''spec'', ''tls'', f] (JObj route1) = NFound (JStr ''<redacted>'')"
      using set_nested_get [OF r1(1)] by simp
    have "nested_field [''spec'', ''tls'', g] (JObj route1) = nested_field [''spec'', ''tls'', g] (JObj route)" if "g \<noteq> f"
      using set_nested_other [OF r1(1) that] by simp
    then show ?thesis using 2(1) True r1 here by (cases "g = f") (auto simp: nested_as_def)
  next
    case False
    then have "redact_tls fs route = Inr r" using 2(4) by (auto split: nested.splits)
    then show ?thesis using 2(2,3) False by (cases "NestedString [''spec'', ''tls'', f] route") auto
  qed
qed simp

lemma redact_tls_elsewhere: "redact_tls fs route = Inr r \<Longrightarrow> key \<noteq> ''spec'' \<Longrightarrow> map_of r key = map_of route key"
  by (induction fs route rule: redact_tls.induct)
     (auto simp: update_conv' split: nested.splits sum.splits option.splits json.splits)

text \<open>No text that is the key or a certificate of the route stays in its TLS settings.\<close>

lemma route_tls_redacted:
  assumes "redact_tls tlsSensitiveFields route = Inr r" "g \<in> set tlsSensitiveFields" "NestedString [''spec'', ''tls'', g] r = NFound s"
  shows "s = ''<redacted>''"
  using assms(2,3) unfolding nested_as_def redact_tls_at [OF assms(1)]
  by (auto simp: nested_as_def split: if_splits nested.splits option.splits)

text \<open>
  The metadata is shown as it is. \<open>kubectl apply\<close> keeps the object it applied, with the key, in an annotation.
\<close>

lemma route_annotations_kept:
  assumes "redact_tls tlsSensitiveFields route = Inr r"
  shows "NestedString [''metadata'', ''annotations'', ''kubectl.kubernetes.io/last-applied-configuration''] r
    = NestedString [''metadata'', ''annotations'', ''kubectl.kubernetes.io/last-applied-configuration''] route"
  using redact_tls_elsewhere [OF assms, of "''metadata''"] by (simp add: nested_as_def)

section \<open>What the router tools show\<close>

lemma length_Split: "length (Split c s) \<le> Suc (length s)"
  by (induction s) (auto split: list.split)

lemma length_section_lines: "length (section_lines sec flt inc ls) \<le> length ls"
  by (induction ls arbitrary: inc) (auto simp: Let_def intro: le_SucI)

lemma sint_int64: "in_int64 i \<Longrightarrow> sint (word_of_int i :: 64 word) = i"
  unfolding in_int64_def sint_sbintrunc' by (intro signed_take_bit_int_eq_self) simp_all

text \<open>The 64-bit difference of a length and a limit is the difference unless both are out of bounds.\<close>

lemma slice_from_end_ok:
  assumes "0 \<le> n" "n < int (length xs)" "length xs < 2 ^ 62"
  shows "slice_from_end xs n = Some (drop (length xs - nat n) xs)"
proof -
  have "sint (word_of_int (int (length xs) - n) :: 64 word) = int (length xs) - n"
    using assms by (intro sint_int64) (simp add: in_int64_def)
  then show ?thesis using assms by (simp add: slice_from_end_def nat_diff_distrib')
qed

lemma slice_from_end_panics:
  assumes "in_int64 n" "n < 0" "length xs < 2 ^ 62"
  shows "slice_from_end xs n = None"
proof (cases "int (length xs) - n < 2 ^ 63")
  case True
  then have "sint (word_of_int (int (length xs) - n) :: 64 word) = int (length xs) - n"
    using assms by (intro sint_int64) (simp add: in_int64_def)
  then show ?thesis using assms by (simp add: slice_from_end_def)
next
  case False
  have "sint (word_of_int (int (length xs) - n - 2 ^ 64) :: 64 word) = int (length xs) - n - 2 ^ 64"
    using False assms by (intro sint_int64) (simp add: in_int64_def)
  moreover have "(word_of_int (int (length xs) - n - 2 ^ 64) :: 64 word) = word_of_int (int (length xs) - n)"
    by (simp add: word_of_int_eq_iff take_bit_eq_mod)
  ultimately have "sint (word_of_int (int (length xs) - n) :: 64 word) = int (length xs) - n - 2 ^ 64" by metis
  moreover have "int (length xs) - n - 2 ^ 64 < 0" using assms by (simp add: in_int64_def)
  ultimately show ?thesis unfolding slice_from_end_def Let_def by (metis not_less)
qed

text \<open>The lines and the sessions that a call selects, before the limit.\<close>

definition selected_lines :: "string \<Rightarrow> string \<Rightarrow> string \<Rightarrow> string list" where
  "selected_lines out sec flt =
     (if out = [] then [] else if sec = [] \<and> flt = [] then Split (CHR 0x0A) out else section_lines sec flt False (Split (CHR 0x0A) out))"

definition selected_sessions :: "string \<Rightarrow> string \<Rightarrow> string list list" where
  "selected_sessions out flt =
     (if out = [] then [] else filter (\<lambda>b. flt = [] \<or> blockContainsSubstring b (ToLower flt)) (session_blocks [] [] (Split (CHR 0x0A) out)))"

lemma length_selected_lines: "length (selected_lines out sec flt) \<le> Suc (length out)"
  using length_section_lines [of sec flt False "Split (CHR 0x0A) out"] length_Split [of "CHR 0x0A" out] by (simp add: selected_lines_def)

lemma truncateConfig_selected:
  "out \<noteq> [] \<Longrightarrow> truncateConfigOutput out n sec flt =
     (let ls = selected_lines out sec flt; total = length (Split (CHR 0x0A) out) in
      if int (length ls) \<le> n then Some (ls, total, False) else map_option (\<lambda>r. (r, total, True)) (slice_from_end ls n))"
  by (simp add: truncateConfigOutput_def selected_lines_def Let_def)

lemma truncateSessions_selected:
  "out \<noteq> [] \<Longrightarrow> truncateSessionsOutput out n flt =
     (let bs = selected_sessions out flt; total = length (session_blocks [] [] (Split (CHR 0x0A) out)) in
      if int (length bs) > n then map_option (\<lambda>r. (r, total, True)) (slice_to bs n) else Some (bs, total, False))"
  by (simp add: truncateSessionsOutput_def selected_sessions_def Let_def)

text \<open>
  The router tools show at most what was asked for, and a negative limit ends the process. For a
  limit that is not negative, \<open>get_router_config\<close> shows the last lines of the selected sections and \<open>get_router_sessions\<close> the
  first of the selected sessions, as many as the limit says, and reports a truncation exactly if some are left out.
  A negative \<open>tail_lines\<close> or \<open>limit\<close>, which the schema forbids but nothing checks, is a slice out of range: both panic on every
  output that is not empty.
\<close>

theorem router_output_limits:
  assumes "in_int64 n" "length out < 2 ^ 61" "out \<noteq> []"
  shows "(if n < 0 then truncateConfigOutput out n sec flt = None \<and> truncateSessionsOutput out n flt = None
     else (\<exists>total. truncateConfigOutput out n sec flt
             = Some (drop (length (selected_lines out sec flt) - nat n) (selected_lines out sec flt), total, int (length (selected_lines out sec flt)) > n))
        \<and> (\<exists>total. truncateSessionsOutput out n flt
             = Some (take (nat n) (selected_sessions out flt), total, int (length (selected_sessions out flt)) > n)))"
proof -
  have len: "length (selected_lines out sec flt) < 2 ^ 62"
    using length_selected_lines [of out sec flt] assms(2) by simp
  have "truncateConfigOutput out n sec flt = None \<and> truncateSessionsOutput out n flt = None" if "n < 0"
    using slice_from_end_panics [OF assms(1) that len] that
    by (simp add: truncateConfig_selected truncateSessions_selected assms(3) slice_to_def Let_def)
  moreover have "slice_from_end (selected_lines out sec flt) n
      = Some (drop (length (selected_lines out sec flt) - nat n) (selected_lines out sec flt))"
    if "0 \<le> n" "n < int (length (selected_lines out sec flt))"
    using slice_from_end_ok that len by blast
  ultimately show ?thesis
    by (auto simp: truncateConfig_selected truncateSessions_selected assms(3) slice_to_def Let_def not_less)
qed

theorem router_output_limits_witness:
  "truncateConfigOutput (''a'' @ [CHR 0x0A] @ ''b'') (-1) [] [] = None \<and> truncateSessionsOutput (''a'' @ [CHR 0x0A] @ ''b'') (-1) [] = None
   \<and> (\<exists>total. truncateConfigOutput (''a'' @ [CHR 0x0A] @ ''b'') 1 [] [] = Some ([''b''], total, True))"
proof -
  have s: "selected_lines (''a'' @ [CHR 0x0A] @ ''b'') [] [] = [''a'', ''b'']" by code_simp
  show ?thesis
    using router_output_limits [of "-1" "''a'' @ [CHR 0x0A] @ ''b''" "[]" "[]"] router_output_limits [of 1 "''a'' @ [CHR 0x0A] @ ''b''" "[]" "[]", unfolded s]
    by (simp add: in_int64_def)
qed

text \<open>The sessions are the text from the first session on, cut before each line that begins with \<open>0x\<close>.\<close>

lemma session_blocks_in: "current \<noteq> [] \<Longrightarrow> concat (session_blocks blocks current ls) = concat blocks @ current @ ls"
  by (induction blocks current ls rule: session_blocks.induct) auto

lemma session_blocks_concat: "concat (session_blocks [] [] ls) = dropWhile (\<lambda>l. \<not> HasPrefix l ''0x'') ls"
  by (induction ls) (auto simp: session_blocks_in)

fun is_session :: "string list \<Rightarrow> bool" where
  "is_session [] = False"
| "is_session (h # ls) = (HasPrefix h ''0x'' \<and> list_all (\<lambda>l. \<not> HasPrefix l ''0x'') ls)"

lemma is_session_append: "is_session b \<Longrightarrow> \<not> HasPrefix l ''0x'' \<Longrightarrow> is_session (b @ [l])"
  by (cases b) simp_all

lemma session_blocks_wf:
  "list_all is_session blocks \<Longrightarrow> current = [] \<or> is_session current \<Longrightarrow> list_all is_session (session_blocks blocks current ls)"
proof (induction blocks current ls rule: session_blocks.induct)
  case (2 blocks current line ls)
  then show ?case by (auto simp: is_session_append)
qed auto

text \<open>
  A timeout of less than one second is cut to zero and has passed before the request is sent; one of some 300 years
  wraps around to the past.
\<close>

lemma probe_timeout_rounds:
  "seconds (probe_timeout oor [(''timeout_seconds'', JNum (1 / 2))]) = 0"
  "seconds (probe_timeout oor [(''timeout_seconds'', JNum 9300000000)]) < 0"
proof -
  have "\<lfloor>1 / 2 :: rat\<rfloor> = 0" by (simp add: floor_eq_iff)
  then show "seconds (probe_timeout oor [(''timeout_seconds'', JNum (1 / 2))]) = 0"
    by (simp add: probe_timeout_def int64_of_float_def trunc_def in_int64_def seconds_def)
qed (simp add: probe_timeout_def int64_of_float_def trunc_def in_int64_def seconds_def)

end
