(* ===== verification/Archive.thy ===== *)
theory Archive
  imports Nested Filepath
begin

text \<open>
  Must-gather archives: \<open>src/pkg/ocp/mustgather/\<close> (\<open>loader.go\<close>, \<open>index.go\<close>, \<open>provider.go\<close>, \<open>etcd.go\<close>, \<open>monitoring.go\<close>). An
  archive is a directory; its resources are read and indexed once, logs and the rest on demand.
\<close>

section \<open>The disk\<close>

text \<open>
  What a call sees of the disk. \<open>Stat\<close> gives the error, if any, and whether it says that the file does not exist; \<open>ReadDir\<close> and
  \<open>Walk\<close> give names or paths with a flag for directories, \<open>Walk\<close> only those it can visit; a stream may end in an error. The decoders
  of YAML and JSON are parameters; numbers of decoded YAML are normalised.
\<close>

record disk =
  dk_ReadFile :: "string \<Rightarrow> (string, string) result"
  dk_Stat :: "string \<Rightarrow> (bool \<times> string) option"
  dk_ReadDir :: "string \<Rightarrow> (string, (string \<times> bool) list) result"
  dk_Walk :: "string \<Rightarrow> (string \<times> bool) list"
  dk_Open :: "string \<Rightarrow> (string, string \<times> string option) result"
  dk_Gzip :: "string \<Rightarrow> (string, string \<times> string option) result"

record MustGatherMetadata =
  mm_Path :: string
  mm_ContainerDir :: string
  mm_Version :: string
  mm_Timestamp :: string
  mm_ResourceCount :: nat
  mm_NamespaceCount :: nat

record PodLogOptions =
  lg_Namespace :: string
  lg_Pod :: string
  lg_Container :: string
  lg_LogType :: string
  lg_TailLines :: int

record NodeDiagnostics =
  nd_KubeletLog :: string
  nd_SysInfo :: string
  nd_CPUAffinities :: string
  nd_IRQAffinities :: string
  nd_PodsInfo :: string
  nd_PodResources :: string
  nd_Lscpu :: string
  nd_Lspci :: string
  nd_Dmesg :: string
  nd_ProcCmdline :: string

text \<open>\<open>strings.SplitN(s, sep, 2)\<close> for a separator of one byte: the parts around its first occurrence.\<close>

fun Cut :: "char \<Rightarrow> string \<Rightarrow> (string \<times> string) option" where
  "Cut c [] = None"
| "Cut c (x # xs) = (if x = c then Some ([], xs) else map_option (\<lambda>(a, b). (x # a, b)) (Cut c xs))"

section \<open>Loading\<close>

definition FindContainerDir :: "disk \<Rightarrow> string \<Rightarrow> (string, string) result" where
  "FindContainerDir dk basePath = (case dk_ReadDir dk basePath of
     Inl err \<Rightarrow> Inl err
   | Inr entries \<Rightarrow>
       (case find (\<lambda>(name, isDir). isDir \<and> (HasPrefix name ''quay'' \<or> Contains name ''sha256'')) entries of
          Some (name, _) \<Rightarrow> Inr (path_Join [basePath, name])
        | None \<Rightarrow> Inl (''container directory not found in '' @ basePath)))"

definition loadMetadata :: "disk \<Rightarrow> string \<Rightarrow> MustGatherMetadata \<Rightarrow> MustGatherMetadata" where
  "loadMetadata dk containerDir m =
     (let m1 = (case dk_ReadFile dk (path_Join [containerDir, ''version'']) of Inr data \<Rightarrow> m\<lparr>mm_Version := TrimSpace data\<rparr> | Inl _ \<Rightarrow> m) in
      case dk_ReadFile dk (path_Join [containerDir, ''timestamp'']) of Inr data \<Rightarrow> m1\<lparr>mm_Timestamp := TrimSpace data\<rparr> | Inl _ \<Rightarrow> m1)"

text \<open>\<open>SetNamespace\<close> of a name that is not empty and \<open>SetGroupVersionKind\<close>; errors of \<open>SetNestedField\<close> are dropped.\<close>

definition set_or_keep :: "string list \<Rightarrow> string \<Rightarrow> string \<Rightarrow> json_object \<Rightarrow> json_object" where
  "set_or_keep path f v obj = (case set_nested [] path f (JStr v) obj of Inl _ \<Rightarrow> obj | Inr obj' \<Rightarrow> obj')"

definition default_namespace :: "string \<Rightarrow> json_object \<Rightarrow> json_object" where
  "default_namespace ns obj = (if ns \<noteq> [] \<and> obj_GetNamespace obj = [] then set_or_keep [''metadata''] ''namespace'' ns obj else obj)"

definition set_gvk :: "json_object \<Rightarrow> json_object" where
  "set_gvk obj =
     (let apiVersion = string_at ''apiVersion'' obj; kind = string_at ''kind'' obj in
      if apiVersion \<noteq> [] \<and> kind \<noteq> [] then
        (let (g, v) = (case ParseGroupVersion apiVersion of Some gv \<Rightarrow> gv | None \<Rightarrow> ([], [])) in
         set_or_keep [] ''kind'' kind (set_or_keep [] ''apiVersion'' (gv_String g v) obj))
      else obj)"

definition loadList :: "json_object \<Rightarrow> string \<Rightarrow> json_object list" where
  "loadList raw ns = (case map_of raw ''items'' of
     Some (JArr items) \<Rightarrow> concat (map (\<lambda>item. case as_object item of Some m \<Rightarrow> [set_gvk (default_namespace ns m)] | None \<Rightarrow> []) items)
   | _ \<Rightarrow> [])"

definition loadYAMLFile :: "(string \<Rightarrow> (string, json_object option) result) \<Rightarrow> disk \<Rightarrow> string \<Rightarrow> string \<Rightarrow> (string, json_object list) result" where
  "loadYAMLFile yaml dk path ns =
     bindE (dk_ReadFile dk path) (\<lambda>data. bindE (yaml data) (\<lambda>raw. Inr (case raw of
         None \<Rightarrow> []
       | Some raw \<Rightarrow>
           (if HasSuffix (string_at ''kind'' raw) ''List'' then loadList raw ns
            else (let obj = default_namespace ns raw in [if gvk_Kind (obj_GVK obj) = [] then set_gvk obj else obj])))))"

definition is_yaml :: "string \<times> bool \<Rightarrow> bool" where
  "is_yaml e \<longleftrightarrow> \<not> snd e \<and> (HasSuffix (fst e) ''.yaml'' \<or> HasSuffix (fst e) ''.yml'')"

text \<open>The resources of files, where a file that cannot be loaded counts as empty.\<close>

definition load_files ::
  "(string \<Rightarrow> (string, json_object option) result) \<Rightarrow> disk \<Rightarrow> string \<Rightarrow> string list \<Rightarrow> json_object list" where
  "load_files yaml dk ns paths = concat (map (\<lambda>p. case loadYAMLFile yaml dk p ns of Inl _ \<Rightarrow> [] | Inr objs \<Rightarrow> objs) paths)"

definition not_exist :: "disk \<Rightarrow> string \<Rightarrow> bool" where
  "not_exist dk path \<longleftrightarrow> (case dk_Stat dk path of Some (notExist, _) \<Rightarrow> notExist | None \<Rightarrow> False)"

definition loadClusterScopedResources :: "(string \<Rightarrow> (string, json_object option) result) \<Rightarrow> disk \<Rightarrow> string \<Rightarrow> json_object list" where
  "loadClusterScopedResources yaml dk containerDir =
     (let clusterDir = path_Join [containerDir, ''cluster-scoped-resources''] in
      if not_exist dk clusterDir then [] else load_files yaml dk [] (map fst (filter is_yaml (dk_Walk dk clusterDir))))"

text \<open>Logs of pods are below \<open>pods\<close>; the path of an entry relative to the directory walked is what follows it.\<close>

definition loadNamespacedResources :: "(string \<Rightarrow> (string, json_object option) result) \<Rightarrow> disk \<Rightarrow> string \<Rightarrow> (string, json_object list) result" where
  "loadNamespacedResources yaml dk containerDir =
     (let namespacesDir = path_Join [containerDir, ''namespaces''] in
      if not_exist dk namespacesDir then Inr []
      else bindE (dk_ReadDir dk namespacesDir) (\<lambda>nsEntries. Inr (concat (map (\<lambda>(ns, isDir).
          if \<not> isDir then []
          else (let nsDir = path_Join [namespacesDir, ns] in
            load_files yaml dk ns (map fst (filter (\<lambda>e. is_yaml e \<and> \<not> HasPrefix (TrimPrefix (fst e) (nsDir @ ''/'')) ''pods/'') (dk_Walk dk nsDir)))))
        nsEntries))))"

definition Load :: "(string \<Rightarrow> (string, json_object option) result) \<Rightarrow> disk \<Rightarrow> string \<Rightarrow> MustGatherMetadata \<times> json_object list" where
  "Load yaml dk path =
     (let containerDir = (case FindContainerDir dk path of Inl _ \<Rightarrow> path | Inr d \<Rightarrow> d);
          m = loadMetadata dk containerDir
            \<lparr>mm_Path = path, mm_ContainerDir = containerDir, mm_Version = [], mm_Timestamp = [], mm_ResourceCount = 0, mm_NamespaceCount = 0\<rparr>;
          resources = loadClusterScopedResources yaml dk containerDir
            @ (case loadNamespacedResources yaml dk containerDir of Inl _ \<Rightarrow> [] | Inr rs \<Rightarrow> rs)
      in (m\<lparr>mm_ResourceCount := length resources\<rparr>, resources))"

section \<open>The index\<close>

text \<open>Maps are association lists without duplicate keys; where the program ranges over one, \<open>order\<close> permutes it.\<close>

type_synonym objects = "(string \<times> json_object) list"

record ResourceIndex =
  ix_byGVK :: "(GroupVersionKind \<times> objects) list"
  ix_byNamespace :: "(string \<times> (GroupVersionKind \<times> objects) list) list"
  ix_namespaces :: "string list"
  ix_count :: nat

definition NewResourceIndex :: ResourceIndex where
  "NewResourceIndex = \<lparr>ix_byGVK = [], ix_byNamespace = [], ix_namespaces = [], ix_count = 0\<rparr>"

definition entries_of :: "('k \<times> ('a \<times> 'b) list) list \<Rightarrow> 'k \<Rightarrow> ('a \<times> 'b) list" where
  "entries_of m k = (case map_of m k of Some e \<Rightarrow> e | None \<Rightarrow> [])"

definition resource_key :: "string \<Rightarrow> string \<Rightarrow> string" where
  "resource_key name ns = (if ns \<noteq> [] then ns @ ''/'' @ name else name)"

definition index_Add :: "json_object \<Rightarrow> ResourceIndex \<Rightarrow> ResourceIndex" where
  "index_Add obj idx =
     (let gvk = obj_GVK obj; name = obj_GetName obj; ns = obj_GetNamespace obj;
          inNs = entries_of (ix_byNamespace idx) ns
      in idx\<lparr>ix_byGVK := AList.update gvk (AList.update (resource_key name ns) obj (entries_of (ix_byGVK idx) gvk)) (ix_byGVK idx),
             ix_byNamespace := (if ns \<noteq> [] then AList.update ns (AList.update gvk (AList.update name obj (entries_of inNs gvk)) inNs) (ix_byNamespace idx)
                                else ix_byNamespace idx),
             ix_count := Suc (ix_count idx)\<rparr>)"

definition buildNamespaceList :: "ResourceIndex \<Rightarrow> ResourceIndex" where
  "buildNamespaceList idx = idx\<lparr>ix_namespaces := sort (map fst (ix_byNamespace idx))\<rparr>"

definition BuildIndex :: "json_object list \<Rightarrow> ResourceIndex" where
  "BuildIndex resources = buildNamespaceList (fold index_Add resources NewResourceIndex)"

definition index_Get :: "ResourceIndex \<Rightarrow> GroupVersionKind \<Rightarrow> string \<Rightarrow> string \<Rightarrow> json_object option" where
  "index_Get idx gvk name ns = Option.bind (map_of (ix_byGVK idx) gvk) (\<lambda>objs. map_of objs (resource_key name ns))"

text \<open>Parsers of selectors, as functions on labels and on the two fields an object is matched by.\<close>

record selectors =
  se_Labels :: "string \<Rightarrow> (string, (string \<times> string) list \<Rightarrow> bool) result"
  se_Fields :: "string \<Rightarrow> (string, (string \<times> string) list \<Rightarrow> bool) result"

record mg_ListOptions =
  ml_LabelSelector :: string
  ml_FieldSelector :: string
  ml_Limit :: int

definition newListMatcher :: "selectors \<Rightarrow> mg_ListOptions \<Rightarrow> (string, json_object \<Rightarrow> bool) result" where
  "newListMatcher se opts =
     bindE (if ml_LabelSelector opts \<noteq> [] then
              mapErr (\<lambda>e. ''invalid label selector '' @ Quote (ml_LabelSelector opts) @ '': '' @ e) (se_Labels se (ml_LabelSelector opts))
            else Inr (\<lambda>_. True)) (\<lambda>labelSel.
     bindE (if ml_FieldSelector opts \<noteq> [] then
              mapErr (\<lambda>e. ''invalid field selector '' @ Quote (ml_FieldSelector opts) @ '': '' @ e) (se_Fields se (ml_FieldSelector opts))
            else Inr (\<lambda>_. True)) (\<lambda>fieldSel.
       Inr (\<lambda>obj. labelSel (case obj_GetLabels obj of Some ls \<Rightarrow> ls | None \<Rightarrow> [])
         \<and> fieldSel [(''metadata.name'', obj_GetName obj), (''metadata.namespace'', obj_GetNamespace obj)])))"

definition index_List ::
  "selectors \<Rightarrow> (objects \<Rightarrow> objects) \<Rightarrow> ResourceIndex \<Rightarrow> GroupVersionKind \<Rightarrow> string \<Rightarrow> mg_ListOptions \<Rightarrow> (string, json_object list) result" where
  "index_List se order idx gvk ns opts =
     bindE (newListMatcher se opts) (\<lambda>matches.
       let objs = (if ns \<noteq> [] then entries_of (entries_of (ix_byNamespace idx) ns) gvk else entries_of (ix_byGVK idx) gvk);
           items = filter matches (map snd (order objs))
       in Inr (if ml_Limit opts > 0 \<and> int (length items) > ml_Limit opts then take (nat (ml_Limit opts)) items else items))"

section \<open>The provider\<close>

record mg_Provider =
  mp_metadata :: MustGatherMetadata
  mp_index :: ResourceIndex

definition mg_NewProvider :: "(string \<Rightarrow> (string, json_object option) result) \<Rightarrow> disk \<Rightarrow> string \<Rightarrow> mg_Provider" where
  "mg_NewProvider yaml dk path =
     (let (m, resources) = Load yaml dk path; index = BuildIndex resources
      in \<lparr>mp_metadata = m\<lparr>mm_NamespaceCount := length (ix_namespaces index)\<rparr>, mp_index = index\<rparr>)"

definition container_dir :: "mg_Provider \<Rightarrow> string" where
  "container_dir p = mm_ContainerDir (mp_metadata p)"

definition ListPodContainers :: "disk \<Rightarrow> mg_Provider \<Rightarrow> string \<Rightarrow> string \<Rightarrow> (string, string list) result" where
  "ListPodContainers dk p ns pod =
     bindE (mapErr (\<lambda>e. ''pod directory not found: '' @ e) (dk_ReadDir dk (path_Join [container_dir p, ''namespaces'', ns, ''pods'', pod])))
       (\<lambda>entries. Inr (map fst (filter snd entries)))"

definition pod_log_file :: "mg_Provider \<Rightarrow> string \<Rightarrow> string \<Rightarrow> string \<Rightarrow> string \<Rightarrow> string" where
  "pod_log_file p ns pod container logType =
     path_Join [container_dir p, ''namespaces'', ns, ''pods'', pod, container, container, ''logs'', logType @ ''.log'']"

definition GetPodLogPath :: "disk \<Rightarrow> mg_Provider \<Rightarrow> PodLogOptions \<Rightarrow> (string, string) result" where
  "GetPodLogPath dk p opts =
     bindE (if lg_Container opts = [] then
              bindE (ListPodContainers dk p (lg_Namespace opts) (lg_Pod opts)) (\<lambda>cs. case cs of
                  [] \<Rightarrow> Inl (''no containers found for pod '' @ lg_Namespace opts @ ''/'' @ lg_Pod opts)
                | c # _ \<Rightarrow> Inr c)
            else Inr (lg_Container opts)) (\<lambda>container.
       let logPath = pod_log_file p (lg_Namespace opts) (lg_Pod opts) container (if lg_LogType opts = [] then ''current'' else lg_LogType opts)
       in case dk_Stat dk logPath of Some (_, e) \<Rightarrow> Inl (''log file not found: '' @ e) | None \<Rightarrow> Inr logPath)"

definition TailLines :: "string \<Rightarrow> nat \<Rightarrow> string" where
  "TailLines content n =
     (let lines = Split (CHR 0x0A) content in
      if length lines \<le> n then content else Join [CHR 0x0A] (drop (length lines - n) lines))"

definition GetPodLog :: "disk \<Rightarrow> mg_Provider \<Rightarrow> PodLogOptions \<Rightarrow> (string, string) result" where
  "GetPodLog dk p opts =
     bindE (GetPodLogPath dk p opts) (\<lambda>logPath.
     bindE (mapErr (\<lambda>e. ''failed to read log file: '' @ e) (dk_ReadFile dk logPath)) (\<lambda>content.
       Inr (if lg_TailLines opts > 0 then TailLines content (nat (lg_TailLines opts)) else content)))"

definition maxDecompressedSize :: nat where "maxDecompressedSize = 64 * 1024 * 1024"

definition readGzipFile :: "disk \<Rightarrow> string \<Rightarrow> (string, string) result" where
  "readGzipFile dk path =
     bindE (dk_Gzip dk path) (\<lambda>(data, err).
       if length data \<ge> maxDecompressedSize then Inr (take maxDecompressedSize data)
       else (case err of Some e \<Rightarrow> Inl (''failed to decompress '' @ path @ '': '' @ e) | None \<Rightarrow> Inr data))"

definition text_or_empty :: "(string, string) result \<Rightarrow> string" where
  "text_or_empty r = (case r of Inr s \<Rightarrow> s | Inl _ \<Rightarrow> [])"

definition GetNodeDiagnostics :: "disk \<Rightarrow> mg_Provider \<Rightarrow> string \<Rightarrow> (string, NodeDiagnostics) result" where
  "GetNodeDiagnostics dk p nodeName =
     (let nodeDir = path_Join [container_dir p, ''nodes'', nodeName];
          read = (\<lambda>f. text_or_empty (dk_ReadFile dk (path_Join [nodeDir, f])))
      in if not_exist dk nodeDir then Inl (''node directory not found: '' @ nodeName)
         else Inr \<lparr>nd_KubeletLog = text_or_empty (readGzipFile dk (path_Join [nodeDir, nodeName @ ''_logs_kubelet.gz''])),
           nd_SysInfo = read ''sysinfo.log'', nd_CPUAffinities = read ''cpu_affinities.json'', nd_IRQAffinities = read ''irq_affinities.json'',
           nd_PodsInfo = read ''pods_info.json'', nd_PodResources = read ''podresources.json'', nd_Lscpu = read ''lscpu'',
           nd_Lspci = read ''lspci'', nd_Dmesg = read ''dmesg'', nd_ProcCmdline = read ''proc_cmdline''\<rparr>)"

definition mg_ListNodes :: "disk \<Rightarrow> mg_Provider \<Rightarrow> string list" where
  "mg_ListNodes dk p = (case dk_ReadDir dk (path_Join [container_dir p, ''nodes'']) of
     Inl _ \<Rightarrow> [] | Inr entries \<Rightarrow> map fst (filter snd entries))"

section \<open>Recorded data\<close>

text \<open>The records keep the fields that are shown. Numbers are 64-bit integers in their range; durations and intervals are decimal fractions.\<close>

record ETCDHealth =
  eh_Healthy :: bool
  eh_Endpoints :: "(string \<times> string) list"
  eh_Alarms :: "string list"

record HeadStats =
  hs_NumSeries :: int
  hs_NumLabelPairs :: int
  hs_ChunkCount :: int

record TSDBStatus =
  ts_SeriesCountByMetricName :: "(string \<times> int) list"
  ts_LabelValueCountByLabelName :: "(string \<times> int) list"
  ts_MemoryInBytesByLabelName :: "(string \<times> int) list"
  ts_HeadStats :: HeadStats

record RuntimeInfo =
  ri_StartTime :: string
  ri_StorageRetention :: string
  ri_ReloadConfigSuccess :: bool
  ri_LastConfigTime :: string
  ri_GoroutineCount :: int
  ri_GOMAXPROCS :: int
  ri_CorruptionCount :: int

record ActiveTarget =
  at_Health :: string
  at_ScrapePool :: string
  at_ScrapeURL :: string
  at_LastScrape :: string
  at_LastScrapeDuration :: rat
  at_LastError :: string

record prom_Alert =
  al_Labels :: "(string \<times> string) list"
  al_Annotations :: "(string \<times> string) list"
  al_State :: string
  al_ActiveAt :: string

record prom_Rule =
  ru_State :: string
  ru_Name :: string
  ru_Alerts :: "prom_Alert list"
  ru_Health :: string
  ru_Type :: string
  ru_LastError :: string

record RuleGroup =
  rg_Name :: string
  rg_File :: string
  rg_Rules :: "prom_Rule list"
  rg_Interval :: rat
  rg_EvaluationTime :: rat
  rg_LastEvaluation :: string

record AlertManagerStatus =
  am_ClusterStatus :: string
  am_Peers :: "(string \<times> string) list"
  am_Version :: string
  am_Revision :: string
  am_Branch :: string
  am_BuildDate :: string
  am_GoVersion :: string
  am_Uptime :: string

text \<open>The decoders of the recorded files.\<close>

record mg_decoders =
  de_Yaml :: "string \<Rightarrow> (string, json_object option) result"
  de_Endpoints :: "string \<Rightarrow> (string, (string \<times> string) list) result"
  de_Alarms :: "string \<Rightarrow> (string, (nat \<times> string) list) result"
  de_Counts :: "string \<Rightarrow> (string, (string \<times> int) list) result"
  de_Tsdb :: "string \<Rightarrow> (string, TSDBStatus) result"
  de_Runtime :: "string \<Rightarrow> (string, RuntimeInfo) result"
  de_Targets :: "string \<Rightarrow> (string, ActiveTarget list) result"
  de_Rules :: "string \<Rightarrow> (string, RuleGroup list) result"
  de_AlertManager :: "string \<Rightarrow> (string, AlertManagerStatus) result"
  de_Config :: "string \<Rightarrow> (string, string) result"
  de_Flags :: "string \<Rightarrow> (string, (string \<times> string) list) result"

definition GetETCDHealth :: "mg_decoders \<Rightarrow> disk \<Rightarrow> mg_Provider \<Rightarrow> (string, ETCDHealth) result" where
  "GetETCDHealth de dk p =
     (let etcdDir = path_Join [container_dir p, ''etcd_info''] in
      bindE (mapErr (\<lambda>e. ''ETCD health data not found: '' @ e) (dk_ReadFile dk (path_Join [etcdDir, ''endpoint_health.json'']))) (\<lambda>healthData.
      bindE (mapErr (\<lambda>e. ''failed to parse ETCD health: '' @ e) (de_Endpoints de healthData)) (\<lambda>endpoints.
        let alarms = (case dk_ReadFile dk (path_Join [etcdDir, ''alarm_list.json'']) of
                Inl _ \<Rightarrow> []
              | Inr alarmData \<Rightarrow> (case de_Alarms de alarmData of Inl _ \<Rightarrow> [] | Inr as \<Rightarrow> as))
        in Inr \<lparr>eh_Healthy = (list_all (\<lambda>(_, h). h = ''true'' \<or> h = ''healthy'') endpoints \<and> alarms = []), eh_Endpoints = endpoints,
               eh_Alarms = map (\<lambda>(member, alarm). ''Member '' @ digits member @ '': '' @ alarm) alarms\<rparr>)))"

definition GetETCDObjectCount :: "mg_decoders \<Rightarrow> disk \<Rightarrow> mg_Provider \<Rightarrow> (string, (string \<times> int) list) result" where
  "GetETCDObjectCount de dk p =
     bindE (mapErr (\<lambda>e. ''ETCD object count data not found: '' @ e) (dk_ReadFile dk (path_Join [container_dir p, ''etcd_info'', ''object_count.json'']))) (\<lambda>data.
       mapErr (\<lambda>e. ''failed to parse ETCD object count: '' @ e) (de_Counts de data))"

definition ReadETCDFile :: "disk \<Rightarrow> mg_Provider \<Rightarrow> string \<Rightarrow> (string, string) result" where
  "ReadETCDFile dk p filename =
     (let etcdDir = path_Join [container_dir p, ''etcd_info'']; filePath = path_Join [etcdDir, filename] in
      if \<not> HasPrefix (Clean filePath) (Clean etcdDir @ ''/'') then Inl (''invalid ETCD filename: '' @ filename)
      else mapErr (\<lambda>e. ''ETCD file '' @ filename @ '' not found: '' @ e) (dk_ReadFile dk filePath))"

text \<open>\<open>filepath.Base\<close> for paths that do not end in a slash.\<close>

definition path_Base :: "string \<Rightarrow> string" where
  "path_Base p = (if p = [] then ''.'' else rev (takeWhile (\<lambda>c. c \<noteq> CHR ''/'') (rev p)))"

definition ReadJSON :: "(string \<Rightarrow> (string, 'a) result) \<Rightarrow> disk \<Rightarrow> string \<Rightarrow> (string, 'a) result" where
  "ReadJSON decode dk filePath =
     bindE (mapErr (\<lambda>e. ''failed to read file '' @ path_Base filePath @ '': '' @ e) (dk_ReadFile dk filePath)) (\<lambda>data.
       mapErr (\<lambda>e. ''failed to parse JSON from '' @ path_Base filePath @ '': '' @ e) (decode data))"

definition GetPrometheusCommonPath :: "mg_Provider \<Rightarrow> string" where
  "GetPrometheusCommonPath p = path_Join [container_dir p, ''monitoring'', ''prometheus'']"

definition GetPrometheusReplicaPath :: "mg_Provider \<Rightarrow> nat \<Rightarrow> string" where
  "GetPrometheusReplicaPath p replicaNum = path_Join [container_dir p, ''monitoring'', ''prometheus'', ''prometheus-k8s-'' @ digits replicaNum]"

definition GetAlertManagerPath :: "mg_Provider \<Rightarrow> string" where
  "GetAlertManagerPath p = path_Join [container_dir p, ''monitoring'', ''alertmanager'']"

definition ReadPrometheusJSON :: "(string \<Rightarrow> (string, 'a) result) \<Rightarrow> disk \<Rightarrow> string \<Rightarrow> string \<Rightarrow> (string, 'a) result" where
  "ReadPrometheusJSON decode dk replicaPath filename = ReadJSON decode dk (path_Join [replicaPath, filename])"

definition GetPrometheusTSDB :: "mg_decoders \<Rightarrow> disk \<Rightarrow> mg_Provider \<Rightarrow> nat \<Rightarrow> (string, TSDBStatus) result" where
  "GetPrometheusTSDB de dk p n = ReadPrometheusJSON (de_Tsdb de) dk (GetPrometheusReplicaPath p n) ''status/tsdb.json''"

definition GetPrometheusRuntimeInfo :: "mg_decoders \<Rightarrow> disk \<Rightarrow> mg_Provider \<Rightarrow> nat \<Rightarrow> (string, RuntimeInfo) result" where
  "GetPrometheusRuntimeInfo de dk p n = ReadPrometheusJSON (de_Runtime de) dk (GetPrometheusReplicaPath p n) ''status/runtimeinfo.json''"

definition GetPrometheusActiveTargets :: "mg_decoders \<Rightarrow> disk \<Rightarrow> mg_Provider \<Rightarrow> nat \<Rightarrow> (string, ActiveTarget list) result" where
  "GetPrometheusActiveTargets de dk p n = ReadPrometheusJSON (de_Targets de) dk (GetPrometheusReplicaPath p n) ''active-targets.json''"

definition GetPrometheusRules :: "mg_decoders \<Rightarrow> disk \<Rightarrow> mg_Provider \<Rightarrow> (string, RuleGroup list) result" where
  "GetPrometheusRules de dk p = ReadJSON (de_Rules de) dk (path_Join [GetPrometheusCommonPath p, ''rules.json''])"

definition GetAlertManagerStatus :: "mg_decoders \<Rightarrow> disk \<Rightarrow> mg_Provider \<Rightarrow> (string, AlertManagerStatus) result" where
  "GetAlertManagerStatus de dk p = ReadJSON (de_AlertManager de) dk (path_Join [GetAlertManagerPath p, ''status.json''])"

definition GetPrometheusConfig :: "mg_decoders \<Rightarrow> disk \<Rightarrow> mg_Provider \<Rightarrow> (string, string) result" where
  "GetPrometheusConfig de dk p = ReadJSON (de_Config de) dk (path_Join [GetPrometheusCommonPath p, ''status'', ''config.json''])"

definition GetPrometheusFlags :: "mg_decoders \<Rightarrow> disk \<Rightarrow> mg_Provider \<Rightarrow> (string, (string \<times> string) list) result" where
  "GetPrometheusFlags de dk p = ReadJSON (de_Flags de) dk (path_Join [GetPrometheusCommonPath p, ''status'', ''flags.json''])"

definition GetReplicaNumbers :: "string \<Rightarrow> nat list" where
  "GetReplicaNumbers replicaParam =
     (if replicaParam = ''prometheus-k8s-0'' \<or> replicaParam = ''0'' then [0]
      else if replicaParam = ''prometheus-k8s-1'' \<or> replicaParam = ''1'' then [1]
      else [0, 1])"

section \<open>What the index finds\<close>

text \<open>The specification: the last resource of a kind with a name in a namespace.\<close>

definition latest :: "(json_object \<Rightarrow> bool) \<Rightarrow> json_object list \<Rightarrow> json_object option" where
  "latest P rs = find P (rev rs)"

definition is_resource :: "GroupVersionKind \<Rightarrow> string \<Rightarrow> string \<Rightarrow> json_object \<Rightarrow> bool" where
  "is_resource gvk name ns r \<longleftrightarrow> obj_GVK r = gvk \<and> obj_GetName r = name \<and> obj_GetNamespace r = ns"

lemma latest_simps [simp]: "latest P [] = None" "latest P (rs @ [r]) = (if P r then Some r else latest P rs)"
  by (simp_all add: latest_def)

lemma latest_cong: "(\<And>r. r \<in> set rs \<Longrightarrow> P r = Q r) \<Longrightarrow> latest P rs = latest Q rs"
  unfolding latest_def by (intro find_cong) simp_all

lemma map_of_entries_update: "map_of (entries_of (AList.update k e m) k') = (if k' = k then map_of e else map_of (entries_of m k'))"
  by (simp add: entries_of_def update_conv')

lemma index_Add_byGVK:
  "map_of (entries_of (ix_byGVK (index_Add r idx)) gvk) key
   = (if obj_GVK r = gvk \<and> resource_key (obj_GetName r) (obj_GetNamespace r) = key then Some r
      else map_of (entries_of (ix_byGVK idx) gvk) key)"
  by (auto simp: index_Add_def Let_def map_of_entries_update update_conv')

lemma index_Add_byNamespace:
  "ns \<noteq> [] \<Longrightarrow> map_of (entries_of (entries_of (ix_byNamespace (index_Add r idx)) ns) gvk) name
   = (if is_resource gvk name ns r then Some r else map_of (entries_of (entries_of (ix_byNamespace idx) ns) gvk) name)"
  by (auto simp: index_Add_def Let_def is_resource_def entries_of_def update_conv' split: option.splits)

lemma index_byGVK:
  "map_of (entries_of (ix_byGVK (BuildIndex rs)) gvk) key
   = latest (\<lambda>r. obj_GVK r = gvk \<and> resource_key (obj_GetName r) (obj_GetNamespace r) = key) rs"
  unfolding BuildIndex_def buildNamespaceList_def
  by (induction rs rule: rev_induct) (simp_all add: index_Add_byGVK, simp add: NewResourceIndex_def entries_of_def)

lemma index_byNamespace:
  "ns \<noteq> [] \<Longrightarrow> map_of (entries_of (entries_of (ix_byNamespace (BuildIndex rs)) ns) gvk) name = latest (is_resource gvk name ns) rs"
  unfolding BuildIndex_def buildNamespaceList_def
  by (induction rs rule: rev_induct) (simp_all add: index_Add_byNamespace, simp add: NewResourceIndex_def entries_of_def)

text \<open>Keys do not repeat.\<close>

definition index_wf :: "ResourceIndex \<Rightarrow> bool" where
  "index_wf idx \<longleftrightarrow> distinct (map fst (ix_byNamespace idx)) \<and> (\<forall>gvk. distinct (map fst (entries_of (ix_byGVK idx) gvk)))
     \<and> (\<forall>ns gvk. distinct (map fst (entries_of (entries_of (ix_byNamespace idx) ns) gvk)))"

lemma entries_of_update: "entries_of (AList.update k e m) k' = (if k' = k then e else entries_of m k')"
  by (simp add: entries_of_def update_conv')

lemma index_Add_wf: "index_wf idx \<Longrightarrow> index_wf (index_Add r idx)"
  by (auto simp: index_wf_def index_Add_def Let_def entries_of_update distinct_update)

lemma BuildIndex_wf: "index_wf (BuildIndex rs)"
proof -
  have "index_wf (fold index_Add rs NewResourceIndex)"
    by (induction rs rule: rev_induct) (simp_all add: index_Add_wf, simp add: index_wf_def NewResourceIndex_def entries_of_def)
  then show ?thesis by (simp add: BuildIndex_def buildNamespaceList_def index_wf_def)
qed

lemma BuildIndex_count: "ix_count (BuildIndex rs) = length rs"
  unfolding BuildIndex_def buildNamespaceList_def
  by (induction rs rule: rev_induct) (simp_all add: index_Add_def Let_def, simp add: NewResourceIndex_def)

lemma BuildIndex_namespaces: "ix_namespaces (BuildIndex rs) = sorted_list_of_set (obj_GetNamespace ` set rs - {[]})"
proof -
  have "set (map fst (ix_byNamespace (fold index_Add rs NewResourceIndex))) = obj_GetNamespace ` set rs - {[]}"
    by (induction rs rule: rev_induct) (auto simp: index_Add_def Let_def dom_update NewResourceIndex_def image_iff)
  moreover have "distinct (map fst (ix_byNamespace (fold index_Add rs NewResourceIndex)))"
    using BuildIndex_wf [of rs] by (simp add: BuildIndex_def buildNamespaceList_def index_wf_def)
  ultimately have "sort (map fst (ix_byNamespace (fold index_Add rs NewResourceIndex))) = sorted_list_of_set (obj_GetNamespace ` set rs - {[]})"
    by (metis sorted_list_of_set_sort_remdups distinct_remdups_id)
  then show ?thesis by (simp add: BuildIndex_def buildNamespaceList_def)
qed

text \<open>The keys of names without a slash are as good as the names and namespaces.\<close>

definition plain_names :: "json_object list \<Rightarrow> bool" where
  "plain_names rs \<longleftrightarrow> list_all (\<lambda>r. CHR ''/'' \<notin> set (obj_GetName r)) rs"

lemma resource_key_inj:
  assumes "CHR ''/'' \<notin> set n1" "CHR ''/'' \<notin> set n2"
  shows "resource_key n1 ns1 = resource_key n2 ns2 \<longleftrightarrow> n1 = n2 \<and> ns1 = ns2"
proof -
  have after: "takeWhile (\<lambda>c. c \<noteq> CHR ''/'') (rev (ns @ ''/'' @ n)) = rev n" if "CHR ''/'' \<notin> set n" for ns n
    using that by (simp add: takeWhile_tail) (metis set_rev takeWhile_eq_all_conv takeWhile_tail)
  have "n1 = n2" if "ns1 @ ''/'' @ n1 = ns2 @ ''/'' @ n2"
    using after [OF assms(1), of ns1] after [OF assms(2), of ns2] that by (metis rev_rev_ident)
  then show ?thesis using assms by (auto simp: resource_key_def)
qed

lemma latest_SomeD: "latest P rs = Some r \<Longrightarrow> P r \<and> r \<in> set rs"
  unfolding latest_def by (auto simp: find_Some_iff) (metis nth_mem set_rev length_rev)

lemma latest_key:
  assumes "plain_names rs" "CHR ''/'' \<notin> set name"
  shows "latest (\<lambda>r. obj_GVK r = gvk \<and> resource_key (obj_GetName r) (obj_GetNamespace r) = resource_key name ns) rs = latest (is_resource gvk name ns) rs"
  using assms by (intro latest_cong) (auto simp: is_resource_def plain_names_def list_all_iff resource_key_inj)

text \<open>The resources that count: of those with the same kind, name and namespace, the one loaded last.\<close>

definition indexed :: "json_object list \<Rightarrow> GroupVersionKind \<Rightarrow> string \<Rightarrow> json_object set" where
  "indexed rs gvk ns = {r \<in> set rs. obj_GVK r = gvk \<and> (ns = [] \<or> obj_GetNamespace r = ns)
     \<and> latest (is_resource gvk (obj_GetName r) (obj_GetNamespace r)) rs = Some r}"

definition ns_entries :: "ResourceIndex \<Rightarrow> GroupVersionKind \<Rightarrow> string \<Rightarrow> objects" where
  "ns_entries idx gvk ns = (if ns \<noteq> [] then entries_of (entries_of (ix_byNamespace idx) ns) gvk else entries_of (ix_byGVK idx) gvk)"

lemma map_of_ns_entries:
  "map_of (ns_entries (BuildIndex rs) gvk ns) key
   = (if ns \<noteq> [] then latest (is_resource gvk key ns) rs
      else latest (\<lambda>r. obj_GVK r = gvk \<and> resource_key (obj_GetName r) (obj_GetNamespace r) = key) rs)"
  by (simp add: ns_entries_def index_byGVK index_byNamespace)

lemma ns_entries_distinct: "distinct (map fst (ns_entries (BuildIndex rs) gvk ns))"
  using BuildIndex_wf [of rs] by (simp add: ns_entries_def index_wf_def)

lemma ns_entries_set:
  assumes "plain_names rs"
  shows "snd ` set (ns_entries (BuildIndex rs) gvk ns) = indexed rs gvk ns"
proof -
  let ?m = "ns_entries (BuildIndex rs) gvk ns"
  have "snd ` set ?m = ran (map_of ?m)" by (simp add: ran_distinct ns_entries_distinct)
  also have "\<dots> = indexed rs gvk ns"
  proof (intro set_eqI iffI)
    fix r assume "r \<in> ran (map_of ?m)"
    then obtain key where k: "map_of ?m key = Some r" by (auto simp: ran_def)
    have n: "CHR ''/'' \<notin> set (obj_GetName r)" if "r \<in> set rs" using assms that by (auto simp: plain_names_def list_all_iff)
    show "r \<in> indexed rs gvk ns"
    proof (cases "ns = []")
      case True
      then have l: "latest (\<lambda>r. obj_GVK r = gvk \<and> resource_key (obj_GetName r) (obj_GetNamespace r) = key) rs = Some r"
        using k by (simp add: map_of_ns_entries)
      then have r: "obj_GVK r = gvk" "resource_key (obj_GetName r) (obj_GetNamespace r) = key" "r \<in> set rs" using latest_SomeD [OF l] by auto
      then show ?thesis using l latest_key [OF assms n, of gvk "obj_GetNamespace r"] True by (simp add: indexed_def)
    next
      case False
      then have l: "latest (is_resource gvk key ns) rs = Some r" using k by (simp add: map_of_ns_entries)
      then show ?thesis using latest_SomeD [OF l] by (auto simp: indexed_def is_resource_def)
    qed
  next
    fix r assume r: "r \<in> indexed rs gvk ns"
    then have "CHR ''/'' \<notin> set (obj_GetName r)" using assms by (auto simp: indexed_def plain_names_def list_all_iff)
    then have "map_of ?m (if ns = [] then resource_key (obj_GetName r) (obj_GetNamespace r) else obj_GetName r) = Some r"
      using r latest_key [OF assms, of "obj_GetName r" gvk "obj_GetNamespace r"] by (auto simp: map_of_ns_entries indexed_def)
    then show "r \<in> ran (map_of ?m)" by (auto simp: ran_def)
  qed
  finally show ?thesis .
qed

lemma ns_entries_inj: "inj_on snd (set (ns_entries (BuildIndex rs) gvk ns))"
proof (rule inj_onI)
  fix x y assume xy: "x \<in> set (ns_entries (BuildIndex rs) gvk ns)" "y \<in> set (ns_entries (BuildIndex rs) gvk ns)" "snd x = snd y"
  have key: "fst e = (if ns = [] then resource_key (obj_GetName (snd e)) (obj_GetNamespace (snd e)) else obj_GetName (snd e))"
    if "e \<in> set (ns_entries (BuildIndex rs) gvk ns)" for e
  proof -
    have "map_of (ns_entries (BuildIndex rs) gvk ns) (fst e) = Some (snd e)"
      using that by (intro map_of_is_SomeI) (simp_all add: ns_entries_distinct)
    then show ?thesis by (auto simp: map_of_ns_entries is_resource_def dest!: latest_SomeD split: if_splits)
  qed
  show "x = y" using key [OF xy(1)] key [OF xy(2)] xy(3) by (simp add: prod_eq_iff)
qed

text \<open>
  C27: an archive is queried faithfully. Of the resources loaded, in order, \<open>Get\<close> returns the last one with the kind, name and
  namespace, and nothing if there is none; \<open>List\<close> returns without repetition such resources of the kind (in the namespace, if one
  is given) that the selectors match, all of them if no limit says otherwise and as many as the limit otherwise, whatever the order in
  which maps are visited; the count is that of the resources loaded, and the namespaces are those that occur, sorted. The names must have
  no slash, which a key could not tell from the one after the namespace.
\<close>

theorem archive_index_faithful:
  assumes "plain_names rs" "\<forall>xs. mset (order xs) = mset xs" "newListMatcher se opts = Inr matches"
  shows "(CHR ''/'' \<notin> set name \<longrightarrow> index_Get (BuildIndex rs) gvk name ns = latest (is_resource gvk name ns) rs)
    \<and> (\<exists>items. index_List se order (BuildIndex rs) gvk ns opts = Inr items \<and> distinct items \<and> set items \<subseteq> {r \<in> indexed rs gvk ns. matches r}
         \<and> length items = (let n = card {r \<in> indexed rs gvk ns. matches r} in if ml_Limit opts > 0 then min (nat (ml_Limit opts)) n else n))
    \<and> ix_count (BuildIndex rs) = length rs \<and> ix_namespaces (BuildIndex rs) = sorted_list_of_set (obj_GetNamespace ` set rs - {[]})"
proof (intro conjI impI BuildIndex_count BuildIndex_namespaces)
  assume "CHR ''/'' \<notin> set name"
  then show "index_Get (BuildIndex rs) gvk name ns = latest (is_resource gvk name ns) rs"
    using index_byGVK [of rs gvk "resource_key name ns"] latest_key [OF assms(1)]
    by (simp add: index_Get_def entries_of_def split: option.splits)
next
  let ?m = "ns_entries (BuildIndex rs) gvk ns" and ?S = "{r \<in> indexed rs gvk ns. matches r}"
  let ?all = "filter matches (map snd (order ?m))"
  have perm: "set (order ?m) = set ?m" "distinct (order ?m)"
    using assms(2) ns_entries_distinct [of rs gvk ns] by (metis set_mset_mset, metis distinct_map mset_eq_imp_distinct_iff)
  have d: "distinct ?all" using perm ns_entries_inj by (simp add: distinct_map)
  have st: "set ?all = ?S" using ns_entries_set [OF assms(1), of gvk ns] perm(1) by auto
  have len: "length ?all = card ?S" using distinct_card [OF d] st by simp
  have res: "index_List se order (BuildIndex rs) gvk ns opts
      = Inr (if ml_Limit opts > 0 \<and> int (length ?all) > ml_Limit opts then take (nat (ml_Limit opts)) ?all else ?all)"
    by (simp add: index_List_def assms(3) ns_entries_def Let_def)
  show "\<exists>items. index_List se order (BuildIndex rs) gvk ns opts = Inr items \<and> distinct items \<and> set items \<subseteq> ?S
      \<and> length items = (let n = card ?S in if ml_Limit opts > 0 then min (nat (ml_Limit opts)) n else n)"
    unfolding res using d st len set_take_subset [of "nat (ml_Limit opts)" ?all] by (auto simp: Let_def min_def)
qed

text \<open>Two objects of an archive, and the case that a key cannot tell apart.\<close>

definition demo_object :: "string \<Rightarrow> string \<Rightarrow> string \<Rightarrow> json_object" where
  "demo_object ns name v = [(''apiVersion'', JStr ''v1''), (''kind'', JStr ''Pod''), (''metadata'', JObj ((''name'', JStr name)
     # (if ns = [] then [] else [(''namespace'', JStr ns)]))), (''v'', JStr v)]"

lemma demo_object_simps [simp]:
  "obj_GVK (demo_object ns name v) = \<lparr>gvk_Group = [], gvk_Version = ''v1'', gvk_Kind = ''Pod''\<rparr>"
  "obj_GetName (demo_object ns name v) = name" "obj_GetNamespace (demo_object ns name v) = ns"
  by (simp_all add: demo_object_def obj_GVK_def obj_GetName_def obj_GetNamespace_def ParseGroupVersion_def)

theorem archive_index_faithful_witness:
  "index_Get (BuildIndex [demo_object ''n'' ''a'' ''old'', demo_object ''n'' ''a'' ''new'']) \<lparr>gvk_Group = [], gvk_Version = ''v1'', gvk_Kind = ''Pod''\<rparr> ''a'' ''n''
   = Some (demo_object ''n'' ''a'' ''new'')"
proof -
  let ?rs = "[demo_object ''n'' ''a'' ''old'', demo_object ''n'' ''a'' ''new'']"
  have "newListMatcher \<lparr>se_Labels = (\<lambda>_. Inl []), se_Fields = (\<lambda>_. Inl [])\<rparr> \<lparr>ml_LabelSelector = [], ml_FieldSelector = [], ml_Limit = 0\<rparr>
      = Inr (\<lambda>_. True)" by (simp add: newListMatcher_def)
  then show ?thesis
    using archive_index_faithful [of ?rs "\<lambda>xs. xs", where name = "''a''" and ns = "''n''" and gvk = "\<lparr>gvk_Group = [], gvk_Version = ''v1'', gvk_Kind = ''Pod''\<rparr>"]
    by (simp add: plain_names_def latest_def is_resource_def)
qed

lemma index_key_ambiguous:
  "index_Get (BuildIndex [demo_object ''n'' ''a'' ''x'', demo_object [] ''n/a'' ''y'']) \<lparr>gvk_Group = [], gvk_Version = ''v1'', gvk_Kind = ''Pod''\<rparr> ''a'' ''n''
   = Some (demo_object [] ''n/a'' ''y'')"
  by (simp add: index_Get_def BuildIndex_def buildNamespaceList_def index_Add_def NewResourceIndex_def resource_key_def entries_of_def Let_def)

section \<open>Where files are read\<close>

text \<open>The components of an absolute path, and segments that \<open>Clean\<close> leaves alone.\<close>

definition path_comps :: "string \<Rightarrow> string list" where
  "path_comps q = clean_comps True [] (Split (CHR ''/'') q)"

definition segment :: "string \<Rightarrow> bool" where
  "segment x \<longleftrightarrow> x \<noteq> [] \<and> x \<noteq> ''.'' \<and> x \<noteq> ''..'' \<and> CHR ''/'' \<notin> set x"

lemma clean_comps_append: "clean_comps r acc (xs @ ys) = clean_comps r (rev (clean_comps r acc xs)) ys"
  by (induction r acc xs rule: clean_comps.induct) (auto split: list.splits)

lemma clean_comps_segments: "list_all segment xs \<Longrightarrow> clean_comps r acc xs = rev acc @ xs"
  by (induction xs arbitrary: acc) (auto simp: segment_def)

lemma clean_comps_rooted:
  "list_all segment acc \<Longrightarrow> list_all (\<lambda>x. CHR ''/'' \<notin> set x) xs \<Longrightarrow> list_all segment (clean_comps True acc xs)"
proof (induction True acc xs rule: clean_comps.induct)
  case (2 acc c cs)
  then show ?case by (cases acc) (auto simp: segment_def)
qed (simp add: list_all_iff)

lemma path_comps_segments: "list_all segment (path_comps q)"
  unfolding path_comps_def by (intro clean_comps_rooted) (auto simp: list_all_iff dest: Split_elems)

lemma path_comps_append: "path_comps (a @ CHR ''/'' # b) = clean_comps True (rev (path_comps a)) (Split (CHR ''/'') b)"
  by (simp add: path_comps_def Split_append clean_comps_append)

lemma path_comps_root: "path_comps (CHR ''/'' # b) = clean_comps True [] (Split (CHR ''/'') b)"
  by (simp add: path_comps_def)

lemma Clean_abs: "IsAbs q \<Longrightarrow> Clean q = CHR ''/'' # Join ''/'' (path_comps q)"
  by (simp add: Clean_def IsAbs_def path_comps_def)

lemma path_comps_Join: "list_all segment cs \<Longrightarrow> path_comps (CHR ''/'' # Join ''/'' cs) = cs"
proof (cases "cs = []")
  case False
  assume "list_all segment cs"
  moreover from this have "Split (CHR ''/'') (Join ''/'' cs) = cs"
    using False by (intro Split_Join) (auto simp: segment_def list_all_iff)
  ultimately show ?thesis by (simp add: path_comps_root clean_comps_segments)
qed (simp add: path_comps_root)

lemma path_comps_Clean: "IsAbs q \<Longrightarrow> path_comps (Clean q) = path_comps q"
  by (simp add: Clean_abs path_comps_Join path_comps_segments)

lemma Clean_idem: "IsAbs q \<Longrightarrow> Clean (Clean q) = Clean q"
  by (simp add: Clean_abs [of "Clean q"] path_comps_Clean) (simp add: Clean_abs)

text \<open>Joining segments to an absolute path.\<close>

lemma Join_abs: "IsAbs d \<Longrightarrow> list_all segment xs \<Longrightarrow> path_comps (Join ''/'' (d # xs)) = path_comps d @ xs"
proof (induction xs rule: rev_induct)
  case (snoc x xs)
  have "Join ''/'' (d # xs @ [x]) = Join ''/'' (d # xs) @ CHR ''/'' # x"
    by (induction xs arbitrary: d) simp_all
  then show ?case using snoc by (simp add: path_comps_append Split_no_sep segment_def)
qed simp

lemma path_Join_abs:
  assumes "IsAbs d" "list_all segment xs"
  shows "path_comps (path_Join (d # xs)) = path_comps d @ xs" "IsAbs (path_Join (d # xs))"
proof -
  have ne: "filter (\<lambda>e. e \<noteq> []) (d # xs) = d # xs"
    using assms IsAbs_obtain [of d] by (auto simp: filter_id_conv list_all_iff segment_def)
  have "IsAbs (Join ''/'' (d # xs))" using IsAbs_obtain [OF assms(1)] by (cases xs) (auto simp: IsAbs_def)
  then show "path_comps (path_Join (d # xs)) = path_comps d @ xs" "IsAbs (path_Join (d # xs))"
    using Join_abs [OF assms] unfolding path_Join_def ne Let_def by (simp_all add: path_comps_Clean)
qed

text \<open>A path strictly below a directory; two disks that agree there.\<close>

definition below :: "string \<Rightarrow> string \<Rightarrow> bool" where
  "below d q \<longleftrightarrow> (\<exists>xs. xs \<noteq> [] \<and> path_comps q = path_comps d @ xs)"

definition same_below :: "string \<Rightarrow> disk \<Rightarrow> disk \<Rightarrow> bool" where
  "same_below d dk dk' \<longleftrightarrow> (\<forall>q. IsAbs q \<and> below d q \<longrightarrow>
     dk_ReadFile dk q = dk_ReadFile dk' q \<and> dk_Stat dk q = dk_Stat dk' q \<and> dk_ReadDir dk q = dk_ReadDir dk' q \<and> dk_Gzip dk q = dk_Gzip dk' q)"

lemma same_belowD:
  assumes "same_below d dk dk'" "IsAbs d" "list_all segment xs" "xs \<noteq> []"
  shows "dk_ReadFile dk (path_Join (d # xs)) = dk_ReadFile dk' (path_Join (d # xs))"
    "dk_Stat dk (path_Join (d # xs)) = dk_Stat dk' (path_Join (d # xs))"
    "dk_ReadDir dk (path_Join (d # xs)) = dk_ReadDir dk' (path_Join (d # xs))"
    "dk_Gzip dk (path_Join (d # xs)) = dk_Gzip dk' (path_Join (d # xs))"
  using assms path_Join_abs [OF assms(2,3)] unfolding same_below_def below_def by blast+

lemma same_below_sub: "same_below d dk dk' \<Longrightarrow> IsAbs d \<Longrightarrow> list_all segment xs \<Longrightarrow> same_below (path_Join (d # xs)) dk dk'"
  unfolding same_below_def below_def by (metis Nil_is_append_conv append_assoc path_Join_abs(1))

definition dir_names :: "disk \<Rightarrow> bool" where
  "dir_names dk \<longleftrightarrow> (\<forall>q entries. dk_ReadDir dk q = Inr entries \<longrightarrow> list_all (\<lambda>(name, _). segment name) entries)"

lemma segment_literals [simp]:
  "segment ''namespaces''" "segment ''pods''" "segment ''logs''" "segment ''nodes''" "segment ''etcd_info''" "segment ''current.log''" "segment ''previous.log''"
  "segment ''sysinfo.log''" "segment ''cpu_affinities.json''" "segment ''irq_affinities.json''" "segment ''pods_info.json''" "segment ''podresources.json''"
  "segment ''lscpu''" "segment ''lspci''" "segment ''dmesg''" "segment ''proc_cmdline''"
  by (simp_all add: segment_def)

lemma segment_append: "segment a \<Longrightarrow> CHR ''/'' \<notin> set b \<Longrightarrow> length b \<ge> 2 \<Longrightarrow> segment (a @ b)"
  by (cases a rule: rev_cases) (auto simp: segment_def append_eq_Cons_conv)

lemma pod_containers_below:
  assumes "same_below (container_dir p) dk dk'" "IsAbs (container_dir p)" "segment ns" "segment pod"
  shows "ListPodContainers dk p ns pod = ListPodContainers dk' p ns pod"
  using same_belowD(3) [OF assms(1,2), of "[''namespaces'', ns, ''pods'', pod]"] assms(3,4) by (simp add: ListPodContainers_def)

lemma pod_container_segment:
  assumes "dir_names dk" "ListPodContainers dk p ns pod = Inr (c # cs)"
  shows "segment c"
proof -
  obtain entries where e: "dk_ReadDir dk (path_Join [container_dir p, ''namespaces'', ns, ''pods'', pod]) = Inr entries" "map fst (filter snd entries) = c # cs"
    using assms(2) by (auto simp: ListPodContainers_def bindE_Inr_iff)
  have "c \<in> set (map fst (filter snd entries))" unfolding e(2) by simp
  then have "c \<in> fst ` set entries" by auto
  then show ?thesis using assms(1) e(1) by (fastforce simp: dir_names_def list_all_iff)
qed

lemma pod_log_file_below:
  assumes "same_below (container_dir p) dk dk'" "IsAbs (container_dir p)" "segment ns" "segment pod" "segment c" "t \<in> {''current'', ''previous''}"
  shows "dk_Stat dk (pod_log_file p ns pod c t) = dk_Stat dk' (pod_log_file p ns pod c t)"
    "dk_ReadFile dk (pod_log_file p ns pod c t) = dk_ReadFile dk' (pod_log_file p ns pod c t)"
  using same_belowD(1,2) [OF assms(1,2), of "[''namespaces'', ns, ''pods'', pod, c, c, ''logs'', t @ ''.log'']"] assms(3-)
  by (auto simp: pod_log_file_def)

lemma GetPodLogPath_below:
  assumes "same_below (container_dir p) dk dk'" "dir_names dk" "IsAbs (container_dir p)" "segment (lg_Namespace opts)" "segment (lg_Pod opts)"
    "lg_Container opts = [] \<or> segment (lg_Container opts)" "lg_LogType opts \<in> {[], ''current'', ''previous''}"
  shows "GetPodLogPath dk p opts = GetPodLogPath dk' p opts"
    "GetPodLogPath dk p opts = Inr q \<Longrightarrow> dk_ReadFile dk q = dk_ReadFile dk' q"
proof -
  let ?t = "if lg_LogType opts = [] then ''current'' else lg_LogType opts"
  have t: "?t \<in> {''current'', ''previous''}" using assms(7) by auto
  let ?choice = "if lg_Container opts = [] then bindE (ListPodContainers dk p (lg_Namespace opts) (lg_Pod opts)) (\<lambda>cs. case cs of
        [] \<Rightarrow> Inl (''no containers found for pod '' @ lg_Namespace opts @ ''/'' @ lg_Pod opts) | c # _ \<Rightarrow> Inr c) else Inr (lg_Container opts)"
  have c: "segment c" if choice: "?choice = Inr c" for c
  proof (cases "lg_Container opts = []")
    case True
    then obtain x where "ListPodContainers dk p (lg_Namespace opts) (lg_Pod opts) = Inr x"
        "(case x of [] \<Rightarrow> Inl (''no containers found for pod '' @ lg_Namespace opts @ ''/'' @ lg_Pod opts) | c # _ \<Rightarrow> Inr c) = Inr c"
      using choice unfolding if_P [OF True] bindE_Inr_iff by blast
    then show ?thesis using pod_container_segment [OF assms(2)] by (cases x) auto
  qed (use choice assms(6) in auto)
  have same: "ListPodContainers dk p (lg_Namespace opts) (lg_Pod opts) = ListPodContainers dk' p (lg_Namespace opts) (lg_Pod opts)"
    by (rule pod_containers_below [OF assms(1,3-5)])
  note files = pod_log_file_below [OF assms(1,3-5) c t]
  show "GetPodLogPath dk p opts = GetPodLogPath dk' p opts"
    unfolding GetPodLogPath_def same [symmetric] using files(1) by (cases ?choice) (simp_all add: Let_def)
  assume "GetPodLogPath dk p opts = Inr q"
  then show "dk_ReadFile dk q = dk_ReadFile dk' q"
    unfolding GetPodLogPath_def using files(2) by (cases ?choice) (auto simp: Let_def split: option.splits)
qed

lemma GetNodeDiagnostics_below:
  assumes "same_below (container_dir p) dk dk'" "IsAbs (container_dir p)" "segment node"
  shows "GetNodeDiagnostics dk p node = GetNodeDiagnostics dk' p node"
proof -
  let ?d = "path_Join [container_dir p, ''nodes'', node]"
  have d: "IsAbs ?d" "same_below ?d dk dk'"
    using path_Join_abs(2) [OF assms(2), of "[''nodes'', node]"] same_below_sub [OF assms(1,2), of "[''nodes'', node]"] assms(3) by auto
  have st: "not_exist dk ?d = not_exist dk' ?d"
    using same_belowD(2) [OF assms(1,2), of "[''nodes'', node]"] assms(3) by (simp add: not_exist_def)
  have f: "dk_ReadFile dk (path_Join [?d, x]) = dk_ReadFile dk' (path_Join [?d, x])" if "segment x" for x
    using same_belowD(1) [OF d(2,1), of "[x]"] that by simp
  have "segment (node @ ''_logs_kubelet.gz'')" using assms(3) by (intro segment_append) auto
  then have "readGzipFile dk (path_Join [?d, node @ ''_logs_kubelet.gz'']) = readGzipFile dk' (path_Join [?d, node @ ''_logs_kubelet.gz''])"
    using same_belowD(4) [OF d(2,1), of "[node @ ''_logs_kubelet.gz'']"] by (simp add: readGzipFile_def)
  then show ?thesis by (simp add: GetNodeDiagnostics_def Let_def st f)
qed

lemma ReadETCDFile_below:
  assumes "same_below (container_dir p) dk dk'" "IsAbs (container_dir p)"
  shows "ReadETCDFile dk p name = ReadETCDFile dk' p name"
proof -
  let ?d = "path_Join [container_dir p, ''etcd_info'']"
  let ?f = "path_Join [?d, name]"
  have d: "IsAbs ?d" "path_comps ?d = path_comps (container_dir p) @ [''etcd_info'']"
    using path_Join_abs [OF assms(2), of "[''etcd_info'']"] by auto
  have f: "IsAbs ?f" using path_Abs_IsAbs [OF d(1), of name] d(1) IsAbs_obtain [OF d(1)] by (auto simp: path_Join_def IsAbs_Cons)
  have "dk_ReadFile dk ?f = dk_ReadFile dk' ?f" if pre: "HasPrefix (Clean ?f) (Clean ?d @ ''/'')"
  proof -
    obtain t where "Join ''/'' (path_comps ?f) = Join ''/'' (path_comps ?d) @ CHR ''/'' # t"
      using pre f d(1) by (auto simp: HasPrefix_iff Clean_abs)
    then have "Split (CHR ''/'') (Join ''/'' (path_comps ?f)) = Split (CHR ''/'') (Join ''/'' (path_comps ?d)) @ Split (CHR ''/'') t"
      by (simp add: Split_append)
    moreover have joined: "Split (CHR ''/'') (Join ''/'' (path_comps q)) = path_comps q" if "path_comps q \<noteq> []" for q
      using that path_comps_segments [of q] by (intro Split_Join) (auto simp: list_all_iff segment_def)
    moreover have "path_comps ?f \<noteq> []" using calculation(1) Split_not_Nil by (force simp: Cons_eq_append_conv)
    ultimately have "path_comps ?f = path_comps (container_dir p) @ [''etcd_info''] @ Split (CHR ''/'') t"
      using joined [of ?d] d(2) by simp
    then show ?thesis using assms(1) f unfolding same_below_def below_def by blast
  qed
  then show ?thesis by (simp add: ReadETCDFile_def Let_def)
qed

text \<open>
  C28: the files of an archive that a call reads are below its directory, if the names it is given are plain. Two disks that
  agree below an absolute directory of an archive give the same log of a pod and the same diagnostics of a node, for names of
  namespace, pod, container and node that are single path segments other than \<open>.\<close> and \<open>..\<close>; a file of etcd is the same for every
  name, since there the joined path is checked.
\<close>

theorem archive_reads_confined:
  assumes "same_below (container_dir p) dk dk'" "dir_names dk" "IsAbs (container_dir p)"
  shows "(segment (lg_Namespace opts) \<and> segment (lg_Pod opts) \<and> (lg_Container opts = [] \<or> segment (lg_Container opts))
       \<and> lg_LogType opts \<in> {[], ''current'', ''previous''} \<longrightarrow> GetPodLog dk p opts = GetPodLog dk' p opts)
    \<and> (segment node \<longrightarrow> GetNodeDiagnostics dk p node = GetNodeDiagnostics dk' p node)
    \<and> ReadETCDFile dk p name = ReadETCDFile dk' p name"
proof (intro conjI impI)
  assume o: "segment (lg_Namespace opts) \<and> segment (lg_Pod opts) \<and> (lg_Container opts = [] \<or> segment (lg_Container opts))
       \<and> lg_LogType opts \<in> {[], ''current'', ''previous''}"
  have "GetPodLogPath dk p opts = GetPodLogPath dk' p opts" "GetPodLogPath dk p opts = Inr q \<Longrightarrow> dk_ReadFile dk q = dk_ReadFile dk' q" for q
    using GetPodLogPath_below [OF assms] o by blast+
  then show "GetPodLog dk p opts = GetPodLog dk' p opts"
    unfolding GetPodLog_def by (cases "GetPodLogPath dk' p opts") simp_all
qed (simp_all add: GetNodeDiagnostics_below [OF assms(1,3)] ReadETCDFile_below [OF assms(1,3)])

definition demo_disk :: "string \<Rightarrow> disk" where
  "demo_disk secret =
     \<lparr>dk_ReadFile = (\<lambda>q. if q = ''/g/namespaces/n/pods/p/c/c/logs/current.log'' then Inr ''started'' else if q = ''/s/logs/current.log'' then Inr secret
        else Inl ''no such file''),
      dk_Stat = (\<lambda>q. if HasSuffix q ''current.log'' then None else Some (True, ''no such file'')),
      dk_ReadDir = (\<lambda>_. Inl ''no such directory''), dk_Walk = (\<lambda>_. []), dk_Open = (\<lambda>_. Inl []), dk_Gzip = (\<lambda>_. Inl [])\<rparr>"

definition demo_archive :: mg_Provider where
  "demo_archive = \<lparr>mp_metadata = \<lparr>mm_Path = ''/g'', mm_ContainerDir = ''/g'', mm_Version = [], mm_Timestamp = [], mm_ResourceCount = 0, mm_NamespaceCount = 0\<rparr>,
     mp_index = BuildIndex []\<rparr>"

definition log_of :: "string \<Rightarrow> string \<Rightarrow> PodLogOptions" where
  "log_of pod c = \<lparr>lg_Namespace = ''n'', lg_Pod = pod, lg_Container = c, lg_LogType = ''current'', lg_TailLines = 0\<rparr>"

theorem archive_reads_confined_witness:
  "GetPodLog (demo_disk ''a'') demo_archive (log_of ''p'' ''c'') = GetPodLog (demo_disk ''b'') demo_archive (log_of ''p'' ''c'')
   \<and> GetPodLog (demo_disk ''a'') demo_archive (log_of ''p'' ''c'') = Inr ''started''"
proof -
  have "path_comps (container_dir demo_archive) = [''g'']" "path_comps ''/s/logs/current.log'' = [''s'', ''logs'', ''current.log'']" by code_simp+
  then have "same_below (container_dir demo_archive) (demo_disk ''a'') (demo_disk ''b'')"
    by (auto simp: same_below_def below_def demo_disk_def)
  moreover have "dir_names (demo_disk ''a'')" by (simp add: dir_names_def demo_disk_def)
  moreover have "IsAbs (container_dir demo_archive)" by code_simp
  moreover have "segment ''n''" "segment ''p''" "segment ''c''" by (simp_all add: segment_def)
  moreover have "GetPodLog (demo_disk ''a'') demo_archive (log_of ''p'' ''c'') = Inr ''started''" by code_simp
  ultimately show ?thesis
    using archive_reads_confined [where opts = "log_of ''p'' ''c''"] by (simp add: log_of_def)
qed

text \<open>Names with slashes are not refused: a pod or container leads to logs anywhere on the disk, a node to its files.\<close>

lemma pod_log_escapes: "GetPodLog (demo_disk secret) demo_archive (log_of ''../../../../s'' ''.'') = Inr secret"
proof -
  have "pod_log_file demo_archive ''n'' ''../../../../s'' ''.'' ''current'' = ''/s/logs/current.log''" by code_simp
  moreover have "HasSuffix ''/s/logs/current.log'' ''current.log''" by code_simp
  ultimately show ?thesis by (simp add: GetPodLog_def GetPodLogPath_def log_of_def demo_disk_def)
qed

end
