(* ===== verification/Mustgather.thy ===== *)
theory Mustgather
  imports Archive Mcp_Server "HOL-Library.Word"
begin

text \<open>
  The toolset for archives: \<open>src/pkg/toolsets/mustgather/\<close>. The archive in use is a variable of the process, part of the
  world; all tools but the one that sets it only read it and the disk.
\<close>

section \<open>Helpers\<close>

record mg_world =
  mw_provider :: "mg_Provider option"
  mw_disk :: disk

text \<open>
  Decoders and selectors; the order in which a map is visited; the parsers of times (in nanoseconds); the YAML encoder; \<open>%.nf\<close>; conversion of
  numbers out of range.
\<close>

record mg_env =
  me_De :: mg_decoders
  me_Se :: selectors
  me_Order :: "objects \<Rightarrow> objects"
  me_RFC3339 :: "string \<Rightarrow> (string, int) result"
  me_RFC3339Nano :: "string \<Rightarrow> (string, int) result"
  me_Yaml :: "json_object \<Rightarrow> (string, string) result"
  me_Fixed :: "nat \<Rightarrow> rat \<Rightarrow> string"
  me_CountOrder :: "(string \<times> int) list \<Rightarrow> (string \<times> int) list"
  me_Overflow :: "rat \<Rightarrow> int"

type_synonym 'k mg_handler = "mg_env \<Rightarrow> (mg_world, 'k) ToolHandlerParams \<Rightarrow> (mg_world, ToolCallResult) action"

definition no_archive :: string where
  "no_archive = ''no must-gather archive loaded. Call mustgather_use first with a path to a must-gather archive''"

definition getProvider :: "mg_world \<Rightarrow> (string, mg_Provider) result" where
  "getProvider w = (case mw_provider w of None \<Rightarrow> Inl no_archive | Some p \<Rightarrow> Inr p)"

definition setProvider :: "mg_Provider \<Rightarrow> mg_world \<Rightarrow> mg_world" where
  "setProvider p w = w\<lparr>mw_provider := Some p\<rparr>"

text \<open>A handler that reads the archive and the disk.\<close>

definition with_archive :: "(mg_Provider \<Rightarrow> disk \<Rightarrow> ToolCallResult) \<Rightarrow> (mg_world, ToolCallResult) action" where
  "with_archive f w = (case getProvider w of Inl err \<Rightarrow> retA (errorResult err) w | Inr p \<Rightarrow> retA (f p (mw_disk w)) w)"

definition text_result :: "string \<Rightarrow> ToolCallResult" where
  "text_result s = NewToolCallResult s None"

definition getString :: "json_object \<Rightarrow> string \<Rightarrow> string \<Rightarrow> string" where
  "getString args key d = (case map_of args key of Some (JStr s) \<Rightarrow> if s \<noteq> [] then s else d | _ \<Rightarrow> d)"

definition getInt :: "(rat \<Rightarrow> int) \<Rightarrow> json_object \<Rightarrow> string \<Rightarrow> int \<Rightarrow> int" where
  "getInt oor args key d = (case map_of args key of Some (JNum r) \<Rightarrow> int64_of_float oor r | _ \<Rightarrow> d)"

definition getBool :: "json_object \<Rightarrow> string \<Rightarrow> bool \<Rightarrow> bool" where
  "getBool args key d = (case map_of args key of Some (JBool b) \<Rightarrow> b | _ \<Rightarrow> d)"

definition ln :: string where "ln = [CHR 0x0A]"

text \<open>The divisor and the index of the unit. The index is within the six units for every 64-bit integer (see \<open>formatBytes_unit\<close>).\<close>

fun byte_scale :: "nat \<Rightarrow> nat \<Rightarrow> nat \<Rightarrow> nat \<times> nat" where
  "byte_scale n dv ex = (if n \<ge> 1024 then byte_scale (n div 1024) (dv * 1024) (Suc ex) else (dv, ex))"

declare byte_scale.simps [simp del]

definition formatBytes :: "mg_env \<Rightarrow> int \<Rightarrow> string" where
  "formatBytes env bytes =
     (if bytes < 1024 then int_text bytes @ '' B''
      else (let (dv, ex) = byte_scale (nat bytes div 1024) 1024 0 in
            me_Fixed env 1 (of_int bytes / of_nat dv) @ '' '' @ [''KMGTPE'' ! ex] @ ''B''))"

definition formatNumber :: "int \<Rightarrow> string" where
  "formatNumber n =
     (let str = int_text n in
      if length str \<le> 3 then str
      else concat (map (\<lambda>i. (if i > 0 \<and> (length str - i) mod 3 = 0 then '','' else []) @ [str ! i]) [0..<length str]))"

definition formatDuration :: "mg_env \<Rightarrow> rat \<Rightarrow> string" where
  "formatDuration env s =
     (if s < 1 / 1000 then me_Fixed env 2 (s * 1000000) @ ''us''
      else if s < 1 then me_Fixed env 2 (s * 1000) @ ''ms''
      else if s < 60 then me_Fixed env 2 s @ ''s''
      else if s < 3600 then me_Fixed env 1 (s / 60) @ ''m''
      else if s < 86400 then me_Fixed env 1 (s / 3600) @ ''h''
      else me_Fixed env 1 (s / 86400) @ ''d'')"

definition mg_truncate :: "string \<Rightarrow> nat \<Rightarrow> string" where
  "mg_truncate s maxLen =
     (if length s \<le> maxLen then s else if maxLen \<le> 3 then take maxLen s else take (maxLen - 3) s @ ''...'')"

definition healthSymbol :: "string \<Rightarrow> string" where
  "healthSymbol health =
     (let h = ToLower health in
      if h \<in> {''up'', ''healthy'', ''ok'', ''true'', ''firing''} then ''[OK]''
      else if h \<in> {''down'', ''unhealthy'', ''error'', ''false''} then ''[FAIL]''
      else ''[WARN]'')"

definition severitySymbol :: "string \<Rightarrow> string" where
  "severitySymbol severity =
     (let s = ToLower severity in
      if s = ''critical'' then ''[CRITICAL]'' else if s = ''warning'' then ''[WARNING]'' else if s = ''info'' then ''[INFO]'' else ''[UNKNOWN]'')"

text \<open>\<open>%-ns\<close>; the width counts characters, here bytes.\<close>

definition pad_right :: "nat \<Rightarrow> string \<Rightarrow> string" where
  "pad_right n s = s @ replicate (n - length s) (CHR '' '')"

section \<open>The archive and its resources\<close>

definition mustgatherUse :: "'k mg_handler" where
  "mustgatherUse env params w =
     (let path = getString (hp_Arguments params) ''path'' [] in
      if path = [] then retA (errorResult ''path is required'') w
      else
        (let p = mg_NewProvider (de_Yaml (me_De env)) (mw_disk w) path; m = mp_metadata p
         in retA (text_result
             (''Must-gather archive loaded successfully'' @ ln @ replicate 39 (CHR ''='') @ ln @ ln @ ''Path: '' @ mm_Path m @ ln
              @ (if mm_Version m \<noteq> [] then ''Version: '' @ mm_Version m @ ln else [])
              @ (if mm_Timestamp m \<noteq> [] then ''Timestamp: '' @ mm_Timestamp m @ ln else [])
              @ ''Resources indexed: '' @ digits (mm_ResourceCount m) @ ln @ ''Namespaces: '' @ digits (mm_NamespaceCount m) @ ln))
             (setProvider p w)))"

definition parseGVK :: "string \<Rightarrow> string \<Rightarrow> GroupVersionKind" where
  "parseGVK apiVersion kind = (case Cut (CHR ''/'') apiVersion of
     Some (g, v) \<Rightarrow> \<lparr>gvk_Group = g, gvk_Version = v, gvk_Kind = kind\<rparr>
   | None \<Rightarrow> \<lparr>gvk_Group = [], gvk_Version = apiVersion, gvk_Kind = kind\<rparr>)"

definition mustgatherResourcesList :: "'k mg_handler" where
  "mustgatherResourcesList env params = with_archive (\<lambda>p dk.
     let args = hp_Arguments params; kind = getString args ''kind'' [];
         opts = \<lparr>ml_LabelSelector = getString args ''labelSelector'' [], ml_FieldSelector = getString args ''fieldSelector'' [],
                 ml_Limit = getInt (me_Overflow env) args ''limit'' 0\<rparr>
     in if kind = [] then errorResult ''kind is required''
        else (case index_List (me_Se env) (me_Order env) (mp_index p) (parseGVK (getString args ''apiVersion'' ''v1'') kind)
                     (getString args ''namespace'' []) opts of
                Inl err \<Rightarrow> errorResult err
              | Inr items \<Rightarrow>
                  (if items = [] then text_result (''No '' @ kind @ '' resources found'')
                   else text_result
                     (''Found '' @ digits (length items) @ '' '' @ kind @ '' resource(s):'' @ ln @ ln
                      @ concat (map (\<lambda>item. ''- '' @ (if obj_GetNamespace item \<noteq> [] then obj_GetNamespace item @ ''/'' else []) @ obj_GetName item @ ln) items)
                      @ (if length items \<le> 5 then
                           ln @ ''---'' @ ln @ ln
                           @ concat (map (\<lambda>item. case me_Yaml env item of Inr y \<Rightarrow> y @ ln @ ''---'' @ ln @ ln | Inl _ \<Rightarrow> []) items)
                         else [])))))"

section \<open>Events\<close>

definition eventGVK :: GroupVersionKind where
  "eventGVK = \<lparr>gvk_Group = [], gvk_Version = ''v1'', gvk_Kind = ''Event''\<rparr>"

definition field_text :: "string list \<Rightarrow> json_object \<Rightarrow> string" where
  "field_text path obj = found_or [] (NestedString path obj)"

definition last_ts :: "json_object \<Rightarrow> string" where
  "last_ts = field_text [''lastTimestamp'']"

text \<open>
  \<open>sort.Slice\<close> is not stable; the events come in the order of a map, so that a stable sort after an arbitrary order loses no outcome.
\<close>

definition oldest_first :: "json_object list \<Rightarrow> json_object list" where
  "oldest_first evs = sort_key last_ts evs"

definition newest_first :: "json_object list \<Rightarrow> json_object list" where
  "newest_first evs = rev (sort_key last_ts (rev evs))"

definition capped :: "int \<Rightarrow> 'a list \<Rightarrow> 'a list" where
  "capped limit xs = (if limit > 0 \<and> int (length xs) > limit then take (nat limit) xs else xs)"

definition formatEvent :: "json_object \<Rightarrow> string" where
  "formatEvent ev =
     (if field_text [''type''] ev = ''Warning'' then ''[Warning]'' else ''[Normal]'') @ '' '' @ last_ts ev @ '' ''
     @ field_text [''involvedObject'', ''kind''] ev @ ''/'' @ field_text [''involvedObject'', ''name''] ev
     @ (if obj_GetNamespace ev \<noteq> [] then '' (ns: '' @ obj_GetNamespace ev @ '')'' else []) @ ln
     @ ''  Reason: '' @ field_text [''reason''] ev @ ln @ ''  Message: '' @ field_text [''message''] ev @ ln @ ln"

definition list_events :: "mg_env \<Rightarrow> mg_Provider \<Rightarrow> string \<Rightarrow> (string, json_object list) result" where
  "list_events env p ns =
     index_List (me_Se env) (me_Order env) (mp_index p) eventGVK ns \<lparr>ml_LabelSelector = [], ml_FieldSelector = [], ml_Limit = 0\<rparr>"

definition show_events :: "string \<Rightarrow> string \<Rightarrow> json_object list \<Rightarrow> ToolCallResult" where
  "show_events none suffix evs =
     (if evs = [] then text_result none
      else text_result (''Found '' @ digits (length evs) @ '' events'' @ suffix @ '':'' @ ln @ ln @ concat (map formatEvent evs)))"

definition type_matches :: "string \<Rightarrow> json_object \<Rightarrow> bool" where
  "type_matches typeFilter ev \<longleftrightarrow> typeFilter = ''all'' \<or> field_text [''type''] ev = typeFilter"

definition contains_fold :: "string \<Rightarrow> string \<Rightarrow> bool" where
  "contains_fold s flt \<longleftrightarrow> flt = [] \<or> Contains (ToLower s) (ToLower flt)"

definition mustgatherEventsList :: "'k mg_handler" where
  "mustgatherEventsList env params = with_archive (\<lambda>p dk.
     let args = hp_Arguments params; typeFilter = getString args ''type'' ''all'';
         resourceFilter = getString args ''resource'' []; reasonFilter = getString args ''reason'' [];
         limit = getInt (me_Overflow env) args ''limit'' 100
     in case list_events env p (getString args ''namespace'' []) of
          Inl err \<Rightarrow> errorResult err
        | Inr evs \<Rightarrow> show_events ''No events found matching the criteria'' []
            (capped limit (newest_first (filter (\<lambda>ev. type_matches typeFilter ev
               \<and> contains_fold (field_text [''involvedObject'', ''name''] ev) resourceFilter
               \<and> contains_fold (field_text [''reason''] ev) reasonFilter) evs))))"

definition mustgatherEventsByResource :: "'k mg_handler" where
  "mustgatherEventsByResource env params = with_archive (\<lambda>p dk.
     let args = hp_Arguments params; name = getString args ''name'' []; kindFilter = getString args ''kind'' []
     in if name = [] then errorResult ''name is required''
        else (case list_events env p (getString args ''namespace'' []) of
                Inl err \<Rightarrow> errorResult err
              | Inr evs \<Rightarrow> show_events (''No events found for resource '' @ name) ('' for '' @ name)
                  (oldest_first (filter (\<lambda>ev. field_text [''involvedObject'', ''name''] ev = name
                     \<and> (kindFilter = [] \<or> EqualFold (field_text [''involvedObject'', ''kind''] ev) kindFilter)) evs))))"

definition expects_RFC3339 :: "string \<Rightarrow> string \<Rightarrow> string" where
  "expects_RFC3339 what example = ''invalid '' @ what @ '' time format, expected RFC3339 (e.g. '' @ example @ ''): ''"

text \<open>The range of times asked for: the start, and the end if there is one.\<close>

definition time_range :: "mg_env \<Rightarrow> string \<Rightarrow> string \<Rightarrow> (string, int \<times> int option) result" where
  "time_range env sinceStr untilStr =
     (if sinceStr = [] then Inl ''since is required (RFC3339 format)''
      else bindE (mapErr (\<lambda>e. expects_RFC3339 ''since'' ''2026-01-15T10:00:00Z'' @ e) (me_RFC3339 env sinceStr)) (\<lambda>sinceTime.
           if untilStr = [] then Inr (sinceTime, None)
           else bindE (mapErr (\<lambda>e. expects_RFC3339 ''until'' ''2026-01-15T12:00:00Z'' @ e) (me_RFC3339 env untilStr)) (\<lambda>untilTime.
             Inr (sinceTime, Some untilTime))))"

definition in_range :: "int \<times> int option \<Rightarrow> int \<Rightarrow> bool" where
  "in_range r t \<longleftrightarrow> \<not> t < fst r \<and> (case snd r of None \<Rightarrow> True | Some u \<Rightarrow> \<not> t > u)"

definition mustgatherEventsByTime :: "'k mg_handler" where
  "mustgatherEventsByTime env params = with_archive (\<lambda>p dk.
     let args = hp_Arguments params; sinceStr = getString args ''since'' []; untilStr = getString args ''until'' [];
         typeFilter = getString args ''type'' ''all''; limit = getInt (me_Overflow env) args ''limit'' 200;
         between = '' between '' @ sinceStr @ '' and ''
     in case time_range env sinceStr untilStr of
          Inl err \<Rightarrow> errorResult err
        | Inr rng \<Rightarrow>
            (case list_events env p (getString args ''namespace'' []) of
               Inl err \<Rightarrow> errorResult err
             | Inr evs \<Rightarrow> show_events
                 (''No events found'' @ between @ (if untilStr \<noteq> [] then untilStr else ''now''))
                 (between @ (if untilStr \<noteq> [] then untilStr else ''latest''))
                 (capped limit (oldest_first (filter (\<lambda>ev. last_ts ev \<noteq> []
                    \<and> (case me_RFC3339 env (last_ts ev) of Inl _ \<Rightarrow> False | Inr t \<Rightarrow> in_range rng t) \<and> type_matches typeFilter ev) evs)))))"

section \<open>Pod logs\<close>

text \<open>
  \<open>bufio.Scanner\<close> over a stream and the error it ends in: the lines, each with the error the scanner has when it gives it, and
  the error after the last one. A line that fills the buffer stops it.
\<close>

definition maxScanLineSize :: nat where "maxScanLineSize = 1024 * 1024"

definition drop_cr :: "string \<Rightarrow> string" where
  "drop_cr line = TrimSuffix line [CHR 0x0D]"

definition scan_lines :: "string \<times> string option \<Rightarrow> (string \<times> string option) list \<times> string option" where
  "scan_lines st =
     (let raw = Split (CHR 0x0A) (fst st); fit = takeWhile (\<lambda>l. length l < maxScanLineSize) raw in
      if length fit < length raw then (map (\<lambda>l. (drop_cr l, None)) fit, Some ''bufio.Scanner: token too long'')
      else (map (\<lambda>l. (drop_cr l, None)) (butlast raw)
            @ (if List.last raw = [] then [] else [(drop_cr (List.last raw), snd st)]), snd st))"

definition log_options :: "json_object \<Rightarrow> int \<Rightarrow> PodLogOptions" where
  "log_options args tail =
     \<lparr>lg_Namespace = getString args ''namespace'' [], lg_Pod = getString args ''pod'' [], lg_Container = getString args ''container'' [],
      lg_LogType = (if getBool args ''previous'' False then ''previous'' else ''current''), lg_TailLines = tail\<rparr>"

definition opt_text :: "bool \<Rightarrow> string \<Rightarrow> string" where
  "opt_text b s = (if b then s else [])"

definition pod_required :: "json_object \<Rightarrow> bool" where
  "pod_required args \<longleftrightarrow> getString args ''namespace'' [] = [] \<or> getString args ''pod'' [] = []"

definition pod_ref :: "json_object \<Rightarrow> string" where
  "pod_ref args = getString args ''namespace'' [] @ ''/'' @ getString args ''pod'' []"

definition log_source :: "json_object \<Rightarrow> string" where
  "log_source args =
     opt_text (getString args ''container'' [] \<noteq> []) ('', container '' @ getString args ''container'' [])
     @ opt_text (getBool args ''previous'' False) '' (previous)''"

definition mustgatherPodLogsGet :: "'k mg_handler" where
  "mustgatherPodLogsGet env params = with_archive (\<lambda>p dk.
     let args = hp_Arguments params; tail = getInt (me_Overflow env) args ''tail'' 0 in
     if pod_required args then errorResult ''namespace and pod are required''
     else (case GetPodLog dk p (log_options args tail) of
             Inl err \<Rightarrow> errorResult (''failed to get pod logs: '' @ err)
           | Inr logs \<Rightarrow> text_result (''Logs for pod '' @ pod_ref args @ log_source args
               @ opt_text (tail > 0) ('' (last '' @ int_text tail @ '' lines)'') @ '':'' @ ln @ ln @ logs)))"

text \<open>The log of a pod as a stream.\<close>

definition open_log :: "disk \<Rightarrow> mg_Provider \<Rightarrow> json_object \<Rightarrow> (string, string \<times> string option) result" where
  "open_log dk p args =
     bindE (mapErr (\<lambda>e. ''failed to get pod logs: '' @ e) (GetPodLogPath dk p (log_options args 0))) (\<lambda>logPath.
       mapErr (\<lambda>e. ''failed to open log file: '' @ e) (dk_Open dk logPath))"

definition line_matches :: "bool \<Rightarrow> string \<Rightarrow> string \<Rightarrow> bool" where
  "line_matches caseInsensitive flt line =
     (if caseInsensitive then Contains (ToLower line) (ToLower flt) else Contains line flt)"

text \<open>The matching lines, the next slot of the ring and the number of matches.\<close>

definition grep_step :: "(string \<Rightarrow> bool) \<Rightarrow> int \<Rightarrow> string \<Rightarrow> string list \<times> nat \<times> nat \<Rightarrow> string list \<times> nat \<times> nat" where
  "grep_step matches tail line st =
     (case st of (ms, ringIdx, tot) \<Rightarrow>
        if \<not> matches line then st
        else if tail > 0 then
          (if int (length ms) < tail then (ms @ [line], ringIdx, Suc tot)
           else (ms[ringIdx := line], Suc ringIdx mod nat tail, Suc tot))
        else (ms @ [line], ringIdx, Suc tot))"

definition unroll :: "int \<Rightarrow> string list \<Rightarrow> nat \<Rightarrow> string list" where
  "unroll tail ms ringIdx =
     (if tail > 0 \<and> int (length ms) = tail then map (\<lambda>i. ms ! ((ringIdx + i) mod nat tail)) [0..<nat tail] else ms)"

definition grep_text :: "string \<Rightarrow> nat \<Rightarrow> string list \<Rightarrow> string" where
  "grep_text header tot ms =
     header @ '':'' @ ln @ ln @ ''Found '' @ digits tot @ '' matching line(s)'' @ ln @ ln
     @ (if tot = 0 then ''No matching lines found.'' else Join ln ms)"

definition grep_header :: "json_object \<Rightarrow> string" where
  "grep_header args = '' filtered by '' @ [CHR 0x27] @ getString args ''filter'' [] @ [CHR 0x27]"

definition grep_options :: "mg_env \<Rightarrow> json_object \<Rightarrow> string" where
  "grep_options env args =
     (let tail = getInt (me_Overflow env) args ''tail'' 0 in
      opt_text (getBool args ''caseInsensitive'' False) '' (case-insensitive)''
      @ opt_text (tail > 0) ('' (last '' @ int_text tail @ '' matches)''))"

definition mustgatherPodLogsGrep :: "'k mg_handler" where
  "mustgatherPodLogsGrep env params = with_archive (\<lambda>p dk.
     let args = hp_Arguments params; flt = getString args ''filter'' []; tail = getInt (me_Overflow env) args ''tail'' 0 in
     if pod_required args then errorResult ''namespace and pod are required''
     else if flt = [] then errorResult ''filter string is required''
     else (case open_log dk p args of
             Inl err \<Rightarrow> errorResult err
           | Inr stream \<Rightarrow>
               (let (lines, err) = scan_lines stream;
                    (ms, ringIdx, tot) = fold (\<lambda>(line, _). grep_step (line_matches (getBool args ''caseInsensitive'' False) flt) tail line)
                      lines ([], 0, 0)
                in case err of
                     Some e \<Rightarrow> errorResult (''failed to read log file: '' @ e)
                   | None \<Rightarrow> text_result (grep_text (''Logs for pod '' @ pod_ref args @ grep_header args @ log_source args @ grep_options env args)
                       tot (unroll tail ms ringIdx)))))"

text \<open>The lines in a range of times, up to a limit; with the error the scanner has in the end.\<close>

definition line_in_range :: "mg_env \<Rightarrow> int \<times> int option \<Rightarrow> string \<Rightarrow> bool" where
  "line_in_range env rng line \<longleftrightarrow> line \<noteq> [] \<and> (case Cut (CHR '' '') line of
     None \<Rightarrow> False
   | Some (ts, _) \<Rightarrow> (case me_RFC3339Nano env ts of Inl _ \<Rightarrow> False | Inr t \<Rightarrow> in_range rng t))"

fun time_lines :: "(string \<Rightarrow> bool) \<Rightarrow> int \<Rightarrow> string list \<Rightarrow> (string \<times> string option) list \<Rightarrow> string option \<Rightarrow> string list \<times> string option" where
  "time_lines keep limit acc [] err = (acc, err)"
| "time_lines keep limit acc ((line, e) # ls) err =
     (if \<not> keep line then time_lines keep limit acc ls err
      else if limit > 0 \<and> int (length (acc @ [line])) \<ge> limit then (acc @ [line], e)
      else time_lines keep limit (acc @ [line]) ls err)"

definition mustgatherPodLogsByTime :: "'k mg_handler" where
  "mustgatherPodLogsByTime env params = with_archive (\<lambda>p dk.
     let args = hp_Arguments params; sinceStr = getString args ''since'' []; untilStr = getString args ''until'' [];
         limit = getInt (me_Overflow env) args ''limit'' 500
     in if pod_required args then errorResult ''namespace and pod are required''
        else (case time_range env sinceStr untilStr of
                Inl err \<Rightarrow> errorResult err
              | Inr rng \<Rightarrow>
                  (case open_log dk p args of
                     Inl err \<Rightarrow> errorResult err
                   | Inr stream \<Rightarrow>
                       (let (lines, err) = scan_lines stream; (ms, e) = time_lines (line_in_range env rng) limit [] lines err
                        in case e of
                             Some e \<Rightarrow> errorResult (''failed to read log file: '' @ e)
                           | None \<Rightarrow> text_result (grep_text (''Logs for pod '' @ pod_ref args @ '' between '' @ sinceStr @ '' and ''
                               @ (if untilStr \<noteq> [] then untilStr else ''latest'') @ log_source args) (length ms) ms)))))"

section \<open>Nodes\<close>

definition node_sections :: "NodeDiagnostics \<Rightarrow> (string \<times> string \<times> string) list" where
  "node_sections d =
     [(''sysinfo'', ''System Info'', nd_SysInfo d), (''lscpu'', ''CPU Info (lscpu)'', nd_Lscpu d), (''cpu'', ''CPU Affinities'', nd_CPUAffinities d),
      (''irq'', ''IRQ Affinities'', nd_IRQAffinities d), (''lspci'', ''PCI Devices (lspci)'', nd_Lspci d),
      (''dmesg'', ''Kernel Messages (dmesg)'', nd_Dmesg d), (''cmdline'', ''Kernel Boot Parameters'', nd_ProcCmdline d),
      (''pods'', ''Pods Info'', nd_PodsInfo d), (''podresources'', ''Pod Resources'', nd_PodResources d)]"

definition mustgatherNodeDiagnosticsGet :: "'k mg_handler" where
  "mustgatherNodeDiagnosticsGet env params = with_archive (\<lambda>p dk.
     let args = hp_Arguments params; node = getString args ''node'' []; incl = getString args ''include'' ''all'';
         kubeletTail = getInt (me_Overflow env) args ''kubeletTail'' 100;
         shouldInclude = (\<lambda>name. incl = ''all'' \<or> name \<in> set (map TrimSpace (Split (CHR '','') incl)))
     in if node = [] then errorResult ''node is required''
        else (case GetNodeDiagnostics dk p node of
                Inl err \<Rightarrow> errorResult (''failed to get node diagnostics: '' @ err)
              | Inr diag \<Rightarrow> text_result
                  (''Node Diagnostics for '' @ node @ ln @ replicate 80 (CHR ''='') @ ln @ ln
                   @ opt_text (shouldInclude ''kubelet'' \<and> nd_KubeletLog diag \<noteq> [])
                       (''## Kubelet Logs''
                        @ (if kubeletTail > 0 then '' (last '' @ int_text kubeletTail @ '' lines)'' @ ln @ ln @ TailLines (nd_KubeletLog diag) (nat kubeletTail)
                           else ln @ ln @ nd_KubeletLog diag) @ ln @ ln)
                   @ concat (map (\<lambda>(key, title, content). opt_text (shouldInclude key \<and> content \<noteq> [])
                       (''## '' @ title @ ln @ ln @ content @ ln @ ln)) (node_sections diag)))))"

definition kubelet_log :: "disk \<Rightarrow> mg_Provider \<Rightarrow> string \<Rightarrow> (string, string) result" where
  "kubelet_log dk p node =
     bindE (mapErr (\<lambda>e. ''failed to get node diagnostics: '' @ e) (GetNodeDiagnostics dk p node)) (\<lambda>diag.
       if nd_KubeletLog diag = [] then Inl (''kubelet log not found for node '' @ node) else Inr (nd_KubeletLog diag))"

definition mustgatherNodeKubeletLogs :: "'k mg_handler" where
  "mustgatherNodeKubeletLogs env params = with_archive (\<lambda>p dk.
     let args = hp_Arguments params; node = getString args ''node'' []; tail = getInt (me_Overflow env) args ''tail'' 0 in
     if node = [] then errorResult ''node is required''
     else (case kubelet_log dk p node of
             Inl err \<Rightarrow> errorResult err
           | Inr logs \<Rightarrow> text_result (''Kubelet logs for node '' @ node @ opt_text (tail > 0) ('' (last '' @ int_text tail @ '' lines)'') @ '':'' @ ln @ ln
               @ (if tail > 0 then TailLines logs (nat tail) else logs))))"

definition last_matches :: "int \<Rightarrow> 'a list \<Rightarrow> 'a list" where
  "last_matches tail ms = (if tail > 0 \<and> int (length ms) > tail then drop (length ms - nat tail) ms else ms)"

definition mustgatherNodeKubeletLogsGrep :: "'k mg_handler" where
  "mustgatherNodeKubeletLogsGrep env params = with_archive (\<lambda>p dk.
     let args = hp_Arguments params; node = getString args ''node'' []; flt = getString args ''filter'' [];
         tail = getInt (me_Overflow env) args ''tail'' 0
     in if node = [] then errorResult ''node is required''
        else if flt = [] then errorResult ''filter string is required''
        else (case kubelet_log dk p node of
                Inl err \<Rightarrow> errorResult err
              | Inr logs \<Rightarrow>
                  (let ms = last_matches tail (filter (line_matches (getBool args ''caseInsensitive'' False) flt) (Split (CHR 0x0A) logs))
                   in text_result (grep_text (''Kubelet logs for node '' @ node @ grep_header args @ grep_options env args) (length ms) ms))))"

section \<open>etcd\<close>

definition mustgatherETCDHealth :: "'k mg_handler" where
  "mustgatherETCDHealth env params = with_archive (\<lambda>p dk.
     case GetETCDHealth (me_De env) dk p of
       Inl err \<Rightarrow> errorResult (''failed to get ETCD health: '' @ err)
     | Inr health \<Rightarrow> text_result
         (''## ETCD Cluster Health'' @ ln @ ln
          @ (if eh_Healthy health then ''Status: [OK] Healthy'' else ''Status: [FAIL] Unhealthy'') @ ln @ ln
          @ ''### Endpoints'' @ ln @ ln
          @ concat (map (\<lambda>(address, h). ''- '' @ healthSymbol h @ '' '' @ address @ ln) (eh_Endpoints health))
          @ (if eh_Alarms health \<noteq> [] then ln @ ''### Active Alarms'' @ ln @ ln @ concat (map (\<lambda>a. ''- [WARNING] '' @ a @ ln) (eh_Alarms health))
             else ln @ ''No active alarms.'' @ ln)))"

definition wrap64 :: "int \<Rightarrow> int" where
  "wrap64 i = sint (word_of_int i :: 64 word)"

definition by_count :: "(string \<times> int) list \<Rightarrow> (string \<times> int) list" where
  "by_count es = rev (sort_key snd (rev es))"

definition mustgatherETCDObjectCount :: "'k mg_handler" where
  "mustgatherETCDObjectCount env params = with_archive (\<lambda>p dk.
     let limit = getInt (me_Overflow env) (hp_Arguments params) ''limit'' 50 in
     case GetETCDObjectCount (me_De env) dk p of
       Inl err \<Rightarrow> errorResult (''failed to get ETCD object counts: '' @ err)
     | Inr counts \<Rightarrow>
         (let es = capped limit (by_count (me_CountOrder env counts)); maxLen = foldr max (map (length \<circ> fst) es) 0
          in text_result
            (''## ETCD Object Counts'' @ ln @ ln @ ''Total objects: '' @ formatNumber (wrap64 (sum_list (map snd counts))) @ '' across ''
             @ digits (length counts) @ '' resource types'' @ ln @ ln
             @ concat (map (\<lambda>(k, c). pad_right maxLen k @ ''  '' @ formatNumber c @ ln) es)
             @ opt_text (limit > 0 \<and> int (length counts) > limit)
                 (ln @ ''... showing top '' @ int_text limit @ '' of '' @ digits (length counts) @ '' resource types'' @ ln))))"

section \<open>Monitoring\<close>

definition head_stats :: "HeadStats \<Rightarrow> string" where
  "head_stats h =
     ''Series:      '' @ formatNumber (hs_NumSeries h) @ ln @ ''Label Pairs: '' @ formatNumber (hs_NumLabelPairs h) @ ln
     @ ''Chunks:      '' @ formatNumber (hs_ChunkCount h) @ ln @ ln"

definition runtime_text :: "RuntimeInfo \<Rightarrow> string" where
  "runtime_text r =
     ''#### Runtime Info'' @ ln @ ln @ ''Start Time:       '' @ ri_StartTime r @ ln @ ''Storage Retention: '' @ ri_StorageRetention r @ ln
     @ ''Config Reload:    '' @ healthSymbol (if ri_ReloadConfigSuccess r then ''true'' else ''false'') @ '' (last: '' @ ri_LastConfigTime r @ '')'' @ ln
     @ ''Goroutines:       '' @ int_text (ri_GoroutineCount r) @ ln @ ''GOMAXPROCS:       '' @ int_text (ri_GOMAXPROCS r) @ ln
     @ opt_text (ri_CorruptionCount r > 0) (''Corruptions:      [WARNING] '' @ int_text (ri_CorruptionCount r) @ ln) @ ln"

definition mustgatherMonitoringPrometheusStatus :: "'k mg_handler" where
  "mustgatherMonitoringPrometheusStatus env params = with_archive (\<lambda>p dk.
     text_result (''## Prometheus Status'' @ ln @ ln
       @ concat (map (\<lambda>r. ''### Replica prometheus-k8s-'' @ digits r @ ln @ ln
           @ (case GetPrometheusRuntimeInfo (me_De env) dk p r of
                Inl err \<Rightarrow> ''Runtime info not available: '' @ err @ ln @ ln
              | Inr info \<Rightarrow> runtime_text info)
           @ (case GetPrometheusTSDB (me_De env) dk p r of
                Inl err \<Rightarrow> ''TSDB info not available: '' @ err @ ln @ ln
              | Inr tsdb \<Rightarrow> ''#### TSDB Head Stats'' @ ln @ ln @ head_stats (ts_HeadStats tsdb)))
           (GetReplicaNumbers (getString (hp_Arguments params) ''replica'' ''all'')))))"

definition target_text :: "mg_env \<Rightarrow> ActiveTarget \<Rightarrow> string" where
  "target_text env t =
     healthSymbol (at_Health t) @ '' '' @ at_ScrapePool t @ ln @ ''  URL: '' @ at_ScrapeURL t @ ln
     @ ''  Last Scrape: '' @ at_LastScrape t @ '' (duration: '' @ formatDuration env (at_LastScrapeDuration t) @ '')'' @ ln
     @ opt_text (at_LastError t \<noteq> []) (''  Error: '' @ at_LastError t @ ln) @ ln"

definition mustgatherMonitoringPrometheusTargets :: "'k mg_handler" where
  "mustgatherMonitoringPrometheusTargets env params = with_archive (\<lambda>p dk.
     let args = hp_Arguments params; healthFilter = getString args ''health'' [];
         r = hd (GetReplicaNumbers (getString args ''replica'' ''0''))
     in case GetPrometheusActiveTargets (me_De env) dk p r of
          Inl err \<Rightarrow> errorResult (''failed to get Prometheus targets: '' @ err)
        | Inr targets \<Rightarrow>
            (let up = length (filter (\<lambda>t. ToLower (at_Health t) = ''up'') targets);
                 down = length (filter (\<lambda>t. ToLower (at_Health t) = ''down'') targets)
             in text_result
               (''## Prometheus Targets (replica '' @ digits r @ '')'' @ ln @ ln
                @ ''Total: '' @ digits (length targets) @ '' targets (Up: '' @ digits up @ '', Down: '' @ digits down
                @ '', Unknown: '' @ digits (length targets - up - down) @ '')'' @ ln @ ln
                @ opt_text (healthFilter \<noteq> []) (''Showing targets with health: '' @ healthFilter @ ln @ ln)
                @ concat (map (target_text env) (filter (\<lambda>t. healthFilter = [] \<or> EqualFold (at_Health t) healthFilter) targets)))))"

definition name_values :: "string \<Rightarrow> (int \<Rightarrow> string) \<Rightarrow> (string \<times> int) list \<Rightarrow> int \<Rightarrow> string" where
  "name_values title show items limit =
     ''#### '' @ title @ ln @ ln
     @ (if items = [] then ''No data available.'' @ ln @ ln
        else concat (map (\<lambda>(n, v). pad_right 60 (mg_truncate n 60) @ '' '' @ show v @ ln) (capped limit items)) @ ln)"

definition formatNameValueSection :: "string \<Rightarrow> (string \<times> int) list \<Rightarrow> int \<Rightarrow> string" where
  "formatNameValueSection title = name_values title formatNumber"

definition formatNameValueBytesSection :: "mg_env \<Rightarrow> string \<Rightarrow> (string \<times> int) list \<Rightarrow> int \<Rightarrow> string" where
  "formatNameValueBytesSection env title = name_values title (formatBytes env)"

definition mustgatherMonitoringPrometheusTSDB :: "'k mg_handler" where
  "mustgatherMonitoringPrometheusTSDB env params = with_archive (\<lambda>p dk.
     let args = hp_Arguments params; limit = getInt (me_Overflow env) args ''limit'' 10 in
     text_result (''## Prometheus TSDB Statistics'' @ ln @ ln
       @ concat (map (\<lambda>r. case GetPrometheusTSDB (me_De env) dk p r of
             Inl err \<Rightarrow> ''### Replica '' @ digits r @ '': not available ('' @ err @ '')'' @ ln @ ln
           | Inr tsdb \<Rightarrow> ''### Replica prometheus-k8s-'' @ digits r @ ln @ ln @ ''#### Head Stats'' @ ln @ ln @ head_stats (ts_HeadStats tsdb)
               @ formatNameValueSection ''Top Metrics by Series Count'' (ts_SeriesCountByMetricName tsdb) limit
               @ formatNameValueSection ''Top Labels by Value Count'' (ts_LabelValueCountByLabelName tsdb) limit
               @ formatNameValueBytesSection env ''Top Labels by Memory Usage'' (ts_MemoryInBytesByLabelName tsdb) limit)
           (GetReplicaNumbers (getString args ''replica'' ''0'')))))"

definition label :: "(string \<times> string) list \<Rightarrow> string \<Rightarrow> string" where
  "label m k = (case map_of m k of Some v \<Rightarrow> v | None \<Rightarrow> [])"

definition alert_entries :: "string \<Rightarrow> RuleGroup list \<Rightarrow> (string \<times> prom_Alert) list" where
  "alert_entries stateFilter groups =
     concat (map (\<lambda>g. concat (map (\<lambda>rule. map (Pair (ru_Name rule))
       (filter (\<lambda>a. stateFilter = [] \<or> EqualFold (al_State a) stateFilter) (ru_Alerts rule)))
       (filter (\<lambda>rule. ru_Type rule = ''alerting'') (rg_Rules g)))) groups)"

definition alert_text :: "string \<times> prom_Alert \<Rightarrow> string" where
  "alert_text entry =
     (case entry of (name, a) \<Rightarrow>
        severitySymbol (label (al_Labels a) ''severity'') @ '' ['' @ ToUpper (al_State a) @ ''] '' @ name @ ln
        @ ''  Active Since: '' @ al_ActiveAt a @ ln
        @ (if label (al_Annotations a) ''summary'' \<noteq> [] then ''  Summary: '' @ label (al_Annotations a) ''summary'' @ ln
           else if label (al_Annotations a) ''message'' \<noteq> [] then ''  Message: '' @ label (al_Annotations a) ''message'' @ ln else [])
        @ (case map_of (al_Labels a) ''namespace'' of Some ns \<Rightarrow> ''  Namespace: '' @ ns @ ln | None \<Rightarrow> []) @ ln)"

definition mustgatherMonitoringPrometheusAlerts :: "'k mg_handler" where
  "mustgatherMonitoringPrometheusAlerts env params = with_archive (\<lambda>p dk.
     let stateFilter = getString (hp_Arguments params) ''state'' [] in
     case GetPrometheusRules (me_De env) dk p of
       Inl err \<Rightarrow> errorResult (''failed to get Prometheus rules: '' @ err)
     | Inr groups \<Rightarrow>
         (let alerts = alert_entries stateFilter groups
          in text_result
            (''## Prometheus Alerts'' @ ln @ ln @ opt_text (stateFilter \<noteq> []) (''Filter: '' @ stateFilter @ ln @ ln)
             @ ''Found '' @ digits (length alerts) @ '' active alert(s)'' @ ln @ ln
             @ (if alerts = [] then ''No active alerts found.'' else concat (map alert_text alerts)))))"

text \<open>\<open>strings.Replace\<close> of the first occurrence.\<close>

fun ReplaceFirst :: "string \<Rightarrow> string \<Rightarrow> string \<Rightarrow> string" where
  "ReplaceFirst [] pat new = []"
| "ReplaceFirst (c # cs) pat new =
     (if HasPrefix (c # cs) pat then new @ drop (length pat) (c # cs) else c # ReplaceFirst cs pat new)"

definition group_rules :: "string \<Rightarrow> RuleGroup \<Rightarrow> prom_Rule list" where
  "group_rules typeFilter g = filter (\<lambda>r. typeFilter = [] \<or> EqualFold (ru_Type r) typeFilter) (rg_Rules g)"

definition group_text :: "mg_env \<Rightarrow> string \<Rightarrow> RuleGroup \<Rightarrow> string" where
  "group_text env typeFilter g =
     ''### '' @ rg_Name g @ '' ('' @ rg_File g @ '')'' @ ln @ ln
     @ ''Eval Interval: '' @ me_Fixed env 0 (rg_Interval g) @ ''s | Last Eval: '' @ rg_LastEvaluation g
     @ '' | Eval Time: '' @ formatDuration env (rg_EvaluationTime g) @ ln @ ln
     @ concat (map (\<lambda>r. ''- '' @ healthSymbol (ru_Health r) @ '' ['' @ ru_Type r @ ''] '' @ ru_Name r @ '' '' @ ru_State r @ ln
         @ opt_text (ru_LastError r \<noteq> []) (''  Error: '' @ ru_LastError r @ ln)) (group_rules typeFilter g)) @ ln"

definition mustgatherMonitoringPrometheusRules :: "'k mg_handler" where
  "mustgatherMonitoringPrometheusRules env params = with_archive (\<lambda>p dk.
     let typeFilter = getString (hp_Arguments params) ''type'' [] in
     case GetPrometheusRules (me_De env) dk p of
       Inl err \<Rightarrow> errorResult (''failed to get Prometheus rules: '' @ err)
     | Inr groups \<Rightarrow>
         (let shown = filter (\<lambda>g. group_rules typeFilter g \<noteq> []) groups;
              output = ''## Prometheus Rules'' @ ln @ ln @ opt_text (typeFilter \<noteq> []) (''Filter: '' @ typeFilter @ '' rules only'' @ ln @ ln)
                @ concat (map (group_text env typeFilter) shown);
              summary = ''Total: '' @ digits (length shown) @ '' groups, ''
                @ digits (sum_list (map (length \<circ> group_rules typeFilter) shown)) @ '' rules'' @ ln @ ln
          in text_result (ReplaceFirst output (ln @ ln) (ln @ ln @ summary))))"

section \<open>MCP resources\<close>

definition read_archive :: "(mg_Provider \<Rightarrow> disk \<Rightarrow> (string, string) result) \<Rightarrow> mg_world \<Rightarrow> (string, ResourceContent option) result \<times> mg_world" where
  "read_archive f w =
     (bindE (getProvider w) (\<lambda>p. bindE (f p (mw_disk w)) (\<lambda>text. Inr (Some \<lparr>rc_MIMEType = [], rc_Text = text, rc_Blob = []\<rparr>))), w)"

definition resourceCurrentArchive :: "mg_world \<Rightarrow> (string, ResourceContent option) result \<times> mg_world" where
  "resourceCurrentArchive = read_archive (\<lambda>p dk. let m = mp_metadata p in
     Inr (''Must-Gather Archive'' @ ln @ ''Path: '' @ mm_Path m @ ln @ ''Version: '' @ mm_Version m @ ln @ ''Timestamp: '' @ mm_Timestamp m @ ln
          @ ''Resources: '' @ digits (mm_ResourceCount m) @ ln @ ''Namespaces: '' @ digits (mm_NamespaceCount m) @ ln))"

definition resourceNamespaces :: "mg_world \<Rightarrow> (string, ResourceContent option) result \<times> mg_world" where
  "resourceNamespaces = read_archive (\<lambda>p dk. let namespaces = sort (ix_namespaces (mp_index p)) in
     Inr (''Found '' @ digits (length namespaces) @ '' namespaces:'' @ ln @ ln @ Join ln namespaces @ ln))"

definition resourceETCDMembers :: "mg_world \<Rightarrow> (string, ResourceContent option) result \<times> mg_world" where
  "resourceETCDMembers = read_archive (\<lambda>p dk. mapErr (\<lambda>e. ''failed to read ETCD member list: '' @ e) (ReadETCDFile dk p ''member_list.json''))"

definition resourceETCDEndpointStatus :: "mg_world \<Rightarrow> (string, ResourceContent option) result \<times> mg_world" where
  "resourceETCDEndpointStatus =
     read_archive (\<lambda>p dk. mapErr (\<lambda>e. ''failed to read ETCD endpoint status: '' @ e) (ReadETCDFile dk p ''endpoint_status.json''))"

definition keyFlags :: "string list" where
  "keyFlags =
     [''storage.tsdb.retention.time'', ''storage.tsdb.retention.size'', ''storage.tsdb.path'', ''web.listen-address'', ''web.external-url'',
      ''rules.alert.for-outage-tolerance'', ''rules.alert.for-grace-period'']"

definition resourcePrometheusConfig :: "mg_env \<Rightarrow> mg_world \<Rightarrow> (string, ResourceContent option) result \<times> mg_world" where
  "resourcePrometheusConfig env = read_archive (\<lambda>p dk.
     Inr (''## Prometheus Configuration Summary'' @ ln @ ln
       @ (case GetPrometheusConfig (me_De env) dk p of
            Inl err \<Rightarrow> ''Config not available: '' @ err @ ln @ ln
          | Inr configYAML \<Rightarrow>
              (let lines = Split (CHR 0x0A) configYAML in
               if length lines > 100 then ''Configuration ('' @ digits (length lines) @ '' lines, showing first 100):'' @ ln @ ln
                 @ Join ln (take 100 lines) @ ln @ ''...'' @ ln @ ln
               else ''Configuration:'' @ ln @ ln @ configYAML @ ln @ ln))
       @ (case GetPrometheusFlags (me_De env) dk p of
            Inl err \<Rightarrow> ''Flags not available: '' @ err @ ln @ ln
          | Inr flags \<Rightarrow> ''### Key Flags'' @ ln @ ln
              @ concat (map (\<lambda>key. case map_of flags key of Some val \<Rightarrow> pad_right 40 key @ '' '' @ val @ ln | None \<Rightarrow> []) keyFlags) @ ln)))"

definition resourceAlertManagerStatus :: "mg_env \<Rightarrow> mg_world \<Rightarrow> (string, ResourceContent option) result \<times> mg_world" where
  "resourceAlertManagerStatus env = read_archive (\<lambda>p dk.
     bindE (mapErr (\<lambda>e. ''failed to get AlertManager status: '' @ e) (GetAlertManagerStatus (me_De env) dk p)) (\<lambda>st.
       Inr (''## AlertManager Status'' @ ln @ ln @ ''Cluster Status: '' @ healthSymbol (am_ClusterStatus st) @ ln @ ''Uptime: '' @ am_Uptime st @ ln @ ln
         @ ''### Version'' @ ln @ ln @ ''Version:    '' @ am_Version st @ ln @ ''Revision:   '' @ am_Revision st @ ln
         @ ''Branch:     '' @ am_Branch st @ ln @ ''Build Date: '' @ am_BuildDate st @ ln @ ''Go Version: '' @ am_GoVersion st @ ln @ ln
         @ opt_text (am_Peers st \<noteq> []) (''### Cluster Peers'' @ ln @ ln
             @ concat (map (\<lambda>(name, address). ''- '' @ name @ '' ('' @ address @ '')'' @ ln) (am_Peers st)) @ ln))))"

text \<open>\<open>strings.SplitN\<close> for a separator of one byte.\<close>

fun SplitN :: "nat \<Rightarrow> char \<Rightarrow> string \<Rightarrow> string list" where
  "SplitN 0 c s = []"
| "SplitN (Suc 0) c s = [s]"
| "SplitN (Suc (Suc n)) c s = (case Cut c s of None \<Rightarrow> [s] | Some (a, b) \<Rightarrow> a # SplitN (Suc n) c b)"

definition apiVersionFromGroupVersion :: "string \<Rightarrow> string \<Rightarrow> string" where
  "apiVersionFromGroupVersion grp version = (if grp = [] then version else grp @ ''/'' @ version)"

definition resource_prefix :: string where
  "resource_prefix = ''must-gather://current/resources/''"

definition dash_empty :: "string \<Rightarrow> string" where
  "dash_empty s = (if s = ''-'' then [] else s)"

definition resourceGet :: "mg_env \<Rightarrow> string \<Rightarrow> mg_world \<Rightarrow> (string, ResourceContent option) result \<times> mg_world" where
  "resourceGet env uri = read_archive (\<lambda>p dk.
     if \<not> HasPrefix uri resource_prefix then Inl (''invalid resource URI: '' @ uri)
     else (case SplitN 5 (CHR ''/'') (TrimPrefix uri resource_prefix) of
             [grp, version, kind, namespace, name] \<Rightarrow>
               (case index_Get (mp_index p) (parseGVK (apiVersionFromGroupVersion (dash_empty grp) version) kind) name (dash_empty namespace) of
                  None \<Rightarrow> Inl (''resource '' @ kind @ ''/'' @ name @ '' not found'')
                | Some obj \<Rightarrow> mapErr (\<lambda>e. ''failed to marshal resource: '' @ e) (me_Yaml env obj))
           | _ \<Rightarrow> Inl ''resource URI must have format: must-gather://current/resources/{group}/{version}/{kind}/{namespace}/{name}''))"

definition mg_resource ::
  "(string \<Rightarrow> string \<Rightarrow> string) \<Rightarrow> string \<Rightarrow> string \<Rightarrow> string \<Rightarrow> (string \<Rightarrow> mg_world \<Rightarrow> (string, ResourceContent option) result \<times> mg_world)
   \<Rightarrow> mg_world ServerResource" where
  "mg_resource doc uri name mime handler =
     \<lparr>sr_Resource = \<lparr>re_URI = uri, re_Name = name, re_Description = doc name [], re_MIMEType = mime\<rparr>, sr_Handler = (\<lambda>_. handler)\<rparr>"

definition initMCPResources :: "(string \<Rightarrow> string \<Rightarrow> string) \<Rightarrow> mg_env \<Rightarrow> mg_world ServerResource list" where
  "initMCPResources doc env =
     [mg_resource doc ''must-gather://current'' ''must-gather'' ''text/plain'' (\<lambda>_. resourceCurrentArchive),
      mg_resource doc ''must-gather://current/namespaces'' ''must-gather-namespaces'' ''text/plain'' (\<lambda>_. resourceNamespaces),
      mg_resource doc ''must-gather://current/etcd/members'' ''must-gather-etcd-members'' ''application/json'' (\<lambda>_. resourceETCDMembers),
      mg_resource doc ''must-gather://current/etcd/endpoint-status'' ''must-gather-etcd-endpoint-status'' ''application/json'' (\<lambda>_. resourceETCDEndpointStatus),
      mg_resource doc ''must-gather://current/prometheus/config'' ''must-gather-prometheus-config'' ''text/plain'' (\<lambda>_. resourcePrometheusConfig env),
      mg_resource doc ''must-gather://current/alertmanager/status'' ''must-gather-alertmanager-status'' ''text/plain'' (\<lambda>_. resourceAlertManagerStatus env)]"

definition initMCPResourceTemplates :: "(string \<Rightarrow> string \<Rightarrow> string) \<Rightarrow> mg_env \<Rightarrow> mg_world ServerResource list" where
  "initMCPResourceTemplates doc env =
     [mg_resource doc (resource_prefix @ ''{group}/{version}/{kind}/{namespace}/{name}'') ''must-gather-resource'' ''text/yaml'' (resourceGet env)]"

section \<open>The tools\<close>

text \<open>Every tool is marked read-only, has no other hint and is not bound to a cluster.\<close>

definition mg_tool ::
  "(string \<Rightarrow> string \<Rightarrow> string) \<Rightarrow> string \<Rightarrow> string \<Rightarrow> (string \<times> string) list
   \<Rightarrow> ((mg_world, 'k) ToolHandlerParams \<Rightarrow> (mg_world, ToolCallResult) action) \<Rightarrow> (mg_world, 'k) ServerTool" where
  "mg_tool doc name title props handler =
     (let t = core_tool doc name title (Some True) None None props handler []
      in t\<lparr>st_Tool := (st_Tool t)\<lparr>tl_Annotations := (tl_Annotations (st_Tool t))\<lparr>an_OpenWorldHint := None\<rparr>\<rparr>, st_ClusterAware := Some False\<rparr>)"

definition initUse :: "(string \<Rightarrow> string \<Rightarrow> string) \<Rightarrow> mg_env \<Rightarrow> (mg_world, 'k) ServerTool list" where
  "initUse doc env = [mg_tool doc ''mustgather_use'' ''Load Must-Gather Archive'' [(''path'', ''string'')] (mustgatherUse env)]"

definition mg_initResources :: "(string \<Rightarrow> string \<Rightarrow> string) \<Rightarrow> mg_env \<Rightarrow> (mg_world, 'k) ServerTool list" where
  "mg_initResources doc env =
     [mg_tool doc ''mustgather_resources_list'' ''List Resources''
        [(''kind'', ''string''), (''namespace'', ''string''), (''apiVersion'', ''string''), (''labelSelector'', ''string''),
         (''fieldSelector'', ''string''), (''limit'', ''integer'')] (mustgatherResourcesList env)]"

definition mg_initEvents :: "(string \<Rightarrow> string \<Rightarrow> string) \<Rightarrow> mg_env \<Rightarrow> (mg_world, 'k) ServerTool list" where
  "mg_initEvents doc env =
     [mg_tool doc ''mustgather_events_list'' ''List Events''
        [(''type'', ''string''), (''namespace'', ''string''), (''resource'', ''string''), (''reason'', ''string''), (''limit'', ''integer'')]
        (mustgatherEventsList env),
      mg_tool doc ''mustgather_events_by_resource'' ''Events by Resource''
        [(''name'', ''string''), (''namespace'', ''string''), (''kind'', ''string'')] (mustgatherEventsByResource env),
      mg_tool doc ''mustgather_events_by_time'' ''Events by Time''
        [(''since'', ''string''), (''until'', ''string''), (''namespace'', ''string''), (''type'', ''string''), (''limit'', ''integer'')]
        (mustgatherEventsByTime env)]"

definition pod_props :: "(string \<times> string) list" where
  "pod_props = [(''namespace'', ''string''), (''pod'', ''string''), (''container'', ''string''), (''previous'', ''boolean'')]"

definition initPodLogs :: "(string \<Rightarrow> string \<Rightarrow> string) \<Rightarrow> mg_env \<Rightarrow> (mg_world, 'k) ServerTool list" where
  "initPodLogs doc env =
     [mg_tool doc ''mustgather_pod_logs_get'' ''Get Pod Logs'' (pod_props @ [(''tail'', ''integer'')]) (mustgatherPodLogsGet env),
      mg_tool doc ''mustgather_pod_logs_grep'' ''Pod Logs Grep''
        (pod_props @ [(''filter'', ''string''), (''tail'', ''integer''), (''caseInsensitive'', ''boolean'')]) (mustgatherPodLogsGrep env),
      mg_tool doc ''mustgather_pod_logs_by_time'' ''Pod Logs by Time''
        (pod_props @ [(''since'', ''string''), (''until'', ''string''), (''limit'', ''integer'')]) (mustgatherPodLogsByTime env)]"

definition mg_initNodes :: "(string \<Rightarrow> string \<Rightarrow> string) \<Rightarrow> mg_env \<Rightarrow> (mg_world, 'k) ServerTool list" where
  "mg_initNodes doc env =
     [mg_tool doc ''mustgather_node_diagnostics_get'' ''Node Diagnostics''
        [(''node'', ''string''), (''include'', ''string''), (''kubeletTail'', ''integer'')] (mustgatherNodeDiagnosticsGet env),
      mg_tool doc ''mustgather_node_kubelet_logs'' ''Kubelet Logs'' [(''node'', ''string''), (''tail'', ''integer'')] (mustgatherNodeKubeletLogs env),
      mg_tool doc ''mustgather_node_kubelet_logs_grep'' ''Kubelet Logs Grep''
        [(''node'', ''string''), (''filter'', ''string''), (''tail'', ''integer''), (''caseInsensitive'', ''boolean'')] (mustgatherNodeKubeletLogsGrep env)]"

definition initEtcd :: "(string \<Rightarrow> string \<Rightarrow> string) \<Rightarrow> mg_env \<Rightarrow> (mg_world, 'k) ServerTool list" where
  "initEtcd doc env =
     [mg_tool doc ''mustgather_etcd_health'' ''ETCD Health'' [] (mustgatherETCDHealth env),
      mg_tool doc ''mustgather_etcd_object_count'' ''ETCD Object Count'' [(''limit'', ''integer'')] (mustgatherETCDObjectCount env)]"

definition initMonitoring :: "(string \<Rightarrow> string \<Rightarrow> string) \<Rightarrow> mg_env \<Rightarrow> (mg_world, 'k) ServerTool list" where
  "initMonitoring doc env =
     [mg_tool doc ''mustgather_monitoring_prometheus_status'' ''Prometheus Status'' [(''replica'', ''string'')] (mustgatherMonitoringPrometheusStatus env),
      mg_tool doc ''mustgather_monitoring_prometheus_targets'' ''Prometheus Targets''
        [(''replica'', ''string''), (''health'', ''string'')] (mustgatherMonitoringPrometheusTargets env),
      mg_tool doc ''mustgather_monitoring_prometheus_tsdb'' ''Prometheus TSDB''
        [(''replica'', ''string''), (''limit'', ''integer'')] (mustgatherMonitoringPrometheusTSDB env),
      mg_tool doc ''mustgather_monitoring_prometheus_alerts'' ''Prometheus Alerts'' [(''state'', ''string'')] (mustgatherMonitoringPrometheusAlerts env),
      mg_tool doc ''mustgather_monitoring_prometheus_rules'' ''Prometheus Rules'' [(''type'', ''string'')] (mustgatherMonitoringPrometheusRules env)]"

definition mg_Toolset :: "(string \<Rightarrow> string \<Rightarrow> string) \<Rightarrow> mg_env \<Rightarrow> (mg_world, 'k) Toolset" where
  "mg_Toolset doc env =
     \<lparr>ts_Name = ''openshift/mustgather'',
      ts_GetTools = (\<lambda>_. initUse doc env @ mg_initResources doc env @ mg_initEvents doc env @ initPodLogs doc env @ mg_initNodes doc env
        @ initEtcd doc env @ initMonitoring doc env),
      ts_GetPrompts = [], ts_GetResources = initMCPResources doc env, ts_GetResourceTemplates = initMCPResourceTemplates doc env\<rparr>"

section \<open>Searching logs\<close>

text \<open>The ring in its order: the slot written next holds the oldest line.\<close>

lemma unroll_full: "tail > 0 \<Longrightarrow> int (length ms) = tail \<Longrightarrow> unroll tail ms r = rotate r ms"
  unfolding unroll_def by (intro nth_equalityI) (auto simp: nth_rotate add.commute)

lemma rotate_overwrite:
  assumes "r < length ms"
  shows "rotate (Suc r mod length ms) (ms[r := x]) = tl (rotate r ms) @ [x]"
proof (rule nth_equalityI)
  show "length (rotate (Suc r mod length ms) (ms[r := x])) = length (tl (rotate r ms) @ [x])" using assms by simp
next
  fix i assume "i < length (rotate (Suc r mod length ms) (ms[r := x]))"
  then have i: "i < length ms" by simp
  have slot: "rotate (Suc r mod length ms) (ms[r := x]) ! i = ms[r := x] ! (Suc (r + i) mod length ms)"
    using i by (simp add: nth_rotate mod_add_left_eq)
  show "rotate (Suc r mod length ms) (ms[r := x]) ! i = (tl (rotate r ms) @ [x]) ! i"
  proof (cases "Suc i < length ms")
    case True
    have "Suc (r + i) mod length ms \<noteq> r"
    proof (cases "Suc (r + i) < length ms")
      case False
      then have "Suc (r + i) mod length ms = Suc (r + i) - length ms" using assms i by (simp add: mod_if)
      then show ?thesis using True False by linarith
    qed simp
    moreover have "i < length ms - 1" using True by linarith
    ultimately show ?thesis using slot by (simp add: nth_append nth_tl nth_rotate)
  next
    case False
    then have "Suc i = length ms" using i by simp
    moreover from this have "Suc (r + i) mod length ms = r" using assms by (metis add_Suc_right mod_add_self2 mod_less)
    moreover from \<open>Suc i = length ms\<close> have "\<not> i < length ms - 1" by linarith
    ultimately show ?thesis using slot assms by (simp add: nth_append)
  qed
qed

text \<open>After some lines, with \<open>M\<close> those that match: at most \<open>tail\<close> are held, in the ring the last ones.\<close>

definition ring_of :: "int \<Rightarrow> string list \<Rightarrow> string list \<times> nat \<times> nat \<Rightarrow> bool" where
  "ring_of tail M st \<longleftrightarrow> (case st of (ms, r, n) \<Rightarrow>
     n = length M
     \<and> (if tail > 0 \<and> int (length M) \<ge> tail then int (length ms) = tail \<and> r < length ms \<and> rotate r ms = drop (length M - length ms) M
        else ms = M \<and> r = 0))"

lemma grep_step_ring:
  assumes "ring_of tail M st"
  shows "ring_of tail (if P line then M @ [line] else M) (grep_step P tail line st)"
proof (cases "P line")
  case True
  obtain ms r n where st: "st = (ms, r, n)" by (metis prod_cases3)
  consider (small) "\<not> (tail > 0 \<and> int (length M) \<ge> tail)" | (full) "tail > 0" "int (length M) \<ge> tail" by blast
  then show ?thesis
  proof cases
    case small
    then have "ms = M" "r = 0" "n = length M" using assms by (auto simp: ring_of_def st split: if_splits)
    then show ?thesis using True small by (auto simp: ring_of_def grep_step_def st)
  next
    case full
    then have held: "int (length ms) = tail" "r < length ms" "rotate r ms = drop (length M - length ms) M" "n = length M"
      using assms by (auto simp: ring_of_def st)
    then have len: "nat tail = length ms" "length ms \<le> length M" using full by auto
    have "rotate (Suc r mod length ms) (ms[r := line]) = drop (Suc (length M) - length ms) (M @ [line])"
      using rotate_overwrite [OF held(2), of line] held len by (simp add: tl_drop drop_Suc Suc_diff_le flip: drop_tl)
    moreover have "Suc r mod length ms < length ms" using held(2) by (intro mod_less_divisor) linarith
    ultimately show ?thesis using True full held len by (simp add: ring_of_def grep_step_def st)
  qed
qed (use assms in \<open>simp add: grep_step_def split: prod.splits\<close>)

lemma grep_fold_ring: "ring_of tail M st \<Longrightarrow> ring_of tail (M @ filter P (map fst ls)) (fold (\<lambda>(line, _). grep_step P tail line) ls st)"
proof (induction ls arbitrary: M st)
  case (Cons l ls)
  obtain line e where l: "l = (line, e)" by (cases l)
  show ?case using Cons.IH [OF grep_step_ring [OF Cons.prems, of P line]] by (cases "P line") (simp_all add: l)
qed simp

lemma ring_unroll:
  assumes "ring_of tail M (ms, r, n)"
  shows "unroll tail ms r = last_matches tail M" "n = length M"
proof -
  show "n = length M" using assms by (simp add: ring_of_def)
  show "unroll tail ms r = last_matches tail M"
  proof (cases "tail > 0 \<and> int (length M) \<ge> tail")
    case True
    then have "unroll tail ms r = drop (length M - nat tail) M" using assms unroll_full [of tail ms r] by (auto simp: ring_of_def)
    then show ?thesis using True by (auto simp: last_matches_def)
  next
    case False
    then show ?thesis using assms by (auto simp: ring_of_def last_matches_def unroll_def)
  qed
qed

lemma grep_fold:
  assumes "fold (\<lambda>(line, _). grep_step P tail line) ls ([], 0, 0) = (ms, r, n)"
  shows "unroll tail ms r = last_matches tail (filter P (map fst ls))" "n = length (filter P (map fst ls))"
proof -
  have "ring_of tail [] ([], 0, 0)" by (simp add: ring_of_def)
  from grep_fold_ring [OF this, of P ls] have "ring_of tail (filter P (map fst ls)) (ms, r, n)" by (simp add: assms)
  from ring_unroll [OF this] show "unroll tail ms r = last_matches tail (filter P (map fst ls))" "n = length (filter P (map fst ls))" .
qed

text \<open>The lines of a log between two times are its first lines in the range, up to the limit.\<close>

lemma time_lines_first:
  assumes "limit > 0 \<longrightarrow> int (length acc) < limit"
  shows "fst (time_lines keep limit acc ls err) = acc @ (if limit > 0 then take (nat limit - length acc) else id) (filter keep (map fst ls))"
  using assms
proof (induction keep limit acc ls err rule: time_lines.induct)
  case (2 keep limit acc line e ls err)
  show ?case
  proof (cases "keep line \<and> \<not> (limit > 0 \<and> int (length (acc @ [line])) \<ge> limit)")
    case True
    then have "limit > 0 \<Longrightarrow> nat limit - length acc = Suc (nat limit - Suc (length acc))" by auto
    with True 2 show ?thesis by auto
  next
    case False
    then have "keep line \<Longrightarrow> nat limit - length acc = 1" "keep line \<Longrightarrow> limit > 0" using 2(3) by auto
    with False 2 show ?thesis by auto
  qed
qed simp

text \<open>
  C29: Searching the log of a pod gives what filtering all its lines and keeping the last matches gives: on a log that can be read the
  tool reports the number of all lines that match (ignoring case if asked to) and shows them in the order of the log, only the last
  \<open>tail\<close> of them for a positive \<open>tail\<close>, although it holds no more than \<open>tail\<close> lines at any time. It leaves the archive in use and the
  disk as they are.
\<close>

theorem pod_logs_grep_last_matches:
  assumes "mw_provider w = Some p" "\<not> pod_required (hp_Arguments params)" "getString (hp_Arguments params) ''filter'' [] \<noteq> []"
    "open_log (mw_disk w) p (hp_Arguments params) = Inr stream" "snd (scan_lines stream) = None"
  shows "let args = hp_Arguments params; tail = getInt (me_Overflow env) args ''tail'' 0;
             found = filter (line_matches (getBool args ''caseInsensitive'' False) (getString args ''filter'' [])) (map fst (fst (scan_lines stream)))
         in mustgatherPodLogsGrep env params w
            = retA (text_result (grep_text (''Logs for pod '' @ pod_ref args @ grep_header args @ log_source args @ grep_options env args)
                (length found) (if tail > 0 then drop (length found - nat tail) found else found))) w"
proof -
  let ?args = "hp_Arguments params" let ?tail = "getInt (me_Overflow env) ?args ''tail'' 0"
  let ?P = "line_matches (getBool ?args ''caseInsensitive'' False) (getString ?args ''filter'' [])"
  obtain ls where ls: "scan_lines stream = (ls, None)" using assms(5) by (metis prod.collapse)
  obtain ms r n where f: "fold (\<lambda>(line, _). grep_step ?P ?tail line) ls ([], 0, 0) = (ms, r, n)" by (metis prod_cases3)
  have "last_matches ?tail M = (if ?tail > 0 then drop (length M - nat ?tail) M else M)" for M :: "string list"
    by (auto simp: last_matches_def)
  with grep_fold [OF f] assms ls f show ?thesis
    by (simp add: mustgatherPodLogsGrep_def with_archive_def getProvider_def Let_def)
qed

definition demo_env :: mg_env where
  "demo_env = \<lparr>me_De = \<lparr>de_Yaml = (\<lambda>_. Inl []), de_Endpoints = (\<lambda>_. Inl []), de_Alarms = (\<lambda>_. Inl []), de_Counts = (\<lambda>_. Inl []), de_Tsdb = (\<lambda>_. Inl []),
       de_Runtime = (\<lambda>_. Inl []), de_Targets = (\<lambda>_. Inl []), de_Rules = (\<lambda>_. Inl []), de_AlertManager = (\<lambda>_. Inl []), de_Config = (\<lambda>_. Inl []),
       de_Flags = (\<lambda>_. Inl [])\<rparr>,
     me_Se = \<lparr>se_Labels = (\<lambda>_. Inl []), se_Fields = (\<lambda>_. Inl [])\<rparr>, me_Order = id, me_RFC3339 = Inl, me_RFC3339Nano = Inl,
     me_Yaml = (\<lambda>obj. Inr (obj_GetName obj)), me_Fixed = (\<lambda>_ _. []), me_CountOrder = id, me_Overflow = (\<lambda>_. 0)\<rparr>"

definition mg_call :: "json_object \<Rightarrow> (mg_world, unit) ToolHandlerParams" where
  "mg_call args = \<lparr>hp_Context = \<lparr>cx_Session = NoSession, cx_Authorization = None, cx_UserAgent = None\<rparr>, hp_BaseConfig = zeroConfig,
     hp_KubernetesClient = (), hp_Arguments = args, hp_ListOutput = None\<rparr>"

definition demo_log :: string where
  "demo_log = ''a1'' @ ln @ ''b'' @ ln @ ''a2'' @ ln @ ''a3'' @ ln"

definition demo_world :: mg_world where
  "demo_world = \<lparr>mw_provider = Some demo_archive, mw_disk = (demo_disk [])\<lparr>dk_Open := (\<lambda>_. Inr (demo_log, None))\<rparr>\<rparr>"

definition demo_grep :: json_object where
  "demo_grep = [(''namespace'', JStr ''n''), (''pod'', JStr ''p''), (''container'', JStr ''c''), (''filter'', JStr ''a''), (''tail'', JNum 2)]"

lemma demo_scan: "scan_lines (demo_log, None) = ([(''a1'', None), (''b'', None), (''a2'', None), (''a3'', None)], None)"
proof -
  have "Split (CHR 0x0A) demo_log = [''a1'', ''b'', ''a2'', ''a3'', []]" by code_simp
  then show ?thesis by (simp add: scan_lines_def maxScanLineSize_def drop_cr_def TrimSuffix_def HasSuffix_def)
qed

theorem pod_logs_grep_last_matches_witness:
  "mustgatherPodLogsGrep demo_env (mg_call demo_grep) demo_world
   = retA (text_result (''Logs for pod n/p filtered by '' @ [CHR 0x27] @ ''a'' @ [CHR 0x27] @ '', container c (last 2 matches):'' @ ln @ ln
       @ ''Found 3 matching line(s)'' @ ln @ ln @ ''a2'' @ ln @ ''a3'')) demo_world"
proof -
  have opened: "open_log (mw_disk demo_world) demo_archive (hp_Arguments (mg_call demo_grep)) = Inr (demo_log, None)" by code_simp
  have t: "getInt (me_Overflow demo_env) (hp_Arguments (mg_call demo_grep)) ''tail'' 0 = 2" by code_simp
  have m: "filter (line_matches (getBool (hp_Arguments (mg_call demo_grep)) ''caseInsensitive'' False) (getString (hp_Arguments (mg_call demo_grep)) ''filter'' []))
      (map fst (fst (scan_lines (demo_log, None)))) = [''a1'', ''a2'', ''a3'']"
    unfolding demo_scan by code_simp
  have h: "grep_text (''Logs for pod '' @ pod_ref (hp_Arguments (mg_call demo_grep)) @ grep_header (hp_Arguments (mg_call demo_grep))
        @ log_source (hp_Arguments (mg_call demo_grep)) @ grep_options demo_env (hp_Arguments (mg_call demo_grep))) 3 [''a2'', ''a3'']
      = ''Logs for pod n/p filtered by '' @ [CHR 0x27] @ ''a'' @ [CHR 0x27] @ '', container c (last 2 matches):'' @ ln @ ln
       @ ''Found 3 matching line(s)'' @ ln @ ln @ ''a2'' @ ln @ ''a3''" by code_simp
  have "mw_provider demo_world = Some demo_archive" by (simp add: demo_world_def)
  moreover have "\<not> pod_required (hp_Arguments (mg_call demo_grep))" "getString (hp_Arguments (mg_call demo_grep)) ''filter'' [] \<noteq> []" by code_simp+
  ultimately show ?thesis
    using pod_logs_grep_last_matches [of demo_world demo_archive "mg_call demo_grep" "(demo_log, None)" demo_env] opened t m h
    by (simp add: Let_def demo_scan numeral_3_eq_3)
qed

section \<open>Addresses of resources\<close>

definition dash :: "string \<Rightarrow> string" where
  "dash s = (if s = [] then ''-'' else s)"

definition resource_uri :: "GroupVersionKind \<Rightarrow> string \<Rightarrow> string \<Rightarrow> string" where
  "resource_uri gvk ns name =
     resource_prefix @ dash (gvk_Group gvk) @ ''/'' @ gvk_Version gvk @ ''/'' @ gvk_Kind gvk @ ''/'' @ dash ns @ ''/'' @ name"

lemma Cut_absent: "c \<notin> set s \<Longrightarrow> Cut c s = None"
  by (induction s) auto

lemma Cut_at: "c \<notin> set a \<Longrightarrow> Cut c (a @ c # b) = Some (a, b)"
  by (induction a) auto

lemma dash_slash: "CHR ''/'' \<notin> set s \<Longrightarrow> CHR ''/'' \<notin> set (dash s)"
  by (simp add: dash_def)

lemma dash_empty_dash: "s \<noteq> ''-'' \<Longrightarrow> dash_empty (dash s) = s"
  by (simp add: dash_def dash_empty_def)

lemma parseGVK_of:
  assumes "CHR ''/'' \<notin> set (gvk_Group gvk)" "CHR ''/'' \<notin> set (gvk_Version gvk)"
  shows "parseGVK (apiVersionFromGroupVersion (gvk_Group gvk) (gvk_Version gvk)) (gvk_Kind gvk) = gvk"
  using assms by (simp add: parseGVK_def apiVersionFromGroupVersion_def Cut_absent Cut_at)

lemma resource_uri_parts:
  assumes "CHR ''/'' \<notin> set (gvk_Group gvk)" "CHR ''/'' \<notin> set (gvk_Version gvk)" "CHR ''/'' \<notin> set (gvk_Kind gvk)" "CHR ''/'' \<notin> set ns"
  shows "HasPrefix (resource_uri gvk ns name) resource_prefix"
    "SplitN 5 (CHR ''/'') (TrimPrefix (resource_uri gvk ns name) resource_prefix) = [dash (gvk_Group gvk), gvk_Version gvk, gvk_Kind gvk, dash ns, name]"
  using assms by (simp_all add: resource_uri_def HasPrefix_def TrimPrefix_def numeral_eq_Suc Cut_at dash_slash)

text \<open>
  C30: Resources can be read back by their address: for an archive whose names have no slash, the address built from the group, version,
  kind, namespace and name of an object, with a dash for an empty group or namespace, gives the YAML of the object of that
  kind, name and namespace that was loaded last, and an error exactly if there is none; reading changes nothing.
\<close>

theorem resource_uri_roundtrip:
  assumes "mw_provider w = Some p" "mp_index p = BuildIndex rs" "plain_names rs"
    "CHR ''/'' \<notin> set (gvk_Group gvk)" "CHR ''/'' \<notin> set (gvk_Version gvk)" "CHR ''/'' \<notin> set (gvk_Kind gvk)" "CHR ''/'' \<notin> set ns"
    "CHR ''/'' \<notin> set name" "gvk_Group gvk \<noteq> ''-''" "ns \<noteq> ''-''"
  shows "resourceGet env (resource_uri gvk ns name) w =
     ((case latest (is_resource gvk name ns) rs of
         None \<Rightarrow> Inl (''resource '' @ gvk_Kind gvk @ ''/'' @ name @ '' not found'')
       | Some r \<Rightarrow> (case me_Yaml env r of
             Inl e \<Rightarrow> Inl (''failed to marshal resource: '' @ e)
           | Inr y \<Rightarrow> Inr (Some \<lparr>rc_MIMEType = [], rc_Text = y, rc_Blob = []\<rparr>))), w)"
proof -
  have "index_Get (mp_index p) gvk name ns = map_of (entries_of (ix_byGVK (BuildIndex rs)) gvk) (resource_key name ns)"
    unfolding assms(2) by (simp add: index_Get_def entries_of_def split: option.splits)
  also have "\<dots> = latest (is_resource gvk name ns) rs" using assms(3,8) by (simp add: index_byGVK latest_key)
  finally have "index_Get (mp_index p) gvk name ns = latest (is_resource gvk name ns) rs" .
  then show ?thesis
    using assms by (simp add: resourceGet_def read_archive_def getProvider_def resource_uri_parts parseGVK_of dash_empty_dash split: option.split sum.split)
qed

theorem resource_uri_roundtrip_witness:
  "fst (resourceGet demo_env ''must-gather://current/resources/-/v1/Pod/n/a''
     (demo_world\<lparr>mw_provider := Some (demo_archive\<lparr>mp_index := BuildIndex [demo_object ''n'' ''a'' ''x'']\<rparr>)\<rparr>))
   = Inr (Some \<lparr>rc_MIMEType = [], rc_Text = ''a'', rc_Blob = []\<rparr>)"
proof -
  let ?gvk = "\<lparr>gvk_Group = [], gvk_Version = ''v1'', gvk_Kind = ''Pod''\<rparr>"
  have "resource_uri ?gvk ''n'' ''a'' = ''must-gather://current/resources/-/v1/Pod/n/a''"
    by (simp add: resource_uri_def resource_prefix_def dash_def)
  then show ?thesis
    using resource_uri_roundtrip [where gvk = ?gvk and ns = "''n''" and name = "''a''" and rs = "[demo_object ''n'' ''a'' ''x'']" and env = demo_env
      and w = "demo_world\<lparr>mw_provider := Some (demo_archive\<lparr>mp_index := BuildIndex [demo_object ''n'' ''a'' ''x'']\<rparr>)\<rparr>"]
    by (simp add: plain_names_def latest_def is_resource_def demo_env_def)
qed

section \<open>What the tools change\<close>

lemma with_archive_keeps: "snd (with_archive f w) = w"
  by (simp add: with_archive_def retA_def split: sum.split)

lemma read_archive_keeps: "snd (read_archive f w) = w"
  by (simp add: read_archive_def)

lemmas archive_handlers = mustgatherResourcesList_def mustgatherEventsList_def mustgatherEventsByResource_def mustgatherEventsByTime_def
  mustgatherPodLogsGet_def mustgatherPodLogsGrep_def mustgatherPodLogsByTime_def mustgatherNodeDiagnosticsGet_def mustgatherNodeKubeletLogs_def
  mustgatherNodeKubeletLogsGrep_def mustgatherETCDHealth_def mustgatherETCDObjectCount_def mustgatherMonitoringPrometheusStatus_def
  mustgatherMonitoringPrometheusTargets_def mustgatherMonitoringPrometheusTSDB_def mustgatherMonitoringPrometheusAlerts_def
  mustgatherMonitoringPrometheusRules_def

lemmas archive_tools = mg_Toolset_def initUse_def mg_initResources_def mg_initEvents_def initPodLogs_def mg_initNodes_def initEtcd_def initMonitoring_def

text \<open>
  Every tool but \<open>mustgather_use\<close> leaves the world as it is; that one replaces the archive of the process, for every session, although
  it is marked read-only as all of them are.
\<close>

lemma archive_tools_keep:
  "t \<in> set (ts_GetTools (mg_Toolset doc env) w) \<Longrightarrow> tl_Name (st_Tool t) \<noteq> ''mustgather_use'' \<Longrightarrow> snd (st_Handler t params w) = w"
  by (auto simp: archive_tools mg_tool_def core_tool_def Let_def archive_handlers with_archive_keeps)

lemma use_marked_readonly:
  "\<exists>t \<in> set (ts_GetTools (mg_Toolset doc env) w). an_ReadOnlyHint (tl_Annotations (st_Tool t)) = Some True
     \<and> (getString (hp_Arguments params) ''path'' [] \<noteq> []
        \<longrightarrow> mw_provider (snd (st_Handler t params w)) = Some (mg_NewProvider (de_Yaml (me_De env)) (mw_disk w) (getString (hp_Arguments params) ''path'' [])))"
  by (auto simp: archive_tools mg_tool_def core_tool_def Let_def mustgatherUse_def setProvider_def retA_def)

lemma archive_resources_keep:
  "r \<in> set (initMCPResources doc env @ initMCPResourceTemplates doc env) \<Longrightarrow> snd (sr_Handler r ctx uri w) = w"
  by (auto simp: initMCPResources_def initMCPResourceTemplates_def mg_resource_def resourceCurrentArchive_def resourceNamespaces_def
    resourceETCDMembers_def resourceETCDEndpointStatus_def resourcePrometheusConfig_def resourceAlertManagerStatus_def resourceGet_def read_archive_keeps)

section \<open>Formatting\<close>

text \<open>The unit of a number of bytes exists: a number below \<open>1024 ^ Suc k\<close> is divided at most \<open>k\<close> times.\<close>

lemma byte_scale_bound: "n < 1024 ^ Suc k \<Longrightarrow> snd (byte_scale n dv ex) \<le> ex + k"
proof (induction k arbitrary: n dv ex)
  case (Suc k)
  then have "n div 1024 < 1024 ^ Suc k" by (simp add: less_mult_imp_div_less mult.commute)
  from Suc.IH [OF this, of "dv * 1024" "Suc ex"] show ?case by (subst byte_scale.simps) simp
qed (subst byte_scale.simps, simp)

lemma formatBytes_unit: "in_int64 bytes \<Longrightarrow> snd (byte_scale (nat bytes div 1024) 1024 0) < 6"
proof -
  assume "in_int64 bytes"
  then have "nat bytes < 1024 * 1024 ^ Suc 5" by (auto simp: in_int64_def)
  then have "nat bytes div 1024 < 1024 ^ Suc 5" by (metis less_mult_imp_div_less mult.commute)
  from byte_scale_bound [OF this, of 1024 0] show ?thesis by simp
qed

lemma formatNumber_negative: "formatNumber (- 123) = ''-,123''"
  by code_simp

text \<open>Asking for the targets of all replicas gives those of the first.\<close>

lemma targets_first_replica:
  "mustgatherMonitoringPrometheusTargets env (mg_call [(''replica'', JStr ''all'')]) = mustgatherMonitoringPrometheusTargets env (mg_call [(''replica'', JStr ''0'')])"
  by (simp add: mustgatherMonitoringPrometheusTargets_def mg_call_def getString_def GetReplicaNumbers_def)

text \<open>An Alertmanager that is ready is shown with a warning.\<close>

lemma ready_is_warning: "healthSymbol ''ready'' = ''[WARN]''"
  by code_simp

end
