(* ===== verification/Gather_Plan.thy ===== *)
theory Gather_Plan
  imports Nested Filepath Mcp_Server
begin

text \<open>
  The plan of a must-gather collection: \<open>src/pkg/ocp/mustgather/plan_mustgather.go\<close> and \<open>utils.go\<close>, with the prompt of the toolset
  \<open>openshift\<close>. Nothing is created: the plan is a text with manifests for the user. The YAML encoder, the parser of durations
  and the random suffixes are parameters.
\<close>

section \<open>Choices\<close>

definition allowedGatherCommands :: "string list" where
  "allowedGatherCommands = [''/usr/bin/gather'', ''/usr/bin/gather_core_dumps'', ''/usr/bin/gather_network_logs'', ''/usr/bin/gather_audit_logs'']"

definition allowedImageRegistries :: "string list" where
  "allowedImageRegistries = [''registry.redhat.io'', ''registry.access.redhat.com'', ''registry.connect.redhat.com'']"

definition defaultGatherSourceDir :: string where "defaultGatherSourceDir = ''/must-gather/''"

definition defaultMustGatherImage :: string where "defaultMustGatherImage = ''registry.redhat.io/openshift4/ose-must-gather:latest''"

definition defaultGatherCmd :: string where "defaultGatherCmd = ''/usr/bin/gather''"

definition mgAnnotation :: string where "mgAnnotation = ''operators.openshift.io/must-gather-image''"

definition maxConcurrentGathers :: nat where "maxConcurrentGathers = 8"

record PlanMustGatherParams =
  gp_NodeName :: string
  gp_NodeSelector :: "(string \<times> string) list"
  gp_HostNetwork :: bool
  gp_SourceDir :: string
  gp_Namespace :: string
  gp_KeepResources :: bool
  gp_GatherCommand :: string
  gp_AllImages :: bool
  gp_Images :: "string list"
  gp_Timeout :: string
  gp_Since :: string

definition isAllowedImageRegistry :: "string \<Rightarrow> bool" where
  "isAllowedImageRegistry img \<longleftrightarrow> list_ex (\<lambda>registry. HasPrefix img (registry @ ''/'')) allowedImageRegistries"

definition isAllowedGatherCommand :: "string \<Rightarrow> bool" where
  "isAllowedGatherCommand command \<longleftrightarrow> list_ex (\<lambda>knownCmd. command = knownCmd) allowedGatherCommands"

text \<open>The text before and after the first equals sign.\<close>

fun key_value :: "string \<Rightarrow> (string \<times> string) option" where
  "key_value [] = None"
| "key_value (c # cs) = (if c = CHR ''='' then Some ([], cs) else map_option (\<lambda>(k, v). (c # k, v)) (key_value cs))"

definition ParseNodeSelector :: "string \<Rightarrow> (string \<times> string) list" where
  "ParseNodeSelector selector =
     (if selector = [] then []
      else fold (\<lambda>pair m. case key_value (TrimSpace pair) of
          Some (k, v) \<Rightarrow> if TrimSpace k \<noteq> [] then AList.update (TrimSpace k) (TrimSpace v) m else m
        | None \<Rightarrow> m) (Split (CHR '','') selector) [])"

definition operator_image :: "json_object \<Rightarrow> string list" where
  "operator_image obj = (let img = label_at mgAnnotation (obj_GetAnnotations obj) in if img \<noteq> [] then [img] else [])"

definition no_options :: ListOptions where
  "no_options = \<lparr>lo_LabelSelector = [], lo_FieldSelector = [], lo_AsTable = False\<rparr>"

definition getComponentImages :: "'w kube_client \<Rightarrow> ('w, string list) action" where
  "getComponentImages k =
     bindA (kc_List k \<lparr>gvr_Group = ''config.openshift.io'', gvr_Version = ''v1'', gvr_Resource = ''clusteroperators''\<rparr> [] no_options) (\<lambda>operators.
     bindA (kc_List k \<lparr>gvr_Group = ''operators.coreos.com'', gvr_Version = ''v1alpha1'', gvr_Resource = ''clusterserviceversions''\<rparr> [] no_options) (\<lambda>csvs.
       retA (concat (map operator_image (operators @ csvs)))))"

section \<open>Manifests\<close>

record mg_container =
  ct_Name :: string
  ct_Image :: string
  ct_Command :: "string list"
  ct_Env :: "(string \<times> string) list"
  ct_MountPath :: string

text \<open>
  The objects of a plan with the fields that vary. Every container mounts the volume \<open>must-gather-output\<close> and is pulled if not present;
  the pod tolerates everything, is never restarted and runs with the priority \<open>system-cluster-critical\<close>; the binding is to
  \<open>cluster-admin\<close>.
\<close>

record mg_pod =
  gpo_Name :: string
  gpo_Namespace :: string
  gpo_ServiceAccountName :: string
  gpo_NodeName :: string
  gpo_Containers :: "mg_container list"
  gpo_HostNetwork :: bool
  gpo_NodeSelector :: "(string \<times> string) list"

datatype manifest =
    NamespaceManifest string
  | ServiceAccountManifest (sa_name: string) (sa_namespace: string)
  | ClusterRoleBindingManifest (crb_name: string) (crb_role: string) (crb_subject: string) (crb_namespace: string)
  | PodManifest mg_pod

record 'w plan_env =
  pe_Yaml :: "manifest \<Rightarrow> (string, string) result"
  pe_Duration :: "string \<Rightarrow> bool"
  pe_Rand :: "'w \<Rightarrow> string \<times> 'w"

definition rand_String :: "'w plan_env \<Rightarrow> ('w, string) action" where
  "rand_String env w = (let (s, w') = pe_Rand env w in (Inr s, w'))"

definition gather_command :: "'w plan_env \<Rightarrow> PlanMustGatherParams \<Rightarrow> (string, string) result" where
  "gather_command env p =
     (let c = (if gp_GatherCommand p = [] then defaultGatherCmd else gp_GatherCommand p) in
      if isAllowedGatherCommand c then Inr c
      else Inl (''gather command '' @ Quote c @ '' is not allowed, must be one of allowed gather commands only''))"

definition user_images :: "PlanMustGatherParams \<Rightarrow> (string, string list) result" where
  "user_images p = (case find (\<lambda>img. \<not> isAllowedImageRegistry img) (gp_Images p) of
     Some img \<Rightarrow> Inl (''image '' @ Quote img @ '' is not from an approved Red Hat registry'')
   | None \<Rightarrow> Inr (gp_Images p))"

definition gather_images :: "'w kube_client \<Rightarrow> PlanMustGatherParams \<Rightarrow> ('w, string list) action" where
  "gather_images k p =
     bindA (liftA (user_images p)) (\<lambda>imgs.
     bindA (if gp_AllImages p then wrapA ''failed to get operator images: '' (bindA (getComponentImages k) (\<lambda>cs. retA (imgs @ cs))) else retA imgs) (\<lambda>imgs.
       if length imgs > maxConcurrentGathers then failA (''more than '' @ digits maxConcurrentGathers @ '' gather images are not supported'')
       else retA imgs))"

definition durations_ok :: "'w plan_env \<Rightarrow> PlanMustGatherParams \<Rightarrow> (string, unit) result" where
  "durations_ok env p =
     (if gp_Timeout p \<noteq> [] \<and> \<not> pe_Duration env (gp_Timeout p) then Inl ''timeout duration is not valid''
      else if gp_Since p \<noteq> [] \<and> \<not> pe_Duration env (gp_Since p) then Inl ''since duration is not valid''
      else Inr ())"

definition source_dir :: "PlanMustGatherParams \<Rightarrow> string" where
  "source_dir p = (if gp_SourceDir p = [] then defaultGatherSourceDir else Clean (gp_SourceDir p))"

definition gather_template :: "PlanMustGatherParams \<Rightarrow> string \<Rightarrow> mg_container" where
  "gather_template p command =
     \<lparr>ct_Name = ''gather'', ct_Image = defaultMustGatherImage,
      ct_Command = (if gp_Timeout p \<noteq> [] then [''/usr/bin/timeout'', gp_Timeout p] else []) @ [command],
      ct_Env = (if gp_Since p \<noteq> [] then [(''MUST_GATHER_SINCE'', gp_Since p)] else []), ct_MountPath = source_dir p\<rparr>"

definition gather_containers :: "PlanMustGatherParams \<Rightarrow> string \<Rightarrow> string list \<Rightarrow> mg_container list" where
  "gather_containers p command imgs =
     (if imgs = [] then [gather_template p command]
      else map (\<lambda>i. (gather_template p command)\<lparr>ct_Name := (if length imgs > 1 then ''gather-'' @ digits (Suc i) else ''gather''), ct_Image := imgs ! i\<rparr>)
             [0..<length imgs])"

definition wait_container :: mg_container where
  "wait_container = \<lparr>ct_Name = ''wait'', ct_Image = ''registry.redhat.io/ubi9/ubi-minimal'', ct_Command = [''/bin/bash'', ''-c'', ''sleep infinity''],
     ct_Env = [], ct_MountPath = ''/must-gather''\<rparr>"

definition collector :: string where "collector = ''must-gather-collector''"

definition gather_pod :: "PlanMustGatherParams \<Rightarrow> string \<Rightarrow> string \<Rightarrow> string \<Rightarrow> string list \<Rightarrow> mg_pod" where
  "gather_pod p ns suffix command imgs =
     \<lparr>gpo_Name = ''must-gather-'' @ suffix, gpo_Namespace = ns, gpo_ServiceAccountName = collector, gpo_NodeName = gp_NodeName p,
      gpo_Containers = gather_containers p command imgs @ [wait_container], gpo_HostNetwork = gp_HostNetwork p,
      gpo_NodeSelector = gp_NodeSelector p\<rparr>"

section \<open>The plan\<close>

datatype allow_check = create_namespace | create_serviceaccount | create_clusterrolebinding | create_pod | use_scc_hostnetwork

fun allow_request :: "allow_check \<Rightarrow> GroupVersionResource \<times> string \<times> string" where
  "allow_request create_namespace = (\<lparr>gvr_Group = [], gvr_Version = ''v1'', gvr_Resource = ''namespaces''\<rparr>, [], ''create'')"
| "allow_request create_serviceaccount = (\<lparr>gvr_Group = [], gvr_Version = ''v1'', gvr_Resource = ''serviceaccounts''\<rparr>, [], ''create'')"
| "allow_request create_clusterrolebinding =
     (\<lparr>gvr_Group = ''rbac.authorization.k8s.io'', gvr_Version = ''v1'', gvr_Resource = ''clusterrolebindings''\<rparr>, [], ''create'')"
| "allow_request create_pod = (\<lparr>gvr_Group = [], gvr_Version = ''v1'', gvr_Resource = ''pods''\<rparr>, [], ''create'')"
| "allow_request use_scc_hostnetwork =
     (\<lparr>gvr_Group = ''security.openshift.io'', gvr_Version = ''v1'', gvr_Resource = ''securitycontextconstraints''\<rparr>, ''hostnetwork-v2'', ''use'')"

definition allow_checks :: "allow_check list" where
  "allow_checks = [create_namespace, create_serviceaccount, create_clusterrolebinding, create_pod, use_scc_hostnetwork]"

definition check_allowed :: "'w kube_client \<Rightarrow> allow_check \<Rightarrow> ('w, bool) action" where
  "check_allowed k c = (case allow_request c of (gvr, name, verb) \<Rightarrow>
     bindA (tryA (CanI (Some (kc_Auth k)) gvr [] name verb)) (\<lambda>r. retA (case r of Inl _ \<Rightarrow> False | Inr allowed \<Rightarrow> allowed)))"

definition code_block :: "string \<Rightarrow> string \<Rightarrow> string" where
  "code_block yaml trail = replicate 3 (CHR 0x60) @ ''yaml'' @ [CHR 0x0A] @ yaml @ replicate 3 (CHR 0x60) @ [CHR 0x0A] @ trail"

definition no_permission :: "string \<Rightarrow> string" where
  "no_permission what = ''WARNING: The resources_create_or_update call does not have permission to create '' @ what @ ''.'' @ [CHR 0x0A]"

definition bt :: "string \<Rightarrow> string" where "bt s = [CHR 0x60] @ s @ [CHR 0x60]"

definition plan_intro :: "bool \<Rightarrow> string" where
  "plan_intro keep =
     ''Plan contains YAML manifests for must-gather pods and required resources (namespace, serviceaccount, clusterrolebinding). ''
     @ ''Suggest how the user can apply the manifest and copy results locally ('' @ bt ''oc cp'' @ '' / '' @ bt ''kubectl cp'' @ ''). '' @ [CHR 0x0A, CHR 0x0A]
     @ ''Ask the user if they want to apply the plan '' @ [CHR 0x0A]
     @ ''- use the resource_create_or_update tool to apply the manifest '' @ [CHR 0x0A]
     @ ''- alternatively, advise the user to execute '' @ bt ''oc apply'' @ '' / '' @ bt ''kubectl apply'' @ '' instead. '' @ [CHR 0x0A, CHR 0x0A]
     @ (if keep then [] else
          ''Once the must-gather collection is completed, the user may wish to cleanup the created resources. '' @ [CHR 0x0A]
          @ ''- use the resources_delete tool to delete the namespace and the clusterrolebinding '' @ [CHR 0x0A]
          @ ''- or, execute cleanup using '' @ bt ''kubectl delete'' @ ''. '' @ [CHR 0x0A, CHR 0x0A])"

definition write_plan ::
  "'w plan_env \<Rightarrow> PlanMustGatherParams \<Rightarrow> string \<Rightarrow> bool \<Rightarrow> (allow_check \<Rightarrow> bool) \<Rightarrow> mg_pod \<Rightarrow> (string, string) result" where
  "write_plan env p ns namespaceExists allowed pod =
     bindE (if \<not> namespaceExists \<and> allowed create_namespace
            then bindE (mapErr (\<lambda>e. ''failed to marshal namespace to yaml: '' @ e) (pe_Yaml env (NamespaceManifest ns))) (\<lambda>y. Inr (code_block y [CHR 0x0A]))
            else Inr []) (\<lambda>nsText.
     bindE (mapErr (\<lambda>e. ''failed to marshal service account to yaml: '' @ e) (pe_Yaml env (ServiceAccountManifest collector ns))) (\<lambda>sa.
     bindE (mapErr (\<lambda>e. ''failed to marshal cluster role binding to yaml: '' @ e)
              (pe_Yaml env (ClusterRoleBindingManifest (ns @ ''-must-gather-collector'') ''cluster-admin'' collector ns))) (\<lambda>crb.
     bindE (mapErr (\<lambda>e. ''failed to marshal pod to yaml: '' @ e) (pe_Yaml env (PodManifest pod))) (\<lambda>podYaml.
       Inr (plan_intro (gp_KeepResources p) @ nsText
            @ (if \<not> namespaceExists \<and> \<not> allowed create_namespace then no_permission ''namespace(s)'' else [])
            @ code_block sa [CHR 0x0A] @ (if allowed create_serviceaccount then [] else no_permission ''serviceaccount(s)'')
            @ code_block crb [CHR 0x0A] @ (if allowed create_clusterrolebinding then [] else no_permission ''clusterrolebinding(s)'')
            @ code_block podYaml [] @ (if allowed create_pod then [] else no_permission ''pod(s)'')
            @ (if gp_HostNetwork p \<and> \<not> allowed use_scc_hostnetwork then no_permission ''pod(s) with hostNetwork: true'' else []))))))"

definition namespace_gvk :: GroupVersionKind where
  "namespace_gvk = \<lparr>gvk_Group = [], gvk_Version = ''v1'', gvk_Kind = ''Namespace''\<rparr>"

definition PlanMustGather :: "'w plan_env \<Rightarrow> 'w kube_client \<Rightarrow> PlanMustGatherParams \<Rightarrow> ('w, string) action" where
  "PlanMustGather env k p =
     bindA (if gp_Namespace p = [] then bindA (rand_String env) (\<lambda>r. retA (''openshift-must-gather-'' @ r)) else retA (gp_Namespace p)) (\<lambda>ns.
     bindA (liftA (gather_command env p)) (\<lambda>command.
     bindA (gather_images k p) (\<lambda>imgs.
     bindA (liftA (durations_ok env p)) (\<lambda>_.
     bindA (rand_String env) (\<lambda>suffix.
     bindA (tryA (ResourcesGet k namespace_gvk [] ns)) (\<lambda>existing.
     bindA (forA allow_checks (check_allowed k)) (\<lambda>answers.
       let allowed = (\<lambda>c. case map_of (zip allow_checks answers) c of Some b \<Rightarrow> b | None \<Rightarrow> False) in
       liftA (write_plan env p ns (\<not> isl existing) allowed (gather_pod p ns suffix command imgs)))))))))"

section \<open>The prompt\<close>

definition parseBool :: "string \<Rightarrow> bool" where
  "parseBool value \<longleftrightarrow> ToLower (TrimSpace value) = ''true''"

definition parseImages :: "string \<Rightarrow> string list" where
  "parseImages value = (if value = [] then [] else filter (\<lambda>img. img \<noteq> []) (map TrimSpace (Split (CHR '','') value)))"

definition formatMustGatherPrompt :: "string \<Rightarrow> string" where
  "formatMustGatherPrompt planResult =
     ''# Must-Gather Collection Plan'' @ [CHR 0x0A, CHR 0x0A] @ planResult @ [CHR 0x0A] @ ''---'' @ [CHR 0x0A, CHR 0x0A]
     @ ''**Please review the plan above and confirm if you want to proceed with applying these resources.**'' @ [CHR 0x0A]"

definition plan_params :: "(string \<rightharpoonup> string) \<Rightarrow> PlanMustGatherParams" where
  "plan_params args =
     (let get = (\<lambda>key. case args key of Some v \<Rightarrow> v | None \<Rightarrow> []) in
      \<lparr>gp_NodeName = get ''node_name'', gp_NodeSelector = ParseNodeSelector (get ''node_selector''), gp_HostNetwork = parseBool (get ''host_network''),
       gp_SourceDir = get ''source_dir'', gp_Namespace = get ''namespace'', gp_KeepResources = parseBool (get ''keep_resources''),
       gp_GatherCommand = get ''gather_command'', gp_AllImages = parseBool (get ''all_component_images''), gp_Images = parseImages (get ''images''),
       gp_Timeout = get ''timeout'', gp_Since = get ''since''\<rparr>)"

definition planMustGatherHandler :: "'w plan_env \<Rightarrow> ('w, 'w kube_client) PromptHandlerFunc" where
  "planMustGatherHandler env params =
     bindA (PlanMustGather env (ph_KubernetesClient params) (plan_params (ph_Arguments params))) (\<lambda>plan.
       retA (NewPromptCallResult ''Must-gather plan generated successfully''
         [\<lparr>pm_Role = ''user'', pm_Type = ''text'', pm_Text = formatMustGatherPrompt plan\<rparr>,
          \<lparr>pm_Role = ''assistant'', pm_Type = ''text'',
           pm_Text = ''I'' @ [CHR 0x27] @ ''ll help you apply this must-gather plan to collect diagnostic data from your OpenShift cluster.''\<rparr>] None))"

definition plan_arguments :: "string list" where
  "plan_arguments = [''node_name'', ''node_selector'', ''source_dir'', ''namespace'', ''gather_command'', ''timeout'', ''since'', ''host_network'',
     ''keep_resources'', ''all_component_images'', ''images'']"

definition plan_Prompts :: "(string \<Rightarrow> string \<Rightarrow> string) \<Rightarrow> 'w plan_env \<Rightarrow> ('w, 'w kube_client) server_prompt list" where
  "plan_Prompts doc env =
     [\<lparr>sp_Prompt = \<lparr>p_Name = ''plan_mustgather'', p_Title = ''Plan a must-gather collection'', p_Description = doc ''plan_mustgather'' [],
         p_Arguments = map (\<lambda>n. \<lparr>pa_Name = n, pa_Description = doc ''plan_mustgather'' n, pa_Required = False\<rparr>) plan_arguments, p_Templates = []\<rparr>,
       sp_Handler = planMustGatherHandler env, sp_ClusterAware = None\<rparr>]"

definition openshift_Toolset :: "(string \<Rightarrow> string \<Rightarrow> string) \<Rightarrow> 'w plan_env \<Rightarrow> ('w, 'w kube_client) Toolset" where
  "openshift_Toolset doc env =
     \<lparr>ts_Name = ''openshift'', ts_GetTools = (\<lambda>_. []), ts_GetPrompts = plan_Prompts doc env, ts_GetResources = [], ts_GetResourceTemplates = []\<rparr>"

section \<open>What a plan may contain\<close>

lemma bindA_InrD: "bindA m f w = (Inr y, w') \<Longrightarrow> \<exists>x w1. m w = (Inr x, w1) \<and> f x w1 = (Inr y, w')"
  by (auto simp: bindA_def split: prod.splits sum.splits)

lemma user_images_allowed: "user_images p = Inr imgs \<Longrightarrow> imgs = gp_Images p \<and> list_all isAllowedImageRegistry imgs"
  by (auto simp: user_images_def find_None_iff list_all_iff split: option.splits)

text \<open>Where an image of the plan comes from.\<close>

definition image_source :: "PlanMustGatherParams \<Rightarrow> string list \<Rightarrow> string \<Rightarrow> bool" where
  "image_source p operators img \<longleftrightarrow>
     img \<in> set (gp_Images p) \<and> isAllowedImageRegistry img \<or> gp_AllImages p \<and> img \<in> set operators"

lemma gather_images_sources:
  assumes "gather_images k p w = (Inr imgs, w')"
  shows "length imgs \<le> 8" "\<exists>operators w1 w2. (gp_AllImages p \<longrightarrow> getComponentImages k w1 = (Inr operators, w2)) \<and> list_all (image_source p operators) imgs"
proof -
  let ?more = "\<lambda>imgs. if gp_AllImages p then wrapA ''failed to get operator images: '' (bindA (getComponentImages k) (\<lambda>cs. retA (imgs @ cs))) else retA imgs"
  obtain us where us: "user_images p = Inr us"
    and rest: "bindA (?more us) (\<lambda>imgs. if length imgs > maxConcurrentGathers then failA (''more than '' @ digits maxConcurrentGathers @ '' gather images are not supported'')
       else retA imgs) w = (Inr imgs, w')"
    using assms unfolding gather_images_def by (cases "user_images p") (simp_all add: failA_def)
  obtain all w1 where all: "?more us w = (Inr all, w1)" "length all \<le> 8" "all = imgs"
    using bindA_InrD [OF rest] by (auto simp: maxConcurrentGathers_def failA_def retA_def split: if_splits)
  then show "length imgs \<le> 8" by simp
  have allowed: "us = gp_Images p" "list_all isAllowedImageRegistry us" using user_images_allowed [OF us] by auto
  show "\<exists>operators w1 w2. (gp_AllImages p \<longrightarrow> getComponentImages k w1 = (Inr operators, w2)) \<and> list_all (image_source p operators) imgs"
  proof (cases "gp_AllImages p")
    case True
    then obtain cs w2 where "getComponentImages k w = (Inr cs, w2)" "imgs = us @ cs"
      using all by (auto simp: wrapA_def bindA_def retA_def split: prod.splits sum.splits)
    with allowed True show ?thesis by (intro exI [of _ cs] exI [of _ w] exI [of _ w2]) (auto simp: list_all_iff image_source_def)
  next
    case False
    then have "imgs = us" using all by (simp add: retA_def)
    with allowed False show ?thesis by (auto simp: list_all_iff image_source_def)
  qed
qed

text \<open>A container that collects: the command is an allowed one, under a time limit if the user gave one.\<close>

definition collects :: "'w plan_env \<Rightarrow> PlanMustGatherParams \<Rightarrow> mg_container \<Rightarrow> bool" where
  "collects env p c \<longleftrightarrow> (\<exists>command. isAllowedGatherCommand command
     \<and> ct_Command c = (if gp_Timeout p = [] then [command] else [''/usr/bin/timeout'', gp_Timeout p, command]))
     \<and> (gp_Timeout p \<noteq> [] \<longrightarrow> pe_Duration env (gp_Timeout p))
     \<and> ct_Env c = (if gp_Since p = [] then [] else [(''MUST_GATHER_SINCE'', gp_Since p)]) \<and> (gp_Since p \<noteq> [] \<longrightarrow> pe_Duration env (gp_Since p))"

lemma gather_command_allowed: "gather_command env p = Inr c \<Longrightarrow> isAllowedGatherCommand c"
  by (simp add: gather_command_def Let_def split: if_splits)

lemma durations_valid:
  "durations_ok env p = Inr u \<Longrightarrow> (gp_Timeout p \<noteq> [] \<longrightarrow> pe_Duration env (gp_Timeout p)) \<and> (gp_Since p \<noteq> [] \<longrightarrow> pe_Duration env (gp_Since p))"
  by (auto simp: durations_ok_def split: if_splits)

lemma gather_containers_collect:
  assumes "isAllowedGatherCommand command" "durations_ok env p = Inr u"
  shows "list_all (collects env p) (gather_containers p command imgs)"
  using assms durations_valid [OF assms(2)] by (auto simp: list_all_iff gather_containers_def gather_template_def collects_def)

lemma gather_containers_images: "imgs \<noteq> [] \<Longrightarrow> map ct_Image (gather_containers p command imgs) = imgs"
  by (simp add: gather_containers_def map_nth comp_def)

lemma digits_inj_on: "inj_on digits {..<10}"
proof (rule inj_onI)
  fix a b :: nat assume ab: "a \<in> {..<10}" "b \<in> {..<10}" "digits a = digits b"
  then have "''0123456789'' ! a = ''0123456789'' ! b" by (simp add: digits.simps)
  moreover have "distinct ''0123456789''" "a < length ''0123456789''" "b < length ''0123456789''" using ab by simp_all
  ultimately show "a = b" using nth_eq_iff_index_eq by blast
qed

lemma gather_containers_names: "length imgs \<le> 8 \<Longrightarrow> distinct (map ct_Name (gather_containers p command imgs @ [wait_container]))"
proof (cases "length imgs > 1")
  case True
  assume l: "length imgs \<le> 8"
  have "inj_on (\<lambda>i. ''gather-'' @ digits (Suc i)) {0..<length imgs}"
    using l by (auto intro!: inj_onI dest: inj_onD [OF digits_inj_on])
  moreover have "map ct_Name (gather_containers p command imgs) = map (\<lambda>i. ''gather-'' @ digits (Suc i)) [0..<length imgs]"
    using True by (auto simp: gather_containers_def)
  ultimately show ?thesis by (auto simp: wait_container_def distinct_map)
next
  case False
  then show ?thesis by (cases imgs) (auto simp: gather_containers_def gather_template_def wait_container_def)
qed

lemma rand_keeps: "(\<forall>w. P w \<longrightarrow> P (snd (pe_Rand env w))) \<Longrightarrow> keeps P (rand_String env)"
  by (auto simp: keeps_def rand_String_def split: prod.splits)

lemma plan_keeps:
  assumes "reads_keep P k" "\<forall>w. P w \<longrightarrow> P (snd (pe_Rand env w))"
  shows "keeps P (PlanMustGather env k p)"
  unfolding PlanMustGather_def gather_images_def getComponentImages_def check_allowed_def
  by (intro keeps_intros rand_keeps [OF assms(2)] ResourcesGet_keeps [OF assms(1)] keeps_CanI [OF assms(1)] reads_keepD(6) [OF assms(1)])

text \<open>
  C26: A plan for collecting data changes nothing, and one that is given was written from one pod, in the namespace of the plan, whose containers have different names: one that
  waits and at most eight that collect, with allowed commands and valid durations; each image was named by the user and is from an
  approved registry, or was found at an operator of the cluster when the user asked for those, or is the default one.
\<close>

theorem gather_plan_safe:
  assumes "PlanMustGather env k p w = (Inr plan, w')" "reads_keep P k" "\<forall>w. P w \<longrightarrow> P (snd (pe_Rand env w))"
  shows "(P w \<longrightarrow> P w') \<and> (\<exists>ns exists allowed pod cs operators w1 w2.
     write_plan env p ns exists allowed pod = Inr plan \<and> gpo_Namespace pod = ns \<and> (gp_Namespace p \<noteq> [] \<longrightarrow> ns = gp_Namespace p)
   \<and> gpo_Containers pod = cs @ [wait_container] \<and> length cs \<le> 8 \<and> distinct (map ct_Name (gpo_Containers pod))
   \<and> list_all (collects env p) cs \<and> (gp_AllImages p \<longrightarrow> getComponentImages k w1 = (Inr operators, w2))
   \<and> list_all (\<lambda>c. ct_Image c = defaultMustGatherImage \<or> image_source p operators (ct_Image c)) cs)"
proof -
  have kept: "P w \<longrightarrow> P w'" using keepsD [OF plan_keeps [OF assms(2,3)], of w p] assms(1) by simp
  obtain ns wa where ns: "gp_Namespace p \<noteq> [] \<longrightarrow> ns = gp_Namespace p"
    and a: "bindA (liftA (gather_command env p)) (\<lambda>command. bindA (gather_images k p) (\<lambda>imgs. bindA (liftA (durations_ok env p)) (\<lambda>_.
      bindA (rand_String env) (\<lambda>suffix. bindA (tryA (ResourcesGet k namespace_gvk [] ns)) (\<lambda>existing.
      bindA (forA allow_checks (check_allowed k)) (\<lambda>answers.
       let allowed = (\<lambda>c. case map_of (zip allow_checks answers) c of Some b \<Rightarrow> b | None \<Rightarrow> False) in
       liftA (write_plan env p ns (\<not> isl existing) allowed (gather_pod p ns suffix command imgs)))))))) wa = (Inr plan, w')"
    using bindA_InrD [OF assms(1) [unfolded PlanMustGather_def]] by (auto simp: retA_def split: if_splits)
  obtain command wb where c: "gather_command env p = Inr command" and b: "bindA (gather_images k p) (\<lambda>imgs. bindA (liftA (durations_ok env p)) (\<lambda>_.
      bindA (rand_String env) (\<lambda>suffix. bindA (tryA (ResourcesGet k namespace_gvk [] ns)) (\<lambda>existing.
      bindA (forA allow_checks (check_allowed k)) (\<lambda>answers.
       let allowed = (\<lambda>c. case map_of (zip allow_checks answers) c of Some b \<Rightarrow> b | None \<Rightarrow> False) in
       liftA (write_plan env p ns (\<not> isl existing) allowed (gather_pod p ns suffix command imgs))))))) wb = (Inr plan, w')"
    using bindA_InrD [OF a] by (auto simp: liftA_def)
  obtain imgs wc u suffix exists allowed where i: "gather_images k p wb = (Inr imgs, wc)" and d: "durations_ok env p = Inr u"
    and pl: "write_plan env p ns exists allowed (gather_pod p ns suffix command imgs) = Inr plan"
    using bindA_InrD [OF b] by (fastforce dest!: bindA_InrD simp: liftA_def)
  obtain operators w1 w2 where ops: "gp_AllImages p \<longrightarrow> getComponentImages k w1 = (Inr operators, w2)" "list_all (image_source p operators) imgs"
    using gather_images_sources(2) [OF i] by blast
  let ?cs = "gather_containers p command imgs"
  have len: "length imgs \<le> 8" using gather_images_sources(1) [OF i] .
  have "list_all (\<lambda>c. ct_Image c = defaultMustGatherImage \<or> image_source p operators (ct_Image c)) ?cs"
  proof (cases "imgs = []")
    case False
    then show ?thesis using ops(2) gather_containers_images [OF False, of p command] by (metis (mono_tags, lifting) list.pred_map list.pred_mono_strong comp_apply)
  qed (simp add: gather_containers_def gather_template_def)
  moreover have "list_all (collects env p) ?cs" using gather_containers_collect [OF gather_command_allowed [OF c] d] .
  moreover have "length ?cs \<le> 8" using len by (simp add: gather_containers_def)
  ultimately show ?thesis
    using ns pl ops(1) gather_containers_names [OF len, of p command]
    by (intro conjI [OF kept] exI [of _ ns] exI [of _ exists] exI [of _ allowed] exI [of _ "gather_pod p ns suffix command imgs"] exI [of _ ?cs] exI [of _ operators]
        exI [of _ w1] exI [of _ w2]) (simp add: gather_pod_def)
qed

definition demo_plan :: PlanMustGatherParams where
  "demo_plan = \<lparr>gp_NodeName = [], gp_NodeSelector = [], gp_HostNetwork = False, gp_SourceDir = [], gp_Namespace = ''mg'', gp_KeepResources = False,
     gp_GatherCommand = [], gp_AllImages = False, gp_Images = [], gp_Timeout = ''5m'', gp_Since = []\<rparr>"

text \<open>The images are the YAML of a pod, the names that of the others.\<close>

definition demo_plan_env :: "nat plan_env" where
  "demo_plan_env = \<lparr>pe_Yaml = (\<lambda>m. Inr (case m of PodManifest pod \<Rightarrow> concat (map ct_Image (gpo_Containers pod)) | _ \<Rightarrow> [])), pe_Duration = (\<lambda>d. d = ''5m''),
     pe_Rand = (\<lambda>n. (digits n, Suc n))\<rparr>"

lemma demo_plan_runs:
  "\<exists>plan w'. PlanMustGather demo_plan_env idle_client demo_plan 0 = (Inr plan, w')"
proof -
  have c: "gather_command demo_plan_env demo_plan = Inr ''/usr/bin/gather''" by code_simp
  have i: "gather_images k demo_plan w = (Inr [], w)" for k :: "nat kube_client" and w
    by (simp add: gather_images_def user_images_def demo_plan_def maxConcurrentGathers_def retA_def)
  have d: "durations_ok demo_plan_env demo_plan = Inr ()" by (simp add: durations_ok_def demo_plan_def demo_plan_env_def)
  have a: "check_allowed idle_client c w = (Inr True, w)" for c and w :: nat
    by (cases c) (simp_all add: check_allowed_def CanI_def idle_client_def bindA_def tryA_def retA_def)
  have wr: "\<exists>plan. write_plan demo_plan_env q ns e al pod = Inr plan" for q ns e al pod
    by (auto simp: write_plan_def demo_plan_env_def)
  obtain r w2 where "ResourcesGet idle_client namespace_gvk [] ''mg'' (Suc 0) = (r, w2)" by fastforce
  then have g: "tryA (ResourcesGet idle_client namespace_gvk [] ''mg'') (Suc 0) = (Inr r, w2)" by (simp add: tryA_def)
  have n: "gp_Namespace demo_plan = ''mg''" by (simp add: demo_plan_def)
  have s: "rand_String demo_plan_env w = (Inr (digits w), Suc w)" for w by (simp add: rand_String_def demo_plan_env_def)
  show ?thesis
    using wr unfolding PlanMustGather_def
    by (simp add: n c d bindA_Inr [OF i] bindA_Inr [OF s] bindA_Inr [where m = "tryA (ResourcesGet idle_client namespace_gvk [] ''mg'')" and w = "Suc 0", OF g] allow_checks_def bindA_Inr [OF a] bindA_assoc Let_def liftA_def)
qed

theorem gather_plan_safe_witness:
  "\<exists>plan w'. PlanMustGather demo_plan_env idle_client demo_plan 0 = (Inr plan, w')
     \<and> (\<exists>ns exists allowed pod cs. write_plan demo_plan_env demo_plan ns exists allowed pod = Inr plan \<and> ns = ''mg''
          \<and> gpo_Containers pod = cs @ [wait_container] \<and> list_all (\<lambda>c. ct_Image c = defaultMustGatherImage) cs)"
proof -
  obtain plan w' where pl: "PlanMustGather demo_plan_env idle_client demo_plan 0 = (Inr plan, w')"
    using demo_plan_runs by blast
  have always: "\<forall>w. True \<longrightarrow> True" by simp
  have img: "\<not> image_source demo_plan ops i" for ops i by (simp add: image_source_def demo_plan_def)
  have n: "gp_Namespace demo_plan \<noteq> []" "gp_Namespace demo_plan = ''mg''" by (simp_all add: demo_plan_def)
  obtain ns ex al pod cs ops where "write_plan demo_plan_env demo_plan ns ex al pod = Inr plan" "ns = ''mg''" "gpo_Containers pod = cs @ [wait_container]"
    "list_all (\<lambda>c. ct_Image c = defaultMustGatherImage \<or> image_source demo_plan ops (ct_Image c)) cs"
    using gather_plan_safe [OF pl idle_reads [of "\<lambda>_. True"] always] n by (elim conjE exE) auto
  then show ?thesis using pl by (simp add: img) blast
qed

text \<open>The images that operators name are not checked against the approved registries.\<close>

lemma operator_images_unchecked:
  assumes "p = demo_plan\<lparr>gp_AllImages := True\<rparr>"
    "k = idle_client\<lparr>kc_List := (\<lambda>gvr _ _. retA (if gvr_Resource gvr = ''clusteroperators''
       then [[(''metadata'', JObj [(''annotations'', JObj [(mgAnnotation, JStr ''evil.example/x'')])])]] else []))\<rparr>"
  shows "gather_images k p w = (Inr [''evil.example/x''], w)" "\<not> isAllowedImageRegistry ''evil.example/x''"
proof -
  have op: "operator_image [(''metadata'', JObj [(''annotations'', JObj [(mgAnnotation, JStr ''evil.example/x'')])])] = [''evil.example/x'']" by code_simp
  show "gather_images k p w = (Inr [''evil.example/x''], w)"
    unfolding assms by (simp add: gather_images_def user_images_def getComponentImages_def demo_plan_def maxConcurrentGathers_def wrapA_def retA_def bindA_def op)
  show "\<not> isAllowedImageRegistry ''evil.example/x''" by code_simp
qed

end
