(* ===== verification/Kubevirt.thy ===== *)
theory Kubevirt
  imports Nested
begin

text \<open>
  Virtual machines: \<open>src/pkg/kubevirt/\<close> (\<open>gvr.go\<close>, \<open>resources.go\<close>, \<open>vm.go\<close>, \<open>guestagent.go\<close>,
  \<open>template.go\<close>): searching and matching data sources, instance types and preferences, the
  lifecycle of a virtual machine, and what its guest agent reports.
\<close>

section \<open>Resources\<close>

definition VirtualMachineGVK :: GroupVersionKind where
  "VirtualMachineGVK = \<lparr>gvk_Group = ''kubevirt.io'', gvk_Version = ''v1'', gvk_Kind = ''VirtualMachine''\<rparr>"
definition VirtualMachineGVR :: GroupVersionResource where
  "VirtualMachineGVR = \<lparr>gvr_Group = ''kubevirt.io'', gvr_Version = ''v1'', gvr_Resource = ''virtualmachines''\<rparr>"
definition VirtualMachineInstanceGVR :: GroupVersionResource where
  "VirtualMachineInstanceGVR = \<lparr>gvr_Group = ''kubevirt.io'', gvr_Version = ''v1'', gvr_Resource = ''virtualmachineinstances''\<rparr>"
definition DataVolumeGVR :: GroupVersionResource where
  "DataVolumeGVR = \<lparr>gvr_Group = ''cdi.kubevirt.io'', gvr_Version = ''v1beta1'', gvr_Resource = ''datavolumes''\<rparr>"
definition DataSourceGVR :: GroupVersionResource where
  "DataSourceGVR = \<lparr>gvr_Group = ''cdi.kubevirt.io'', gvr_Version = ''v1beta1'', gvr_Resource = ''datasources''\<rparr>"
definition VirtualMachineClusterInstancetypeGVR :: GroupVersionResource where
  "VirtualMachineClusterInstancetypeGVR =
     \<lparr>gvr_Group = ''instancetype.kubevirt.io'', gvr_Version = ''v1beta1'', gvr_Resource = ''virtualmachineclusterinstancetypes''\<rparr>"
definition VirtualMachineInstancetypeGVR :: GroupVersionResource where
  "VirtualMachineInstancetypeGVR =
     \<lparr>gvr_Group = ''instancetype.kubevirt.io'', gvr_Version = ''v1beta1'', gvr_Resource = ''virtualmachineinstancetypes''\<rparr>"
definition VirtualMachineClusterPreferenceGVR :: GroupVersionResource where
  "VirtualMachineClusterPreferenceGVR =
     \<lparr>gvr_Group = ''instancetype.kubevirt.io'', gvr_Version = ''v1beta1'', gvr_Resource = ''virtualmachineclusterpreferences''\<rparr>"
definition VirtualMachinePreferenceGVR :: GroupVersionResource where
  "VirtualMachinePreferenceGVR =
     \<lparr>gvr_Group = ''instancetype.kubevirt.io'', gvr_Version = ''v1beta1'', gvr_Resource = ''virtualmachinepreferences''\<rparr>"
definition VirtualMachineCloneGVR :: GroupVersionResource where
  "VirtualMachineCloneGVR = \<lparr>gvr_Group = ''clone.kubevirt.io'', gvr_Version = ''v1beta1'', gvr_Resource = ''virtualmachineclones''\<rparr>"
definition VirtualMachineInstanceMigrationGVR :: GroupVersionResource where
  "VirtualMachineInstanceMigrationGVR =
     \<lparr>gvr_Group = ''kubevirt.io'', gvr_Version = ''v1'', gvr_Resource = ''virtualmachineinstancemigrations''\<rparr>"
definition VirtualMachineTemplateGVK :: GroupVersionKind where
  "VirtualMachineTemplateGVK = \<lparr>gvk_Group = ''template.kubevirt.io'', gvk_Version = ''v1beta1'', gvk_Kind = ''VirtualMachineTemplate''\<rparr>"
definition PersistentVolumeClaimGVR :: GroupVersionResource where
  "PersistentVolumeClaimGVR = \<lparr>gvr_Group = [], gvr_Version = ''v1'', gvr_Resource = ''persistentvolumeclaims''\<rparr>"
definition PodGVR :: GroupVersionResource where
  "PodGVR = \<lparr>gvr_Group = [], gvr_Version = ''v1'', gvr_Resource = ''pods''\<rparr>"
definition StorageClassGVR :: GroupVersionResource where
  "StorageClassGVR = \<lparr>gvr_Group = ''storage.k8s.io'', gvr_Version = ''v1'', gvr_Resource = ''storageclasses''\<rparr>"

definition HasVirtualMachine :: "'w FilteringProvider \<Rightarrow> 'w \<Rightarrow> bool" where
  "HasVirtualMachine p = fp_AnyTargetHasGVKs p [VirtualMachineGVK]"

definition HasVirtualMachineTemplate :: "'w FilteringProvider \<Rightarrow> 'w \<Rightarrow> bool" where
  "HasVirtualMachineTemplate p = fp_AnyTargetHasGVKs p [VirtualMachineTemplateGVK]"

text \<open>
  The client: that of the core operations, objects that are created, and the REST client for
  the subresources of KubeVirt, which may fail to be built. A subresource is named by its path.
\<close>

record 'w vm_client =
  vc_Client :: "'w kube_client"
  vc_Create :: "GroupVersionResource \<Rightarrow> string \<Rightarrow> json_object \<Rightarrow> ('w, json_object) action"
  vc_NewSubresourceClient :: "(string, unit) result"
  vc_GetSub :: "string \<Rightarrow> string list \<Rightarrow> ('w, json_object) action"
  vc_PutSub :: "string \<Rightarrow> string list \<Rightarrow> string \<Rightarrow> ('w, unit) action"
  vc_NewTemplateClient :: "(string, unit) result"
  vc_PostTemplate :: "string \<Rightarrow> string list \<Rightarrow> json_object \<Rightarrow> ('w, json_object) action"
  vc_IsNotFound :: "string \<Rightarrow> bool"

definition list_all_options :: ListOptions where
  "list_all_options = \<lparr>lo_LabelSelector = [], lo_FieldSelector = [], lo_AsTable = False\<rparr>"

section \<open>Data sources\<close>

definition DefaultInstancetypeLabel :: string where
  "DefaultInstancetypeLabel = ''instancetype.kubevirt.io/default-instancetype''"
definition DefaultPreferenceLabel :: string where
  "DefaultPreferenceLabel = ''instancetype.kubevirt.io/default-preference''"

record DataSourceInfo =
  ds_Name :: string
  ds_Namespace :: string
  ds_Source :: string
  ds_DefaultInstancetype :: string
  ds_DefaultPreference :: string

record PreferenceInfo =
  pi_Name :: string
  pi_Namespace :: string

record InstancetypeInfo =
  ii_Name :: string
  ii_Namespace :: string
  ii_Labels :: "(string \<times> string) list option"

definition ExtractDataSourceInfo :: "json_object \<Rightarrow> string" where
  "ExtractDataSourceInfo obj =
     (case NestedMap [''spec'', ''source''] obj of
        NFound source \<Rightarrow>
          (let pvc = (case NestedMap [''pvc''] source of
               NFound info \<Rightarrow> (case NestedString [''name''] info of
                   NFound name \<Rightarrow> (case NestedString [''namespace''] info of
                       NFound ns \<Rightarrow> Some (''PVC: '' @ ns @ ''/'' @ name)
                     | _ \<Rightarrow> Some (''PVC: '' @ name))
                 | _ \<Rightarrow> None)
             | _ \<Rightarrow> None);
               registry = (case NestedMap [''registry''] source of
               NFound info \<Rightarrow> (case NestedString [''url''] info of NFound url \<Rightarrow> Some (''Registry: '' @ url) | _ \<Rightarrow> None)
             | _ \<Rightarrow> None);
               http = (case NestedString [''http'', ''url''] source of NFound url \<Rightarrow> Some (''HTTP: '' @ url) | _ \<Rightarrow> None)
           in case pvc of Some s \<Rightarrow> s | None \<Rightarrow>
              (case registry of Some s \<Rightarrow> s | None \<Rightarrow>
              (case http of Some s \<Rightarrow> s | None \<Rightarrow> ''DataSource (type unknown)'')))
      | _ \<Rightarrow> ''unknown source'')"

text \<open>A failed list counts as an empty one.\<close>

definition list_or_none :: "'w vm_client \<Rightarrow> GroupVersionResource \<Rightarrow> string \<Rightarrow> ('w, json_object list) action" where
  "list_or_none c gvr ns =
     bindA (tryA (kc_List (vc_Client c) gvr ns list_all_options)) (\<lambda>r. retA (case r of Inl _ \<Rightarrow> [] | Inr items \<Rightarrow> items))"

definition data_source_info :: "json_object \<Rightarrow> DataSourceInfo" where
  "data_source_info item =
     \<lparr>ds_Name = obj_GetName item, ds_Namespace = obj_GetNamespace item, ds_Source = ExtractDataSourceInfo item,
      ds_DefaultInstancetype = label_at DefaultInstancetypeLabel (obj_GetLabels item),
      ds_DefaultPreference = label_at DefaultPreferenceLabel (obj_GetLabels item)\<rparr>"

definition data_source_key :: "json_object \<Rightarrow> string" where
  "data_source_key item = obj_GetNamespace item @ ''/'' @ obj_GetName item"

fun index_data_sources :: "json_object list \<Rightarrow> (string \<times> DataSourceInfo) list \<Rightarrow> (string \<times> DataSourceInfo) list" where
  "index_data_sources [] results = results"
| "index_data_sources (item # items) results =
     index_data_sources items
       (if map_of results (data_source_key item) \<noteq> None then results
        else AList.update (data_source_key item) (data_source_info item) results)"

definition collectDataSources :: "'w vm_client \<Rightarrow> ('w, (string \<times> DataSourceInfo) list) action" where
  "collectDataSources c =
     bindA (list_or_none c DataSourceGVR ''openshift-virtualization-os-images'') (\<lambda>items1.
     bindA (list_or_none c DataSourceGVR ''kubevirt-os-images'') (\<lambda>items2.
     bindA (list_or_none c DataSourceGVR []) (\<lambda>items3.
       retA (index_data_sources (items1 @ items2 @ items3) []))))"

definition SearchDataSources :: "'w vm_client \<Rightarrow> ('w, (string \<times> DataSourceInfo) list) action" where
  "SearchDataSources c =
     bindA (collectDataSources c) (\<lambda>results.
       retA (if results = [] then
               [(''No sources available'', \<lparr>ds_Name = ''No sources available'', ds_Namespace = [],
                  ds_Source = ''No DataSources or containerdisks found'', ds_DefaultInstancetype = [], ds_DefaultPreference = []\<rparr>)]
             else results))"

definition SearchPreferences :: "'w vm_client \<Rightarrow> string \<Rightarrow> ('w, PreferenceInfo list) action" where
  "SearchPreferences c ns =
     bindA (list_or_none c VirtualMachineClusterPreferenceGVR []) (\<lambda>cluster.
     bindA (list_or_none c VirtualMachinePreferenceGVR ns) (\<lambda>namespaced.
       retA (map (\<lambda>item. \<lparr>pi_Name = obj_GetName item, pi_Namespace = []\<rparr>) cluster
             @ map (\<lambda>item. \<lparr>pi_Name = obj_GetName item, pi_Namespace = obj_GetNamespace item\<rparr>) namespaced)))"

definition SearchInstancetypes :: "'w vm_client \<Rightarrow> string \<Rightarrow> ('w, InstancetypeInfo list) action" where
  "SearchInstancetypes c ns =
     bindA (list_or_none c VirtualMachineClusterInstancetypeGVR []) (\<lambda>cluster.
     bindA (list_or_none c VirtualMachineInstancetypeGVR ns) (\<lambda>namespaced.
       retA (map (\<lambda>item. \<lparr>ii_Name = obj_GetName item, ii_Namespace = [], ii_Labels = obj_GetLabels item\<rparr>) cluster
             @ map (\<lambda>item. \<lparr>ii_Name = obj_GetName item, ii_Namespace = obj_GetNamespace item, ii_Labels = obj_GetLabels item\<rparr>) namespaced)))"

text \<open>
  Matching a workload. Go visits a map in an unspecified order, anew in each loop: the two lists are
  the values in the order of the first and of the second loop.
\<close>

definition MatchDataSource :: "DataSourceInfo list \<Rightarrow> DataSourceInfo list \<Rightarrow> string \<Rightarrow> DataSourceInfo option" where
  "MatchDataSource order1 order2 workload =
     (let normalizedInput = ToLower (TrimSpace workload) in
      case find (\<lambda>ds. EqualFold (ds_Name ds) normalizedInput \<or> EqualFold (ds_Name ds) workload) order1 of
        Some ds \<Rightarrow> Some ds
      | None \<Rightarrow> find (\<lambda>ds. ds_Namespace ds \<noteq> [] \<and> Contains (ToLower (ds_Name ds)) normalizedInput) order2)"

definition FilterInstancetypesBySize :: "InstancetypeInfo list \<Rightarrow> string \<Rightarrow> InstancetypeInfo list" where
  "FilterInstancetypesBySize instancetypes normalizedSize =
     filter (\<lambda>it. Contains (ToLower (ii_Name it)) normalizedSize) instancetypes"

definition has_class :: "string \<Rightarrow> InstancetypeInfo \<Rightarrow> bool" where
  "has_class performance it =
     (case Option.bind (ii_Labels it) (\<lambda>m. map_of m ''instancetype.kubevirt.io/class'') of
        None \<Rightarrow> False | Some cls \<Rightarrow> EqualFold cls performance)"

definition MatchInstancetypeBySize :: "InstancetypeInfo list \<Rightarrow> string \<Rightarrow> string \<Rightarrow> string" where
  "MatchInstancetypeBySize instancetypes size_hint performance =
     (let normalizedSize = ToLower (TrimSpace size_hint);
          normalizedPerformance = ToLower (TrimSpace performance);
          candidatesBySize = FilterInstancetypesBySize instancetypes normalizedSize
      in case candidatesBySize of
           [] \<Rightarrow> []
         | first # _ \<Rightarrow>
             (case find (\<lambda>it. HasPrefix (ToLower (ii_Name it)) (normalizedPerformance @ ''.'')) candidatesBySize of
                Some it \<Rightarrow> ii_Name it
              | None \<Rightarrow>
                  (case find (has_class normalizedPerformance) candidatesBySize of
                     Some it \<Rightarrow> ii_Name it
                   | None \<Rightarrow> ii_Name first)))"

definition named_preference :: "PreferenceInfo list \<Rightarrow> string \<Rightarrow> PreferenceInfo" where
  "named_preference preferences name =
     (case find (\<lambda>p. pi_Name p = name) preferences of Some p \<Rightarrow> p | None \<Rightarrow> \<lparr>pi_Name = name, pi_Namespace = []\<rparr>)"

definition ResolvePreference ::
  "PreferenceInfo list \<Rightarrow> string \<Rightarrow> string \<Rightarrow> DataSourceInfo option \<Rightarrow> PreferenceInfo option" where
  "ResolvePreference preferences explicitPreference workload matchedDataSource =
     (if explicitPreference \<noteq> [] then Some (named_preference preferences explicitPreference)
      else case matchedDataSource of
             Some ds \<Rightarrow>
               (if ds_DefaultPreference ds \<noteq> [] then Some (named_preference preferences (ds_DefaultPreference ds))
                else find (\<lambda>p. Contains (ToLower (pi_Name p)) (ToLower (TrimSpace workload))) preferences)
           | None \<Rightarrow> find (\<lambda>p. Contains (ToLower (pi_Name p)) (ToLower (TrimSpace workload))) preferences)"

definition named_instancetype :: "InstancetypeInfo list \<Rightarrow> string \<Rightarrow> InstancetypeInfo" where
  "named_instancetype instancetypes name =
     (case find (\<lambda>it. ii_Name it = name) instancetypes of
        Some it \<Rightarrow> it | None \<Rightarrow> \<lparr>ii_Name = name, ii_Namespace = [], ii_Labels = None\<rparr>)"

definition ResolveInstancetype ::
  "InstancetypeInfo list \<Rightarrow> string \<Rightarrow> string \<Rightarrow> string \<Rightarrow> DataSourceInfo option \<Rightarrow> InstancetypeInfo option" where
  "ResolveInstancetype instancetypes explicitInstancetype size_hint performance matchedDataSource =
     (if explicitInstancetype \<noteq> [] then Some (named_instancetype instancetypes explicitInstancetype)
      else if size_hint = [] then
        (case matchedDataSource of
           Some ds \<Rightarrow> (if ds_DefaultInstancetype ds \<noteq> [] then Some (named_instancetype instancetypes (ds_DefaultInstancetype ds)) else None)
         | None \<Rightarrow> None)
      else (let name = MatchInstancetypeBySize instancetypes size_hint performance in
            if name \<noteq> [] then find (\<lambda>it. ii_Name it = name) instancetypes else None))"

section \<open>Lifecycle\<close>

definition RunStrategyAlways :: string where "RunStrategyAlways = ''Always''"
definition RunStrategyHalted :: string where "RunStrategyHalted = ''Halted''"

definition GetVirtualMachine :: "'w vm_client \<Rightarrow> string \<Rightarrow> string \<Rightarrow> ('w, json_object) action" where
  "GetVirtualMachine c ns name = kc_Get (vc_Client c) VirtualMachineGVR ns name []"

text \<open>The strategy and whether it was found; the text of an accessor error is a parameter.\<close>

definition GetVMRunStrategy :: "(json_object \<Rightarrow> string) \<Rightarrow> json_object \<Rightarrow> (string, string \<times> bool) result" where
  "GetVMRunStrategy accessErr vm = (case NestedString [''spec'', ''runStrategy''] vm of
     NFound s \<Rightarrow> Inr (s, True)
   | NMissing \<Rightarrow> Inr ([], False)
   | NError \<Rightarrow> Inl (''failed to read runStrategy: '' @ accessErr vm))"

definition SetVMRunStrategy :: "json_object \<Rightarrow> string \<Rightarrow> (string, json_object) result" where
  "SetVMRunStrategy vm strategy = set_spec_field ''runStrategy'' (JStr strategy) vm"

definition UpdateVirtualMachine :: "'w vm_client \<Rightarrow> json_object \<Rightarrow> ('w, json_object) action" where
  "UpdateVirtualMachine c vm = kc_Update (vc_Client c) VirtualMachineGVR (obj_GetNamespace vm) vm []"

text \<open>Set the run strategy of an object and send the update.\<close>

definition send_strategy :: "'w vm_client \<Rightarrow> string \<Rightarrow> string \<Rightarrow> string \<Rightarrow> json_object \<Rightarrow> ('w, json_object) action" where
  "send_strategy c strategy setMsg updateMsg vm =
     bindA (wrapA setMsg (liftA (SetVMRunStrategy vm strategy))) (\<lambda>vm1. wrapA updateMsg (UpdateVirtualMachine c vm1))"

definition switch_vm ::
  "(json_object \<Rightarrow> string) \<Rightarrow> 'w vm_client \<Rightarrow> string \<Rightarrow> string \<Rightarrow> string \<Rightarrow> string \<Rightarrow> ('w, json_object \<times> bool) action" where
  "switch_vm accessErr c strategy verb ns name =
     bindA (wrapA ''failed to get VirtualMachine: '' (GetVirtualMachine c ns name)) (\<lambda>vm.
     bindA (liftA (GetVMRunStrategy accessErr vm)) (\<lambda>(currentStrategy, found).
       if found \<and> currentStrategy = strategy then retA (vm, False)
       else bindA (send_strategy c strategy ''failed to set runStrategy: '' (''failed to '' @ verb @ '' VirtualMachine: '') vm)
              (\<lambda>updatedVM. retA (updatedVM, True))))"

definition StartVM where "StartVM accessErr c = switch_vm accessErr c RunStrategyAlways ''start''"
definition StopVM where "StopVM accessErr c = switch_vm accessErr c RunStrategyHalted ''stop''"

definition RestartVM :: "'w vm_client \<Rightarrow> string \<Rightarrow> string \<Rightarrow> ('w, json_object) action" where
  "RestartVM c ns name =
     bindA (wrapA ''failed to get VirtualMachine: '' (GetVirtualMachine c ns name)) (\<lambda>vm.
     bindA (send_strategy c RunStrategyHalted ''failed to set runStrategy to Halted: '' ''failed to stop VirtualMachine: '' vm) (\<lambda>vm1.
       send_strategy c RunStrategyAlways ''failed to set runStrategy to Always: '' ''failed to start VirtualMachine: '' vm1))"

definition clone_object :: "string \<Rightarrow> string \<Rightarrow> string \<Rightarrow> json_object" where
  "clone_object ns sourceName targetName =
     (let ref = (\<lambda>n. JObj [(''apiGroup'', JStr ''kubevirt.io''), (''kind'', JStr ''VirtualMachine''), (''name'', JStr n)]) in
      [(''apiVersion'', JStr ''clone.kubevirt.io/v1beta1''), (''kind'', JStr ''VirtualMachineClone''),
       (''metadata'', JObj [(''namespace'', JStr ns), (''generateName'', JStr (sourceName @ ''-clone-''))]),
       (''spec'', JObj [(''source'', ref sourceName), (''target'', ref targetName)])])"

definition CloneVM :: "'w vm_client \<Rightarrow> string \<Rightarrow> string \<Rightarrow> string \<Rightarrow> ('w, json_object) action" where
  "CloneVM c ns sourceName targetName =
     wrapA ''failed to create VirtualMachineClone: '' (vc_Create c VirtualMachineCloneGVR ns (clone_object ns sourceName targetName))"

definition put_subresource :: "'w vm_client \<Rightarrow> string \<Rightarrow> string \<Rightarrow> string \<Rightarrow> ('w, json_object) action" where
  "put_subresource c verb ns name =
     bindA (wrapA ''failed to create subresource client: '' (liftA (vc_NewSubresourceClient c))) (\<lambda>_.
     bindA (wrapA (''failed to '' @ verb @ '' VirtualMachineInstance: '')
              (vc_PutSub c ns [''virtualmachineinstances'', name, verb] ''{}'')) (\<lambda>_.
       GetVirtualMachine c ns name))"

definition PauseVM where "PauseVM c = put_subresource c ''pause''"
definition UnpauseVM where "UnpauseVM c = put_subresource c ''unpause''"

section \<open>Guest agent\<close>

definition getVMISubresource :: "'w vm_client \<Rightarrow> string \<Rightarrow> string \<Rightarrow> string \<Rightarrow> ('w, json_object) action" where
  "getVMISubresource c ns vmiName subresource =
     bindA (wrapA ''failed to create REST client for subresources: '' (liftA (vc_NewSubresourceClient c))) (\<lambda>_.
       vc_GetSub c ns [''virtualmachineinstances'', vmiName, subresource])"

definition guest_query :: "'w vm_client \<Rightarrow> string \<Rightarrow> string \<Rightarrow> string \<Rightarrow> string \<Rightarrow> string \<Rightarrow> ('w, json_object) action" where
  "guest_query c subresource what key ns name =
     bindA (wrapA (''failed to get '' @ what @ '' - guest agent may not be installed or running: '') (getVMISubresource c ns name subresource))
       (\<lambda>result. retA [(key, JObj result)])"

definition GetGuestOSInfo where "GetGuestOSInfo c = guest_query c ''guestosinfo'' ''guest OS info'' ''guestOSInfo''"
definition GetFilesystemInfo where "GetFilesystemInfo c = guest_query c ''filesystemlist'' ''filesystem info'' ''filesystems''"
definition GetUserInfo where "GetUserInfo c = guest_query c ''userlist'' ''user info'' ''users''"
definition GetNetworkInfo where "GetNetworkInfo c = guest_query c ''interfacelist'' ''network interface info'' ''networkInterfaces''"

text \<open>
  One query of \<open>GetAllGuestInfo\<close>: the entry it gives to the map, and its error, if any. The
  result of a successful query is a map, never nil, so the entry is the result, else the error.
\<close>

definition collect_info ::
  "string \<Rightarrow> ('w, json_object) action \<Rightarrow> ('w, (string \<times> json) list \<times> string option) action" where
  "collect_info key query =
     bindA (tryA query) (\<lambda>r. retA (case r of
       Inl err \<Rightarrow> ((if err \<noteq> [] then [(key @ ''Error'', JStr err)] else []), Some (key @ '': '' @ err))
     | Inr info \<Rightarrow> ((case map_of info key of Some v \<Rightarrow> [(key, v)] | None \<Rightarrow> []), None)))"

definition GetAllGuestInfo :: "'w vm_client \<Rightarrow> string \<Rightarrow> string \<Rightarrow> ('w, json_object) action" where
  "GetAllGuestInfo c ns name =
     bindA (collect_info ''guestOSInfo'' (GetGuestOSInfo c ns name)) (\<lambda>(os, e1).
     bindA (collect_info ''filesystems'' (GetFilesystemInfo c ns name)) (\<lambda>(fs, e2).
     bindA (collect_info ''users'' (GetUserInfo c ns name)) (\<lambda>(us, e3).
     bindA (collect_info ''networkInterfaces'' (GetNetworkInfo c ns name)) (\<lambda>(net, e4).
       if e1 \<noteq> None \<and> e2 \<noteq> None \<and> e3 \<noteq> None \<and> e4 \<noteq> None then
         failA (''guest agent is not responding - all queries failed: [''
           @ Join '' '' (map the [e1, e2, e3, e4]) @ ''] - ensure QEMU guest agent is installed and running in the VM'')
       else retA (os @ fs @ us @ net)))))"

section \<open>Templates\<close>

definition CreateVMFromTemplate ::
  "'w vm_client \<Rightarrow> string \<Rightarrow> string \<Rightarrow> (string \<times> string) list \<Rightarrow> ('w, json_object) action" where
  "CreateVMFromTemplate c ns templateName parameters =
     bindA (wrapA ''failed to create REST client for template subresources: '' (liftA (vc_NewTemplateClient c))) (\<lambda>_.
       let createOptions = [(''apiVersion'', JStr ''subresources.template.kubevirt.io/v1beta1''), (''kind'', JStr ''CreateOptions'')]
             @ (if parameters \<noteq> [] then [(''parameters'', JObj (map (map_prod id JStr) parameters))] else [])
       in wrapA (''failed to create VM from template '' @ ns @ ''/'' @ templateName @ '': '')
            (vc_PostTemplate c ns [''virtualmachinetemplates'', templateName, ''create''] createOptions))"

section \<open>What the lifecycle operations do\<close>

text \<open>
  What the code relies on, for the virtual machines \<open>view\<close> of a cluster: reading one gives it under
  its name; an update puts the object under its name, with the spec that was sent, or changes nothing.
\<close>

type_synonym vm_view = "string \<times> string \<Rightarrow> json_object option"

definition vm_laws :: "('w \<Rightarrow> vm_view) \<Rightarrow> 'w vm_client \<Rightarrow> bool" where
  "vm_laws view c \<longleftrightarrow>
     (\<forall>ns name w. case GetVirtualMachine c ns name w of
        (Inl _, w') \<Rightarrow> view w' = view w
      | (Inr vm, w') \<Rightarrow> view w' = view w \<and> view w (ns, name) = Some vm \<and> obj_GetName vm = name \<and> obj_GetNamespace vm = ns)
   \<and> (\<forall>vm w. case UpdateVirtualMachine c vm w of
        (Inl _, w') \<Rightarrow> view w' = view w
      | (Inr vm', w') \<Rightarrow> view w' = (view w)((obj_GetNamespace vm, obj_GetName vm) \<mapsto> vm')
          \<and> map_of vm' ''spec'' = map_of vm ''spec'' \<and> obj_GetName vm' = obj_GetName vm \<and> obj_GetNamespace vm' = obj_GetNamespace vm)"

definition run_strategy :: "vm_view \<Rightarrow> string \<Rightarrow> string \<Rightarrow> string nested" where
  "run_strategy v ns name = (case v (ns, name) of None \<Rightarrow> NMissing | Some vm \<Rightarrow> NestedString [''spec'', ''runStrategy''] vm)"

definition only_changes :: "string \<Rightarrow> string \<Rightarrow> vm_view \<Rightarrow> vm_view \<Rightarrow> bool" where
  "only_changes ns name v v' \<longleftrightarrow> (\<forall>key. key \<noteq> (ns, name) \<longrightarrow> v' key = v key)"

text \<open>The contract of switching a virtual machine on or off.\<close>

definition switched :: "('w \<Rightarrow> vm_view) \<Rightarrow> string \<Rightarrow> string \<Rightarrow> string \<Rightarrow> 'w \<Rightarrow> (string, json_object \<times> bool) result \<times> 'w \<Rightarrow> bool" where
  "switched view strategy ns name w res = (case res of
     (Inl _, w') \<Rightarrow> view w' = view w
   | (Inr (vm, changed), w') \<Rightarrow>
       run_strategy (view w') ns name = NFound strategy \<and> only_changes ns name (view w) (view w')
     \<and> changed = (run_strategy (view w) ns name \<noteq> NFound strategy) \<and> (changed \<or> view w' = view w))"

lemma vm_laws_get:
  assumes "vm_laws view c" "GetVirtualMachine c ns name w = (r, w')"
  shows "view w' = view w"
    "r = Inr vm \<Longrightarrow> view w (ns, name) = Some vm \<and> obj_GetName vm = name \<and> obj_GetNamespace vm = ns"
proof -
  have "case GetVirtualMachine c ns name w of (Inl _, w') \<Rightarrow> view w' = view w
    | (Inr vm, w') \<Rightarrow> view w' = view w \<and> view w (ns, name) = Some vm \<and> obj_GetName vm = name \<and> obj_GetNamespace vm = ns"
    using assms(1) unfolding vm_laws_def by (elim conjE) simp
  then show "view w' = view w" "r = Inr vm \<Longrightarrow> view w (ns, name) = Some vm \<and> obj_GetName vm = name \<and> obj_GetNamespace vm = ns"
    unfolding assms(2) by (cases r; simp)+
qed

lemma vm_laws_update:
  assumes "vm_laws view c" "UpdateVirtualMachine c vm w = (r, w')"
  shows "r = Inl e \<Longrightarrow> view w' = view w"
    "r = Inr vm' \<Longrightarrow> view w' = (view w)((obj_GetNamespace vm, obj_GetName vm) \<mapsto> vm')
       \<and> map_of vm' ''spec'' = map_of vm ''spec'' \<and> obj_GetName vm' = obj_GetName vm \<and> obj_GetNamespace vm' = obj_GetNamespace vm"
proof -
  have "case UpdateVirtualMachine c vm w of (Inl _, w') \<Rightarrow> view w' = view w
    | (Inr vm', w') \<Rightarrow> view w' = (view w)((obj_GetNamespace vm, obj_GetName vm) \<mapsto> vm')
        \<and> map_of vm' ''spec'' = map_of vm ''spec'' \<and> obj_GetName vm' = obj_GetName vm \<and> obj_GetNamespace vm' = obj_GetNamespace vm"
    using assms(1) unfolding vm_laws_def by (elim conjE) simp
  then show "r = Inl e \<Longrightarrow> view w' = view w"
    "r = Inr vm' \<Longrightarrow> view w' = (view w)((obj_GetNamespace vm, obj_GetName vm) \<mapsto> vm')
       \<and> map_of vm' ''spec'' = map_of vm ''spec'' \<and> obj_GetName vm' = obj_GetName vm \<and> obj_GetNamespace vm' = obj_GetNamespace vm"
    unfolding assms(2) by auto
qed

lemma nested_spec_cong:
  "map_of a ''spec'' = map_of b ''spec'' \<Longrightarrow> NestedString [''spec'', f] a = NestedString [''spec'', f] b"
  by (simp add: nested_as_def)

text \<open>Setting the strategy and sending the update.\<close>

lemma send_strategy_effect:
  assumes laws: "vm_laws view c" and names: "obj_GetName vm = name" "obj_GetNamespace vm = ns"
    and sent: "send_strategy c strategy m1 m2 vm w = (r, w')"
  shows "r = Inl e \<Longrightarrow> view w' = view w"
    and "r = Inr vm2 \<Longrightarrow> run_strategy (view w') ns name = NFound strategy \<and> only_changes ns name (view w) (view w')
      \<and> obj_GetName vm2 = name \<and> obj_GetNamespace vm2 = ns"
proof -
  have "(\<forall>e. r = Inl e \<longrightarrow> view w' = view w) \<and>
    (\<forall>vm2. r = Inr vm2 \<longrightarrow> run_strategy (view w') ns name = NFound strategy \<and> only_changes ns name (view w) (view w')
      \<and> obj_GetName vm2 = name \<and> obj_GetNamespace vm2 = ns)"
  proof (cases "SetVMRunStrategy vm strategy")
    case (Inl e)
    then show ?thesis using sent by (auto simp: send_strategy_def bindA_def wrapA_def liftA_def)
  next
    case (Inr vm1)
    note set = Inr [unfolded SetVMRunStrategy_def]
    obtain r1 w1 where u: "UpdateVirtualMachine c vm1 w = (r1, w1)" by fastforce
    have res: "w' = w1" "r = mapErr (\<lambda>e. m2 @ e) r1"
      using sent Inr u by (auto simp: send_strategy_def bindA_def wrapA_def liftA_def)
    have n: "obj_GetName vm1 = name" "obj_GetNamespace vm1 = ns" using set_spec_field_names [OF set] names by simp_all
    show ?thesis
    proof (cases r1)
      case (Inl e) then show ?thesis using res vm_laws_update(1) [OF laws u] by auto
    next
      case (Inr vm2)
      note up = vm_laws_update(2) [OF laws u Inr, unfolded n]
      have "NestedString [''spec'', ''runStrategy''] vm2 = NFound strategy"
        using set_spec_field_get [OF set] up nested_spec_cong by metis
      then show ?thesis using res Inr up by (simp add: run_strategy_def only_changes_def)
    qed
  qed
  then show "r = Inl e \<Longrightarrow> view w' = view w"
    and "r = Inr vm2 \<Longrightarrow> run_strategy (view w') ns name = NFound strategy \<and> only_changes ns name (view w) (view w')
      \<and> obj_GetName vm2 = name \<and> obj_GetNamespace vm2 = ns" by blast+
qed

lemma switch_vm_switched:
  assumes laws: "vm_laws view c"
  shows "switched view strategy ns name w (switch_vm acc c strategy verb ns name w)"
proof -
  obtain r w1 where g: "GetVirtualMachine c ns name w = (r, w1)" by fastforce
  have w1: "view w1 = view w" by (rule vm_laws_get(1) [OF laws g])
  show ?thesis
  proof (cases r)
    case (Inl e)
    then show ?thesis using g w1 by (simp add: switched_def switch_vm_def bindA_def wrapA_def)
  next
    case (Inr vm)
    have vm: "view w (ns, name) = Some vm" "obj_GetName vm = name" "obj_GetNamespace vm = ns"
      using vm_laws_get(2) [OF laws g Inr] by auto
    define rs where "rs = NestedString [''spec'', ''runStrategy''] vm"
    have cur: "run_strategy (view w) ns name = rs" by (simp add: run_strategy_def vm rs_def)
    let ?send = "send_strategy c strategy ''failed to set runStrategy: '' (''failed to '' @ verb @ '' VirtualMachine: '') vm"
    have start: "switch_vm acc c strategy verb ns name w =
        (case GetVMRunStrategy acc vm of Inl e \<Rightarrow> (Inl e, w1) | Inr (s, found) \<Rightarrow>
          (if found \<and> s = strategy then (Inr (vm, False), w1) else bindA ?send (\<lambda>u. retA (u, True)) w1))"
      using g Inr by (simp add: switch_vm_def bindA_def wrapA_def liftA_def retA_def split: sum.split prod.split)
    obtain r2 w2 where sent: "?send w1 = (r2, w2)" by fastforce
    have change: "switched view strategy ns name w (bindA ?send (\<lambda>u. retA (u, True)) w1)" if "rs \<noteq> NFound strategy"
      using send_strategy_effect [OF laws vm(2,3) sent] sent w1 that cur
      by (cases r2) (auto simp: switched_def bindA_def retA_def)
    show ?thesis unfolding start using change w1 cur
      by (cases rs) (auto simp: GetVMRunStrategy_def rs_def [symmetric] switched_def only_changes_def)
  qed
qed

text \<open>
  Starting and stopping a virtual machine. If the call succeeds, the machine has the run
  strategy \<open>Always\<close> (\<open>Halted\<close>), no other machine changed, and the call reports a change exactly if
  the strategy was another one before; if it was not, nothing was written. If the call fails, every
  machine is as it was.
\<close>

theorem vm_start_stop:
  assumes "vm_laws view c"
  shows "switched view ''Always'' ns name w (StartVM acc c ns name w) \<and> switched view ''Halted'' ns name w (StopVM acc c ns name w)"
  unfolding StartVM_def StopVM_def RunStrategyAlways_def RunStrategyHalted_def
  using switch_vm_switched [OF assms] by blast


text \<open>A cluster of virtual machines that accepts a number of updates and then refuses them.\<close>

definition vm_store :: "(vm_view \<times> nat) vm_client" where
  "vm_store =
     \<lparr>vc_Client = idle_client
        \<lparr>kc_Get := (\<lambda>_ ns name _ w. case fst w (ns, name) of
           None \<Rightarrow> (Inl ''not found'', w)
         | Some vm \<Rightarrow> (if obj_GetName vm = name \<and> obj_GetNamespace vm = ns then (Inr vm, w) else (Inl ''not found'', w))),
         kc_Update := (\<lambda>_ ns vm _ w. case snd w of
           0 \<Rightarrow> (Inl ''conflict'', w) | Suc n \<Rightarrow> (Inr vm, ((fst w)((ns, obj_GetName vm) \<mapsto> vm), n)))\<rparr>,
      vc_Create = (\<lambda>_ _ obj. retA obj), vc_NewSubresourceClient = Inr (), vc_GetSub = (\<lambda>_ _. failA ''no agent''),
      vc_PutSub = (\<lambda>_ _ _. retA ()), vc_NewTemplateClient = Inr (), vc_PostTemplate = (\<lambda>_ _ obj. retA obj), vc_IsNotFound = (\<lambda>_. True)\<rparr>"

lemma vm_store_laws: "vm_laws fst vm_store"
  by (auto simp: vm_laws_def GetVirtualMachine_def UpdateVirtualMachine_def vm_store_def split: option.split nat.split)

definition demo_vm :: json_object where
  "demo_vm = [(''metadata'', JObj [(''name'', JStr ''vm''), (''namespace'', JStr ''d'')]), (''spec'', JObj [(''runStrategy'', JStr ''Manual'')])]"

lemmas vm_eval = RestartVM_def StartVM_def switch_vm_def send_strategy_def GetVirtualMachine_def UpdateVirtualMachine_def GetVMRunStrategy_def
  SetVMRunStrategy_def set_spec_field_def vm_store_def demo_vm_def bindA_def wrapA_def liftA_def retA_def nested_as_def run_strategy_def
  RunStrategyAlways_def RunStrategyHalted_def obj_GetName_def obj_GetNamespace_def

theorem vm_start_stop_witness:
  "switched fst ''Always'' ''d'' ''vm'' ([(''d'', ''vm'') \<mapsto> demo_vm], 1) (StartVM (\<lambda>_. []) vm_store ''d'' ''vm'' ([(''d'', ''vm'') \<mapsto> demo_vm], 1))
   \<and> (\<exists>vm. fst (StartVM (\<lambda>_. []) vm_store ''d'' ''vm'' ([(''d'', ''vm'') \<mapsto> demo_vm], 1)) = Inr (vm, True))"
  using vm_start_stop [OF vm_store_laws, where ns = "''d''" and name = "''vm''" and w = "([(''d'', ''vm'') \<mapsto> demo_vm], 1)" and acc = "\<lambda>_. []"]
  by (simp add: vm_eval)


section \<open>Matching\<close>

text \<open>The first data sources of a name win: a later one with the same key changes nothing.\<close>

lemma index_data_sources_keeps: "map_of results k = Some ds \<Longrightarrow> map_of (index_data_sources items results) k = Some ds"
proof (induction items arbitrary: results)
  case (Cons item items)
  have "map_of (AList.update (data_source_key item) (data_source_info item) results) k = Some ds"
    if "map_of results (data_source_key item) = None"
    using that Cons.prems by (auto simp: update_conv')
  then show ?case using Cons by simp
qed simp

lemma find_SomeD: "find P xs = Some x \<Longrightarrow> x \<in> set xs \<and> P x"
  by (auto simp: find_Some_iff)

lemma MatchDataSource_sound:
  assumes "MatchDataSource order1 order2 workload = Some ds" "set order1 = set order2"
  shows "ds \<in> set order1 \<and>
    (EqualFold (ds_Name ds) (ToLower (TrimSpace workload)) \<or> EqualFold (ds_Name ds) workload
      \<or> ds_Namespace ds \<noteq> [] \<and> Contains (ToLower (ds_Name ds)) (ToLower (TrimSpace workload))
        \<and> (\<forall>d \<in> set order1. \<not> EqualFold (ds_Name d) workload))"
proof (cases "find (\<lambda>ds. EqualFold (ds_Name ds) (ToLower (TrimSpace workload)) \<or> EqualFold (ds_Name ds) workload) order1")
  case (Some d)
  then have "d = ds" using assms(1) by (simp add: MatchDataSource_def)
  then show ?thesis using find_SomeD [OF Some] by blast
next
  case None
  then have "find (\<lambda>ds. ds_Namespace ds \<noteq> [] \<and> Contains (ToLower (ds_Name ds)) (ToLower (TrimSpace workload))) order2 = Some ds"
    using assms(1) by (simp add: MatchDataSource_def)
  then have "ds \<in> set order2" "ds_Namespace ds \<noteq> []" "Contains (ToLower (ds_Name ds)) (ToLower (TrimSpace workload))"
    using find_SomeD by fast+
  moreover have "\<forall>d \<in> set order1. \<not> EqualFold (ds_Name d) workload" using None by (simp add: find_None_iff)
  ultimately show ?thesis using assms(2) by blast
qed

text \<open>
  Which of several matches is found depends on the order of iteration: the same request for \<open>rhel\<close> gives
  one release or another.
\<close>

definition rhel_source :: "string \<Rightarrow> DataSourceInfo" where
  "rhel_source name = \<lparr>ds_Name = name, ds_Namespace = ''os-images'', ds_Source = [], ds_DefaultInstancetype = [], ds_DefaultPreference = []\<rparr>"

lemma MatchDataSource_ambiguous:
  "MatchDataSource [rhel_source ''rhel8'', rhel_source ''rhel9''] [rhel_source ''rhel8'', rhel_source ''rhel9''] ''rhel'' = Some (rhel_source ''rhel8'')"
  "MatchDataSource [rhel_source ''rhel8'', rhel_source ''rhel9''] [rhel_source ''rhel9'', rhel_source ''rhel8''] ''rhel'' = Some (rhel_source ''rhel9'')"
  by code_simp+

lemma MatchInstancetypeBySize_cases:
  fixes its size_hint performance
  defines "cands \<equiv> FilterInstancetypesBySize its (ToLower (TrimSpace size_hint))"
    and "fam \<equiv> \<lambda>it. HasPrefix (ToLower (ii_Name it)) (ToLower (TrimSpace performance) @ ''.'')"
  assumes "cands \<noteq> []"
  shows "\<exists>it \<in> set cands. MatchInstancetypeBySize its size_hint performance = ii_Name it \<and> ((\<exists>i \<in> set cands. fam i) \<longrightarrow> fam it)"
proof -
  obtain first rest where c: "cands = first # rest" using assms(3) by (cases cands) auto
  show ?thesis
  proof (cases "find fam cands")
    case (Some it)
    then have "it \<in> set cands" "fam it" by (auto simp: find_Some_iff)
    moreover have "MatchInstancetypeBySize its size_hint performance = ii_Name it"
      using Some c unfolding MatchInstancetypeBySize_def Let_def cands_def fam_def by simp
    ultimately show ?thesis by blast
  next
    case None
    then have nofam: "\<not> (\<exists>i \<in> set cands. fam i)" by (auto simp: find_None_iff)
    show ?thesis
    proof (cases "find (has_class (ToLower (TrimSpace performance))) cands")
      case (Some it)
      then have "it \<in> set cands" by (auto simp: find_Some_iff)
      moreover have "MatchInstancetypeBySize its size_hint performance = ii_Name it"
        using Some None c unfolding MatchInstancetypeBySize_def Let_def cands_def fam_def by simp
      ultimately show ?thesis using nofam by blast
    next
      case none: None
      have "MatchInstancetypeBySize its size_hint performance = ii_Name first"
        using none None c unfolding MatchInstancetypeBySize_def Let_def cands_def fam_def by simp
      then show ?thesis using nofam c by auto
    qed
  qed
qed

text \<open>Types of a size, and types of a performance family.\<close>

definition of_size :: "string \<Rightarrow> InstancetypeInfo \<Rightarrow> bool" where
  "of_size size_hint it \<longleftrightarrow> Contains (ToLower (ii_Name it)) (ToLower (TrimSpace size_hint))"

definition of_family :: "string \<Rightarrow> InstancetypeInfo \<Rightarrow> bool" where
  "of_family performance it \<longleftrightarrow> HasPrefix (ToLower (ii_Name it)) (ToLower (TrimSpace performance) @ ''.'')"

text \<open>
  Choosing an instance type. A type named by the caller is used, whatever else is given; without a size
  hint the default of the data source is used, if it has one; with a size hint the result is one of the cluster's
  types whose name contains the hint, and if types of the requested performance family have the size, it is
  one of these. No other type is ever chosen.
\<close>

theorem resolve_instancetype:
  assumes "ResolveInstancetype its explicit size_hint performance ds = Some it"
  shows "if explicit \<noteq> [] then ii_Name it = explicit
    else if size_hint = [] then \<exists>d. ds = Some d \<and> ds_DefaultInstancetype d \<noteq> [] \<and> ii_Name it = ds_DefaultInstancetype d
    else it \<in> set its \<and> of_size size_hint it \<and> (of_family performance it \<or> \<not> (\<exists>i \<in> set its. of_size size_hint i \<and> of_family performance i))"
proof -
  have named: "ii_Name (named_instancetype its name) = name" for name
  proof (cases "find (\<lambda>it. ii_Name it = name) its")
    case (Some i) then show ?thesis using find_SomeD [OF Some] by (simp add: named_instancetype_def)
  qed (simp add: named_instancetype_def)
  consider "explicit \<noteq> []" | "explicit = []" "size_hint = []" | "explicit = []" "size_hint \<noteq> []" by blast
  then show ?thesis
  proof cases
    case 1 then show ?thesis using assms named by (auto simp: ResolveInstancetype_def)
  next
    case 2 then show ?thesis using assms named by (auto simp: ResolveInstancetype_def split: option.splits if_splits)
  next
    case 3
    define name where "name = MatchInstancetypeBySize its size_hint performance"
    have f: "find (\<lambda>it. ii_Name it = name) its = Some it" "name \<noteq> []"
      using assms 3 by (auto simp: ResolveInstancetype_def name_def Let_def split: if_splits)
    have it: "it \<in> set its" "ii_Name it = name" using find_SomeD [OF f(1)] by auto
    have ne: "FilterInstancetypesBySize its (ToLower (TrimSpace size_hint)) \<noteq> []"
      using f(2) by (auto simp: name_def MatchInstancetypeBySize_def Let_def split: list.splits)
    obtain m where m: "m \<in> set its" "of_size size_hint m" "name = ii_Name m"
        "(\<exists>i \<in> set its. of_size size_hint i \<and> of_family performance i) \<longrightarrow> of_family performance m"
      using MatchInstancetypeBySize_cases [OF ne, of performance]
      by (auto simp: name_def FilterInstancetypesBySize_def of_size_def of_family_def)
    have "of_size size_hint it = of_size size_hint m" "of_family performance it = of_family performance m"
      using it m by (simp_all add: of_size_def of_family_def)
    then show ?thesis using 3 it m by auto
  qed
qed

theorem resolve_instancetype_witness:
  "ResolveInstancetype [\<lparr>ii_Name = ''u.s'', ii_Namespace = [], ii_Labels = None\<rparr>, \<lparr>ii_Name = ''c.s'', ii_Namespace = [], ii_Labels = None\<rparr>]
     [] ''S'' ''c'' None = Some \<lparr>ii_Name = ''c.s'', ii_Namespace = [], ii_Labels = None\<rparr>
   \<and> of_size ''S'' \<lparr>ii_Name = ''c.s'', ii_Namespace = [], ii_Labels = None\<rparr>"
proof -
  let ?its = "[\<lparr>ii_Name = ''u.s'', ii_Namespace = [], ii_Labels = None\<rparr>, \<lparr>ii_Name = ''c.s'', ii_Namespace = [], ii_Labels = None\<rparr>]"
  have t: "TrimSpace ''S'' = ''S''" "TrimSpace ''c'' = ''c''" "ToLower ''S'' = ''s''" "ToLower ''c'' = ''c''"
    "ToLower ''u.s'' = ''u.s''" "ToLower ''c.s'' = ''c.s''" by code_simp+
  have r: "ResolveInstancetype ?its [] ''S'' ''c'' None = Some \<lparr>ii_Name = ''c.s'', ii_Namespace = [], ii_Labels = None\<rparr>"
    by (simp add: ResolveInstancetype_def MatchInstancetypeBySize_def FilterInstancetypesBySize_def Let_def t)
  then show ?thesis using resolve_instancetype [OF r] by simp
qed

end
