(* ===== verification/Vm_Tools.thy ===== *)
theory Vm_Tools
  imports Kubevirt
begin

text \<open>
  The tools for virtual machines: \<open>src/pkg/toolsets/kubevirt/vm/\<close> (\<open>lifecycle\<close>, \<open>clone\<close>, \<open>create\<close>,
  \<open>template\<close>, \<open>guestagent\<close>). \<open>vm_create\<close> resolves its arguments against the cluster and applies a manifest
  it renders from a template.
\<close>

section \<open>Environment\<close>

text \<open>
  The YAML encoder and decoder, the text of accessor errors, the order in which the \<open>n\<close>-th loop over
  a map visits it, and the mappers of numbers. Handlers get their arguments and client as
  everywhere.
\<close>

record vm_env =
  ve_Out :: out_env
  ve_DecodeYaml :: "string \<Rightarrow> (string, json_object) result"
  ve_AccessErr :: "json_object \<Rightarrow> string"
  ve_Order :: "nat \<Rightarrow> (string \<times> DataSourceInfo) list \<Rightarrow> (string \<times> DataSourceInfo) list"

type_synonym 'w vm_params = "('w, 'w vm_client) ToolHandlerParams"
type_synonym 'w vm_handler = "vm_env \<Rightarrow> 'w vm_params \<Rightarrow> ('w, ToolCallResult) action"

definition newline :: string where "newline = [CHR 0x0A]"

definition quote1 :: "string \<Rightarrow> string" where
  "quote1 s = [CHR 0x27] @ s @ [CHR 0x27]"

definition yaml_result :: "vm_env \<Rightarrow> string \<Rightarrow> string \<Rightarrow> json \<Rightarrow> ToolCallResult" where
  "yaml_result env what message v = (case MarshalYaml_other (ve_Out env) v of
     Inl e \<Rightarrow> errorResult (''failed to marshal '' @ what @ '': '' @ e)
   | Inr txt \<Rightarrow> NewToolCallResult (message @ txt) None)"

text \<open>\<open>RequiredString\<close> for several arguments, stopping at the first error.\<close>

definition with_string ::
  "json_object \<Rightarrow> string \<Rightarrow> (string \<Rightarrow> ('w, ToolCallResult) action) \<Rightarrow> ('w, ToolCallResult) action" where
  "with_string args key f = fail_result (RequiredString args key) f"

section \<open>Lifecycle and clones\<close>

definition lifecycle_op ::
  "vm_env \<Rightarrow> 'w vm_client \<Rightarrow> string \<Rightarrow> string \<Rightarrow> string \<Rightarrow> ('w, json_object \<times> string) action" where
  "lifecycle_op env c act ns name =
     (let already = (\<lambda>state. ''# VirtualMachine '' @ quote1 name @ '' in namespace '' @ quote1 ns @ '' is already '' @ state @ newline) in
      if act = ''start'' then
        bindA (StartVM (ve_AccessErr env) c ns name) (\<lambda>(vm, wasStarted).
          retA (vm, if wasStarted then ''# VirtualMachine started successfully'' @ newline else already ''running''))
      else if act = ''stop'' then
        bindA (StopVM (ve_AccessErr env) c ns name) (\<lambda>(vm, wasRunning).
          retA (vm, if wasRunning then ''# VirtualMachine stopped successfully'' @ newline else already ''stopped''))
      else if act = ''restart'' then
        bindA (RestartVM c ns name) (\<lambda>vm. retA (vm, ''# VirtualMachine restarted successfully'' @ newline))
      else if act = ''pause'' then
        bindA (PauseVM c ns name) (\<lambda>vm. retA (vm, ''# VirtualMachine paused successfully'' @ newline))
      else if act = ''unpause'' then
        bindA (UnpauseVM c ns name) (\<lambda>vm. retA (vm, ''# VirtualMachine unpaused successfully'' @ newline))
      else failA (''invalid action '' @ quote1 act @ '': must be one of ''
             @ Join '', '' (map quote1 [''start'', ''stop'', ''restart'', ''pause'', ''unpause''])))"

definition lifecycle :: "'w vm_handler" where
  "lifecycle env params =
     with_string (hp_Arguments params) ''namespace'' (\<lambda>ns.
     with_string (hp_Arguments params) ''name'' (\<lambda>name.
     with_string (hp_Arguments params) ''action'' (\<lambda>act.
       run_op [] (lifecycle_op env (hp_KubernetesClient params) act ns name)
         (\<lambda>(vm, message). yaml_result env ''VirtualMachine'' message (JArr [JObj vm])))))"

definition cloneVM :: "'w vm_handler" where
  "cloneVM env params =
     with_string (hp_Arguments params) ''namespace'' (\<lambda>ns.
     with_string (hp_Arguments params) ''name'' (\<lambda>name.
     with_string (hp_Arguments params) ''targetName'' (\<lambda>targetName.
       run_op [] (CloneVM (hp_KubernetesClient params) ns name targetName)
         (\<lambda>result. yaml_result env ''VirtualMachineClone'' (''# VirtualMachineClone created successfully'' @ newline) (JArr [JObj result])))))"

section \<open>Guest information\<close>

definition validateVMI :: "'w vm_client \<Rightarrow> string \<Rightarrow> string \<Rightarrow> ('w, unit) action" where
  "validateVMI c ns name =
     bindA (wrapA ''VirtualMachineInstance not found - VM may not be running: '' (kc_Get (vc_Client c) VirtualMachineInstanceGVR ns name [])) (\<lambda>vmi.
       let phase = NestedString [''status'', ''phase''] vmi in
       if phase = NFound ''Running'' then retA ()
       else failA (''VirtualMachineInstance is not running (phase: '' @ found_or [] phase @ '') - guest agent requires VM to be running''))"

definition fetchGuestInfo :: "'w vm_client \<Rightarrow> string \<Rightarrow> string \<Rightarrow> string \<Rightarrow> ('w, json_object) action" where
  "fetchGuestInfo c ns name infoType =
     (if infoType = ''os'' then GetGuestOSInfo c ns name
      else if infoType = ''filesystem'' then GetFilesystemInfo c ns name
      else if infoType = ''users'' then GetUserInfo c ns name
      else if infoType = ''network'' then GetNetworkInfo c ns name
      else if infoType = ''all'' then GetAllGuestInfo c ns name
      else failA (''invalid info_type '' @ quote1 infoType @ '': must be one of ''
             @ Join '', '' (map quote1 [''all'', ''os'', ''filesystem'', ''users'', ''network''])))"

definition formatGuestInfoOutput :: "vm_env \<Rightarrow> string \<Rightarrow> string \<Rightarrow> string \<Rightarrow> json_object \<Rightarrow> (string, string) result" where
  "formatGuestInfoOutput env ns name infoType result =
     (case MarshalYaml_other (ve_Out env) (JObj result) of
        Inl e \<Rightarrow> Inl (''failed to marshal guest agent info: '' @ e)
      | Inr txt \<Rightarrow> Inr (''# Guest Agent Information for VM: '' @ ns @ ''/'' @ name @ newline @ newline
          @ (if infoType \<noteq> ''all'' then ''**Info Type:** '' @ infoType @ newline @ newline else []) @ txt))"

definition guestInfo :: "'w vm_handler" where
  "guestInfo env params =
     (let args = hp_Arguments params; c = hp_KubernetesClient params in
      with_string args ''namespace'' (\<lambda>ns.
      with_string args ''name'' (\<lambda>name.
      fail_result (case arg args ''info_type'' of JNull \<Rightarrow> Inr ''all'' | JStr s \<Rightarrow> Inr s | _ \<Rightarrow> Inl ''info_type parameter must be a string'') (\<lambda>infoType.
      run_op [] (bindA (validateVMI c ns name) (\<lambda>_.
                 bindA (fetchGuestInfo c ns name infoType) (\<lambda>result.
                 liftA (formatGuestInfoOutput env ns name infoType result))))
        (\<lambda>out. NewToolCallResult out None)))))"

section \<open>Templates\<close>

text \<open>
  The parameters of a template. Go visits the map in some order, here that of the list, and
  reports the first value that is not a string; what is not an object does not decode to a map of strings.
\<close>

fun string_values :: "json_object \<Rightarrow> (string, (string \<times> string) list) result" where
  "string_values [] = Inr []"
| "string_values ((key, v) # m) = (case v of
     JStr s \<Rightarrow> bindE (string_values m) (\<lambda>r. Inr ((key, s) # r))
   | _ \<Rightarrow> Inl (''parameter '' @ Quote key @ '' value must be a string, got '' @ go_type v))"

definition extractParameters :: "json_object \<Rightarrow> (string, (string \<times> string) list) result" where
  "extractParameters args = (case arg args ''parameters'' of
     JNull \<Rightarrow> Inr []
   | JObj m \<Rightarrow> string_values m
   | _ \<Rightarrow> Inl ''parameters must be an object mapping parameter names to string values'')"

definition createFromTemplate :: "'w vm_handler" where
  "createFromTemplate env params =
     (let p = WrapParams (hp_Arguments params);
          (ns, p1) = Params_RequiredString ''namespace'' p;
          (templateName, p2) = Params_RequiredString ''template_name'' p1
      in check_params [] p2
           (fail_result (extractParameters (hp_Arguments params)) (\<lambda>templateParams.
            run_op [] (CreateVMFromTemplate (hp_KubernetesClient params) ns templateName templateParams)
              (\<lambda>result. yaml_result env ''created VirtualMachine'' (''# VirtualMachine created from template successfully'' @ newline) (JObj result)))))"

section \<open>Creating virtual machines\<close>

record NetworkConfig =
  nc_Name :: string
  nc_NetworkName :: string

record vmParams =
  vp_Namespace :: string
  vp_Name :: string
  vp_ContainerDisk :: string
  vp_Instancetype :: string
  vp_InstancetypeKind :: string
  vp_Preference :: string
  vp_PreferenceKind :: string
  vp_UseDataSource :: bool
  vp_DataSourceName :: string
  vp_DataSourceNamespace :: string
  vp_Storage :: string
  vp_RunStrategy :: string
  vp_Networks :: "NetworkConfig list"

record createParameters =
  cr_Namespace :: string
  cr_Name :: string
  cr_Workload :: string
  cr_Instancetype :: string
  cr_Preference :: string
  cr_Size :: string
  cr_Performance :: string
  cr_Storage :: string
  cr_Autostart :: bool
  cr_Networks :: "NetworkConfig list"

definition performanceMap :: "(string \<times> string) list" where
  "performanceMap =
     [(''general-purpose'', ''u1''), (''generalpurpose'', ''u1''), (''general'', ''u1''), (''overcommitted'', ''o1''),
      (''compute'', ''c1''), (''compute-optimized'', ''c1''), (''computeoptimized'', ''c1''), (''memory-optimized'', ''m1''),
      (''memoryoptimized'', ''m1''), (''memory'', ''m1''), (''u1'', ''u1''), (''o1'', ''o1''), (''c1'', ''c1''), (''m1'', ''m1'')]"

definition normalizePerformance :: "string \<Rightarrow> string" where
  "normalizePerformance performance =
     (case map_of performanceMap (ToLower (TrimSpace performance)) of Some prefix \<Rightarrow> prefix | None \<Rightarrow> ''u1'')"

definition osMap :: "(string \<times> string) list" where
  "osMap =
     [(''fedora'', ''quay.io/containerdisks/fedora:latest''), (''ubuntu'', ''quay.io/containerdisks/ubuntu:24.04''),
      (''centos'', ''quay.io/containerdisks/centos-stream:9-latest''), (''centos-stream'', ''quay.io/containerdisks/centos-stream:9-latest''),
      (''debian'', ''quay.io/containerdisks/debian:latest''), (''opensuse'', ''quay.io/containerdisks/opensuse-tumbleweed:1.0.0''),
      (''opensuse-tumbleweed'', ''quay.io/containerdisks/opensuse-tumbleweed:1.0.0''),
      (''opensuse-leap'', ''quay.io/containerdisks/opensuse-leap:15.6''), (''rhel8'', ''registry.redhat.io/rhel8/rhel-guest-image:latest''),
      (''rhel9'', ''registry.redhat.io/rhel9/rhel-guest-image:latest''), (''rhel10'', ''registry.redhat.io/rhel10/rhel-guest-image:latest'')]"

definition resolveContainerDisk :: "string \<Rightarrow> string" where
  "resolveContainerDisk input =
     (if Contains input ''/'' \<or> Contains input '':'' then input
      else (case map_of osMap (ToLower (TrimSpace input)) of Some containerDisk \<Rightarrow> containerDisk | None \<Rightarrow> input))"

definition optionalArray :: "json_object \<Rightarrow> string \<Rightarrow> json list" where
  "optionalArray args key = (case map_of args key of Some (JArr a) \<Rightarrow> a | _ \<Rightarrow> [])"

fun parseNetworks :: "nat \<Rightarrow> json list \<Rightarrow> (string, NetworkConfig list) result" where
  "parseNetworks i [] = Inr []"
| "parseNetworks i (JStr v # items) =
     (if v = [] then parseNetworks (Suc i) items
      else bindE (parseNetworks (Suc i) items) (\<lambda>networks. Inr (\<lparr>nc_Name = v, nc_NetworkName = v\<rparr> # networks)))"
| "parseNetworks i (JObj v # items) =
     (let networkName = string_at ''networkName'' v; name = string_at ''name'' v in
      if networkName = [] then Inl (''network at index '' @ digits i @ '' missing required '' @ quote1 ''networkName'' @ '' field'')
      else bindE (parseNetworks (Suc i) items) (\<lambda>networks.
             Inr (\<lparr>nc_Name = (if name = [] then networkName else name), nc_NetworkName = networkName\<rparr> # networks)))"
| "parseNetworks i (_ # items) = Inl (''network at index '' @ digits i @ '' has invalid type: expected string or object'')"

definition parseCreateParameters :: "json_object \<Rightarrow> (string, createParameters) result" where
  "parseCreateParameters args =
     (let p = WrapParams args;
          (ns, p1) = Params_RequiredString ''namespace'' p;
          (name, p2) = Params_RequiredString ''name'' p1;
          (workload, p3) = Params_OptionalString ''workload'' ''fedora'' p2;
          (instancetype, p4) = Params_OptionalString ''instancetype'' [] p3;
          (preference, p5) = Params_OptionalString ''preference'' [] p4;
          (size_hint, p6) = Params_OptionalString ''size'' [] p5;
          (performance, p7) = Params_OptionalString ''performance'' [] p6;
          (storage, p8) = Params_OptionalString ''storage'' ''30Gi'' p7;
          (autostart, p9) = Params_OptionalBool ''autostart'' False p8
      in case Params_Err p9 of
           Some err \<Rightarrow> Inl err
         | None \<Rightarrow>
             bindE (mapErr (\<lambda>e. ''invalid networks parameter: '' @ e) (parseNetworks 0 (optionalArray args ''networks''))) (\<lambda>networks.
               Inr \<lparr>cr_Namespace = ns, cr_Name = name, cr_Workload = workload, cr_Instancetype = instancetype, cr_Preference = preference,
                    cr_Size = size_hint, cr_Performance = normalizePerformance performance, cr_Storage = storage, cr_Autostart = autostart,
                    cr_Networks = networks\<rparr>))"

definition buildTemplateParams ::
  "createParameters \<Rightarrow> DataSourceInfo option \<Rightarrow> InstancetypeInfo option \<Rightarrow> PreferenceInfo option \<Rightarrow> vmParams" where
  "buildTemplateParams cp matchedDataSource instancetypeInfo preferenceInfo =
     (let real = (case matchedDataSource of Some ds \<Rightarrow> ds_Namespace ds \<noteq> [] | None \<Rightarrow> False) in
      \<lparr>vp_Namespace = cr_Namespace cp, vp_Name = cr_Name cp,
       vp_ContainerDisk = (if real then [] else (case matchedDataSource of Some ds \<Rightarrow> ds_Source ds | None \<Rightarrow> resolveContainerDisk (cr_Workload cp))),
       vp_Instancetype = (case instancetypeInfo of None \<Rightarrow> [] | Some it \<Rightarrow> ii_Name it),
       vp_InstancetypeKind = (case instancetypeInfo of None \<Rightarrow> []
         | Some it \<Rightarrow> (if ii_Namespace it = [] then ''VirtualMachineClusterInstancetype'' else ''VirtualMachineInstancetype'')),
       vp_Preference = (case preferenceInfo of None \<Rightarrow> [] | Some p \<Rightarrow> pi_Name p),
       vp_PreferenceKind = (case preferenceInfo of None \<Rightarrow> []
         | Some p \<Rightarrow> (if pi_Namespace p = [] then ''VirtualMachineClusterPreference'' else ''VirtualMachinePreference'')),
       vp_UseDataSource = real,
       vp_DataSourceName = (if real then ds_Name (the matchedDataSource) else []),
       vp_DataSourceNamespace = (if real then ds_Namespace (the matchedDataSource) else []),
       vp_Storage = cr_Storage cp, vp_RunStrategy = (if cr_Autostart cp then ''Always'' else ''Halted''), vp_Networks = cr_Networks cp\<rparr>)"

text \<open>
  The template \<open>vm.yaml.tmpl\<close>, line by line: the markers of the template engine remove the line breaks
  around them, and values are inserted as they are. The last line ends with a line break.
\<close>

definition vm_lines :: "vmParams \<Rightarrow> string list" where
  "vm_lines p =
     [''apiVersion: kubevirt.io/v1'', ''kind: VirtualMachine'', ''metadata:'', ''  name: '' @ vp_Name p, ''  namespace: '' @ vp_Namespace p,
      ''spec:'', ''  runStrategy: '' @ vp_RunStrategy p]
     @ (if vp_Instancetype p \<noteq> [] then [''  instancetype:'', ''    name: '' @ vp_Instancetype p, ''    kind: '' @ vp_InstancetypeKind p] else [])
     @ (if vp_Preference p \<noteq> [] then [''  preference:'', ''    name: '' @ vp_Preference p, ''    kind: '' @ vp_PreferenceKind p] else [])
     @ (if vp_UseDataSource p then
          [''  dataVolumeTemplates:'', ''  - metadata:'', ''      name: '' @ vp_Name p @ ''-rootdisk'', ''    spec:'', ''      sourceRef:'',
           ''        kind: DataSource'', ''        name: '' @ vp_DataSourceName p, ''        namespace: '' @ vp_DataSourceNamespace p,
           ''      storage:'', ''        resources:'', ''          requests:'', ''            storage: '' @ vp_Storage p]
        else [])
     @ [''  template:'', ''    spec:'', ''      domain:'', ''        devices:'', ''          disks:'', ''          - name: '' @ vp_Name p @ ''-rootdisk'']
     @ (if vp_Networks p \<noteq> [] then
          ''          interfaces:'' # concat (map (\<lambda>n. [''          - name: '' @ nc_Name n, ''            bridge: {}'']) (vp_Networks p))
        else [])
     @ (if vp_Instancetype p = [] then [''        memory:'', ''          guest: 2Gi''] else [])
     @ (if vp_Networks p \<noteq> [] then
          ''      networks:'' # concat (map (\<lambda>n. [''      - name: '' @ nc_Name n, ''        multus:'', ''          networkName: '' @ nc_NetworkName n])
            (vp_Networks p))
        else [])
     @ [''      volumes:'', ''      - name: '' @ vp_Name p @ ''-rootdisk'']
     @ (if vp_UseDataSource p then [''        dataVolume:'', ''          name: '' @ vp_Name p @ ''-rootdisk'']
        else [''        containerDisk:'', ''          image: '' @ vp_ContainerDisk p])"

definition renderVMYaml :: "vmParams \<Rightarrow> string" where
  "renderVMYaml p = Join newline (vm_lines p) @ newline"

definition create_vm :: "'w vm_handler" where
  "create_vm env params =
     (let c = hp_KubernetesClient params in
      fail_result (parseCreateParameters (hp_Arguments params)) (\<lambda>cp.
      run_op ''failed to create VirtualMachine: ''
        (bindA (SearchDataSources c) (\<lambda>dataSources.
         let matchedDataSource = MatchDataSource (map snd (ve_Order env 0 dataSources)) (map snd (ve_Order env 1 dataSources)) (cr_Workload cp) in
         bindA (SearchPreferences c (cr_Namespace cp)) (\<lambda>preferences.
         bindA (SearchInstancetypes c (cr_Namespace cp)) (\<lambda>instancetypes.
         let preferenceInfo = ResolvePreference preferences (cr_Preference cp) (cr_Workload cp) matchedDataSource;
             instancetypeInfo = ResolveInstancetype instancetypes (cr_Instancetype cp) (cr_Size cp) (cr_Performance cp) matchedDataSource
         in ResourcesCreateOrUpdate (ve_DecodeYaml env) (vc_Client c)
              (renderVMYaml (buildTemplateParams cp matchedDataSource instancetypeInfo preferenceInfo))))))
        (\<lambda>resources. yaml_result env ''created VirtualMachine'' (''# VirtualMachine created successfully'' @ newline) (JArr (map JObj resources)))))"

section \<open>Documents of a manifest\<close>

definition doc_marker :: string where "doc_marker = CHR 0x0A # ''---''"

lemma Contains_append_left: "Contains s p \<Longrightarrow> Contains (a @ s) p"
  by (metis Contains_iff append.assoc)

lemma separator_rest_marker: "separator_rest s = Some rest \<Longrightarrow> Contains s doc_marker"
proof -
  assume "separator_rest s = Some rest"
  then have "HasPrefix (strip_cr s) doc_marker" by (auto simp: separator_rest_def Let_def doc_marker_def split: if_splits)
  then have "Contains (strip_cr s) doc_marker" by (auto simp: HasPrefix_iff Contains_iff intro: exI [of _ "[]"])
  moreover have "\<exists>a. s = a @ strip_cr s"
  proof (cases s)
    case (Cons c t)
    then show ?thesis by (cases "c = CHR 0x0D") (simp_all add: exI [of _ "[c]"])
  qed simp
  ultimately show "Contains s doc_marker" by (metis Contains_append_left)
qed

lemma split_documents_single: "\<not> Contains s doc_marker \<Longrightarrow> split_documents acc s = [rev acc @ s]"
proof (induction s arbitrary: acc)
  case Nil
  then show ?case by (subst split_documents.simps) (simp add: separator_rest_def)
next
  case (Cons c s)
  then have "separator_rest (c # s) = None" using separator_rest_marker by (metis not_None_eq)
  moreover have "\<not> Contains s doc_marker" using Cons.prems by simp
  ultimately show ?case using Cons.IH [of "c # acc"] by (subst split_documents.simps) simp
qed

lemma split_documents_some: "split_documents acc s \<noteq> []"
proof (induction s arbitrary: acc)
  case Nil then show ?case by (subst split_documents.simps) (simp split: option.split)
next
  case (Cons c s) then show ?case by (subst split_documents.simps) (simp split: option.split)
qed

lemma split_documents_several: "Contains s (doc_marker @ newline) \<Longrightarrow> 2 \<le> length (split_documents acc s)"
proof (induction s arbitrary: acc)
  case Nil then show ?case by (simp add: doc_marker_def)
next
  case (Cons c s)
  show ?case
  proof (cases "separator_rest (c # s)")
    case (Some rest)
    have "split_documents [] rest \<noteq> []" by (rule split_documents_some)
    then show ?thesis using Some by (subst split_documents.simps) (cases "split_documents [] rest"; simp)
  next
    case None
    have "\<not> HasPrefix (c # s) (doc_marker @ newline)"
    proof
      assume "HasPrefix (c # s) (doc_marker @ newline)"
      then obtain t where "c # s = doc_marker @ newline @ t" by (auto simp: HasPrefix_iff)
      then have "separator_rest (c # s) \<noteq> None" by (simp add: separator_rest_def doc_marker_def newline_def)
      then show False using None by simp
    qed
    then have "Contains s (doc_marker @ newline)" using Cons.prems by simp
    then show ?thesis using None Cons.IH [of "c # acc"] by (subst split_documents.simps) simp
  qed
qed

lemma Split_prefix: "c \<notin> set p \<Longrightarrow> \<exists>l ls. Split c (p @ b) = (p @ l) # ls"
proof (induction p)
  case Nil then show ?case by (cases "Split c b") simp_all
qed auto

lemma lines_no_marker:
  assumes "\<forall>l \<in> set ls. CHR 0x0A \<notin> set l \<and> \<not> HasPrefix l ''---''"
  shows "\<not> Contains (Join newline ls @ newline) doc_marker"
proof
  assume "Contains (Join newline ls @ newline) doc_marker"
  then obtain a b where e: "Join newline ls @ newline = a @ CHR 0x0A # (''---'' @ b)" by (auto simp: Contains_iff doc_marker_def)
  have "Join newline ls @ newline = Join newline (ls @ [[]])" if "ls \<noteq> []"
    using that by (induction ls rule: induct_list012) (simp_all add: newline_def)
  moreover have "Split (CHR 0x0A) (Join newline (ls @ [[]])) = ls @ [[]]"
    unfolding newline_def using assms by (intro Split_Join) auto
  moreover obtain l xs where "Split (CHR 0x0A) (''---'' @ b) = (''---'' @ l) # xs"
    using Split_prefix [of "CHR 0x0A" "''---''" b] by auto
  ultimately have "ls \<noteq> [] \<Longrightarrow> ''---'' @ l \<in> set (ls @ [[]])"
    using Split_append [of "CHR 0x0A" a "''---'' @ b"] unfolding e by (metis append_is_Nil_conv in_set_conv_decomp)
  then show False using assms e by (cases "ls = []") (auto simp: newline_def append_eq_Cons_conv)
qed

definition one_line :: "string \<Rightarrow> bool" where
  "one_line s \<longleftrightarrow> CHR 0x0A \<notin> set s"

definition vm_one_line :: "vmParams \<Rightarrow> bool" where
  "vm_one_line p \<longleftrightarrow>
     list_all one_line [vp_Name p, vp_Namespace p, vp_RunStrategy p, vp_Instancetype p, vp_InstancetypeKind p, vp_Preference p,
       vp_PreferenceKind p, vp_DataSourceName p, vp_DataSourceNamespace p, vp_Storage p, vp_ContainerDisk p]
   \<and> list_all (\<lambda>n. one_line (nc_Name n) \<and> one_line (nc_NetworkName n)) (vp_Networks p)"

lemma vm_lines_ok: "vm_one_line p \<Longrightarrow> l \<in> set (vm_lines p) \<Longrightarrow> CHR 0x0A \<notin> set l \<and> \<not> HasPrefix l ''---''"
  by (auto simp: vm_one_line_def one_line_def vm_lines_def list_all_iff split: if_splits)

text \<open>
  \<open>vm_create\<close> sends one document. If none of the values it inserts contains a line break, the
  manifest rendered for a virtual machine is a single YAML document, so that exactly one object is
  parsed and applied.
\<close>

theorem vm_manifest_single:
  assumes "vm_one_line p"
  shows "split_documents [] (renderVMYaml p) = [renderVMYaml p]"
proof -
  have "\<not> Contains (renderVMYaml p) doc_marker"
    unfolding renderVMYaml_def using vm_lines_ok [OF assms] by (intro lines_no_marker) blast
  then show ?thesis using split_documents_single [of "renderVMYaml p" "[]"] by simp
qed

definition demo_vm_params :: "string \<Rightarrow> vmParams" where
  "demo_vm_params ns = \<lparr>vp_Namespace = ns, vp_Name = ''vm'', vp_ContainerDisk = ''disk'', vp_Instancetype = [], vp_InstancetypeKind = [],
     vp_Preference = [], vp_PreferenceKind = [], vp_UseDataSource = False, vp_DataSourceName = [], vp_DataSourceNamespace = [],
     vp_Storage = ''30Gi'', vp_RunStrategy = ''Halted'', vp_Networks = []\<rparr>"

theorem vm_manifest_single_witness:
  "vm_one_line (demo_vm_params ''default'')
   \<and> split_documents [] (renderVMYaml (demo_vm_params ''default'')) = [renderVMYaml (demo_vm_params ''default'')]"
proof -
  have "vm_one_line (demo_vm_params ''default'')" by (simp add: vm_one_line_def one_line_def demo_vm_params_def)
  then show ?thesis using vm_manifest_single by blast
qed

text \<open>
  The handler does not check this: a namespace with a separator line in it adds documents of the caller's choice
  to the manifest, and each is applied.
\<close>

lemma Join_contains_line: "l \<in> set ls \<Longrightarrow> Contains l m \<Longrightarrow> Contains (Join sep ls) m"
proof (induction sep ls rule: Join.induct)
  case (3 sep x y zs)
  then show ?case
  proof (cases "l = x")
    case True
    then show ?thesis using 3(3) by (auto simp: Contains_iff) (metis append.assoc)
  next
    case False
    then have "Contains (Join sep (y # zs)) m" using 3 by simp
    then show ?thesis using Contains_append_left [of "Join sep (y # zs)" m "x @ sep"] by simp
  qed
qed auto

lemma vm_manifest_injection:
  "2 \<le> length (split_documents [] (renderVMYaml (demo_vm_params (''d'' @ doc_marker @ newline @ ''kind: Secret''))))"
proof (rule split_documents_several)
  let ?p = "demo_vm_params (''d'' @ doc_marker @ newline @ ''kind: Secret'')"
  have "Contains (''  namespace: '' @ vp_Namespace ?p) (doc_marker @ newline)"
    unfolding Contains_iff by (rule exI [of _ "''  namespace: d''"], rule exI [of _ "''kind: Secret''"]) (simp add: demo_vm_params_def)
  then have "Contains (Join newline (vm_lines ?p)) (doc_marker @ newline)"
    by (rule Join_contains_line [rotated]) (simp add: vm_lines_def)
  then show "Contains (renderVMYaml ?p) (doc_marker @ newline)"
    unfolding renderVMYaml_def Contains_iff by (metis append.assoc)
qed

text \<open>\<open>rhel\<close>, which the tool names as a workload, has no container disk: it stays as it is.\<close>

lemma rhel_has_no_disk: "resolveContainerDisk ''rhel'' = ''rhel''"
  by code_simp

end
