(* ===== verification/Redaction.thy ===== *)
theory Redaction
  imports Vm_Tools
begin

text \<open>
  Text in the report on a virtual machine (\<open>src/pkg/toolsets/kubevirt/vm/troubleshoot/\<close>): commands in
  cloud-init data that shut a guest down (\<open>analysis.go\<close>), and the removal of secrets from cloud-init
  data and logs (\<open>tool.go\<close>). Case is that of ASCII letters.
\<close>

section \<open>Text\<close>

text \<open>\<open>strings.Trim\<close> with a set of characters, and \<open>strings.SplitN(s, c, 2)\<close>.\<close>

definition TrimSet :: "string \<Rightarrow> string \<Rightarrow> string" where
  "TrimSet cutset s = rev (dropWhile (\<lambda>c. c \<in> set cutset) (rev (dropWhile (\<lambda>c. c \<in> set cutset) s)))"

definition before :: "char \<Rightarrow> string \<Rightarrow> string" where
  "before c s = takeWhile (\<lambda>x. x \<noteq> c) s"

definition after :: "char \<Rightarrow> string \<Rightarrow> string" where
  "after c s = drop 1 (dropWhile (\<lambda>x. x \<noteq> c) s)"

definition dquote :: string where "dquote = [CHR 0x22]"
definition squote :: string where "squote = [CHR 0x27]"

definition lines_of :: "string \<Rightarrow> string list" where
  "lines_of s = Split (CHR 0x0A) s"

section \<open>Dangerous commands\<close>

definition isEchoOrPrintLine :: "string \<Rightarrow> bool" where
  "isEchoOrPrintLine line =
     (let lower = ToLower line in
      list_ex (\<lambda>p. HasPrefix lower p \<or> HasPrefix (TrimPrefix lower ''- '') p)
        [''echo '', ''echo'' @ squote, ''echo'' @ dquote, ''printf '', ''- echo '', ''- printf ''])"

definition isConfigKeyLine :: "string \<Rightarrow> bool" where
  "isConfigKeyLine line =
     (let lower = ToLower line in
      Contains lower '':'' \<and> \<not> HasPrefix lower ''-'' \<and> \<not> HasPrefix lower ''[''
      \<and> (let key = TrimSpace (before (CHR '':'') lower) in key \<noteq> [] \<and> \<not> Contains key '' ''))"

definition array_elements :: "string \<Rightarrow> string list" where
  "array_elements line = Split (CHR '','') (before (CHR '']'') (after (CHR ''['') line))"

definition extractFirstArrayElement :: "string \<Rightarrow> string" where
  "extractFirstArrayElement line =
     (if Contains line ''['' then ToLower (TrimSet (dquote @ squote @ '' '') (TrimSpace (hd (array_elements line)))) else [])"

definition array_command :: "string \<Rightarrow> string" where
  "array_command lower =
     (let firstElem = extractFirstArrayElement lower in
      if firstElem = ''shutdown'' then ''shutdown''
      else if firstElem = ''poweroff'' \<or> firstElem = ''/sbin/poweroff'' then ''poweroff''
      else if firstElem = ''halt'' \<or> firstElem = ''/sbin/halt'' then ''halt''
      else if firstElem = ''reboot'' \<or> firstElem = ''/sbin/reboot'' then ''reboot''
      else if firstElem = ''systemctl'' \<and> length (array_elements lower) \<ge> 2 then
        (let subCmd = TrimSet (dquote @ squote @ '' '') (TrimSpace (array_elements lower ! 1)) in
         if subCmd \<in> {''poweroff'', ''halt'', ''reboot''} then subCmd else [])
      else [])"

definition matchDangerousCommand :: "string \<Rightarrow> string" where
  "matchDangerousCommand line =
     (let lower = ToLower (TrimSpace line);
          stripped = TrimSet (''[]'' @ dquote @ squote @ '' '') (TrimPrefix lower ''- '')
      in if HasPrefix stripped ''shutdown -r'' \<or> HasPrefix stripped ''/sbin/shutdown -r'' then ''reboot''
         else if stripped = ''shutdown'' \<or> stripped = ''shutdown -h now'' \<or> stripped = ''/sbin/shutdown'' \<or> HasPrefix stripped ''/sbin/shutdown ''
           \<or> HasPrefix stripped ''shutdown -h'' \<or> HasPrefix stripped ''shutdown -P'' \<or> HasPrefix stripped ''shutdown -p'' then ''shutdown''
         else if stripped \<in> {''poweroff'', ''/sbin/poweroff'', ''systemctl poweroff''} then ''poweroff''
         else if stripped \<in> {''halt'', ''/sbin/halt'', ''systemctl halt''} then ''halt''
         else if stripped \<in> {''reboot'', ''/sbin/reboot'', ''systemctl reboot''} then ''reboot''
         else if stripped \<in> {''init 0'', ''/sbin/init 0''} then ''init 0''
         else if stripped \<in> {''init 6'', ''/sbin/init 6''} then ''init 6''
         else if Contains lower ''['' then array_command lower
         else [])"

fun dangerous_lines :: "string list \<Rightarrow> string list \<Rightarrow> string list" where
  "dangerous_lines seen [] = []"
| "dangerous_lines seen (line # lines) =
     (let trimmed = TrimSpace line; cmd = matchDangerousCommand trimmed in
      if HasPrefix trimmed ''#'' \<or> isEchoOrPrintLine trimmed \<or> isConfigKeyLine trimmed \<or> cmd = [] \<or> cmd \<in> set seen
      then dangerous_lines seen lines
      else cmd # dangerous_lines (cmd # seen) lines)"

definition detectDangerousCloudInitCommands :: "string \<Rightarrow> string list" where
  "detectDangerousCloudInitCommands userData = dangerous_lines [] (lines_of userData)"

section \<open>Redaction\<close>

definition sensitiveYAMLKeys :: "string list" where
  "sensitiveYAMLKeys =
     [''password'', ''passwd'', ''plain_text_passwd'', ''hashed_passwd'', ''ssh_authorized_keys'', ''ssh_keys'', ''ca-cert'', ''client-cert'',
      ''client-key'', ''token'', ''chpasswd'', ''write_files'', ''rsa_private'', ''rsa_public'', ''dsa_private'', ''dsa_public'',
      ''ecdsa_private'', ''ecdsa_public'', ''ed25519_private'', ''ed25519_public'']"

definition sensitiveLinePatterns :: "string list" where
  "sensitiveLinePatterns =
     [''ssh-rsa '', ''ssh-ed25519 '', ''ecdsa-sha2-'', ''ssh-dss '', ''sk-ssh-ed25519@openssh.com '', ''sk-ecdsa-sha2-'', ''-----begin'']"

definition isSensitiveKeyLine :: "string \<Rightarrow> bool" where
  "isSensitiveKeyLine trimmed \<longleftrightarrow> list_ex (\<lambda>key. HasPrefix (ToLower trimmed) (key @ '':'')) sensitiveYAMLKeys"

definition isSensitiveValueLine :: "string \<Rightarrow> bool" where
  "isSensitiveValueLine trimmed \<longleftrightarrow> list_ex (Contains (ToLower trimmed)) sensitiveLinePatterns"

definition leadingSpaces :: "string \<Rightarrow> nat" where
  "leadingSpaces s = length (takeWhile (\<lambda>c. c = CHR '' '' \<or> c = CHR 0x09) s)"

definition isBlockScalarIndicator :: "string \<Rightarrow> bool" where
  "isBlockScalarIndicator s = (case s of
     [] \<Rightarrow> False
   | c # rest \<Rightarrow> (c = CHR ''|'' \<or> c = CHR ''>'') \<and> list_all (\<lambda>x. x \<in> set ''+-0123456789'') rest)"

definition spaces :: "nat \<Rightarrow> string" where
  "spaces n = replicate n (CHR '' '')"

text \<open>The loop over the lines; the first argument is the indentation below which everything is dropped, if any.\<close>

fun redact_lines :: "nat option \<Rightarrow> string list \<Rightarrow> string list" where
  "redact_lines redactIndent [] = []"
| "redact_lines redactIndent (line # lines) =
     (let trimmed = TrimSpace line; indent = leadingSpaces line in
      if (case redactIndent of None \<Rightarrow> False | Some n \<Rightarrow> trimmed = [] \<or> indent > n) then redact_lines redactIndent lines
      else if isSensitiveKeyLine trimmed then
        (let valuePart = TrimSpace (after (CHR '':'') trimmed) in
         (spaces indent @ before (CHR '':'') trimmed @ '': <REDACTED>'')
           # redact_lines (if valuePart = [] \<or> isBlockScalarIndicator valuePart then Some indent else None) lines)
      else if isSensitiveValueLine trimmed then (spaces indent @ ''<REDACTED>'') # redact_lines None lines
      else line # redact_lines None lines)"

definition redactCloudInitSensitiveFields :: "string \<Rightarrow> string" where
  "redactCloudInitSensitiveFields userData = Join newline (redact_lines None (lines_of userData))"

definition logSecretPatterns :: "string list" where
  "logSecretPatterns =
     [''bearer '', ''authorization:'', ''authorization='', ''-u '', ''--user '', ''-----begin'', ''ssh-rsa '', ''ssh-ed25519 '', ''ssh-dss '',
      ''password='', ''passwd='', ''token='']"

definition redact_log_line :: "string \<Rightarrow> string" where
  "redact_log_line line =
     (let lower = ToLower line in
      case find (Contains lower) logSecretPatterns of
        None \<Rightarrow> line
      | Some pat \<Rightarrow> (case Index lower pat of Some idx \<Rightarrow> take (idx + length pat) line @ ''<REDACTED>'' | None \<Rightarrow> line))"

definition redactLogSecrets :: "string \<Rightarrow> string" where
  "redactLogSecrets logs = Join newline (map redact_log_line (lines_of logs))"

text \<open>\<open>base64.StdEncoding\<close>: groups of four, the last one padded; line breaks are ignored.\<close>

definition b64_value :: "char \<Rightarrow> nat option" where
  "b64_value c = map_option fst (find (\<lambda>(i, x). x = c)
     (enumerate 0 ''ABCDEFGHIJKLMNOPQRSTUVWXYZabcdefghijklmnopqrstuvwxyz0123456789+/''))"

fun b64_groups :: "string \<Rightarrow> string option" where
  "b64_groups [] = Some []"
| "b64_groups (a # b # c # d # rest) =
     (case (b64_value a, b64_value b) of
        (Some v1, Some v2) \<Rightarrow>
          (let x = char_of (v1 * 4 + v2 div 16) in
           if c = CHR ''='' then (if d = CHR ''='' \<and> rest = [] then Some [x] else None)
           else (case b64_value c of
                   None \<Rightarrow> None
                 | Some v3 \<Rightarrow>
                     (let y = char_of (v2 mod 16 * 16 + v3 div 4) in
                      if d = CHR ''='' then (if rest = [] then Some [x, y] else None)
                      else (case b64_value d of
                              None \<Rightarrow> None
                            | Some v4 \<Rightarrow> map_option (\<lambda>s. x # y # char_of (v3 mod 4 * 64 + v4) # s) (b64_groups rest)))))
      | _ \<Rightarrow> None)"
| "b64_groups _ = None"

definition base64_DecodeString :: "string \<Rightarrow> string option" where
  "base64_DecodeString s = b64_groups (filter (\<lambda>c. c \<noteq> CHR 0x0A \<and> c \<noteq> CHR 0x0D) s)"

definition cloudInitData :: "json_object \<Rightarrow> string \<Rightarrow> string \<Rightarrow> string" where
  "cloudInitData ciData plainKey base64Key =
     (let plain = string_at plainKey ciData; encoded = string_at base64Key ciData in
      if plain \<noteq> [] then plain
      else if encoded = [] then []
      else (case base64_DecodeString (TrimSpace encoded) of None \<Rightarrow> [] | Some decoded \<Rightarrow> decoded))"

definition ci_keys :: "string list" where
  "ci_keys = [''cloudInitNoCloud'', ''cloudInitConfigDrive'']"

definition ci_bodies :: "string list" where
  "ci_bodies = [''userData'', ''networkData'', ''userDataBase64'', ''networkDataBase64'']"

definition ci_placeholder :: json where
  "ci_placeholder = JStr ''<see Cloud-Init Configuration section>''"

definition strip_ci :: "json_object \<Rightarrow> json_object" where
  "strip_ci ci = map (\<lambda>(k, v). (k, if k \<in> set ci_bodies then ci_placeholder else v)) ci"

definition strip_volume :: "json \<Rightarrow> json" where
  "strip_volume vol = (case vol of
     JObj m \<Rightarrow> JObj (map (\<lambda>(k, v). (k, if k \<in> set ci_keys then (case v of JObj ci \<Rightarrow> JObj (strip_ci ci) | _ \<Rightarrow> v) else v)) m)
   | _ \<Rightarrow> vol)"

definition stripCloudInitBodies :: "json list \<Rightarrow> json list" where
  "stripCloudInitBodies volumes = map strip_volume volumes"

section \<open>Trimming\<close>

lemma TrimSpaceLeft_suffix: "\<exists>t. s = t @ TrimSpaceLeft s"
proof (induction s rule: TrimSpaceLeft.induct)
  case (1 s)
  show ?case
  proof (cases "find (HasPrefix s) space_runes")
    case None then show ?thesis by (subst TrimSpaceLeft.simps) simp
  next
    case (Some e)
    then obtain t where t: "drop (length e) s = t @ TrimSpaceLeft (drop (length e) s)" using 1 by blast
    have "s = take (length e) s @ t @ TrimSpaceLeft (drop (length e) s)" using t by (metis append_take_drop_id)
    then show ?thesis using Some by (subst TrimSpaceLeft.simps) (metis append.assoc option.simps(5))
  qed
qed

lemma TrimSpace_set: "set (TrimSpace s) \<subseteq> set s"
proof -
  obtain t where "s = t @ TrimSpaceLeft s" using TrimSpaceLeft_suffix by blast
  moreover obtain u where "TrimSpaceLeft s = TrimSpaceRight (TrimSpaceLeft s) @ u" using TrimSpaceRight_prefix by blast
  ultimately show ?thesis unfolding TrimSpace_def by (metis Un_iff set_append subsetI)
qed

text \<open>Text that neither begins nor ends with white space stays as it is, and so behind spaces.\<close>

definition tight :: "string \<Rightarrow> bool" where
  "tight t \<longleftrightarrow> t \<noteq> [] \<and> hd t \<notin> set (map hd space_runes) \<and> List.last t \<notin> set (map List.last space_runes)"

lemma tight_find:
  assumes "tight t"
  shows "find (HasPrefix t) space_runes = None" "find (HasSuffix t) space_runes = None"
proof -
  have "e \<noteq> []" if "e \<in> set space_runes" for e using that space_runes_not_Nil by metis
  then show "find (HasPrefix t) space_runes = None" "find (HasSuffix t) space_runes = None"
    using assms by (auto simp: find_None_iff tight_def HasPrefix_iff HasSuffix_iff)
qed

lemma tight_trim: "tight t \<Longrightarrow> TrimSpaceLeft t = t" "tight t \<Longrightarrow> TrimSpaceRight t = t" "tight t \<Longrightarrow> TrimSpace t = t"
  by (simp_all add: TrimSpace_def TrimSpaceLeft.simps [of t] TrimSpaceRight.simps [of t] tight_find)

lemma TrimSpaceLeft_space: "TrimSpaceLeft (CHR '' '' # s) = TrimSpaceLeft s"
  by (subst TrimSpaceLeft.simps) (simp add: space_runes_def)

lemma TrimSpace_spaces: "tight t \<Longrightarrow> TrimSpace (spaces n @ t) = t"
proof -
  assume t: "tight t"
  have "TrimSpaceLeft (spaces n @ t) = t" using tight_trim(1) [OF t] by (induction n) (simp_all add: spaces_def TrimSpaceLeft_space)
  then show ?thesis using tight_trim(2) [OF t] by (simp add: TrimSpace_def)
qed

lemma leadingSpaces_spaces: "t \<noteq> [] \<Longrightarrow> hd t \<noteq> CHR '' '' \<Longrightarrow> hd t \<noteq> CHR 0x09 \<Longrightarrow> leadingSpaces (spaces n @ t) = n"
proof (induction n)
  case 0 then show ?case by (cases t) (simp_all add: leadingSpaces_def spaces_def)
next
  case (Suc n) then show ?case by (simp add: leadingSpaces_def spaces_def)
qed

section \<open>What redaction leaves\<close>

lemma lower_char_colon: "lower_char c = CHR '':'' \<longleftrightarrow> c = CHR '':''"
proof
  assume a: "lower_char c = CHR '':''"
  show "c = CHR '':''"
  proof (cases "65 \<le> (of_char c :: nat) \<and> (of_char c :: nat) \<le> 90")
    case True
    then have "of_char (lower_char c) = (of_char c + 32 :: nat)" by (simp add: lower_char_def)
    then show ?thesis using a True by simp
  next
    case False then show ?thesis using a by (simp add: lower_char_def Let_def split: if_splits)
  qed
qed (simp add: lower_char_def)

lemma before_lower: "ToLower (before (CHR '':'') t) = before (CHR '':'') (ToLower t)"
  by (induction t) (simp_all add: ToLower_def before_def lower_char_colon)

lemma before_prefix: "c \<notin> set k \<Longrightarrow> before c (k @ c # t) = k"
  by (induction k) (auto simp: before_def)

text \<open>A sensitive line has one of the keys before its colon.\<close>

lemma sensitive_key:
  assumes "isSensitiveKeyLine t"
  shows "ToLower (before (CHR '':'') t) \<in> set sensitiveYAMLKeys"
proof -
  obtain k u where k: "k \<in> set sensitiveYAMLKeys" and u: "ToLower t = k @ CHR '':'' # u"
    using assms by (auto simp: isSensitiveKeyLine_def list_ex_iff HasPrefix_iff)
  have "CHR '':'' \<notin> set k" using k by (auto simp: sensitiveYAMLKeys_def)
  then show ?thesis using k before_prefix by (simp add: before_lower u)
qed

lemma key_first_letter: "k \<in> set sensitiveYAMLKeys \<Longrightarrow> k \<noteq> [] \<and> hd k \<in> set ''phsctwrde''"
  by (auto simp: sensitiveYAMLKeys_def)

lemma letter_not_space: "lower_char c \<in> set ''phsctwrde'' \<Longrightarrow> c \<notin> set (map hd space_runes) \<and> c \<noteq> CHR '' '' \<and> c \<noteq> CHR 0x09"
  by (auto simp: space_runes_def lower_char_def)

lemma key_tight:
  assumes "ToLower key \<in> set sensitiveYAMLKeys"
  shows "tight (key @ '': <REDACTED>'')" "key \<noteq> []" "hd key \<noteq> CHR '' ''" "hd key \<noteq> CHR 0x09"
proof -
  show ne: "key \<noteq> []" using key_first_letter [OF assms] by (auto simp: ToLower_def)
  have "lower_char (hd key) \<in> set ''phsctwrde''"
    using key_first_letter [OF assms] ne by (simp add: ToLower_def hd_map)
  note h = letter_not_space [OF this]
  then show "hd key \<noteq> CHR '' ''" "hd key \<noteq> CHR 0x09" by auto
  have "CHR ''>'' \<notin> set (map List.last space_runes)" by (simp add: space_runes_def)
  then show "tight (key @ '': <REDACTED>'')" using h ne unfolding tight_def by (auto simp: hd_append)
qed

lemma redacted_tight: "tight ''<REDACTED>''"
  by (simp add: tight_def space_runes_def)

text \<open>A line with nothing to redact, and one that was redacted by its key.\<close>

definition harmless :: "string \<Rightarrow> bool" where
  "harmless l \<longleftrightarrow> \<not> isSensitiveKeyLine (TrimSpace l) \<and> \<not> isSensitiveValueLine (TrimSpace l)"

definition redacted_key :: "string \<Rightarrow> bool" where
  "redacted_key l \<longleftrightarrow> (\<exists>n key. l = spaces n @ key @ '': <REDACTED>'' \<and> ToLower key \<in> set sensitiveYAMLKeys)"

lemma redacted_harmless: "harmless (spaces n @ ''<REDACTED>'')"
proof -
  have "ToLower ''<REDACTED>'' = ''<redacted>''" by (simp add: ToLower_def lower_char_def char_of_eq_iff)
  then have "\<not> isSensitiveKeyLine ''<REDACTED>'' \<and> \<not> isSensitiveValueLine ''<REDACTED>''"
    by (simp add: isSensitiveKeyLine_def isSensitiveValueLine_def sensitiveYAMLKeys_def sensitiveLinePatterns_def)
  then show ?thesis unfolding harmless_def TrimSpace_spaces [OF redacted_tight] .
qed

lemma redacted_keyI: "isSensitiveKeyLine t \<Longrightarrow> redacted_key (spaces n @ before (CHR '':'') t @ '': <REDACTED>'')"
  using sensitive_key unfolding redacted_key_def by blast

text \<open>The loop taken apart: a dropped line, a redacted key, a redacted value, a line that is kept.\<close>

definition dropped :: "nat option \<Rightarrow> string \<Rightarrow> bool" where
  "dropped r line \<longleftrightarrow> (case r of None \<Rightarrow> False | Some n \<Rightarrow> TrimSpace line = [] \<or> leadingSpaces line > n)"

definition block_after :: "string \<Rightarrow> nat option" where
  "block_after line =
     (let v = TrimSpace (after (CHR '':'') (TrimSpace line)) in
      if v = [] \<or> isBlockScalarIndicator v then Some (leadingSpaces line) else None)"

lemma redact_lines_dropped: "dropped r line \<Longrightarrow> redact_lines r (line # lines) = redact_lines r lines"
  by (simp add: dropped_def Let_def)

lemma redact_lines_key:
  "\<not> dropped r line \<Longrightarrow> isSensitiveKeyLine (TrimSpace line) \<Longrightarrow>
   redact_lines r (line # lines) =
     (spaces (leadingSpaces line) @ before (CHR '':'') (TrimSpace line) @ '': <REDACTED>'') # redact_lines (block_after line) lines"
  by (simp add: dropped_def block_after_def Let_def)

lemma redact_lines_value:
  "\<not> dropped r line \<Longrightarrow> \<not> isSensitiveKeyLine (TrimSpace line) \<Longrightarrow> isSensitiveValueLine (TrimSpace line) \<Longrightarrow>
   redact_lines r (line # lines) = (spaces (leadingSpaces line) @ ''<REDACTED>'') # redact_lines None lines"
  by (simp add: dropped_def Let_def)

lemma redact_lines_kept: "\<not> dropped r line \<Longrightarrow> harmless line \<Longrightarrow> redact_lines r (line # lines) = line # redact_lines None lines"
  by (simp add: dropped_def harmless_def Let_def)

declare redact_lines.simps(2) [simp del]

lemma redact_lines_cases:
  assumes "dropped r line \<Longrightarrow> P (redact_lines r lines)"
    and "\<not> dropped r line \<Longrightarrow> isSensitiveKeyLine (TrimSpace line) \<Longrightarrow>
      P ((spaces (leadingSpaces line) @ before (CHR '':'') (TrimSpace line) @ '': <REDACTED>'') # redact_lines (block_after line) lines)"
    and "\<not> dropped r line \<Longrightarrow> P ((spaces (leadingSpaces line) @ ''<REDACTED>'') # redact_lines None lines)"
    and "\<not> dropped r line \<Longrightarrow> harmless line \<Longrightarrow> P (line # redact_lines None lines)"
  shows "P (redact_lines r (line # lines))"
proof -
  consider "dropped r line" | "\<not> dropped r line" "isSensitiveKeyLine (TrimSpace line)"
    | "\<not> dropped r line" "\<not> isSensitiveKeyLine (TrimSpace line)" "isSensitiveValueLine (TrimSpace line)"
    | "\<not> dropped r line" "harmless line"
    unfolding harmless_def by blast
  then show ?thesis
    using assms by cases (simp_all add: redact_lines_dropped redact_lines_key redact_lines_value redact_lines_kept)
qed

lemma redact_lines_safe: "list_all (\<lambda>l. harmless l \<or> redacted_key l) (redact_lines r ls)"
proof (induction ls arbitrary: r)
  case (Cons line lines)
  show ?case
    by (rule redact_lines_cases [where P = "list_all (\<lambda>l. harmless l \<or> redacted_key l)"])
      (simp_all add: Cons redacted_harmless redacted_keyI)
qed simp

lemma newline_free_parts:
  assumes "CHR 0x0A \<notin> set line"
  shows "CHR 0x0A \<notin> set (spaces n @ before c (TrimSpace line) @ '': <REDACTED>'')" "CHR 0x0A \<notin> set (spaces n @ ''<REDACTED>'')"
proof -
  have "CHR 0x0A \<notin> set (TrimSpace line)" using assms TrimSpace_set by blast
  then show "CHR 0x0A \<notin> set (spaces n @ before c (TrimSpace line) @ '': <REDACTED>'')" "CHR 0x0A \<notin> set (spaces n @ ''<REDACTED>'')"
    by (auto simp: spaces_def before_def dest: set_takeWhileD)
qed

lemma redact_lines_newline_free: "list_all (\<lambda>l. CHR 0x0A \<notin> set l) ls \<Longrightarrow> list_all (\<lambda>l. CHR 0x0A \<notin> set l) (redact_lines r ls)"
proof (induction ls arbitrary: r)
  case (Cons line lines)
  then have "CHR 0x0A \<notin> set line" "\<And>q. list_all (\<lambda>l. CHR 0x0A \<notin> set l) (redact_lines q lines)" by simp_all
  then show ?case using newline_free_parts
    by (intro redact_lines_cases [where P = "list_all (\<lambda>l. CHR 0x0A \<notin> set l)"]) (simp_all only: list.pred_inject simp_thms not_False_eq_True)
qed simp

lemma redact_lines_not_Nil: "ls \<noteq> [] \<Longrightarrow> redact_lines None ls \<noteq> []"
  by (cases ls) (simp_all add: redact_lines.simps(2) Let_def)

lemma lines_of_newline_free: "list_all (\<lambda>l. CHR 0x0A \<notin> set l) (lines_of s)"
  by (auto simp: lines_of_def list_all_iff dest: Split_elems)

lemma lines_of_Join: "ls \<noteq> [] \<Longrightarrow> list_all (\<lambda>l. CHR 0x0A \<notin> set l) ls \<Longrightarrow> lines_of (Join newline ls) = ls"
  using Split_Join by (auto simp: lines_of_def newline_def list_all_iff)

lemma lines_of_redacted: "lines_of (redactCloudInitSensitiveFields s) = redact_lines None (lines_of s)"
  unfolding redactCloudInitSensitiveFields_def
  by (intro lines_of_Join redact_lines_not_Nil redact_lines_newline_free lines_of_newline_free) (simp add: lines_of_def)

text \<open>A redacted line is a fixed point of the loop, and no block follows it.\<close>

lemma redacted_key_fixed:
  assumes "redacted_key l"
  shows "redact_lines None (l # ls) = l # redact_lines None ls"
proof -
  obtain n key where l: "l = spaces n @ key @ '': <REDACTED>''" and k: "ToLower key \<in> set sensitiveYAMLKeys"
    using assms unfolding redacted_key_def by blast
  note t = key_tight [OF k]
  have trim: "TrimSpace l = key @ '': <REDACTED>''" unfolding l by (rule TrimSpace_spaces [OF t(1)])
  have lead: "leadingSpaces l = n" unfolding l by (rule leadingSpaces_spaces) (use t in \<open>simp_all add: hd_append\<close>)
  have "CHR '':'' \<notin> set (ToLower key)" using k by (auto simp: sensitiveYAMLKeys_def)
  then have nc: "CHR '':'' \<notin> set key" using lower_char_colon [of "CHR '':''"] unfolding ToLower_def set_map by (metis imageI)
  have b: "before (CHR '':'') (key @ '': <REDACTED>'') = key" using before_prefix [OF nc] by simp
  have a: "after (CHR '':'') (key @ '': <REDACTED>'') = '' <REDACTED>''" using nc by (induction key) (auto simp: after_def)
  have v: "TrimSpace '' <REDACTED>'' = ''<REDACTED>''" using TrimSpace_spaces [OF redacted_tight, of 1] by (simp add: spaces_def)
  have s: "isSensitiveKeyLine (TrimSpace l)" unfolding trim isSensitiveKeyLine_def list_ex_iff
    using k by (intro bexI [of _ "ToLower key"]) (simp_all add: ToLower_def HasPrefix_iff lower_char_def)
  have "block_after l = None" by (simp add: block_after_def trim a v isBlockScalarIndicator_def)
  then show ?thesis using redact_lines_key [of None l ls] s trim lead b l by (simp add: dropped_def)
qed

lemma redact_lines_fixed: "list_all (\<lambda>l. harmless l \<or> redacted_key l) ls \<Longrightarrow> redact_lines None ls = ls"
proof (induction ls)
  case (Cons l ls)
  then have "redact_lines None (l # ls) = l # redact_lines None ls"
    using redacted_key_fixed redact_lines_kept [of None l ls] by (auto simp: dropped_def)
  then show ?case using Cons by simp
qed simp

text \<open>
  Whatever the cloud-init data, every line of the redacted text either has no sensitive key and no
  sensitive value, or is a sensitive key with \<open><REDACTED>\<close> for its value; and redacting the text again changes
  nothing.
\<close>

theorem redaction_complete:
  "list_all (\<lambda>l. harmless l \<or> redacted_key l) (lines_of (redactCloudInitSensitiveFields userData))
   \<and> redactCloudInitSensitiveFields (redactCloudInitSensitiveFields userData) = redactCloudInitSensitiveFields userData"
proof
  show s: "list_all (\<lambda>l. harmless l \<or> redacted_key l) (lines_of (redactCloudInitSensitiveFields userData))"
    unfolding lines_of_redacted by (rule redact_lines_safe)
  have "redactCloudInitSensitiveFields (redactCloudInitSensitiveFields userData)
    = Join newline (lines_of (redactCloudInitSensitiveFields userData))"
    unfolding redactCloudInitSensitiveFields_def [of "redactCloudInitSensitiveFields userData"] redact_lines_fixed [OF s] ..
  then show "redactCloudInitSensitiveFields (redactCloudInitSensitiveFields userData) = redactCloudInitSensitiveFields userData"
    by (simp add: lines_of_def newline_def Join_Split)
qed

section \<open>Nested values\<close>

definition deeper :: "nat \<Rightarrow> string \<Rightarrow> bool" where
  "deeper n l \<longleftrightarrow> TrimSpace l = [] \<or> leadingSpaces l > n"

lemma redact_lines_block: "list_all (deeper n) block \<Longrightarrow> redact_lines (Some n) (block @ rest) = redact_lines (Some n) rest"
  by (induction block) (simp_all add: redact_lines_dropped dropped_def deeper_def)

lemma sensitive_not_blank: "isSensitiveKeyLine t \<Longrightarrow> t \<noteq> []"
  by (auto simp: isSensitiveKeyLine_def list_ex_iff HasPrefix_iff ToLower_def)

lemma redact_lines_same_block:
  assumes "isSensitiveKeyLine (TrimSpace line)" "block_after line = Some (leadingSpaces line)"
    and "list_all (deeper (leadingSpaces line)) block" "list_all (deeper (leadingSpaces line)) block'"
  shows "redact_lines r (pre @ line # block @ rest) = redact_lines r (pre @ line # block' @ rest)"
proof (induction pre arbitrary: r)
  case Nil
  show ?case
  proof (cases "dropped r line")
    case True
    then obtain n where n: "r = Some n" "leadingSpaces line > n"
      using sensitive_not_blank [OF assms(1)] by (auto simp: dropped_def split: option.splits)
    then have "list_all (deeper n) block" "list_all (deeper n) block'"
      using assms(3,4) by (auto simp: list_all_iff deeper_def)
    then show ?thesis using True by (simp add: redact_lines_dropped n redact_lines_block)
  next
    case False then show ?thesis using assms by (simp add: redact_lines_key redact_lines_block)
  qed
next
  case (Cons l pre)
  then show ?case by (simp add: redact_lines.simps(2) Let_def)
qed


text \<open>A text whose only difference is the password file below \<open>write_files:\<close>.\<close>

lemma trim_examples: "TrimSpace ''write_files:'' = ''write_files:''" "TrimSpace '' a: b'' = ''a: b''" "TrimSpace '' c'' = ''c''"
  using TrimSpace_spaces [of "''a: b''" 1] TrimSpace_spaces [of "''c''" 1] tight_trim(3) [of "''write_files:''"]
  by (simp_all add: tight_def space_runes_def spaces_def)

lemma write_files_block:
  "isSensitiveKeyLine ''write_files:''" "block_after ''write_files:'' = Some 0" "leadingSpaces ''write_files:'' = 0"
proof -
  have "ToLower ''write_files:'' = ''write_files:''" by (simp add: ToLower_def lower_char_def char_of_eq_iff)
  then show "isSensitiveKeyLine ''write_files:''" by (simp add: isSensitiveKeyLine_def sensitiveYAMLKeys_def HasPrefix_def)
  show l: "leadingSpaces ''write_files:'' = 0" by (simp add: leadingSpaces_def)
  have "TrimSpace [] = []" by (simp add: TrimSpace_def TrimSpaceLeft.simps TrimSpaceRight.simps space_runes_def HasPrefix_def HasSuffix_def)
  then show "block_after ''write_files:'' = Some 0" using l by (simp add: block_after_def trim_examples after_def)
qed


text \<open>
  A list at the indentation of its key is YAML too, and is not hidden: the lines of the files below
  \<open>write_files:\<close> are then shown as they are. And a key behind the dash of a list is not taken for a key.
\<close>

lemma trim_leaks: "TrimSpace ''- path: /k'' = ''- path: /k''" "TrimSpace ''  content: x'' = ''content: x''" "TrimSpace ''- passwd: x'' = ''- passwd: x''"
  using TrimSpace_spaces [of "''content: x''" 2] tight_trim(3) [of "''- path: /k''"] tight_trim(3) [of "''- passwd: x''"]
  by (simp_all add: tight_def space_runes_def spaces_def numeral_2_eq_2)

lemma leaks_harmless: "harmless ''- path: /k''" "harmless ''  content: x''" "harmless ''- passwd: x''"
proof -
  have l: "ToLower ''- path: /k'' = ''- path: /k''" "ToLower ''content: x'' = ''content: x''" "ToLower ''- passwd: x'' = ''- passwd: x''"
    by (simp_all add: ToLower_def lower_char_def char_of_eq_iff)
  then show "harmless ''- path: /k''" "harmless ''  content: x''" "harmless ''- passwd: x''"
    by (simp_all add: harmless_def trim_leaks isSensitiveKeyLine_def isSensitiveValueLine_def
        sensitiveYAMLKeys_def sensitiveLinePatterns_def HasPrefix_def)
qed

lemma redaction_misses_lists:
  "redact_lines None [''write_files:'', ''- path: /k'', ''  content: x''] = [''write_files: <REDACTED>'', ''- path: /k'', ''  content: x'']"
  "redact_lines None [''- passwd: x''] = [''- passwd: x'']"
proof -
  have "\<not> dropped (Some 0) ''- path: /k''" by (simp add: dropped_def trim_leaks leadingSpaces_def)
  then show "redact_lines None [''write_files:'', ''- path: /k'', ''  content: x''] = [''write_files: <REDACTED>'', ''- path: /k'', ''  content: x'']"
    by (simp add: redact_lines_key redact_lines_kept dropped_def trim_examples write_files_block leaks_harmless before_def spaces_def)
  show "redact_lines None [''- passwd: x''] = [''- passwd: x'']"
    by (simp add: redact_lines_kept dropped_def leaks_harmless)
qed

section \<open>Logs\<close>

text \<open>Everything behind the first pattern that occurs, in the order of the list, is cut off.\<close>

lemma Index_Some: "Contains s p \<Longrightarrow> \<exists>a u. s = a @ p @ u \<and> Index s p = Some (length a)"
proof (induction s)
  case Nil then show ?case by simp
next
  case (Cons c s)
  show ?case
  proof (cases "HasPrefix (c # s) p")
    case True then show ?thesis by (auto simp: HasPrefix_iff intro!: exI [of _ "[]"])
  next
    case False
    then obtain a u where "s = a @ p @ u" "Index s p = Some (length a)" using Cons by auto
    then show ?thesis using False by (intro exI [of _ "c # a"] exI [of _ u]) simp
  qed
qed

lemma redact_log_line_cut:
  assumes "find (Contains (ToLower line)) logSecretPatterns = Some pat"
  shows "\<exists>a. redact_log_line line = a @ ''<REDACTED>'' \<and> HasPrefix line a \<and> HasSuffix (ToLower a) pat"
proof -
  have "Contains (ToLower line) pat" using assms by (auto simp: find_Some_iff)
  then obtain a u where u: "ToLower line = a @ pat @ u" "Index (ToLower line) pat = Some (length a)" using Index_Some by blast
  have t: "take (length a + length pat) (ToLower line) = a @ pat" unfolding u(1) by simp
  then have "ToLower (take (length a + length pat) line) = a @ pat" by (simp add: ToLower_def take_map)
  moreover have "HasPrefix line (take n line)" for n by (metis HasPrefix_iff append_take_drop_id)
  ultimately show ?thesis using assms u(2) by (auto simp: redact_log_line_def HasSuffix_iff)
qed

text \<open>
  The patterns are tried in the order of the list and only the first that occurs is cut: a secret that stands
  before it stays in the log.
\<close>

lemma redact_log_line_leaks: "redact_log_line ''token=abc bearer x'' = ''token=abc bearer <REDACTED>''"
proof -
  have "ToLower ''token=abc bearer x'' = ''token=abc bearer x''" by (simp add: ToLower_def lower_char_def char_of_eq_iff)
  then show ?thesis by (simp add: redact_log_line_def logSecretPatterns_def HasPrefix_def)
qed

end
