(* ===== verification/Vm_Report.thy ===== *)
theory Vm_Report
  imports Redaction "HOL-Library.Option_ord"
begin

text \<open>
  The diagnostic report on a virtual machine: \<open>src/pkg/toolsets/kubevirt/vm/troubleshoot/\<close>.
  \<open>analysis.go\<close> looks for known problems, and \<open>tool.go\<close> collects what the report shows. Then the
  toolset of virtual machines.
\<close>

section \<open>Issues\<close>

datatype severity = severityCritical | severityWarning | severityInfo

fun severity_String :: "severity \<Rightarrow> string" where
  "severity_String severityCritical = ''CRITICAL''"
| "severity_String severityWarning = ''WARNING''"
| "severity_String severityInfo = ''INFO''"

record issue =
  is_Severity :: severity
  is_Message :: string
  is_Fix :: string

definition mk_issue :: "severity \<Rightarrow> string \<Rightarrow> string \<Rightarrow> issue" where
  "mk_issue sev msg fx = \<lparr>is_Severity = sev, is_Message = msg, is_Fix = fx\<rparr>"

text \<open>
  What the report needs besides the handlers' environment: \<open>%v\<close> of a decoded value, the
  creation time of an object (none is the zero time, before all others), the current time, and the
  conversion of large numbers.
\<close>

record 'w report_env =
  re_Env :: vm_env
  re_FmtV :: "json \<Rightarrow> string"
  re_Created :: "json_object \<Rightarrow> int option"
  re_Now :: "'w \<Rightarrow> int"
  re_Overflow :: "rat \<Rightarrow> int"
  re_Event :: "json_object \<Rightarrow> (string, kube_event) result"
  re_TimeString :: "int option \<Rightarrow> string"

definition condition_issue :: "json \<Rightarrow> issue list" where
  "condition_issue cond = (case as_object cond of
     None \<Rightarrow> []
   | Some condMap \<Rightarrow>
       (let message = string_at ''message'' condMap in
        if string_at ''type'' condMap \<noteq> ''Ready'' \<or> string_at ''status'' condMap \<noteq> ''False'' then []
        else if string_at ''reason'' condMap = ''VMINotExists'' then
          [mk_issue severityWarning ''VM condition Ready=False with reason VMINotExists. The VirtualMachineInstance has not been created.'' []]
        else if message \<noteq> [] \<and> (Contains message ''Guest'' \<or> Contains (ToLower message) ''error'') then
          [mk_issue severityWarning (''VM condition Ready=False: '' @ message) []]
        else []))"

definition checkVMConditions :: "json_object option \<Rightarrow> issue list" where
  "checkVMConditions vm = (case vm of
     None \<Rightarrow> []
   | Some obj \<Rightarrow>
       concat (map condition_issue (found_or [] (NestedSlice [''status'', ''conditions''] obj)))
       @ (let printableStatus = found_or [] (NestedString [''status'', ''printableStatus''] obj) in
          if printableStatus = ''Provisioning'' then
            [mk_issue severityWarning ''VM is stuck in Provisioning state. This typically means a DataVolume or PVC cannot be created.'' []]
          else if printableStatus = ''CrashLoopBackOff'' then
            [mk_issue severityCritical ''VM is in CrashLoopBackOff state. The guest OS or cloud-init is causing repeated failures.''
               ''Check the cloud-init userData for commands that shut down or crash the guest (e.g., shutdown -h now, exit 1).'']
          else if printableStatus = ''ErrImagePull'' \<or> printableStatus = ''ImagePullBackOff'' then
            [mk_issue severityCritical (''VM is in '' @ printableStatus @ '' state. The container disk image cannot be pulled.'')
               ''Verify the containerDisk image reference exists and is accessible from the cluster.'']
          else []))"

definition checkDataVolumeErrors :: "json_object option \<Rightarrow> issue list \<Rightarrow> issue list" where
  "checkDataVolumeErrors vm scIssues = (case vm of
     None \<Rightarrow> []
   | Some obj \<Rightarrow>
       (let hasMissingSC = list_ex (\<lambda>i. is_Severity i = severityCritical) scIssues in
        concat (map (\<lambda>vs. case as_object vs of
            None \<Rightarrow> []
          | Some vsMap \<Rightarrow>
              (let volName = string_at ''name'' vsMap; reason = string_at ''reason'' vsMap in
               if reason \<noteq> [] \<and> Contains reason ''not found'' \<and> \<not> hasMissingSC then
                 [mk_issue severityCritical (''Volume '' @ Quote volName @ '': PVC not found. The backing storage does not exist.'')
                    (''Ensure the PVC or DataVolume for volume '' @ Quote volName @ '' is created and in Bound state.'')]
               else []))
          (found_or [] (NestedSlice [''status'', ''volumeSnapshotStatuses''] obj)))))"

definition extractStorageClassName :: "json_object \<Rightarrow> string" where
  "extractStorageClassName dvSpec =
     (let sc = (\<lambda>key. case object_at key dvSpec of None \<Rightarrow> [] | Some m \<Rightarrow> string_at ''storageClassName'' m) in
      if sc ''storage'' \<noteq> [] then sc ''storage'' else sc ''pvc'')"

definition listAvailableStorageClasses :: "'w vm_client \<Rightarrow> ('w, string) action" where
  "listAvailableStorageClasses c =
     bindA (tryA (kc_List (vc_Client c) StorageClassGVR [] list_all_options)) (\<lambda>r. retA (case r of
       Inl _ \<Rightarrow> ''(none found)''
     | Inr items \<Rightarrow>
         (if items = [] then ''(none found)''
          else Join '', '' (map (\<lambda>sc. obj_GetName sc
            @ (if label_at ''storageclass.kubernetes.io/is-default-class'' (obj_GetAnnotations sc) = ''true'' then '' (default)'' else [])) items))))"

definition check_template_class :: "'w vm_client \<Rightarrow> json \<Rightarrow> ('w, issue list) action" where
  "check_template_class c dvTemplate = (case as_object dvTemplate of
     None \<Rightarrow> retA []
   | Some dvMap \<Rightarrow>
       (let dvName = (case object_at ''metadata'' dvMap of None \<Rightarrow> [] | Some m \<Rightarrow> string_at ''name'' m);
            scName = (case object_at ''spec'' dvMap of None \<Rightarrow> [] | Some spec \<Rightarrow> extractStorageClassName spec)
        in if scName = [] then retA []
           else bindA (tryA (kc_Get (vc_Client c) StorageClassGVR [] scName [])) (\<lambda>r. case r of
             Inr _ \<Rightarrow> retA []
           | Inl err \<Rightarrow>
               (if \<not> vc_IsNotFound c err then
                  retA [mk_issue severityWarning (''Unable to verify StorageClass '' @ Quote scName @ '' for DataVolume '' @ Quote dvName @ '': '' @ err) []]
                else bindA (listAvailableStorageClasses c) (\<lambda>availableSCs.
                  retA [mk_issue severityCritical
                    (''StorageClass '' @ Quote scName @ '' referenced by DataVolume '' @ Quote dvName
                       @ '' does not exist on this cluster. Available StorageClasses: '' @ availableSCs @ ''.'')
                    (''Change the DataVolume storageClassName from '' @ Quote scName @ '' to an existing StorageClass (e.g., '' @ availableSCs @ '').'')])))))"

definition checkStorageClass :: "'w vm_client \<Rightarrow> json_object option \<Rightarrow> ('w, issue list) action" where
  "checkStorageClass c vm = (case vm of
     None \<Rightarrow> retA []
   | Some obj \<Rightarrow>
       (case NestedSlice [''spec'', ''dataVolumeTemplates''] obj of
          NFound dvTemplates \<Rightarrow> bindA (forA dvTemplates (check_template_class c)) (\<lambda>iss. retA (concat iss))
        | _ \<Rightarrow> retA []))"

text \<open>The volumes of the machine, or else of its instance.\<close>

definition volumes_of :: "json_object option \<Rightarrow> json_object option \<Rightarrow> json list" where
  "volumes_of vm vmi =
     (let volumes = (case vm of None \<Rightarrow> [] | Some obj \<Rightarrow> found_or [] (NestedSlice [''spec'', ''template'', ''spec'', ''volumes''] obj)) in
      if volumes = [] then (case vmi of None \<Rightarrow> [] | Some obj \<Rightarrow> found_or [] (NestedSlice [''spec'', ''volumes''] obj)) else volumes)"

definition command_issue :: "string \<Rightarrow> string \<Rightarrow> issue" where
  "command_issue runStrategy cmd =
     mk_issue severityCritical
       (''Cloud-init userData contains '' @ Quote cmd @ '' command that will shut down or restart the guest immediately after boot.''
          @ (if runStrategy = ''Always'' \<or> runStrategy = [] then '' Combined with runStrategy Always, this causes a crashloop.'' else []))
       (''Remove the '' @ Quote cmd @ '' command from cloud-init userData, or change runStrategy to Manual/Halted if the shutdown is intentional.'')"

definition checkCloudInitCommands :: "json_object option \<Rightarrow> json_object option \<Rightarrow> issue list" where
  "checkCloudInitCommands vm vmi =
     (let runStrategy = (case vm of None \<Rightarrow> [] | Some obj \<Rightarrow> found_or [] (NestedString [''spec'', ''runStrategy''] obj)) in
      concat (map (\<lambda>vol. case as_object vol of
          None \<Rightarrow> []
        | Some volMap \<Rightarrow>
            concat (map (\<lambda>ciKey. case object_at ciKey volMap of
                None \<Rightarrow> []
              | Some ciData \<Rightarrow>
                  (if string_at ''userData'' ciData = [] then []
                   else map (command_issue runStrategy) (detectDangerousCloudInitCommands (string_at ''userData'' ciData)))) ci_keys))
        (volumes_of vm vmi)))"

definition checkNodeSelector :: "(json \<Rightarrow> string) \<Rightarrow> json_object option \<Rightarrow> json_object option \<Rightarrow> issue list" where
  "checkNodeSelector fmtV vm vmi =
     (let sel = (case vm of None \<Rightarrow> [] | Some obj \<Rightarrow> found_or [] (NestedMap [''spec'', ''template'', ''spec'', ''nodeSelector''] obj));
          nodeSelector = (if sel = [] then (case vmi of None \<Rightarrow> [] | Some obj \<Rightarrow> found_or [] (NestedMap [''spec'', ''nodeSelector''] obj)) else sel)
      in if nodeSelector = [] then []
         else if map_of nodeSelector ''kubernetes.io/hostname'' \<noteq> None then
           [mk_issue severityWarning
              (''VM is pinned to a specific node via nodeSelector (kubernetes.io/hostname='' @ string_at ''kubernetes.io/hostname'' nodeSelector
                 @ ''). This prevents live migration to other nodes.'')
              ''Remove the kubernetes.io/hostname nodeSelector to allow migration, or use a broader label selector that matches multiple nodes.'']
         else
           [mk_issue severityInfo
              (''VM has nodeSelector constraints: '' @ Join '', '' (map (\<lambda>(k, v). k @ ''='' @ fmtV v) nodeSelector)
                 @ ''. This may limit scheduling and migration options.'') []])"

definition toInt64 :: "(rat \<Rightarrow> int) \<Rightarrow> json \<Rightarrow> int" where
  "toInt64 oor v = (case v of JNum r \<Rightarrow> int64_of_float oor r | _ \<Rightarrow> 0)"

text \<open>
  The diagnostics of a pod. \<open>pd_ContainerStatuses\<close> is missing when the pod lists none.
\<close>

record pod_diagnostics =
  pd_phase :: string
  pd_nodeName :: string
  pd_conditions :: "json list"
  pd_containerStatuses :: "json_object list option"
  pd_nodeSelector :: json_object

definition container_issues :: "(rat \<Rightarrow> int) \<Rightarrow> json_object \<Rightarrow> issue list" where
  "container_issues oor cs =
     (let restartCount = toInt64 oor (arg cs ''restartCount'') in
      (if restartCount > 3 then
         [mk_issue severityCritical (''Container '' @ Quote (string_at ''name'' cs) @ '' in virt-launcher pod has restarted '' @ int_text restartCount
            @ '' times, indicating a crashloop.'') []]
       else [])
      @ (case object_at ''state'' cs of
           None \<Rightarrow> []
         | Some state \<Rightarrow>
             (case object_at ''waiting'' state of
                None \<Rightarrow> []
              | Some waiting \<Rightarrow>
                  (let reason = string_at ''reason'' waiting in
                   if reason \<in> {''CrashLoopBackOff'', ''ErrImagePull'', ''ImagePullBackOff''} then
                     [mk_issue severityCritical (''virt-launcher container is in '' @ reason @ '' state: '' @ string_at ''message'' waiting) []]
                   else []))
             @ (case object_at ''terminated'' state of
                  None \<Rightarrow> []
                | Some terminated \<Rightarrow>
                    (if string_at ''reason'' terminated = ''OOMKilled'' then
                       [mk_issue severityCritical ''virt-launcher container was OOMKilled. The VM requires more memory than allocated.''
                          ''Increase the memory resource limits for the VM or reduce the guest memory requirements.'']
                     else []))))"

definition checkPodHealth :: "(rat \<Rightarrow> int) \<Rightarrow> pod_diagnostics list \<Rightarrow> issue list" where
  "checkPodHealth oor podDiagnostics =
     concat (map (\<lambda>d.
         (if pd_phase d = ''Pending'' then
            [mk_issue severityWarning
               ''virt-launcher pod is in Pending state. The pod has not been scheduled yet (possible resource constraints or nodeSelector mismatch).''
               (''Check node resources and scheduling constraints. Ensure at least one node satisfies the pod'' @ squote
                 @ ''s resource requests and node selectors.'')]
          else [])
         @ (case pd_containerStatuses d of None \<Rightarrow> [] | Some css \<Rightarrow> concat (map (container_issues oor) css)))
       podDiagnostics)"

text \<open>Division of durations, which truncates towards zero.\<close>

definition tdiv :: "int \<Rightarrow> int \<Rightarrow> int" where
  "tdiv a b = (if a < 0 then - ((- a) div b) else a div b)"

definition formatDuration :: "int \<Rightarrow> string" where
  "formatDuration d =
     (let sec = 1000000000 in
      if d < 60 * sec then int_text (tdiv d sec) @ ''s''
      else if d < 3600 * sec then int_text (d div (60 * sec)) @ ''m''
      else if d < 24 * 3600 * sec then int_text (d div (3600 * sec)) @ ''h''
      else int_text (d div (24 * 3600 * sec)) @ ''d'')"

fun extractMigrationFailureReason :: "json list \<Rightarrow> string" where
  "extractMigrationFailureReason [] = []"
| "extractMigrationFailureReason (cond # conds) = (case as_object cond of
     None \<Rightarrow> extractMigrationFailureReason conds
   | Some condMap \<Rightarrow>
       (if string_at ''type'' condMap = ''Failure'' \<and> string_at ''status'' condMap = ''True'' then string_at ''message'' condMap
        else extractMigrationFailureReason conds))"

definition maxReportedFailedMigrations :: nat where "maxReportedFailedMigrations = 3"

definition migration_issue :: "'w report_env \<Rightarrow> int \<Rightarrow> json_object \<Rightarrow> issue" where
  "migration_issue env now vmim =
     (let failureReason = extractMigrationFailureReason (found_or [] (NestedSlice [''status'', ''conditions''] vmim)) in
      mk_issue severityCritical
        (''VirtualMachineInstanceMigration '' @ Quote (obj_GetName vmim) @ '' failed''
           @ (case re_Created env vmim of None \<Rightarrow> [] | Some t \<Rightarrow> '' ('' @ formatDuration (now - t) @ '' ago)'') @ ''.''
           @ (if failureReason \<noteq> [] then '' Reason: '' @ failureReason else []))
        ''Check nodeSelector constraints, resource availability on target nodes, and migration policies. Remove hostname-specific nodeSelector to allow migration.'')"

text \<open>
  Newest first. Go's sort is not stable: migrations of the same time come in some order, here
  that of the list.
\<close>

definition newest_first :: "'w report_env \<Rightarrow> json_object list \<Rightarrow> json_object list" where
  "newest_first env failed = rev (sort_key (re_Created env) (rev failed))"

definition failed_migrations :: "string \<Rightarrow> json_object list \<Rightarrow> json_object list" where
  "failed_migrations name items =
     filter (\<lambda>v. found_or [] (NestedString [''spec'', ''vmiName''] v) = name \<and> found_or [] (NestedString [''status'', ''phase''] v) = ''Failed'') items"

definition migration_issues :: "'w report_env \<Rightarrow> int \<Rightarrow> json_object list \<Rightarrow> issue list" where
  "migration_issues env now failed =
     map (migration_issue env now) (take maxReportedFailedMigrations (newest_first env failed))
     @ (if length failed > maxReportedFailedMigrations then
          [mk_issue severityInfo (digits (length failed - maxReportedFailedMigrations) @ '' additional older failed migrations not shown.'') []]
        else [])"

definition checkMigrationStatus :: "'w report_env \<Rightarrow> 'w vm_client \<Rightarrow> string \<Rightarrow> string \<Rightarrow> ('w, issue list) action" where
  "checkMigrationStatus env c ns name =
     bindA (tryA (kc_List (vc_Client c) VirtualMachineInstanceMigrationGVR ns
              \<lparr>lo_LabelSelector = ''kubevirt.io/vmi-name='' @ name, lo_FieldSelector = [], lo_AsTable = False\<rparr>)) (\<lambda>r w.
       (Inr (case r of Inl _ \<Rightarrow> [] | Inr items \<Rightarrow> migration_issues env (re_Now env w) (failed_migrations name items)), w))"

definition issues_text :: "issue list \<Rightarrow> string" where
  "issues_text iss =
     (if iss = [] then
        ''## Detected Issues'' @ newline @ newline
        @ ''*No issues automatically detected. Review the raw diagnostic data below for manual analysis.*''
      else
        (let fixes = filter (\<lambda>f. f \<noteq> []) (map is_Fix iss) in
         ''## Detected Issues'' @ newline @ newline
         @ concat (map (\<lambda>i. ''- **'' @ severity_String (is_Severity i) @ ''**: '' @ is_Message i @ newline) iss)
         @ (if fixes \<noteq> [] then
              newline @ ''## Suggested Fixes'' @ newline @ newline
              @ concat (map (\<lambda>(n, f). digits (n + 1) @ ''. '' @ f @ newline) (enumerate 0 fixes))
            else [])))"

definition analyzeIssues ::
  "'w report_env \<Rightarrow> 'w vm_client \<Rightarrow> string \<Rightarrow> string \<Rightarrow> json_object option \<Rightarrow> json_object option \<Rightarrow> pod_diagnostics list \<Rightarrow> ('w, string) action" where
  "analyzeIssues env c ns name vm vmi podDiagnostics =
     bindA (checkStorageClass c vm) (\<lambda>scIssues.
     bindA (checkMigrationStatus env c ns name) (\<lambda>migrations.
       retA (issues_text
         (checkVMConditions vm @ scIssues @ checkDataVolumeErrors vm scIssues @ checkCloudInitCommands vm vmi
          @ checkNodeSelector (re_FmtV env) vm vmi @ checkPodHealth (re_Overflow env) podDiagnostics @ migrations))))"

section \<open>Sections of the report\<close>

definition section_head :: "string \<Rightarrow> string" where
  "section_head title = ''## '' @ title @ newline @ newline"

definition fenced :: "string \<Rightarrow> string" where
  "fenced yaml = ''```yaml'' @ newline @ yaml @ ''```''"

definition marshal :: "'w report_env \<Rightarrow> json \<Rightarrow> (string, string) result" where
  "marshal env v = MarshalYaml_other (ve_Out (re_Env env)) v"

text \<open>The status of an object; \<open>kind\<close> is its title, and \<open>none\<close> what the report says without a status.\<close>

definition status_section :: "'w report_env \<Rightarrow> string \<Rightarrow> string \<Rightarrow> string \<Rightarrow> string \<Rightarrow> json_object \<Rightarrow> string" where
  "status_section env kind none ns name obj = (case NestedMap [''status''] obj of
     NError \<Rightarrow> section_head kind @ ''*Error extracting status: '' @ ve_AccessErr (re_Env env) obj @ ''*''
   | NMissing \<Rightarrow> section_head (kind @ '': '' @ ns @ ''/'' @ name) @ none
   | NFound status \<Rightarrow>
       (case marshal env (JObj status) of
          Inl err \<Rightarrow> section_head kind @ ''*Error marshaling status: '' @ err @ ''*''
        | Inr yaml \<Rightarrow> section_head (kind @ '' Status: '' @ ns @ ''/'' @ name) @ fenced yaml))"

definition fetchVMStatus :: "'w report_env \<Rightarrow> 'w vm_client \<Rightarrow> string \<Rightarrow> string \<Rightarrow> ('w, string \<times> json_object option) action" where
  "fetchVMStatus env c ns name =
     bindA (tryA (kc_Get (vc_Client c) VirtualMachineGVR ns name [])) (\<lambda>r. retA (case r of
       Inl err \<Rightarrow> (section_head ''VirtualMachine'' @ ''*Error: '' @ err @ ''*'', None)
     | Inr vm \<Rightarrow> (status_section env ''VirtualMachine'' ''*No status found (VM may not have been reconciled yet)*'' ns name vm, Some vm)))"

definition fetchVMIStatus :: "'w report_env \<Rightarrow> 'w vm_client \<Rightarrow> string \<Rightarrow> string \<Rightarrow> ('w, string \<times> json_object option) action" where
  "fetchVMIStatus env c ns name =
     bindA (tryA (kc_Get (vc_Client c) VirtualMachineInstanceGVR ns name [])) (\<lambda>r. retA (case r of
       Inl err \<Rightarrow> (section_head ''VirtualMachineInstance'' @ ''*VMI not found: '' @ err @ ''*'' @ newline @ newline
           @ ''(Expected if VM is stopped or stuck provisioning)'', None)
     | Inr vmi \<Rightarrow> (status_section env ''VirtualMachineInstance'' ''*No status found*'' ns name vmi, Some vmi)))"

definition fetchVolumes :: "'w report_env \<Rightarrow> string \<Rightarrow> string \<Rightarrow> json_object option \<Rightarrow> json_object option \<Rightarrow> string" where
  "fetchVolumes env ns name vm vmi =
     (let failed = (\<lambda>kind obj. ''*Error extracting volumes from '' @ kind @ '': '' @ ve_AccessErr (re_Env env) obj @ ''*'');
          show_volumes = (\<lambda>source volumes. case marshal env (JArr (stripCloudInitBodies volumes)) of
              Inl err \<Rightarrow> ''*Error marshaling volumes: '' @ err @ ''*''
            | Inr yaml \<Rightarrow> section_head (''Volumes (from '' @ source @ '': '' @ ns @ ''/'' @ name @ '')'') @ fenced yaml);
          none = section_head ''Volumes'' @ ''*No volumes configured*'';
          from_vmi = (case vmi of
              None \<Rightarrow> none
            | Some obj \<Rightarrow> (case NestedSlice [''spec'', ''volumes''] obj of
                  NError \<Rightarrow> failed ''VirtualMachineInstance'' obj
                | NMissing \<Rightarrow> none
                | NFound volumes \<Rightarrow> (if volumes = [] then none else show_volumes ''VirtualMachineInstance'' volumes)))
      in case vm of
           None \<Rightarrow> from_vmi
         | Some obj \<Rightarrow> (case NestedSlice [''spec'', ''template'', ''spec'', ''volumes''] obj of
               NError \<Rightarrow> failed ''VirtualMachine'' obj
             | NMissing \<Rightarrow> from_vmi
             | NFound volumes \<Rightarrow> (if volumes = [] then from_vmi else show_volumes ''VirtualMachine'' volumes)))"

definition container_summary :: "json_object \<Rightarrow> json_object" where
  "container_summary csMap =
     [(''name'', arg csMap ''name''), (''ready'', arg csMap ''ready'')]
     @ (case map_of csMap ''restartCount'' of None \<Rightarrow> [] | Some rc \<Rightarrow> [(''restartCount'', rc)])
     @ (case map_of csMap ''state'' of None \<Rightarrow> [] | Some state \<Rightarrow> [(''state'', state)])
     @ (case object_at ''lastTerminationState'' csMap of None \<Rightarrow> []
        | Some stateMap \<Rightarrow> (if stateMap \<noteq> [] then [(''lastTerminationState'', JObj stateMap)] else []))"

definition extractPodDiagnostics :: "json_object \<Rightarrow> pod_diagnostics" where
  "extractPodDiagnostics pod =
     (let containerStatuses = found_or [] (NestedSlice [''status'', ''containerStatuses''] pod) in
      \<lparr>pd_phase = found_or [] (NestedString [''status'', ''phase''] pod),
       pd_nodeName = found_or [] (NestedString [''spec'', ''nodeName''] pod),
       pd_conditions = found_or [] (NestedSlice [''status'', ''conditions''] pod),
       pd_containerStatuses = (if containerStatuses = [] then None
         else Some (map container_summary (List.map_filter as_object containerStatuses))),
       pd_nodeSelector = found_or [] (NestedMap [''spec'', ''nodeSelector''] pod)\<rparr>)"

definition diagnostics_json :: "pod_diagnostics \<Rightarrow> json" where
  "diagnostics_json d = JObj
     ([(''phase'', JStr (pd_phase d))]
      @ (if pd_nodeName d \<noteq> [] then [(''nodeName'', JStr (pd_nodeName d))] else [])
      @ (if pd_conditions d \<noteq> [] then [(''conditions'', JArr (pd_conditions d))] else [])
      @ (case pd_containerStatuses d of None \<Rightarrow> []
         | Some css \<Rightarrow> [(''containerStatuses'', if css = [] then JNull else JArr (map JObj css))])
      @ (if pd_nodeSelector d \<noteq> [] then [(''nodeSelector'', JObj (pd_nodeSelector d))] else []))"

definition pod_section :: "'w report_env \<Rightarrow> json_object \<Rightarrow> string" where
  "pod_section env pod = (case marshal env (diagnostics_json (extractPodDiagnostics pod)) of
     Inl err \<Rightarrow> ''*Error marshaling pod '' @ obj_GetName pod @ '': '' @ err @ ''*'' @ newline @ newline
   | Inr yaml \<Rightarrow> ''### '' @ obj_GetName pod @ newline @ newline @ fenced yaml @ newline @ newline)"

definition fetchVirtLauncherPod ::
  "'w report_env \<Rightarrow> 'w vm_client \<Rightarrow> string \<Rightarrow> string \<Rightarrow> ('w, string \<times> string list \<times> pod_diagnostics list) action" where
  "fetchVirtLauncherPod env c ns name =
     bindA (tryA (kc_List (vc_Client c) PodGVR ns
              \<lparr>lo_LabelSelector = ''kubevirt.io=virt-launcher,vm.kubevirt.io/name='' @ name, lo_FieldSelector = [], lo_AsTable = False\<rparr>)) (\<lambda>r. retA (case r of
       Inl err \<Rightarrow> (section_head ''virt-launcher Pod'' @ ''*Error listing pods: '' @ err @ ''*'', [], [])
     | Inr pods \<Rightarrow>
         (if pods = [] then (section_head ''virt-launcher Pod'' @ ''*No virt-launcher pod found (VM may be stopped or not yet scheduled)*'', [], [])
          else (section_head ''virt-launcher Pod'' @ concat (map (pod_section env) pods), map obj_GetName pods, map extractPodDiagnostics pods))))"

definition em_dash :: string where "em_dash = [CHR 0xE2, CHR 0x80, CHR 0x94]"

definition fetchVirtLauncherPodLogs :: "'w vm_client \<Rightarrow> string \<Rightarrow> string list \<Rightarrow> ('w, string) action" where
  "fetchVirtLauncherPodLogs c ns podNames =
     (if podNames = [] then retA (section_head ''virt-launcher Pod Logs'' @ ''*No pod found '' @ em_dash @ '' no logs available*'')
      else bindA (forA podNames (\<lambda>podName.
             bindA (tryA (PodsLog (vc_Client c) ns podName ''compute'' False 50)) (\<lambda>r. retA (case r of
               Inl err \<Rightarrow> ''### '' @ podName @ newline @ newline @ ''*Error fetching logs: '' @ err @ ''*'' @ newline @ newline
             | Inr logs \<Rightarrow> ''### '' @ podName @ '' (container: compute)'' @ newline @ newline @ ''```'' @ newline @ redactLogSecrets logs @ newline
                 @ ''```'' @ newline @ newline))))
           (\<lambda>parts. retA (section_head ''virt-launcher Pod Logs'' @ concat parts)))"

definition fetchEvents :: "'w report_env \<Rightarrow> 'w vm_client \<Rightarrow> string \<Rightarrow> string \<Rightarrow> string list \<Rightarrow> ('w, string) action" where
  "fetchEvents env c ns vmName podNames =
     bindA (forA (vmName # podNames) (\<lambda>objName.
         bindA (tryA (EventsList (re_Event env) (re_TimeString env) (vc_Client c) ns
            \<lparr>lo_LabelSelector = [], lo_FieldSelector = ''involvedObject.name='' @ objName, lo_AsTable = False\<rparr>)) (\<lambda>r. retA (case r of
           Inl err \<Rightarrow> ([], [''Error fetching events for '' @ objName @ '': '' @ err])
         | Inr events \<Rightarrow> (events, []))))) (\<lambda>rs.
       let relatedEvents = concat (map fst rs); eventErrors = concat (map snd rs) in
       retA (if relatedEvents = [] \<and> eventErrors = [] then section_head ''Events'' @ ''*No events found related to this VM*''
             else ''## Events''
               @ (if eventErrors \<noteq> [] then newline @ newline @ concat (map (\<lambda>e. ''*'' @ e @ ''*'' @ newline) eventErrors) else [])
               @ (if relatedEvents = [] then []
                  else (case marshal env (JArr (map JObj relatedEvents)) of
                          Inl err \<Rightarrow> newline @ newline @ ''*Error marshaling events: '' @ err @ ''*''
                        | Inr yaml \<Rightarrow> newline @ newline @ fenced yaml))))"

text \<open>The claim of a data volume that does not exist.\<close>

definition pvc_section :: "'w report_env \<Rightarrow> (string, json_object) result \<Rightarrow> string" where
  "pvc_section env r = (case r of
     Inl err \<Rightarrow> ''*PVC also not found: '' @ err @ ''*'' @ newline @ newline
   | Inr pvc \<Rightarrow>
       (case NestedMap [''status''] pvc of
          NFound status \<Rightarrow>
            (case marshal env (JObj status) of
               Inl err \<Rightarrow> ''*Error marshaling PVC status: '' @ err @ ''*'' @ newline @ newline
             | Inr yaml \<Rightarrow> ''PVC exists with status:'' @ newline @ fenced yaml @ newline @ newline)
        | _ \<Rightarrow> []))"

definition dv_section :: "'w report_env \<Rightarrow> string \<Rightarrow> json_object \<Rightarrow> string" where
  "dv_section env dvName dv = (case NestedMap [''status''] dv of
     NFound status \<Rightarrow>
       (case marshal env (JObj status) of
          Inl err \<Rightarrow> ''### '' @ dvName @ newline @ newline @ ''*Error marshaling DataVolume status: '' @ err @ ''*'' @ newline @ newline
        | Inr yaml \<Rightarrow>
            (let storageClass = (case NestedMap [''spec''] dv of
                 NFound spec \<Rightarrow> found_or [] (NestedString [''storage'', ''storageClassName''] spec) | _ \<Rightarrow> [])
             in ''### '' @ dvName @ (if storageClass \<noteq> [] then '' (storageClass: '' @ storageClass @ '')'' else [])
                @ newline @ newline @ fenced yaml @ newline @ newline))
   | _ \<Rightarrow> ''### '' @ dvName @ newline @ newline @ ''*DataVolume exists but has no status*'' @ newline @ newline)"

definition fetch_dv :: "'w report_env \<Rightarrow> 'w vm_client \<Rightarrow> string \<Rightarrow> json \<Rightarrow> ('w, string) action" where
  "fetch_dv env c ns dvTemplate =
     (let dvName = (case as_object dvTemplate of None \<Rightarrow> []
          | Some dvMap \<Rightarrow> (case object_at ''metadata'' dvMap of None \<Rightarrow> [] | Some m \<Rightarrow> string_at ''name'' m))
      in if dvName = [] then retA []
         else bindA (tryA (kc_Get (vc_Client c) DataVolumeGVR ns dvName [])) (\<lambda>r. case r of
           Inr dv \<Rightarrow> retA (dv_section env dvName dv)
         | Inl err \<Rightarrow>
             (if \<not> vc_IsNotFound c err then
                retA (''### '' @ dvName @ newline @ newline @ ''*Error fetching DataVolume: '' @ err @ ''*'' @ newline @ newline)
              else bindA (tryA (kc_Get (vc_Client c) PersistentVolumeClaimGVR ns dvName [])) (\<lambda>p.
                retA (''### '' @ dvName @ newline @ newline @ ''*DataVolume not found*'' @ newline @ newline @ pvc_section env p)))))"

definition fetchDataVolumeStatus :: "'w report_env \<Rightarrow> 'w vm_client \<Rightarrow> string \<Rightarrow> json_object option \<Rightarrow> ('w, string) action" where
  "fetchDataVolumeStatus env c ns vm =
     (let head = section_head ''DataVolume/PVC Status'' in
      case vm of
        None \<Rightarrow> retA (head @ ''*No VM available to extract DataVolume references*'')
      | Some obj \<Rightarrow>
          (case NestedSlice [''spec'', ''dataVolumeTemplates''] obj of
             NFound dvTemplates \<Rightarrow>
               (if dvTemplates = [] then retA (head @ ''*No dataVolumeTemplates defined in VM spec*'')
                else bindA (forA dvTemplates (fetch_dv env c ns)) (\<lambda>parts. retA (head @ concat parts)))
           | _ \<Rightarrow> retA (head @ ''*No dataVolumeTemplates defined in VM spec*'')))"

definition ci_section :: "(json \<Rightarrow> string) \<Rightarrow> json_object \<Rightarrow> string \<Rightarrow> json_object \<Rightarrow> string" where
  "ci_section fmtV volMap ciKey ciData =
     (let userData = cloudInitData ciData ''userData'' ''userDataBase64'';
          networkData = cloudInitData ciData ''networkData'' ''networkDataBase64''
      in ''### '' @ string_at ''name'' volMap @ '' (type: '' @ ciKey @ '')'' @ newline @ newline
         @ (if userData \<noteq> [] then fenced (redactCloudInitSensitiveFields userData @ newline) @ newline @ newline else [])
         @ (if networkData \<noteq> [] then ''**networkData:**'' @ newline @ fenced (redactCloudInitSensitiveFields networkData @ newline) @ newline @ newline else [])
         @ (if userData = [] \<and> networkData = [] then
              (case object_at ''userDataSecretRef'' ciData of None \<Rightarrow> []
               | Some secretRef \<Rightarrow> ''*userData from Secret: '' @ fmtV (arg secretRef ''name'') @ ''*'' @ newline @ newline)
            else []))"

definition extractCloudInit :: "(json \<Rightarrow> string) \<Rightarrow> json_object option \<Rightarrow> json_object option \<Rightarrow> string" where
  "extractCloudInit fmtV vm vmi =
     (let volumes = volumes_of vm vmi;
          parts = concat (map (\<lambda>vol. case as_object vol of
              None \<Rightarrow> []
            | Some volMap \<Rightarrow>
                List.map_filter (\<lambda>ciKey. map_option (ci_section fmtV volMap ciKey) (object_at ciKey volMap)) ci_keys) volumes)
      in if volumes = [] then section_head ''Cloud-Init Configuration'' @ ''*No volumes found*''
         else if parts = [] then section_head ''Cloud-Init Configuration'' @ ''*No cloud-init volumes configured*''
         else section_head ''Cloud-Init Configuration'' @ concat parts)"

definition troubleshoot :: "'w report_env \<Rightarrow> 'w vm_params \<Rightarrow> ('w, ToolCallResult) action" where
  "troubleshoot env params =
     (let c = hp_KubernetesClient params in
      with_string (hp_Arguments params) ''namespace'' (\<lambda>ns.
      with_string (hp_Arguments params) ''name'' (\<lambda>name.
        bindA (fetchVMStatus env c ns name) (\<lambda>(vmYaml, vm).
        bindA (fetchVMIStatus env c ns name) (\<lambda>(vmiYaml, vmi).
        bindA (fetchDataVolumeStatus env c ns vm) (\<lambda>dataVolumeYaml.
        bindA (fetchVirtLauncherPod env c ns name) (\<lambda>(podYaml, podNames, podDiag).
        bindA (fetchVirtLauncherPodLogs c ns podNames) (\<lambda>podLogsText.
        bindA (fetchEvents env c ns name podNames) (\<lambda>eventsYaml.
        bindA (analyzeIssues env c ns name vm vmi podDiag) (\<lambda>issuesSection.
          retA (NewToolCallResult
            (''# VirtualMachine Diagnostic Report: '' @ ns @ ''/'' @ name @ newline @ newline
             @ Join (newline @ newline) [issuesSection, vmYaml, vmiYaml, fetchVolumes env ns name vm vmi, dataVolumeYaml,
                 extractCloudInit (re_FmtV env) vm vmi, podYaml, podLogsText, eventsYaml] @ newline) None)))))))))))"

section \<open>The toolset\<close>

definition vm_tool ::
  "(string \<Rightarrow> string \<Rightarrow> string) \<Rightarrow> string \<Rightarrow> string \<Rightarrow> bool \<Rightarrow> bool \<Rightarrow> bool \<Rightarrow> bool \<Rightarrow> (string \<times> string) list
   \<Rightarrow> ('w vm_params \<Rightarrow> ('w, ToolCallResult) action) \<Rightarrow> ('w \<Rightarrow> bool) \<Rightarrow> ('w, 'w vm_client) ServerTool" where
  "vm_tool doc name title readOnly destructive idempotent openWorld props handler compatible =
     (let t = core_tool doc name title (Some readOnly) (Some destructive) (Some idempotent) props handler [compatible] in
      t\<lparr>st_Tool := (st_Tool t)\<lparr>tl_Annotations := (tl_Annotations (st_Tool t))\<lparr>an_OpenWorldHint := Some openWorld\<rparr>\<rparr>\<rparr>)"

definition vm_clone_Tools where
  "vm_clone_Tools doc env p =
     [vm_tool doc ''vm_clone'' ''Virtual Machine: Clone'' False True True False
        [(''namespace'', ''string''), (''name'', ''string''), (''targetName'', ''string'')] (cloneVM (re_Env env)) (HasVirtualMachine p)]"

definition vm_create_Tools where
  "vm_create_Tools doc env p =
     [vm_tool doc ''vm_create'' ''Virtual Machine: Create'' False True True False
        [(''namespace'', ''string''), (''name'', ''string''), (''workload'', ''string''), (''instancetype'', ''string''), (''preference'', ''string''),
         (''size'', ''string''), (''performance'', ''string''), (''autostart'', ''boolean''), (''storage'', ''string''), (''networks'', ''array'')]
        (create_vm (re_Env env)) (HasVirtualMachine p)]"

definition vm_guestagent_Tools where
  "vm_guestagent_Tools doc env p =
     [vm_tool doc ''vm_guest_info'' ''Virtual Machine: Guest Agent Info'' True False True False
        [(''namespace'', ''string''), (''name'', ''string''), (''info_type'', ''string'')] (guestInfo (re_Env env)) (HasVirtualMachine p)]"

definition vm_lifecycle_Tools where
  "vm_lifecycle_Tools doc env p =
     [vm_tool doc ''vm_lifecycle'' ''Virtual Machine: Lifecycle'' False True False False
        [(''namespace'', ''string''), (''name'', ''string''), (''action'', ''string'')] (lifecycle (re_Env env)) (HasVirtualMachine p)]"

definition vm_template_Tools where
  "vm_template_Tools doc env p =
     [vm_tool doc ''vm_create_from_template'' ''Virtual Machine: Create from Template'' False True False False
        [(''namespace'', ''string''), (''template_name'', ''string''), (''parameters'', ''object'')] (createFromTemplate (re_Env env)) (HasVirtualMachineTemplate p)]"

definition vm_troubleshoot_Tools where
  "vm_troubleshoot_Tools doc env p =
     [vm_tool doc ''vm_troubleshoot'' ''Virtual Machine: Troubleshoot'' True False True True
        [(''namespace'', ''string''), (''name'', ''string'')] (troubleshoot env) (HasVirtualMachine p)]"

definition kubevirt_GetTools ::
  "(string \<Rightarrow> string \<Rightarrow> string) \<Rightarrow> 'w report_env \<Rightarrow> 'w FilteringProvider \<Rightarrow> ('w, 'w vm_client) ServerTool list" where
  "kubevirt_GetTools doc env p =
     vm_clone_Tools doc env p @ vm_create_Tools doc env p @ vm_guestagent_Tools doc env p @ vm_lifecycle_Tools doc env p
     @ vm_template_Tools doc env p @ vm_troubleshoot_Tools doc env p"

section \<open>The report only reads\<close>

lemma checks_keep:
  assumes "reads_keep P (vc_Client c)"
  shows "keeps P (checkStorageClass c vm)" "keeps P (checkMigrationStatus env c ns name)"
proof -
  have l: "keeps P (listAvailableStorageClasses c)"
    unfolding listAvailableStorageClasses_def by (intro keeps_intros reads_keepD assms)
  then have "keeps P (check_template_class c t)" for t
    unfolding check_template_class_def by (intro keeps_intros reads_keepD assms)
  then show "keeps P (checkStorageClass c vm)" unfolding checkStorageClass_def by (intro keeps_intros)
  have "keeps P (\<lambda>w. (Inr (f w), w))" for f :: "'a \<Rightarrow> issue list" by (simp add: keeps_def)
  then show "keeps P (checkMigrationStatus env c ns name)"
    unfolding checkMigrationStatus_def by (intro keeps_intros reads_keepD assms)
qed

lemma sections_keep:
  assumes "reads_keep P (vc_Client c)"
  shows "keeps P (fetchVMStatus env c ns name)" "keeps P (fetchVMIStatus env c ns name)" "keeps P (fetchDataVolumeStatus env c ns vm)"
    "keeps P (fetchVirtLauncherPod env c ns name)" "keeps P (fetchVirtLauncherPodLogs c ns pods)" "keeps P (fetchEvents env c ns name pods)"
    "keeps P (analyzeIssues env c ns name vm vmi diag)"
proof -
  show "keeps P (fetchVMStatus env c ns name)" "keeps P (fetchVMIStatus env c ns name)" "keeps P (fetchVirtLauncherPod env c ns name)"
    unfolding fetchVMStatus_def fetchVMIStatus_def fetchVirtLauncherPod_def by (intro keeps_intros reads_keepD assms)+
  show "keeps P (fetchVirtLauncherPodLogs c ns pods)" "keeps P (fetchEvents env c ns name pods)"
    unfolding fetchVirtLauncherPodLogs_def fetchEvents_def by (intro keeps_intros PodsLog_keeps EventsList_keeps assms)+
  have "keeps P (fetch_dv env c ns t)" for t unfolding fetch_dv_def by (intro keeps_intros reads_keepD assms)
  then show "keeps P (fetchDataVolumeStatus env c ns vm)" unfolding fetchDataVolumeStatus_def by (intro keeps_intros)
  show "keeps P (analyzeIssues env c ns name vm vmi diag)" unfolding analyzeIssues_def by (intro keeps_intros checks_keep assms)
qed

lemma troubleshoot_keeps: "reads_keep P (vc_Client (hp_KubernetesClient params)) \<Longrightarrow> keeps P (troubleshoot env params)"
  unfolding troubleshoot_def with_string_def Let_def by (intro keeps_intros sections_keep)

lemma guest_queries_keep:
  assumes "\<And>ns path. keeps P (vc_GetSub c ns path)"
  shows "keeps P (fetchGuestInfo c ns name infoType)"
proof -
  have q: "keeps P (guest_query c sub what key ns name)" for sub what key
    unfolding guest_query_def getVMISubresource_def by (intro keeps_intros assms)
  have "keeps P (GetGuestOSInfo c ns name)" "keeps P (GetFilesystemInfo c ns name)" "keeps P (GetUserInfo c ns name)" "keeps P (GetNetworkInfo c ns name)"
    unfolding GetGuestOSInfo_def GetFilesystemInfo_def GetUserInfo_def GetNetworkInfo_def by (rule q)+
  then show ?thesis unfolding fetchGuestInfo_def GetAllGuestInfo_def collect_info_def by (intro keeps_intros)
qed

lemma guestInfo_keeps:
  assumes "reads_keep P (vc_Client (hp_KubernetesClient params))" "\<And>ns path. keeps P (vc_GetSub (hp_KubernetesClient params) ns path)"
  shows "keeps P (guestInfo env params)"
  unfolding guestInfo_def with_string_def validateVMI_def by (intro keeps_intros reads_keepD guest_queries_keep assms)

lemma vm_tool_simps:
  "an_ReadOnlyHint (tl_Annotations (st_Tool (vm_tool doc name title r d i o' props h f))) = Some r"
  "tl_Name (st_Tool (vm_tool doc name title r d i o' props h f)) = name"
  "st_Handler (vm_tool doc name title r d i o' props h f) = h"
  "st_TargetCompatibilityFilters (vm_tool doc name title r d i o' props h f) = [f]"
  by (simp_all add: vm_tool_def core_tool_def)

lemmas kubevirt_tool_defs = kubevirt_GetTools_def vm_clone_Tools_def vm_create_Tools_def vm_guestagent_Tools_def
  vm_lifecycle_Tools_def vm_template_Tools_def vm_troubleshoot_Tools_def

text \<open>
  C7: under \<open>read_only\<close> the tools for virtual machines change nothing. Of the toolset the server then offers
  only the guest agent's information and the diagnostic report, and a call of either keeps whatever the
  reading calls to the cluster and to the guest agent keep: no create, update, delete or action is sent.
\<close>

theorem kubevirt_read_only:
  assumes "t \<in> set (kubevirt_GetTools doc env fp)" "c_ReadOnly cfg" "isToolApplicable cfg w1 t"
    and "reads_keep P (vc_Client (hp_KubernetesClient params))"
    and "\<And>ns path. keeps P (vc_GetSub (hp_KubernetesClient params) ns path)"
    and "P w"
  shows "tl_Name (st_Tool t) \<in> {''vm_guest_info'', ''vm_troubleshoot''} \<and> P (snd (st_Handler t params w))"
proof -
  have "an_ReadOnlyHint (tl_Annotations (st_Tool t)) = Some True" using assms(2,3) by (simp add: isToolApplicable_iff)
  then have "tl_Name (st_Tool t) = ''vm_guest_info'' \<and> st_Handler t = guestInfo (re_Env env)
      \<or> tl_Name (st_Tool t) = ''vm_troubleshoot'' \<and> st_Handler t = troubleshoot env"
    using assms(1) by (auto simp: kubevirt_tool_defs vm_tool_simps)
  then show ?thesis
    using keepsD [OF troubleshoot_keeps [OF assms(4)] assms(6)] keepsD [OF guestInfo_keeps [OF assms(4,5)] assms(6)] by auto
qed

section \<open>The report is always given\<close>

lemma sections_total:
  "total (fetchVMStatus env c ns name)" "total (fetchVMIStatus env c ns name)" "total (fetchDataVolumeStatus env c ns vm)"
  "total (fetchVirtLauncherPod env c ns name)" "total (fetchVirtLauncherPodLogs c ns pods)" "total (fetchEvents env c ns name pods)"
  "total (analyzeIssues env c ns name vm vmi diag)"
proof -
  show "total (fetchVMStatus env c ns name)" "total (fetchVMIStatus env c ns name)" "total (fetchVirtLauncherPod env c ns name)"
    "total (fetchVirtLauncherPodLogs c ns pods)" "total (fetchEvents env c ns name pods)"
    unfolding fetchVMStatus_def fetchVMIStatus_def fetchVirtLauncherPod_def fetchVirtLauncherPodLogs_def fetchEvents_def
    by (intro total_intros)+
  show "total (fetchDataVolumeStatus env c ns vm)" unfolding fetchDataVolumeStatus_def fetch_dv_def by (intro total_intros)
  have "total (\<lambda>w. (Inr (f w), w))" for f :: "'a \<Rightarrow> issue list" by (simp add: total_def)
  then have "total (checkMigrationStatus env c ns name)" unfolding checkMigrationStatus_def by (intro total_intros)
  moreover have "total (checkStorageClass c vm)"
    unfolding checkStorageClass_def check_template_class_def listAvailableStorageClasses_def by (intro total_intros)
  ultimately show "total (analyzeIssues env c ns name vm vmi diag)" unfolding analyzeIssues_def by (intro total_intros)
qed

lemma report_ok: "HasPrefix txt p \<Longrightarrow> \<exists>txt'. NewToolCallResult txt None = NewToolCallResult txt' None \<and> HasPrefix txt' p"
  by blast

lemma HasPrefix_title: "HasPrefix (a @ b @ c @ d @ e @ t) (a @ b @ c @ d @ e)"
  by (metis HasPrefix_append append.assoc)

text \<open>
  Whatever the cluster answers, the diagnostic report is given. With a namespace and a name the handler
  returns a text that starts with the title of the report, and no error: every call that fails becomes a
  line of its section.
\<close>

theorem troubleshoot_reports:
  assumes "RequiredString (hp_Arguments params) ''namespace'' = Inr ns" "RequiredString (hp_Arguments params) ''name'' = Inr name"
  shows "\<exists>txt. fst (troubleshoot env params w) = Inr (NewToolCallResult txt None)
    \<and> HasPrefix txt (''# VirtualMachine Diagnostic Report: '' @ ns @ ''/'' @ name @ newline)"
proof -
  let ?Q = "\<lambda>r. \<exists>txt. r = NewToolCallResult txt None \<and> HasPrefix txt (''# VirtualMachine Diagnostic Report: '' @ ns @ ''/'' @ name @ newline)"
  have "gives ?Q (troubleshoot env params)"
    unfolding troubleshoot_def Let_def with_string_def fail_result_def assms sum.case
    by (intro gives_bind gives_prod gives_ret sections_total report_ok HasPrefix_title)
  then show ?thesis unfolding gives_def by metis
qed

text \<open>A cluster without virtual machines, and the arguments of a call.\<close>

definition empty_cluster :: "nat vm_client" where
  "empty_cluster =
     \<lparr>vc_Client = idle_client, vc_Create = (\<lambda>_ _ _. failA ''no''), vc_NewSubresourceClient = Inr (), vc_GetSub = (\<lambda>_ _. failA ''no agent''),
      vc_PutSub = (\<lambda>_ _ _. failA ''no''), vc_NewTemplateClient = Inr (), vc_PostTemplate = (\<lambda>_ _ _. failA ''no''), vc_IsNotFound = (\<lambda>_. True)\<rparr>"

definition demo_report_env :: "nat report_env" where
  "demo_report_env =
     \<lparr>re_Env = \<lparr>ve_Out = co_Out demo_core_env, ve_DecodeYaml = (\<lambda>_. Inl ''no''), ve_AccessErr = (\<lambda>_. ''bad field''), ve_Order = (\<lambda>_ xs. xs)\<rparr>,
      re_FmtV = (\<lambda>_. []), re_Created = (\<lambda>_. None), re_Now = (\<lambda>_. 0), re_Overflow = (\<lambda>_. 0), re_Event = (\<lambda>_. Inl ''no''), re_TimeString = (\<lambda>_. [])\<rparr>"

definition demo_report_params :: "nat vm_params" where
  "demo_report_params = 
     \<lparr>hp_Context = no_session, hp_BaseConfig = zeroConfig, hp_KubernetesClient = empty_cluster,
      hp_Arguments = [(''namespace'', JStr ''d''), (''name'', JStr ''v'')], hp_ListOutput = Some ''yaml''\<rparr>"

theorem troubleshoot_reports_witness:
  "\<exists>txt. fst (troubleshoot demo_report_env demo_report_params 0) = Inr (NewToolCallResult txt None)
    \<and> HasPrefix txt (''# VirtualMachine Diagnostic Report: '' @ ''d'' @ ''/'' @ ''v'' @ newline)"
  by (rule troubleshoot_reports) (simp_all add: demo_report_params_def RequiredString_def arg_def)

definition kubevirt_fp :: "nat FilteringProvider" where
  "kubevirt_fp = demo_fp\<lparr>fp_AnyTargetHasGVKs := (\<lambda>_ _. True)\<rparr>"

theorem kubevirt_read_only_witness:
  "tl_Name (st_Tool (List.last (kubevirt_GetTools (\<lambda>_ _. []) demo_report_env kubevirt_fp))) = ''vm_troubleshoot''
   \<and> snd (st_Handler (List.last (kubevirt_GetTools (\<lambda>_ _. []) demo_report_env kubevirt_fp)) demo_report_params 0) = 0
   \<and> \<not> isToolApplicable (zeroConfig\<lparr>c_ReadOnly := True\<rparr>) 0 (hd (kubevirt_GetTools (\<lambda>_ _. []) demo_report_env kubevirt_fp))"
proof -
  let ?tools = "kubevirt_GetTools (\<lambda>_ _. []) demo_report_env kubevirt_fp" and ?cfg = "zeroConfig\<lparr>c_ReadOnly := True\<rparr>"
  have t: "List.last ?tools \<in> set ?tools" "tl_Name (st_Tool (List.last ?tools)) = ''vm_troubleshoot''"
    by (simp_all add: kubevirt_tool_defs vm_tool_simps)
  have f: "HasVirtualMachine kubevirt_fp 0" by (simp add: HasVirtualMachine_def kubevirt_fp_def)
  have a: "isToolApplicable ?cfg 0 (List.last ?tools)" "\<not> isToolApplicable ?cfg 0 (hd ?tools)"
    using f by (simp_all add: isToolApplicable_iff kubevirt_tool_defs vm_tool_simps zeroConfig_def)
  have "snd (st_Handler (List.last ?tools) demo_report_params 0) = 0"
    using kubevirt_read_only [where P = "\<lambda>w. w = 0" and params = demo_report_params and cfg = ?cfg, OF t(1) _ a(1)]
    by (simp add: demo_report_params_def empty_cluster_def idle_reads keeps_fail)
  then show ?thesis using t(2) a(2) by blast
qed

text \<open>
  The status of a container calls its former state \<open>lastState\<close>. The summary looks for another name, so a
  container that was killed and restarted looks as if it had never ended.
\<close>

lemma summary_misses_last_state:
  "container_summary [(''name'', JStr ''c''), (''ready'', JBool True), (''lastState'', JObj [(''terminated'', JObj [(''reason'', JStr ''OOMKilled'')])])]
   = [(''name'', JStr ''c''), (''ready'', JBool True)]"
  by (simp add: container_summary_def arg_def object_at_def)

text \<open>Commands in cloud-init data that is encoded are not found: only \<open>userData\<close> is looked at.\<close>

lemma encoded_commands_missed:
  assumes "\<And>vol volMap key ci. vol \<in> set (volumes_of vm vmi) \<Longrightarrow> as_object vol = Some volMap \<Longrightarrow> object_at key volMap = Some ci
    \<Longrightarrow> string_at ''userData'' ci = []"
  shows "checkCloudInitCommands vm vmi = []"
  using assms by (auto simp: checkCloudInitCommands_def Let_def ci_keys_def split: option.splits)

end
