(* ===== verification/Logging.thy ===== *)
theory Logging
  imports Sanitize Static_Config
begin

text \<open>
  Logging: the destination of the server's log (\<open>src/pkg/logging\<close>), the notifications of log messages to clients (\<open>src/pkg/mcplog\<close>),
  attributes (\<open>src/pkg/klogutil\<close>) and the middlewares of \<open>src/pkg/mcp/middleware.go\<close> that log the protocol. Mutexes make each operation on
  the sink one step. klog calls the sink with the text of a record and drops records above its verbosity.
\<close>

section \<open>The destination\<close>

datatype dest = HttpOut | ErrOut | Discard | LogFile nat

text \<open>
  A log file is known by its descriptor, which is new each time a file is opened. \<open>lw_lost\<close> counts writes to closed descriptors.
\<close>

record log_world =
  lw_next :: nat
  lw_open :: "nat set"
  lw_path :: "nat \<Rightarrow> string"
  lw_written :: "(dest \<times> string) list"
  lw_lost :: nat
  lw_verbosity :: int

record Sink =
  sk_httpMode :: bool
  sk_writer :: "dest option"
  sk_file :: "nat option"
  sk_lastLogFile :: string
  sk_applied :: bool
  sk_logProvider :: bool

definition StderrSentinel :: string where "StderrSentinel = ''stderr''"

definition write_dest :: "dest \<Rightarrow> string \<Rightarrow> log_world \<Rightarrow> log_world" where
  "write_dest d p w = (case d of
     Discard \<Rightarrow> w
   | LogFile f \<Rightarrow> if f \<in> lw_open w then w\<lparr>lw_written := lw_written w @ [(d, p)]\<rparr> else w\<lparr>lw_lost := Suc (lw_lost w)\<rparr>
   | _ \<Rightarrow> w\<lparr>lw_written := lw_written w @ [(d, p)]\<rparr>)"

definition Sink_Write :: "string \<Rightarrow> Sink \<Rightarrow> log_world \<Rightarrow> log_world" where
  "Sink_Write p s w = (case sk_writer s of None \<Rightarrow> write_dest Discard p w | Some d \<Rightarrow> write_dest d p w)"

definition open_file :: "string \<Rightarrow> log_world \<Rightarrow> nat \<times> log_world" where
  "open_file path w = (lw_next w, w\<lparr>lw_next := Suc (lw_next w), lw_open := insert (lw_next w) (lw_open w), lw_path := (lw_path w)(lw_next w := path)\<rparr>)"

definition close_file :: "nat option \<Rightarrow> log_world \<Rightarrow> log_world" where
  "close_file f w = (case f of None \<Rightarrow> w | Some f \<Rightarrow> w\<lparr>lw_open := lw_open w - {f}\<rparr>)"

text \<open>The outcomes of opening and closing a file are given; the descriptor is released even if closing fails.\<close>

definition swap_writer :: "string option \<Rightarrow> dest \<Rightarrow> nat option \<Rightarrow> Sink \<Rightarrow> log_world \<Rightarrow> Sink \<times> log_world" where
  "swap_writer closeErr d f s w =
     (let s1 = s\<lparr>sk_writer := Some d, sk_file := f\<rparr>; w1 = close_file (sk_file s) w
      in case (sk_file s, closeErr) of
           (Some _, Some e) \<Rightarrow> (s1, Sink_Write (''logging: failed to close previous log file: '' @ e) s1 w1)
         | _ \<Rightarrow> (s1, w1))"

definition applyDestination ::
  "string option \<Rightarrow> string option \<Rightarrow> StaticConfig \<Rightarrow> Sink \<Rightarrow> log_world \<Rightarrow> (string, Sink) result \<times> log_world" where
  "applyDestination openErr closeErr cfg s w =
     (let f = c_LogFile cfg in
      if sk_applied s \<and> f = sk_lastLogFile s \<and> (f = [] \<or> f = StderrSentinel) then (Inr s, w)
      else
        (let s1 = s\<lparr>sk_lastLogFile := f, sk_applied := True\<rparr> in
         if f = [] then apfst Inr (swap_writer closeErr (if sk_httpMode s then HttpOut else Discard) None s1 w)
         else if f = StderrSentinel then apfst Inr (swap_writer closeErr ErrOut None s1 w)
         else (case openErr of
                 Some e \<Rightarrow> (Inl (''failed to open log file '' @ Quote f @ '': '' @ e), w)
               | None \<Rightarrow> (let (fd, w1) = open_file f w in apfst Inr (swap_writer closeErr (LogFile fd) (Some fd) s1 w1)))))"

definition set_verbosity :: "StaticConfig \<Rightarrow> log_world \<Rightarrow> log_world" where
  "set_verbosity cfg w = (if c_LogLevel cfg \<ge> 0 then w\<lparr>lw_verbosity := c_LogLevel cfg\<rparr> else w)"

definition new_sink :: "StaticConfig \<Rightarrow> Sink" where
  "new_sink cfg = \<lparr>sk_httpMode = (c_Port cfg \<noteq> []), sk_writer = None, sk_file = None, sk_lastLogFile = [], sk_applied = False, sk_logProvider = False\<rparr>"

definition NewSink :: "bool \<Rightarrow> string option \<Rightarrow> StaticConfig \<Rightarrow> log_world \<Rightarrow> (string, Sink) result \<times> log_world" where
  "NewSink otel openErr cfg w =
     (case applyDestination openErr None cfg (new_sink cfg) w of
        (Inl e, w1) \<Rightarrow> (Inl e, w1)
      | (Inr s, w1) \<Rightarrow> (Inr (s\<lparr>sk_logProvider := otel\<rparr>), set_verbosity cfg w1))"

definition Sink_Reload :: "string option \<Rightarrow> string option \<Rightarrow> StaticConfig \<Rightarrow> Sink \<Rightarrow> log_world \<Rightarrow> (string, Sink) result \<times> log_world" where
  "Sink_Reload openErr closeErr cfg s w =
     (case applyDestination openErr closeErr cfg s w of
        (Inl e, w1) \<Rightarrow> (Inl e, w1)
      | (Inr s1, w1) \<Rightarrow> (Inr s1, set_verbosity cfg w1))"

definition Sink_Close :: "string option \<Rightarrow> Sink \<Rightarrow> log_world \<Rightarrow> string option \<times> Sink \<times> log_world" where
  "Sink_Close closeErr s w =
     (let s1 = s\<lparr>sk_logProvider := False, sk_writer := Some ErrOut, sk_file := None\<rparr>
      in (if sk_file s = None then None else closeErr, s1, close_file (sk_file s) w))"

section \<open>Two sinks\<close>

text \<open>Values of attributes: contexts, and others by their text.\<close>

datatype log_value = Ctx string | Val string

type_synonym log_record = "int \<times> string \<times> (log_value list)"

text \<open>A trailing key without a value stays.\<close>

fun stripContextValues :: "log_value list \<Rightarrow> log_value list" where
  "stripContextValues [] = []"
| "stripContextValues [k] = [k]"
| "stripContextValues (k # Ctx c # kvs) = stripContextValues kvs"
| "stripContextValues (k # Val v # kvs) = k # Val v # stripContextValues kvs"

text \<open>A sink by the levels it takes and the records it got.\<close>

record log_sink =
  ls_Enabled :: "int \<Rightarrow> bool"
  ls_Records :: "log_record list"

definition sink_Info :: "int \<Rightarrow> string \<Rightarrow> log_value list \<Rightarrow> log_sink \<Rightarrow> log_sink" where
  "sink_Info level msg kvs s = (if ls_Enabled s level then s\<lparr>ls_Records := ls_Records s @ [(level, msg, kvs)]\<rparr> else s)"

record teeSink =
  te_primary :: log_sink
  te_secondary :: log_sink

definition tee_Enabled :: "int \<Rightarrow> teeSink \<Rightarrow> bool" where
  "tee_Enabled level t \<longleftrightarrow> ls_Enabled (te_primary t) level \<or> ls_Enabled (te_secondary t) level"

definition tee_Info :: "int \<Rightarrow> string \<Rightarrow> log_value list \<Rightarrow> teeSink \<Rightarrow> teeSink" where
  "tee_Info level msg kvs t =
     \<lparr>te_primary = sink_Info level msg (stripContextValues kvs) (te_primary t), te_secondary = sink_Info level msg kvs (te_secondary t)\<rparr>"

section \<open>Messages to clients\<close>

datatype Level = LevelDebug | LevelInfo | LevelNotice | LevelWarning | LevelError | LevelCritical | LevelAlert | LevelEmergency

fun Level_String :: "Level \<Rightarrow> string" where
  "Level_String LevelDebug = ''debug''"
| "Level_String LevelInfo = ''info''"
| "Level_String LevelNotice = ''notice''"
| "Level_String LevelWarning = ''warning''"
| "Level_String LevelError = ''error''"
| "Level_String LevelCritical = ''critical''"
| "Level_String LevelAlert = ''alert''"
| "Level_String LevelEmergency = ''emergency''"

text \<open>The verbosity at which the server's own log gets the message; errors are always logged.\<close>

fun server_level :: "Level \<Rightarrow> int" where
  "server_level LevelError = 0"
| "server_level LevelCritical = 0"
| "server_level LevelAlert = 0"
| "server_level LevelEmergency = 0"
| "server_level LevelWarning = 1"
| "server_level LevelNotice = 1"
| "server_level _ = 2"

text \<open>What a call adds to the server's log and what it sends to the session of the request, if it has one. The session may refuse it.\<close>

definition SendMCPLog :: "('s \<Rightarrow> string option) \<Rightarrow> 's option \<Rightarrow> Level \<Rightarrow> string \<Rightarrow> (int \<times> string) list \<times> ('s \<times> string \<times> string) list" where
  "SendMCPLog refuse session level message =
     ((server_level level, message) # (case session of None \<Rightarrow> [] | Some s \<Rightarrow> (case refuse s of None \<Rightarrow> [] | Some e \<Rightarrow> [(3, ''failed to send log to MCP client'')])),
      case session of None \<Rightarrow> [] | Some s \<Rightarrow> [(s, Level_String level, Sanitize message)])"

text \<open>The classes of errors that \<open>apimachinery\<close> tells apart; an error may be in several.\<close>

datatype k8s_class = NotFound | Forbidden | Unauthorized | AlreadyExists | Invalid | BadRequest | Conflict | IsTimeout | ServerTimeout | ServiceUnavailable
  | TooManyRequests | APIStatus

definition classifyK8sError :: "(k8s_class \<Rightarrow> bool) option \<Rightarrow> string \<Rightarrow> (Level \<times> string) option" where
  "classifyK8sError err operation = (case err of
     None \<Rightarrow> None
   | Some is \<Rightarrow>
       if is NotFound then Some (LevelInfo, ''Resource not found - it may not exist or may have been deleted'')
       else if is Forbidden then Some (LevelError, ''Permission denied - check RBAC permissions for '' @ operation)
       else if is Unauthorized then Some (LevelError, ''Authentication failed - check cluster credentials'')
       else if is AlreadyExists then Some (LevelWarning, ''Resource already exists'')
       else if is Invalid then Some (LevelError, ''Invalid resource specification - check resource definition'')
       else if is BadRequest then Some (LevelError, ''Invalid request - check parameters'')
       else if is Conflict then Some (LevelError, ''Resource conflict - resource may have been modified'')
       else if is IsTimeout then Some (LevelError, ''Request timeout - cluster may be slow or overloaded'')
       else if is ServerTimeout then Some (LevelError, ''Server timeout - cluster may be slow or overloaded'')
       else if is ServiceUnavailable then Some (LevelError, ''Service unavailable - cluster may be unreachable'')
       else if is TooManyRequests then Some (LevelWarning, ''Rate limited - too many requests to the cluster'')
       else if is APIStatus then Some (LevelError, ''Operation failed - cluster may be unreachable or experiencing issues'')
       else None)"

definition HandleK8sError ::
  "('s \<Rightarrow> string option) \<Rightarrow> 's option \<Rightarrow> (k8s_class \<Rightarrow> bool) option \<Rightarrow> string \<Rightarrow> (int \<times> string) list \<times> ('s \<times> string \<times> string) list" where
  "HandleK8sError refuse session err operation = (case classifyK8sError err operation of
     None \<Rightarrow> ([], []) | Some (level, message) \<Rightarrow> SendMCPLog refuse session level message)"

section \<open>The protocol log\<close>

definition redactedHeaders :: "string list" where
  "redactedHeaders = [''Authorization'', ''authorization'', ''Proxy-Authorization'', ''proxy-authorization'', ''Cookie'', ''cookie'', ''X-Api-Key'', ''x-api-key'',
     ''X-Auth-Token'', ''x-auth-token'', ''kubernetes-authorization'']"

text \<open>\<open>Header.WriteSubset\<close>: the headers whose key, as it is in the map, is not excluded. The map of a request has
  canonical keys; it is written in the order of its keys.\<close>

definition WriteSubset :: "(string \<times> string) list \<Rightarrow> string list \<Rightarrow> string" where
  "WriteSubset headers exclude = concat (map (\<lambda>(k, v). k @ '': '' @ v @ [CHR 0x0D, CHR 0x0A]) (filter (\<lambda>(k, _). k \<notin> set exclude) headers))"

text \<open>
  A request by the JSON of its parameters; for the call of a tool also its name and the text \<open>%v\<close> of its arguments, if they can be
  parsed; its headers, if it came over HTTP.
\<close>

record logged_request =
  rq_Method :: string
  rq_Params :: string
  rq_ToolCall :: "(string \<times> string) option option"
  rq_Header :: "(string \<times> string) list option"

type_synonym attrs = "(string \<times> string) list"

definition log_at :: "int \<Rightarrow> int \<Rightarrow> string \<Rightarrow> attrs \<Rightarrow> (int \<times> string \<times> attrs) list" where
  "log_at verbosity level msg kvs = (if level \<le> verbosity then [(level, msg, kvs)] else [])"

definition log_call :: "int \<Rightarrow> logged_request \<Rightarrow> (int \<times> string \<times> attrs) list" where
  "log_call v rq = (case rq_ToolCall rq of
     None \<Rightarrow> []
   | Some call \<Rightarrow> log_at v 5 ''mcp tool call''
       ((case call of None \<Rightarrow> [] | Some (name, args) \<Rightarrow> [(''mcp.tool_call.tool_name'', name), (''mcp.tool_call.arguments'', Sanitize args)])
        @ (case rq_Header rq of Some hs \<Rightarrow> if 7 \<le> v then [(''mcp.tool_call.headers'', Sanitize (WriteSubset hs redactedHeaders))] else [] | None \<Rightarrow> [])))"

text \<open>What is logged, with the outcome of the handler: an error, or the JSON of the result.\<close>

definition protocolReceivingMiddleware :: "int \<Rightarrow> logged_request \<Rightarrow> (string, string) result \<Rightarrow> (int \<times> string \<times> attrs) list" where
  "protocolReceivingMiddleware v rq outcome =
     log_at v 6 ''mcp protocol'' [(''mcp.client.method'', rq_Method rq), (''mcp.params'', Sanitize (rq_Params rq))]
     @ log_call v rq
     @ (case outcome of
          Inl err \<Rightarrow> log_at v 6 ''mcp protocol'' [(''mcp.client.method'', rq_Method rq), (''exception.message'', Sanitize err)]
        | Inr json \<Rightarrow> log_at v 6 ''mcp protocol'' [(''mcp.client.method'', rq_Method rq), (''mcp.call.result'', Sanitize json)])"

text \<open>A notification has no result.\<close>

definition protocolSendingMiddleware :: "int \<Rightarrow> logged_request \<Rightarrow> (string, string option) result \<Rightarrow> (int \<times> string \<times> attrs) list" where
  "protocolSendingMiddleware v rq outcome =
     log_at v 6 ''mcp protocol'' [(''mcp.server.method'', rq_Method rq), (''mcp.params'', Sanitize (rq_Params rq))]
     @ (case outcome of
          Inl err \<Rightarrow> log_at v 6 ''mcp protocol'' [(''mcp.server.method'', rq_Method rq), (''exception.message'', Sanitize err)]
        | Inr None \<Rightarrow> []
        | Inr (Some json) \<Rightarrow> log_at v 6 ''mcp protocol'' [(''mcp.server.method'', rq_Method rq), (''mcp.call.result'', Sanitize json)])"

section \<open>The sink in use\<close>

text \<open>
  A process: the sink is made once; then records are written and the configuration is reloaded, until the sink is closed, after
  which records may still be written. The state keeps the configuration applied last, none after closing.
\<close>

inductive sink_run :: "StaticConfig \<Rightarrow> StaticConfig option \<Rightarrow> Sink \<Rightarrow> log_world \<Rightarrow> bool" for cfg0 where
  start: "NewSink otel openErr cfg0 w = (Inr s, w') \<Longrightarrow> lw_open w = {} \<Longrightarrow> lw_written w = [] \<Longrightarrow> lw_lost w = 0 \<Longrightarrow> sink_run cfg0 (Some cfg0) s w'"
| reload: "sink_run cfg0 cur s w \<Longrightarrow> Sink_Reload openErr closeErr cfg s w = (Inr s', w') \<Longrightarrow> cur \<noteq> None \<Longrightarrow> sink_run cfg0 (Some cfg) s' w'"
| failed: "sink_run cfg0 cur s w \<Longrightarrow> Sink_Reload openErr closeErr cfg s w = (Inl e, w') \<Longrightarrow> sink_run cfg0 cur s w'"
| log: "sink_run cfg0 cur s w \<Longrightarrow> sink_run cfg0 cur s (Sink_Write p s w)"
| close: "sink_run cfg0 cur s w \<Longrightarrow> Sink_Close closeErr s w = (err, s', w') \<Longrightarrow> sink_run cfg0 None s' w'"

text \<open>Where the log of a process in a mode goes under a configuration.\<close>

definition goes_to :: "bool \<Rightarrow> string \<Rightarrow> dest \<Rightarrow> (nat \<Rightarrow> string) \<Rightarrow> bool" where
  "goes_to http f d path \<longleftrightarrow>
     (if f = [] then d = (if http then HttpOut else Discard)
      else if f = StderrSentinel then d = ErrOut else (\<exists>fd. d = LogFile fd \<and> path fd = f))"

definition sink_inv :: "bool \<Rightarrow> string option \<Rightarrow> Sink \<Rightarrow> log_world \<Rightarrow> bool" where
  "sink_inv http f s w \<longleftrightarrow>
     sk_httpMode s = http \<and> sk_applied s \<and> lw_open w = set_option (sk_file s) \<and> (\<forall>fd \<in> lw_open w. fd < lw_next w)
   \<and> (\<exists>d. sk_writer s = Some d \<and> sk_file s = (case d of LogFile fd \<Rightarrow> Some fd | _ \<Rightarrow> None) \<and> (\<not> http \<longrightarrow> d \<noteq> HttpOut)
        \<and> (case f of Some f \<Rightarrow> goes_to http f d (lw_path w) \<and> sk_lastLogFile s = f | None \<Rightarrow> d = ErrOut))
   \<and> lw_lost w = 0 \<and> (\<not> http \<longrightarrow> HttpOut \<notin> fst ` set (lw_written w))"

lemma sink_invE:
  assumes "sink_inv http f s w"
  obtains d where "sk_writer s = Some d" "sk_file s = (case d of LogFile fd \<Rightarrow> Some fd | _ \<Rightarrow> None)" "\<not> http \<Longrightarrow> d \<noteq> HttpOut"
    "case f of Some f \<Rightarrow> goes_to http f d (lw_path w) \<and> sk_lastLogFile s = f | None \<Rightarrow> d = ErrOut"
    "sk_httpMode s = http" "sk_applied s" "lw_open w = set_option (sk_file s)" "\<forall>fd \<in> lw_open w. fd < lw_next w" "lw_lost w = 0"
    "\<not> http \<Longrightarrow> HttpOut \<notin> fst ` set (lw_written w)"
  using assms unfolding sink_inv_def by blast

lemma sink_invI:
  assumes "sk_writer s = Some d" "sk_file s = (case d of LogFile fd \<Rightarrow> Some fd | _ \<Rightarrow> None)" "\<not> http \<longrightarrow> d \<noteq> HttpOut"
    "case f of Some f \<Rightarrow> goes_to http f d (lw_path w) \<and> sk_lastLogFile s = f | None \<Rightarrow> d = ErrOut"
    "sk_httpMode s = http" "sk_applied s" "lw_open w = set_option (sk_file s)" "\<forall>fd \<in> lw_open w. fd < lw_next w" "lw_lost w = 0"
    "\<not> http \<longrightarrow> HttpOut \<notin> fst ` set (lw_written w)"
  shows "sink_inv http f s w"
  using assms unfolding sink_inv_def by blast

text \<open>Writing to a destination in use adds to it only.\<close>

lemma write_dest_fields:
  "lw_open (write_dest d p w) = lw_open w" "lw_next (write_dest d p w) = lw_next w" "lw_path (write_dest d p w) = lw_path w"
  "set (lw_written (write_dest d p w)) \<subseteq> insert (d, p) (set (lw_written w))"
  "(\<And>fd. d = LogFile fd \<Longrightarrow> fd \<in> lw_open w) \<Longrightarrow> lw_lost (write_dest d p w) = lw_lost w"
  by (cases d; auto simp: write_dest_def)+

lemma write_inv:
  assumes "sink_inv http f s w"
  shows "sink_inv http f s (Sink_Write p s w)"
  using assms
proof (rule sink_invE)
  fix d assume d: "sk_writer s = Some d" "sk_file s = (case d of LogFile fd \<Rightarrow> Some fd | _ \<Rightarrow> None)" "\<not> http \<Longrightarrow> d \<noteq> HttpOut"
    "case f of Some f \<Rightarrow> goes_to http f d (lw_path w) \<and> sk_lastLogFile s = f | None \<Rightarrow> d = ErrOut"
    "sk_httpMode s = http" "sk_applied s" "lw_open w = set_option (sk_file s)" "\<forall>fd \<in> lw_open w. fd < lw_next w" "lw_lost w = 0"
    "\<not> http \<Longrightarrow> HttpOut \<notin> fst ` set (lw_written w)"
  have w: "Sink_Write p s w = write_dest d p w" by (simp add: Sink_Write_def d(1))
  have "lw_lost (write_dest d p w) = 0" using write_dest_fields(5) [of d w p] d(2,7,9) by simp
  moreover have "\<not> http \<longrightarrow> HttpOut \<notin> fst ` set (lw_written (write_dest d p w))" using write_dest_fields(4) [of d p w] d(3,10) by fastforce
  ultimately show ?thesis unfolding w using d by (intro sink_invI [where d = d]) (simp_all add: write_dest_fields cong: option.case_cong)
qed

lemma close_file_fields:
  "lw_open (close_file f w) = lw_open w - set_option f" "lw_next (close_file f w) = lw_next w" "lw_path (close_file f w) = lw_path w"
  "lw_lost (close_file f w) = lw_lost w" "lw_written (close_file f w) = lw_written w"
  by (simp_all add: close_file_def split: option.split)

text \<open>Putting a destination in the place of another one.\<close>

lemma swap_inv:
  assumes "sk_httpMode s = http" "sk_applied s" "sk_lastLogFile s = f" "lw_lost w = 0" "\<not> http \<longrightarrow> HttpOut \<notin> fst ` set (lw_written w)"
    "fo = (case d of LogFile fd \<Rightarrow> Some fd | _ \<Rightarrow> None)" "lw_open w = set_option (sk_file s) \<union> set_option fo" "\<forall>fd \<in> lw_open w. fd < lw_next w"
    "goes_to http f d (lw_path w)" "\<not> http \<longrightarrow> d \<noteq> HttpOut" "set_option (sk_file s) \<inter> set_option fo = {}"
    "swap_writer closeErr d fo s w = (s', w')"
  shows "sink_inv http (Some f) s' w'"
proof -
  let ?s = "s\<lparr>sk_writer := Some d, sk_file := fo\<rparr>" and ?w = "close_file (sk_file s) w"
  have "lw_open ?w = set_option fo" using assms(7,11) by (cases "sk_file s") (auto simp: close_file_def)
  then have inv: "sink_inv http (Some f) ?s ?w" using assms by (intro sink_invI [where d = d]) (auto simp: close_file_fields)
  show ?thesis
    using assms(12) inv write_inv [OF inv] unfolding swap_writer_def Let_def by (auto split: option.splits)
qed

lemma apply_inv:
  assumes "sk_httpMode s = http" "lw_open w = set_option (sk_file s)" "\<forall>fd \<in> lw_open w. fd < lw_next w" "lw_lost w = 0"
    "\<not> http \<longrightarrow> HttpOut \<notin> fst ` set (lw_written w)" "sk_applied s \<Longrightarrow> sink_inv http (Some (sk_lastLogFile s)) s w"
    "applyDestination openErr closeErr cfg s w = (Inr s', w')"
  shows "sink_inv http (Some (c_LogFile cfg)) s' w'"
proof -
  let ?f = "c_LogFile cfg" and ?s = "s\<lparr>sk_lastLogFile := c_LogFile cfg, sk_applied := True\<rparr>"
  note swap = swap_inv [where s = ?s and f = ?f and http = http and closeErr = closeErr and s' = s' and w' = w']
  consider (same) "sk_applied s" "?f = sk_lastLogFile s" "s' = s" "w' = w"
    | (none) "?f = []" "swap_writer closeErr (if sk_httpMode s then HttpOut else Discard) None ?s w = (s', w')"
    | (err) "?f = StderrSentinel" "swap_writer closeErr ErrOut None ?s w = (s', w')"
    | (path) fd w1 where "?f \<noteq> []" "?f \<noteq> StderrSentinel" "open_file ?f w = (fd, w1)" "swap_writer closeErr (LogFile fd) (Some fd) ?s w1 = (s', w')"
    using assms(7) unfolding applyDestination_def Let_def by (auto simp: apfst_def map_prod_def split: if_splits option.splits prod.splits)
  then show ?thesis
  proof cases
    case same
    then show ?thesis using assms(6) by simp
  next
    case none
    then show ?thesis using assms(1-5) by (intro swap) (auto simp: goes_to_def)
  next
    case err
    then show ?thesis using assms(1-5) by (intro swap) (auto simp: goes_to_def StderrSentinel_def)
  next
    case path
    then have "fd = lw_next w" "lw_open w1 = insert fd (lw_open w)" "lw_next w1 = Suc fd" "lw_path w1 fd = ?f" "lw_lost w1 = lw_lost w" "lw_written w1 = lw_written w"
      by (auto simp: open_file_def)
    then show ?thesis using path assms(1-5) by (intro swap [where d = "LogFile fd" and fo = "Some fd" and w = w1]) (auto simp: goes_to_def)
  qed
qed

lemma verbosity_inv: "sink_inv http f s (set_verbosity cfg w) = sink_inv http f s w"
  by (simp add: sink_inv_def set_verbosity_def cong: option.case_cong)

lemma reload_failed: "Sink_Reload openErr closeErr cfg s w = (Inl e, w') \<Longrightarrow> w' = w"
  by (auto simp: Sink_Reload_def applyDestination_def Let_def apfst_def map_prod_def split: if_splits option.splits prod.splits sum.splits)

lemma close_inv: "sink_inv http f s w \<Longrightarrow> Sink_Close closeErr s w = (err, s', w') \<Longrightarrow> sink_inv http None s' w'"
  by (intro sink_invI [where d = ErrOut]) (auto simp: Sink_Close_def Let_def close_file_fields sink_inv_def)

text \<open>
  C13: The log goes where the configuration says and nowhere else. Whatever is logged and reloaded after the start, a process that serves
  over stdin and stdout never writes a log record to stdout, its protocol channel, even if a reloaded configuration sets a port; no record is
  written to a closed file; at most the log file in use is open; and until it is closed the sink writes to stdout, nowhere, stderr or a file
  opened by its path, as the configuration applied last says, a configuration whose file cannot be opened changing nothing.
\<close>

theorem log_destination_safe:
  assumes "sink_run cfg0 cur s w"
  shows "sink_inv (c_Port cfg0 \<noteq> []) (map_option c_LogFile cur) s w"
  using assms
proof induction
  case (start otel openErr w s w')
  obtain s1 w1 where a: "applyDestination openErr None cfg0 (new_sink cfg0) w = (Inr s1, w1)" "s = s1\<lparr>sk_logProvider := otel\<rparr>" "w' = set_verbosity cfg0 w1"
    using start(1) by (auto simp: NewSink_def split: prod.splits sum.splits)
  have "sink_inv (c_Port cfg0 \<noteq> []) (Some (c_LogFile cfg0)) s1 w1"
    using start(2-4) by (intro apply_inv [OF _ _ _ _ _ _ a(1)]) (simp_all add: new_sink_def)
  then show ?case unfolding a(2,3) verbosity_inv by (simp add: sink_inv_def)
next
  case (reload cur s w openErr closeErr cfg s' w')
  obtain w1 where a: "applyDestination openErr closeErr cfg s w = (Inr s', w1)" "w' = set_verbosity cfg w1"
    using reload(2) by (auto simp: Sink_Reload_def split: prod.splits sum.splits)
  obtain c where c: "cur = Some c" using reload(3) by blast
  have inv: "sink_inv (c_Port cfg0 \<noteq> []) (Some (c_LogFile c)) s w" using reload.IH c by simp
  then have "sk_lastLogFile s = c_LogFile c" by (auto elim: sink_invE)
  with inv have "sink_inv (c_Port cfg0 \<noteq> []) (Some (c_LogFile cfg)) s' w1"
    by (elim sink_invE) (rule apply_inv [OF _ _ _ _ _ _ a(1)], use inv in simp_all)
  then show ?case unfolding a(2) verbosity_inv by simp
next
  case (failed cur s w openErr closeErr cfg e w')
  then show ?case using reload_failed by blast
next
  case (log cur s w p)
  then show ?case by (intro write_inv)
next
  case (close cur s w closeErr err s' w')
  then show ?case using close_inv by fastforce
qed

definition quiet_world :: log_world where
  "quiet_world = \<lparr>lw_next = 0, lw_open = {}, lw_path = (\<lambda>_. []), lw_written = [], lw_lost = 0, lw_verbosity = 0\<rparr>"

text \<open>A process over stdio whose configuration gets a port and a log file.\<close>

definition port_config :: StaticConfig where
  "port_config = zeroConfig\<lparr>c_Port := ''8080'', c_LogFile := ''/l''\<rparr>"

theorem log_destination_safe_witness:
  "\<exists>s w. sink_run zeroConfig (Some port_config) s w \<and> lw_written w = [(LogFile 0, ''b'')] \<and> sink_inv False (Some ''/l'') s w"
proof -
  let ?s0 = "(new_sink zeroConfig)\<lparr>sk_applied := True, sk_writer := Some Discard\<rparr>"
  let ?s1 = "?s0\<lparr>sk_lastLogFile := ''/l'', sk_writer := Some (LogFile 0), sk_file := Some 0\<rparr>"
  let ?w1 = "quiet_world\<lparr>lw_next := 1, lw_open := {0}, lw_path := (\<lambda>_. [])(0 := ''/l'')\<rparr>"
  have "NewSink False None zeroConfig quiet_world = (Inr ?s0, quiet_world)"
    by (simp add: NewSink_def applyDestination_def new_sink_def swap_writer_def close_file_def zeroConfig_def set_verbosity_def quiet_world_def)
  then have "sink_run zeroConfig (Some zeroConfig) ?s0 quiet_world" by (rule start) (simp_all add: quiet_world_def)
  then have "sink_run zeroConfig (Some zeroConfig) ?s0 (Sink_Write ''a'' ?s0 quiet_world)" by (rule log)
  moreover have "Sink_Write ''a'' ?s0 quiet_world = quiet_world" by (simp add: Sink_Write_def write_dest_def)
  moreover have "Sink_Reload None None port_config ?s0 quiet_world = (Inr ?s1, ?w1)"
  proof -
    have cfg: "c_LogFile port_config = ''/l''" "set_verbosity port_config ?w1 = ?w1"
      by (simp_all add: port_config_def zeroConfig_def set_verbosity_def quiet_world_def)
    have opened: "open_file ''/l'' quiet_world = (0, ?w1)" by (simp add: open_file_def quiet_world_def)
    have "sk_file ?s0 = None" by (simp add: new_sink_def)
    then have "applyDestination None None port_config ?s0 quiet_world = (Inr ?s1, ?w1)"
      by (simp add: applyDestination_def Let_def cfg(1) opened swap_writer_def close_file_def StderrSentinel_def new_sink_def)
    then show ?thesis unfolding Sink_Reload_def using cfg(2) by simp
  qed
  ultimately have "sink_run zeroConfig (Some port_config) ?s1 ?w1" using reload by (metis option.distinct(1))
  then have run: "sink_run zeroConfig (Some port_config) ?s1 (Sink_Write ''b'' ?s1 ?w1)" by (rule log)
  moreover have "lw_written (Sink_Write ''b'' ?s1 ?w1) = [(LogFile 0, ''b'')]" by (simp add: Sink_Write_def write_dest_def quiet_world_def)
  moreover have "sink_inv False (Some ''/l'') ?s1 (Sink_Write ''b'' ?s1 ?w1)"
    using log_destination_safe [OF run] by (simp add: zeroConfig_def port_config_def)
  ultimately show ?thesis by blast
qed

text \<open>
  Further facts: the message for the server's log is not sanitised, the one for the client is; the header for the token of the cluster is dumped,
  as its canonical name is not the one in the list.
\<close>

lemma server_log_unsanitised: "(server_level level, message) \<in> set (fst (SendMCPLog refuse session level message))"
  by (simp add: SendMCPLog_def)

lemma client_log_sanitised: "(s, l, m) \<in> set (snd (SendMCPLog refuse session level message)) \<Longrightarrow> m = Sanitize message"
  by (auto simp: SendMCPLog_def split: option.splits)

lemma token_header_dumped: "WriteSubset [(''Kubernetes-Authorization'', token)] redactedHeaders = ''Kubernetes-Authorization: '' @ token @ [CHR 0x0D, CHR 0x0A]"
  by (simp add: WriteSubset_def redactedHeaders_def)

text \<open>The text logger gets no contexts and everything else.\<close>

lemma strip_no_context: "Ctx c \<in> set (stripContextValues kvs) \<Longrightarrow> \<exists>i < length kvs. even i \<and> kvs ! i = Ctx c"
proof (induction kvs rule: stripContextValues.induct)
  case (3 k c' kvs)
  then obtain i where "i < length kvs" "even i" "kvs ! i = Ctx c" by auto
  then show ?case by (intro exI [of _ "Suc (Suc i)"]) simp
next
  case (4 k v kvs)
  then consider "k = Ctx c" | "Ctx c \<in> set (stripContextValues kvs)" by auto
  then show ?case
  proof cases
    case 2
    then obtain i where "i < length kvs" "even i" "kvs ! i = Ctx c" using 4 by auto
    then show ?thesis by (intro exI [of _ "Suc (Suc i)"]) simp
  qed (intro exI [of _ 0], simp)
qed auto

lemma tee_forwards: "tee_Enabled level t \<or> tee_Info level msg kvs t = t"
  by (simp add: tee_Enabled_def tee_Info_def sink_Info_def)

end
