(* ===== verification/Cmd.thy ===== *)
theory Cmd
  imports Mcp_Reload Config_Merge Http_Server
begin

text \<open>
  The command: \<open>src/pkg/kubernetes-mcp-server/cmd/root.go\<close>. Start-up puts the configuration
  together from files and flags, validates it and creates the shared states; a SIGHUP reads the
  files again and updates the MCP server, the configuration state and the OAuth state in turn.

  A flag is \<open>Some\<close> of its value if it was given (\<open>Changed\<close>). Reading the files is
  \<open>config.Read\<close> of \<open>Config_Merge\<close>, the log sink and telemetry are left out.
\<close>

section \<open>Start-up\<close>

record flags =
  fl_LogLevel :: "int option"
  fl_LogFile :: "string option"
  fl_Port :: "string option"
  fl_BindAddress :: "string option"
  fl_Kubeconfig :: "string option"
  fl_Toolsets :: "string list option"
  fl_ListOutput :: "string option"
  fl_ReadOnly :: "bool option"
  fl_DisableDestructive :: "bool option"
  fl_Stateless :: "bool option"
  fl_RequireOAuth :: "bool option"
  fl_OAuthAudience :: "string option"
  fl_AuthorizationURL :: "string option"
  fl_SkipJWTVerification :: "bool option"
  fl_CertificateAuthority :: "string option"
  fl_ServerURL :: "string option"
  fl_DisableMultiCluster :: "bool option"
  fl_ClusterProvider :: "string option"
  fl_TLSCert :: "string option"
  fl_TLSKey :: "string option"
  fl_RequireTLS :: "bool option"

definition no_flags :: flags where
  "no_flags = \<lparr>fl_LogLevel = None, fl_LogFile = None, fl_Port = None, fl_BindAddress = None, fl_Kubeconfig = None,
     fl_Toolsets = None, fl_ListOutput = None, fl_ReadOnly = None, fl_DisableDestructive = None, fl_Stateless = None,
     fl_RequireOAuth = None, fl_OAuthAudience = None, fl_AuthorizationURL = None, fl_SkipJWTVerification = None,
     fl_CertificateAuthority = None, fl_ServerURL = None, fl_DisableMultiCluster = None, fl_ClusterProvider = None,
     fl_TLSCert = None, fl_TLSKey = None, fl_RequireTLS = None\<rparr>"

text \<open>One assignment of \<open>loadFlags\<close>.\<close>

fun changed :: "'v option \<Rightarrow> ('v \<Rightarrow> StaticConfig \<Rightarrow> StaticConfig) \<Rightarrow> StaticConfig \<Rightarrow> StaticConfig" where
  "changed None upd c = c"
| "changed (Some v) upd c = upd v c"

definition loadFlags :: "flags \<Rightarrow> StaticConfig \<Rightarrow> StaticConfig" where
  "loadFlags f c0 =
     (let c1 = changed (fl_LogLevel f) (\<lambda>v c. c\<lparr>c_LogLevel := v\<rparr>) c0;
          c2 = changed (fl_LogFile f) (\<lambda>v c. c\<lparr>c_LogFile := v\<rparr>) c1;
          c3 = changed (fl_Port f) (\<lambda>v c. c\<lparr>c_Port := v\<rparr>) c2;
          c4 = changed (fl_BindAddress f) (\<lambda>v c. c\<lparr>c_BindAddress := v\<rparr>) c3;
          c5 = changed (fl_Kubeconfig f) (\<lambda>v c. c\<lparr>c_KubeConfig := v\<rparr>) c4;
          c6 = changed (fl_ListOutput f) (\<lambda>v c. c\<lparr>c_ListOutput := v\<rparr>) c5;
          c7 = changed (fl_ReadOnly f) (\<lambda>v c. c\<lparr>c_ReadOnly := v\<rparr>) c6;
          c8 = changed (fl_DisableDestructive f) (\<lambda>v c. c\<lparr>c_DisableDestructive := v\<rparr>) c7;
          c9 = changed (fl_Stateless f) (\<lambda>v c. c\<lparr>c_Stateless := v\<rparr>) c8;
          c10 = changed (fl_Toolsets f) (\<lambda>v c. c\<lparr>c_Toolsets := v\<rparr>) c9;
          c11 = changed (fl_RequireOAuth f) (\<lambda>v c. c\<lparr>c_RequireOAuth := v\<rparr>) c10;
          c12 = changed (fl_OAuthAudience f) (\<lambda>v c. c\<lparr>c_OAuthAudience := v\<rparr>) c11;
          c13 = changed (fl_AuthorizationURL f) (\<lambda>v c. c\<lparr>c_AuthorizationURL := v\<rparr>) c12;
          c14 = changed (fl_SkipJWTVerification f) (\<lambda>v c. c\<lparr>c_SkipJWTVerification := v\<rparr>) c13;
          c15 = changed (fl_ServerURL f) (\<lambda>v c. c\<lparr>c_ServerURL := v\<rparr>) c14;
          c16 = changed (fl_CertificateAuthority f) (\<lambda>v c. c\<lparr>c_CertificateAuthority := v\<rparr>) c15;
          c17 = changed (fl_ClusterProvider f) (\<lambda>v c. c\<lparr>c_ClusterProviderStrategy := v\<rparr>) c16;
          c18 = changed (fl_DisableMultiCluster f)
                  (\<lambda>v c. if v then c\<lparr>c_ClusterProviderStrategy := ''disabled''\<rparr> else c) c17;
          c19 = changed (fl_TLSCert f) (\<lambda>v c. c\<lparr>c_TLSCert := v\<rparr>) c18;
          c20 = changed (fl_TLSKey f) (\<lambda>v c. c\<lparr>c_TLSKey := v\<rparr>) c19
      in changed (fl_RequireTLS f) (\<lambda>v c. c\<lparr>c_RequireTLS := v\<rparr>) c20)"

text \<open>
  \<open>read\<close> is \<open>config.Read\<close> on paths. The log sink is created in between; its failure ends the
  program.
\<close>

datatype 'e start_error = ReadFailed 'e | SinkFailed string | Invalid cfg_error | TLSWithoutPort | RequireTLSWithoutCerts

definition config_path :: "(string \<Rightarrow> string) \<Rightarrow> string \<Rightarrow> string" where
  "config_path getenv configPath =
     (let cp = getenv ''K8S_MCP_CONFIG_PATH'' in if configPath = [] \<and> cp \<noteq> [] then cp else configPath)"

definition Complete ::
  "(string \<Rightarrow> string) \<Rightarrow> (string \<Rightarrow> string \<Rightarrow> ('e, StaticConfig) result) \<Rightarrow> (StaticConfig \<Rightarrow> string option)
   \<Rightarrow> StaticConfig \<Rightarrow> flags \<Rightarrow> string \<Rightarrow> string \<Rightarrow> ('e start_error, StaticConfig) result" where
  "Complete getenv read newSink dflt f configPath0 configDir =
     (let configPath = config_path getenv configPath0 in
      bindE (if configPath \<noteq> [] \<or> configDir \<noteq> [] then mapErr ReadFailed (read configPath configDir) else Inr dflt) (\<lambda>cnf.
        let c = loadFlags f cnf in
        case newSink c of
          Some e \<Rightarrow> Inl (SinkFailed e)
        | None \<Rightarrow> Inr (if c_RequireOAuth c \<and> c_Port c = [] then c\<lparr>c_RequireOAuth := False\<rparr> else c)))"

definition options_Validate ::
  "'t val_env \<Rightarrow> string list \<Rightarrow> string list \<Rightarrow> StaticConfig \<Rightarrow> ('e start_error, StaticConfig) result" where
  "options_Validate env providers exchanges c0 =
     (case StaticConfig_Validate env (c0\<lparr>c_providerStrategies := providers, c_tokenExchangeStrategies := exchanges\<rparr>) of
        (Some e, _) \<Rightarrow> Inl (Invalid e)
      | (None, c) \<Rightarrow>
          (if c_TLSCert c \<noteq> [] \<and> c_Port c = [] then Inl TLSWithoutPort
           else if c_RequireTLS c \<and> c_Port c \<noteq> [] \<and> (c_TLSCert c = [] \<or> c_TLSKey c = []) then Inl RequireTLSWithoutCerts
           else Inr c))"

section \<open>Reload\<close>

record ('p, 'h, 'w, 'k) shared_state =
  sh_server :: "('w, 'k) Server"
  sh_cfgState :: StaticConfigState
  sh_oauthState :: "('p, 'h) Snapshot option"

definition empty_snapshot :: "('p, 'h) Snapshot" where
  "empty_snapshot = \<lparr>sn_OIDCProvider = None, sn_HTTPClient = None, sn_AuthorizationURL = [],
     sn_CertificateAuthority = [], sn_TLSMinVersion = [], sn_TLSCipherSuites = [], sn_OAuthScopes = [],
     sn_DisableDynamicClientRegistration = False\<rparr>"

text \<open>The states \<open>Run\<close> creates from the validated configuration.\<close>

definition start_state ::
  "('w, 'k) server_env \<Rightarrow> ('h, 'p, 'e, 'r, 'w) oidc_env \<Rightarrow> StaticConfig \<Rightarrow> 'w
   \<Rightarrow> (oidc_error + apply_outcome, ('p, 'h, 'w, 'k) shared_state) result \<times> 'w" where
  "start_state env oe cfg w =
     (case CreateOIDCProviderAndClient oe cfg w of
        (Inl e, w1) \<Rightarrow> (Inl (Inl e), w1)
      | (Inr (oidcProvider, httpClient), w1) \<Rightarrow>
          (case NewServer env cfg w1 of
             (Applied, s) \<Rightarrow>
               (Inr \<lparr>sh_server = s, sh_cfgState = NewStaticConfigState (Some cfg),
                     sh_oauthState = Some (SnapshotFromConfig (oe_Getenv oe) cfg oidcProvider httpClient)\<rparr>, w1)
           | (outcome, _) \<Rightarrow> (Inl (Inr outcome), w1)))"

text \<open>The part of the handler after the new configuration \<open>cfg\<close> was applied and published.\<close>

definition update_oauth ::
  "('h, 'p, 'e, 'r, 'w) oidc_env \<Rightarrow> StaticConfig \<Rightarrow> ('p, 'h) Snapshot option \<Rightarrow> 'w
   \<Rightarrow> oidc_error option \<times> ('p, 'h) Snapshot option \<times> 'w" where
  "update_oauth oe cfg oauthState w =
     (let currentSnapshot = (case oauthState of Some s \<Rightarrow> s | None \<Rightarrow> empty_snapshot);
          newSnapshot = SnapshotFromConfig (oe_Getenv oe) cfg (sn_OIDCProvider currentSnapshot) (sn_HTTPClient currentSnapshot)
      in if HasProviderConfigChanged (Some currentSnapshot) (Some newSnapshot) then
           (case CreateOIDCProviderAndClient oe cfg w of
              (Inl e, w1) \<Rightarrow> (Some e, oauthState, w1)
            | (Inr (newProvider, newClient), w1) \<Rightarrow>
                (None, Some (newSnapshot\<lparr>sn_OIDCProvider := newProvider, sn_HTTPClient := newClient\<rparr>), w1))
         else if HasWellKnownConfigChanged (Some currentSnapshot) (Some newSnapshot) then (None, Some newSnapshot, w)
         else (None, oauthState, w))"

text \<open>
  What a signal did: nothing, an applied configuration whose OIDC provider could not be created,
  or all of it. Reading fills the parameter \<open>newConfig\<close>; validation normalises it in place, so the
  published configuration is the one the server installed.
\<close>

datatype 'e sighup_outcome = ReadError 'e | NotApplied reload_outcome | ProviderNotCreated oidc_error | ReloadDone

definition sighup ::
  "('w, 'k) server_env \<Rightarrow> ('h, 'p, 'e, 'r, 'w) oidc_env \<Rightarrow> ('ce, StaticConfig) result
   \<Rightarrow> ('p, 'h, 'w, 'k) shared_state \<Rightarrow> 'w \<Rightarrow> 'ce sighup_outcome \<times> ('p, 'h, 'w, 'k) shared_state \<times> 'w" where
  "sighup env oe newConfig sh w =
     (case newConfig of
        Inl e \<Rightarrow> (ReadError e, sh, w)
      | Inr cfg \<Rightarrow>
          (case ReloadConfiguration env cfg w (sh_server sh) of
             (Reloaded, s) \<Rightarrow>
               (let published = sv_configuration s;
                    sh1 = sh\<lparr>sh_server := s, sh_cfgState := state_Store (sh_cfgState sh) (Some published)\<rparr>
                in case update_oauth oe published (sh_oauthState sh) w of
                     (Some e, _, w1) \<Rightarrow> (ProviderNotCreated e, sh1, w1)
                   | (None, oauthState, w1) \<Rightarrow> (ReloadDone, sh1\<lparr>sh_oauthState := oauthState\<rparr>, w1))
           | (outcome, s) \<Rightarrow> (NotApplied outcome, sh\<lparr>sh_server := s\<rparr>, w)))"

section \<open>What starts\<close>

text \<open>
  C17: which configurations a server starts with. Whatever files and flags give, a server that
  starts has a valid, normalised configuration; it requires OAuth only in HTTP mode, serves TLS
  only in HTTP mode, and in HTTP mode with TLS required it has a certificate and a key.
\<close>

theorem startup_configuration_safe:
  assumes "Complete getenv read newSink dflt f path dir = Inr c"
    and "options_Validate env providers exchanges c = Inr cfg"
  shows "normalize cfg = cfg \<and> selection_ok env cfg \<and> oauth_ok env cfg \<and> tls_ok env cfg \<and> auth_style_ok env cfg
    \<and> (c_RequireOAuth cfg \<longrightarrow> c_Port cfg \<noteq> []) \<and> (c_TLSCert cfg \<noteq> [] \<longrightarrow> c_Port cfg \<noteq> [])
    \<and> (c_RequireTLS cfg \<and> c_Port cfg \<noteq> [] \<longrightarrow> c_TLSCert cfg \<noteq> [] \<and> c_TLSKey cfg \<noteq> [])"
proof -
  let ?c = "c\<lparr>c_providerStrategies := providers, c_tokenExchangeStrategies := exchanges\<rparr>"
  have valid: "fst (StaticConfig_Validate env ?c) = None" "snd (StaticConfig_Validate env ?c) = cfg"
    and cli: "c_TLSCert cfg \<noteq> [] \<longrightarrow> c_Port cfg \<noteq> []"
      "c_RequireTLS cfg \<and> c_Port cfg \<noteq> [] \<longrightarrow> c_TLSCert cfg \<noteq> [] \<and> c_TLSKey cfg \<noteq> []"
    using assms(2) by (auto simp: options_Validate_def split: prod.splits option.splits if_splits)
  have cfg: "cfg = normalize ?c"
    using valid(2) validate_accepts [of env ?c] by simp
  have "c_RequireOAuth c \<longrightarrow> c_Port c \<noteq> []"
    using assms(1) by (auto simp: Complete_def Let_def bindE_Inr_iff split: option.splits if_splits)
  then have "c_RequireOAuth cfg \<longrightarrow> c_Port cfg \<noteq> []"
    by (simp add: cfg normalize_def)
  then show ?thesis
    using valid(1) validate_accepts [of env ?c] cli cfg by simp
qed

text \<open>A server whose file sets a port, started with \<open>--require-oauth\<close>.\<close>

definition file_cfg :: StaticConfig where
  "file_cfg = zeroConfig\<lparr>c_ListOutput := ''yaml'', c_Port := ''8080''\<rparr>"

definition oauth_flags :: flags where
  "oauth_flags = no_flags\<lparr>fl_RequireOAuth := Some True, fl_SkipJWTVerification := Some True\<rparr>"

definition started_cfg :: StaticConfig where
  "started_cfg = file_cfg\<lparr>c_RequireOAuth := True, c_SkipJWTVerification := True\<rparr>"

lemma TrimSpace_Nil: "TrimSpace [] = []"
  by (simp add: TrimSpace_def TrimSpaceLeft.simps [of "[]"] TrimSpaceRight.simps [of "[]"] space_runes_def HasSuffix_def)

lemma started_complete: "Complete (\<lambda>_. []) (\<lambda>_ _. Inr file_cfg) (\<lambda>_. None) zeroConfig oauth_flags ''/c.toml'' [] = Inr started_cfg"
  by (simp add: Complete_def config_path_def loadFlags_def oauth_flags_def no_flags_def started_cfg_def file_cfg_def Let_def)

lemma accepted_cfg:
  assumes "c \<in> {file_cfg, started_cfg}"
  shows "StaticConfig_Validate (se_Validation mini_env) c = (None, c)"
proof -
  have n: "normalize c = c"
    using assms by (auto simp: normalize_def started_cfg_def file_cfg_def zeroConfig_def TrimSpace_Nil)
  have "selection_ok (se_Validation mini_env) c" "oauth_ok (se_Validation mini_env) c"
    "auth_style_ok (se_Validation mini_env) c" "tls_ok (se_Validation mini_env) c"
    using assms
    by (auto simp: selection_ok_def oauth_ok_def auth_style_ok_def tls_ok_def started_cfg_def file_cfg_def zeroConfig_def
        mini_env_def GetTLSMinVersionConfig_def env_or_def GetTLSCipherSuitesConfig_def ParseTLSVersion_def
        ParseTLSCipherSuites_def TrimSpace_Nil)
  then show ?thesis using validate_accepts [of "se_Validation mini_env" c] by (simp add: n prod_eq_iff)
qed

lemma no_strategies: "c \<in> {file_cfg, started_cfg} \<Longrightarrow> c\<lparr>c_providerStrategies := [], c_tokenExchangeStrategies := []\<rparr> = c"
  by (auto simp: file_cfg_def started_cfg_def zeroConfig_def)

lemma started_valid: "options_Validate (se_Validation mini_env) [] [] started_cfg = (Inr started_cfg :: (unit start_error, StaticConfig) result)"
proof -
  have "started_cfg \<in> {file_cfg, started_cfg}" by blast
  note facts = no_strategies [OF this] accepted_cfg [OF this]
  have "c_TLSCert started_cfg = []" "\<not> c_RequireTLS started_cfg"
    by (simp_all add: started_cfg_def file_cfg_def zeroConfig_def)
  then show ?thesis unfolding options_Validate_def facts by simp
qed

lemma mini_strategies: "se_ProviderStrategies mini_env = []" "se_ExchangeStrategies mini_env = []"
  by (simp_all add: mini_env_def)

lemma file_strategies: "file_cfg\<lparr>c_providerStrategies := se_ProviderStrategies mini_env,
    c_tokenExchangeStrategies := se_ExchangeStrategies mini_env\<rparr> = file_cfg"
  unfolding mini_strategies by (rule no_strategies) blast

theorem startup_configuration_safe_witness:
  "oauth_ok (se_Validation mini_env) started_cfg \<and> c_RequireOAuth started_cfg \<and> c_Port started_cfg \<noteq> []"
proof -
  have "c_RequireOAuth started_cfg" by (simp add: started_cfg_def)
  then show ?thesis
    using startup_configuration_safe [OF started_complete started_valid] by blast
qed

section \<open>What a reload publishes\<close>

abbreviation validated_file :: "('w, 'k) server_env \<Rightarrow> StaticConfig \<Rightarrow> StaticConfig" where
  "validated_file env file \<equiv> normalize (file\<lparr>c_providerStrategies := se_ProviderStrategies env,
     c_tokenExchangeStrategies := se_ExchangeStrategies env\<rparr>)"

lemma reload_published:
  assumes "ReloadConfiguration env cfg w s = (out, s')"
  shows "out = Reloaded \<Longrightarrow> sv_configuration s' = validated_file env cfg" and "out \<noteq> Reloaded \<Longrightarrow> s' = s"
proof -
  let ?c = "cfg\<lparr>c_providerStrategies := se_ProviderStrategies env,
     c_tokenExchangeStrategies := se_ExchangeStrategies env\<rparr>"
  obtain e n where v: "StaticConfig_Validate (se_Validation env) ?c = (e, n)" by force
  have n: "n = normalize ?c" using validate_accepts [of "se_Validation env" ?c] v by simp
  have "(out = Reloaded \<longrightarrow> sv_configuration s' = n) \<and> (out \<noteq> Reloaded \<longrightarrow> s' = s)"
  proof (cases e)
    case (Some err)
    then show ?thesis using v assms by (auto simp: ReloadConfiguration_def)
  next
    case None
    show ?thesis
    proof (cases rule: applyToolsets_cases [of env "Some n" w s])
      case (unchanged a)
      then show ?thesis using v None assms by (cases a) (auto simp: ReloadConfiguration_def)
    next
      case (applied tools prompts resources templates)
      then show ?thesis using v None assms by (auto simp: ReloadConfiguration_def effective_def)
    qed
  qed
  then show "out = Reloaded \<Longrightarrow> sv_configuration s' = validated_file env cfg" "out \<noteq> Reloaded \<Longrightarrow> s' = s"
    using n by auto
qed

text \<open>A snapshot that reflects a configuration, whatever its provider and client.\<close>

definition reflects :: "(string \<Rightarrow> string) \<Rightarrow> StaticConfig \<Rightarrow> ('p, 'h) Snapshot option \<Rightarrow> bool" where
  "reflects getenv cfg so \<longleftrightarrow>
     (let s = (case so of Some s \<Rightarrow> s | None \<Rightarrow> empty_snapshot) in
      s = SnapshotFromConfig getenv cfg (sn_OIDCProvider s) (sn_HTTPClient s))"

lemma unchanged_snapshot:
  "\<not> HasWellKnownConfigChanged (Some s) (Some (SnapshotFromConfig getenv cfg (sn_OIDCProvider s) (sn_HTTPClient s)))
     \<Longrightarrow> s = SnapshotFromConfig getenv cfg (sn_OIDCProvider s) (sn_HTTPClient s)"
  by (auto simp: HasWellKnownConfigChanged_def HasProviderConfigChanged_def SnapshotFromConfig_def)

lemma update_oauth_reflects:
  assumes "update_oauth oe cfg oauthState w = (r, oauthState', w')"
  shows "r = None \<Longrightarrow> reflects (oe_Getenv oe) cfg oauthState'" and "r \<noteq> None \<Longrightarrow> oauthState' = oauthState"
proof -
  let ?s = "case oauthState of Some s \<Rightarrow> s | None \<Rightarrow> empty_snapshot"
  let ?new = "SnapshotFromConfig (oe_Getenv oe) cfg (sn_OIDCProvider ?s) (sn_HTTPClient ?s)"
  show "r \<noteq> None \<Longrightarrow> oauthState' = oauthState"
    using assms by (auto simp: update_oauth_def Let_def split: if_splits sum.splits prod.splits)
  assume ok: "r = None"
  consider (created) p h where "oauthState' = Some (?new\<lparr>sn_OIDCProvider := p, sn_HTTPClient := h\<rparr>)"
    | (updated) "oauthState' = Some ?new"
    | (same) "oauthState' = oauthState" "\<not> HasWellKnownConfigChanged (Some ?s) (Some ?new)"
    using assms ok unfolding update_oauth_def Let_def by (auto split: if_splits sum.splits prod.splits)
  then show "reflects (oe_Getenv oe) cfg oauthState'"
  proof cases
    case created then show ?thesis by (simp add: reflects_def SnapshotFromConfig_def)
  next
    case updated then show ?thesis by (simp add: reflects_def SnapshotFromConfig_def)
  next
    case same then show ?thesis using unchanged_snapshot [OF same(2)] by (simp add: reflects_def Let_def)
  qed
qed


definition no_issuer :: "(unit, unit, unit, unit, unit) oidc_env" where
  "no_issuer = \<lparr>oe_Getenv = (\<lambda>_. []), oe_CipherSuites = Map.empty, oe_ReadFile = (\<lambda>_. Inl []), oe_AppendCerts = (\<lambda>_. None),
     oe_Transport = undefined, oe_DefaultTransport = undefined, oe_Client = (\<lambda>_. ()), oe_NewProvider = (\<lambda>_ _ w. (Inl [], w))\<rparr>"

definition started_state :: "(unit, unit, unit, unit) shared_state" where
  "started_state = \<lparr>sh_server = new_server started_cfg, sh_cfgState = NewStaticConfigState (Some started_cfg),
     sh_oauthState = Some (SnapshotFromConfig (\<lambda>_. []) started_cfg None None)\<rparr>"

lemma file_reload: "\<exists>s. ReloadConfiguration mini_env file_cfg () (new_server started_cfg) = (Reloaded, s) \<and> sv_configuration s = file_cfg"
proof -
  have "Configuration_Toolsets mini_env file_cfg = []" "c_Prompts file_cfg = []"
    by (simp_all add: Configuration_Toolsets_def file_cfg_def zeroConfig_def)
  then have "\<exists>s. applyToolsets mini_env (Some file_cfg) () (new_server started_cfg) = (Applied, s) \<and> sv_configuration s = file_cfg"
    by (simp add: applyToolsets_def collectApplicableTools_def collectApplicablePrompts_def collectApplicableResources_def
        collectApplicableResourceTemplates_def MergePrompts_def ToServerPrompts_def commitItems_def Let_def)
  then show ?thesis
    unfolding ReloadConfiguration_def file_strategies accepted_cfg [OF insertI1] by auto
qed


end
