(* ===== verification/Spec2Isabelle.thy ===== *)
theory Spec2Isabelle
  imports Access_Control Config_Merge Mcp_Reload Middleware Http_Security Well_Known Provider_State Watchers Kcp Acm Core_Tools Health_Check Diagnostics Netedge Mustgather Gather_Plan Vm_Report Logging Cmd
begin

text \<open>
  A verification library for the Kubernetes MCP server under \<open>src/\<close>.

  \<^bold>\<open>The program.\<close> The server offers tools, prompts and resources over the Model Context Protocol to
  a client (an AI assistant) and carries them out on Kubernetes clusters. A request passes these parts:
  the HTTP front (\<open>pkg/http\<close>) authenticates it and limits its body; the MCP server (\<open>pkg/mcp\<close>) runs it
  through its receiving middlewares (rate limit, session, headers) and calls the handler of a tool, after
  a confirmation where rules ask for one (\<open>pkg/confirmation\<close>); the handler gets a Kubernetes client from
  a provider (\<open>pkg/kubernetes\<close>, \<open>pkg/kcp\<close>), which may exchange the user's token first
  (\<open>pkg/tokenexchange\<close>); each API request of that client passes the access-control round tripper, which
  denies kinds and runs the validators. The configuration (\<open>pkg/config\<close>) is read from files and flags
  (\<open>pkg/kubernetes-mcp-server/cmd\<close>) and reloaded on SIGHUP; watchers (\<open>pkg/kubernetes/watcher\<close>) trigger
  reloads when a kubeconfig or a cluster changes.

  \<^bold>\<open>The theories\<close>, with the sources they model. Definitions keep the names of the Go functions and
  fields (prefixed by the component where two would clash); a struct is a record, a mutated object is
  passed and returned, an error is the left summand of a result, and code outside the repository (files,
  clients, transports, clocks) is a parameter, usually a field of an environment record over a type
  \<open>'w\<close> of worlds that effects update.

  \<^item> \<open>Go_Prelude\<close>: results, and the parts of Go's \<open>strings\<close> the code uses, with their lemmas.
  \<^item> \<open>Registry\<close>: the registries of toolsets, providers, validators, exchangers and configuration
    parsers; the locale \<open>named_registry\<close> states their common contract.
  \<^item> \<open>Api_Types\<close>, \<open>Confirmation\<close>, \<open>Kube_Paths\<close>, \<open>Validators\<close>, \<open>Access_Control\<close>:
    \<open>pkg/api\<close>, \<open>pkg/confirmation\<close> and \<open>pkg/kubernetes/accesscontrol_round_tripper.go\<close> with its
    validators. The round tripper refines an abstract policy (\<open>round_trip_mediation\<close>): a request
    reaches the API server exactly if its kind resolves, is not denied and every validator accepts it.
  \<^item> \<open>Filepath\<close>, \<open>Config_Merge\<close>, \<open>Tls\<close>, \<open>Static_Config\<close>, \<open>Config_Validate\<close>:
    \<open>pkg/config\<close> and \<open>pkg/tlsutil\<close>: finding, merging and validating configuration.
  \<^item> \<open>Json\<close>, \<open>Mcp_Tools\<close>, \<open>Prompts\<close>, \<open>Mcp_Server\<close>, \<open>Mcp_Reload\<close>, \<open>Middleware\<close>:
    \<open>pkg/mcp\<close> and \<open>pkg/prompts\<close>: conversion and filtering of tools, the call of a tool, the
    exposed surface as a state with its reloads, the rate limiter.
  \<^item> \<open>Http_Server\<close>, \<open>Http_Security\<close>, \<open>Well_Known\<close>: \<open>pkg/http\<close> and \<open>pkg/oauth\<close>. The locale
    \<open>http_filter\<close> says what a middleware may do to a request; the chain of the front is its
    composition. The proxy of well-known metadata has a cache and never leaves the issuer.
  \<^item> \<open>Token_Exchange\<close>, \<open>Sts\<close>: \<open>pkg/tokenexchange\<close>, \<open>pkg/kubernetes/token_exchange.go\<close> and \<open>sts.go\<close>.
  \<^item> \<open>Providers\<close>, \<open>Identity\<close>, \<open>Provider_State\<close>: the managers and providers of
    \<open>pkg/kubernetes\<close> and the wrapper that exchanges tokens. The locale \<open>identity_provider\<close> is the promise
    of a provider about whose credentials a client has; \<open>manager_provider\<close> is how providers keep it, and
    a sublocale. \<open>Identity\<close> shows the isolation of identities over all reachable providers,
    \<open>Provider_State\<close> that the two caches are transparent and what failed resets leave.
  \<^item> \<open>Kcp\<close>: \<open>pkg/kcp\<close>, another provider of the same interface, with the discovery of workspaces.
  \<^item> \<open>Acm\<close>: \<open>pkg/kubernetes/provider_acm_hub.go\<close>, a third. Requests and watch events interleave; the
    targets refine the set of managed clusters.
  \<^item> \<open>Watchers\<close>: the three watchers. The locale \<open>watcher_life\<close> covers starting and closing under
    concurrency, \<open>polled_watcher\<close> polling and debouncing over time.
  \<^item> \<open>Actions\<close>, \<open>Params\<close>, \<open>Output\<close>, \<open>Core_Ops\<close>, \<open>Core_Tools\<close>: calls that may fail as
    actions on a world, the arguments of tools (\<open>pkg/api/params.go\<close>), output formats (\<open>pkg/output\<close>),
    the operations on a cluster (\<open>pkg/kubernetes/resources.go\<close>, \<open>pods.go\<close> and others) and the core
    toolset (\<open>pkg/toolsets/core\<close>) with all its tools and handlers. An operation is shown to keep
    whatever the client calls it may make keep; so a tool offered in read-only mode writes nothing.
  \<^item> \<open>Health_Check\<close>: the prompt of the core toolset that gathers the health of a cluster; it always answers and
    stays within its scope.
  \<^item> \<open>Node_Debug\<close>, \<open>Diagnostics\<close>: \<open>pkg/cluster-diagnostics\<close> and the toolsets \<open>cluster-diagnostics\<close>,
    \<open>cni-diagnostics\<close> and \<open>ovnkubernetes\<close>: commands on a node through a privileged pod that is created, awaited,
    used and deleted. \<open>pod_laws\<close> is what the calls on pods promise; the pods a call leaves are those it found. The
    upstream servers that build the commands are parameters, asked only within bounds.
  \<^item> \<open>Prometheus\<close>, \<open>Netedge\<close>: \<open>pkg/prometheus\<close> and the toolset \<open>netedge\<close> for ingress and DNS: probes in a pod and
    from the server, routes, endpoints, the router, queries to Prometheus. \<open>probe_laws\<close> is what the calls on pods promise.
  \<^item> \<open>Archive\<close>, \<open>Mustgather\<close>: \<open>pkg/ocp/mustgather\<close> and \<open>pkg/toolsets/mustgather\<close>: archives read from the disk, which is a
    parameter, indexed, searched and shown by tools and MCP resources; the archive in use is part of the world. The index
    is compared with the list of resources it was built from, the search of logs with filtering them. \<open>Gather_Plan\<close>: the
    prompt that plans a new collection.
  \<^item> \<open>Nested\<close>, \<open>Kubevirt\<close>, \<open>Vm_Tools\<close>, \<open>Redaction\<close>, \<open>Vm_Report\<close>: \<open>pkg/kubevirt\<close> and
    \<open>pkg/toolsets/kubevirt\<close>: access to nested fields; what a virtual machine is created from, its life cycle
    (\<open>vm_laws\<close> is the promise of the store of machines) and the guest agent; the handlers and the manifest they
    render; the removal of secrets from cloud-init data and logs; the diagnostic report and the toolset.
  \<^item> \<open>Sanitize\<close>, \<open>Logging\<close>: \<open>pkg/mcplog\<close>, \<open>pkg/logging\<close> and the protocol log of \<open>pkg/mcp/middleware.go\<close>. The regular
    expressions that hide secrets are executable; the locale \<open>field_name\<close> is what the patterns of fields share. The log
    destination is a state with its reloads, writes and closing.
  \<^item> \<open>Cmd\<close>: start-up and the SIGHUP handler, which tie configuration, MCP server, HTTP front and
    OAuth state together.

  \<^bold>\<open>What the lemmas show.\<close> Security: requests without a valid token do not reach the MCP endpoint when
  OAuth is required; denied kinds and unconfirmed calls are refused; a client derived for a user acts with
  that user's (exchanged) token only; tokens are sent only to the configured endpoint. Configuration: later
  files win, validation accepts exactly the well-formed configurations, reloads are transactional, and the
  exposed tools always obey the configuration in force, and a call of one sends only the requests its hints
  allow. Caches (exchange configuration, managers, OpenID
  configuration, rate limiters) agree with what computing afresh would give. Liveness: closing watchers,
  reloading after a change, discovery of a finite hierarchy. Some theorems state behaviour that is not what
  the code means to do: the empty target of prompts, failed resets, closing an idle kubeconfig watcher, the
  namespace scan, flags lost on reload, a managed cluster that comes back after its deletion, a debug pod whose label
  is refused, a restart that leaves a machine halted, documents added to a manifest by an argument, lists that
  redaction misses. Toolsets: debug pods are removed, requests for diagnostics are bounded, machines are switched and
  nothing else is, the virtual machine tools offered in read-only mode write nothing, and redacted text has no line left
  to redact and nothing of a hidden block. An archive is read only below its directory if the names asked for are plain
  segments, a resource of it is found by its address, and searching a log in bounded space loses no match it should show.
  A process that serves over stdio never logs to its protocol channel, and the secret fields of JSON are hidden in what is
  logged of the protocol.

  \<^bold>\<open>Bounds and fuel.\<close> Machine integers are kept at their width where they are computed with (durations in
  64 bits, ports in 32); other counters are unbounded. The discovery of workspaces has fuel for its depth: any fuel
  above the length of the longest path is enough, and without a bound on the hierarchy there is none, as
  the theorem says. All other functions are total.

  \<^bold>\<open>Abstractions.\<close> Go maps are association lists or functions; where the program ranges over a map the
  model takes the order of the list. Mutexes make the modelled steps atomic. Elsewhere log output, traces and metrics
  do not influence the modelled behaviour and are left out, as are message texts where no property
  depends on them.

  \<^bold>\<open>Not modelled.\<close> The prompts of the KubeVirt toolset
  (troubleshooting of virtual machines, Windows images, status of the operator), the clients of external services
  (Kiali, Netobserv, Tekton, OADP, Helm), telemetry and metrics: most of this is requests to
  services and formatting of what they answer.
\<close>

end
